(* ===== verification/Prelude.thy ===== *)
theory Prelude
  imports
    Main
    "HOL-Library.AList"
    "HOL-Library.Word"
    "HOL-Library.Sublist"
    "HOL-Library.Char_ord"
    "HOL-Library.List_Lexorder"
begin

section \<open>Prelude: shared types, collections and generic lemmas\<close>

text \<open>
  What every component of the development shares: the names of the basic types (bytes, Go's
  \<^verbatim>\<open>int64\<close> and \<^verbatim>\<open>uint64\<close>), the theorem collections the component proofs
  are run with, and lemmas on lists and association lists that belong to no component.
\<close>

subsection \<open>Collections\<close>

named_theorems go_simps \<open>equations that run a program of the runtime forwards\<close>
named_theorems path_simps \<open>equations on slash-separated paths and their components\<close>
named_theorems frame_simps \<open>what an operation leaves unchanged\<close>

subsection \<open>Basic types\<close>

type_synonym byte = "8 word"
type_synonym bytes = "byte list"
type_synonym uint64 = "64 word"

text \<open>
  Go's \<^verbatim>\<open>int64\<close> is a mathematical integer reduced into the two's complement range;
  \<open>i64\<close> is the reduction, written wherever the code adds or subtracts.
\<close>

definition i64 :: "int \<Rightarrow> int" where
  "i64 x = (x + 2 ^ 63) mod 2 ^ 64 - 2 ^ 63"

definition in_i64 :: "int \<Rightarrow> bool" where
  "in_i64 x \<longleftrightarrow> - (2 ^ 63) \<le> x \<and> x < 2 ^ 63"

lemma in_i64_i64 [simp]: "in_i64 (i64 x)"
  using pos_mod_bound [of "2 ^ 64" "x + 2 ^ 63"] pos_mod_sign [of "2 ^ 64" "x + 2 ^ 63"]
  by (simp add: i64_def in_i64_def)

lemma i64_id: "in_i64 x \<Longrightarrow> i64 x = x"
  by (simp add: i64_def in_i64_def)

lemma i64_small: "0 \<le> x \<Longrightarrow> x < 2 ^ 63 \<Longrightarrow> i64 x = x"
  by (simp add: i64_def)

lemma i64_le: "0 \<le> n \<Longrightarrow> i64 n \<le> n"
proof (cases "n < 2 ^ 63")
  case False
  then show ?thesis using in_i64_i64 [of n] by (simp add: in_i64_def)
qed (simp add: i64_small)

lemma i64_mod_eq: "i64 x mod 2 ^ 64 = x mod 2 ^ 64"
  by (simp add: i64_def mod_diff_left_eq)

lemma i64_eqI: "x mod 2 ^ 64 = y mod 2 ^ 64 \<Longrightarrow> i64 x = i64 y"
  unfolding i64_def by (metis mod_add_left_eq)

lemma i64_add_left [simp]: "i64 (i64 x + y) = i64 (x + y)"
  by (rule i64_eqI) (metis i64_mod_eq mod_add_left_eq)

lemma i64_add_right [simp]: "i64 (x + i64 y) = i64 (x + y)"
  by (metis add.commute i64_add_left)

subsection \<open>Lists\<close>

lemma take_drop_segment:
  "i \<le> j \<Longrightarrow> take i xs @ take (j - i) (drop i xs) = take j xs"
  by (metis le_add_diff_inverse take_add)

lemma filter_all_id: "(\<And>x. x \<in> set xs \<Longrightarrow> P x) \<Longrightarrow> filter P xs = xs"
  by (simp add: filter_id_conv)

lemma takeWhile_all_id: "(\<And>x. x \<in> set xs \<Longrightarrow> P x) \<Longrightarrow> takeWhile P xs = xs"
  by (simp add: takeWhile_eq_all_conv)

lemma map_of_filter_fst:
  "map_of (filter (\<lambda>kv. P (fst kv)) xs) k = (if P k then map_of xs k else None)"
  by (induction xs) auto

lemma map_of_None_iff: "map_of xs k = None \<longleftrightarrow> k \<notin> fst ` set xs"
  by (simp add: map_of_eq_None_iff)

lemma map_of_update_same [simp]: "map_of (AList.update k v xs) k = Some v"
  by (simp add: update_conv')

lemma map_of_update_other [simp]: "k' \<noteq> k \<Longrightarrow> map_of (AList.update k v xs) k' = map_of xs k'"
  by (simp add: update_conv')

lemma map_of_delete_same [simp]: "map_of (AList.delete k xs) k = None"
  by (simp add: delete_conv')

lemma map_of_delete_other [simp]: "k' \<noteq> k \<Longrightarrow> map_of (AList.delete k xs) k' = map_of xs k'"
  by (simp add: delete_conv')

lemma strict_prefix_take: "k < length xs \<Longrightarrow> strict_prefix (take k xs) xs"
  by (metis append_eq_conv_conj length_take less_irrefl min.absorb4 prefix_order.le_less
      take_is_prefix)

text \<open>The first position of a list where a predicate holds.\<close>

fun first_where :: "('a \<Rightarrow> bool) \<Rightarrow> 'a list \<Rightarrow> nat option" where
  "first_where P [] = None"
| "first_where P (x # xs) = (if P x then Some 0 else map_option Suc (first_where P xs))"

lemma first_where_Some: "first_where P xs = Some k \<Longrightarrow> k < length xs \<and> P (xs ! k)"
  by (induction xs arbitrary: k) (auto split: if_splits)

lemma first_where_None: "first_where P xs = None \<longleftrightarrow> (\<forall>x \<in> set xs. \<not> P x)"
  by (induction xs) auto

lemma sum_list_move:
  fixes f :: "'a \<Rightarrow> nat"
  shows "k < length xs \<Longrightarrow> sum_list (map f (xs[k := x])) + f (xs ! k) = sum_list (map f xs) + f x"
proof (induction xs arbitrary: k)
  case (Cons a xs)
  then show ?case by (cases k) auto
qed simp

end
