(* ===== verification/Go_Runtime.thy ===== *)
theory Go_Runtime
  imports Prelude
begin

section \<open>The runtime: errors, outcomes and effects\<close>

text \<open>
  Go functions return an error value beside their result. A model of such a function is an
  action on the state of its environment that ends in an outcome: a result, an error, or a panic
  (a nil dereference, a slice bound out of range). The combinators of this theory are the ways
  the code deals with an error: pass it on, wrap it with \<^verbatim>\<open>fmt.Errorf\<close>, inspect it and
  take another branch, and clean up in a \<^verbatim>\<open>defer\<close>.
\<close>

subsection \<open>Errors\<close>

text \<open>
  \<open>ErrText\<close> is \<^verbatim>\<open>errors.New\<close> or \<^verbatim>\<open>fmt.Errorf\<close> without an operand,
  \<open>Wrapped\<close> is \<^verbatim>\<open>fmt.Errorf\<close> with \<^verbatim>\<open>%w\<close>, \<open>Joined\<close> is
  \<^verbatim>\<open>errors.Join\<close>. Of a formatted message the fixed text is kept; the paths and numbers
  it interpolates are left out, except for the messages the program itself shows or compares
  (the reasons of a verification, the not-found errors).
\<close>

datatype error =
    ErrText string
  | Wrapped string error
  | Joined "error list"
  | ContextCanceled
  | ErrNotExist
  | ErrExist
  | ErrNotDir
  | ErrIsDir
  | ErrNotEmpty
  | ErrIO
  | SnapshotNotFoundError string
  | RepositoryNotFoundError string
  | RestoreFileErr string

text \<open>\<^verbatim>\<open>errors.Is\<close> for the sentinels of the \<^verbatim>\<open>os\<close> package.\<close>

fun errors_Is :: "error \<Rightarrow> error \<Rightarrow> bool" where
  "errors_Is (Wrapped s e) t \<longleftrightarrow> Wrapped s e = t \<or> errors_Is e t"
| "errors_Is (Joined es) t \<longleftrightarrow> Joined es = t \<or> (\<exists>e \<in> set es. errors_Is e t)"
| "errors_Is e t \<longleftrightarrow> e = t"

text \<open>The text of an error, what its method \<^verbatim>\<open>Error\<close> returns.\<close>

fun join_with :: "string \<Rightarrow> string list \<Rightarrow> string" where
  "join_with sep [] = []"
| "join_with sep [x] = x"
| "join_with sep (x # y # xs) = x @ sep @ join_with sep (y # xs)"

fun error_string :: "error \<Rightarrow> string" where
  "error_string (ErrText s) = s"
| "error_string (Wrapped s e) = s @ '': '' @ error_string e"
| "error_string (Joined es) = join_with [CHR 0x0A] (map error_string es)"
| "error_string ContextCanceled = ''context canceled''"
| "error_string ErrNotExist = ''file does not exist''"
| "error_string ErrExist = ''file already exists''"
| "error_string ErrNotDir = ''not a directory''"
| "error_string ErrIsDir = ''is a directory''"
| "error_string ErrNotEmpty = ''directory not empty''"
| "error_string ErrIO = ''input/output error''"
| "error_string (SnapshotNotFoundError m) = ''not found: '' @ m"
| "error_string (RepositoryNotFoundError m) = ''not found: '' @ m"
| "error_string (RestoreFileErr m) = ''failed to restore file: '' @ m"

text \<open>
  \<^verbatim>\<open>errors.As\<close> for the value type \<^verbatim>\<open>snapshot.NotFoundError\<close>: whether such an
  error is in the chain.
\<close>

fun errors_As_SnapshotNotFound :: "error \<Rightarrow> bool" where
  "errors_As_SnapshotNotFound (SnapshotNotFoundError m) \<longleftrightarrow> True"
| "errors_As_SnapshotNotFound (Wrapped s e) \<longleftrightarrow> errors_As_SnapshotNotFound e"
| "errors_As_SnapshotNotFound (Joined es) \<longleftrightarrow> (\<exists>e \<in> set es. errors_As_SnapshotNotFound e)"
| "errors_As_SnapshotNotFound e \<longleftrightarrow> False"

text \<open>\<^verbatim>\<open>errors.Join\<close> of two operands, each possibly nil: nil when both are.\<close>

fun errors_Join :: "error option \<Rightarrow> error option \<Rightarrow> error option" where
  "errors_Join None None = None"
| "errors_Join (Some e) None = Some (Joined [e])"
| "errors_Join None (Some e) = Some (Joined [e])"
| "errors_Join (Some e) (Some e') = Some (Joined [e, e'])"

lemma errors_Join_None_iff [simp]: "errors_Join a b = None \<longleftrightarrow> a = None \<and> b = None"
  by (cases a; cases b) auto

subsection \<open>Outcomes and actions\<close>

datatype 'a outcome = Ok 'a | Err error | Panic string

type_synonym ('w, 'a) io = "'w \<Rightarrow> 'a outcome \<times> 'w"

definition return :: "'a \<Rightarrow> ('w, 'a) io" where
  "return x w = (Ok x, w)"

definition fail :: "error \<Rightarrow> ('w, 'a) io" where
  "fail e w = (Err e, w)"

definition panic :: "string \<Rightarrow> ('w, 'a) io" where
  "panic s w = (Panic s, w)"

text \<open>
  \<open>tryCatch m h f\<close> runs \<open>m\<close> and goes on with \<open>f\<close> on its result or with
  \<open>h\<close> on its error: an \<^verbatim>\<open>if err != nil\<close> whose branch inspects the error. A panic
  goes through.
\<close>

definition tryCatch :: "('w, 'a) io \<Rightarrow> (error \<Rightarrow> ('w, 'b) io) \<Rightarrow> ('a \<Rightarrow> ('w, 'b) io) \<Rightarrow> ('w, 'b) io"
  where
  "tryCatch m h f w =
     (case m w of
        (Ok x, w') \<Rightarrow> f x w'
      | (Err e, w') \<Rightarrow> h e w'
      | (Panic s, w') \<Rightarrow> (Panic s, w'))"

text \<open>\<open>andThen\<close>: \<^verbatim>\<open>if err != nil { return err }\<close>.\<close>

definition andThen :: "('w, 'a) io \<Rightarrow> ('a \<Rightarrow> ('w, 'b) io) \<Rightarrow> ('w, 'b) io" where
  "andThen m f = tryCatch m fail f"

text \<open>\<open>orWrap\<close>: the error of \<open>m\<close> wrapped by \<^verbatim>\<open>fmt.Errorf("msg: %w", err)\<close>.\<close>

definition orWrap :: "string \<Rightarrow> ('w, 'a) io \<Rightarrow> ('w, 'a) io" where
  "orWrap msg m = tryCatch m (\<lambda>e. fail (Wrapped msg e)) return"

text \<open>
  \<open>deferring m c\<close>: the deferred \<open>c\<close> runs after \<open>m\<close> whatever its outcome, is told
  whether \<open>m\<close> returned nil, and cannot change the outcome (its own error is dropped).
\<close>

definition is_Ok :: "'a outcome \<Rightarrow> bool" where
  "is_Ok r \<longleftrightarrow> (case r of Ok _ \<Rightarrow> True | _ \<Rightarrow> False)"

definition deferring :: "('w, 'a) io \<Rightarrow> (bool \<Rightarrow> ('w, unit) io) \<Rightarrow> ('w, 'a) io" where
  "deferring m c w = (case m w of (r, w') \<Rightarrow> (r, snd (c (is_Ok r) w')))"

text \<open>A call whose result and error are both dropped: \<^verbatim>\<open>_ = f()\<close>.\<close>

definition ignoring :: "('w, 'a) io \<Rightarrow> ('w, unit) io" where
  "ignoring m w = (Ok (), snd (m w))"

text \<open>A result computed without effect.\<close>

definition lift_outcome :: "'a outcome \<Rightarrow> ('w, 'a) io" where
  "lift_outcome r w = (r, w)"

text \<open>A loop over a slice that stops at the first error.\<close>

fun for_each :: "('a \<Rightarrow> ('w, 'b) io) \<Rightarrow> 'a list \<Rightarrow> ('w, 'b list) io" where
  "for_each f [] = return []"
| "for_each f (x # xs) = andThen (f x) (\<lambda>y. andThen (for_each f xs) (\<lambda>ys. return (y # ys)))"

subsection \<open>Running an action\<close>

lemma return_run [go_simps]: "return x w = (Ok x, w)"
  by (simp add: return_def)

lemma fail_run [go_simps]: "fail e w = (Err e, w)"
  by (simp add: fail_def)

lemma panic_run [go_simps]: "panic s w = (Panic s, w)"
  by (simp add: panic_def)

lemma lift_outcome_run [go_simps]: "lift_outcome r w = (r, w)"
  by (simp add: lift_outcome_def)

lemma is_Ok_simps [simp]: "is_Ok (Ok x)" "\<not> is_Ok (Err e)" "\<not> is_Ok (Panic s)"
  by (simp_all add: is_Ok_def)

lemma is_Ok_E: "is_Ok r \<Longrightarrow> (\<And>x. r = Ok x \<Longrightarrow> thesis) \<Longrightarrow> thesis"
  by (cases r) auto

lemma tryCatch_run [go_simps]:
  "m w = (Ok x, w') \<Longrightarrow> tryCatch m h f w = f x w'"
  "m w = (Err e, w') \<Longrightarrow> tryCatch m h f w = h e w'"
  "m w = (Panic s, w') \<Longrightarrow> tryCatch m h f w = (Panic s, w')"
  by (simp_all add: tryCatch_def)

lemma andThen_run [go_simps]:
  "m w = (Ok x, w') \<Longrightarrow> andThen m f w = f x w'"
  "m w = (Err e, w') \<Longrightarrow> andThen m f w = (Err e, w')"
  "m w = (Panic s, w') \<Longrightarrow> andThen m f w = (Panic s, w')"
  by (simp_all add: andThen_def tryCatch_def fail_run)

lemma orWrap_run [go_simps]:
  "m w = (Ok x, w') \<Longrightarrow> orWrap msg m w = (Ok x, w')"
  "m w = (Err e, w') \<Longrightarrow> orWrap msg m w = (Err (Wrapped msg e), w')"
  "m w = (Panic s, w') \<Longrightarrow> orWrap msg m w = (Panic s, w')"
  by (simp_all add: orWrap_def tryCatch_def fail_run return_run)

lemma andThen_return [simp]: "andThen (return x) f = f x"
  by (rule ext) (simp add: andThen_def tryCatch_def return_run)

lemma andThen_fail [simp]: "andThen (fail e) f = fail e"
  by (rule ext) (simp add: andThen_def tryCatch_def fail_run)

lemma orWrap_return [simp]: "orWrap msg (return x) = return x"
  by (rule ext) (simp add: orWrap_def tryCatch_def return_run)

lemma ignoring_run [go_simps]: "ignoring m w = (Ok (), snd (m w))"
  by (simp add: ignoring_def)

lemma deferring_run [go_simps]:
  "m w = (r, w') \<Longrightarrow> deferring m c w = (r, snd (c (is_Ok r) w'))"
  by (simp add: deferring_def)

text \<open>Inversion: how an action can have returned a result.\<close>

lemma andThen_Ok_iff:
  "andThen m f w = (Ok y, w'') \<longleftrightarrow> (\<exists>x w'. m w = (Ok x, w') \<and> f x w' = (Ok y, w''))"
  by (cases "m w") (auto simp: andThen_def tryCatch_def fail_run split: outcome.splits)

lemma orWrap_Ok_iff [simp]: "orWrap msg m w = (Ok x, w') \<longleftrightarrow> m w = (Ok x, w')"
  by (cases "m w") (auto simp: orWrap_def tryCatch_def fail_run return_run split: outcome.splits)

lemma tryCatch_Ok_iff:
  "tryCatch m h f w = (Ok y, w'') \<longleftrightarrow>
     (\<exists>x w'. m w = (Ok x, w') \<and> f x w' = (Ok y, w'')) \<or> (\<exists>e w'. m w = (Err e, w') \<and> h e w' = (Ok y, w''))"
  by (cases "m w") (auto simp: tryCatch_def split: outcome.splits)

lemma deferring_iff:
  "deferring m c w = (r, w'') \<longleftrightarrow> (\<exists>w'. m w = (r, w') \<and> w'' = snd (c (is_Ok r) w'))"
  by (cases "m w") (auto simp: deferring_def)

lemma ignoring_iff: "ignoring m w = (r, w') \<longleftrightarrow> r = Ok () \<and> w' = snd (m w)"
  by (auto simp: ignoring_def)

lemma return_Ok_iff: "return x w = (Ok y, w') \<longleftrightarrow> y = x \<and> w' = w"
  and fail_Ok_iff: "fail e w = (Ok y, w') \<longleftrightarrow> False"
  and panic_Ok_iff: "panic s w = (Ok y, w') \<longleftrightarrow> False"
  and lift_outcome_Ok_iff: "lift_outcome r w = (Ok y, w') \<longleftrightarrow> r = Ok y \<and> w' = w"
  by (auto simp: return_run fail_run panic_run lift_outcome_run)

lemmas ok_iffs = andThen_Ok_iff tryCatch_Ok_iff deferring_iff ignoring_iff return_Ok_iff fail_Ok_iff
  panic_Ok_iff lift_outcome_Ok_iff

text \<open>How an action can have returned an error.\<close>

lemma tryCatch_Err_iff:
  "tryCatch m h f w = (Err e, w'') \<longleftrightarrow>
     (\<exists>x w'. m w = (Ok x, w') \<and> f x w' = (Err e, w'')) \<or> (\<exists>e' w'. m w = (Err e', w') \<and> h e' w' = (Err e, w''))"
  by (cases "m w") (auto simp: tryCatch_def split: outcome.splits)

lemma andThen_Err_iff:
  "andThen m f w = (Err e, w'') \<longleftrightarrow>
     m w = (Err e, w'') \<or> (\<exists>x w'. m w = (Ok x, w') \<and> f x w' = (Err e, w''))"
  by (auto simp: andThen_def tryCatch_Err_iff fail_run)

lemma orWrap_Err_iff: "orWrap msg m w = (Err e, w') \<longleftrightarrow> (\<exists>e'. e = Wrapped msg e' \<and> m w = (Err e', w'))"
  by (auto simp: orWrap_def tryCatch_Err_iff fail_run return_run)

lemma return_Err_iff: "return x w = (Err e, w') \<longleftrightarrow> False"
  and fail_Err_iff: "fail e' w = (Err e, w') \<longleftrightarrow> e' = e \<and> w' = w"
  and panic_Err_iff: "panic s w = (Err e, w') \<longleftrightarrow> False"
  and lift_outcome_Err_iff: "lift_outcome r w = (Err e, w') \<longleftrightarrow> r = Err e \<and> w' = w"
  and ignoring_Err_iff: "ignoring m' w = (Err e, w') \<longleftrightarrow> False"
  by (auto simp: return_run fail_run panic_run lift_outcome_run ignoring_def)

lemmas err_iffs = tryCatch_Err_iff andThen_Err_iff orWrap_Err_iff return_Err_iff fail_Err_iff
  panic_Err_iff lift_outcome_Err_iff ignoring_Err_iff deferring_iff

lemma pass_pair: "(case m of (r, w') \<Rightarrow> (Ok r, w')) = (Ok x, w'') \<longleftrightarrow> m = (x, w'')"
  by (cases m) auto

lemma snd_pass_pair: "snd (case m of (r, w') \<Rightarrow> (Ok r, w')) = snd m"
  by (cases m) auto

lemma andThen_return_right [simp]: "andThen m return = m"
proof
  fix w
  show "andThen m return w = m w"
    by (cases "m w") (auto simp: andThen_def tryCatch_def return_run fail_run split: outcome.splits)
qed

lemma snd_return [simp]: "snd (return x w) = w"
  by (simp add: return_run)

lemma snd_ignoring [simp]: "snd (ignoring m w) = snd (m w)"
  by (simp add: ignoring_def)

lemma andThen_OkE:
  assumes "andThen m f w = (Ok y, w'')"
  obtains x w' where "m w = (Ok x, w')" and "f x w' = (Ok y, w'')"
  using assms by (auto simp: andThen_Ok_iff)

lemma snd_orWrap [simp]: "snd (orWrap msg m w) = snd (m w)"
  by (cases "m w") (auto simp: orWrap_def tryCatch_def fail_run return_run split: outcome.splits)

lemma is_Ok_orWrap [simp]: "is_Ok (fst (orWrap msg m w)) = is_Ok (fst (m w))"
  by (cases "m w") (auto simp: orWrap_def tryCatch_def fail_run return_run split: outcome.splits)

subsection \<open>What an action keeps\<close>

text \<open>
  \<open>keeps I m\<close>: whatever the outcome of \<open>m\<close>, it leads from a state related by \<open>I\<close> to
  a state related by \<open>I\<close>. With \<open>I\<close> a predicate on states this is the preservation of an
  invariant; with \<open>I w = (g w = c)\<close> it is a frame property. The rules follow the combinators, so
  that the claim for an operation is reduced to its system calls.
\<close>

definition keeps :: "('w \<Rightarrow> bool) \<Rightarrow> ('w, 'a) io \<Rightarrow> bool" where
  "keeps I m \<longleftrightarrow> (\<forall>w. I w \<longrightarrow> I (snd (m w)))"

named_theorems keeps_rules \<open>rules that reduce the preservation of an invariant to the calls\<close>

lemma keepsI: "(\<And>w. I w \<Longrightarrow> I (snd (m w))) \<Longrightarrow> keeps I m"
  by (simp add: keeps_def)

lemma keepsD: "keeps I m \<Longrightarrow> I w \<Longrightarrow> m w = (r, w') \<Longrightarrow> I w'"
  by (metis keeps_def snd_conv)

lemma keeps_return [keeps_rules]: "keeps I (return x)"
  by (simp add: keeps_def return_run)

lemma keeps_fail [keeps_rules]: "keeps I (fail e)"
  by (simp add: keeps_def fail_run)

lemma keeps_panic [keeps_rules]: "keeps I (panic s)"
  by (simp add: keeps_def panic_run)

lemma keeps_lift_outcome [keeps_rules]: "keeps I (lift_outcome r)"
  by (simp add: keeps_def lift_outcome_run)

lemma keeps_tryCatch [keeps_rules]:
  assumes "keeps I m" and "\<And>e. keeps I (h e)" and "\<And>x. keeps I (f x)"
  shows "keeps I (tryCatch m h f)"
proof (rule keepsI)
  fix w assume "I w"
  obtain r w' where m: "m w = (r, w')" by force
  from assms(1) \<open>I w\<close> m have "I w'" by (rule keepsD)
  with m assms(2,3) show "I (snd (tryCatch m h f w))"
    by (cases r) (auto simp: tryCatch_def keeps_def)
qed

lemma keeps_andThen [keeps_rules]:
  "keeps I m \<Longrightarrow> (\<And>x. keeps I (f x)) \<Longrightarrow> keeps I (andThen m f)"
  unfolding andThen_def by (intro keeps_tryCatch keeps_fail)

lemma keeps_orWrap [keeps_rules]: "keeps I m \<Longrightarrow> keeps I (orWrap msg m)"
  by (simp add: keeps_def)

lemma keeps_ignoring [keeps_rules]: "keeps I m \<Longrightarrow> keeps I (ignoring m)"
  by (simp add: keeps_def ignoring_def)

lemma keeps_deferring [keeps_rules]:
  assumes "keeps I m" and "\<And>b. keeps I (c b)"
  shows "keeps I (deferring m c)"
proof (rule keepsI)
  fix w assume "I w"
  obtain r w' where m: "m w = (r, w')" by force
  from assms(1) \<open>I w\<close> m have "I w'" by (rule keepsD)
  with assms(2) m show "I (snd (deferring m c w))"
    by (auto simp: deferring_def keeps_def)
qed

lemma keeps_if [keeps_rules]: "(b \<Longrightarrow> keeps I m) \<Longrightarrow> (\<not> b \<Longrightarrow> keeps I n) \<Longrightarrow> keeps I (if b then m else n)"
  by simp

lemma keeps_let [keeps_rules]: "(\<And>x. x = t \<Longrightarrow> keeps I (f x)) \<Longrightarrow> keeps I (Let t f)"
  by simp

lemma keeps_case_option [keeps_rules]:
  "(x = None \<Longrightarrow> keeps I m) \<Longrightarrow> (\<And>y. x = Some y \<Longrightarrow> keeps I (f y)) \<Longrightarrow>
   keeps I (case x of None \<Rightarrow> m | Some y \<Rightarrow> f y)"
  by (cases x) auto

lemma keeps_case_prod [keeps_rules]:
  "(\<And>a b. p = (a, b) \<Longrightarrow> keeps I (f a b)) \<Longrightarrow> keeps I (case p of (a, b) \<Rightarrow> f a b)"
  by (cases p) auto

lemma keeps_for_each [keeps_rules]:
  "(\<And>x. x \<in> set xs \<Longrightarrow> keeps I (f x)) \<Longrightarrow> keeps I (for_each f xs)"
proof (induction xs)
  case Nil
  show ?case by (simp add: keeps_return)
next
  case (Cons x xs)
  then show ?case by (auto intro!: keeps_andThen keeps_return)
qed

text \<open>A loop that came through: every element had its run.\<close>

lemma for_each_Ok:
  "for_each f xs w = (Ok ys, w') \<Longrightarrow> list_all2 (\<lambda>x y. \<exists>w1 w2. f x w1 = (Ok y, w2)) xs ys"
proof (induction xs arbitrary: ys w)
  case (Cons x xs)
  then show ?case by (fastforce simp: ok_iffs)
qed (simp add: return_run)

lemma for_each_Err: "for_each f xs w = (Err e, w') \<Longrightarrow> \<exists>x \<in> set xs. \<exists>w1 w2. f x w1 = (Err e, w2)"
proof (induction xs arbitrary: w)
  case (Cons x xs)
  then show ?case by (fastforce simp: err_iffs)
qed (simp add: return_run)

end
