(* ===== verification/Go_Strings.thy ===== *)
theory Go_Strings
  imports Go_Runtime
begin

section \<open>Strings, numbers as text, and slash-separated paths\<close>

text \<open>
  The functions of Go's \<^verbatim>\<open>strings\<close>, \<^verbatim>\<open>strconv\<close>, \<^verbatim>\<open>path\<close> and
  \<^verbatim>\<open>path/filepath\<close> (on Unix) that the program calls. A string is its list of bytes.
  Paths are taken apart into their components: \<open>comps p\<close> is the list of components that
  \<^verbatim>\<open>Clean\<close> leaves of a rooted path, and the lemmas say how \<^verbatim>\<open>Join\<close> acts on it.
\<close>

subsection \<open>strings\<close>

fun split_on :: "char \<Rightarrow> string \<Rightarrow> string list" where
  "split_on c [] = [[]]"
| "split_on c (x # xs) =
     (if x = c then [] # split_on c xs
      else (case split_on c xs of [] \<Rightarrow> [[x]] | y # ys \<Rightarrow> (x # y) # ys))"

definition trim_prefix :: "string \<Rightarrow> string \<Rightarrow> string" where
  "trim_prefix s p = (if prefix p s then drop (length p) s else s)"

definition trim_char :: "char \<Rightarrow> string \<Rightarrow> string" where
  "trim_char c s = rev (dropWhile (\<lambda>x. x = c) (rev (dropWhile (\<lambda>x. x = c) s)))"

text \<open>
  \<^verbatim>\<open>strings.ReplaceAll\<close>: leftmost occurrences, not overlapping; with an empty \<open>old\<close> the
  new string goes before every byte and at the end.
\<close>

function replace_nonempty :: "string \<Rightarrow> string \<Rightarrow> string \<Rightarrow> string" where
  "replace_nonempty old new s =
     (if old = [] then s
      else if prefix old s then new @ replace_nonempty old new (drop (length old) s)
      else (case s of [] \<Rightarrow> [] | c # cs \<Rightarrow> c # replace_nonempty old new cs))"
  by pat_completeness auto
termination
proof (relation "measure (\<lambda>(old, new, s). length s)", goal_cases)
  case (2 old new s)
  then show ?case by (cases old; cases s) auto
qed auto

declare replace_nonempty.simps [simp del]

definition ReplaceAll :: "string \<Rightarrow> string \<Rightarrow> string \<Rightarrow> string" where
  "ReplaceAll s old new =
     (if old = [] then concat (map (\<lambda>c. new @ [c]) s) @ new else replace_nonempty old new s)"

lemma split_on_nonempty [simp]: "split_on c xs \<noteq> []"
  by (induction xs) (auto split: list.splits)

lemma split_on_notin: "c \<notin> set xs \<Longrightarrow> split_on c xs = [xs]"
  by (induction xs) auto

lemma split_on_append:
  "split_on c (xs @ c # ys) = split_on c xs @ split_on c ys"
  by (induction xs) (auto split: list.splits)

lemma split_on_no_sep: "x \<in> set (split_on c s) \<Longrightarrow> c \<notin> set x"
proof (induction s arbitrary: x)
  case (Cons a s)
  then show ?case by (cases "split_on c s") (auto split: if_splits)
qed simp

lemma split_on_join:
  "xs \<noteq> [] \<Longrightarrow> (\<And>x. x \<in> set xs \<Longrightarrow> c \<notin> set x) \<Longrightarrow> split_on c (join_with [c] xs) = xs"
proof (induction xs rule: induct_list012)
  case (3 x y zs)
  then have "split_on c (join_with [c] (y # zs)) = y # zs" by simp
  with 3 show ?case by (simp add: split_on_append split_on_notin)
qed (auto simp: split_on_notin)

lemma split_on_prefix_sep:
  assumes "c \<notin> set x"
  shows "split_on c (x @ c # s) = x # split_on c s"
  using assms by (simp add: split_on_append split_on_notin)

lemma replace_nonempty_id:
  assumes "\<not> sublist old s"
  shows "replace_nonempty old new s = s"
  using assms
proof (induction s)
  case Nil
  then show ?case by (subst replace_nonempty.simps) auto
next
  case (Cons c cs)
  from Cons.prems have "\<not> prefix old (c # cs)" and "\<not> sublist old cs"
    by (auto simp: sublist_Cons_right)
  with Cons show ?case by (subst replace_nonempty.simps) auto
qed

lemma replace_nonempty_prefix:
  assumes "old \<noteq> []" and "\<not> sublist old s"
  shows "replace_nonempty old new (old @ s) = new @ s"
  using assms by (subst replace_nonempty.simps) (auto simp: replace_nonempty_id)

subsection \<open>strconv\<close>

definition digits :: string where
  "digits = ''0123456789''"

definition digit_char :: "nat \<Rightarrow> char" where
  "digit_char n = digits ! n"

fun show_nat :: "nat \<Rightarrow> string" where
  "show_nat n = (if n < 10 then [digit_char n] else show_nat (n div 10) @ [digit_char (n mod 10)])"

declare show_nat.simps [simp del]

definition FormatUint :: "uint64 \<Rightarrow> string" where
  "FormatUint g = show_nat (unat g)"

lemma length_digits: "length digits = 10" and distinct_digits: "distinct digits"
  by (simp_all add: digits_def)

lemma digit_char_inj: "m < 10 \<Longrightarrow> n < 10 \<Longrightarrow> digit_char m = digit_char n \<Longrightarrow> m = n"
  by (simp add: digit_char_def nth_eq_iff_index_eq length_digits distinct_digits)

lemma digit_char_range: "n < 10 \<Longrightarrow> digit_char n \<in> set digits"
  by (simp add: digit_char_def length_digits)

lemma show_nat_digits: "set (show_nat n) \<subseteq> set digits"
proof (induction n rule: show_nat.induct)
  case (1 n)
  then show ?case
    by (cases "n < 10") (simp_all add: show_nat.simps [of n] digit_char_range)
qed

lemma show_nat_nonempty [simp]: "show_nat n \<noteq> []"
  by (subst show_nat.simps) simp

lemma show_nat_inj: "show_nat m = show_nat n \<Longrightarrow> m = n"
proof (induction m arbitrary: n rule: show_nat.induct)
  case (1 m)
  have len: "length (show_nat k) = 1 \<longleftrightarrow> k < 10" for k
    by (subst show_nat.simps) simp
  show ?case
  proof (cases "m < 10")
    case True
    with "1.prems" len [of m] len [of n] have "n < 10" by simp
    with True "1.prems" show ?thesis
      by (subst (asm) (1 2) show_nat.simps) (simp add: digit_char_inj)
  next
    case False
    with "1.prems" len [of m] len [of n] have n: "\<not> n < 10" by simp
    from "1.prems" False n have "show_nat (m div 10) = show_nat (n div 10)"
      and "digit_char (m mod 10) = digit_char (n mod 10)"
      by (subst (asm) (1 2) show_nat.simps; simp)+
    then have "m div 10 = n div 10" and "m mod 10 = n mod 10"
      using "1.IH" [OF False] digit_char_inj by auto
    then show ?thesis by (metis div_mult_mod_eq)
  qed
qed

lemma FormatUint_inj: "FormatUint g = FormatUint h \<longleftrightarrow> g = h"
  unfolding FormatUint_def by (metis show_nat_inj word_unat_eq_iff)

end
