(* ===== verification/Go_Path.thy ===== *)
theory Go_Path
  imports Go_Strings
begin

section \<open>Paths: Clean, Join and Dir\<close>

text \<open>
  \<^verbatim>\<open>path.Clean\<close>, \<^verbatim>\<open>path.Join\<close> and \<^verbatim>\<open>filepath.Dir\<close> of the standard
  library (on Unix the two packages agree). \<open>norm_comps\<close> is the loop of \<^verbatim>\<open>Clean\<close>
  over the components: empty and dot components go, a dot-dot component takes the one before it
  away, and at the root it goes too.
\<close>

definition is_rooted :: "string \<Rightarrow> bool" where
  "is_rooted p \<longleftrightarrow> (case p of [] \<Rightarrow> False | c # _ \<Rightarrow> c = CHR ''/'')"

fun norm_comps :: "bool \<Rightarrow> string list \<Rightarrow> string list \<Rightarrow> string list" where
  "norm_comps r acc [] = rev acc"
| "norm_comps r acc (c # cs) =
     (if c = [] \<or> c = ''.'' then norm_comps r acc cs
      else if c = ''..'' then
        (case acc of
           [] \<Rightarrow> (if r then norm_comps r [] cs else norm_comps r [''..''] cs)
         | a # as \<Rightarrow> (if a = ''..'' then norm_comps r (''..'' # acc) cs else norm_comps r as cs))
      else norm_comps r (c # acc) cs)"

definition Clean :: "string \<Rightarrow> string" where
  "Clean p =
     (let body = join_with ''/'' (norm_comps (is_rooted p) [] (split_on (CHR ''/'') p))
      in if is_rooted p then CHR ''/'' # body else if body = [] then ''.'' else body)"

definition Join :: "string list \<Rightarrow> string" where
  "Join elem =
     (let ne = filter (\<lambda>e. e \<noteq> []) elem
      in if ne = [] then [] else Clean (join_with ''/'' ne))"

definition Dir_of :: "string \<Rightarrow> string" where
  "Dir_of p = Clean (rev (dropWhile (\<lambda>c. c \<noteq> CHR ''/'') (rev p)))"

text \<open>The components of a rooted path.\<close>

definition comps :: "string \<Rightarrow> string list" where
  "comps p = norm_comps True [] (split_on (CHR ''/'') p)"

text \<open>A component that stays as it is: a plain name.\<close>

definition simple_comp :: "string \<Rightarrow> bool" where
  "simple_comp c \<longleftrightarrow> c \<noteq> [] \<and> c \<noteq> ''.'' \<and> c \<noteq> ''..'' \<and> CHR ''/'' \<notin> set c"

lemma norm_comps_simple:
  "(\<And>c. c \<in> set cs \<Longrightarrow> simple_comp c) \<Longrightarrow> norm_comps r acc cs = rev acc @ cs"
  by (induction cs arbitrary: acc) (auto simp: simple_comp_def)

lemma norm_comps_append:
  "norm_comps True acc (cs @ ds) = norm_comps True (rev (norm_comps True acc cs)) ds"
  by (induction cs arbitrary: acc) (auto split: list.splits)

lemma norm_comps_all_simple:
  assumes "\<And>a. a \<in> set acc \<Longrightarrow> simple_comp a"
    and "\<And>c. c \<in> set cs \<Longrightarrow> CHR ''/'' \<notin> set c"
  shows "\<forall>c \<in> set (norm_comps True acc cs). simple_comp c"
  using assms
proof (induction cs arbitrary: acc)
  case Nil
  then show ?case by simp
next
  case (Cons c cs)
  have tail: "\<And>x. x \<in> set cs \<Longrightarrow> CHR ''/'' \<notin> set x" using Cons.prems(2) by simp
  consider "c = [] \<or> c = ''.''" | "c = ''..''" | "simple_comp c"
    using Cons.prems(2) by (auto simp: simple_comp_def)
  then show ?case
  proof cases
    case 1
    from Cons.IH [OF Cons.prems(1) tail] 1 show ?thesis by auto
  next
    case 2
    show ?thesis
    proof (cases acc)
      case Nil
      with 2 Cons.IH [of "[]"] tail show ?thesis by simp
    next
      case (Cons a as)
      with Cons.prems(1) have "simple_comp a" and as: "\<And>x. x \<in> set as \<Longrightarrow> simple_comp x" by auto
      then have "a \<noteq> ''..''" by (simp add: simple_comp_def)
      with 2 Cons Cons.IH [of as] as tail show ?thesis by simp
    qed
  next
    case 3
    then have "norm_comps True acc (c # cs) = norm_comps True (c # acc) cs"
      by (simp add: simple_comp_def)
    moreover have "\<And>a. a \<in> set (c # acc) \<Longrightarrow> simple_comp a"
      using 3 Cons.prems(1) by auto
    ultimately show ?thesis using Cons.IH [of "c # acc"] tail by presburger
  qed
qed

lemma comps_all_simple: "\<forall>c \<in> set (comps p). simple_comp c"
  unfolding comps_def by (rule norm_comps_all_simple) (simp, erule split_on_no_sep)

lemma comps_simple: "c \<in> set (comps p) \<Longrightarrow> simple_comp c"
  using comps_all_simple by blast

lemma comps_Nil [simp, path_simps]: "comps [] = []" and comps_root [simp, path_simps]: "comps ''/'' = []"
  by (simp_all add: comps_def)

lemma comps_append_slash [path_simps]:
  "comps (p @ CHR ''/'' # q) = norm_comps True (rev (comps p)) (split_on (CHR ''/'') q)"
  by (simp add: comps_def split_on_append norm_comps_append)

lemma comps_slash [simp, path_simps]: "comps (CHR ''/'' # q) = comps q"
  by (simp add: comps_def)

lemma comps_append_simple [path_simps]:
  "simple_comp c \<Longrightarrow> comps (p @ CHR ''/'' # c) = comps p @ [c]"
  by (simp add: comps_append_slash split_on_notin simple_comp_def)

lemma comps_join_simple:
  assumes "\<And>c. c \<in> set cs \<Longrightarrow> simple_comp c"
  shows "comps (join_with ''/'' cs) = cs"
proof (cases "cs = []")
  case False
  have "split_on (CHR ''/'') (join_with ''/'' cs) = cs"
    using assms by (intro split_on_join False) (auto simp: simple_comp_def)
  with assms show ?thesis by (simp add: comps_def norm_comps_simple)
qed simp

lemma comps_Clean [path_simps]: "is_rooted p \<Longrightarrow> comps (Clean p) = comps p"
proof -
  assume r: "is_rooted p"
  have "comps (Clean p) = comps (join_with ''/'' (comps p))"
    using r by (simp add: Clean_def Let_def comps_def)
  also have "\<dots> = comps p" by (rule comps_join_simple) (rule comps_simple)
  finally show ?thesis .
qed

lemma is_rooted_Clean [simp, path_simps]: "is_rooted p \<Longrightarrow> is_rooted (Clean p)"
  by (simp add: Clean_def Let_def is_rooted_def)

lemma is_rooted_append [simp]: "is_rooted p \<Longrightarrow> is_rooted (p @ q)"
  by (auto simp: is_rooted_def split: list.splits)

lemma is_rooted_nonempty: "is_rooted p \<Longrightarrow> p \<noteq> []"
  by (auto simp: is_rooted_def)

lemma is_rooted_join_with: "is_rooted p \<Longrightarrow> is_rooted (join_with sep (p # cs))"
  by (cases cs) auto

lemma comps_join_with:
  "(\<And>c. c \<in> set cs \<Longrightarrow> simple_comp c) \<Longrightarrow> comps (join_with ''/'' (p # cs)) = comps p @ cs"
proof (induction cs arbitrary: p)
  case (Cons c cs)
  have "comps (join_with ''/'' (p # c # cs)) = comps (join_with ''/'' ((p @ CHR ''/'' # c) # cs))"
    by (cases cs) simp_all
  also have "\<dots> = comps (p @ CHR ''/'' # c) @ cs"
    using Cons.IH [of "p @ CHR ''/'' # c"] Cons.prems by simp
  finally show ?case using Cons.prems by (simp add: comps_append_simple)
qed simp

text \<open>
  What the program relies on: joining plain names to a rooted path appends them to its components.
\<close>

lemma comps_Join [path_simps]:
  assumes "is_rooted p" and "\<And>c. c \<in> set cs \<Longrightarrow> simple_comp c"
  shows "comps (Join (p # cs)) = comps p @ cs"
proof -
  have ne: "filter (\<lambda>e. e \<noteq> []) (p # cs) = p # cs"
    using assms is_rooted_nonempty by (intro filter_all_id) (auto simp: simple_comp_def)
  have "comps (Join (p # cs)) = comps (join_with ''/'' (p # cs))"
    unfolding Join_def ne using assms(1) by (simp add: comps_Clean is_rooted_join_with)
  with assms(2) show ?thesis by (simp add: comps_join_with)
qed

lemma is_rooted_Join [simp, path_simps]:
  assumes "is_rooted p"
  shows "is_rooted (Join (p # cs))"
  using assms is_rooted_nonempty [OF assms]
  by (simp add: Join_def is_rooted_join_with)

lemma Clean_rooted_eq: "is_rooted p \<Longrightarrow> Clean p = CHR ''/'' # join_with ''/'' (comps p)"
  by (simp add: Clean_def Let_def comps_def)

lemma Join_rooted_eq:
  assumes "is_rooted p" and "\<And>c. c \<in> set cs \<Longrightarrow> simple_comp c"
  shows "Join (p # cs) = CHR ''/'' # join_with ''/'' (comps p @ cs)"
proof -
  have ne: "filter (\<lambda>e. e \<noteq> []) (p # cs) = p # cs"
    using assms is_rooted_nonempty by (intro filter_all_id) (auto simp: simple_comp_def)
  then have "Join (p # cs) = Clean (join_with ''/'' (p # cs))"
    by (simp add: Join_def)
  with assms show ?thesis
    by (simp add: Clean_rooted_eq is_rooted_join_with comps_join_with)
qed

text \<open>The components of \<^verbatim>\<open>filepath.Dir\<close>: all but the last.\<close>

lemma comps_Dir_append [path_simps]:
  assumes "is_rooted p" and "simple_comp c"
  shows "comps (Dir_of (p @ CHR ''/'' # c)) = comps p"
proof -
  have "dropWhile (\<lambda>x. x \<noteq> CHR ''/'') (rev (p @ CHR ''/'' # c)) = CHR ''/'' # rev p"
    using assms(2) by (simp add: simple_comp_def dropWhile_append)
  then have "Dir_of (p @ CHR ''/'' # c) = Clean (p @ ''/'')"
    by (simp add: Dir_of_def)
  moreover have "comps (p @ ''/'') = comps p"
    by (simp add: comps_append_slash [of p "[]", simplified])
  ultimately show ?thesis using assms(1) by (simp add: comps_Clean)
qed

lemma digits_simple: "s \<noteq> [] \<Longrightarrow> set s \<subseteq> set digits \<Longrightarrow> simple_comp s"
  by (auto simp: simple_comp_def digits_def)

lemma simple_FormatUint [simp, path_simps]: "simple_comp (FormatUint g)"
  unfolding FormatUint_def by (intro digits_simple show_nat_digits) simp

text \<open>Relative paths of plain names, and joining one to a rooted path.\<close>

lemma join_with_inner:
  "fs \<noteq> [] \<Longrightarrow> join_with sep (p # join_with sep fs # cs) = join_with sep (p # fs @ cs)"
proof (induction fs arbitrary: p rule: induct_list012)
  case (3 x y zs)
  have "join_with sep (x # join_with sep (y # zs) # cs) = join_with sep (x # (y # zs) @ cs)"
    using 3 by simp
  then show ?case by (cases cs) simp_all
qed simp_all

lemma not_rooted_simple: "simple_comp c \<Longrightarrow> \<not> is_rooted (join_with sep (c # cs))"
proof -
  assume c: "simple_comp c"
  then obtain x xs where "c = x # xs" by (cases c) (auto simp: simple_comp_def)
  with c show ?thesis by (cases cs) (auto simp: simple_comp_def is_rooted_def)
qed

lemma Join_simple:
  assumes "cs \<noteq> []" and "\<And>c. c \<in> set cs \<Longrightarrow> simple_comp c"
  shows "Join cs = join_with ''/'' cs"
proof -
  have ne: "filter (\<lambda>e. e \<noteq> []) cs = cs"
    using assms by (intro filter_all_id) (auto simp: simple_comp_def)
  obtain c cs' where cs: "cs = c # cs'" using assms(1) by (cases cs) auto
  have "split_on (CHR ''/'') (join_with ''/'' cs) = cs"
    using assms by (intro split_on_join) (auto simp: simple_comp_def)
  then have "norm_comps False [] (split_on (CHR ''/'') (join_with ''/'' cs)) = cs"
    using assms(2) by (simp add: norm_comps_simple)
  moreover have "\<not> is_rooted (join_with ''/'' cs)"
    unfolding cs by (rule not_rooted_simple) (simp add: assms(2) cs)
  moreover have "join_with ''/'' cs \<noteq> []"
    using assms(2) [of c] unfolding cs by (cases cs') (auto simp: simple_comp_def)
  ultimately show ?thesis
    using assms(1) unfolding Join_def ne by (simp add: Clean_def Let_def)
qed

lemma comps_Join_inner [path_simps]:
  assumes "is_rooted p" and "fs \<noteq> []" and "\<And>c. c \<in> set (fs @ cs) \<Longrightarrow> simple_comp c"
  shows "comps (Join (p # join_with ''/'' fs # cs)) = comps p @ fs @ cs"
proof -
  have inner: "join_with ''/'' fs \<noteq> []"
    using assms(2,3) by (cases fs rule: remdups_adj.cases) (auto simp: simple_comp_def)
  have "filter (\<lambda>e. e \<noteq> []) (p # join_with ''/'' fs # cs) = p # join_with ''/'' fs # cs"
    using assms inner is_rooted_nonempty by (intro filter_all_id) (auto simp: simple_comp_def)
  moreover have "filter (\<lambda>e. e \<noteq> []) (p # fs @ cs) = p # fs @ cs"
    using assms is_rooted_nonempty by (intro filter_all_id) (auto simp: simple_comp_def)
  ultimately have "Join (p # join_with ''/'' fs # cs) = Join (p # fs @ cs)"
    unfolding Join_def using assms(2) join_with_inner [of fs "''/''" p cs] by simp
  then show ?thesis using assms comps_Join [of p "fs @ cs"] by simp
qed

end
