(* ===== verification/Go_OS.thy ===== *)
theory Go_OS
  imports Go_Path
begin

section \<open>The operating system: files, directories, clock and faults\<close>

text \<open>
  The part of Go's \<^verbatim>\<open>os\<close> and \<^verbatim>\<open>path/filepath\<close> packages the program uses,
  as actions on a world. The world holds the file system, a clock that every call and every check of
  a context moves on by one, and two oracles read at the clock: \<open>faults\<close> says which calls fail
  (and after how many bytes a transfer breaks off), \<open>entropy\<close> is the random source. A context is
  the predicate that says at which times it is done. Theorems quantify over the oracles and the
  contexts, so they hold for every pattern of input/output errors and every moment of cancellation.

  The world is an extensible record: a backend on a remote server adds its state to it.
\<close>

datatype node = Dir | File bytes | Special

type_synonym fspath = "string list"
type_synonym ctx = "nat \<Rightarrow> bool"

record os_world =
  nodes :: "(fspath \<times> node) list"
  cwd :: string
  clock :: nat
  faults :: "nat \<Rightarrow> nat option"
  entropy :: "nat \<Rightarrow> nat"

subsection \<open>The file tree\<close>

definition lookup :: "('z) os_world_scheme \<Rightarrow> fspath \<Rightarrow> node option" where
  "lookup w q = (if q = [] then Some Dir else map_of (nodes w) q)"

definition tick :: "'z os_world_scheme \<Rightarrow> 'z os_world_scheme" where
  "tick w = w\<lparr>clock := Suc (clock w)\<rparr>"

definition set_node :: "fspath \<Rightarrow> node \<Rightarrow> 'z os_world_scheme \<Rightarrow> 'z os_world_scheme" where
  "set_node q n w = w\<lparr>nodes := AList.update q n (nodes w)\<rparr>"

definition del_node :: "fspath \<Rightarrow> 'z os_world_scheme \<Rightarrow> 'z os_world_scheme" where
  "del_node q w = w\<lparr>nodes := AList.delete q (nodes w)\<rparr>"

definition del_tree :: "fspath \<Rightarrow> 'z os_world_scheme \<Rightarrow> 'z os_world_scheme" where
  "del_tree q w = w\<lparr>nodes := filter (\<lambda>kv. \<not> prefix q (fst kv)) (nodes w)\<rparr>"

text \<open>The part of a tree that is gone when its removal breaks off: the first \<open>k\<close> entries.\<close>

definition del_some :: "nat \<Rightarrow> fspath \<Rightarrow> 'z os_world_scheme \<Rightarrow> 'z os_world_scheme" where
  "del_some k q w =
     w\<lparr>nodes := filter (\<lambda>kv. \<not> (prefix q (fst kv) \<and> fst kv \<in> set (take k (map fst (nodes w))))) (nodes w)\<rparr>"

definition has_child :: "'z os_world_scheme \<Rightarrow> fspath \<Rightarrow> bool" where
  "has_child w q \<longleftrightarrow> list_ex (\<lambda>kv. fst kv \<noteq> [] \<and> butlast (fst kv) = q) (nodes w)"

text \<open>The path of the world a path string names: relative ones start at the working directory.\<close>

definition resolve :: "'z os_world_scheme \<Rightarrow> string \<Rightarrow> fspath" where
  "resolve w p = (if is_rooted p then comps p else comps (cwd w @ CHR ''/'' # p))"

text \<open>
  The error of a missing path: not-a-directory when a file stands on the way, not-exist otherwise.
\<close>

definition missing :: "'z os_world_scheme \<Rightarrow> fspath \<Rightarrow> error" where
  "missing w q =
     (if list_ex (\<lambda>k. lookup w (take k q) \<notin> {None, Some Dir}) [0..<length q] then ErrNotDir
      else ErrNotExist)"

lemma lookup_root [simp]: "lookup w [] = Some Dir"
  by (simp add: lookup_def)

lemma lookup_set_node:
  "q \<noteq> [] \<Longrightarrow> lookup (set_node q n w) q' = (if q' = q then Some n else lookup w q')"
  by (simp add: lookup_def set_node_def)

lemma lookup_set_node_same [simp]: "q \<noteq> [] \<Longrightarrow> lookup (set_node q n w) q = Some n"
  by (simp add: lookup_set_node)

lemma lookup_set_node_other [simp, frame_simps]: "q' \<noteq> q \<Longrightarrow> lookup (set_node q n w) q' = lookup w q'"
  by (simp add: lookup_def set_node_def)

lemma lookup_del_node:
  "lookup (del_node q w) q' = (if q' = q \<and> q \<noteq> [] then None else lookup w q')"
  by (auto simp: lookup_def del_node_def)

lemma lookup_del_tree:
  "lookup (del_tree q w) q' = (if prefix q q' \<and> q' \<noteq> [] then None else lookup w q')"
  using map_of_filter_fst [of "\<lambda>p. \<not> prefix q p" "nodes w" q']
  by (auto simp: lookup_def del_tree_def)

lemma lookup_del_some_other [frame_simps]:
  "\<not> prefix q q' \<Longrightarrow> lookup (del_some k q w) q' = lookup w q'"
  using map_of_filter_fst
    [of "\<lambda>p. \<not> (prefix q p \<and> p \<in> set (take k (map fst (nodes w))))" "nodes w" q']
  by (auto simp: lookup_def del_some_def)

lemma lookup_tick [simp]: "lookup (tick w) q = lookup w q"
  by (simp add: lookup_def tick_def)

lemma tick_simps [simp]:
  "clock (tick w) = Suc (clock w)" "nodes (tick w) = nodes w" "cwd (tick w) = cwd w"
  "faults (tick w) = faults w" "entropy (tick w) = entropy w" "os_world.more (tick w) = os_world.more w"
  by (simp_all add: tick_def)

lemma set_node_simps [simp]:
  "clock (set_node q n w) = clock w" "cwd (set_node q n w) = cwd w"
  "faults (set_node q n w) = faults w" "entropy (set_node q n w) = entropy w"
  "os_world.more (set_node q n w) = os_world.more w"
  by (simp_all add: set_node_def)

lemma del_node_simps [simp]:
  "clock (del_node q w) = clock w" "cwd (del_node q w) = cwd w"
  "faults (del_node q w) = faults w" "entropy (del_node q w) = entropy w"
  "os_world.more (del_node q w) = os_world.more w"
  by (simp_all add: del_node_def)

lemma del_tree_simps [simp]:
  "clock (del_tree q w) = clock w" "cwd (del_tree q w) = cwd w"
  "faults (del_tree q w) = faults w" "entropy (del_tree q w) = entropy w"
  "os_world.more (del_tree q w) = os_world.more w"
  by (simp_all add: del_tree_def)

lemma del_some_simps [simp]:
  "clock (del_some k q w) = clock w" "cwd (del_some k q w) = cwd w"
  "faults (del_some k q w) = faults w" "entropy (del_some k q w) = entropy w"
  "os_world.more (del_some k q w) = os_world.more w"
  by (simp_all add: del_some_def)

lemma resolve_cong: "cwd w = cwd w' \<Longrightarrow> resolve w p = resolve w' p"
  by (simp add: resolve_def)

lemma resolve_tick [simp]: "resolve (tick w) p = resolve w p"
  by (simp add: resolve_def)

lemma resolve_set_node [simp]: "resolve (set_node q n w) p = resolve w p"
  by (simp add: resolve_def)

lemma resolve_rooted: "is_rooted p \<Longrightarrow> resolve w p = comps p"
  by (simp add: resolve_def)

lemma has_child_iff:
  "has_child w q \<longleftrightarrow> (\<exists>p. p \<noteq> [] \<and> butlast p = q \<and> lookup w p \<noteq> None)"
proof -
  have "lookup w p \<noteq> None \<longleftrightarrow> (\<exists>kv \<in> set (nodes w). fst kv = p)" if "p \<noteq> []" for p
    using that by (simp add: lookup_def map_of_None_iff image_iff) metis
  then show ?thesis unfolding has_child_def list_ex_iff by metis
qed

lemma missing_cases: "missing w q = ErrNotDir \<or> missing w q = ErrNotExist"
  by (simp add: missing_def)

subsection \<open>Contexts\<close>

definition background :: ctx where
  "background = (\<lambda>_. False)"

definition ctxErr :: "ctx \<Rightarrow> ('z os_world_scheme, unit) io" where
  "ctxErr ctx w = (if ctx (clock w) then (Err ContextCanceled, tick w) else (Ok (), tick w))"

subsection \<open>System calls\<close>

text \<open>
  Every call takes one tick. When the fault oracle speaks, the call fails with an input/output error,
  and \<open>part\<close> is what it has done by then. Otherwise it acts on the resolved path; the empty
  path names nothing.
\<close>

definition sys :: "(nat \<Rightarrow> 'z os_world_scheme \<Rightarrow> 'z os_world_scheme) \<Rightarrow>
    ('z os_world_scheme, 'a) io \<Rightarrow> ('z os_world_scheme, 'a) io" where
  "sys part f w =
     (case faults w (clock w) of
        Some k \<Rightarrow> (Err ErrIO, part k (tick w))
      | None \<Rightarrow> f (tick w))"

definition syscall :: "string \<Rightarrow> (nat \<Rightarrow> fspath \<Rightarrow> 'z os_world_scheme \<Rightarrow> 'z os_world_scheme) \<Rightarrow>
    (fspath \<Rightarrow> ('z os_world_scheme, 'a) io) \<Rightarrow> ('z os_world_scheme, 'a) io" where
  "syscall p part f w =
     (if p = [] then (Err ErrNotExist, tick w)
      else sys (\<lambda>k. part k (resolve w p)) (f (resolve w p)) w)"

definition nothing_done :: "nat \<Rightarrow> fspath \<Rightarrow> 'z os_world_scheme \<Rightarrow> 'z os_world_scheme" where
  "nothing_done k q w = w"

definition stat_at :: "fspath \<Rightarrow> ('z os_world_scheme, node) io" where
  "stat_at q w = (case lookup w q of None \<Rightarrow> (Err (missing w q), w) | Some n \<Rightarrow> (Ok n, w))"

definition os_Stat :: "string \<Rightarrow> ('z os_world_scheme, node) io" where
  "os_Stat p = syscall p nothing_done stat_at"

text \<open>A handle is the path it was opened on.\<close>

definition open_at :: "fspath \<Rightarrow> ('z os_world_scheme, fspath) io" where
  "open_at q w =
     (case lookup w q of
        None \<Rightarrow> (Err (missing w q), w)
      | Some Special \<Rightarrow> (Err ErrIO, w)
      | Some _ \<Rightarrow> (Ok q, w))"

definition os_Open :: "string \<Rightarrow> ('z os_world_scheme, fspath) io" where
  "os_Open p = syscall p nothing_done open_at"

text \<open>
  Opening for writing, created if missing and truncated: \<^verbatim>\<open>os.Create\<close> and
  \<^verbatim>\<open>O_WRONLY|O_CREATE|O_TRUNC\<close>.
\<close>

definition create_at :: "fspath \<Rightarrow> ('z os_world_scheme, fspath) io" where
  "create_at q w =
     (case lookup w q of
        Some (File _) \<Rightarrow> (Ok q, set_node q (File []) w)
      | Some Dir \<Rightarrow> (Err ErrIsDir, w)
      | Some Special \<Rightarrow> (Err ErrIO, w)
      | None \<Rightarrow>
          (if lookup w (butlast q) = Some Dir then (Ok q, set_node q (File []) w)
           else (Err (missing w q), w)))"

definition os_Create :: "string \<Rightarrow> ('z os_world_scheme, fspath) io" where
  "os_Create p = syscall p nothing_done create_at"

text \<open>\<^verbatim>\<open>O_WRONLY|O_CREATE|O_EXCL\<close>.\<close>

definition create_excl_at :: "fspath \<Rightarrow> ('z os_world_scheme, fspath) io" where
  "create_excl_at q w =
     (case lookup w q of
        Some _ \<Rightarrow> (Err ErrExist, w)
      | None \<Rightarrow>
          (if lookup w (butlast q) = Some Dir then (Ok q, set_node q (File []) w)
           else (Err (missing w q), w)))"

definition os_OpenExcl :: "string \<Rightarrow> ('z os_world_scheme, fspath) io" where
  "os_OpenExcl p = syscall p nothing_done create_excl_at"

definition os_Close :: "fspath \<Rightarrow> ('z os_world_scheme, unit) io" where
  "os_Close h = sys (\<lambda>_. id) (return ())"

definition os_Sync :: "fspath \<Rightarrow> ('z os_world_scheme, unit) io" where
  "os_Sync h = sys (\<lambda>_. id) (return ())"

text \<open>\<^verbatim>\<open>Stat\<close> on an open file.\<close>

definition os_FStat :: "fspath \<Rightarrow> ('z os_world_scheme, node) io" where
  "os_FStat h = sys (\<lambda>_. id) (\<lambda>w. case lookup w h of Some n \<Rightarrow> (Ok n, w) | None \<Rightarrow> (Ok (File []), w))"

text \<open>What a handle reads, and appending to a file that is still there.\<close>

definition content_at :: "'z os_world_scheme \<Rightarrow> fspath \<Rightarrow> bytes" where
  "content_at w q = (case lookup w q of Some (File b) \<Rightarrow> b | _ \<Rightarrow> [])"

definition append_at :: "fspath \<Rightarrow> bytes \<Rightarrow> 'z os_world_scheme \<Rightarrow> 'z os_world_scheme" where
  "append_at q b w = (case lookup w q of Some (File c) \<Rightarrow> set_node q (File (c @ b)) w | _ \<Rightarrow> w)"

definition os_ReadFile :: "string \<Rightarrow> ('z os_world_scheme, bytes) io" where
  "os_ReadFile p = syscall p nothing_done
     (\<lambda>q w. case lookup w q of
        None \<Rightarrow> (Err (missing w q), w)
      | Some (File b) \<Rightarrow> (Ok b, w)
      | Some Dir \<Rightarrow> (Err ErrIsDir, w)
      | Some Special \<Rightarrow> (Err ErrIO, w))"

text \<open>
  \<^verbatim>\<open>os.WriteFile\<close> truncates and then writes: when it fails, a part of the data is there.
\<close>

definition os_WriteFile :: "string \<Rightarrow> bytes \<Rightarrow> ('z os_world_scheme, unit) io" where
  "os_WriteFile p data = syscall p
     (\<lambda>k q w. case create_at q w of (Ok h, w') \<Rightarrow> append_at h (take k data) w' | (_, w') \<Rightarrow> w')
     (\<lambda>q. andThen (create_at q) (\<lambda>h w. (Ok (), append_at h data w)))"

definition remove_at :: "fspath \<Rightarrow> ('z os_world_scheme, unit) io" where
  "remove_at q w =
     (case lookup w q of
        None \<Rightarrow> (Err (missing w q), w)
      | Some Dir \<Rightarrow> (if has_child w q then (Err ErrNotEmpty, w) else (Ok (), del_node q w))
      | Some _ \<Rightarrow> (Ok (), del_node q w))"

definition os_Remove :: "string \<Rightarrow> ('z os_world_scheme, unit) io" where
  "os_Remove p = syscall p nothing_done remove_at"

text \<open>Removing a file by the name its handle was opened with.\<close>

definition os_RemoveAt :: "fspath \<Rightarrow> ('z os_world_scheme, unit) io" where
  "os_RemoveAt h = sys (\<lambda>_. id) (remove_at h)"

text \<open>\<^verbatim>\<open>os.RemoveAll\<close> is content with a missing path; it can break off midway.\<close>

definition os_RemoveAll :: "string \<Rightarrow> ('z os_world_scheme, unit) io" where
  "os_RemoveAll p w = (if p = [] then (Ok (), tick w)
     else syscall p (\<lambda>k q w. del_some k q w) (\<lambda>q w. (Ok (), del_tree q w)) w)"

definition make_dir :: "fspath \<Rightarrow> 'z os_world_scheme \<Rightarrow> 'z os_world_scheme" where
  "make_dir a w = (case lookup w a of None \<Rightarrow> set_node a Dir w | Some _ \<Rightarrow> w)"

fun make_dirs :: "nat \<Rightarrow> fspath \<Rightarrow> 'z os_world_scheme \<Rightarrow> 'z os_world_scheme" where
  "make_dirs 0 q w = w"
| "make_dirs (Suc k) q w = make_dir (take (Suc k) q) (make_dirs k q w)"

definition mkdir_all_at :: "fspath \<Rightarrow> ('z os_world_scheme, unit) io" where
  "mkdir_all_at q w =
     (if list_ex (\<lambda>k. lookup w (take k q) \<notin> {None, Some Dir}) [0..<Suc (length q)]
      then (Err ErrNotDir, w)
      else (Ok (), make_dirs (length q) q w))"

definition os_MkdirAll :: "string \<Rightarrow> ('z os_world_scheme, unit) io" where
  "os_MkdirAll p = syscall p nothing_done mkdir_all_at"

definition os_Rename :: "fspath \<Rightarrow> string \<Rightarrow> ('z os_world_scheme, unit) io" where
  "os_Rename src p = syscall p nothing_done
     (\<lambda>q w. case (lookup w src, lookup w q) of
        (Some (File b), None) \<Rightarrow>
          (if lookup w (butlast q) = Some Dir then (Ok (), set_node q (File b) (del_node src w))
           else (Err (missing w q), w))
      | (Some (File b), Some (File _)) \<Rightarrow> (Ok (), set_node q (File b) (del_node src w))
      | (Some (File b), Some _) \<Rightarrow> (Err ErrExist, w)
      | (_, _) \<Rightarrow> (Err (missing w src), w))"

text \<open>
  \<^verbatim>\<open>os.CreateTemp\<close>: a new file in a directory whose name is the prefix and a random
  number; a name that is taken is an error of the call (the library gives up after its retries).
\<close>

definition os_CreateTemp :: "string \<Rightarrow> string \<Rightarrow> ('z os_world_scheme, fspath) io" where
  "os_CreateTemp dir pre w =
     (if CHR ''/'' \<in> set pre then (Err (ErrText ''pattern contains path separator''), tick w)
      else syscall dir nothing_done
        (\<lambda>q. create_excl_at (q @ [pre @ show_nat (entropy w (clock w))])) w)"

text \<open>\<^verbatim>\<open>os.ReadDir\<close>: the entries of a directory by name.\<close>

definition entries :: "'z os_world_scheme \<Rightarrow> fspath \<Rightarrow> (string \<times> node) list" where
  "entries w q =
     sort_key fst [(last (fst kv), snd kv). kv \<leftarrow> AList.clearjunk (nodes w), fst kv \<noteq> [] \<and> butlast (fst kv) = q]"

definition os_ReadDir :: "string \<Rightarrow> ('z os_world_scheme, (string \<times> node) list) io" where
  "os_ReadDir p = syscall p nothing_done
     (\<lambda>q w. case lookup w q of
        None \<Rightarrow> (Err (missing w q), w)
      | Some Dir \<Rightarrow> (Ok (entries w q), w)
      | Some _ \<Rightarrow> (Err ErrNotDir, w))"

text \<open>
  \<^verbatim>\<open>filepath.WalkDir\<close> visits a tree in lexical order, a directory before its entries: the
  nodes at or below the root by their components. The walk stops at the first error.
\<close>

definition walk :: "'z os_world_scheme \<Rightarrow> fspath \<Rightarrow> (fspath \<times> node) list" where
  "walk w q = sort_key fst (filter (\<lambda>kv. prefix q (fst kv)) (AList.clearjunk (nodes w)))"

lemma in_walk: "(p, n) \<in> set (walk w q) \<longleftrightarrow> prefix q p \<and> map_of (nodes w) p = Some n"
proof -
  have "(p, n) \<in> set (AList.clearjunk (nodes w)) \<longleftrightarrow> map_of (nodes w) p = Some n"
    using map_of_is_SomeI [OF distinct_clearjunk] map_of_SomeD map_of_clearjunk by metis
  then show ?thesis by (auto simp: walk_def)
qed

definition os_WalkDir :: "string \<Rightarrow> ('z os_world_scheme, (fspath \<times> node) list) io" where
  "os_WalkDir p = syscall p nothing_done
     (\<lambda>q w. case lookup w q of
        None \<Rightarrow> (Err (missing w q), w)
      | Some _ \<Rightarrow> (Ok (walk w q), w))"

text \<open>\<^verbatim>\<open>filepath.Abs\<close>.\<close>

definition filepath_Abs :: "string \<Rightarrow> ('z os_world_scheme, string) io" where
  "filepath_Abs p w = (Ok (if is_rooted p then Clean p else Join [cwd w, p]), w)"

subsection \<open>Transfers\<close>

text \<open>
  \<^verbatim>\<open>io.Copy\<close> from a reader that checks a context before each read. The result is what got
  through and the error that stopped it: the context done before the first read, a fault after
  \<open>k\<close> bytes, or the context done between two reads. With \<open>background\<close> this is a copy
  from a plain reader.
\<close>

definition stream :: "ctx \<Rightarrow> bytes \<Rightarrow> 'z os_world_scheme \<Rightarrow> (bytes \<times> error option) \<times> 'z os_world_scheme" where
  "stream ctx data w =
     (if ctx (clock w) then (([], Some ContextCanceled), tick w)
      else case faults w (clock w) of
        Some k \<Rightarrow> ((take k data, Some ErrIO), tick w)
      | None \<Rightarrow>
          (let w1 = tick w
           in if ctx (clock w1) then ((take (entropy w1 (clock w1)) data, Some ContextCanceled), tick w1)
              else ((data, None), tick w1)))"

text \<open>\<^verbatim>\<open>io.ReadAll\<close>.\<close>

definition read_all :: "ctx \<Rightarrow> bytes \<Rightarrow> ('z os_world_scheme, bytes) io" where
  "read_all ctx data w =
     (case stream ctx data w of
        ((got, None), w') \<Rightarrow> (Ok got, w')
      | ((got, Some e), w') \<Rightarrow> (Err e, w'))"

text \<open>The same from an open file; a directory cannot be read.\<close>

definition file_stream :: "ctx \<Rightarrow> fspath \<Rightarrow> 'z os_world_scheme \<Rightarrow> (bytes \<times> error option) \<times> 'z os_world_scheme" where
  "file_stream ctx h w =
     (if lookup w h = Some Dir then (([], Some (if ctx (clock w) then ContextCanceled else ErrIsDir)), tick w)
      else stream ctx (content_at w h) w)"

text \<open>
  The same from a reader over memory: only the context can stop it.
\<close>

definition mem_stream :: "ctx \<Rightarrow> bytes \<Rightarrow> 'z os_world_scheme \<Rightarrow> (bytes \<times> error option) \<times> 'z os_world_scheme" where
  "mem_stream ctx data w =
     (if ctx (clock w) then (([], Some ContextCanceled), tick w)
      else (let w1 = tick w
            in if ctx (clock w1) then ((take (entropy w1 (clock w1)) data, Some ContextCanceled), tick w1)
               else ((data, None), tick w1)))"

text \<open>A write to an open file; when it fails a part of the data is there.\<close>

definition os_Write :: "fspath \<Rightarrow> bytes \<Rightarrow> ('z os_world_scheme, unit) io" where
  "os_Write h b = sys (\<lambda>k. append_at h (take k b)) (\<lambda>w. (Ok (), append_at h b w))"

text \<open>The wall clock, in nanoseconds, and the random source.\<close>

definition time_Now :: "('z os_world_scheme, int) io" where
  "time_Now w = (Ok (int (entropy w (clock w))), tick w)"

definition random_bytes :: "nat \<Rightarrow> ('z os_world_scheme, bytes) io" where
  "random_bytes n = sys (\<lambda>_. id) (\<lambda>w. (Ok (map (\<lambda>i. of_nat (entropy w (clock w + i))) [0..<n]), w))"

end
