(* ===== verification/Go_OS_Facts.thy ===== *)
theory Go_OS_Facts
  imports Go_OS
begin

section \<open>What the system calls do and leave alone\<close>

text \<open>
  Two kinds of facts about the calls of \<^theory_text>\<open>Go_OS\<close>, from which the proofs on the
  repositories are assembled. \<open>sets d S m\<close> says that \<open>m\<close>, whatever its outcome, leaves every
  path outside \<open>S\<close> as it was (\<open>d\<close> is the working directory, which relative paths start from);
  with \<open>S\<close> empty the call only reads. The inversion lemmas say what a call that returned a result
  has done.
\<close>

definition steady :: "'z os_world_scheme \<Rightarrow> 'z os_world_scheme \<Rightarrow> bool" where
  "steady w w' \<longleftrightarrow> cwd w' = cwd w \<and> faults w' = faults w \<and> entropy w' = entropy w \<and> clock w \<le> clock w'"

definition outside :: "'z os_world_scheme \<Rightarrow> fspath set \<Rightarrow> (fspath \<Rightarrow> node option) \<Rightarrow> 'z os_world_scheme \<Rightarrow> bool" where
  "outside w0 S F w \<longleftrightarrow> steady w0 w \<and> (\<forall>q. q \<notin> S \<longrightarrow> lookup w q = F q)"

lemma steady_refl [simp]: "steady w w"
  by (simp add: steady_def)

lemma steady_tick [simp]: "steady w (tick w)"
  by (simp add: steady_def)

lemma steady_from_tick: "steady (tick w) w' \<Longrightarrow> steady w w'"
  by (simp add: steady_def)

lemma steady_trans: "steady w w' \<Longrightarrow> steady w' w'' \<Longrightarrow> steady w w''"
  by (auto simp: steady_def)

lemma steady_cwd: "steady w w' \<Longrightarrow> cwd w' = cwd w"
  by (simp add: steady_def)

lemma steady_nodes [simp]:
  "steady w (set_node q n w') \<longleftrightarrow> steady w w'" "steady w (del_node q w') \<longleftrightarrow> steady w w'"
  "steady w (del_tree q w') \<longleftrightarrow> steady w w'" "steady w (del_some k q w') \<longleftrightarrow> steady w w'"
  by (simp_all add: steady_def)

definition sets :: "string \<Rightarrow> fspath set \<Rightarrow> ('z os_world_scheme, 'a) io \<Rightarrow> bool" where
  "sets d S m \<longleftrightarrow> (\<forall>w0 F. cwd w0 = d \<longrightarrow> keeps (outside w0 S F) m)"

named_theorems sets_rules \<open>rules that compute the paths an action can change\<close>

lemma setsI:
  fixes m :: "('z os_world_scheme, 'a) io"
  assumes "\<And>w. cwd w = d \<Longrightarrow> steady w (snd (m w)) \<and> (\<forall>q. q \<notin> S \<longrightarrow> lookup (snd (m w)) q = lookup w q)"
  shows "sets d S m"
  unfolding sets_def keeps_def outside_def
proof (intro allI impI)
  fix w0 w :: "'z os_world_scheme" and F assume d: "cwd w0 = d" and w: "steady w0 w \<and> (\<forall>q. q \<notin> S \<longrightarrow> lookup w q = F q)"
  then have "cwd w = d" by (auto dest: steady_cwd)
  from assms [OF this] w show "steady w0 (snd (m w)) \<and> (\<forall>q. q \<notin> S \<longrightarrow> lookup (snd (m w)) q = F q)"
    using steady_trans by auto
qed

lemma setsD:
  assumes "sets d S m" and "cwd w = d"
  shows "steady w (snd (m w))" and "q \<notin> S \<Longrightarrow> lookup (snd (m w)) q = lookup w q"
    and "cwd (snd (m w)) = d"
proof -
  have "outside w S (lookup w) w" by (simp add: outside_def)
  with assms have o: "outside w S (lookup w) (snd (m w))" unfolding sets_def keeps_def by blast
  then show "steady w (snd (m w))" and "q \<notin> S \<Longrightarrow> lookup (snd (m w)) q = lookup w q"
    by (simp_all add: outside_def)
  with assms(2) show "cwd (snd (m w)) = d" by (auto dest: steady_cwd)
qed

lemma sets_lookup:
  assumes "sets d S m" and "cwd w = d" and "m w = (r, w')"
  shows "cwd w' = d" and "q \<notin> S \<Longrightarrow> lookup w' q = lookup w q" and "steady w w'"
  using setsD [OF assms(1,2)] assms(3) by simp_all

lemma sets_mono: "sets d S m \<Longrightarrow> S \<subseteq> T \<Longrightarrow> sets d T m"
  by (intro setsI) (metis setsD(1,2) subsetD)

lemma sets_combinators [sets_rules]:
  "sets d S (return x)" "sets d S (fail e)" "sets d S (panic s)" "sets d S (lift_outcome r)"
  "sets d S m \<Longrightarrow> (\<And>e. sets d S (h e)) \<Longrightarrow> (\<And>x. sets d S (f x)) \<Longrightarrow> sets d S (tryCatch m h f)"
  "sets d S m \<Longrightarrow> (\<And>x. sets d S (f x)) \<Longrightarrow> sets d S (andThen m f)"
  "sets d S m \<Longrightarrow> sets d S (orWrap msg m)"
  "sets d S m \<Longrightarrow> sets d S (ignoring m)"
  "sets d S m \<Longrightarrow> (\<And>b. sets d S (c b)) \<Longrightarrow> sets d S (deferring m c)"
  "(b \<Longrightarrow> sets d S m) \<Longrightarrow> (\<not> b \<Longrightarrow> sets d S m') \<Longrightarrow> sets d S (if b then m else m')"
  "(\<And>x. x \<in> set xs \<Longrightarrow> sets d S (g x)) \<Longrightarrow> sets d S (for_each g xs)"
  unfolding sets_def by (blast intro: keeps_rules | (intro allI impI, intro keeps_rules; blast))+

text \<open>The same with what is known of the result of the first action.\<close>

lemma sets_tryCatch_result:
  assumes "sets d S m" and "\<And>e. sets d S (h e)"
    and "\<And>w x w'. cwd w = d \<Longrightarrow> m w = (Ok x, w') \<Longrightarrow> sets d S (f x)"
  shows "sets d S (tryCatch m h f)"
proof (rule setsI)
  fix w :: "'a os_world_scheme" assume d: "cwd w = d"
  obtain r w' where run: "m w = (r, w')" by force
  have w': "cwd w' = d" "q \<notin> S \<Longrightarrow> lookup w' q = lookup w q" "steady w w'" for q
    using sets_lookup [OF assms(1) d run] by simp_all
  show "steady w (snd (tryCatch m h f w)) \<and> (\<forall>q. q \<notin> S \<longrightarrow> lookup (snd (tryCatch m h f w)) q = lookup w q)"
  proof (cases r)
    case (Ok x)
    with setsD [OF assms(3) [OF d, of x w'] w'(1)] run w'(2) steady_trans [OF w'(3)] show ?thesis by (simp add: tryCatch_def)
  next
    case (Err e)
    with setsD [OF assms(2) w'(1)] run w'(2) steady_trans [OF w'(3)] show ?thesis by (simp add: tryCatch_def)
  next
    case (Panic s)
    with run w' show ?thesis by (simp add: tryCatch_def)
  qed
qed

lemma sets_andThen_result:
  "sets d S m \<Longrightarrow> (\<And>w x w'. cwd w = d \<Longrightarrow> m w = (Ok x, w') \<Longrightarrow> sets d S (f x)) \<Longrightarrow>
   sets d S (andThen m f)"
  unfolding andThen_def by (intro sets_tryCatch_result sets_combinators)

lemma sets_option [sets_rules]:
  "(x = None \<Longrightarrow> sets d S m) \<Longrightarrow> (\<And>y. x = Some y \<Longrightarrow> sets d S (f y)) \<Longrightarrow>
   sets d S (case x of None \<Rightarrow> m | Some y \<Rightarrow> f y)"
  by (cases x) auto

lemma sets_prod [sets_rules]:
  "(\<And>a b. p = (a, b) \<Longrightarrow> sets d S (f a b)) \<Longrightarrow> sets d S (case p of (a, b) \<Rightarrow> f a b)"
  by (cases p) auto

lemma sets_state:
  "(\<And>w. cwd w = d \<Longrightarrow> sets d S (f w)) \<Longrightarrow> sets d S (\<lambda>w. f w w)"
  by (intro setsI) (blast dest: setsD)

subsection \<open>What an action that failed can have changed\<close>

definition sets_on_error :: "string \<Rightarrow> fspath set \<Rightarrow> ('z os_world_scheme, 'a) io \<Rightarrow> bool" where
  "sets_on_error d S m \<longleftrightarrow>
     (\<forall>w e w' q. cwd w = d \<longrightarrow> m w = (Err e, w') \<longrightarrow> q \<notin> S \<longrightarrow> lookup w' q = lookup w q \<and> cwd w' = d)"

lemma sets_on_errorD:
  "sets_on_error d S m \<Longrightarrow> cwd w = d \<Longrightarrow> m w = (Err e, w') \<Longrightarrow> q \<notin> S \<Longrightarrow> lookup w' q = lookup w q"
  unfolding sets_on_error_def by blast

lemma sets_imp_on_error: "sets d S m \<Longrightarrow> sets_on_error d S m"
  unfolding sets_on_error_def by (blast dest: sets_lookup)

lemma on_error_mono: "sets_on_error d S m \<Longrightarrow> S \<subseteq> T \<Longrightarrow> sets_on_error d T m"
  unfolding sets_on_error_def subset_iff by metis

lemma on_error_orWrap: "sets_on_error d S m \<Longrightarrow> sets_on_error d S (orWrap msg m)"
  unfolding sets_on_error_def by (auto simp: orWrap_Err_iff)

lemma on_error_andThen:
  assumes "sets d S m" and "\<And>x. sets_on_error d S (f x)"
  shows "sets_on_error d S (andThen m f)"
  unfolding sets_on_error_def andThen_Err_iff
proof (intro allI impI, elim disjE exE conjE)
  fix w e w' q assume "cwd w = d" "q \<notin> S" "m w = (Err e, w')"
  then show "lookup w' q = lookup w q \<and> cwd w' = d" using sets_lookup [OF assms(1)] by blast
next
  fix w e w' q x w1 assume "cwd w = d" "q \<notin> S" "m w = (Ok x, w1)" "f x w1 = (Err e, w')"
  then show "lookup w' q = lookup w q \<and> cwd w' = d"
    using sets_lookup [OF assms(1), of w "Ok x" w1] assms(2) [of x] unfolding sets_on_error_def by metis
qed

lemma on_error_andThen_result:
  assumes "sets d S m" and "\<And>w x w'. cwd w = d \<Longrightarrow> m w = (Ok x, w') \<Longrightarrow> sets_on_error d S (f x)"
  shows "sets_on_error d S (andThen m f)"
  unfolding sets_on_error_def andThen_Err_iff
proof (intro allI impI, elim disjE exE conjE)
  fix w e w' q assume "cwd w = d" "q \<notin> S" "m w = (Err e, w')"
  then show "lookup w' q = lookup w q \<and> cwd w' = d" using sets_lookup [OF assms(1)] by blast
next
  fix w e w' q x w1 assume "cwd w = d" "q \<notin> S" "m w = (Ok x, w1)" "f x w1 = (Err e, w')"
  then show "lookup w' q = lookup w q \<and> cwd w' = d"
    using sets_lookup [OF assms(1), of w "Ok x" w1] assms(2) [of w x w1]
    unfolding sets_on_error_def by metis
qed

lemma on_error_deferring:
  assumes "sets_on_error d S m" and "\<And>b. sets d S (c b)"
  shows "sets_on_error d S (deferring m c)"
  unfolding sets_on_error_def
proof (intro allI impI)
  fix w e w' q assume d: "cwd w = d" and run: "deferring m c w = (Err e, w')" and q: "q \<notin> S"
  from run obtain w1 b where "m w = (Err e, w1)" and w': "w' = snd (c b w1)"
    by (auto simp: deferring_iff)
  with d q assms(1) have "lookup w1 q = lookup w q \<and> cwd w1 = d" unfolding sets_on_error_def by metis
  with q w' setsD [OF assms(2), of w1] show "lookup w' q = lookup w q \<and> cwd w' = d" by simp
qed

lemma on_error_if:
  "(b \<Longrightarrow> sets_on_error d S m) \<Longrightarrow> (\<not> b \<Longrightarrow> sets_on_error d S n) \<Longrightarrow> sets_on_error d S (if b then m else n)"
  by simp

subsection \<open>System calls\<close>

lemma sets_sys:
  assumes "\<And>k. sets d S (\<lambda>w. (Ok (), part k w))" and "sets d S f"
  shows "sets d S (sys part f)"
proof (rule setsI)
  fix w :: "'a os_world_scheme" assume d: "cwd w = d"
  have "cwd (tick w) = d" using d by simp
  from setsD [OF assms(1) this] setsD [OF assms(2) this] steady_from_tick [of w]
  show "steady w (snd (sys part f w)) \<and> (\<forall>q. q \<notin> S \<longrightarrow> lookup (snd (sys part f w)) q = lookup w q)"
    by (auto simp: sys_def split: option.splits)
qed

lemma sets_tick [sets_rules]: "sets d S (\<lambda>w. (r w, tick w))"
  by (intro setsI) simp

lemma sets_same [sets_rules]: "sets d S (\<lambda>w. (r w, w))"
  by (intro setsI) simp

lemma sets_sys_pure [sets_rules]: "sets d S f \<Longrightarrow> sets d S (sys (\<lambda>_. id) f)"
  by (rule sets_sys) (simp_all add: sets_same)

definition path_at :: "string \<Rightarrow> string \<Rightarrow> fspath" where
  "path_at d p = (if is_rooted p then comps p else comps (d @ CHR ''/'' # p))"

lemma resolve_eq: "cwd w = d \<Longrightarrow> resolve w p = path_at d p"
  by (simp add: resolve_def path_at_def)

lemma path_at_rooted [simp]: "is_rooted p \<Longrightarrow> path_at d p = comps p"
  by (simp add: path_at_def)

lemma sets_syscall:
  assumes "\<And>k. sets d S (\<lambda>w. (Ok (), part k (path_at d p) w))" and "sets d S (f (path_at d p))"
  shows "sets d S (syscall p part f)"
proof (rule setsI)
  fix w :: "'a os_world_scheme" assume d: "cwd w = d"
  from setsD [OF sets_sys [OF assms] d]
  show "steady w (snd (syscall p part f w)) \<and>
      (\<forall>q. q \<notin> S \<longrightarrow> lookup (snd (syscall p part f w)) q = lookup w q)"
    using d by (auto simp: syscall_def resolve_eq)
qed

lemma sets_syscall_pure:
  "sets d S (f (path_at d p)) \<Longrightarrow> sets d S (syscall p nothing_done f)"
  by (rule sets_syscall) (simp_all add: nothing_done_def sets_same)

lemma sets_reads [sets_rules]:
  "sets d S (ctxErr ctx)" "sets d S (os_Stat p)" "sets d S (os_Open p)" "sets d S (os_Close h)"
  "sets d S (os_Sync h)" "sets d S (os_ReadFile p)" "sets d S (os_ReadDir p)" "sets d S (os_WalkDir p)"
  "sets d S (filepath_Abs p)" "sets d S time_Now" "sets d S (random_bytes n)"
  subgoal by (intro setsI) (simp add: ctxErr_def)
  subgoal unfolding os_Stat_def
    by (intro sets_syscall_pure setsI) (simp add: stat_at_def split: option.splits)
  subgoal unfolding os_Open_def
    by (intro sets_syscall_pure setsI) (simp add: open_at_def split: option.splits node.splits)
  subgoal unfolding os_Close_def by (intro sets_rules)
  subgoal unfolding os_Sync_def by (intro sets_rules)
  subgoal unfolding os_ReadFile_def
    by (intro sets_syscall_pure setsI) (simp split: option.splits node.splits)
  subgoal unfolding os_ReadDir_def
    by (intro sets_syscall_pure setsI) (simp split: option.splits node.splits)
  subgoal unfolding os_WalkDir_def
    by (intro sets_syscall_pure setsI) (simp split: option.splits node.splits)
  subgoal by (intro setsI) (simp add: filepath_Abs_def)
  subgoal by (intro setsI) (simp add: time_Now_def)
  subgoal unfolding random_bytes_def by (intro sets_rules)
  done

lemma sets_os_FStat [sets_rules]: "sets d S (os_FStat h)"
  unfolding os_FStat_def by (intro sets_sys_pure setsI) (simp split: option.splits)

lemma stream_lookup [simp]:
  "lookup (snd (stream ctx b w)) q = lookup w q" "cwd (snd (stream ctx b w)) = cwd w"
  "lookup (snd (mem_stream ctx b w)) q = lookup w q" "cwd (snd (mem_stream ctx b w)) = cwd w"
  "steady w (snd (stream ctx b w))" "steady w (snd (mem_stream ctx b w))"
  by (simp_all add: stream_def mem_stream_def Let_def steady_def split: option.splits)

lemma lookup_append_at:
  "q \<noteq> h \<Longrightarrow> lookup (append_at h b w) q = lookup w q" "cwd (append_at h b w) = cwd w"
  "steady w0 (append_at h b w) \<longleftrightarrow> steady w0 w"
  by (auto simp: append_at_def split: option.splits node.splits)

lemma lookup_outside:
  assumes "h \<in> S" and "q \<notin> S"
  shows "lookup (append_at h b w) q = lookup w q" "lookup (set_node h n w) q = lookup w q"
    "lookup (del_node h w) q = lookup w q"
proof -
  from assms have "q \<noteq> h" by blast
  then show "lookup (append_at h b w) q = lookup w q" "lookup (set_node h n w) q = lookup w q"
    "lookup (del_node h w) q = lookup w q"
    by (simp_all add: lookup_append_at lookup_del_node)
qed

lemma sets_os_Write [sets_rules]: "h \<in> S \<Longrightarrow> sets d S (os_Write h b)"
  unfolding os_Write_def by (intro sets_sys setsI) (simp_all add: lookup_append_at lookup_outside)

lemma sets_create_at: "q \<in> S \<Longrightarrow> sets d S (create_at q)"
  by (intro setsI) (simp add: create_at_def lookup_outside split: option.splits node.splits)

lemma sets_os_Create [sets_rules]: "path_at d p \<in> S \<Longrightarrow> sets d S (os_Create p)"
  unfolding os_Create_def by (intro sets_syscall_pure sets_create_at)

lemma sets_create_excl_at: "q \<in> S \<Longrightarrow> sets d S (create_excl_at q)"
  by (intro setsI) (simp add: create_excl_at_def lookup_outside split: option.splits)

lemma sets_os_OpenExcl [sets_rules]: "path_at d p \<in> S \<Longrightarrow> sets d S (os_OpenExcl p)"
  unfolding os_OpenExcl_def by (intro sets_syscall_pure sets_create_excl_at)

lemma create_at_handle: "create_at q w = (Ok h, w') \<Longrightarrow> h = q"
  by (auto simp: create_at_def split: option.splits node.splits if_splits)

lemma sets_write_part:
  assumes "q \<in> S"
  shows "sets d S (\<lambda>w. (Ok (), (case create_at q w of
    (Ok h, w') \<Rightarrow> append_at h (take k data) w' | (_, w') \<Rightarrow> w')))"
proof (rule setsI)
  fix w :: "'a os_world_scheme" assume d: "cwd w = d"
  obtain r w' where run: "create_at q w = (r, w')" by force
  from setsD [OF sets_create_at [OF assms] d] create_at_handle [of q w] assms
  show "steady w (snd (Ok (), (case create_at q w of
      (Ok h, w') \<Rightarrow> append_at h (take k data) w' | (_, w') \<Rightarrow> w'))) \<and>
    (\<forall>q'. q' \<notin> S \<longrightarrow> lookup (snd (Ok (), (case create_at q w of
      (Ok h, w') \<Rightarrow> append_at h (take k data) w' | (_, w') \<Rightarrow> w'))) q' = lookup w q')"
    unfolding run by (auto simp: lookup_append_at lookup_outside split: outcome.splits)
qed

lemma sets_write_all:
  assumes "q \<in> S"
  shows "sets d S (andThen (create_at q) (\<lambda>h w. (Ok (), append_at h data w)))"
proof (rule setsI)
  fix w :: "'a os_world_scheme" assume d: "cwd w = d"
  obtain r w' where run: "create_at q w = (r, w')" by force
  from setsD [OF sets_create_at [OF assms] d] create_at_handle [of q w] assms
  show "steady w (snd (andThen (create_at q) (\<lambda>h w. (Ok (), append_at h data w)) w)) \<and>
    (\<forall>q'. q' \<notin> S \<longrightarrow>
      lookup (snd (andThen (create_at q) (\<lambda>h w. (Ok (), append_at h data w)) w)) q' = lookup w q')"
    unfolding andThen_def tryCatch_def run
    by (auto simp: lookup_append_at lookup_outside fail_run split: outcome.splits)
qed

lemma sets_os_WriteFile [sets_rules]: "path_at d p \<in> S \<Longrightarrow> sets d S (os_WriteFile p data)"
  unfolding os_WriteFile_def by (intro sets_syscall sets_write_part sets_write_all)

lemma sets_remove_at: "q \<in> S \<Longrightarrow> sets d S (remove_at q)"
  by (intro setsI) (simp add: remove_at_def lookup_outside split: option.splits node.splits)

lemma sets_os_Remove [sets_rules]: "path_at d p \<in> S \<Longrightarrow> sets d S (os_Remove p)"
  unfolding os_Remove_def by (intro sets_syscall_pure sets_remove_at)

lemma sets_os_RemoveAt [sets_rules]: "h \<in> S \<Longrightarrow> sets d S (os_RemoveAt h)"
  unfolding os_RemoveAt_def by (intro sets_sys_pure sets_remove_at)

lemma sets_os_RemoveAll [sets_rules]:
  assumes "{q. prefix (path_at d p) q} \<subseteq> S"
  shows "sets d S (os_RemoveAll p)"
proof (rule setsI)
  fix w :: "'a os_world_scheme" assume d: "cwd w = d"
  have "sets d S (syscall p (\<lambda>k q. del_some k q) (\<lambda>q w. (Ok (), del_tree q w)))"
    using assms
    by (intro sets_syscall setsI) (auto simp: lookup_del_tree subset_iff intro!: lookup_del_some_other)
  from setsD [OF this d]
  show "steady w (snd (os_RemoveAll p w)) \<and> (\<forall>q. q \<notin> S \<longrightarrow> lookup (snd (os_RemoveAll p w)) q = lookup w q)"
    using d by (auto simp: os_RemoveAll_def)
qed

lemma lookup_make_dir:
  "lookup (make_dir a w) q = (if q = a \<and> lookup w a = None then Some Dir else lookup w q)"
  by (cases "a = []") (auto simp: make_dir_def lookup_set_node split: option.splits)

lemma cwd_make_dirs [simp]: "cwd (make_dirs k p w) = cwd w"
  by (induction k) (auto simp: make_dir_def split: option.splits)

lemma steady_make_dirs [simp]: "steady w0 (make_dirs k p w) \<longleftrightarrow> steady w0 w"
  by (induction k) (auto simp: make_dir_def split: option.splits)

lemma lookup_make_dirs:
  "lookup (make_dirs k p w) q =
     (if (\<exists>j \<le> k. q = take j p) \<and> lookup w q = None then Some Dir else lookup w q)"
proof (induction k)
  case 0
  show ?case by (cases q) auto
next
  case (Suc k)
  have reach: "(\<exists>j \<le> Suc k. q = take j p) \<longleftrightarrow> (\<exists>j \<le> k. q = take j p) \<or> q = take (Suc k) p"
    using le_Suc_eq by blast
  show ?case
  proof (cases "q = take (Suc k) p")
    case True
    with Suc.IH show ?thesis by (auto simp: lookup_make_dir)
  next
    case False
    with Suc.IH reach show ?thesis by (simp add: lookup_make_dir)
  qed
qed

lemma make_dirs_all:
  "lookup (make_dirs (length p) p w) q =
     (if prefix q p \<and> lookup w q = None then Some Dir else lookup w q)"
proof -
  have "(\<exists>j \<le> length p. q = take j p) \<longleftrightarrow> prefix q p"
    by (metis append_eq_conv_conj prefix_def prefix_length_le take_is_prefix)
  then show ?thesis by (simp add: lookup_make_dirs)
qed

lemma sets_os_MkdirAll [sets_rules]:
  assumes "{q. prefix q (path_at d p)} \<subseteq> S"
  shows "sets d S (os_MkdirAll p)"
  unfolding os_MkdirAll_def using assms
  by (intro sets_syscall_pure setsI) (auto simp: mkdir_all_at_def make_dirs_all)

lemma sets_os_CreateTemp [sets_rules]:
  assumes "{path_at d dir @ [pre @ x] |x. True} \<subseteq> S"
  shows "sets d S (os_CreateTemp dir pre)"
proof (cases "CHR ''/'' \<in> set pre")
  case True
  then show ?thesis by (simp add: os_CreateTemp_def [abs_def] sets_tick)
next
  case False
  have "sets d S (\<lambda>w. syscall dir nothing_done
      (\<lambda>q. create_excl_at (q @ [pre @ show_nat (entropy w (clock w))])) w)"
    by (rule sets_state, rule sets_syscall_pure, rule sets_create_excl_at) (use assms in blast)
  with False show ?thesis by (simp add: os_CreateTemp_def [abs_def])
qed

lemma sets_os_Rename [sets_rules]:
  "src \<in> S \<Longrightarrow> path_at d p \<in> S \<Longrightarrow> sets d S (os_Rename src p)"
  unfolding os_Rename_def
  by (intro sets_syscall_pure setsI)
    (simp add: lookup_outside split: option.splits node.splits)

lemma on_error_Rename: "sets_on_error d S (os_Rename src p)"
  unfolding sets_on_error_def
  by (auto simp: os_Rename_def syscall_def sys_def nothing_done_def
      split: if_splits option.splits node.splits)

subsection \<open>What a call that returned has done\<close>

named_theorems os_Ok \<open>what a system call has done when it returned a result\<close>

lemma sys_Ok_iff: "sys part f w = (Ok x, w') \<longleftrightarrow> faults w (clock w) = None \<and> f (tick w) = (Ok x, w')"
  by (auto simp: sys_def split: option.splits)

lemma syscall_Ok_iff:
  "syscall p part f w = (Ok x, w') \<longleftrightarrow>
     p \<noteq> [] \<and> faults w (clock w) = None \<and> f (resolve w p) (tick w) = (Ok x, w')"
  by (auto simp: syscall_def sys_Ok_iff)

lemma ctxErr_Ok [os_Ok]: "ctxErr ctx w = (Ok x, w') \<Longrightarrow> \<not> ctx (clock w) \<and> w' = tick w"
  by (auto simp: ctxErr_def split: if_splits)

lemma os_Stat_Ok [os_Ok]: "os_Stat p w = (Ok n, w') \<Longrightarrow> lookup w (resolve w p) = Some n \<and> w' = tick w"
  by (auto simp: os_Stat_def syscall_Ok_iff stat_at_def split: option.splits)

lemma os_Open_Ok [os_Ok]:
  "os_Open p w = (Ok h, w') \<Longrightarrow>
     h = resolve w p \<and> w' = tick w \<and> (\<exists>n. lookup w h = Some n \<and> n \<noteq> Special)"
  by (auto simp: os_Open_def syscall_Ok_iff open_at_def split: option.splits node.splits)

lemma os_FStat_Ok [os_Ok]:
  "os_FStat h w = (Ok n, w') \<Longrightarrow> w' = tick w \<and> (lookup w h = Some n \<or> lookup w h = None \<and> n = File [])"
  by (auto simp: os_FStat_def sys_Ok_iff split: option.splits)

lemma os_Close_Ok [os_Ok]: "os_Close h w = (Ok x, w') \<Longrightarrow> w' = tick w"
  and os_Sync_Ok [os_Ok]: "os_Sync h w = (Ok x, w') \<Longrightarrow> w' = tick w"
  by (auto simp: os_Close_def os_Sync_def sys_Ok_iff return_run)

lemma os_ReadFile_Ok [os_Ok]:
  "os_ReadFile p w = (Ok b, w') \<Longrightarrow> lookup w (resolve w p) = Some (File b) \<and> w' = tick w"
  by (auto simp: os_ReadFile_def syscall_Ok_iff split: option.splits node.splits)

lemma os_Create_Ok [os_Ok]:
  "os_Create p w = (Ok h, w') \<Longrightarrow>
     h = resolve w p \<and> lookup w' h = Some (File []) \<and> (lookup w h = None \<or> (\<exists>b. lookup w h = Some (File b)))"
  by (cases "resolve w p = []")
    (auto simp: os_Create_def syscall_Ok_iff create_at_def split: option.splits node.splits if_splits)

lemma os_OpenExcl_Ok [os_Ok]:
  "os_OpenExcl p w = (Ok h, w') \<Longrightarrow>
     h = resolve w p \<and> lookup w' h = Some (File []) \<and> lookup w h = None"
  by (cases "resolve w p = []")
    (auto simp: os_OpenExcl_def syscall_Ok_iff create_excl_at_def split: option.splits if_splits)

lemma os_CreateTemp_Ok [os_Ok]:
  "os_CreateTemp dir pre w = (Ok h, w') \<Longrightarrow>
     (\<exists>x. h = resolve w dir @ [pre @ show_nat x]) \<and> lookup w h = None \<and> lookup w' h = Some (File [])"
  by (auto simp: os_CreateTemp_def syscall_Ok_iff create_excl_at_def split: option.splits if_splits)

lemma append_at_Some:
  "lookup w h = Some (File c) \<Longrightarrow> h \<noteq> [] \<Longrightarrow> lookup (append_at h b w) h = Some (File (c @ b))"
  by (simp add: append_at_def)

lemma lookup_File_nonempty: "lookup w h = Some (File c) \<Longrightarrow> h \<noteq> []"
  by auto

lemma os_Write_Ok [os_Ok]:
  "os_Write h b w = (Ok x, w') \<Longrightarrow> lookup w h = Some (File c) \<Longrightarrow> lookup w' h = Some (File (c @ b))"
  using lookup_File_nonempty [of w h c]
  by (auto simp: os_Write_def sys_Ok_iff append_at_Some)

lemma os_WriteFile_Ok [os_Ok]:
  assumes "os_WriteFile p data w = (Ok x, w')"
  shows "lookup w' (resolve w p) = Some (File data)"
proof -
  from assms obtain h w1 where create: "create_at (resolve w p) (tick w) = (Ok h, w1)"
    and w': "w' = append_at h data w1"
    by (auto simp: os_WriteFile_def syscall_Ok_iff andThen_Ok_iff)
  from create have h: "h = resolve w p" by (rule create_at_handle)
  from create have "lookup w1 h = Some (File [])" unfolding h
    by (cases "resolve w p = []")
      (auto simp: create_at_def split: option.splits node.splits if_splits)
  with append_at_Some [OF this] lookup_File_nonempty [OF this] show ?thesis unfolding w' h by simp
qed

lemma os_Remove_Ok [os_Ok]:
  "os_Remove p w = (Ok x, w') \<Longrightarrow> resolve w p \<noteq> [] \<Longrightarrow> lookup w' (resolve w p) = None"
  by (auto simp: os_Remove_def remove_at_def syscall_Ok_iff lookup_del_node
      split: option.splits node.splits if_splits)

lemma os_RemoveAll_Ok [os_Ok]:
  "os_RemoveAll p w = (Ok x, w') \<Longrightarrow> p \<noteq> [] \<Longrightarrow>
     lookup w' q = (if prefix (resolve w p) q \<and> q \<noteq> [] then None else lookup w q)"
  by (auto simp: os_RemoveAll_def syscall_Ok_iff lookup_del_tree)

lemma os_MkdirAll_Ok [os_Ok]:
  assumes "os_MkdirAll p w = (Ok x, w')"
  shows "lookup w' q = (if prefix q (resolve w p) then Some Dir else lookup w q)"
proof -
  let ?r = "resolve w p"
  from assms have w': "w' = make_dirs (length ?r) ?r (tick w)"
    and ok: "\<forall>k \<le> length ?r. lookup w (take k ?r) \<in> {None, Some Dir}"
    by (auto simp: os_MkdirAll_def syscall_Ok_iff mkdir_all_at_def list_ex_iff split: if_splits
        simp flip: less_Suc_eq_le)
  have "prefix q ?r \<Longrightarrow> lookup w q \<in> {None, Some Dir}"
    using ok by (metis append_eq_conv_conj prefix_def prefix_length_le)
  then show ?thesis unfolding w' by (auto simp: make_dirs_all)
qed

lemma Mkdir_keeps_file:
  assumes "os_MkdirAll p w = (Ok x, w')" and "lookup w q = Some (File b)"
  shows "lookup w' q = Some (File b)"
proof -
  from assms(1) have ok: "\<forall>k \<le> length (resolve w p). lookup w (take k (resolve w p)) \<in> {None, Some Dir}"
    by (auto simp: os_MkdirAll_def syscall_Ok_iff mkdir_all_at_def list_ex_iff split: if_splits
        simp flip: less_Suc_eq_le)
  have "\<not> prefix q (resolve w p)"
  proof
    assume q: "prefix q (resolve w p)"
    then have "q = take (length q) (resolve w p)" by (auto simp: prefix_def)
    moreover have "length q \<le> length (resolve w p)" using q by (rule prefix_length_le)
    ultimately show False using ok assms(2) by (metis insertE node.distinct(1) option.distinct(1) option.inject singletonD)
  qed
  then show ?thesis using os_MkdirAll_Ok [OF assms(1), of q] assms(2) by simp
qed

lemma os_Rename_Ok [os_Ok]:
  assumes "os_Rename src p w = (Ok x, w')"
  obtains b where "lookup w src = Some (File b)" and "lookup w' (resolve w p) = Some (File b)"
    and "\<And>q. q \<noteq> src \<Longrightarrow> q \<noteq> resolve w p \<Longrightarrow> lookup w' q = lookup w q"
proof -
  from assms obtain b where src: "lookup w src = Some (File b)"
    and w': "w' = set_node (resolve w p) (File b) (del_node src (tick w))"
    and ne: "resolve w p \<noteq> []"
    by (cases "resolve w p = []")
      (auto simp: os_Rename_def syscall_Ok_iff split: option.splits node.splits if_splits)
  show thesis
    by (rule that [OF src]) (auto simp: w' ne lookup_set_node lookup_del_node)
qed

lemma random_bytes_Ok [os_Ok]: "random_bytes n w = (Ok b, w') \<Longrightarrow> length b = n \<and> w' = tick w"
  by (auto simp: random_bytes_def sys_Ok_iff)

lemma stream_done: "stream ctx b w = ((got, None), w') \<Longrightarrow> got = b"
  and mem_stream_done: "mem_stream ctx b w = ((got, None), w') \<Longrightarrow> got = b"
  by (auto simp: stream_def mem_stream_def Let_def split: option.splits if_splits)

lemma file_stream_lookup [simp]:
  "lookup (snd (file_stream ctx h w)) q = lookup w q" "cwd (snd (file_stream ctx h w)) = cwd w"
  "steady w (snd (file_stream ctx h w))"
  by (simp_all add: file_stream_def)

lemma file_stream_done:
  "file_stream ctx h w = ((got, None), w') \<Longrightarrow> got = content_at w h \<and> lookup w h \<noteq> Some Dir"
  by (auto simp: file_stream_def stream_done split: if_splits)

lemma stream_prefix: "prefix (fst (fst (stream ctx b w))) b"
  by (auto simp: stream_def Let_def take_is_prefix split: option.splits)

end
