(* ===== verification/Compression.thy ===== *)
theory Compression
  imports Go_OS
begin

section \<open>Compression: the configuration and the handlers\<close>

text \<open>
  \<^verbatim>\<open>internal/domain/repository/compression.go\<close> (the compression a repository is
  configured with, its levels and their defaults) and
  \<^verbatim>\<open>internal/infra/compression\<close> (the handler chosen for a type and the encoder and decoder
  it opens). A compression type is a string, as in the code. The codecs themselves (zstd, lz4, xz,
  and gzip of the standard library) are parameters of the model: what their writer makes of the
  bytes written to it, and what their reader gives back.
\<close>

subsection \<open>The configuration\<close>

type_synonym CompressionType = string

definition NoneCompressionType :: CompressionType where "NoneCompressionType = ''none''"
definition ZstdCompressionType :: CompressionType where "ZstdCompressionType = ''zstd''"
definition Lz4CompressionType :: CompressionType where "Lz4CompressionType = ''lz4''"
definition XzCompressionType :: CompressionType where "XzCompressionType = ''xz''"
definition GzipCompressionType :: CompressionType where "GzipCompressionType = ''gzip''"

lemmas compression_type_defs =
  NoneCompressionType_def ZstdCompressionType_def Lz4CompressionType_def XzCompressionType_def
  GzipCompressionType_def

definition DefaultZstdLevel :: int where "DefaultZstdLevel = 3"
definition MinimumZstdLevel :: int where "MinimumZstdLevel = 1"
definition MaximumZstdLevel :: int where "MaximumZstdLevel = 22"
definition DefaultGzipLevel :: int where "DefaultGzipLevel = 6"
definition MinimumGzipLevel :: int where "MinimumGzipLevel = 1"
definition MaximumGzipLevel :: int where "MaximumGzipLevel = 9"
definition DefaultLz4Level :: int where "DefaultLz4Level = 0"
definition MinimumLz4Level :: int where "MinimumLz4Level = 0"
definition MaximumLz4Level :: int where "MaximumLz4Level = 9"

lemmas level_defs =
  DefaultZstdLevel_def MinimumZstdLevel_def MaximumZstdLevel_def
  DefaultGzipLevel_def MinimumGzipLevel_def MaximumGzipLevel_def
  DefaultLz4Level_def MinimumLz4Level_def MaximumLz4Level_def

definition compressionTypes :: "(string \<times> CompressionType) list" where
  "compressionTypes =
     [(''none'', NoneCompressionType), (''zstd'', ZstdCompressionType), (''lz4'', Lz4CompressionType),
      (''xz'', XzCompressionType), (''gzip'', GzipCompressionType)]"

definition ErrInvalidCompressionType :: error where
  "ErrInvalidCompressionType = ErrText ''invalid compression type''"
definition ErrInvalidZstdLevel :: error where
  "ErrInvalidZstdLevel = ErrText ''zstd compression level must be between 1 and 22''"
definition ErrInvalidGzipLevel :: error where
  "ErrInvalidGzipLevel = ErrText ''gzip compression level must be between 1 and 9''"
definition ErrInvalidLz4Level :: error where
  "ErrInvalidLz4Level = ErrText ''lz4 compression level must be between 0 and 9''"

definition ParseCompressionType :: "string \<Rightarrow> CompressionType outcome" where
  "ParseCompressionType s =
     (case map_of compressionTypes s of
        None \<Rightarrow> Err ErrInvalidCompressionType
      | Some ct \<Rightarrow> Ok ct)"

record Compression =
  compType :: CompressionType
  level :: "int option"

text \<open>
  The method \<^verbatim>\<open>validate\<close> changes its receiver (a missing level becomes the default, a
  level that is not used goes) and reports a level out of range: the result is the error, if any,
  and the receiver after the call.
\<close>

definition check_level :: "int \<Rightarrow> int \<Rightarrow> int \<Rightarrow> error \<Rightarrow> Compression \<Rightarrow> error option \<times> Compression" where
  "check_level dflt lo hi err c =
     (let lv = (case level c of None \<Rightarrow> dflt | Some l \<Rightarrow> l); c' = c\<lparr>level := Some lv\<rparr>
      in if lv < lo \<or> lv > hi then (Some err, c') else (None, c'))"

definition Compression_validate :: "Compression \<Rightarrow> error option \<times> Compression" where
  "Compression_validate c =
     (if compType c = ZstdCompressionType then
        check_level DefaultZstdLevel MinimumZstdLevel MaximumZstdLevel ErrInvalidZstdLevel c
      else if compType c = GzipCompressionType then
        check_level DefaultGzipLevel MinimumGzipLevel MaximumGzipLevel ErrInvalidGzipLevel c
      else if compType c = Lz4CompressionType then
        check_level DefaultLz4Level MinimumLz4Level MaximumLz4Level ErrInvalidLz4Level c
      else if compType c = NoneCompressionType \<or> compType c = XzCompressionType then
        (None, c\<lparr>level := None\<rparr>)
      else (None, c))"

definition NewCompression :: "CompressionType \<Rightarrow> int option \<Rightarrow> Compression outcome" where
  "NewCompression ct lv =
     (case Compression_validate \<lparr>compType = ct, level = lv\<rparr> of
        (Some e, _) \<Rightarrow> Err e
      | (None, c) \<Rightarrow> Ok c)"

subsection \<open>The handlers\<close>

datatype Handler = noneHandler | zstdHandler | GzipHandler | Lz4Handler | XzHandler

definition handlers :: "(CompressionType \<times> Handler) list" where
  "handlers =
     [(NoneCompressionType, noneHandler), (ZstdCompressionType, zstdHandler),
      (GzipCompressionType, GzipHandler), (Lz4CompressionType, Lz4Handler),
      (XzCompressionType, XzHandler)]"

definition GetHandler :: "CompressionType \<Rightarrow> Handler outcome" where
  "GetHandler ct =
     (case map_of handlers ct of
        None \<Rightarrow> Err (ErrText (''unsupported compression type '' @ ct))
      | Some h \<Rightarrow> Ok h)"

datatype Lz4CompressionLevel =
    Lz4_Fast | Lz4_Level1 | Lz4_Level2 | Lz4_Level3 | Lz4_Level4
  | Lz4_Level5 | Lz4_Level6 | Lz4_Level7 | Lz4_Level8 | Lz4_Level9

definition lz4Level :: "int \<Rightarrow> Lz4CompressionLevel outcome" where
  "lz4Level l =
     (if l = 0 then Ok Lz4_Fast
      else if l = 1 then Ok Lz4_Level1
      else if l = 2 then Ok Lz4_Level2
      else if l = 3 then Ok Lz4_Level3
      else if l = 4 then Ok Lz4_Level4
      else if l = 5 then Ok Lz4_Level5
      else if l = 6 then Ok Lz4_Level6
      else if l = 7 then Ok Lz4_Level7
      else if l = 8 then Ok Lz4_Level8
      else if l = 9 then Ok Lz4_Level9
      else Err (ErrText ''invalid lz4 compression level: expected 0 to 9''))"

text \<open>
  The codec libraries. \<open>enc_new\<close> is the error of opening a library's writer, if any;
  \<open>enc_run\<close> is what a closed writer has written in all for the bytes it was given; \<open>dec_new\<close>
  and \<open>dec_run\<close> are the same for the reader, whose result is the bytes it yields and the error
  that ends it, if any.
\<close>

record codecs =
  zstd_new :: "int \<Rightarrow> error option"
  zstd_run :: "int \<Rightarrow> bytes \<Rightarrow> bytes"
  gzip_run :: "int \<Rightarrow> bytes \<Rightarrow> bytes"
  lz4_new :: "Lz4CompressionLevel \<Rightarrow> error option"
  lz4_run :: "Lz4CompressionLevel \<Rightarrow> bytes \<Rightarrow> bytes"
  xz_new :: "error option"
  xz_run :: "bytes \<Rightarrow> bytes"
  dec_new :: "Handler \<Rightarrow> bytes \<Rightarrow> error option"
  dec_run :: "Handler \<Rightarrow> bytes \<Rightarrow> bytes \<times> error option"

text \<open>
  Opening the encoder of a handler. The result is the encoder: the function from the bytes written
  to it to what it has written to its destination once it is closed. Dereferencing a nil level is a
  panic. \<^verbatim>\<open>gzip.NewWriterLevel\<close> accepts the levels from -2 to 9.
\<close>

definition gzip_Encode :: "codecs \<Rightarrow> int option \<Rightarrow> (bytes \<Rightarrow> bytes) outcome" where
  "gzip_Encode cs lv =
     (case lv of
        None \<Rightarrow> Panic ''nil pointer dereference''
      | Some l \<Rightarrow>
          (if l < -2 \<or> l > 9
           then Err (Wrapped ''create gzip writer'' (ErrText ''gzip: invalid compression level''))
           else Ok (gzip_run cs l)))"

definition zstd_Encode :: "codecs \<Rightarrow> int option \<Rightarrow> (bytes \<Rightarrow> bytes) outcome" where
  "zstd_Encode cs lv =
     (case lv of
        None \<Rightarrow> Panic ''nil pointer dereference''
      | Some l \<Rightarrow>
          (case zstd_new cs l of
             Some e \<Rightarrow> Err (Wrapped ''create zstd encoder'' e)
           | None \<Rightarrow> Ok (zstd_run cs l)))"

definition lz4_Encode :: "codecs \<Rightarrow> int option \<Rightarrow> (bytes \<Rightarrow> bytes) outcome" where
  "lz4_Encode cs lv =
     (case lv of
        None \<Rightarrow> Err (ErrText ''level is required'')
      | Some l \<Rightarrow>
          (case lz4Level l of
             Err e \<Rightarrow> Err e
           | Panic s \<Rightarrow> Panic s
           | Ok cl \<Rightarrow>
               (case lz4_new cs cl of
                  Some e \<Rightarrow> Err (Wrapped ''configure lz4 encoder'' e)
                | None \<Rightarrow> Ok (lz4_run cs cl))))"

definition xz_Encode :: "codecs \<Rightarrow> int option \<Rightarrow> (bytes \<Rightarrow> bytes) outcome" where
  "xz_Encode cs lv =
     (case xz_new cs of
        Some e \<Rightarrow> Err (Wrapped ''create xz encoder'' e)
      | None \<Rightarrow> Ok (xz_run cs))"

definition none_Encode :: "int option \<Rightarrow> (bytes \<Rightarrow> bytes) outcome" where
  "none_Encode lv = Ok (\<lambda>b. b)"

fun Handler_Encode :: "codecs \<Rightarrow> Handler \<Rightarrow> int option \<Rightarrow> (bytes \<Rightarrow> bytes) outcome" where
  "Handler_Encode cs noneHandler lv = none_Encode lv"
| "Handler_Encode cs zstdHandler lv = zstd_Encode cs lv"
| "Handler_Encode cs GzipHandler lv = gzip_Encode cs lv"
| "Handler_Encode cs Lz4Handler lv = lz4_Encode cs lv"
| "Handler_Encode cs XzHandler lv = xz_Encode cs lv"

definition none_Decode :: "bytes \<Rightarrow> (bytes \<times> error option) outcome" where
  "none_Decode b = Ok (b, None)"

definition zstd_Decode :: "codecs \<Rightarrow> bytes \<Rightarrow> (bytes \<times> error option) outcome" where
  "zstd_Decode cs b =
     (case dec_new cs zstdHandler b of
        Some e \<Rightarrow> Err (Wrapped ''create zstd decoder'' e)
      | None \<Rightarrow> Ok (dec_run cs zstdHandler b))"

definition gzip_Decode :: "codecs \<Rightarrow> bytes \<Rightarrow> (bytes \<times> error option) outcome" where
  "gzip_Decode cs b =
     (case dec_new cs GzipHandler b of
        Some e \<Rightarrow> Err (Wrapped ''create gzip reader'' e)
      | None \<Rightarrow> Ok (dec_run cs GzipHandler b))"

definition lz4_Decode :: "codecs \<Rightarrow> bytes \<Rightarrow> (bytes \<times> error option) outcome" where
  "lz4_Decode cs b = Ok (dec_run cs Lz4Handler b)"

definition xz_Decode :: "codecs \<Rightarrow> bytes \<Rightarrow> (bytes \<times> error option) outcome" where
  "xz_Decode cs b =
     (case dec_new cs XzHandler b of
        Some e \<Rightarrow> Err (Wrapped ''create xz decoder'' e)
      | None \<Rightarrow> Ok (dec_run cs XzHandler b))"

fun Handler_Decode :: "codecs \<Rightarrow> Handler \<Rightarrow> bytes \<Rightarrow> (bytes \<times> error option) outcome" where
  "Handler_Decode cs noneHandler b = none_Decode b"
| "Handler_Decode cs zstdHandler b = zstd_Decode cs b"
| "Handler_Decode cs GzipHandler b = gzip_Decode cs b"
| "Handler_Decode cs Lz4Handler b = lz4_Decode cs b"
| "Handler_Decode cs XzHandler b = xz_Decode cs b"

subsection \<open>What a validated configuration guarantees\<close>

definition level_in_range :: "Compression \<Rightarrow> bool" where
  "level_in_range c \<longleftrightarrow>
     (if compType c = ZstdCompressionType then (\<exists>l. level c = Some l \<and> 1 \<le> l \<and> l \<le> 22)
      else if compType c = GzipCompressionType then (\<exists>l. level c = Some l \<and> 1 \<le> l \<and> l \<le> 9)
      else if compType c = Lz4CompressionType then (\<exists>l. level c = Some l \<and> 0 \<le> l \<and> l \<le> 9)
      else if compType c = NoneCompressionType \<or> compType c = XzCompressionType then level c = None
      else True)"

definition known_type :: "CompressionType \<Rightarrow> bool" where
  "known_type ct \<longleftrightarrow>
     ct \<in> {NoneCompressionType, ZstdCompressionType, Lz4CompressionType, XzCompressionType,
       GzipCompressionType}"

lemma compression_types_distinct:
  "distinct [NoneCompressionType, ZstdCompressionType, Lz4CompressionType, XzCompressionType,
     GzipCompressionType]"
  by (simp add: compression_type_defs)

lemma ct_neq [simp]:
  "NoneCompressionType \<noteq> ZstdCompressionType"
  "NoneCompressionType \<noteq> Lz4CompressionType"
  "NoneCompressionType \<noteq> XzCompressionType"
  "NoneCompressionType \<noteq> GzipCompressionType"
  "ZstdCompressionType \<noteq> NoneCompressionType"
  "ZstdCompressionType \<noteq> Lz4CompressionType"
  "ZstdCompressionType \<noteq> XzCompressionType"
  "ZstdCompressionType \<noteq> GzipCompressionType"
  "Lz4CompressionType \<noteq> NoneCompressionType"
  "Lz4CompressionType \<noteq> ZstdCompressionType"
  "Lz4CompressionType \<noteq> XzCompressionType"
  "Lz4CompressionType \<noteq> GzipCompressionType"
  "XzCompressionType \<noteq> NoneCompressionType"
  "XzCompressionType \<noteq> ZstdCompressionType"
  "XzCompressionType \<noteq> Lz4CompressionType"
  "XzCompressionType \<noteq> GzipCompressionType"
  "GzipCompressionType \<noteq> NoneCompressionType"
  "GzipCompressionType \<noteq> ZstdCompressionType"
  "GzipCompressionType \<noteq> Lz4CompressionType"
  "GzipCompressionType \<noteq> XzCompressionType"
  using compression_types_distinct by (simp_all add: eq_commute)

lemma compressionTypes_eq:
  "compressionTypes =
     map (\<lambda>ct. (ct, ct)) [NoneCompressionType, ZstdCompressionType, Lz4CompressionType,
       XzCompressionType, GzipCompressionType]"
  by (simp add: compressionTypes_def compression_type_defs)

lemma map_of_diag: "map_of (map (\<lambda>x. (x, x)) xs) y = (if y \<in> set xs then Some y else None)"
  by (induction xs) auto

lemma ParseCompressionType_eq:
  "ParseCompressionType s = (if known_type s then Ok s else Err ErrInvalidCompressionType)"
  unfolding ParseCompressionType_def compressionTypes_eq map_of_diag known_type_def by simp

lemma check_level_cases:
  "check_level dflt lo hi err c =
     (let lv = (case level c of None \<Rightarrow> dflt | Some l \<Rightarrow> l)
      in (if lo \<le> lv \<and> lv \<le> hi then None else Some err, c\<lparr>level := Some lv\<rparr>))"
  by (auto simp: check_level_def Let_def)

lemma Compression_validate_run [simp]:
  "Compression_validate \<lparr>compType = ZstdCompressionType, level = lv\<rparr> =
     check_level 3 1 22 ErrInvalidZstdLevel \<lparr>compType = ZstdCompressionType, level = lv\<rparr>"
  "Compression_validate \<lparr>compType = GzipCompressionType, level = lv\<rparr> =
     check_level 6 1 9 ErrInvalidGzipLevel \<lparr>compType = GzipCompressionType, level = lv\<rparr>"
  "Compression_validate \<lparr>compType = Lz4CompressionType, level = lv\<rparr> =
     check_level 0 0 9 ErrInvalidLz4Level \<lparr>compType = Lz4CompressionType, level = lv\<rparr>"
  "Compression_validate \<lparr>compType = NoneCompressionType, level = lv\<rparr> =
     (None, \<lparr>compType = NoneCompressionType, level = None\<rparr>)"
  "Compression_validate \<lparr>compType = XzCompressionType, level = lv\<rparr> =
     (None, \<lparr>compType = XzCompressionType, level = None\<rparr>)"
  by (simp_all add: Compression_validate_def level_defs)

lemma NewCompression_level:
  assumes "NewCompression ct lv = Ok c"
  shows "compType c = ct" and "known_type ct \<Longrightarrow> level_in_range c"
    and "NewCompression ct (level c) = Ok c"
proof -
  consider "ct = ZstdCompressionType" | "ct = GzipCompressionType" | "ct = Lz4CompressionType"
    | "ct = NoneCompressionType" | "ct = XzCompressionType" | "\<not> known_type ct"
    by (auto simp: known_type_def)
  note cs = this
  show "compType c = ct"
    using assms by (cases rule: cs)
      (auto simp: NewCompression_def check_level_cases Let_def Compression_validate_def known_type_def
        split: if_splits)
  show "known_type ct \<Longrightarrow> level_in_range c"
    using assms by (cases rule: cs)
      (auto simp: NewCompression_def check_level_cases Let_def level_in_range_def split: if_splits)
  show "NewCompression ct (level c) = Ok c"
    using assms by (cases rule: cs)
      (auto simp: NewCompression_def check_level_cases Let_def Compression_validate_def known_type_def
        split: if_splits)
qed

end
