(* ===== verification/Go_Base64.thy ===== *)
theory Go_Base64
  imports Go_Strings
begin

section \<open>encoding/base64 and encoding/hex\<close>

text \<open>
  \<^verbatim>\<open>base64.StdEncoding\<close> (the symmetric key in the configuration is kept in this form),
  with its decoder: groups of four characters, padding in the last group only, line breaks skipped,
  trailing bits ignored as the encoding is not strict. And \<^verbatim>\<open>hex.EncodeToString\<close>.
\<close>

definition b64_alphabet :: string where
  "b64_alphabet = ''ABCDEFGHIJKLMNOPQRSTUVWXYZabcdefghijklmnopqrstuvwxyz0123456789+/''"

definition b64_char :: "nat \<Rightarrow> char" where
  "b64_char n = b64_alphabet ! n"

fun index_of :: "'a \<Rightarrow> 'a list \<Rightarrow> nat option" where
  "index_of x [] = None"
| "index_of x (y # ys) = (if x = y then Some 0 else map_option Suc (index_of x ys))"

definition b64_value :: "char \<Rightarrow> nat option" where
  "b64_value c = index_of c b64_alphabet"

fun b64_encode_nats :: "nat list \<Rightarrow> string" where
  "b64_encode_nats [] = []"
| "b64_encode_nats [a] = [b64_char (a div 4), b64_char (a mod 4 * 16), CHR ''='', CHR ''='']"
| "b64_encode_nats [a, b] =
     [b64_char (a div 4), b64_char (a mod 4 * 16 + b div 16), b64_char (b mod 16 * 4), CHR ''='']"
| "b64_encode_nats (a # b # c # rest) =
     b64_char (a div 4) # b64_char (a mod 4 * 16 + b div 16) # b64_char (b mod 16 * 4 + c div 64)
       # b64_char (c mod 64) # b64_encode_nats rest"

definition base64_EncodeToString :: "bytes \<Rightarrow> string" where
  "base64_EncodeToString bs = b64_encode_nats (map unat bs)"

fun b64_decode_nats :: "string \<Rightarrow> nat list option" where
  "b64_decode_nats [] = Some []"
| "b64_decode_nats (p # q # r # s # rest) =
     (case (b64_value p, b64_value q) of
        (Some a, Some b) \<Rightarrow>
          (case (b64_value r, b64_value s) of
             (Some c, Some d) \<Rightarrow>
               (case b64_decode_nats rest of
                  None \<Rightarrow> None
                | Some ns \<Rightarrow> Some ((a * 4 + b div 16) # (b mod 16 * 16 + c div 4) # (c mod 4 * 64 + d) # ns))
           | (Some c, None) \<Rightarrow>
               (if s = CHR ''='' \<and> rest = [] then Some [a * 4 + b div 16, b mod 16 * 16 + c div 4] else None)
           | (None, _) \<Rightarrow>
               (if r = CHR ''='' \<and> s = CHR ''='' \<and> rest = [] then Some [a * 4 + b div 16] else None))
      | _ \<Rightarrow> None)"
| "b64_decode_nats _ = None"

definition base64_DecodeString :: "string \<Rightarrow> bytes option" where
  "base64_DecodeString s =
     map_option (map of_nat) (b64_decode_nats (filter (\<lambda>c. c \<noteq> CHR 0x0A \<and> c \<noteq> CHR 0x0D) s))"

definition hex_alphabet :: string where
  "hex_alphabet = ''0123456789abcdef''"

definition hex_EncodeToString :: "bytes \<Rightarrow> string" where
  "hex_EncodeToString bs =
     concat (map (\<lambda>b. [hex_alphabet ! (unat b div 16), hex_alphabet ! (unat b mod 16)]) bs)"

lemma index_of_nth: "distinct xs \<Longrightarrow> n < length xs \<Longrightarrow> index_of (xs ! n) xs = Some n"
proof (induction xs arbitrary: n)
  case (Cons x xs)
  then show ?case by (cases n) auto
qed simp

lemma index_of_notin: "x \<notin> set xs \<Longrightarrow> index_of x xs = None"
  by (induction xs) auto

lemma b64_alphabet_facts:
  "length b64_alphabet = 64" "distinct b64_alphabet" "CHR ''='' \<notin> set b64_alphabet"
  "CHR 0x0A \<notin> set b64_alphabet" "CHR 0x0D \<notin> set b64_alphabet"
  by (simp_all add: b64_alphabet_def)

lemma b64_value_char [simp]: "n < 64 \<Longrightarrow> b64_value (b64_char n) = Some n"
  by (simp add: b64_value_def b64_char_def index_of_nth b64_alphabet_facts)

lemma b64_value_pad [simp]: "b64_value (CHR ''='') = None"
  by (simp add: b64_value_def index_of_notin b64_alphabet_facts)

lemma b64_char_in: "n < 64 \<Longrightarrow> b64_char n \<in> set b64_alphabet"
  by (simp add: b64_char_def b64_alphabet_facts)

lemma b64_char_plain: "n < 64 \<Longrightarrow> b64_char n \<noteq> CHR 0x0A \<and> b64_char n \<noteq> CHR 0x0D"
  using b64_char_in [of n] b64_alphabet_facts(4,5) by metis

text \<open>The arithmetic of one group: six-bit digits and back.\<close>

lemma b64_digits:
  fixes a b c :: nat
  assumes "a < 256" "b < 256" "c < 256"
  shows "a div 4 < 64" "a mod 4 * 16 < 64" "a mod 4 * 16 + b div 16 < 64"
    "b mod 16 * 4 < 64" "b mod 16 * 4 + c div 64 < 64" "c mod 64 < 64"
proof -
  have hi: "a div 4 < 64" "b div 16 < 16" "c div 64 < 4"
    using assms by (simp_all add: less_mult_imp_div_less)
  have lo: "a mod 4 \<le> 3" "b mod 16 \<le> 15"
    using mod_less_divisor [of 4 a] mod_less_divisor [of 16 b] by linarith+
  show "a div 4 < 64" by (rule hi)
  show "c mod 64 < 64" by simp
  show "a mod 4 * 16 < 64" "a mod 4 * 16 + b div 16 < 64"
    using lo(1) hi(2) by linarith+
  show "b mod 16 * 4 < 64" "b mod 16 * 4 + c div 64 < 64"
    using lo(2) hi(3) by linarith+
qed

lemma b64_group:
  fixes a b c :: nat
  assumes "a < 256" "b < 256" "c < 256"
  shows "a div 4 * 4 + (a mod 4 * 16 + b div 16) div 16 = a"
    "(a mod 4 * 16 + b div 16) mod 16 * 16 + (b mod 16 * 4 + c div 64) div 4 = b"
    "(b mod 16 * 4 + c div 64) mod 4 * 64 + c mod 64 = c"
    "a div 4 * 4 + a mod 4 * 16 div 16 = a"
    "(a mod 4 * 16 + b div 16) mod 16 * 16 + b mod 16 * 4 div 4 = b"
proof -
  have hi: "b div 16 < 16" "c div 64 < 4"
    using assms by (simp_all add: less_mult_imp_div_less)
  have ab: "(a mod 4 * 16 + b div 16) div 16 = a mod 4" "(a mod 4 * 16 + b div 16) mod 16 = b div 16"
    using hi(1) by simp_all
  have bc: "(b mod 16 * 4 + c div 64) div 4 = b mod 16" "(b mod 16 * 4 + c div 64) mod 4 = c div 64"
    using hi(2) by simp_all
  show "a div 4 * 4 + (a mod 4 * 16 + b div 16) div 16 = a"
    "(a mod 4 * 16 + b div 16) mod 16 * 16 + (b mod 16 * 4 + c div 64) div 4 = b"
    "(b mod 16 * 4 + c div 64) mod 4 * 64 + c mod 64 = c"
    "a div 4 * 4 + a mod 4 * 16 div 16 = a"
    "(a mod 4 * 16 + b div 16) mod 16 * 16 + b mod 16 * 4 div 4 = b"
    unfolding ab bc by simp_all
qed

lemma b64_decode_encode_nats:
  "(\<And>n. n \<in> set ns \<Longrightarrow> n < 256) \<Longrightarrow> b64_decode_nats (b64_encode_nats ns) = Some ns"
proof (induction ns rule: b64_encode_nats.induct)
  case (2 a)
  then have "a < 256" by simp
  note d = b64_digits [OF this this this] b64_group [OF this this this]
  show ?case using d by simp
next
  case (3 a b)
  then have "a < 256" "b < 256" by simp_all
  note d = b64_digits [OF this this(2)] b64_group [OF this this(2)]
  show ?case using d by simp
next
  case (4 a b c rest)
  then have "a < 256" "b < 256" "c < 256" by simp_all
  note d = b64_digits [OF this] b64_group [OF this]
  show ?case using 4 d by simp
qed simp

lemma b64_encode_plain:
  "(\<And>n. n \<in> set ns \<Longrightarrow> n < 256) \<Longrightarrow> x \<in> set (b64_encode_nats ns) \<Longrightarrow> x \<noteq> CHR 0x0A \<and> x \<noteq> CHR 0x0D"
proof (induction ns rule: b64_encode_nats.induct)
  case (2 a)
  then have "a < 256" by simp
  note d = b64_digits [OF this this this]
  show ?case using 2(2) b64_char_plain [OF d(1)] b64_char_plain [OF d(2)] by auto
next
  case (3 a b)
  then have "a < 256" "b < 256" by simp_all
  note d = b64_digits [OF this this(2)]
  show ?case using 3(2) b64_char_plain [OF d(1)] b64_char_plain [OF d(3)] b64_char_plain [OF d(4)]
    by auto
next
  case (4 a b c rest)
  then have "a < 256" "b < 256" "c < 256" by simp_all
  note d = b64_digits [OF this]
  have rest: "x \<in> set (b64_encode_nats rest) \<Longrightarrow> x \<noteq> CHR 0x0A \<and> x \<noteq> CHR 0x0D"
    using 4 by simp
  show ?case using 4(3) rest b64_char_plain [OF d(1)] b64_char_plain [OF d(3)]
      b64_char_plain [OF d(5)] b64_char_plain [OF d(6)] by auto
qed simp

lemma unat_byte_less: "unat (b :: byte) < 256"
proof -
  have "unat b < 2 ^ LENGTH(8)" by (rule unsigned_less)
  then show ?thesis by simp
qed

lemma base64_roundtrip [simp]: "base64_DecodeString (base64_EncodeToString bs) = Some bs"
proof -
  have small: "\<And>n. n \<in> set (map unat bs) \<Longrightarrow> n < 256"
    using unat_byte_less by auto
  have "filter (\<lambda>c. c \<noteq> CHR 0x0A \<and> c \<noteq> CHR 0x0D) (b64_encode_nats (map unat bs)) =
      b64_encode_nats (map unat bs)"
    using b64_encode_plain [OF small] by (intro filter_all_id) blast
  moreover have "b64_decode_nats (b64_encode_nats (map unat bs)) = Some (map unat bs)"
    using small by (rule b64_decode_encode_nats)
  ultimately show ?thesis
    unfolding base64_DecodeString_def base64_EncodeToString_def by (simp add: comp_def)
qed

lemma length_hex [simp]: "length (hex_EncodeToString bs) = 2 * length bs"
  by (induction bs) (auto simp: hex_EncodeToString_def)

lemma set_hex: "set (hex_EncodeToString bs) \<subseteq> set hex_alphabet"
proof -
  have "unat b div 16 < 16" for b :: byte
    using unat_byte_less [of b] by (simp add: less_mult_imp_div_less)
  moreover have "length hex_alphabet = 16" by (simp add: hex_alphabet_def)
  ultimately show ?thesis
    by (induction bs) (auto simp: hex_EncodeToString_def)
qed

end
