(* ===== verification/Crypto.thy ===== *)
theory Crypto
  imports Go_Base64 Go_OS
begin

section \<open>Cryptography: the primitives the program calls\<close>

text \<open>
  The hash, the cipher, the RSA scheme and the key encodings of Go's \<^verbatim>\<open>crypto\<close> packages are a
  parameter of the model, a record of functions. A random choice inside a primitive is made by a seed
  the caller draws. What the program relies on is stated as named predicates on the record, which
  the theorems that need them assume.
\<close>

record rsa_PublicKey =
  rsa_N :: nat
  rsa_E :: nat

record rsa_PrivateKey =
  rsa_PublicKey :: rsa_PublicKey
  rsa_D :: nat
  rsa_Primes :: "nat list"

datatype 'k parsed_key = RSAKey 'k | OtherKey

record crypto =
  sha256 :: "bytes \<Rightarrow> bytes"
  gcm_Seal :: "bytes \<Rightarrow> bytes \<Rightarrow> bytes \<Rightarrow> bytes"
  gcm_Open :: "bytes \<Rightarrow> bytes \<Rightarrow> bytes \<Rightarrow> bytes option"
  EncryptOAEP :: "nat \<Rightarrow> rsa_PublicKey \<Rightarrow> bytes \<Rightarrow> bytes outcome"
  DecryptOAEP :: "rsa_PrivateKey \<Rightarrow> bytes \<Rightarrow> bytes outcome"
  rsa_Generate :: "nat \<Rightarrow> nat \<Rightarrow> rsa_PrivateKey outcome"
  rsa_Validate :: "rsa_PrivateKey \<Rightarrow> error option"
  pem_Encode :: "string \<Rightarrow> bytes \<Rightarrow> bytes"
  pem_Decode :: "bytes \<Rightarrow> ((string \<times> bytes) \<times> bytes) option"
  MarshalPKCS8PrivateKey :: "rsa_PrivateKey \<Rightarrow> bytes outcome"
  MarshalPKIXPublicKey :: "rsa_PublicKey \<Rightarrow> bytes outcome"
  ParsePKCS8PrivateKey :: "bytes \<Rightarrow> rsa_PrivateKey parsed_key outcome"
  ParsePKIXPublicKey :: "bytes \<Rightarrow> rsa_PublicKey parsed_key outcome"
  ParsePKCS1PublicKey :: "bytes \<Rightarrow> rsa_PublicKey outcome"

text \<open>The name of an object: the hexadecimal SHA-256 of what is stored.\<close>

definition content_hash :: "crypto \<Rightarrow> bytes \<Rightarrow> string" where
  "content_hash c b = hex_EncodeToString (sha256 c b)"

text \<open>The documented behaviour of the primitives.\<close>

definition sha256_sized :: "crypto \<Rightarrow> bool" where
  "sha256_sized c \<longleftrightarrow> (\<forall>b. length (sha256 c b) = 32)"

definition gcm_correct :: "crypto \<Rightarrow> bool" where
  "gcm_correct c \<longleftrightarrow> (\<forall>k n p. length n = 12 \<longrightarrow> gcm_Open c k n (gcm_Seal c k n p) = Some p)"

text \<open>
  Decryption undoes encryption for a valid private key: one that \<^verbatim>\<open>Validate\<close> accepts, because its primes
  make up the modulus and its exponents are inverse to each other. Nothing is assumed of a record whose
  private part does not belong to its public part.
\<close>

definition oaep_correct :: "crypto \<Rightarrow> bool" where
  "oaep_correct c \<longleftrightarrow>
     (\<forall>seed priv m ct. rsa_Validate c priv = None \<longrightarrow> EncryptOAEP c seed (rsa_PublicKey priv) m = Ok ct \<longrightarrow>
        DecryptOAEP c priv ct = Ok m)"

lemma oaep_decrypts:
  "oaep_correct c \<Longrightarrow> rsa_Validate c priv = None \<Longrightarrow> EncryptOAEP c seed (rsa_PublicKey priv) m = Ok ct \<Longrightarrow>
   DecryptOAEP c priv ct = Ok m"
  unfolding oaep_correct_def by blast

definition pem_correct :: "crypto \<Rightarrow> bool" where
  "pem_correct c \<longleftrightarrow>
     (\<forall>t b. t = ''PUBLIC KEY'' \<or> t = ''PRIVATE KEY'' \<longrightarrow> pem_Decode c (pem_Encode c t b) = Some ((t, b), []))"

text \<open>The encodings of keys, of those keys that are generated.\<close>

definition pkcs8_correct :: "crypto \<Rightarrow> bool" where
  "pkcs8_correct c \<longleftrightarrow>
     (\<forall>seed bits k b. rsa_Generate c seed bits = Ok k \<longrightarrow> MarshalPKCS8PrivateKey c k = Ok b \<longrightarrow>
        ParsePKCS8PrivateKey c b = Ok (RSAKey k))"

definition pkix_correct :: "crypto \<Rightarrow> bool" where
  "pkix_correct c \<longleftrightarrow>
     (\<forall>seed bits k b. rsa_Generate c seed bits = Ok k \<longrightarrow> MarshalPKIXPublicKey c (rsa_PublicKey k) = Ok b \<longrightarrow>
        ParsePKIXPublicKey c b = Ok (RSAKey (rsa_PublicKey k)))"

lemma length_content_hash: "sha256_sized c \<Longrightarrow> length (content_hash c b) = 64"
  by (simp add: content_hash_def sha256_sized_def)

lemma hex_simple: "s \<noteq> [] \<Longrightarrow> set s \<subseteq> set hex_alphabet \<Longrightarrow> simple_comp s"
  by (auto simp: simple_comp_def hex_alphabet_def)

lemma set_content_hash: "set (content_hash c b) \<subseteq> set hex_alphabet"
  by (simp add: content_hash_def set_hex)

text \<open>An instance of the primitives, small enough to compute with: the witnesses use it.\<close>

definition toy_pad :: "bytes \<Rightarrow> bytes" where
  "toy_pad b = take 32 (b @ replicate 32 0)"

definition toy_Seal :: "bytes \<Rightarrow> bytes \<Rightarrow> bytes \<Rightarrow> bytes" where
  "toy_Seal k n p = rev p @ [sum_list p]"

definition toy_Open :: "bytes \<Rightarrow> bytes \<Rightarrow> bytes \<Rightarrow> bytes option" where
  "toy_Open k n ct =
     (if ct = [] then None else if last ct = sum_list (butlast ct) then Some (rev (butlast ct)) else None)"

definition toy_EncryptOAEP :: "nat \<Rightarrow> rsa_PublicKey \<Rightarrow> bytes \<Rightarrow> bytes outcome" where
  "toy_EncryptOAEP seed pub m = Ok (of_nat seed # of_nat (rsa_E pub) # m)"

definition toy_DecryptOAEP :: "rsa_PrivateKey \<Rightarrow> bytes \<Rightarrow> bytes outcome" where
  "toy_DecryptOAEP priv ct =
     (case ct of
        s # n # m \<Rightarrow> (if n = of_nat (rsa_D priv) then Ok m else Err (ErrText ''decryption''))
      | _ \<Rightarrow> Err (ErrText ''decryption''))"

definition toy_Generate :: "nat \<Rightarrow> nat \<Rightarrow> rsa_PrivateKey outcome" where
  "toy_Generate seed bits = Ok \<lparr>rsa_PublicKey = \<lparr>rsa_N = 2 ^ bits + seed, rsa_E = 3\<rparr>, rsa_D = 3, rsa_Primes = []\<rparr>"

definition toy_Validate :: "rsa_PrivateKey \<Rightarrow> error option" where
  "toy_Validate k = (if rsa_D k = rsa_E (rsa_PublicKey k) then None else Some (ErrText ''invalid exponents''))"

text \<open>The private exponent of a valid key is the public one. A key is written as one of its numbers in unary.\<close>

definition toy_pem_Encode :: "string \<Rightarrow> bytes \<Rightarrow> bytes" where
  "toy_pem_Encode t b = of_nat (length t) # b"

definition toy_pem_Decode :: "bytes \<Rightarrow> ((string \<times> bytes) \<times> bytes) option" where
  "toy_pem_Decode b =
     (case b of
        [] \<Rightarrow> None
      | t # r \<Rightarrow> Some ((if t = 10 then ''PUBLIC KEY'' else ''PRIVATE KEY'', r), []))"

definition toy_Marshal :: "nat \<Rightarrow> bytes outcome" where
  "toy_Marshal n = Ok (replicate n 1)"

text \<open>A modulus of 3072 bits, too large to be evaluated.\<close>

definition toy_modulus :: nat where
  "toy_modulus = 2 ^ 3071"

declare toy_modulus_def [code del]

definition toy_ParsePKIX :: "bytes \<Rightarrow> rsa_PublicKey parsed_key outcome" where
  "toy_ParsePKIX b = Ok (RSAKey \<lparr>rsa_N = toy_modulus, rsa_E = length b\<rparr>)"

definition toy_ParsePKCS8 :: "bytes \<Rightarrow> rsa_PrivateKey parsed_key outcome" where
  "toy_ParsePKCS8 b = Ok (RSAKey \<lparr>rsa_PublicKey = \<lparr>rsa_N = toy_modulus, rsa_E = length b\<rparr>, rsa_D = length b,
     rsa_Primes = []\<rparr>)"

definition toy_crypto :: crypto where
  "toy_crypto = \<lparr>
     sha256 = toy_pad,
     gcm_Seal = toy_Seal,
     gcm_Open = toy_Open,
     EncryptOAEP = toy_EncryptOAEP,
     DecryptOAEP = toy_DecryptOAEP,
     rsa_Generate = toy_Generate,
     rsa_Validate = toy_Validate,
     pem_Encode = toy_pem_Encode,
     pem_Decode = toy_pem_Decode,
     MarshalPKCS8PrivateKey = (\<lambda>k. toy_Marshal (rsa_D k)),
     MarshalPKIXPublicKey = (\<lambda>k. toy_Marshal (rsa_E k)),
     ParsePKCS8PrivateKey = toy_ParsePKCS8,
     ParsePKIXPublicKey = toy_ParsePKIX,
     ParsePKCS1PublicKey = (\<lambda>b. Err (ErrText ''parse''))\<rparr>"

lemma toy_sha256_sized: "sha256_sized toy_crypto"
proof -
  have "length (toy_pad b) = 32" for b
    unfolding toy_pad_def by (cases "length b \<le> 32") simp_all
  then show ?thesis by (simp add: sha256_sized_def toy_crypto_def)
qed

lemma toy_gcm_correct: "gcm_correct toy_crypto"
  by (simp add: gcm_correct_def toy_crypto_def toy_Seal_def toy_Open_def)

lemma toy_oaep_correct: "oaep_correct toy_crypto"
  by (auto simp: oaep_correct_def toy_crypto_def toy_EncryptOAEP_def toy_DecryptOAEP_def toy_Validate_def
      split: if_splits)

end
