(* ===== verification/Encryption.thy ===== *)
theory Encryption
  imports Crypto
begin

section \<open>The domain of encryption: keys, configuration and their services\<close>

text \<open>
  \<^verbatim>\<open>internal/domain/encryption\<close>: the encryption part of a repository's configuration,
  the two interfaces of the key repositories (records of operations here, so that a service is a
  function of the repositories it is given, as in the code), and the services that create a key pair,
  create an encryption configuration and decrypt the symmetric key.
\<close>

type_synonym ('z, 'a) os = "('z os_world_scheme, 'a) io"

definition DefaultEncryptionType :: string where "DefaultEncryptionType = ''aes-256-gcm''"
definition DefaultKeyEncryption :: string where "DefaultKeyEncryption = ''rsa-oaep-sha256''"

record EncryptionConfig =
  encryptionType :: string
  keyEncryption :: string
  encryptedKey :: string
  publicKeyFingerprint :: string
  generation :: uint64

definition NewEncryptionConfig :: "string \<Rightarrow> string \<Rightarrow> uint64 \<Rightarrow> EncryptionConfig" where
  "NewEncryptionConfig ek fp g =
     \<lparr>encryptionType = DefaultEncryptionType, keyEncryption = DefaultKeyEncryption,
      encryptedKey = ek, publicKeyFingerprint = fp, generation = g\<rparr>"

definition ChangeEncryptedKey :: "string \<Rightarrow> EncryptionConfig \<Rightarrow> EncryptionConfig" where
  "ChangeEncryptedKey k e = e\<lparr>encryptedKey := k\<rparr>"

definition ChangePublicKeyFingerPrint :: "string \<Rightarrow> EncryptionConfig \<Rightarrow> EncryptionConfig" where
  "ChangePublicKeyFingerPrint fp e = e\<lparr>publicKeyFingerprint := fp\<rparr>"

definition ChangeGeneration :: "uint64 \<Rightarrow> EncryptionConfig \<Rightarrow> EncryptionConfig" where
  "ChangeGeneration g e = e\<lparr>generation := g\<rparr>"

subsection \<open>The key repositories\<close>

record 'z AsymmetricKeyPairRepository =
  CreatePrivateKey :: "ctx \<Rightarrow> string \<Rightarrow> rsa_PrivateKey \<Rightarrow> ('z, unit) os"
  CreatePublicKey :: "ctx \<Rightarrow> string \<Rightarrow> rsa_PublicKey \<Rightarrow> ('z, unit) os"
  ReadRSAPublicKey :: "ctx \<Rightarrow> string \<Rightarrow> ('z, rsa_PublicKey) os"
  ReadRSAPrivateKey :: "ctx \<Rightarrow> string \<Rightarrow> ('z, rsa_PrivateKey) os"
  PublicKeyFingerPrint :: "ctx \<Rightarrow> rsa_PublicKey \<Rightarrow> ('z, string) os"

record 'z SymmetricKeyRepository =
  GenerateSymmetricKey :: "ctx \<Rightarrow> ('z, bytes) os"
  EncryptSymmetricKey :: "ctx \<Rightarrow> rsa_PublicKey \<Rightarrow> bytes \<Rightarrow> ('z, bytes) os"
  DecodeAndDecryptSymmetricKey :: "ctx \<Rightarrow> rsa_PrivateKey \<Rightarrow> string \<Rightarrow> ('z, bytes) os"

subsection \<open>Key pairs\<close>

record AsymmetricKeyPair =
  publicKey :: string
  privateKey :: string

definition generateKeyID :: "('z, string) os" where
  "generateKeyID =
     andThen (orWrap ''generate key ID'' (random_bytes 4)) (\<lambda>data. return (hex_EncodeToString data))"

definition NewAsymmetricKeyPair :: "string \<Rightarrow> ('z, AsymmetricKeyPair) os" where
  "NewAsymmetricKeyPair folder =
     andThen generateKeyID (\<lambda>i.
       return \<lparr>publicKey = folder @ ''/'' @ i @ ''-public.pem'',
               privateKey = folder @ ''/'' @ i @ ''-private.pem''\<rparr>)"

definition rsaKeySize :: nat where "rsaKeySize = 3072"

definition rsa_GenerateKey :: "crypto \<Rightarrow> nat \<Rightarrow> ('z, rsa_PrivateKey) os" where
  "rsa_GenerateKey c bits = sys (\<lambda>_. id) (\<lambda>w. (rsa_Generate c (entropy w (clock w)) bits, w))"

definition check :: "error option \<Rightarrow> ('w, unit) io" where
  "check e = (case e of None \<Rightarrow> return () | Some err \<Rightarrow> fail err)"

definition CreateAsymmetricKeyPair_Create ::
  "crypto \<Rightarrow> 'z AsymmetricKeyPairRepository \<Rightarrow> ctx \<Rightarrow> AsymmetricKeyPair \<Rightarrow> ('z, unit) os" where
  "CreateAsymmetricKeyPair_Create c repo ctx keyPairs =
     andThen (orWrap ''failed to generate private key'' (rsa_GenerateKey c rsaKeySize)) (\<lambda>priv.
     andThen (orWrap ''private key is invalid'' (check (rsa_Validate c priv))) (\<lambda>_.
     andThen (CreatePrivateKey repo ctx (privateKey keyPairs) priv) (\<lambda>_.
     CreatePublicKey repo ctx (publicKey keyPairs) (rsa_PublicKey priv))))"

subsection \<open>The encryption configuration of a new repository\<close>

text \<open>The deferred \<^verbatim>\<open>clear\<close> wipes the key from memory; no later step reads it.\<close>

definition CreateEncryptionConfig_Create ::
  "'z AsymmetricKeyPairRepository \<Rightarrow> 'z SymmetricKeyRepository \<Rightarrow> ctx \<Rightarrow> string \<Rightarrow>
   ('z, EncryptionConfig) os" where
  "CreateEncryptionConfig_Create akr skr ctx publicKeyPath =
     andThen (ReadRSAPublicKey akr ctx publicKeyPath) (\<lambda>pub.
     andThen (GenerateSymmetricKey skr ctx) (\<lambda>key.
     andThen (orWrap ''encrypt symmetric key'' (EncryptSymmetricKey skr ctx pub key)) (\<lambda>ek.
     andThen (PublicKeyFingerPrint akr ctx pub) (\<lambda>fp.
     return (NewEncryptionConfig (base64_EncodeToString ek) fp 1)))))"

subsection \<open>Decrypting the symmetric key\<close>

text \<open>
  The service keeps the key it has decrypted. Its field lives in the world: \<open>cached_key\<close> and
  \<open>store_key\<close> read and write it. The mutex makes the whole call one step.
\<close>

record 'z DecryptSymmetricKey =
  dsk_symmetricKeyRepository :: "'z SymmetricKeyRepository"
  dsk_asymmetricRepo :: "'z AsymmetricKeyPairRepository"
  cached_key :: "'z os_world_scheme \<Rightarrow> bytes"
  store_key :: "bytes \<Rightarrow> 'z os_world_scheme \<Rightarrow> 'z os_world_scheme"

definition DecryptSymmetricKey_Decrypt ::
  "'z DecryptSymmetricKey \<Rightarrow> ctx \<Rightarrow> string \<Rightarrow> string \<Rightarrow> ('z, bytes) os" where
  "DecryptSymmetricKey_Decrypt d ctx privateKeyPath encodedKey w =
     (if cached_key d w = [] then
        andThen (ReadRSAPrivateKey (dsk_asymmetricRepo d) ctx privateKeyPath) (\<lambda>priv.
        andThen (DecodeAndDecryptSymmetricKey (dsk_symmetricKeyRepository d) ctx priv encodedKey) (\<lambda>key.
        (\<lambda>w'. let w'' = store_key d key w' in (Ok (cached_key d w''), w'')))) w
      else (Ok (cached_key d w), w))"

end
