(* ===== verification/Keys.thy ===== *)
theory Keys
  imports Encryption
begin

section \<open>The infrastructure of encryption\<close>

text \<open>
  \<^verbatim>\<open>internal/infra/encrypt\<close> (the AES-GCM handler and the repository of symmetric keys)
  and \<^verbatim>\<open>internal/infra/disk/asymmetric_key_pair_repository.go\<close> (RSA keys in PEM files). Both
  repositories are given as records of the interfaces of \<^theory_text>\<open>Encryption\<close>. A nil key
  or writer has no counterpart: no caller passes one.
\<close>

subsection \<open>AES-GCM\<close>

definition AES256KeySize :: nat where "AES256KeySize = 32"
definition gcmNonceSize :: nat where "gcmNonceSize = 12"

text \<open>
  A reader is what reading it to the end yields: the bytes that came and the error that stopped
  them. \<^verbatim>\<open>Decode\<close> reads the nonce and then the rest.
\<close>

type_synonym 'w reader = "'w \<Rightarrow> (bytes \<times> error option) \<times> 'w"

definition AESGCM_Decode :: "crypto \<Rightarrow> 'w reader \<Rightarrow> bytes \<Rightarrow> ('w, bytes) io" where
  "AESGCM_Decode c source key w =
     (if length key \<notin> {16, 24, 32} then
        fail (Wrapped ''create AES cipher'' (ErrText ''crypto/aes: invalid key size'')) w
      else (case source w of ((got, err), w') \<Rightarrow>
        (if length got < gcmNonceSize then
           fail (Wrapped ''read nonce'' (case err of None \<Rightarrow> ErrText ''unexpected EOF'' | Some e \<Rightarrow> e)) w'
         else (case err of
           Some e \<Rightarrow> fail (Wrapped ''read encrypted data'' e) w'
         | None \<Rightarrow>
             (case gcm_Open c key (take gcmNonceSize got) (drop gcmNonceSize got) of
                None \<Rightarrow> fail (Wrapped ''decrypt data'' (ErrText ''cipher: message authentication failed'')) w'
              | Some plaintext \<Rightarrow> return plaintext w')))))"

text \<open>
  \<^verbatim>\<open>writeFull\<close> over a writer whose \<^verbatim>\<open>Write\<close> takes all of its argument or fails,
  as files and buffers do.
\<close>

definition writeFull :: "(bytes \<Rightarrow> ('w, unit) io) \<Rightarrow> bytes \<Rightarrow> ('w, unit) io" where
  "writeFull destination data = (if data = [] then return () else destination data)"

text \<open>
  \<^verbatim>\<open>Encode\<close> checks the key and collects what is written to it; its closer encrypts the
  collected bytes and writes nonce and ciphertext to the destination. The closer gives the bytes it
  has written; every caller calls it once.
\<close>

definition AESGCM_Encode :: "bytes \<Rightarrow> unit outcome" where
  "AESGCM_Encode key =
     (if length key \<noteq> AES256KeySize then Err (ErrText ''invalid AES-256 key size'') else Ok ())"

definition AESGCM_Close ::
  "crypto \<Rightarrow> bytes \<Rightarrow> bytes \<Rightarrow> (bytes \<Rightarrow> ('z, unit) os) \<Rightarrow> ('z, bytes) os" where
  "AESGCM_Close c key buffer destination =
     andThen (orWrap ''generate AES-GCM nonce'' (random_bytes gcmNonceSize)) (\<lambda>nonce.
     andThen (orWrap ''write AES-GCM nonce'' (writeFull destination nonce)) (\<lambda>_.
     andThen (orWrap ''write encrypted data'' (writeFull destination (gcm_Seal c key nonce buffer))) (\<lambda>_.
     return (nonce @ gcm_Seal c key nonce buffer))))"

subsection \<open>The symmetric key repository\<close>

definition SymmetricRepository_Decode ::
  "crypto \<Rightarrow> ctx \<Rightarrow> rsa_PrivateKey \<Rightarrow> string \<Rightarrow> ('z, bytes) os" where
  "SymmetricRepository_Decode c ctx priv encodedKey =
     andThen (ctxErr ctx) (\<lambda>_.
       (case base64_DecodeString encodedKey of
          None \<Rightarrow> fail (Wrapped ''decode encrypted symmetric key'' (ErrText ''illegal base64 data''))
        | Some ek \<Rightarrow>
            andThen (orWrap ''decrypt symmetric key'' (lift_outcome (DecryptOAEP c priv ek))) (\<lambda>key.
              if length key \<noteq> AES256KeySize then fail (ErrText ''invalid symmetric key size'')
              else return key)))"

definition SymmetricRepository_Encrypt ::
  "crypto \<Rightarrow> ctx \<Rightarrow> rsa_PublicKey \<Rightarrow> bytes \<Rightarrow> ('z, bytes) os" where
  "SymmetricRepository_Encrypt c ctx pub key =
     andThen (ctxErr ctx) (\<lambda>_.
       orWrap ''encrypt symmetric key'' (sys (\<lambda>_. id) (\<lambda>w. (EncryptOAEP c (entropy w (clock w)) pub key, w))))"

definition SymmetricRepository_Generate :: "ctx \<Rightarrow> ('z, bytes) os" where
  "SymmetricRepository_Generate ctx =
     andThen (ctxErr ctx) (\<lambda>_. orWrap ''generate symmetric key'' (random_bytes AES256KeySize))"

definition SymmetricRepository :: "crypto \<Rightarrow> 'z SymmetricKeyRepository" where
  "SymmetricRepository c =
     \<lparr>GenerateSymmetricKey = SymmetricRepository_Generate,
      EncryptSymmetricKey = SymmetricRepository_Encrypt c,
      DecodeAndDecryptSymmetricKey = SymmetricRepository_Decode c\<rparr>"

subsection \<open>RSA keys on disk\<close>

definition pem_PublicKey :: string where "pem_PublicKey = ''PUBLIC KEY''"
definition pem_RSAPublicKey :: string where "pem_RSAPublicKey = ''RSA PUBLIC KEY''"
definition pem_PrivateKey :: string where "pem_PrivateKey = ''PRIVATE KEY''"
definition MinimumRSAKeySizeInBit :: nat where "MinimumRSAKeySizeInBit = 2048"

fun BitLen :: "nat \<Rightarrow> nat" where
  "BitLen n = (if n = 0 then 0 else Suc (BitLen (n div 2)))"

declare BitLen.simps [simp del]

definition is_space :: "byte \<Rightarrow> bool" where
  "is_space b \<longleftrightarrow> b \<in> {0x09, 0x0A, 0x0B, 0x0C, 0x0D, 0x20}"

definition disk_ReadRSAPrivateKey :: "crypto \<Rightarrow> ctx \<Rightarrow> string \<Rightarrow> ('z, rsa_PrivateKey) os" where
  "disk_ReadRSAPrivateKey c ctx filePath =
     andThen (ctxErr ctx) (\<lambda>_.
     andThen (orWrap ''read private key'' (os_ReadFile filePath)) (\<lambda>data.
       if data = [] then fail (ErrText ''private key is required'')
       else (case pem_Decode c data of
         None \<Rightarrow> fail (ErrText ''invalid private key PEM'')
       | Some ((t, der), rest) \<Rightarrow>
           if t \<noteq> pem_PrivateKey then fail (ErrText ''unexpected PEM type'')
           else if dropWhile is_space rest \<noteq> [] then
             fail (ErrText ''unexpected data after private key PEM block'')
           else andThen (orWrap ''parse private key'' (lift_outcome (ParsePKCS8PrivateKey c der))) (\<lambda>key.
             (case key of
                OtherKey \<Rightarrow> fail (ErrText ''private key is not RSA'')
              | RSAKey priv \<Rightarrow>
                  andThen (orWrap ''validate private key'' (check (rsa_Validate c priv))) (\<lambda>_.
                  return priv))))))"

definition parse_public :: "crypto \<Rightarrow> string \<Rightarrow> bytes \<Rightarrow> rsa_PublicKey outcome" where
  "parse_public c t der =
     (if t = pem_PublicKey then
        (case ParsePKIXPublicKey c der of
           Err e \<Rightarrow> Err (Wrapped ''parse PKIX public key'' e)
         | Panic s \<Rightarrow> Panic s
         | Ok OtherKey \<Rightarrow> Err (ErrText ''public key is not an RSA key'')
         | Ok (RSAKey pub) \<Rightarrow> Ok pub)
      else if t = pem_RSAPublicKey then
        (case ParsePKCS1PublicKey c der of
           Err e \<Rightarrow> Err (Wrapped ''parse PKCS#1 public key'' e)
         | Panic s \<Rightarrow> Panic s
         | Ok pub \<Rightarrow> Ok pub)
      else Err (ErrText ''unsupported public key PEM type''))"

definition disk_ReadRSAPublicKey :: "crypto \<Rightarrow> ctx \<Rightarrow> string \<Rightarrow> ('z, rsa_PublicKey) os" where
  "disk_ReadRSAPublicKey c ctx filePath =
     andThen (ctxErr ctx) (\<lambda>_.
     andThen (orWrap ''read public key'' (os_ReadFile filePath)) (\<lambda>data.
       (case pem_Decode c data of
         None \<Rightarrow> fail (ErrText ''decode public key PEM: invalid PEM data'')
       | Some ((t, der), rest) \<Rightarrow>
           if rest \<noteq> [] then fail (ErrText ''decode public key PEM: unexpected trailing data'')
           else andThen (lift_outcome (parse_public c t der)) (\<lambda>pub.
             if BitLen (rsa_N pub) < MinimumRSAKeySizeInBit then
               fail (ErrText ''RSA public key must have at least 2048 bits'')
             else return pub))))"

definition base64_RawEncodeToString :: "bytes \<Rightarrow> string" where
  "base64_RawEncodeToString b = filter (\<lambda>ch. ch \<noteq> CHR ''='') (base64_EncodeToString b)"

definition disk_PublicKeyFingerPrint :: "crypto \<Rightarrow> ctx \<Rightarrow> rsa_PublicKey \<Rightarrow> ('z, string) os" where
  "disk_PublicKeyFingerPrint c ctx pub =
     andThen (ctxErr ctx) (\<lambda>_.
     andThen (orWrap ''marshal public key'' (lift_outcome (MarshalPKIXPublicKey c pub))) (\<lambda>der.
     return (''SHA256:'' @ base64_RawEncodeToString (sha256 c der))))"

definition keyfile_write :: "crypto \<Rightarrow> bytes \<Rightarrow> string \<Rightarrow> string \<Rightarrow> ('z, unit) os" where
  "keyfile_write c data filePath fileType = os_WriteFile filePath (pem_Encode c fileType data)"

definition createKey :: "crypto \<Rightarrow> ctx \<Rightarrow> string \<Rightarrow> string \<Rightarrow> bytes outcome \<Rightarrow> ('z, unit) os" where
  "createKey c ctx filePath keyType marshalled =
     andThen (ctxErr ctx) (\<lambda>_.
     andThen (orWrap ''create key directory'' (os_MkdirAll (Dir_of filePath))) (\<lambda>_.
     andThen (orWrap (''marshal '' @ keyType) (lift_outcome marshalled)) (\<lambda>data.
     orWrap (''write '' @ keyType) (keyfile_write c data filePath keyType))))"

definition disk_CreatePrivateKey :: "crypto \<Rightarrow> ctx \<Rightarrow> string \<Rightarrow> rsa_PrivateKey \<Rightarrow> ('z, unit) os" where
  "disk_CreatePrivateKey c ctx filePath priv =
     createKey c ctx filePath pem_PrivateKey (MarshalPKCS8PrivateKey c priv)"

definition disk_CreatePublicKey :: "crypto \<Rightarrow> ctx \<Rightarrow> string \<Rightarrow> rsa_PublicKey \<Rightarrow> ('z, unit) os" where
  "disk_CreatePublicKey c ctx filePath pub =
     createKey c ctx filePath pem_PublicKey (MarshalPKIXPublicKey c pub)"

definition DiskKeyPairRepository :: "crypto \<Rightarrow> 'z AsymmetricKeyPairRepository" where
  "DiskKeyPairRepository c =
     \<lparr>CreatePrivateKey = disk_CreatePrivateKey c,
      CreatePublicKey = disk_CreatePublicKey c,
      ReadRSAPublicKey = disk_ReadRSAPublicKey c,
      ReadRSAPrivateKey = disk_ReadRSAPrivateKey c,
      PublicKeyFingerPrint = disk_PublicKeyFingerPrint c\<rparr>"

end
