(* ===== verification/Repository.thy ===== *)
theory Repository
  imports Encryption Compression Go_OS_Facts
begin

section \<open>The domain of the repository\<close>

text \<open>
  \<^verbatim>\<open>internal/domain/repository\<close>: format versions, the configuration of a repository, the
  interface of the folder repositories, and the services that initialise a repository, read its
  configuration and rewrap its symmetric key. A pointer that can be nil is an option. A UUID is its
  bytes; of the \<^verbatim>\<open>uuid\<close> library the functions between them and text are used, and
  the making of a version 4 UUID from random bytes.
\<close>

subsection \<open>Format versions\<close>

type_synonym FormatVersion = int

definition FormatVersionOne :: FormatVersion where "FormatVersionOne = 1"
definition FormatVersionTwo :: FormatVersion where "FormatVersionTwo = 2"
definition CurrentFormatVersion :: FormatVersion where "CurrentFormatVersion = FormatVersionTwo"

definition ParseFormatVersion :: "int \<Rightarrow> FormatVersion" where
  "ParseFormatVersion v =
     (if v < FormatVersionOne \<or> v > CurrentFormatVersion then CurrentFormatVersion else v)"

subsection \<open>The configuration\<close>

type_synonym uuid = bytes

record uuid_lib =
  uuid_Parse :: "string \<Rightarrow> uuid outcome"
  uuid_String :: "uuid \<Rightarrow> string"
  uuid_V4 :: "bytes \<Rightarrow> uuid"

definition uuid_correct :: "uuid_lib \<Rightarrow> bool" where
  "uuid_correct u \<longleftrightarrow> (\<forall>i. length i = 16 \<longrightarrow> uuid_Parse u (uuid_String u i) = Ok i)"

text \<open>A new UUID; reading the random source does not fail (\<^verbatim>\<open>crypto/rand\<close> would end the process).\<close>

definition uuid_New :: "uuid_lib \<Rightarrow> ('z, uuid) os" where
  "uuid_New u w = (Ok (uuid_V4 u (map (\<lambda>i. of_nat (entropy w (Suc (clock w) + i))) [0..<16])), tick w)"

record Config =
  conf_id :: uuid
  formatVersion :: FormatVersion
  createdAt :: int
  compression :: "Compression option"
  encryption :: "EncryptionConfig option"

definition NewConfig ::
  "uuid \<Rightarrow> FormatVersion \<Rightarrow> Compression option \<Rightarrow> EncryptionConfig option \<Rightarrow> ('z, Config) os" where
  "NewConfig i v cmp enc =
     andThen time_Now (\<lambda>t.
       return \<lparr>conf_id = i, formatVersion = v, createdAt = t, compression = cmp, encryption = enc\<rparr>)"

subsection \<open>Repositories and their kinds\<close>

definition ObjectsFolder :: string where "ObjectsFolder = ''objects''"
definition SnapshotsFolder :: string where "SnapshotsFolder = ''snapshots''"
definition EncryptedFolder :: string where "EncryptedFolder = ''encrypted''"

definition ErrInvalidRepositoryName :: error where
  "ErrInvalidRepositoryName = ErrText ''invalid repository name''"
definition ErrMissingCRepositoryConfig :: error where
  "ErrMissingCRepositoryConfig = ErrText ''missing repository configuration''"

record Repository =
  path :: string
  config :: "Config option"

definition Repository_SnapshotsFolder :: "Repository \<Rightarrow> string" where
  "Repository_SnapshotsFolder r = path r @ ''/'' @ SnapshotsFolder"

definition Repository_ObjectsFolder :: "Repository \<Rightarrow> string" where
  "Repository_ObjectsFolder r = path r @ ''/'' @ ObjectsFolder"

definition Repository_validate :: "Repository \<Rightarrow> error option" where
  "Repository_validate r =
     (if path r = [] then Some ErrInvalidRepositoryName
      else if config r = None then Some ErrMissingCRepositoryConfig
      else None)"

definition NewRepository :: "string \<Rightarrow> Config option \<Rightarrow> Repository outcome" where
  "NewRepository p c =
     (let r = \<lparr>path = p, config = c\<rparr>
      in case Repository_validate r of Some e \<Rightarrow> Err e | None \<Rightarrow> Ok r)"

datatype RepositoryType = Local | Ssh | Smb | S3 | WebDAV | Gcs

definition ErrInvalidRepositoryPath :: error where
  "ErrInvalidRepositoryPath = ErrText ''invalid repository path''"

text \<open>
  \<open>url_Scheme\<close> is what the code takes of \<^verbatim>\<open>url.Parse\<close>: the scheme of the URL, or its
  error.
\<close>

definition ParseRepositoryType :: "(string \<Rightarrow> string outcome) \<Rightarrow> string \<Rightarrow> RepositoryType outcome" where
  "ParseRepositoryType url_Scheme raw =
     (case url_Scheme raw of
        Panic s \<Rightarrow> Panic s
      | Err _ \<Rightarrow> Err ErrInvalidRepositoryPath
      | Ok scheme \<Rightarrow>
          (if raw = [] then Err ErrInvalidRepositoryPath
           else if scheme = ''ssh'' \<or> scheme = ''sftp'' then Ok Ssh
           else if scheme = ''smb'' then Ok Smb
           else if scheme = ''s3'' then Ok S3
           else if scheme = ''http'' \<or> scheme = ''https'' \<or> scheme = ''webdav'' \<or> scheme = ''webdavs''
           then Ok WebDAV
           else if scheme = ''gcs'' then Ok Gcs
           else Ok Local))"

subsection \<open>The folder repository\<close>

record 'z FolderRepository =
  Exists :: "ctx \<Rightarrow> string \<Rightarrow> ('z, bool) os"
  CreateFolder :: "ctx \<Rightarrow> string \<Rightarrow> ('z, unit) os"
  CreateConfig :: "ctx \<Rightarrow> string \<Rightarrow> Config \<Rightarrow> ('z, unit) os"
  GetConfig :: "ctx \<Rightarrow> string \<Rightarrow> ('z, Config) os"

definition GetConfig_Get :: "'z FolderRepository \<Rightarrow> ctx \<Rightarrow> string \<Rightarrow> ('z, Config) os" where
  "GetConfig_Get repo ctx p = GetConfig repo ctx p"

subsection \<open>Initialisation\<close>

record InitResult =
  ID :: string
  Warnings :: "string list"

definition warning_removed :: string where
  "warning_removed = ''encryption configuration removed.'' @ [CHR 0x0A] @
     ''Existing encrypted objects may no longer be recoverable.''"

definition warning_preserved :: string where
  "warning_preserved = ''the repository already has encryption enabled.'' @ [CHR 0x0A] @
     ''The existing encryption configuration has been preserved.''"

definition chooseEncryption ::
  "EncryptionConfig option \<Rightarrow> EncryptionConfig option \<Rightarrow> bool \<Rightarrow> EncryptionConfig option \<times> string list" where
  "chooseEncryption previous new force =
     (if previous \<noteq> None \<and> new = None \<and> force then (new, [warning_removed])
      else if previous \<noteq> None \<and> new = None then (previous, [warning_preserved])
      else if previous \<noteq> None \<and> new \<noteq> None then (previous, [])
      else (new, []))"

definition updateConfig ::
  "Config \<Rightarrow> Config \<Rightarrow> bool \<Rightarrow> InitResult \<Rightarrow> ('z, Config \<times> InitResult) os" where
  "updateConfig previous newConfig force result =
     (case chooseEncryption (encryption previous) (encryption newConfig) force of (enc, warn) \<Rightarrow>
        andThen (NewConfig (conf_id previous) (formatVersion previous) (compression newConfig) enc) (\<lambda>conf.
        return (conf, result\<lparr>Warnings := Warnings result @ warn\<rparr>)))"

definition Init_Do ::
  "uuid_lib \<Rightarrow> 'z FolderRepository \<Rightarrow> ctx \<Rightarrow> Repository \<Rightarrow> bool \<Rightarrow> ('z, InitResult) os" where
  "Init_Do u repo ctx r force =
     andThen (Exists repo ctx (path r)) (\<lambda>existing.
     andThen (CreateFolder repo ctx (path r)) (\<lambda>_.
     (case config r of
        None \<Rightarrow> panic ''nil pointer dereference''
      | Some new \<Rightarrow>
          andThen
            (if existing then
               andThen (GetConfig repo ctx (path r)) (\<lambda>previous.
               updateConfig previous new force \<lparr>ID = [], Warnings = []\<rparr>)
             else return (new, \<lparr>ID = [], Warnings = []\<rparr>)) (\<lambda>(conf, result).
          andThen (CreateConfig repo ctx (path r) conf) (\<lambda>_.
          andThen (CreateFolder repo ctx (Repository_ObjectsFolder r)) (\<lambda>_.
          andThen (CreateFolder repo ctx (Repository_SnapshotsFolder r)) (\<lambda>_.
          return (result\<lparr>ID := uuid_String u (conf_id conf)\<rparr>))))))))"

subsection \<open>Rewrapping the symmetric key\<close>

text \<open>
  The configuration's encryption part is reached through a pointer: without encryption its first use
  is a nil dereference.
\<close>

definition Rewrap_Do ::
  "'z FolderRepository \<Rightarrow> 'z SymmetricKeyRepository \<Rightarrow> 'z AsymmetricKeyPairRepository \<Rightarrow> ctx \<Rightarrow>
   string \<Rightarrow> string \<Rightarrow> string \<Rightarrow> ('z, unit) os" where
  "Rewrap_Do fr skr akr ctx repositoryPath oldPrivateKeyPath newPublicKeyPath =
     andThen (GetConfig fr ctx repositoryPath) (\<lambda>conf.
     andThen (ReadRSAPrivateKey akr ctx oldPrivateKeyPath) (\<lambda>priv.
     (case encryption conf of
        None \<Rightarrow> panic ''nil pointer dereference''
      | Some enc \<Rightarrow>
          andThen (DecodeAndDecryptSymmetricKey skr ctx priv (encryptedKey enc)) (\<lambda>key.
          andThen (ReadRSAPublicKey akr ctx newPublicKeyPath) (\<lambda>pub.
          andThen (PublicKeyFingerPrint akr ctx pub) (\<lambda>fp.
          andThen (EncryptSymmetricKey skr ctx pub key) (\<lambda>ek.
          CreateConfig fr ctx repositoryPath
            (conf\<lparr>encryption := Some (ChangePublicKeyFingerPrint fp
              (ChangeEncryptedKey (base64_EncodeToString ek) enc))\<rparr>))))))))"

end
