(* ===== verification/Snapshot.thy ===== *)
theory Snapshot
  imports Repository Keys
begin

section \<open>The domain of snapshots: data, interfaces and the sequential services\<close>

text \<open>
  \<^verbatim>\<open>internal/domain/snapshot\<close>: chunks, files, manifests and results; the interfaces of
  the source, manifest and object repositories (records of operations); the hash calculators of the
  two format versions; the handling of the symmetric key; and the services that run without
  goroutines: listing, getting a manifest, restoring a snapshot or one file of it.
\<close>

subsection \<open>Data\<close>

definition ChunkThreshold :: int where "ChunkThreshold = 8 * 1024 * 1024"
definition ChunkSize :: int where "ChunkSize = 4 * 1024 * 1024"

record Chunk =
  chunk_hash :: string
  chunk_offset :: int
  chunk_size :: int

definition NewChunk :: "string \<Rightarrow> int \<Rightarrow> int \<Rightarrow> Chunk" where
  "NewChunk h off sz = \<lparr>chunk_hash = h, chunk_offset = off, chunk_size = sz\<rparr>"

record SnapFile =
  file_path :: string
  file_size :: int
  file_hash :: string
  file_chunks :: "Chunk list"

definition NewFile :: "string \<Rightarrow> int \<Rightarrow> SnapFile" where
  "NewFile p sz = \<lparr>file_path = p, file_size = sz, file_hash = [], file_chunks = []\<rparr>"

definition AddHash :: "string \<Rightarrow> SnapFile \<Rightarrow> SnapFile" where
  "AddHash h f = f\<lparr>file_hash := h\<rparr>"

definition AddChunks :: "Chunk list \<Rightarrow> SnapFile \<Rightarrow> SnapFile" where
  "AddChunks cs f = f\<lparr>file_chunks := cs\<rparr>"

definition ChangeSourcePath :: "string \<Rightarrow> string \<Rightarrow> SnapFile \<Rightarrow> SnapFile" where
  "ChangeSourcePath source destination f =
     f\<lparr>file_path := ReplaceAll (file_path f) source destination\<rparr>"

definition Hydrate :: "string \<Rightarrow> string \<Rightarrow> int \<Rightarrow> Chunk list \<Rightarrow> SnapFile \<Rightarrow> SnapFile" where
  "Hydrate p h sz cs f = f\<lparr>file_size := sz, file_path := p, file_hash := h, file_chunks := cs\<rparr>"

record Source =
  absolutePath :: string
  source_files :: "SnapFile list"

record Manifest =
  man_id :: string
  man_files :: "SnapFile list"
  man_createdAt :: int
  man_source :: string
  man_compression :: "Compression option"

definition NewManifest ::
  "string \<Rightarrow> SnapFile list \<Rightarrow> int \<Rightarrow> string \<Rightarrow> Compression option \<Rightarrow> Manifest" where
  "NewManifest i fs t src cmp =
     \<lparr>man_id = i, man_files = fs, man_createdAt = t, man_source = src, man_compression = cmp\<rparr>"

record ManifestResume =
  resume_id :: string
  resume_createdAt :: int
  resume_files :: int
  resume_size :: int
  resume_source :: string

record CreateResult =
  result_id :: string
  fileCount :: int
  totalSize :: int

record FailedResult =
  failed_path :: string
  reason :: string

record Result =
  snapshotID :: string
  totalFiles :: int
  failed :: "FailedResult list"

definition NewResult :: "string \<Rightarrow> Result" where
  "NewResult s = \<lparr>snapshotID = s, totalFiles = 0, failed = []\<rparr>"

definition AddFailed :: "FailedResult \<Rightarrow> Result \<Rightarrow> Result" where
  "AddFailed fr r = r\<lparr>failed := failed r @ [fr], totalFiles := totalFiles r + 1\<rparr>"

definition AddSuccess :: "Result \<Rightarrow> Result" where
  "AddSuccess r = r\<lparr>totalFiles := totalFiles r + 1\<rparr>"

definition IsSuccess :: "Result \<Rightarrow> bool" where
  "IsSuccess r \<longleftrightarrow> failed r = []"

subsection \<open>The interfaces\<close>

text \<open>
  A reader that must be closed: reading it to the end under a context (checked before each read), and
  closing it.
\<close>

record 'z ReadCloser =
  rc_Read :: "ctx \<Rightarrow> 'z os_world_scheme reader"
  rc_Close :: "('z, unit) os"

record 'z SourceRepository =
  Explore :: "ctx \<Rightarrow> string \<Rightarrow> ('z, Source) os"
  CalculateHash :: "ctx \<Rightarrow> string \<Rightarrow> Compression option \<Rightarrow> ('z, string) os"
  CalculateChunks :: "ctx \<Rightarrow> string \<Rightarrow> int \<Rightarrow> Compression option \<Rightarrow> ('z, Chunk list) os"

record 'z ManifestRepository =
  SaveManifest :: "ctx \<Rightarrow> Manifest \<Rightarrow> ('z, unit) os"
  ListManifests :: "ctx \<Rightarrow> ('z, Manifest list) os"
  GetManifest :: "ctx \<Rightarrow> string \<Rightarrow> ('z, Manifest) os"

record 'z ObjectRepository =
  SaveObject :: "ctx \<Rightarrow> string \<Rightarrow> string \<Rightarrow> Compression option \<Rightarrow> bytes \<Rightarrow> uint64 \<Rightarrow> ('z, unit) os"
  AlreadyExists :: "ctx \<Rightarrow> string \<Rightarrow> bytes \<Rightarrow> uint64 \<Rightarrow> ('z, bool) os"
  ReadObject :: "ctx \<Rightarrow> string \<Rightarrow> bytes \<Rightarrow> uint64 \<Rightarrow> ('z, 'z ReadCloser) os"
  RestoreObject :: "ctx \<Rightarrow> Compression option \<Rightarrow> SnapFile \<Rightarrow> bytes \<Rightarrow> uint64 \<Rightarrow> ('z, unit) os"
  SaveChunk :: "ctx \<Rightarrow> string \<Rightarrow> string \<Rightarrow> int \<Rightarrow> int \<Rightarrow> Compression option \<Rightarrow> bytes \<Rightarrow> uint64 \<Rightarrow> ('z, unit) os"
  ListEncryptedObjects :: "ctx \<Rightarrow> uint64 \<Rightarrow> ('z, string list) os"
  ReadEncryptedObject :: "ctx \<Rightarrow> string \<Rightarrow> uint64 \<Rightarrow> bytes \<Rightarrow> ('z, 'z ReadCloser) os"
  SaveRekeyedObject :: "ctx \<Rightarrow> string \<Rightarrow> 'z ReadCloser \<Rightarrow> uint64 \<Rightarrow> bytes \<Rightarrow> ('z, unit) os"
  DeleteEncryptedGeneration :: "ctx \<Rightarrow> uint64 \<Rightarrow> ('z, unit) os"
  AbortRekey :: "ctx \<Rightarrow> uint64 \<Rightarrow> ('z, unit) os"

subsection \<open>The hash calculators\<close>

definition ErrUnknownCalculator :: error where
  "ErrUnknownCalculator = ErrText ''unknown calculator''"

datatype HashCalculator = OneFormatVersion | TwoFormatVersion

definition HashCalculatorFactory_Handle :: "FormatVersion \<Rightarrow> HashCalculator outcome" where
  "HashCalculatorFactory_Handle v =
     (if v = FormatVersionOne then Ok OneFormatVersion
      else if v = FormatVersionTwo then Ok TwoFormatVersion
      else Err ErrUnknownCalculator)"

definition One_Calculate ::
  "'z SourceRepository \<Rightarrow> ctx \<Rightarrow> SnapFile \<Rightarrow> Compression option \<Rightarrow> ('z, SnapFile) os" where
  "One_Calculate src ctx file cmp =
     andThen (CalculateHash src ctx (file_path file) cmp) (\<lambda>h. return (AddHash h file))"

definition Two_Calculate ::
  "'z SourceRepository \<Rightarrow> ctx \<Rightarrow> SnapFile \<Rightarrow> Compression option \<Rightarrow> ('z, SnapFile) os" where
  "Two_Calculate src ctx file cmp =
     (if file_size file \<ge> ChunkThreshold then
        andThen (CalculateChunks src ctx (file_path file) ChunkSize cmp) (\<lambda>split.
        return (AddChunks split file))
      else
        andThen (CalculateHash src ctx (file_path file) cmp) (\<lambda>h.
        return (AddChunks [NewChunk h 0 (file_size file)] (AddHash h file))))"

fun Calculate ::
  "HashCalculator \<Rightarrow> 'z SourceRepository \<Rightarrow> ctx \<Rightarrow> SnapFile \<Rightarrow> Compression option \<Rightarrow> ('z, SnapFile) os" where
  "Calculate OneFormatVersion src ctx file cmp = One_Calculate src ctx file cmp"
| "Calculate TwoFormatVersion src ctx file cmp = Two_Calculate src ctx file cmp"

subsection \<open>The symmetric key of a command\<close>

definition ErrMissingEncryptionConfigToEncrypt :: error where
  "ErrMissingEncryptionConfigToEncrypt = ErrText ''missing encryption config to encrypt''"

record EncryptionData =
  data_generation :: uint64
  data_key :: bytes

definition SymmetricKeyHandler_Handle ::
  "'z FolderRepository \<Rightarrow> 'z DecryptSymmetricKey \<Rightarrow> ctx \<Rightarrow> string option \<Rightarrow> string \<Rightarrow>
   ('z, EncryptionData option) os" where
  "SymmetricKeyHandler_Handle fr dsk ctx privateKeyPath repositoryPath =
     (case privateKeyPath of
        None \<Rightarrow> return None
      | Some pk \<Rightarrow>
          andThen (GetConfig fr ctx repositoryPath) (\<lambda>conf.
          (case encryption conf of
             None \<Rightarrow> fail ErrMissingEncryptionConfigToEncrypt
           | Some enc \<Rightarrow>
               andThen (DecryptSymmetricKey_Decrypt dsk ctx pk (encryptedKey enc)) (\<lambda>key.
               return (Some \<lparr>data_generation = Encryption.generation enc, data_key = key\<rparr>)))))"

definition key_of :: "EncryptionData option \<Rightarrow> bytes" where
  "key_of d = (case d of None \<Rightarrow> [] | Some e \<Rightarrow> data_key e)"

definition generation_of :: "EncryptionData option \<Rightarrow> uint64" where
  "generation_of d = (case d of None \<Rightarrow> 0 | Some e \<Rightarrow> data_generation e)"

subsection \<open>Listing and reading manifests\<close>

fun sum_files :: "SnapFile list \<Rightarrow> int \<Rightarrow> int \<Rightarrow> int \<times> int" where
  "sum_files [] n sz = (n, sz)"
| "sum_files (f # fs) n sz = sum_files fs (i64 (n + 1)) (i64 (sz + file_size f))"

definition manifest_resume :: "Manifest \<Rightarrow> ManifestResume" where
  "manifest_resume m =
     (case sum_files (man_files m) 0 0 of (n, sz) \<Rightarrow>
        \<lparr>resume_id = man_id m, resume_createdAt = man_createdAt m, resume_files = n,
         resume_size = sz, resume_source = man_source m\<rparr>)"

definition Listing_List :: "'z ManifestRepository \<Rightarrow> ctx \<Rightarrow> ('z, ManifestResume list) os" where
  "Listing_List mr ctx =
     andThen (ListManifests mr ctx) (\<lambda>manifests. return (map manifest_resume manifests))"

definition GetManifest_Get :: "'z ManifestRepository \<Rightarrow> ctx \<Rightarrow> string \<Rightarrow> ('z, Manifest) os" where
  "GetManifest_Get mr ctx s = GetManifest mr ctx s"

subsection \<open>Restoring\<close>

definition redirected :: "string option \<Rightarrow> Manifest \<Rightarrow> SnapFile \<Rightarrow> SnapFile" where
  "redirected destinationPath man f =
     (case destinationPath of None \<Rightarrow> f | Some d \<Rightarrow> ChangeSourcePath (man_source man) d f)"

text \<open>The loop over the files: a failure is recorded and the next file is tried.\<close>

fun restore_files ::
  "'z ObjectRepository \<Rightarrow> ctx \<Rightarrow> Manifest \<Rightarrow> string option \<Rightarrow> bytes \<Rightarrow> uint64 \<Rightarrow> SnapFile list \<Rightarrow>
   Result \<Rightarrow> ('z, Result) os" where
  "restore_files orp ctx man dest key g [] result = return result"
| "restore_files orp ctx man dest key g (f # fs) result =
     (let f' = redirected dest man f
      in tryCatch (RestoreObject orp ctx (man_compression man) f' key g)
           (\<lambda>e. restore_files orp ctx man dest key g fs
              (AddFailed \<lparr>failed_path = file_path f', reason = error_string e\<rparr> result))
           (\<lambda>_. restore_files orp ctx man dest key g fs (AddSuccess result)))"

definition Restore_Restore ::
  "'z ManifestRepository \<Rightarrow> 'z ObjectRepository \<Rightarrow> 'z FolderRepository \<Rightarrow> 'z DecryptSymmetricKey \<Rightarrow>
   ctx \<Rightarrow> string \<Rightarrow> string \<Rightarrow> string option \<Rightarrow> string option \<Rightarrow> ('z, Result) os" where
  "Restore_Restore mr orp fr dsk ctx snapshot repositoryPath destinationPath privateKeyPath =
     andThen (SymmetricKeyHandler_Handle fr dsk ctx privateKeyPath repositoryPath) (\<lambda>d.
     andThen (GetManifest mr ctx snapshot) (\<lambda>man.
     restore_files orp ctx man destinationPath (key_of d) (generation_of d) (man_files man)
       (NewResult snapshot)))"

definition findFile :: "Manifest \<Rightarrow> string \<Rightarrow> SnapFile outcome" where
  "findFile man filePath =
     (case find (\<lambda>f. file_path f = filePath) (man_files man) of
        Some f \<Rightarrow> Ok f
      | None \<Rightarrow> Err (RestoreFileErr (''file not found: '' @ filePath)))"

definition RestoreFile_Restore ::
  "'z ManifestRepository \<Rightarrow> 'z ObjectRepository \<Rightarrow> 'z FolderRepository \<Rightarrow> 'z DecryptSymmetricKey \<Rightarrow>
   ctx \<Rightarrow> string \<Rightarrow> string \<Rightarrow> string \<Rightarrow> string option \<Rightarrow> string option \<Rightarrow> ('z, unit) os" where
  "RestoreFile_Restore mr orp fr dsk ctx snapshot filePath repositoryPath destinationPath privateKeyPath =
     andThen (SymmetricKeyHandler_Handle fr dsk ctx privateKeyPath repositoryPath) (\<lambda>d.
     andThen (GetManifest mr ctx snapshot) (\<lambda>man.
     andThen (lift_outcome (findFile man filePath)) (\<lambda>file.
     RestoreObject orp ctx (man_compression man) (redirected destinationPath man file)
       (key_of d) (generation_of d))))"

end
