(* ===== verification/Model.thy ===== *)
theory Model
  imports Snapshot
begin

section \<open>The stored forms of configuration and manifest\<close>

text \<open>
  \<^verbatim>\<open>internal/infra/model\<close> and \<^verbatim>\<open>internal/infra/codec\<close>: the structures that are
  written as JSON, and their translation from and to the domain. \<^verbatim>\<open>encoding/json\<close> and
  the formatting of times are parameters: the bytes made of a structure and the structure read from
  bytes. JSON text is Unicode: what the codec promises is limited to strings that are valid UTF-8
  (Go replaces other bytes by the replacement character).
\<close>

subsection \<open>UTF-8\<close>

definition cont_byte :: "nat \<Rightarrow> bool" where
  "cont_byte n \<longleftrightarrow> 128 \<le> n \<and> n < 192"

fun utf8_nats :: "nat list \<Rightarrow> bool" where
  "utf8_nats [] \<longleftrightarrow> True"
| "utf8_nats (a # xs) \<longleftrightarrow>
     (if a < 128 then utf8_nats xs
      else case xs of
        [] \<Rightarrow> False
      | b # ys \<Rightarrow>
          cont_byte b \<and>
          (if 194 \<le> a \<and> a < 224 then utf8_nats ys
           else case ys of
             [] \<Rightarrow> False
           | c # zs \<Rightarrow>
               cont_byte c \<and>
               (if 224 \<le> a \<and> a < 240 then
                  (a = 224 \<longrightarrow> 160 \<le> b) \<and> (a = 237 \<longrightarrow> b < 160) \<and> utf8_nats zs
                else case zs of
                  [] \<Rightarrow> False
                | d # us \<Rightarrow>
                    cont_byte d \<and> 240 \<le> a \<and> a < 245 \<and> (a = 240 \<longrightarrow> 144 \<le> b) \<and> (a = 244 \<longrightarrow> b < 144) \<and>
                    utf8_nats us)))"

definition utf8_valid :: "string \<Rightarrow> bool" where
  "utf8_valid s = utf8_nats (map of_char s)"

subsection \<open>The structures\<close>

record model_Compression =
  mc_Type :: string
  mc_Level :: "int option"

record model_Encryption =
  me_Type :: string
  me_KeyEncryption :: string
  me_EncryptedKey :: string
  me_PublicKeyFingerprint :: string
  me_Generation :: uint64

record model_Config =
  mco_ID :: string
  mco_FormatVersion :: int
  mco_CreatedAt :: string
  mco_Compression :: model_Compression
  mco_Encryption :: "model_Encryption option"

record model_Chunk =
  mch_Hash :: string
  mch_Size :: int
  mch_Offset :: int

record model_File =
  mf_Path :: string
  mf_Hash :: string
  mf_Size :: int
  mf_Chunks :: "model_Chunk list"

record model_Manifest =
  mm_ID :: string
  mm_Files :: "model_File list"
  mm_CreatedAt :: int
  mm_Source :: string
  mm_Compression :: model_Compression

definition ConfigFile :: string where "ConfigFile = ''config.json''"

record text_lib =
  config_MarshalIndent :: "model_Config \<Rightarrow> bytes outcome"
  config_Unmarshal :: "bytes \<Rightarrow> model_Config outcome"
  manifest_MarshalIndent :: "model_Manifest \<Rightarrow> bytes outcome"
  manifest_Unmarshal :: "bytes \<Rightarrow> model_Manifest outcome"
  Format_RFC3339 :: "int \<Rightarrow> string"
  Format_stamp :: "int \<Rightarrow> string"

text \<open>All that the program takes from outside its source and the file system.\<close>

record library =
  lib_codecs :: codecs
  lib_crypto :: crypto
  lib_uuid :: uuid_lib
  lib_text :: text_lib

subsection \<open>Configuration\<close>

definition BuildConfigDomain :: "library \<Rightarrow> model_Config \<Rightarrow> ('z, Config) os" where
  "BuildConfigDomain lib conf =
     andThen (orWrap ''failed to parse config id'' (lift_outcome (uuid_Parse (lib_uuid lib) (mco_ID conf)))) (\<lambda>i.
     andThen (orWrap ''failed to parse compression type''
       (lift_outcome (ParseCompressionType (mc_Type (mco_Compression conf))))) (\<lambda>ct.
     andThen (orWrap ''failed to create compression''
       (lift_outcome (NewCompression ct (mc_Level (mco_Compression conf))))) (\<lambda>c.
     NewConfig i (mco_FormatVersion conf) (Some c)
       (case mco_Encryption conf of
          None \<Rightarrow> None
        | Some e \<Rightarrow>
            Some (NewEncryptionConfig (me_EncryptedKey e) (me_PublicKeyFingerprint e) (me_Generation e))))))"

definition encryption_model :: "EncryptionConfig \<Rightarrow> model_Encryption" where
  "encryption_model e =
     \<lparr>me_Type = encryptionType e, me_KeyEncryption = keyEncryption e, me_EncryptedKey = encryptedKey e,
      me_PublicKeyFingerprint = publicKeyFingerprint e, me_Generation = Encryption.generation e\<rparr>"

definition compression_model :: "Compression \<Rightarrow> model_Compression" where
  "compression_model c = \<lparr>mc_Type = compType c, mc_Level = level c\<rparr>"

definition config_model :: "library \<Rightarrow> Config \<Rightarrow> Compression \<Rightarrow> model_Config" where
  "config_model lib c cmp =
     \<lparr>mco_ID = uuid_String (lib_uuid lib) (conf_id c), mco_FormatVersion = formatVersion c,
      mco_CreatedAt = Format_RFC3339 (lib_text lib) (createdAt c),
      mco_Compression = compression_model cmp,
      mco_Encryption = map_option encryption_model (encryption c)\<rparr>"

definition newline :: byte where "newline = 0x0A"

definition MarshalConfig :: "library \<Rightarrow> ctx \<Rightarrow> Config \<Rightarrow> ('z, bytes) os" where
  "MarshalConfig lib ctx c =
     andThen (ctxErr ctx) (\<lambda>_.
     (case compression c of
        None \<Rightarrow> panic ''nil pointer dereference''
      | Some cmp \<Rightarrow>
          andThen (orWrap ''marshal config''
            (lift_outcome (config_MarshalIndent (lib_text lib) (config_model lib c cmp)))) (\<lambda>data.
          return (data @ [newline]))))"

subsection \<open>Manifest\<close>

definition chunk_model :: "Chunk \<Rightarrow> model_Chunk" where
  "chunk_model c = \<lparr>mch_Hash = chunk_hash c, mch_Size = chunk_size c, mch_Offset = chunk_offset c\<rparr>"

definition file_model :: "SnapFile \<Rightarrow> model_File" where
  "file_model f =
     \<lparr>mf_Path = file_path f, mf_Hash = file_hash f, mf_Size = file_size f,
      mf_Chunks = map chunk_model (file_chunks f)\<rparr>"

definition manifest_model :: "Manifest \<Rightarrow> Compression \<Rightarrow> model_Manifest" where
  "manifest_model m cmp =
     \<lparr>mm_ID = man_id m, mm_Files = map file_model (man_files m), mm_CreatedAt = man_createdAt m,
      mm_Source = man_source m, mm_Compression = compression_model cmp\<rparr>"

definition chunk_domain :: "model_Chunk \<Rightarrow> Chunk" where
  "chunk_domain c = NewChunk (mch_Hash c) (mch_Offset c) (mch_Size c)"

definition file_domain :: "model_File \<Rightarrow> SnapFile" where
  "file_domain f =
     Hydrate (mf_Path f) (mf_Hash f) (mf_Size f) (map chunk_domain (mf_Chunks f)) (NewFile [] 0)"

definition BuildManifestDomain :: "library \<Rightarrow> bytes \<Rightarrow> Manifest outcome" where
  "BuildManifestDomain lib data =
     (case manifest_Unmarshal (lib_text lib) data of
        Err e \<Rightarrow> Err (Wrapped ''failed to unmarshal manifest'' e)
      | Panic s \<Rightarrow> Panic s
      | Ok mo \<Rightarrow>
          (case ParseCompressionType (mc_Type (mm_Compression mo)) of
             Err e \<Rightarrow> Err e
           | Panic s \<Rightarrow> Panic s
           | Ok ct \<Rightarrow>
               (case NewCompression ct (mc_Level (mm_Compression mo)) of
                  Err e \<Rightarrow> Err e
                | Panic s \<Rightarrow> Panic s
                | Ok c \<Rightarrow>
                    Ok (NewManifest (mm_ID mo) (map file_domain (mm_Files mo)) (mm_CreatedAt mo)
                      (mm_Source mo) (Some c)))))"

subsection \<open>What JSON promises\<close>

definition config_text_valid :: "model_Config \<Rightarrow> bool" where
  "config_text_valid c \<longleftrightarrow>
     utf8_valid (mco_ID c) \<and> utf8_valid (mco_CreatedAt c) \<and> utf8_valid (mc_Type (mco_Compression c)) \<and>
     (case mco_Encryption c of
        None \<Rightarrow> True
      | Some e \<Rightarrow>
          utf8_valid (me_Type e) \<and> utf8_valid (me_KeyEncryption e) \<and> utf8_valid (me_EncryptedKey e) \<and>
          utf8_valid (me_PublicKeyFingerprint e))"

definition manifest_text_valid :: "model_Manifest \<Rightarrow> bool" where
  "manifest_text_valid m \<longleftrightarrow>
     utf8_valid (mm_ID m) \<and> utf8_valid (mm_Source m) \<and> utf8_valid (mc_Type (mm_Compression m)) \<and>
     list_all (\<lambda>f. utf8_valid (mf_Path f) \<and> utf8_valid (mf_Hash f) \<and>
       list_all (\<lambda>c. utf8_valid (mch_Hash c)) (mf_Chunks f)) (mm_Files m)"

definition json_correct :: "text_lib \<Rightarrow> bool" where
  "json_correct t \<longleftrightarrow>
     (\<forall>c b. config_MarshalIndent t c = Ok b \<longrightarrow> config_text_valid c \<longrightarrow>
        config_Unmarshal t (b @ [newline]) = Ok c) \<and>
     (\<forall>m b. manifest_MarshalIndent t m = Ok b \<longrightarrow> manifest_text_valid m \<longrightarrow>
        manifest_Unmarshal t (b @ [newline]) = Ok m)"

subsection \<open>Round trips\<close>

lemma chunk_domain_model [simp]: "chunk_domain (chunk_model c) = c"
  by (cases c) (simp add: chunk_domain_def chunk_model_def NewChunk_def)

lemma file_domain_model [simp]: "file_domain (file_model f) = f"
  by (cases f) (simp add: file_domain_def file_model_def Hydrate_def NewFile_def comp_def)

text \<open>A compression configuration as \<^verbatim>\<open>NewCompression\<close> makes them.\<close>

definition valid_compression :: "Compression \<Rightarrow> bool" where
  "valid_compression c \<longleftrightarrow> known_type (compType c) \<and> NewCompression (compType c) (level c) = Ok c"

lemma NewCompression_valid: "NewCompression ct lv = Ok c \<Longrightarrow> known_type ct \<Longrightarrow> valid_compression c"
  using NewCompression_level(1,3) [of ct lv c] by (simp add: valid_compression_def)

lemma BuildManifestDomain_model:
  assumes "json_correct (lib_text lib)"
    and "man_compression m = Some c" and "valid_compression c"
    and "manifest_text_valid (manifest_model m c)"
    and "manifest_MarshalIndent (lib_text lib) (manifest_model m c) = Ok b"
  shows "BuildManifestDomain lib (b @ [newline]) = Ok m"
proof -
  have "manifest_Unmarshal (lib_text lib) (b @ [newline]) = Ok (manifest_model m c)"
    using assms by (simp add: json_correct_def)
  moreover have "ParseCompressionType (compType c) = Ok (compType c)"
    using assms(3) by (simp add: ParseCompressionType_eq valid_compression_def)
  moreover have "NewManifest (man_id m) (man_files m) (man_createdAt m) (man_source m) (Some c) = m"
    using assms(2) by (cases m) (simp add: NewManifest_def)
  ultimately show ?thesis using assms(3)
    by (simp add: BuildManifestDomain_def manifest_model_def compression_model_def comp_def
        valid_compression_def)
qed

text \<open>
  A configuration that is written and read back: what is lost is the time of creation, which reading
  sets to the present.
\<close>

definition standard_encryption :: "EncryptionConfig option \<Rightarrow> bool" where
  "standard_encryption e \<longleftrightarrow>
     (case e of None \<Rightarrow> True
      | Some x \<Rightarrow> encryptionType x = DefaultEncryptionType \<and> keyEncryption x = DefaultKeyEncryption)"

definition storable :: "library \<Rightarrow> Config \<Rightarrow> bool" where
  "storable lib c \<longleftrightarrow>
     length (conf_id c) = 16 \<and> standard_encryption (encryption c) \<and>
     (\<exists>cmp. compression c = Some cmp \<and> valid_compression cmp \<and> config_text_valid (config_model lib c cmp))"

lemma encryption_domain_model:
  "standard_encryption e \<Longrightarrow>
   map_option (\<lambda>m. NewEncryptionConfig (me_EncryptedKey m) (me_PublicKeyFingerprint m) (me_Generation m))
     (map_option encryption_model e) = e"
  by (cases e) (auto simp: standard_encryption_def encryption_model_def NewEncryptionConfig_def)

lemma BuildConfigDomain_model:
  assumes "uuid_correct (lib_uuid lib)" and "storable lib c" and "compression c = Some cmp"
  shows "BuildConfigDomain lib (config_model lib c cmp) w =
    (Ok (c\<lparr>createdAt := int (entropy w (clock w))\<rparr>), tick w)"
proof -
  have "ParseCompressionType (compType cmp) = Ok (compType cmp)"
    and "NewCompression (compType cmp) (level cmp) = Ok cmp"
    and "uuid_Parse (lib_uuid lib) (uuid_String (lib_uuid lib) (conf_id c)) = Ok (conf_id c)"
    using assms by (auto simp: storable_def valid_compression_def ParseCompressionType_eq uuid_correct_def)
  moreover have "(case mco_Encryption (config_model lib c cmp) of
        None \<Rightarrow> None
      | Some e \<Rightarrow> Some (NewEncryptionConfig (me_EncryptedKey e) (me_PublicKeyFingerprint e) (me_Generation e)))
      = encryption c"
    using encryption_domain_model [of "encryption c"] assms(2)
    by (auto simp: storable_def config_model_def map_option_case split: option.splits)
  ultimately show ?thesis using assms(3)
    unfolding BuildConfigDomain_def
    by (cases c) (simp add: config_model_def compression_model_def NewConfig_def time_Now_def
        andThen_def tryCatch_def orWrap_def go_simps)
qed

lemma MarshalConfig_Ok:
  "MarshalConfig lib ctx c w = (Ok data, w') \<Longrightarrow>
     \<exists>cmp b. compression c = Some cmp \<and> config_MarshalIndent (lib_text lib) (config_model lib c cmp) = Ok b \<and>
       data = b @ [newline] \<and> \<not> ctx (clock w) \<and> w' = tick w"
  unfolding MarshalConfig_def
  by (auto simp: andThen_Ok_iff go_simps dest!: ctxErr_Ok split: option.splits)

end
