(* ===== verification/Objects.thy ===== *)
theory Objects
  imports Model
begin

section \<open>Where objects are kept and how a chunk is encoded\<close>

text \<open>
  \<^verbatim>\<open>internal/infra/object\<close> (the path of an object and of an encrypted generation, the
  hashes of a file, the encoder the remote repositories share) and
  \<^verbatim>\<open>internal/infra/chunkio\<close> (opening the source of a chunk).
\<close>

subsection \<open>Paths\<close>

record ObjectsPath =
  DirectoryPath :: string
  ObjectPath :: string

text \<open>
  \<^verbatim>\<open>path.Join\<close> and \<^verbatim>\<open>filepath.Join\<close> are the same function on Unix, and
  \<^verbatim>\<open>FromSlash\<close> is the identity: the flag for a remote repository makes no difference.
  A hash of less than two bytes is sliced out of range.
\<close>

definition GetObjectsPath :: "string \<Rightarrow> string \<Rightarrow> uint64 \<Rightarrow> bytes \<Rightarrow> bool \<Rightarrow> ObjectsPath outcome" where
  "GetObjectsPath repositoryPath hash g key isRemote =
     (let folder = (if length key > 0 then Join [ObjectsFolder, EncryptedFolder, FormatUint g] else ObjectsFolder)
      in if length hash < 2 then Panic ''slice bounds out of range''
         else (let directoryPath = Join [repositoryPath, folder, take 2 hash]
               in Ok \<lparr>DirectoryPath = directoryPath, ObjectPath = Join [directoryPath, drop 2 hash]\<rparr>))"

definition EncryptedGenerationPath :: "string \<Rightarrow> uint64 \<Rightarrow> bool \<Rightarrow> string" where
  "EncryptedGenerationPath repositoryPath g isRemote =
     Join [repositoryPath, ObjectsFolder, EncryptedFolder, FormatUint g]"

text \<open>The hashes of the objects that make up a file, in the order of its chunks.\<close>

fun chunk_hashes :: "Chunk list \<Rightarrow> string list outcome" where
  "chunk_hashes [] = Ok []"
| "chunk_hashes (c # cs) =
     (if length (chunk_hash c) < 3 then Err (ErrText ''invalid hash for chunk'')
      else (case chunk_hashes cs of Ok hs \<Rightarrow> Ok (chunk_hash c # hs) | r \<Rightarrow> r))"

definition GetHashes :: "SnapFile option \<Rightarrow> string list outcome" where
  "GetHashes obj =
     (case obj of
        None \<Rightarrow> Err (ErrText ''snapshot object is required'')
      | Some f \<Rightarrow>
          (if file_chunks f \<noteq> [] then chunk_hashes (file_chunks f)
           else if length (file_hash f) < 3 then Err (ErrText ''invalid object hash'')
           else Ok [file_hash f]))"

subsection \<open>The source of a chunk\<close>

definition file_len :: "node \<Rightarrow> int" where
  "file_len n = (case n of File b \<Rightarrow> int (length b) | _ \<Rightarrow> 0)"

definition is_regular :: "node \<Rightarrow> bool" where
  "is_regular n \<longleftrightarrow> (case n of File _ \<Rightarrow> True | _ \<Rightarrow> False)"

definition OpenSource ::
  "string \<Rightarrow> string \<Rightarrow> int \<Rightarrow> int \<Rightarrow> Compression option \<Rightarrow> ('z, fspath) os" where
  "OpenSource filePath hash offset sz cmp =
     (if cmp = None then fail (ErrText ''compression configuration is required'')
      else if length hash < 3 then fail (ErrText ''invalid o bject hash'')
      else if offset < 0 then fail (ErrText ''invalid chunk offset'')
      else if sz \<le> 0 then fail (ErrText ''invalid chunk size'')
      else andThen (orWrap ''open source file'' (os_Open filePath)) (\<lambda>source.
        tryCatch (os_FStat source)
          (\<lambda>e. andThen (ignoring (os_Close source)) (\<lambda>_. fail (Wrapped ''stat source file'' e)))
          (\<lambda>info.
            if \<not> is_regular info then
              andThen (ignoring (os_Close source)) (\<lambda>_. fail (ErrText ''not a regular file''))
            else if offset > file_len info \<or> sz > i64 (file_len info - offset) then
              andThen (ignoring (os_Close source)) (\<lambda>_. fail (ErrText ''chunk range exceeds file size''))
            else return source)))"

text \<open>\<^verbatim>\<open>io.NewSectionReader\<close> over an open file.\<close>

definition section_of :: "int \<Rightarrow> int \<Rightarrow> bytes \<Rightarrow> bytes" where
  "section_of off sz b = take (nat sz) (drop (nat off) b)"

subsection \<open>The encoder\<close>

definition validateHash :: "crypto \<Rightarrow> bytes \<Rightarrow> string \<Rightarrow> error option" where
  "validateHash c data expectedHash =
     (if content_hash c data \<noteq> expectedHash then Some (ErrText ''chunk hash mismatch'') else None)"

text \<open>The encryption of the bytes in memory.\<close>

definition copy_mem :: "ctx \<Rightarrow> bytes \<Rightarrow> ('z, bytes) os" where
  "copy_mem ctx data w =
     (case mem_stream ctx data w of
        ((got, None), w') \<Rightarrow> (Ok got, w')
      | ((got, Some e), w') \<Rightarrow> (Err e, w'))"

definition Encoder_encrypt :: "crypto \<Rightarrow> ctx \<Rightarrow> bytes \<Rightarrow> bytes \<Rightarrow> ('z, bytes) os" where
  "Encoder_encrypt c ctx data key =
     andThen (orWrap ''create encryption encoder'' (lift_outcome (AESGCM_Encode key))) (\<lambda>_.
       tryCatch (copy_mem ctx data)
         (\<lambda>e. andThen (ignoring (AESGCM_Close c key [] (\<lambda>_. return ()))) (\<lambda>_.
            fail (Wrapped ''write encryption input'' e)))
         (\<lambda>buffer. orWrap ''finish encryption'' (AESGCM_Close c key buffer (\<lambda>_. return ()))))"

definition Encoder_Encode ::
  "library \<Rightarrow> ctx \<Rightarrow> string \<Rightarrow> string \<Rightarrow> int \<Rightarrow> int \<Rightarrow> Compression option \<Rightarrow> bytes \<Rightarrow> fspath \<Rightarrow> ('z, bytes) os" where
  "Encoder_Encode lib ctx filePath hash offset sz cmp key source =
     andThen (ctxErr ctx) (\<lambda>_.
     (case cmp of
        None \<Rightarrow> fail (ErrText ''compression configuration is required'')
      | Some co \<Rightarrow>
          andThen (lift_outcome (GetHandler (compType co))) (\<lambda>handler.
          andThen (orWrap ''create compression encoder for chunk''
            (lift_outcome (Handler_Encode (lib_codecs lib) handler (level co)))) (\<lambda>enc w.
            (case stream ctx (section_of offset sz (content_at w source)) w of
               ((got, Some e), w') \<Rightarrow> fail (Wrapped ''compress chunk'' e) w'
             | ((got, None), w') \<Rightarrow>
                 andThen (check (validateHash (lib_crypto lib) (enc got) hash)) (\<lambda>_.
                   if key = [] then return (enc got)
                   else orWrap ''encrypt chunk'' (Encoder_encrypt (lib_crypto lib) ctx (enc got) key)) w')))))"

end
