(* ===== verification/Sample.thy ===== *)
theory Sample
  imports Objects
begin

section \<open>A small library to compute with\<close>

text \<open>
  Concrete functions for the parameters of the model, which satisfy what is assumed of them: codecs
  that can be undone, UUIDs written as their bytes, and a JSON that knows the documents of two short
  tables, whatever their time of creation. The witnesses run the program on them and on worlds of a few
  files, so they show that the hypotheses of the theorems can be met.
\<close>

lemma run_eq: "fst (m w) = r \<Longrightarrow> m w = (r, snd (m w))"
  by (rule prod_eqI) simp_all

lemma small_word: "k < 256 \<Longrightarrow> unat (word_of_nat k :: byte) = k"
  by (simp add: unsigned_of_nat take_bit_nat_eq_self)

text \<open>A run that ended in a result.\<close>

definition succeeded :: "'a outcome \<Rightarrow> bool" where
  "succeeded r \<longleftrightarrow> (case r of Ok x \<Rightarrow> True | _ \<Rightarrow> False)"

lemma succeeded: "succeeded (fst o') \<Longrightarrow> \<exists>x. o' = (Ok x, snd o')"
  by (cases o') (auto simp: succeeded_def split: outcome.splits)

subsection \<open>Codecs\<close>

definition toy_zstd_new :: "int \<Rightarrow> error option" where "toy_zstd_new l = None"
definition toy_lz4_new :: "Lz4CompressionLevel \<Rightarrow> error option" where "toy_lz4_new l = None"
definition toy_zstd :: "int \<Rightarrow> bytes \<Rightarrow> bytes" where "toy_zstd l b = rev b"
definition toy_gzip :: "int \<Rightarrow> bytes \<Rightarrow> bytes" where "toy_gzip l b = 31 # b"
definition toy_lz4 :: "Lz4CompressionLevel \<Rightarrow> bytes \<Rightarrow> bytes" where "toy_lz4 l b = 4 # b"
definition toy_xz :: "bytes \<Rightarrow> bytes" where "toy_xz b = 253 # b"
definition toy_dec_new :: "Handler \<Rightarrow> bytes \<Rightarrow> error option" where "toy_dec_new h b = None"

definition toy_dec :: "Handler \<Rightarrow> bytes \<Rightarrow> bytes \<times> error option" where
  "toy_dec h b = (if h = zstdHandler then (rev b, None) else (tl b, None))"

definition toy_codecs :: codecs where
  "toy_codecs = \<lparr>zstd_new = toy_zstd_new, zstd_run = toy_zstd, gzip_run = toy_gzip,
     lz4_new = toy_lz4_new, lz4_run = toy_lz4, xz_new = None, xz_run = toy_xz,
     dec_new = toy_dec_new, dec_run = toy_dec\<rparr>"

text \<open>What is assumed of codecs: a decoder undoes its encoder.\<close>

definition codecs_correct :: "codecs \<Rightarrow> bool" where
  "codecs_correct cs \<longleftrightarrow>
     (\<forall>h lv enc b. Handler_Encode cs h lv = Ok enc \<longrightarrow> Handler_Decode cs h (enc b) = Ok (b, None))"

lemma toy_codecs_correct: "codecs_correct toy_codecs"
  unfolding codecs_correct_def
proof (intro allI impI)
  fix h lv enc b assume "Handler_Encode toy_codecs h lv = Ok enc"
  then show "Handler_Decode toy_codecs h (enc b) = Ok (b, None)"
    by (cases h)
      (auto simp: toy_codecs_def none_Encode_def none_Decode_def zstd_Encode_def zstd_Decode_def
        gzip_Encode_def gzip_Decode_def lz4_Encode_def lz4_Decode_def xz_Encode_def xz_Decode_def
        toy_zstd_def toy_gzip_def toy_lz4_def toy_xz_def toy_dec_new_def toy_dec_def
        split: option.splits if_splits outcome.splits)
qed

subsection \<open>UUIDs\<close>

definition byte_of :: "char \<Rightarrow> byte" where "byte_of c = word_of_nat (of_char c)"
definition char_of_byte :: "byte \<Rightarrow> char" where "char_of_byte b = char_of (unat b)"

lemma char_of_byte_of [simp]: "char_of_byte (byte_of c) = c"
proof -
  have "of_char c < (256 :: nat)" by simp
  then have "unat (word_of_nat (of_char c) :: byte) = of_char c" by (rule small_word)
  then show ?thesis by (simp add: byte_of_def char_of_byte_def)
qed

lemma byte_of_char_of [simp]: "byte_of (char_of_byte b) = b"
proof -
  have "unat b < 256" by (rule unat_byte_less)
  then show ?thesis by (simp add: byte_of_def char_of_byte_def)
qed

definition toy_Parse :: "string \<Rightarrow> uuid outcome" where "toy_Parse s = Ok (map byte_of s)"
definition toy_String :: "uuid \<Rightarrow> string" where "toy_String u = map char_of_byte u"
definition toy_V4 :: "bytes \<Rightarrow> uuid" where "toy_V4 b = map (\<lambda>x. 65 + x mod 16) b"

definition toy_uuid :: uuid_lib where
  "toy_uuid = \<lparr>uuid_Parse = toy_Parse, uuid_String = toy_String, uuid_V4 = toy_V4\<rparr>"

lemma toy_uuid_correct: "uuid_correct toy_uuid"
  by (simp add: uuid_correct_def toy_uuid_def toy_Parse_def toy_String_def comp_def)

subsection \<open>JSON\<close>

text \<open>A document of the table is written as its number and the text of its time of creation.\<close>

fun number_in :: "'a list \<Rightarrow> 'a \<Rightarrow> nat \<Rightarrow> nat option" where
  "number_in [] x n = None"
| "number_in (y # ys) x n = (if x = y then Some n else number_in ys x (Suc n))"

lemma number_in_nth: "number_in ys x n = Some k \<Longrightarrow> n \<le> k \<and> k < n + length ys \<and> ys ! (k - n) = x"
proof (induction ys x n rule: number_in.induct)
  case (2 y ys x n)
  show ?case
  proof (cases "x = y")
    case False
    with 2 have "Suc n \<le> k \<and> k < Suc n + length ys \<and> ys ! (k - Suc n) = x" by simp
    then have "k - n = Suc (k - Suc n)" by linarith
    then show ?thesis using \<open>Suc n \<le> k \<and> k < Suc n + length ys \<and> ys ! (k - Suc n) = x\<close> by simp
  qed (use 2 in auto)
qed simp

definition config_Marshal :: "model_Config list \<Rightarrow> model_Config \<Rightarrow> bytes outcome" where
  "config_Marshal tab c =
     (case number_in tab (c\<lparr>mco_CreatedAt := []\<rparr>) 0 of
        None \<Rightarrow> Err (ErrText ''json'')
      | Some k \<Rightarrow> Ok (word_of_nat k # map byte_of (mco_CreatedAt c)))"

definition config_Parse :: "model_Config list \<Rightarrow> bytes \<Rightarrow> model_Config outcome" where
  "config_Parse tab b =
     (case b of
        [] \<Rightarrow> Err (ErrText ''json'')
      | k # t \<Rightarrow>
          (if unat k < length tab then Ok ((tab ! unat k)\<lparr>mco_CreatedAt := map char_of_byte (butlast t)\<rparr>)
           else Err (ErrText ''json'')))"

text \<open>A manifest's identifier and time of creation are written out as well.\<close>

definition manifest_key :: "model_Manifest \<Rightarrow> model_Manifest" where
  "manifest_key m = m\<lparr>mm_CreatedAt := 0, mm_ID := []\<rparr>"

definition manifest_Marshal :: "model_Manifest list \<Rightarrow> model_Manifest \<Rightarrow> bytes outcome" where
  "manifest_Marshal tab m =
     (case number_in tab (manifest_key m) 0 of
        None \<Rightarrow> Err (ErrText ''json'')
      | Some k \<Rightarrow>
          (if mm_CreatedAt m < 0 then Err (ErrText ''json'')
           else Ok (word_of_nat k # replicate (nat (mm_CreatedAt m)) 1 @ 0 # map byte_of (mm_ID m))))"

definition manifest_Parse :: "model_Manifest list \<Rightarrow> bytes \<Rightarrow> model_Manifest outcome" where
  "manifest_Parse tab b =
     (case b of
        [] \<Rightarrow> Err (ErrText ''json'')
      | k # t \<Rightarrow>
          (if unat k < length tab then
             Ok ((tab ! unat k)\<lparr>mm_CreatedAt := int (length (takeWhile (\<lambda>x. x = 1) t)),
               mm_ID := map char_of_byte (butlast (tl (dropWhile (\<lambda>x. x = 1) t)))\<rparr>)
           else Err (ErrText ''json'')))"

lemma take_ones: "takeWhile (\<lambda>x. x = 1) (replicate n (1 :: byte) @ 0 # t) = replicate n 1"
  and drop_ones: "dropWhile (\<lambda>x. x = 1) (replicate n (1 :: byte) @ 0 # t) = 0 # t"
  by (induction n) simp_all

definition toy_time :: "int \<Rightarrow> string" where "toy_time t = show_nat (nat t)"

definition table_text :: "model_Config list \<Rightarrow> model_Manifest list \<Rightarrow> text_lib" where
  "table_text cs ms =
     \<lparr>config_MarshalIndent = config_Marshal cs, config_Unmarshal = config_Parse cs,
      manifest_MarshalIndent = manifest_Marshal ms, manifest_Unmarshal = manifest_Parse ms,
      Format_RFC3339 = toy_time, Format_stamp = toy_time\<rparr>"

lemma table_text_correct:
  assumes "length cs < 256" and "length ms < 256"
  shows "json_correct (table_text cs ms)"
  unfolding json_correct_def
proof (intro conjI allI impI)
  fix c b assume "config_MarshalIndent (table_text cs ms) c = Ok b"
  then obtain k where k: "number_in cs (c\<lparr>mco_CreatedAt := []\<rparr>) 0 = Some k"
    and b: "b = word_of_nat k # map byte_of (mco_CreatedAt c)"
    by (auto simp: table_text_def config_Marshal_def split: option.splits)
  from number_in_nth [OF k] assms(1) have "k < length cs" "cs ! k = c\<lparr>mco_CreatedAt := []\<rparr>" "k < 256" by auto
  then show "config_Unmarshal (table_text cs ms) (b @ [newline]) = Ok c"
    by (simp add: table_text_def config_Parse_def b small_word comp_def)
next
  fix m b assume "manifest_MarshalIndent (table_text cs ms) m = Ok b"
  then obtain k where k: "number_in ms (manifest_key m) 0 = Some k" and t: "0 \<le> mm_CreatedAt m"
    and b: "b = word_of_nat k # replicate (nat (mm_CreatedAt m)) 1 @ 0 # map byte_of (mm_ID m)"
    by (auto simp: table_text_def manifest_Marshal_def split: option.splits if_splits)
  from number_in_nth [OF k] assms(2) have "k < length ms" "ms ! k = manifest_key m" "k < 256" by auto
  then show "manifest_Unmarshal (table_text cs ms) (b @ [newline]) = Ok m"
    using t by (simp add: table_text_def manifest_Parse_def b small_word manifest_key_def comp_def
        take_ones drop_ones)
qed

definition table_lib :: "model_Config list \<Rightarrow> model_Manifest list \<Rightarrow> library" where
  "table_lib cs ms =
     \<lparr>lib_codecs = toy_codecs, lib_crypto = toy_crypto, lib_uuid = toy_uuid, lib_text = table_text cs ms\<rparr>"

abbreviation toy_lib :: library where "toy_lib \<equiv> table_lib [] []"

lemma table_lib_fields [simp]:
  "lib_codecs (table_lib cs ms) = toy_codecs" "lib_crypto (table_lib cs ms) = toy_crypto"
  "lib_uuid (table_lib cs ms) = toy_uuid" "lib_text (table_lib cs ms) = table_text cs ms"
  by (simp_all add: table_lib_def)

subsection \<open>Worlds\<close>

definition no_fault :: "nat \<Rightarrow> nat option" where "no_fault t = None"
definition fault_at :: "nat \<Rightarrow> nat \<Rightarrow> nat \<Rightarrow> nat option" where
  "fault_at n k t = (if t = n then Some k else None)"
definition toy_entropy :: "nat \<Rightarrow> nat" where "toy_entropy t = t"

definition toy_world :: "(fspath \<times> node) list \<Rightarrow> (nat \<Rightarrow> nat option) \<Rightarrow> os_world" where
  "toy_world ns f = \<lparr>nodes = ns, cwd = ''/'', clock = 0, faults = f, entropy = toy_entropy\<rparr>"

text \<open>A repository directory and a source directory with one file.\<close>

definition two_dirs :: "(fspath \<times> node) list" where
  "two_dirs = [([''r''], Dir), ([''s''], Dir), ([''s'', ''a''], File [1, 2, 3])]"

definition no_compression :: Compression where
  "no_compression = \<lparr>compType = NoneCompressionType, level = None\<rparr>"

definition toy_key :: bytes where "toy_key = replicate 32 7"

end
