(* ===== verification/Disk_Objects.thy ===== *)
theory Disk_Objects
  imports Objects
begin

section \<open>The object repository on disk\<close>

text \<open>
  \<^verbatim>\<open>internal/infra/disk/object_repository.go\<close>: saving, finding, reading and restoring
  objects in a directory, and the operations a rekey uses. \<open>root\<close> is the absolute path the
  repository was opened with. A \<^verbatim>\<open>defer\<close> is \<open>deferring\<close>; a flag such as
  \<^verbatim>\<open>writeCompleted\<close> is whether the body returned nil.
\<close>

subsection \<open>Writing through a compression encoder\<close>

text \<open>
  \<^verbatim>\<open>io.Copy\<close> from an open file into an encoder whose output goes to \<open>sink\<close>. The
  result is what was read, how much of the encoder's output had reached the sink by then, and the
  error. The handler without compression passes its input on at once, the others at a moment of
  their own choosing.
\<close>

definition encoder_copy ::
  "Handler \<Rightarrow> (bytes \<Rightarrow> bytes) \<Rightarrow> (bytes \<Rightarrow> ('z, unit) os) \<Rightarrow> 'z os_world_scheme reader \<Rightarrow>
   'z os_world_scheme \<Rightarrow> (bytes \<times> nat \<times> error option) \<times> 'z os_world_scheme" where
  "encoder_copy h enc sink source w =
     (case source w of ((got, e), w1) \<Rightarrow>
        (let k = (if h = noneHandler then length (enc got) else entropy w1 (clock w1))
         in case sink (take k (enc got)) w1 of
              (Ok _, w2) \<Rightarrow> ((got, k, e), w2)
            | (Err e', w2) \<Rightarrow> ((got, k, Some e'), w2)
            | (Panic s, w2) \<Rightarrow> ((got, k, Some ErrIO), w2)))"

text \<open>Closing the encoder: the rest of its output.\<close>

definition encoder_close ::
  "Handler \<Rightarrow> (bytes \<Rightarrow> bytes) \<Rightarrow> (bytes \<Rightarrow> ('z, unit) os) \<Rightarrow> bytes \<Rightarrow> nat \<Rightarrow> ('z, unit) os" where
  "encoder_close h enc sink got k = (if h = noneHandler then return () else sink (drop k (enc got)))"

text \<open>The destination of the compression: the file, or the buffer of the encryption writer.\<close>

definition output_of :: "bytes \<Rightarrow> fspath \<Rightarrow> bytes \<Rightarrow> ('z, unit) os" where
  "output_of key destination b = (if key = [] then os_Write destination b else return ())"

definition closeEncryption :: "library \<Rightarrow> bytes \<Rightarrow> bytes \<Rightarrow> fspath \<Rightarrow> ('z, unit) os" where
  "closeEncryption lib key buffer destination =
     (if key = [] then return ()
      else andThen (AESGCM_Close (lib_crypto lib) key buffer (os_Write destination)) (\<lambda>_. return ()))"

definition deref :: "'a option \<Rightarrow> ('w, 'a) io" where
  "deref p = (case p of None \<Rightarrow> panic ''nil pointer dereference'' | Some x \<Rightarrow> return x)"

subsection \<open>Looking for an object and reading it\<close>

definition disk_AlreadyExists :: "string \<Rightarrow> ctx \<Rightarrow> string \<Rightarrow> bytes \<Rightarrow> uint64 \<Rightarrow> ('z, bool) os" where
  "disk_AlreadyExists root ctx hash key g =
     andThen (ctxErr ctx) (\<lambda>_.
       if length hash < 3 then fail (ErrText ''invalid object hash'')
       else andThen (lift_outcome (GetObjectsPath root hash g key False)) (\<lambda>dest.
         tryCatch (os_Stat (ObjectPath dest))
           (\<lambda>e. if errors_Is e ErrNotExist then return False
                else fail (Wrapped ''check destination object'' e))
           (\<lambda>_. return True)))"

definition file_reader :: "fspath \<Rightarrow> 'z ReadCloser" where
  "file_reader h = \<lparr>rc_Read = (\<lambda>ctx. file_stream ctx h), rc_Close = os_Close h\<rparr>"

definition plain_reader :: "bytes \<Rightarrow> fspath \<Rightarrow> 'z ReadCloser" where
  "plain_reader b h = \<lparr>rc_Read = (\<lambda>ctx. mem_stream ctx b), rc_Close = os_Close h\<rparr>"

definition disk_ReadObject :: "library \<Rightarrow> string \<Rightarrow> ctx \<Rightarrow> string \<Rightarrow> bytes \<Rightarrow> uint64 \<Rightarrow> ('z, 'z ReadCloser) os" where
  "disk_ReadObject lib root ctx hash key g =
     andThen (ctxErr ctx) (\<lambda>_.
       if length hash < 3 then fail (ErrText ''invalid object hash'')
       else andThen (lift_outcome (GetObjectsPath root hash g key True)) (\<lambda>dest.
         tryCatch (os_Open (ObjectPath dest))
           (\<lambda>e. if errors_Is e ErrNotExist then fail (SnapshotNotFoundError hash)
                else fail (Wrapped ''open object'' e))
           (\<lambda>h. if key = [] then return (file_reader h)
                else tryCatch (AESGCM_Decode (lib_crypto lib) (file_stream background h) key)
                  (\<lambda>e. andThen (ignoring (os_Close h)) (\<lambda>_. fail (Wrapped ''decrypt object'' e)))
                  (\<lambda>b. return (plain_reader b h)))))"

subsection \<open>Saving an object\<close>

text \<open>From \<^verbatim>\<open>io.Copy\<close> on: the error of closing the encryption is dropped.\<close>

definition save_transfer ::
  "library \<Rightarrow> fspath \<Rightarrow> fspath \<Rightarrow> bytes \<Rightarrow> Handler \<Rightarrow> (bytes \<Rightarrow> bytes) \<Rightarrow> ('z, unit) os" where
  "save_transfer lib source destination key h enc w =
     (case encoder_copy h enc (output_of key destination) (file_stream background source) w of
        ((got, k, Some e), w') \<Rightarrow> fail (Wrapped ''copy object'' e) w'
      | ((got, k, None), w') \<Rightarrow>
          andThen (orWrap ''close destination file''
            (encoder_close h enc (output_of key destination) got k)) (\<lambda>_.
          ignoring (closeEncryption lib key (enc got) destination)) w')"

definition save_body ::
  "library \<Rightarrow> fspath \<Rightarrow> fspath \<Rightarrow> Compression option \<Rightarrow> bytes \<Rightarrow> ('z, unit) os" where
  "save_body lib source destination cmp key =
     andThen (deref cmp) (\<lambda>co.
     andThen (lift_outcome (GetHandler (compType co))) (\<lambda>h.
     andThen (if key = [] then return () else orWrap ''create encryption writer'' (lift_outcome (AESGCM_Encode key))) (\<lambda>_.
     tryCatch (lift_outcome (Handler_Encode (lib_codecs lib) h (level co)))
       (\<lambda>e. andThen (ignoring (closeEncryption lib key [] destination)) (\<lambda>_. fail e))
       (\<lambda>enc. save_transfer lib source destination key h enc))))"

definition disk_Save ::
  "library \<Rightarrow> string \<Rightarrow> ctx \<Rightarrow> string \<Rightarrow> string \<Rightarrow> Compression option \<Rightarrow> bytes \<Rightarrow> uint64 \<Rightarrow> ('z, unit) os" where
  "disk_Save lib root ctx filePath hash cmp key g =
     andThen (ctxErr ctx) (\<lambda>_.
     andThen (lift_outcome (GetObjectsPath root hash g key False)) (\<lambda>dest.
     andThen (orWrap ''create object directory'' (os_MkdirAll (DirectoryPath dest))) (\<lambda>_.
     andThen (orWrap ''open source file'' (os_Open filePath)) (\<lambda>source.
     deferring
       (tryCatch (os_OpenExcl (ObjectPath dest))
          (\<lambda>e. if errors_Is e ErrExist then return () else fail (Wrapped ''create object file'' e))
          (\<lambda>destination.
             deferring (save_body lib source destination cmp key)
               (\<lambda>writeCompleted. andThen (ignoring (os_Close destination)) (\<lambda>_.
                  if writeCompleted then return () else ignoring (os_Remove (DirectoryPath dest))))))
       (\<lambda>_. ignoring (os_Close source))))))"

definition chunk_transfer ::
  "library \<Rightarrow> ctx \<Rightarrow> fspath \<Rightarrow> fspath \<Rightarrow> int \<Rightarrow> int \<Rightarrow> bytes \<Rightarrow> Handler \<Rightarrow> (bytes \<Rightarrow> bytes) \<Rightarrow> ('z, unit) os" where
  "chunk_transfer lib ctx source destination offset sz key h enc w =
     (case encoder_copy h enc (output_of key destination)
             (stream ctx (section_of offset sz (content_at w source))) w of
        ((got, k, Some e), w') \<Rightarrow>
          andThen (ignoring (encoder_close h enc (output_of key destination) got k)) (\<lambda>_.
          andThen (ignoring (closeEncryption lib key (enc got) destination)) (\<lambda>_.
          fail (Wrapped ''write chunk'' e))) w'
      | ((got, k, None), w') \<Rightarrow>
          andThen (orWrap ''finish chunk compression''
            (encoder_close h enc (output_of key destination) got k)) (\<lambda>_.
          andThen (orWrap ''finish chunk encryption'' (closeEncryption lib key (enc got) destination)) (\<lambda>_.
          orWrap ''close object'' (os_Close destination))) w')"

definition chunk_body ::
  "library \<Rightarrow> ctx \<Rightarrow> fspath \<Rightarrow> fspath \<Rightarrow> int \<Rightarrow> int \<Rightarrow> Compression option \<Rightarrow> bytes \<Rightarrow> ('z, unit) os" where
  "chunk_body lib ctx source destination offset sz cmp key =
     andThen (deref cmp) (\<lambda>co.
     andThen (lift_outcome (GetHandler (compType co))) (\<lambda>h.
     andThen (if key = [] then return () else orWrap ''create encryption writer'' (lift_outcome (AESGCM_Encode key))) (\<lambda>_.
     tryCatch (lift_outcome (Handler_Encode (lib_codecs lib) h (level co)))
       (\<lambda>e. andThen (ignoring (closeEncryption lib key [] destination)) (\<lambda>_. fail e))
       (\<lambda>enc. chunk_transfer lib ctx source destination offset sz key h enc))))"

definition disk_SaveChunk ::
  "library \<Rightarrow> string \<Rightarrow> ctx \<Rightarrow> string \<Rightarrow> string \<Rightarrow> int \<Rightarrow> int \<Rightarrow> Compression option \<Rightarrow> bytes \<Rightarrow> uint64 \<Rightarrow>
   ('z, unit) os" where
  "disk_SaveChunk lib root ctx filePath hash offset sz cmp key g =
     andThen (ctxErr ctx) (\<lambda>_.
     andThen (OpenSource filePath hash offset sz cmp) (\<lambda>source.
     deferring
       (andThen (lift_outcome (GetObjectsPath root hash g key False)) (\<lambda>dest.
        andThen (orWrap ''create object directory'' (os_MkdirAll (DirectoryPath dest))) (\<lambda>_.
        andThen (orWrap ''create object'' (os_Create (ObjectPath dest))) (\<lambda>destination.
        deferring (chunk_body lib ctx source destination offset sz cmp key)
          (\<lambda>success. andThen (ignoring (os_Close destination)) (\<lambda>_.
             if success then return () else ignoring (os_Remove (DirectoryPath dest))))))))
       (\<lambda>_. ignoring (os_Close source))))"

subsection \<open>Restoring a file\<close>

fun part_hashes :: "Chunk list \<Rightarrow> string list outcome" where
  "part_hashes [] = Ok []"
| "part_hashes (c # cs) =
     (if length (chunk_hash c) < 3 then Err (ErrText ''invalid hash for chunk'')
      else (case part_hashes cs of Ok hs \<Rightarrow> Ok (chunk_hash c # hs) | r \<Rightarrow> r))"

definition objectHashes :: "SnapFile \<Rightarrow> string list outcome" where
  "objectHashes f =
     (if file_chunks f \<noteq> [] then part_hashes (file_chunks f)
      else if length (file_hash f) < 3 then Err (ErrText ''invalid object hash'')
      else Ok [file_hash f])"

text \<open>
  The bytes of the object before they are decoded: read from the file, or decrypted from it and read
  from memory.
\<close>

definition object_source :: "library \<Rightarrow> ctx \<Rightarrow> fspath \<Rightarrow> bytes \<Rightarrow> ('z, bytes \<times> error option) os" where
  "object_source lib ctx source key =
     (if key = [] then (\<lambda>w. case file_stream ctx source w of (r, w') \<Rightarrow> (Ok r, w'))
      else andThen (orWrap ''decrypt object''
             (AESGCM_Decode (lib_crypto lib) (file_stream background source) key)) (\<lambda>b w.
           case mem_stream ctx b w of (r, w') \<Rightarrow> (Ok r, w')))"

text \<open>
  The copy to the destination: when the reading broke off, some of what could be decoded has been
  written.
\<close>

definition write_decoded ::
  "fspath \<Rightarrow> bytes \<times> error option \<Rightarrow> error option \<Rightarrow> ('z, int) os" where
  "write_decoded destination decoded readErr w =
     (case readErr of
        Some e \<Rightarrow>
          andThen (ignoring (os_Write destination (take (entropy w (clock w)) (fst decoded)))) (\<lambda>_. fail e) w
      | None \<Rightarrow>
          andThen (os_Write destination (fst decoded)) (\<lambda>_.
            case snd decoded of
              Some e \<Rightarrow> fail e
            | None \<Rightarrow> return (int (length (fst decoded)))) w)"

definition restoreObjectPart ::
  "library \<Rightarrow> string \<Rightarrow> ctx \<Rightarrow> Compression \<Rightarrow> string \<Rightarrow> fspath \<Rightarrow> bytes \<Rightarrow> uint64 \<Rightarrow> ('z, int) os" where
  "restoreObjectPart lib root ctx co hash destination key g =
     andThen (ctxErr ctx) (\<lambda>_.
     andThen (lift_outcome (GetObjectsPath root hash g key False)) (\<lambda>dest.
     andThen (orWrap ''open object'' (os_Open (ObjectPath dest))) (\<lambda>source.
     deferring
       (andThen (object_source lib ctx source key) (\<lambda>(raw, readErr).
        andThen (lift_outcome (GetHandler (compType co))) (\<lambda>h.
        andThen (orWrap ''decode object'' (lift_outcome (Handler_Decode (lib_codecs lib) h raw))) (\<lambda>decoded.
        orWrap ''read decoded object'' (write_decoded destination decoded readErr)))))
       (\<lambda>_. ignoring (os_Close source)))))"

fun restore_parts ::
  "library \<Rightarrow> string \<Rightarrow> ctx \<Rightarrow> Compression \<Rightarrow> fspath \<Rightarrow> bytes \<Rightarrow> uint64 \<Rightarrow> string list \<Rightarrow> int \<Rightarrow> ('z, int) os" where
  "restore_parts lib root ctx co destination key g [] restored = return restored"
| "restore_parts lib root ctx co destination key g (h # hs) restored =
     andThen (ctxErr ctx) (\<lambda>_.
     andThen (orWrap ''restore part'' (restoreObjectPart lib root ctx co h destination key g)) (\<lambda>written.
     restore_parts lib root ctx co destination key g hs (i64 (restored + written))))"

definition disk_RestoreObject ::
  "library \<Rightarrow> string \<Rightarrow> ctx \<Rightarrow> Compression option \<Rightarrow> SnapFile \<Rightarrow> bytes \<Rightarrow> uint64 \<Rightarrow> ('z, unit) os" where
  "disk_RestoreObject lib root ctx cmp obj key g =
     andThen (ctxErr ctx) (\<lambda>_.
     (case cmp of
        None \<Rightarrow> fail (ErrText ''compression configuration is required'')
      | Some co \<Rightarrow>
          andThen (lift_outcome (objectHashes obj)) (\<lambda>hashes.
          andThen (orWrap ''create destination directory'' (os_MkdirAll (Dir_of (file_path obj)))) (\<lambda>_.
          andThen (orWrap ''create restored file'' (os_Create (file_path obj))) (\<lambda>destination.
          deferring
            (andThen (restore_parts lib root ctx co destination key g hashes 0) (\<lambda>restored.
               if restored \<noteq> file_size obj then fail (ErrText ''restored size mismatch'')
               else orWrap ''close restored file'' (os_Close destination)))
            (\<lambda>restoreCompleted.
               if restoreCompleted then return ()
               else andThen (ignoring (os_Close destination)) (\<lambda>_.
                 ignoring (os_Remove (file_path obj)))))))))"

end
