(* ===== verification/Disk_Rekey.thy ===== *)
theory Disk_Rekey
  imports Disk_Objects
begin

section \<open>The object repository on disk: encrypted generations\<close>

text \<open>
  The operations of \<^verbatim>\<open>internal/infra/disk/object_repository.go\<close> that a change of the
  symmetric key uses: listing the objects of a generation, reading one, saving it under the new key
  through a temporary file, and deleting a generation. The last definition collects the operations
  into the interface of \<^theory_text>\<open>Snapshot\<close>.
\<close>

text \<open>One entry of the walk: its path below the generation's directory gives the hash.\<close>

definition walk_entry :: "ctx \<Rightarrow> fspath \<Rightarrow> fspath \<times> node \<Rightarrow> ('z, string list) os" where
  "walk_entry ctx base kv =
     andThen (ctxErr ctx) (\<lambda>_.
       if snd kv = Dir then return []
       else (case drop (length base) (fst kv) of
          [a, b] \<Rightarrow>
            (if length a \<noteq> 2 \<or> b = [] then fail (ErrText ''invalid encrypted object path'')
             else return [a @ b])
        | _ \<Rightarrow> fail (ErrText ''invalid encrypted object path'')))"

definition disk_ListEncryptedObjects :: "string \<Rightarrow> ctx \<Rightarrow> uint64 \<Rightarrow> ('z, string list) os" where
  "disk_ListEncryptedObjects root ctx g =
     andThen (ctxErr ctx) (\<lambda>_ w.
       (let generationPath = EncryptedGenerationPath root g False
        in tryCatch
             (andThen (os_WalkDir generationPath) (\<lambda>es.
                for_each (walk_entry ctx (resolve w generationPath)) es))
             (\<lambda>e. if errors_Is e ErrNotExist then return []
                  else fail (Wrapped ''list encrypted objects'' e))
             (\<lambda>hs. return (sort (concat hs)))) w)"

definition disk_ReadEncryptedObject ::
  "library \<Rightarrow> string \<Rightarrow> ctx \<Rightarrow> string \<Rightarrow> uint64 \<Rightarrow> bytes \<Rightarrow> ('z, 'z ReadCloser) os" where
  "disk_ReadEncryptedObject lib root ctx hash g key =
     andThen (ctxErr ctx) (\<lambda>_.
       if length hash < 3 then fail (ErrText ''invalid object hash'')
       else if key = [] then fail (ErrText ''symmetric key is required'')
       else tryCatch (os_Open (Join [EncryptedGenerationPath root g False, take 2 hash, drop 2 hash]))
         (\<lambda>e. if errors_Is e ErrNotExist then fail (Wrapped ''encrypted object not found'' e)
              else fail (Wrapped ''open encrypted object'' e))
         (\<lambda>source. tryCatch (AESGCM_Decode (lib_crypto lib) (file_stream background source) key)
            (\<lambda>e. andThen (ignoring (os_Close source)) (\<lambda>_. fail (Wrapped ''decrypt object'' e)))
            (\<lambda>b. return (plain_reader b source))))"

text \<open>
  What happens between the creation of the temporary file and its renaming. The plain bytes are hashed
  on their way into the encryption writer.
\<close>

definition rekey_body ::
  "library \<Rightarrow> ctx \<Rightarrow> string \<Rightarrow> 'z ReadCloser \<Rightarrow> bytes \<Rightarrow> fspath \<Rightarrow> string \<Rightarrow> ('z, unit) os" where
  "rekey_body lib ctx hash source key temp objectPath =
     andThen (orWrap ''create encryption encoder'' (lift_outcome (AESGCM_Encode key))) (\<lambda>_ w.
       (case rc_Read source background w of
          ((got, Some e), w') \<Rightarrow>
            andThen (ignoring (AESGCM_Close (lib_crypto lib) key got (os_Write temp))) (\<lambda>_.
            fail (Wrapped ''encrypt object'' e)) w'
        | ((got, None), w') \<Rightarrow>
            andThen (orWrap ''close encryption encoder''
              (AESGCM_Close (lib_crypto lib) key got (os_Write temp))) (\<lambda>_.
            if content_hash (lib_crypto lib) got \<noteq> hash then fail (ErrText ''rekey object hash mismatch'')
            else
              andThen (ctxErr ctx) (\<lambda>_.
              andThen (orWrap ''sync temporary encrypted object'' (os_Sync temp)) (\<lambda>_.
              andThen (orWrap ''close temporary encrypted object'' (os_Close temp)) (\<lambda>_.
              orWrap ''commit rekeyed object'' (os_Rename temp objectPath))))) w'))"

definition disk_SaveRekeyedObject ::
  "library \<Rightarrow> string \<Rightarrow> ctx \<Rightarrow> string \<Rightarrow> 'z ReadCloser \<Rightarrow> uint64 \<Rightarrow> bytes \<Rightarrow> ('z, unit) os" where
  "disk_SaveRekeyedObject lib root ctx hash source g key =
     andThen (ctxErr ctx) (\<lambda>_.
       if length hash < 3 then fail (ErrText ''invalid object hash'')
       else if key = [] then fail (ErrText ''symmetric key is required'')
       else
         (let generationPath = EncryptedGenerationPath root g False;
              directoryPath = Join [generationPath, take 2 hash];
              objectPath = Join [directoryPath, drop 2 hash]
          in andThen (orWrap ''create encrypted object directory'' (os_MkdirAll directoryPath)) (\<lambda>_.
             andThen (orWrap ''create temporary encrypted object''
               (os_CreateTemp directoryPath (''.'' @ drop 2 hash @ ''.rekey-''))) (\<lambda>temp.
             deferring (rekey_body lib ctx hash source key temp objectPath)
               (\<lambda>committed.
                  if committed then return ()
                  else andThen (ignoring (os_Close temp)) (\<lambda>_. ignoring (os_RemoveAt temp)))))))"

definition disk_DeleteEncryptedGeneration :: "string \<Rightarrow> ctx \<Rightarrow> uint64 \<Rightarrow> ('z, unit) os" where
  "disk_DeleteEncryptedGeneration root ctx g =
     andThen (ctxErr ctx) (\<lambda>_.
     andThen (orWrap ''delete encrypted generation''
       (os_RemoveAll (EncryptedGenerationPath root g False))) (\<lambda>_.
     ctxErr ctx))"

definition disk_AbortRekey :: "string \<Rightarrow> ctx \<Rightarrow> uint64 \<Rightarrow> ('z, unit) os" where
  "disk_AbortRekey root ctx g = orWrap ''abort rekey'' (disk_DeleteEncryptedGeneration root ctx g)"

subsection \<open>The repository\<close>

definition DiskObjectRepository :: "library \<Rightarrow> string \<Rightarrow> 'z ObjectRepository" where
  "DiskObjectRepository lib root =
     \<lparr>SaveObject = disk_Save lib root,
      AlreadyExists = disk_AlreadyExists root,
      ReadObject = disk_ReadObject lib root,
      RestoreObject = disk_RestoreObject lib root,
      SaveChunk = disk_SaveChunk lib root,
      ListEncryptedObjects = disk_ListEncryptedObjects root,
      ReadEncryptedObject = disk_ReadEncryptedObject lib root,
      SaveRekeyedObject = disk_SaveRekeyedObject lib root,
      DeleteEncryptedGeneration = disk_DeleteEncryptedGeneration root,
      AbortRekey = disk_AbortRekey root\<rparr>"

definition disk_NewObjectRepository :: "library \<Rightarrow> string \<Rightarrow> ('z, 'z ObjectRepository) os" where
  "disk_NewObjectRepository lib repositoryPath =
     andThen (orWrap ''resolve absolute path'' (filepath_Abs repositoryPath)) (\<lambda>absPath.
     return (DiskObjectRepository lib absPath))"

end
