(* ===== verification/Disk_Repositories.thy ===== *)
theory Disk_Repositories
  imports Disk_Rekey
begin

section \<open>Configuration, manifests and sources on disk\<close>

text \<open>
  \<^verbatim>\<open>folder_repository_repository.go\<close>, \<^verbatim>\<open>manifest_repository.go\<close> and
  \<^verbatim>\<open>source_explorer.go\<close> of \<^verbatim>\<open>internal/infra/disk\<close>, each collected into
  its interface.
\<close>

subsection \<open>The folder repository\<close>

definition absolute_path :: "string \<Rightarrow> ('z, string) os" where
  "absolute_path p = orWrap ''resolve absolute path'' (filepath_Abs p)"

definition disk_GetConfig :: "library \<Rightarrow> ctx \<Rightarrow> string \<Rightarrow> ('z, Config) os" where
  "disk_GetConfig lib ctx p =
     andThen (ctxErr ctx) (\<lambda>_.
     andThen (orWrap ''resolve absolute path'' (absolute_path p)) (\<lambda>absPath.
     tryCatch (os_ReadFile (Join [absPath, ConfigFile]))
       (\<lambda>e. if errors_Is e ErrNotExist then fail (RepositoryNotFoundError ''config file not found'')
            else fail (Wrapped ''failed to read config'' e))
       (\<lambda>data.
          andThen (orWrap ''failed to unmarshal config''
            (lift_outcome (config_Unmarshal (lib_text lib) data))) (\<lambda>conf.
          BuildConfigDomain lib conf))))"

definition disk_Exists :: "ctx \<Rightarrow> string \<Rightarrow> ('z, bool) os" where
  "disk_Exists ctx p =
     andThen (ctxErr ctx) (\<lambda>_.
     tryCatch (os_Stat p)
       (\<lambda>e. if errors_Is e ErrNotExist then return False else fail e)
       (\<lambda>info. return (info = Dir)))"

definition disk_CreateFolder :: "ctx \<Rightarrow> string \<Rightarrow> ('z, unit) os" where
  "disk_CreateFolder ctx p = andThen (ctxErr ctx) (\<lambda>_. os_MkdirAll p)"

definition disk_CreateConfig :: "library \<Rightarrow> ctx \<Rightarrow> string \<Rightarrow> Config \<Rightarrow> ('z, unit) os" where
  "disk_CreateConfig lib ctx p c =
     andThen (orWrap ''marshal config'' (MarshalConfig lib ctx c)) (\<lambda>data.
     orWrap ''write config'' (os_WriteFile (Join [p, ConfigFile]) data))"

definition DiskFolderRepository :: "library \<Rightarrow> 'z FolderRepository" where
  "DiskFolderRepository lib =
     \<lparr>Exists = disk_Exists, CreateFolder = disk_CreateFolder,
      CreateConfig = disk_CreateConfig lib, GetConfig = disk_GetConfig lib\<rparr>"

subsection \<open>The manifest repository\<close>

definition json_name :: "string \<Rightarrow> string" where
  "json_name s = s @ ''.json''"

definition disk_GetManifest :: "library \<Rightarrow> string \<Rightarrow> ctx \<Rightarrow> string \<Rightarrow> ('z, Manifest) os" where
  "disk_GetManifest lib root ctx snapshot =
     andThen (ctxErr ctx) (\<lambda>_.
     tryCatch (os_ReadFile (Join [Join [root, SnapshotsFolder], json_name snapshot]))
       (\<lambda>e. if errors_Is e ErrNotExist then fail (RepositoryNotFoundError ''manifest not found'')
            else fail (Wrapped ''failed to read manifest'' e))
       (\<lambda>data.
          andThen (orWrap ''failed to unmarshal manifest''
            (lift_outcome (manifest_Unmarshal (lib_text lib) data))) (\<lambda>_.
          lift_outcome (BuildManifestDomain lib data))))"

text \<open>
  Listing allocates one manifest per directory entry; a subdirectory keeps the zero value in its
  place. The order is by time of creation, the latest first.
\<close>

definition zero_Manifest :: Manifest where
  "zero_Manifest = \<lparr>man_id = [], man_files = [], man_createdAt = 0, man_source = [], man_compression = None\<rparr>"

definition read_entry :: "library \<Rightarrow> string \<Rightarrow> string \<times> node \<Rightarrow> ('z, Manifest) os" where
  "read_entry lib snapshotsPath entry =
     (if snd entry = Dir then return zero_Manifest
      else andThen (orWrap ''failed to read manifest'' (os_ReadFile (Join [snapshotsPath, fst entry]))) (\<lambda>data.
        lift_outcome (BuildManifestDomain lib data)))"

definition disk_ListManifests :: "library \<Rightarrow> string \<Rightarrow> ctx \<Rightarrow> ('z, Manifest list) os" where
  "disk_ListManifests lib root ctx =
     andThen (ctxErr ctx) (\<lambda>_.
     andThen (orWrap ''failed to read snapshots folder'' (os_ReadDir (Join [root, SnapshotsFolder]))) (\<lambda>es.
     andThen (for_each (read_entry lib (Join [root, SnapshotsFolder])) es) (\<lambda>manifests.
     return (sort_key (\<lambda>m. - man_createdAt m) manifests))))"

definition disk_SaveManifest :: "library \<Rightarrow> string \<Rightarrow> ctx \<Rightarrow> Manifest \<Rightarrow> ('z, unit) os" where
  "disk_SaveManifest lib root ctx m =
     andThen (ctxErr ctx) (\<lambda>_.
     andThen (deref (man_compression m)) (\<lambda>cmp.
     andThen (orWrap ''failed to marshal manifest''
       (lift_outcome (manifest_MarshalIndent (lib_text lib) (manifest_model m cmp)))) (\<lambda>data.
     os_WriteFile (Join [root @ ''/'' @ SnapshotsFolder, json_name (man_id m)]) (data @ [newline]))))"

definition DiskManifestRepository :: "library \<Rightarrow> string \<Rightarrow> 'z ManifestRepository" where
  "DiskManifestRepository lib root =
     \<lparr>SaveManifest = disk_SaveManifest lib root, ListManifests = disk_ListManifests lib root,
      GetManifest = disk_GetManifest lib root\<rparr>"

definition disk_NewManifestRepository :: "library \<Rightarrow> string \<Rightarrow> ('z, 'z ManifestRepository) os" where
  "disk_NewManifestRepository lib repositoryPath =
     andThen (absolute_path repositoryPath) (\<lambda>absPath. return (DiskManifestRepository lib absPath))"

subsection \<open>The source explorer\<close>

definition calculateReaderHash ::
  "library \<Rightarrow> 'z os_world_scheme reader \<Rightarrow> Compression \<Rightarrow> ('z, string) os" where
  "calculateReaderHash lib reader cmp =
     andThen (lift_outcome (GetHandler (compType cmp))) (\<lambda>h.
     andThen (lift_outcome (Handler_Encode (lib_codecs lib) h (level cmp))) (\<lambda>enc w.
       (case reader w of
          ((got, Some e), w') \<Rightarrow> fail (Wrapped ''compress data for hashing'' e) w'
        | ((got, None), w') \<Rightarrow> return (content_hash (lib_crypto lib) (enc got)) w')))"

definition disk_CalculateHash ::
  "library \<Rightarrow> ctx \<Rightarrow> string \<Rightarrow> Compression option \<Rightarrow> ('z, string) os" where
  "disk_CalculateHash lib ctx filePath cmp =
     andThen (orWrap ''open file'' (os_Open filePath)) (\<lambda>fi.
     deferring
       (andThen (deref cmp) (\<lambda>co. calculateReaderHash lib (file_stream ctx fi) co))
       (\<lambda>_. ignoring (os_Close fi)))"

text \<open>
  The loop over the offsets; \<^verbatim>\<open>int64\<close> additions wrap. It runs while the offset is below the
  file size, which a wrapped offset can be for ever: hence fuel, and the theorem that the number of
  chunks is enough of it.
\<close>

fun chunk_loop ::
  "nat \<Rightarrow> library \<Rightarrow> ctx \<Rightarrow> fspath \<Rightarrow> int \<Rightarrow> int \<Rightarrow> Compression \<Rightarrow> int \<Rightarrow> ('z, Chunk list option) os" where
  "chunk_loop 0 lib ctx h chunkSize fileSize cmp offset = return None"
| "chunk_loop (Suc n) lib ctx h chunkSize fileSize cmp offset =
     (if \<not> offset < fileSize then return (Some [])
      else andThen (ctxErr ctx) (\<lambda>_.
        (let remaining = i64 (fileSize - offset);
             currentSize = (if remaining < chunkSize then remaining else chunkSize)
         in andThen (orWrap ''calculate chunk hash''
              (calculateReaderHash lib
                (\<lambda>w. stream ctx (section_of offset currentSize (content_at w h)) w) cmp)) (\<lambda>hash.
            andThen (chunk_loop n lib ctx h chunkSize fileSize cmp (i64 (offset + chunkSize))) (\<lambda>rest.
            return (map_option (\<lambda>cs. NewChunk hash offset currentSize # cs) rest))))))"

text \<open>Go's division truncates.\<close>

definition go_quot :: "int \<Rightarrow> int \<Rightarrow> int" where
  "go_quot a b = (if a < 0 then - ((- a) div b) else a div b)"

definition enough_fuel :: "int \<Rightarrow> int \<Rightarrow> nat" where
  "enough_fuel chunkSize fileSize = Suc (nat ((fileSize + chunkSize - 1) div chunkSize))"

definition disk_CalculateChunks ::
  "library \<Rightarrow> ctx \<Rightarrow> string \<Rightarrow> int \<Rightarrow> Compression option \<Rightarrow> ('z, Chunk list) os" where
  "disk_CalculateChunks lib ctx filePath chunkSize cmp =
     (if chunkSize \<le> 0 then fail (ErrText ''chunk size must be greater than zero'')
      else (case cmp of
        None \<Rightarrow> fail (ErrText ''compression configuration is required'')
      | Some co \<Rightarrow>
          andThen (orWrap ''open file'' (os_Open filePath)) (\<lambda>file.
          deferring
            (andThen (orWrap ''stat file'' (os_FStat file)) (\<lambda>info.
             (let fileSize = file_len info
              in if go_quot (i64 (fileSize + chunkSize - 1)) chunkSize < 0
                 then panic ''makeslice: cap out of range''
                 else andThen (chunk_loop (enough_fuel chunkSize fileSize) lib ctx file chunkSize fileSize co 0)
                   (\<lambda>r. case r of Some cs \<Rightarrow> return cs | None \<Rightarrow> panic ''out of fuel''))))
            (\<lambda>_. ignoring (os_Close file)))))"

definition walked_file :: "string \<Rightarrow> fspath \<Rightarrow> fspath \<times> node \<Rightarrow> SnapFile list" where
  "walked_file root base kv =
     (case snd kv of
        File b \<Rightarrow> [NewFile (Join (root # drop (length base) (fst kv))) (int (length b))]
      | _ \<Rightarrow> [])"

definition readFiles :: "string \<Rightarrow> ('z, SnapFile list) os" where
  "readFiles root w =
     andThen (orWrap ''walk directory'' (os_WalkDir root)) (\<lambda>es.
     return (concat (map (walked_file root (resolve w root)) es))) w"

definition disk_Explore :: "ctx \<Rightarrow> string \<Rightarrow> ('z, Source) os" where
  "disk_Explore ctx sourcePath =
     andThen (ctxErr ctx) (\<lambda>_.
     andThen (orWrap ''resolve absolute path'' (absolute_path sourcePath)) (\<lambda>absPath.
     andThen (orWrap ''stat source path'' (os_Stat absPath)) (\<lambda>info.
       if info \<noteq> Dir then fail (ErrText ''source path is not a directory'')
       else andThen (orWrap ''read files'' (readFiles absPath)) (\<lambda>files.
         return \<lparr>absolutePath = absPath, source_files = files\<rparr>))))"

definition DiskSourceRepository :: "library \<Rightarrow> 'z SourceRepository" where
  "DiskSourceRepository lib =
     \<lparr>Explore = disk_Explore, CalculateHash = disk_CalculateHash lib,
      CalculateChunks = disk_CalculateChunks lib\<rparr>"

end
