(* ===== verification/Disk_Layout.thy ===== *)
theory Disk_Layout
  imports Disk_Repositories
begin

section \<open>The layout of a repository on disk\<close>

text \<open>
  Where the paths that the code puts together lead: the components of an object's path, of an encrypted
  generation, of the configuration and of a manifest. From this follows that different objects, and
  different generations, have different places.
\<close>

definition hash_ok :: "string \<Rightarrow> bool" where
  "hash_ok h \<longleftrightarrow> 3 \<le> length h \<and> set h \<subseteq> set hex_alphabet"

lemma hash_ok_content: "sha256_sized c \<Longrightarrow> hash_ok (content_hash c b)"
  by (simp add: hash_ok_def length_content_hash set_content_hash)

lemma hash_ok_parts: "hash_ok h \<Longrightarrow> simple_comp (take 2 h)" "hash_ok h \<Longrightarrow> simple_comp (drop 2 h)"
proof -
  assume h: "hash_ok h"
  then have ne: "take 2 h \<noteq> []" "drop 2 h \<noteq> []" by (auto simp: hash_ok_def)
  have "set (take 2 h) \<subseteq> set hex_alphabet" "set (drop 2 h) \<subseteq> set hex_alphabet"
    using h set_take_subset set_drop_subset unfolding hash_ok_def by fast+
  with ne show "simple_comp (take 2 h)" "simple_comp (drop 2 h)"
    by (simp_all add: hex_simple)
qed

lemma simple_folders [simp]:
  "simple_comp ObjectsFolder" "simple_comp SnapshotsFolder" "simple_comp EncryptedFolder"
  "simple_comp ConfigFile"
  by (simp_all add: simple_comp_def ObjectsFolder_def SnapshotsFolder_def EncryptedFolder_def ConfigFile_def)

definition folders :: "bytes \<Rightarrow> uint64 \<Rightarrow> string list" where
  "folders key g = (if key = [] then [ObjectsFolder] else [ObjectsFolder, EncryptedFolder, FormatUint g])"

definition object_at :: "string \<Rightarrow> bytes \<Rightarrow> uint64 \<Rightarrow> string \<Rightarrow> fspath" where
  "object_at root key g h = comps root @ folders key g @ [take 2 h, drop 2 h]"

definition generation_at :: "string \<Rightarrow> uint64 \<Rightarrow> fspath" where
  "generation_at root g = comps root @ [ObjectsFolder, EncryptedFolder, FormatUint g]"

lemma simple_folders_of: "c \<in> set (folders key g) \<Longrightarrow> simple_comp c"
  by (auto simp: folders_def split: if_splits)

lemma folders_nonempty: "folders key g \<noteq> []"
  by (simp add: folders_def)

lemma join_folders:
  "(if length key > 0 then Join [ObjectsFolder, EncryptedFolder, FormatUint g] else ObjectsFolder)
     = join_with ''/'' (folders key g)"
proof -
  have "Join [ObjectsFolder, EncryptedFolder, FormatUint g]
      = join_with ''/'' [ObjectsFolder, EncryptedFolder, FormatUint g]"
    by (rule Join_simple) auto
  then show ?thesis by (cases key) (simp_all add: folders_def)
qed

lemma comps_Join_simple1: "is_rooted p \<Longrightarrow> simple_comp c \<Longrightarrow> comps (Join [p, c]) = comps p @ [c]"
  using comps_Join [of p "[c]"] by simp

text \<open>The path of an object, and of its directory.\<close>

lemma GetObjectsPath_ok:
  assumes "is_rooted root" and "hash_ok h"
  shows "\<exists>dest. GetObjectsPath root h g key r = Ok dest \<and> is_rooted (DirectoryPath dest) \<and>
      is_rooted (ObjectPath dest) \<and> comps (DirectoryPath dest) = comps root @ folders key g @ [take 2 h] \<and>
      comps (ObjectPath dest) = object_at root key g h"
proof -
  let ?d = "Join [root, join_with ''/'' (folders key g), take 2 h]"
  have len: "\<not> length h < 2" using assms(2) by (simp add: hash_ok_def)
  have rd: "is_rooted ?d" using assms(1) by simp
  have cd: "comps ?d = comps root @ folders key g @ [take 2 h]"
    using assms hash_ok_parts(1) [OF assms(2)] simple_folders_of
    by (intro comps_Join_inner folders_nonempty) auto
  have "comps (Join [?d, drop 2 h]) = object_at root key g h"
    using rd hash_ok_parts(2) [OF assms(2)] by (simp add: comps_Join_simple1 cd object_at_def)
  with rd cd len show ?thesis
    by (simp add: GetObjectsPath_def Let_def join_folders del: length_greater_0_conv)
qed

lemma comps_EncryptedGenerationPath:
  assumes "is_rooted root"
  shows "comps (EncryptedGenerationPath root g r) = generation_at root g"
    and "is_rooted (EncryptedGenerationPath root g r)"
proof -
  have "comps (Join (root # [ObjectsFolder, EncryptedFolder, FormatUint g])) =
      comps root @ [ObjectsFolder, EncryptedFolder, FormatUint g]"
    using assms by (rule comps_Join) auto
  then show "comps (EncryptedGenerationPath root g r) = generation_at root g"
    by (simp add: EncryptedGenerationPath_def generation_at_def)
  show "is_rooted (EncryptedGenerationPath root g r)"
    using assms by (simp add: EncryptedGenerationPath_def)
qed

lemma object_at_nonempty [simp]: "object_at root key g h \<noteq> []"
  by (simp add: object_at_def)

lemma object_at_inj:
  assumes "object_at root key g h = object_at root key g h'"
  shows "h = h'"
proof -
  from assms have "take 2 h = take 2 h'" "drop 2 h = drop 2 h'" by (simp_all add: object_at_def)
  then show ?thesis by (metis append_take_drop_id)
qed

text \<open>
  Two generations never contain one another: \<^verbatim>\<open>1\<close> is no prefix of \<^verbatim>\<open>10\<close> as a
  component.
\<close>

lemma generation_prefix_iff: "prefix (generation_at root g) (generation_at root g') \<longleftrightarrow> g = g'"
  by (auto simp: generation_at_def FormatUint_inj)

lemma object_at_generation:
  "key \<noteq> [] \<Longrightarrow> object_at root key g h = generation_at root g @ [take 2 h, drop 2 h]"
  by (simp add: object_at_def generation_at_def folders_def)

lemma object_in_generation_iff:
  "key \<noteq> [] \<Longrightarrow> prefix (generation_at root g) (object_at root key g' h) \<longleftrightarrow> g = g'"
  by (auto simp: object_at_generation generation_at_def FormatUint_inj)

lemma plain_object_not_in_generation:
  assumes "hash_ok h"
  shows "\<not> prefix (generation_at root g) (object_at root [] g' h)"
proof -
  have "EncryptedFolder \<noteq> take 2 h"
  proof
    assume "EncryptedFolder = take 2 h"
    then have "length EncryptedFolder = length (take 2 h)" by (rule arg_cong)
    then show False by (simp add: EncryptedFolder_def)
  qed
  then show ?thesis by (auto simp: generation_at_def object_at_def folders_def)
qed

lemma comps_config: "is_rooted root \<Longrightarrow> comps (Join [root, ConfigFile]) = comps root @ [ConfigFile]"
  by (simp add: comps_Join_simple1)

lemma config_not_object: "object_at root key g h \<noteq> comps root @ [ConfigFile]"
  by (simp add: object_at_def folders_def)

end
