(* ===== verification/Disk_Object_Facts.thy ===== *)
theory Disk_Object_Facts
  imports Disk_Layout
begin

section \<open>Correctness of the object repository on disk\<close>

text \<open>
  What a call that returned has stored, found or restored, and which paths each operation can change.
\<close>

subsection \<open>Stored objects\<close>

text \<open>
  \<open>stored_as\<close>: the bytes of an object file for given content. \<open>object_content\<close> is the
  converse: what an object file holds under a key.
\<close>

definition stored_as :: "library \<Rightarrow> bytes \<Rightarrow> bytes \<Rightarrow> bytes \<Rightarrow> bool" where
  "stored_as lib key raw data \<longleftrightarrow>
     (if key = [] then raw = data
      else length key = AES256KeySize \<and>
        (\<exists>nonce. length nonce = gcmNonceSize \<and> raw = nonce @ gcm_Seal (lib_crypto lib) key nonce data))"

definition object_content :: "library \<Rightarrow> bytes \<Rightarrow> bytes \<Rightarrow> bytes option" where
  "object_content lib key raw =
     (if key = [] then Some raw
      else if length key \<notin> {16, 24, 32} \<or> length raw < gcmNonceSize then None
      else gcm_Open (lib_crypto lib) key (take gcmNonceSize raw) (drop gcmNonceSize raw))"

lemma stored_content:
  "gcm_correct (lib_crypto lib) \<Longrightarrow> stored_as lib key raw data \<Longrightarrow> object_content lib key raw = Some data"
  by (cases "key = []")
    (auto simp: stored_as_def object_content_def gcm_correct_def gcmNonceSize_def AES256KeySize_def)

subsection \<open>Running the pieces\<close>

lemma lookup_os_Close [simp]: "lookup (snd (os_Close h w)) q = lookup w q"
  and cwd_os_Close [simp]: "cwd (snd (os_Close h w)) = cwd w"
  using setsD(2,3) [OF sets_reads(4) [of "cwd w" "{}" h] refl] by auto

lemma AESGCM_Encode_Ok: "AESGCM_Encode key = Ok x \<longleftrightarrow> length key = AES256KeySize"
  by (cases x) (simp add: AESGCM_Encode_def)

lemma writeFull_Ok:
  "writeFull (os_Write q) b w = (Ok x, w') \<Longrightarrow> lookup w q = Some (File c) \<Longrightarrow>
   lookup w' q = Some (File (c @ b))"
  by (auto simp: writeFull_def return_Ok_iff os_Write_Ok split: if_splits)

lemma AESGCM_Close_Ok:
  assumes "AESGCM_Close cr key buf (os_Write q) w = (Ok out, w')" and "lookup w q = Some (File c)"
  shows "\<exists>nonce. length nonce = gcmNonceSize \<and> out = nonce @ gcm_Seal cr key nonce buf \<and>
    lookup w' q = Some (File (c @ out))"
proof -
  from assms(1) obtain nonce w1 w2 x y where n: "random_bytes gcmNonceSize w = (Ok nonce, w1)"
    and wr1: "writeFull (os_Write q) nonce w1 = (Ok x, w2)"
    and wr2: "writeFull (os_Write q) (gcm_Seal cr key nonce buf) w2 = (Ok y, w')"
    and out: "out = nonce @ gcm_Seal cr key nonce buf"
    by (auto simp: AESGCM_Close_def ok_iffs)
  from random_bytes_Ok [OF n] assms(2) have "length nonce = gcmNonceSize" "lookup w1 q = Some (File c)"
    by simp_all
  with writeFull_Ok [OF wr2 writeFull_Ok [OF wr1]] out show ?thesis by auto
qed

lemma encoder_copy_file:
  assumes "encoder_copy h enc (os_Write q) src w = ((got, k, None), w')"
    and "lookup w q = Some (File c)" and "\<And>w. lookup (snd (src w)) q = lookup w q"
  shows "(\<exists>w1. src w = ((got, None), w1)) \<and> lookup w' q = Some (File (c @ take k (enc got))) \<and>
    (h = noneHandler \<longrightarrow> k = length (enc got))"
proof -
  obtain got' e w1 where src: "src w = ((got', e), w1)" by (metis prod.exhaust)
  obtain r w2 where wr: "os_Write q (take (if h = noneHandler then length (enc got')
      else entropy w1 (clock w1)) (enc got')) w1 = (r, w2)" by force
  from assms(1) src wr have "r = Ok ()" "got' = got" "e = None" "w2 = w'"
    "k = (if h = noneHandler then length (enc got) else entropy w1 (clock w1))"
    by (auto simp: encoder_copy_def Let_def split: outcome.splits)
  moreover have "lookup w1 q = Some (File c)" using assms(3) [of w] assms(2) src by simp
  ultimately show ?thesis using os_Write_Ok [of q _ w1 "()" w' c] wr src by auto
qed

lemma encoder_copy_buffer:
  "encoder_copy h enc (\<lambda>b. return ()) src w = ((got, k, None), w') \<longleftrightarrow>
     (\<exists>w1. src w = ((got, None), w1) \<and> w' = w1 \<and>
        k = (if h = noneHandler then length (enc got) else entropy w1 (clock w1)))"
  by (cases "src w") (auto simp: encoder_copy_def Let_def return_run)

lemma encoder_close_file:
  assumes "encoder_close h enc (os_Write q) got k w = (Ok x, w')"
    and "lookup w q = Some (File (c @ take k (enc got)))"
    and "h = noneHandler \<longrightarrow> k = length (enc got)"
  shows "lookup w' q = Some (File (c @ enc got))"
  using assms os_Write_Ok [of q "drop k (enc got)" w x w']
  by (auto simp: encoder_close_def return_Ok_iff split: if_splits)

text \<open>
  One whole transfer, from a source through the compression and, with a key, the encryption, into an
  empty file.
\<close>

lemma transfer_stored:
  assumes copy: "encoder_copy h enc (output_of key q) src w = ((got, k, None), w1)"
    and close: "encoder_close h enc (output_of key q) got k w1 = (Ok x, w2)"
    and encr: "closeEncryption lib key (enc got) q w2 = (Ok y, w3)"
    and key: "key \<noteq> [] \<Longrightarrow> length key = AES256KeySize"
    and q: "lookup w q = Some (File [])" and src: "\<And>w. lookup (snd (src w)) q = lookup w q"
  shows "\<exists>raw w0. src w = ((got, None), w0) \<and> lookup w3 q = Some (File raw) \<and> stored_as lib key raw (enc got)"
proof (cases "key = []")
  case True
  then have out: "output_of key q = os_Write q" by (intro ext) (simp add: output_of_def)
  from encoder_copy_file [OF copy [unfolded out] q src]
  have c: "(\<exists>w0. src w = ((got, None), w0))" "lookup w1 q = Some (File ([] @ take k (enc got)))"
    "h = noneHandler \<longrightarrow> k = length (enc got)" by simp_all
  from encoder_close_file [OF close [unfolded out] c(2,3)] True encr c(1) show ?thesis
    by (auto simp: closeEncryption_def return_Ok_iff stored_as_def)
next
  case False
  then have out: "output_of key q = (\<lambda>b. return ())" by (intro ext) (simp add: output_of_def)
  from copy [unfolded out] obtain w0 where s: "src w = ((got, None), w0)" "w1 = w0"
    by (auto simp: encoder_copy_buffer)
  from close [unfolded out] have "w2 = w1"
    by (auto simp: encoder_close_def return_Ok_iff split: if_splits)
  with s src [of w] q have "lookup w2 q = Some (File [])" by simp
  moreover from encr False obtain o2 where
    "AESGCM_Close (lib_crypto lib) key (enc got) (os_Write q) w2 = (Ok o2, w3)"
    by (auto simp: closeEncryption_def ok_iffs)
  ultimately show ?thesis using AESGCM_Close_Ok [of "lib_crypto lib" key "enc got" q w2 o2 w3 "[]"] s(1) False key
    by (auto simp: stored_as_def)
qed

subsection \<open>Saving\<close>

text \<open>What compresses: the handler of the configured type with the configured level.\<close>

definition compresses :: "library \<Rightarrow> Compression option \<Rightarrow> (bytes \<Rightarrow> bytes) \<Rightarrow> bool" where
  "compresses lib cmp enc \<longleftrightarrow>
     (\<exists>co h. cmp = Some co \<and> GetHandler (compType co) = Ok h \<and>
        Handler_Encode (lib_codecs lib) h (level co) = Ok enc)"

lemma deref_Ok: "deref p w = (Ok x, w') \<longleftrightarrow> p = Some x \<and> w' = w"
  by (auto simp: deref_def ok_iffs split: option.splits)

lemma chunk_transfer_Ok:
  assumes "chunk_transfer lib ctx source q off sz key h enc w = (Ok x, w')" and "lookup w q = Some (File [])"
    and "key \<noteq> [] \<Longrightarrow> length key = AES256KeySize"
  shows "\<exists>raw. lookup w' q = Some (File raw) \<and>
    stored_as lib key raw (enc (section_of off sz (content_at w source)))"
proof -
  let ?src = "stream ctx (section_of off sz (content_at w source))"
  obtain got k e w1 where copy: "encoder_copy h enc (output_of key q) ?src w = ((got, k, e), w1)"
    by (metis prod.exhaust)
  with assms(1) have e: "e = None" by (cases e) (auto simp: chunk_transfer_def ok_iffs)
  with assms(1) copy obtain w2 w3 y where
    close: "encoder_close h enc (output_of key q) got k w1 = (Ok y, w2)"
    and encr: "closeEncryption lib key (enc got) q w2 = (Ok (), w3)"
    and fin: "os_Close q w3 = (Ok (), w')"
    by (auto simp: chunk_transfer_def ok_iffs)
  from transfer_stored [OF copy [unfolded e] close encr assms(3,2)] obtain raw w0 where
    "?src w = ((got, None), w0)" and raw: "lookup w3 q = Some (File raw)" "stored_as lib key raw (enc got)"
    by auto
  then have "got = section_of off sz (content_at w source)" by (auto dest: stream_done)
  moreover have "lookup w' q = lookup w3 q" using os_Close_Ok [OF fin] by simp
  ultimately show ?thesis using raw by auto
qed

lemma chunk_body_Ok:
  assumes "chunk_body lib ctx source q off sz cmp key w = (Ok x, w')" and "lookup w q = Some (File [])"
  shows "\<exists>enc raw. compresses lib cmp enc \<and> lookup w' q = Some (File raw) \<and>
    stored_as lib key raw (enc (section_of off sz (content_at w source)))"
proof -
  from assms(1) obtain co h enc where
    co: "cmp = Some co" "GetHandler (compType co) = Ok h"
      "Handler_Encode (lib_codecs lib) h (level co) = Ok enc"
    and key: "key = [] \<or> AESGCM_Encode key = Ok ()"
    and run: "chunk_transfer lib ctx source q off sz key h enc w = (Ok x, w')"
    by (auto simp: chunk_body_def ok_iffs deref_Ok split: if_splits)
  from key have "key \<noteq> [] \<Longrightarrow> length key = AES256KeySize" by (auto simp: AESGCM_Encode_Ok)
  from chunk_transfer_Ok [OF run assms(2) this] co show ?thesis by (auto simp: compresses_def)
qed

lemma OpenSource_Ok:
  assumes "OpenSource p hash off sz cmp w = (Ok h, w')"
  shows "cmp \<noteq> None \<and> 3 \<le> length hash \<and> 0 \<le> off \<and> 0 < sz \<and> h = resolve w p \<and>
    (\<exists>b. lookup w h = Some (File b) \<and> off \<le> int (length b) \<and> sz \<le> i64 (int (length b) - off)) \<and>
    (\<forall>q. lookup w' q = lookup w q) \<and> cwd w' = cwd w"
proof -
  from assms obtain source info w1 where
    g: "cmp \<noteq> None" "3 \<le> length hash" "0 \<le> off" "0 < sz"
    and op: "os_Open p w = (Ok source, w1)" and st: "os_FStat source w1 = (Ok info, w')"
    and ok: "is_regular info" "off \<le> file_len info" "sz \<le> i64 (file_len info - off)" "h = source"
    by (auto simp: OpenSource_def ok_iffs split: if_splits)
  from os_Open_Ok [OF op] os_FStat_Ok [OF st] obtain n where
    src: "source = resolve w p" "w1 = tick w" "w' = tick w1" "lookup w source = Some n" "info = n"
    by auto
  from ok(1) src(5) obtain b where "n = File b" by (auto simp: is_regular_def split: node.splits)
  with g ok src show ?thesis by (simp add: file_len_def)
qed

lemma mkdir_keeps_nodes:
  "os_MkdirAll p w = (Ok x, w') \<Longrightarrow> lookup w q = Some (File b) \<Longrightarrow> \<not> prefix q (resolve w p) \<Longrightarrow>
   lookup w' q = Some (File b)"
  by (simp add: os_MkdirAll_Ok)

lemma mkdir_keeps_files:
  assumes "os_MkdirAll p w = (Ok x, w')" and "lookup w q = Some (File b)"
  shows "lookup w' q = Some (File b)"
proof -
  let ?r = "resolve w p"
  from assms(1) have ok: "\<forall>k \<le> length ?r. lookup w (take k ?r) \<in> {None, Some Dir}"
    by (auto simp: os_MkdirAll_def syscall_Ok_iff mkdir_all_at_def list_ex_iff split: if_splits
        simp flip: less_Suc_eq_le)
  have "\<not> prefix q ?r"
  proof
    assume "prefix q ?r"
    then have "q = take (length q) ?r" "length q \<le> length ?r"
      by (auto simp: prefix_def)
    with ok assms(2) show False by (metis insertE node.distinct(1) option.inject option.simps(3) singletonD)
  qed
  with assms show ?thesis by (rule mkdir_keeps_nodes)
qed

lemma Create_frame:
  "os_Create p w = (r, w') \<Longrightarrow> q \<noteq> resolve w p \<Longrightarrow> lookup w' q = lookup w q"
  "os_Create p w = (r, w') \<Longrightarrow> cwd w' = cwd w"
proof -
  have "sets (cwd w) {resolve w p} (os_Create p)"
    by (intro sets_rules) (simp add: resolve_eq [OF refl])
  from sets_lookup [OF this refl]
  show "os_Create p w = (r, w') \<Longrightarrow> q \<noteq> resolve w p \<Longrightarrow> lookup w' q = lookup w q"
    and "os_Create p w = (r, w') \<Longrightarrow> cwd w' = cwd w" by simp_all
qed

lemma Mkdir_cwd: "os_MkdirAll p w = (r, w') \<Longrightarrow> cwd w' = cwd w"
  by (rule sets_lookup(1) [OF sets_os_MkdirAll [of "cwd w" p UNIV] refl]) simp_all

lemma SaveChunk_stored:
  assumes run: "disk_SaveChunk lib root ctx filePath h off sz cmp key g w = (Ok x, w')"
    and root: "is_rooted root" and h: "hash_ok h"
    and src: "resolve w filePath \<noteq> object_at root key g h"
  shows "\<exists>b enc raw. lookup w (resolve w filePath) = Some (File b) \<and>
    0 \<le> off \<and> 0 < sz \<and> sz \<le> i64 (int (length b) - off) \<and> off \<le> int (length b) \<and> compresses lib cmp enc \<and>
    lookup w' (object_at root key g h) = Some (File raw) \<and> stored_as lib key raw (enc (section_of off sz b))"
proof -
  let ?q = "object_at root key g h"
  from GetObjectsPath_ok [OF root h, of g key False] obtain dest where
    dest: "GetObjectsPath root h g key False = Ok dest" "is_rooted (ObjectPath dest)"
      "is_rooted (DirectoryPath dest)" "comps (ObjectPath dest) = ?q" by blast
  from run dest(1) obtain source w1 w2 w3 w4 w5 d where
    cx: "ctxErr ctx w = (Ok (), w1)" and op: "OpenSource filePath h off sz cmp w1 = (Ok source, w2)"
    and mk: "os_MkdirAll (DirectoryPath dest) w2 = (Ok (), w3)"
    and cr: "os_Create (ObjectPath dest) w3 = (Ok d, w4)"
    and body: "chunk_body lib ctx source d off sz cmp key w4 = (Ok x, w5)"
    and fin: "\<And>q. lookup w' q = lookup w5 q"
    by (auto simp: disk_SaveChunk_def ok_iffs)
  from ctxErr_Ok [OF cx] have w1: "w1 = tick w" by simp
  from OpenSource_Ok [OF op] w1 obtain b where
    g: "0 \<le> off" "0 < sz" "off \<le> int (length b)" "sz \<le> i64 (int (length b) - off)"
    and s: "source = resolve w filePath" "lookup w source = Some (File b)"
    and same: "\<And>q. lookup w2 q = lookup w q"
    by auto
  from mkdir_keeps_files [OF mk, of source b] same s have s3: "lookup w3 source = Some (File b)" by simp
  from os_Create_Ok [OF cr] dest have d: "d = ?q" "lookup w4 ?q = Some (File [])"
    by (auto simp: resolve_rooted)
  from Create_frame(1) [OF cr, of source] s3 src s(1) dest have "lookup w4 source = Some (File b)"
    by (simp add: resolve_rooted)
  then have "content_at w4 source = b" by (simp add: content_at_def)
  with chunk_body_Ok [OF body] d fin g s show ?thesis by auto
qed

subsection \<open>What the operations can change\<close>

lemma sets_reader [sets_rules]:
  assumes "\<And>w. cwd w = d \<Longrightarrow> steady w (snd (src w)) \<and> (\<forall>q. q \<notin> S \<longrightarrow> lookup (snd (src w)) q = lookup w q)"
  shows "sets d S (AESGCM_Decode c src key)"
proof (rule setsI)
  fix w :: "'a os_world_scheme" assume d: "cwd w = d"
  obtain got e w' where run: "src w = ((got, e), w')" by (metis prod.exhaust)
  with assms [OF d] have "steady w w' \<and> (\<forall>q. q \<notin> S \<longrightarrow> lookup w' q = lookup w q)" by simp
  with run d show "steady w (snd (AESGCM_Decode c src key w)) \<and>
      (\<forall>q. q \<notin> S \<longrightarrow> lookup (snd (AESGCM_Decode c src key w)) q = lookup w q)"
    by (simp add: AESGCM_Decode_def fail_run return_run split: option.splits)
qed

lemma sets_writeFull [sets_rules]: "h \<in> S \<Longrightarrow> sets d S (writeFull (os_Write h) b)"
  unfolding writeFull_def by (intro sets_rules)

lemma sets_AESGCM_Close [sets_rules]: "h \<in> S \<Longrightarrow> sets d S (AESGCM_Close c key buf (os_Write h))"
  unfolding AESGCM_Close_def by (intro sets_rules)

lemma sets_output_of [sets_rules]: "h \<in> S \<Longrightarrow> sets d S (output_of key h b)"
  unfolding output_of_def by (intro sets_rules)

lemma sets_closeEncryption [sets_rules]: "h \<in> S \<Longrightarrow> sets d S (closeEncryption lib key b h)"
  unfolding closeEncryption_def by (intro sets_rules)

lemma sets_encoder_close [sets_rules]: "q \<in> S \<Longrightarrow> sets d S (encoder_close h enc (output_of key q) got k)"
  unfolding encoder_close_def by (intro sets_rules)

lemma encoder_copy_frame:
  assumes q: "q \<in> S" and d: "cwd w = d" and run: "encoder_copy h enc (output_of key q) src w = (r, w')"
    and src: "\<And>w. steady w (snd (src w)) \<and> (\<forall>q. lookup (snd (src w)) q = lookup w q)"
  shows "cwd w' = d \<and> steady w w' \<and> (\<forall>q. q \<notin> S \<longrightarrow> lookup w' q = lookup w q)"
proof -
  obtain got e w1 where s: "src w = ((got, e), w1)" by (metis prod.exhaust)
  let ?k = "if h = noneHandler then length (enc got) else entropy w1 (clock w1)"
  obtain r' w2 where o: "output_of key q (take ?k (enc got)) w1 = (r', w2)" by force
  from src [of w] s d have w1: "cwd w1 = d" "steady w w1" "\<And>q. lookup w1 q = lookup w q"
    by (simp_all add: steady_def)
  with sets_lookup [OF sets_output_of [OF q] _ o, of d] steady_trans [OF w1(2)]
  have "cwd w2 = d \<and> steady w w2 \<and> (\<forall>q. q \<notin> S \<longrightarrow> lookup w2 q = lookup w q)"
    by simp
  moreover from run s o have "w' = w2"
    by (auto simp: encoder_copy_def Let_def split: outcome.splits)
  ultimately show ?thesis by simp
qed

lemma sets_chunk_transfer [sets_rules]:
  assumes "q \<in> S"
  shows "sets d S (chunk_transfer lib ctx source q off sz key h enc)"
proof (rule setsI)
  fix w :: "'a os_world_scheme" assume d: "cwd w = d"
  obtain got k e w1 where copy: "encoder_copy h enc (output_of key q)
      (stream ctx (section_of off sz (content_at w source))) w = ((got, k, e), w1)"
    by (metis prod.exhaust)
  from encoder_copy_frame [OF assms d copy]
  have w1: "cwd w1 = d" "steady w w1" "\<forall>q. q \<notin> S \<longrightarrow> lookup w1 q = lookup w q" by simp_all
  have rest: "sets d S (andThen (ignoring (encoder_close h enc (output_of key q) got k)) (\<lambda>_.
      andThen (ignoring (closeEncryption lib key (enc got) q)) (\<lambda>_. fail (Wrapped ''write chunk'' e'))) :: ('a, unit) os)"
    "sets d S (andThen (orWrap ''finish chunk compression'' (encoder_close h enc (output_of key q) got k)) (\<lambda>_.
      andThen (orWrap ''finish chunk encryption'' (closeEncryption lib key (enc got) q)) (\<lambda>_.
      orWrap ''close object'' (os_Close q))))" for e'
    using assms by (intro sets_rules; simp)+
  show "steady w (snd (chunk_transfer lib ctx source q off sz key h enc w)) \<and>
      (\<forall>q'. q' \<notin> S \<longrightarrow> lookup (snd (chunk_transfer lib ctx source q off sz key h enc w)) q' = lookup w q')"
    using setsD [OF rest(1) w1(1)] setsD [OF rest(2) w1(1)] steady_trans [OF w1(2)] w1(3) copy
    by (cases e) (simp_all add: chunk_transfer_def)
qed

lemma sets_chunk_body [sets_rules]:
  "q \<in> S \<Longrightarrow> sets d S (chunk_body lib ctx source q off sz cmp key)"
  unfolding chunk_body_def deref_def by (intro sets_rules)

text \<open>Where saving an object can write: its path, and the directories above.\<close>

definition above :: "fspath \<Rightarrow> fspath set" where
  "above p = {q. prefix q p}"

lemma above_refl [simp]: "p \<in> above p"
  by (simp add: above_def)

lemma above_mono: "prefix p q \<Longrightarrow> {r. prefix r p} \<subseteq> above q"
  by (auto simp: above_def)

lemma sets_OpenSource [sets_rules]: "sets d S (OpenSource p hash off sz cmp)"
  unfolding OpenSource_def by (intro sets_rules)

lemma sets_lift_andThen:
  "(\<And>x. r = Ok x \<Longrightarrow> sets d S (f x)) \<Longrightarrow> sets d S (andThen (lift_outcome r) f)"
  by (rule sets_andThen_result) (auto simp: lift_outcome_Ok_iff sets_combinators)

lemma sets_Create_andThen:
  assumes "path_at d p \<in> S" and "sets d S (f (path_at d p))"
  shows "sets d S (andThen (orWrap msg (os_Create p)) f)"
proof (rule sets_andThen_result)
  show "sets d S (orWrap msg (os_Create p))" using assms(1) by (intro sets_rules)
  show "cwd w = d \<Longrightarrow> orWrap msg (os_Create p) w = (Ok x, w') \<Longrightarrow> sets d S (f x)" for w x w'
    using assms(2) os_Create_Ok [of p w x w'] resolve_eq [of w d p] by simp
qed

lemma directory_above:
  "comps q = comps root @ folders key g @ [take 2 h] \<Longrightarrow> {p. prefix p (comps q)} \<subseteq> above (object_at root key g h)"
  by (intro above_mono) (simp add: object_at_def)

lemma sets_disk_SaveChunk:
  assumes root: "is_rooted root" and h: "hash_ok h"
  shows "sets d (above (object_at root key g h)) (disk_SaveChunk lib root ctx filePath h off sz cmp key g)"
proof -
  let ?S = "above (object_at root key g h)"
  have step: "sets d ?S (andThen (orWrap m (os_MkdirAll (DirectoryPath dest))) (\<lambda>_.
        andThen (orWrap m' (os_Create (ObjectPath dest))) (\<lambda>destination.
        deferring (chunk_body lib ctx source destination off sz cmp key)
          (\<lambda>success. andThen (ignoring (os_Close destination)) (\<lambda>_.
             if success then return () else ignoring (os_Remove (DirectoryPath dest)))))))"
    if "GetObjectsPath root h g key False = Ok dest" for dest source m m'
  proof -
    from GetObjectsPath_ok [OF root h, of g key False] that
    have d: "is_rooted (ObjectPath dest)" "is_rooted (DirectoryPath dest)"
      "comps (ObjectPath dest) = object_at root key g h"
      "comps (DirectoryPath dest) = comps root @ folders key g @ [take 2 h]" by auto
    have dir: "comps (DirectoryPath dest) \<in> ?S" using d(4) by (simp add: above_def object_at_def)
    show ?thesis
      using d dir directory_above [OF d(4)]
      by (intro sets_combinators(6) sets_Create_andThen sets_combinators(9) sets_rules) simp_all
  qed
  show ?thesis unfolding disk_SaveChunk_def
    by (intro sets_combinators(6) sets_combinators(9) sets_reads sets_OpenSource sets_lift_andThen step
        sets_rules)
qed

lemma sets_save_transfer [sets_rules]:
  assumes "q \<in> S"
  shows "sets d S (save_transfer lib source q key h enc)"
proof (rule setsI)
  fix w :: "'a os_world_scheme" assume d: "cwd w = d"
  obtain got k e w1 where copy: "encoder_copy h enc (output_of key q) (file_stream background source) w
      = ((got, k, e), w1)"
    by (metis prod.exhaust)
  from encoder_copy_frame [OF assms d copy]
  have w1: "cwd w1 = d" "steady w w1" "\<forall>q. q \<notin> S \<longrightarrow> lookup w1 q = lookup w q" by simp_all
  have rest: "sets d S (andThen (orWrap ''close destination file''
      (encoder_close h enc (output_of key q) got k)) (\<lambda>_. ignoring (closeEncryption lib key (enc got) q)))"
    using assms by (intro sets_rules; simp)
  show "steady w (snd (save_transfer lib source q key h enc w)) \<and>
      (\<forall>q'. q' \<notin> S \<longrightarrow> lookup (snd (save_transfer lib source q key h enc w)) q' = lookup w q')"
    using setsD [OF rest w1(1)] steady_trans [OF w1(2)] w1 copy
    by (cases e) (simp_all add: save_transfer_def fail_run)
qed

lemma sets_save_body [sets_rules]:
  "q \<in> S \<Longrightarrow> sets d S (save_body lib source q cmp key)"
  unfolding save_body_def deref_def by (intro sets_rules)

lemma sets_OpenExcl_tryCatch:
  assumes "path_at d p \<in> S" and "\<And>e. sets d S (he e)" and "sets d S (f (path_at d p))"
  shows "sets d S (tryCatch (os_OpenExcl p) he f)"
proof (rule sets_tryCatch_result)
  show "sets d S (os_OpenExcl p)" using assms(1) by (intro sets_rules)
  show "cwd w = d \<Longrightarrow> os_OpenExcl p w = (Ok x, w') \<Longrightarrow> sets d S (f x)" for w x w'
    using assms(3) os_OpenExcl_Ok [of p w x w'] resolve_eq [of w d p] by simp
qed (rule assms(2))

lemma sets_disk_Save:
  assumes root: "is_rooted root" and h: "hash_ok h"
  shows "sets d (above (object_at root key g h)) (disk_Save lib root ctx filePath h cmp key g)"
proof -
  let ?S = "above (object_at root key g h)"
  have step: "sets d ?S (andThen (orWrap m (os_MkdirAll (DirectoryPath dest))) (\<lambda>_.
     andThen (orWrap m' (os_Open filePath)) (\<lambda>source.
     deferring
       (tryCatch (os_OpenExcl (ObjectPath dest))
          (\<lambda>e. if errors_Is e ErrExist then return () else fail (Wrapped m'' e))
          (\<lambda>destination.
             deferring (save_body lib source destination cmp key)
               (\<lambda>writeCompleted. andThen (ignoring (os_Close destination)) (\<lambda>_.
                  if writeCompleted then return () else ignoring (os_Remove (DirectoryPath dest))))))
       (\<lambda>_. ignoring (os_Close source)))))"
    if "GetObjectsPath root h g key False = Ok dest" for dest m m' m''
  proof -
    from GetObjectsPath_ok [OF root h, of g key False] that
    have d: "is_rooted (ObjectPath dest)" "is_rooted (DirectoryPath dest)"
      "comps (ObjectPath dest) = object_at root key g h"
      "comps (DirectoryPath dest) = comps root @ folders key g @ [take 2 h]" by auto
    have dir: "comps (DirectoryPath dest) \<in> ?S" using d(4) by (simp add: above_def object_at_def)
    show ?thesis
      using d dir directory_above [OF d(4)]
      by (intro sets_combinators(6) sets_combinators(9) sets_OpenExcl_tryCatch sets_rules) simp_all
  qed
  show ?thesis unfolding disk_Save_def
    by (intro sets_combinators(6) sets_reads sets_lift_andThen step)
qed

lemma sets_disk_AlreadyExists: "sets d S (disk_AlreadyExists root ctx h key g)"
  unfolding disk_AlreadyExists_def by (intro sets_rules)

lemma sets_disk_ReadObject: "sets d S (disk_ReadObject lib root ctx h key g)"
  unfolding disk_ReadObject_def by (intro sets_rules) simp_all

text \<open>Finding an object.\<close>

lemma AlreadyExists_Ok:
  assumes "disk_AlreadyExists root ctx h key g w = (Ok b, w')" and "is_rooted root" and "hash_ok h"
  shows "b \<longleftrightarrow> lookup w (object_at root key g h) \<noteq> None"
proof -
  from GetObjectsPath_ok [OF assms(2,3), of g key False] obtain dest where
    dest: "GetObjectsPath root h g key False = Ok dest" "is_rooted (ObjectPath dest)"
      "comps (ObjectPath dest) = object_at root key g h" by blast
  from assms(1) dest(1) obtain w1 where cx: "ctxErr ctx w = (Ok (), w1)"
    and st: "(\<exists>n. os_Stat (ObjectPath dest) w1 = (Ok n, w') \<and> b) \<or>
      (\<exists>e w2. os_Stat (ObjectPath dest) w1 = (Err e, w2) \<and> errors_Is e ErrNotExist \<and> \<not> b)"
    by (auto simp: disk_AlreadyExists_def ok_iffs split: if_splits)
  have w1: "w1 = tick w" using ctxErr_Ok [OF cx] by simp
  have r: "resolve w1 (ObjectPath dest) = object_at root key g h" using dest by (simp add: resolve_rooted)
  from st show ?thesis
  proof (elim disjE exE conjE)
    fix n assume "os_Stat (ObjectPath dest) w1 = (Ok n, w')" and b
    with os_Stat_Ok [of "ObjectPath dest" w1 n w'] r w1 show ?thesis by simp
  next
    fix e w2 assume "os_Stat (ObjectPath dest) w1 = (Err e, w2)" and e: "errors_Is e ErrNotExist" and "\<not> b"
    then have "lookup w1 (object_at root key g h) = None"
      using r dest(2) is_rooted_nonempty [OF dest(2)]
      by (auto simp: os_Stat_def syscall_def sys_def stat_at_def split: option.splits)
    with w1 \<open>\<not> b\<close> show ?thesis by simp
  qed
qed

lemma OpenExcl_ErrExist:
  assumes "os_OpenExcl p w = (Err e, w')" and "errors_Is e ErrExist"
  shows "lookup w (resolve w p) \<noteq> None \<and> w' = tick w"
proof -
  have "\<not> errors_Is (missing w0 q) ErrExist" for w0 :: "'a os_world_scheme" and q
    using missing_cases [of w0 q] by auto
  with assms show ?thesis
    by (auto simp: os_OpenExcl_def syscall_def sys_def create_excl_at_def nothing_done_def
        split: if_splits option.splits)
qed

lemma OpenExcl_frame:
  "os_OpenExcl p w = (r, w') \<Longrightarrow> q \<noteq> resolve w p \<Longrightarrow> lookup w' q = lookup w q"
proof -
  have "sets (cwd w) {resolve w p} (os_OpenExcl p)"
    by (intro sets_rules) (simp add: resolve_eq [OF refl])
  from sets_lookup [OF this refl]
  show "os_OpenExcl p w = (r, w') \<Longrightarrow> q \<noteq> resolve w p \<Longrightarrow> lookup w' q = lookup w q" by simp
qed

lemma save_transfer_plain:
  assumes "save_transfer lib source q [] h enc w = (Ok x, w')" and "lookup w q = Some (File [])"
  shows "lookup w' q = Some (File (enc (content_at w source))) \<and> lookup w source \<noteq> Some Dir"
proof -
  let ?src = "file_stream background source"
  obtain got k e w1 where copy: "encoder_copy h enc (output_of [] q) ?src w = ((got, k, e), w1)"
    by (metis prod.exhaust)
  with assms(1) have e: "e = None" by (cases e) (auto simp: save_transfer_def ok_iffs)
  with assms(1) copy obtain w2 y where
    close: "encoder_close h enc (output_of [] q) got k w1 = (Ok y, w2)" and w': "w' = w2"
    by (auto simp: save_transfer_def ok_iffs closeEncryption_def return_run)
  have "closeEncryption lib [] (enc got) q w2 = (Ok (), w2)" by (simp add: closeEncryption_def return_run)
  from transfer_stored [OF copy [unfolded e] close this _ assms(2)] obtain w0 where
    "?src w = ((got, None), w0)" "lookup w2 q = Some (File (enc got))"
    by (auto simp: stored_as_def)
  then show ?thesis using file_stream_done w' by metis
qed

lemma save_body_plain:
  assumes "save_body lib source q cmp [] w = (Ok x, w')" and "lookup w q = Some (File [])"
  shows "\<exists>enc. compresses lib cmp enc \<and> lookup w' q = Some (File (enc (content_at w source))) \<and>
    lookup w source \<noteq> Some Dir"
proof -
  from assms(1) obtain co h enc where
    "cmp = Some co" "GetHandler (compType co) = Ok h" "Handler_Encode (lib_codecs lib) h (level co) = Ok enc"
    and run: "save_transfer lib source q [] h enc w = (Ok x, w')"
    by (auto simp: save_body_def ok_iffs deref_Ok)
  with save_transfer_plain [OF run assms(2)] show ?thesis by (auto simp: compresses_def)
qed

lemma Save_stored:
  assumes run: "disk_Save lib root ctx filePath h cmp key g w = (Ok x, w')"
    and root: "is_rooted root" and h: "hash_ok h"
    and src: "resolve w filePath \<noteq> object_at root key g h"
  shows "lookup w (object_at root key g h) \<noteq> None \<and>
      lookup w' (object_at root key g h) = lookup w (object_at root key g h) \<or>
    lookup w (object_at root key g h) = None \<and> (key = [] \<longrightarrow>
      (\<exists>b enc. lookup w (resolve w filePath) = Some (File b) \<and> compresses lib cmp enc \<and>
         lookup w' (object_at root key g h) = Some (File (enc b))))"
proof -
  let ?q = "object_at root key g h"
  from GetObjectsPath_ok [OF root h, of g key False] obtain dest where
    dest: "GetObjectsPath root h g key False = Ok dest" "is_rooted (ObjectPath dest)"
      "is_rooted (DirectoryPath dest)" "comps (ObjectPath dest) = ?q"
      "comps (DirectoryPath dest) = comps root @ folders key g @ [take 2 h]" by blast
  let ?rest = "\<lambda>source. tryCatch (os_OpenExcl (ObjectPath dest))
          (\<lambda>e. if errors_Is e ErrExist then return () else fail (Wrapped ''create object file'' e))
          (\<lambda>destination.
             deferring (save_body lib source destination cmp key)
               (\<lambda>writeCompleted. andThen (ignoring (os_Close destination)) (\<lambda>_.
                  if writeCompleted then return () else ignoring (os_Remove (DirectoryPath dest)))))"
  from run dest(1) obtain source w1 w2 w3 w4 where
    cx: "ctxErr ctx w = (Ok (), w1)" and mk: "os_MkdirAll (DirectoryPath dest) w1 = (Ok (), w2)"
    and op: "os_Open filePath w2 = (Ok source, w3)" and rest: "?rest source w3 = (Ok x, w4)"
    and fin: "\<And>q. lookup w' q = lookup w4 q"
    by (auto simp: disk_Save_def andThen_Ok_iff deferring_iff lift_outcome_Ok_iff)
  from ctxErr_Ok [OF cx] os_Open_Ok [OF op] obtain n where
    w: "w1 = tick w" "w3 = tick w2" "source = resolve w2 filePath" "lookup w2 source = Some n" "n \<noteq> Special"
    by auto
  have mkd: "lookup w2 q = (if prefix q (comps (DirectoryPath dest)) then Some Dir else lookup w q)" for q
    using os_MkdirAll_Ok [OF mk, of q] w(1) dest(3) by (simp add: resolve_rooted)
  have q: "lookup w2 ?q = lookup w ?q" unfolding mkd dest(5) by (simp add: object_at_def)
  have r: "resolve w3 (ObjectPath dest) = ?q" using dest by (simp add: resolve_rooted)
  have s: "source = resolve w filePath"
    using w(1,3) Mkdir_cwd [OF mk] by (simp add: resolve_def)
  from rest consider
    (new) d w5 w6 where "os_OpenExcl (ObjectPath dest) w3 = (Ok d, w5)"
      "save_body lib source d cmp key w5 = (Ok x, w6)" "\<And>q. lookup w4 q = lookup w6 q"
    | (old) e w5 where "os_OpenExcl (ObjectPath dest) w3 = (Err e, w5)" "errors_Is e ErrExist" "w4 = w5"
    by (auto simp: tryCatch_Ok_iff deferring_iff return_Ok_iff fail_Ok_iff split: if_splits)
  then show ?thesis
  proof cases
    case old
    from OpenExcl_ErrExist [OF old(1,2)] r q w(2) old(3) fin show ?thesis by simp
  next
    case new
    from os_OpenExcl_Ok [OF new(1)] r have d: "d = ?q" "lookup w5 ?q = Some (File [])" "lookup w3 ?q = None"
      by auto
    from d(3) q w(2) have none: "lookup w ?q = None" by simp
    have s5: "lookup w5 source = Some n"
      using OpenExcl_frame [OF new(1), of source] src s r w(2,4) by simp
    show ?thesis
    proof (cases "key = []")
      case True
      from save_body_plain [OF new(2) [unfolded True d(1)]] d(2) True obtain enc where
        enc: "compresses lib cmp enc" "lookup w6 ?q = Some (File (enc (content_at w5 source)))"
          "lookup w5 source \<noteq> Some Dir" by auto
      from enc(3) s5 w(5) obtain b where n: "n = File b" by (cases n) auto
      with s5 have "content_at w5 source = b" by (simp add: content_at_def)
      moreover have "lookup w source = Some (File b)"
        using w(4) n mkd [of source] by (simp split: if_splits)
      ultimately show ?thesis using enc(1,2) fin new(3) none s by auto
    qed (use none in simp)
  qed
qed

end
