(* ===== verification/Disk_Restore_Facts.thy ===== *)
theory Disk_Restore_Facts
  imports Disk_Object_Facts
begin

section \<open>Correctness of reading and restoring objects on disk\<close>

text \<open>
  A reader of an object yields the content the object file holds, and a restored file is the
  concatenation of its decoded objects. An incomplete restore removes its destination.
\<close>

subsection \<open>Reading an object\<close>

lemma AESGCM_Decode_Ok:
  assumes "AESGCM_Decode c src key w = (Ok b, w')"
  shows "\<exists>got. src w = ((got, None), w') \<and> length key \<in> {16, 24, 32} \<and> gcmNonceSize \<le> length got \<and>
    gcm_Open c key (take gcmNonceSize got) (drop gcmNonceSize got) = Some b"
proof -
  obtain got e w1 where run: "src w = ((got, e), w1)" by (metis prod.exhaust)
  with assms have "length key \<in> {16, 24, 32}" "\<not> length got < gcmNonceSize" "e = None"
    "gcm_Open c key (take gcmNonceSize got) (drop gcmNonceSize got) = Some b" "w' = w1"
    by (auto simp: AESGCM_Decode_def ok_iffs split: if_splits option.splits)
  with run show ?thesis by simp
qed

lemma content_of_file:
  "lookup w h = Some n \<Longrightarrow> n \<noteq> Special \<Longrightarrow> lookup w h \<noteq> Some Dir \<Longrightarrow> lookup w h = Some (File (content_at w h))"
  by (cases n) (auto simp: content_at_def)

lemma decode_file_Ok:
  assumes "AESGCM_Decode (lib_crypto lib) (file_stream background h) key w = (Ok b, w')"
    and "key \<noteq> []" and "lookup w h = Some n" and "n \<noteq> Special"
  shows "\<exists>raw. lookup w h = Some (File raw) \<and> object_content lib key raw = Some b \<and>
    (\<forall>q. lookup w' q = lookup w q) \<and> cwd w' = cwd w"
proof -
  from AESGCM_Decode_Ok [OF assms(1)] obtain got where
    got: "file_stream background h w = ((got, None), w')" and "length key \<in> {16, 24, 32}"
      "gcmNonceSize \<le> length got"
      "gcm_Open (lib_crypto lib) key (take gcmNonceSize got) (drop gcmNonceSize got) = Some b" by blast
  then have "object_content lib key got = Some b" using assms(2) by (simp add: object_content_def)
  moreover from file_stream_done [OF got] content_of_file [OF assms(3,4)]
  have "lookup w h = Some (File got)" by simp
  moreover have "\<forall>q. lookup w' q = lookup w q" "cwd w' = cwd w"
    using file_stream_lookup(1,2) [of background h w] got by auto
  ultimately show ?thesis by blast
qed

text \<open>
  What the reader yields when it is read to the end without error, as long as the object has not
  changed since.
\<close>

lemma ReadObject_content:
  assumes run: "disk_ReadObject lib root ctx h key g w = (Ok rc, w')"
    and root: "is_rooted root" and h: "hash_ok h"
    and read: "rc_Read rc ctx' w1 = ((got, None), w2)"
    and same: "lookup w1 (object_at root key g h) = lookup w (object_at root key g h)"
  shows "\<exists>raw. lookup w (object_at root key g h) = Some (File raw) \<and> object_content lib key raw = Some got"
proof -
  let ?q = "object_at root key g h"
  from GetObjectsPath_ok [OF root h, of g key True] obtain dest where
    dest: "GetObjectsPath root h g key True = Ok dest" "is_rooted (ObjectPath dest)"
      "comps (ObjectPath dest) = ?q" by blast
  from run dest(1) obtain w3 f w4 where cx: "ctxErr ctx w = (Ok (), w3)"
    and op: "os_Open (ObjectPath dest) w3 = (Ok f, w4)"
    and rest: "key = [] \<and> rc = file_reader f \<or> key \<noteq> [] \<and>
      (\<exists>b. AESGCM_Decode (lib_crypto lib) (file_stream background f) key w4 = (Ok b, w') \<and> rc = plain_reader b f)"
    by (auto simp: disk_ReadObject_def ok_iffs split: if_splits)
  from ctxErr_Ok [OF cx] os_Open_Ok [OF op] dest obtain n where
    f: "f = ?q" "w4 = tick w3" "w3 = tick w" "lookup w ?q = Some n" "n \<noteq> Special"
    by (auto simp: resolve_rooted)
  from rest show ?thesis
  proof (elim disjE conjE exE)
    assume key: "key = []" and "rc = file_reader f"
    with read f(1) have s: "file_stream ctx' ?q w1 = ((got, None), w2)" by (simp add: file_reader_def)
    have "lookup w1 ?q = Some n" using same f(4) by simp
    from content_of_file [OF this f(5)] file_stream_done [OF s] same key show ?thesis
      by (simp add: object_content_def)
  next
    fix b assume key: "key \<noteq> []" and rc: "rc = plain_reader b f"
      and dec: "AESGCM_Decode (lib_crypto lib) (file_stream background f) key w4 = (Ok b, w')"
    have "lookup w4 f = Some n" using f by simp
    from decode_file_Ok [OF dec key this f(5)] f obtain raw where
      "lookup w ?q = Some (File raw)" "object_content lib key raw = Some b" by auto
    moreover have "got = b" using read rc by (auto simp: plain_reader_def dest: mem_stream_done)
    ultimately show ?thesis by blast
  qed
qed

lemma stream_errors:
  "snd (fst (file_stream ctx h w)) \<in> {None, Some ContextCanceled, Some ErrIO, Some ErrIsDir}"
  by (auto simp: file_stream_def stream_def Let_def split: option.splits)

lemma decode_errors:
  "AESGCM_Decode c (file_stream ctx h) key w = (Err e, w') \<Longrightarrow> \<not> errors_As_SnapshotNotFound e"
  using stream_errors [of ctx h w]
  by (auto simp: AESGCM_Decode_def fail_run return_run split: if_splits option.splits prod.splits)

lemma open_errors: "os_Open p w = (Err e, w') \<Longrightarrow> \<not> errors_As_SnapshotNotFound e"
  using missing_cases [of "tick w" "resolve w p"]
  by (auto simp: os_Open_def syscall_def sys_def open_at_def nothing_done_def
      split: if_splits option.splits node.splits)

lemma ReadObject_missing:
  assumes run: "disk_ReadObject lib root ctx h key g w = (Err e, w')"
    and root: "is_rooted root" and h: "hash_ok h" and e: "errors_As_SnapshotNotFound e"
  shows "lookup w (object_at root key g h) = None"
proof -
  from GetObjectsPath_ok [OF root h, of g key True] obtain dest where
    dest: "GetObjectsPath root h g key True = Ok dest" "is_rooted (ObjectPath dest)"
      "comps (ObjectPath dest) = object_at root key g h" by blast
  show ?thesis
  proof -
    let ?p = "ObjectPath dest"
    have w0: "ctxErr ctx w = (Ok (), tick w)"
      and op: "\<exists>e' w1. os_Open ?p (tick w) = (Err e', w1) \<and> errors_Is e' ErrNotExist"
      using run dest(1) h e
      by (auto simp: disk_ReadObject_def err_iffs lift_outcome_Ok_iff ctxErr_def hash_ok_def open_errors decode_errors
          split: if_splits)
    then show ?thesis using dest is_rooted_nonempty [OF dest(2)]
      by (auto simp: os_Open_def syscall_def sys_def open_at_def resolve_rooted split: option.splits node.splits)
  qed
qed

subsection \<open>Restoring\<close>

lemma ReadObject_no_panic:
  assumes "is_rooted root" and "hash_ok h"
  shows "disk_ReadObject lib root ctx h key g w \<noteq> (Panic s, w')"
proof -
  from GetObjectsPath_ok [OF assms, of g key True] obtain dest where
    "GetObjectsPath root h g key True = Ok dest" by blast
  then show ?thesis
    by (auto simp: disk_ReadObject_def andThen_def tryCatch_def ctxErr_def fail_run return_run lift_outcome_run
        os_Open_def syscall_def sys_def open_at_def nothing_done_def AESGCM_Decode_def ignoring_def
        split: if_splits option.splits node.splits outcome.splits prod.splits)
qed

definition decodes :: "library \<Rightarrow> Compression \<Rightarrow> bytes \<Rightarrow> bytes \<Rightarrow> bool" where
  "decodes lib co data out \<longleftrightarrow>
     (\<exists>h. GetHandler (compType co) = Ok h \<and> Handler_Decode (lib_codecs lib) h data = Ok (out, None))"

text \<open>The object of a hash holds, under the key, data that decodes to the given bytes.\<close>

definition holds_part ::
  "library \<Rightarrow> string \<Rightarrow> Compression \<Rightarrow> bytes \<Rightarrow> uint64 \<Rightarrow> 'z os_world_scheme \<Rightarrow> string \<Rightarrow> bytes \<Rightarrow> bool" where
  "holds_part lib root co key g w h out \<longleftrightarrow>
     (\<exists>raw data. lookup w (object_at root key g h) = Some (File raw) \<and>
        object_content lib key raw = Some data \<and> decodes lib co data out)"

lemma object_source_Ok:
  assumes "object_source lib ctx source key w = (Ok (raw, None), w')"
    and "lookup w source = Some n" and "n \<noteq> Special"
  shows "\<exists>stored. lookup w source = Some (File stored) \<and> object_content lib key stored = Some raw \<and>
    (\<forall>q. lookup w' q = lookup w q) \<and> cwd w' = cwd w"
proof (cases "key = []")
  case True
  from assms(1) True obtain r w1 where s: "file_stream ctx source w = ((raw, None), w1)" "w' = w1"
    by (auto simp: object_source_def pass_pair)
  from file_stream_done [OF s(1)] content_of_file [OF assms(2,3)] True
    file_stream_lookup(1,2) [of ctx source w] s show ?thesis by (auto simp: object_content_def)
next
  case False
  from assms(1) False obtain b w1 where
    dec: "AESGCM_Decode (lib_crypto lib) (file_stream background source) key w = (Ok b, w1)"
    and mem: "mem_stream ctx b w1 = ((raw, None), w')"
    by (auto simp: object_source_def ok_iffs pass_pair)
  have "raw = b" using mem by (rule mem_stream_done)
  moreover have "\<forall>q. lookup w' q = lookup w1 q" "cwd w' = cwd w1"
    using stream_lookup(3,4) [of ctx b w1] mem by auto
  ultimately show ?thesis using decode_file_Ok [OF dec False assms(2,3)] by auto
qed

lemma write_decoded_Ok:
  assumes "write_decoded q decoded readErr w = (Ok n, w')" and "lookup w q = Some (File c)"
  shows "readErr = None \<and> snd decoded = None \<and> n = int (length (fst decoded)) \<and>
    lookup w' q = Some (File (c @ fst decoded))"
proof -
  from assms(1) have r: "readErr = None"
    by (auto simp: write_decoded_def ok_iffs split: option.splits)
  with assms(1) obtain w1 x where wr: "os_Write q (fst decoded) w = (Ok x, w1)"
    and "(case snd decoded of Some e \<Rightarrow> fail e | None \<Rightarrow> return (int (length (fst decoded)))) w1 = (Ok n, w')"
    by (auto simp: write_decoded_def andThen_Ok_iff)
  then have "snd decoded = None" "n = int (length (fst decoded))" "w' = w1"
    by (auto simp: ok_iffs split: option.splits)
  with os_Write_Ok [OF wr assms(2)] r show ?thesis by simp
qed

lemma restoreObjectPart_Ok:
  assumes run: "restoreObjectPart lib root ctx co h q key g w = (Ok n, w')"
    and root: "is_rooted root" and h: "hash_ok h" and q: "lookup w q = Some (File c)"
  shows "\<exists>out. holds_part lib root co key g w h out \<and> n = int (length out) \<and>
    lookup w' q = Some (File (c @ out))"
proof -
  from GetObjectsPath_ok [OF root h, of g key False] obtain dest where
    dest: "GetObjectsPath root h g key False = Ok dest" "is_rooted (ObjectPath dest)"
      "comps (ObjectPath dest) = object_at root key g h" by blast
  from run dest(1) obtain w1 source w2 raw readErr w3 hd decoded w4 where
    cx: "ctxErr ctx w = (Ok (), w1)" and op: "os_Open (ObjectPath dest) w1 = (Ok source, w2)"
    and src: "object_source lib ctx source key w2 = (Ok (raw, readErr), w3)"
    and dec: "GetHandler (compType co) = Ok hd" "Handler_Decode (lib_codecs lib) hd raw = Ok decoded"
    and wr: "write_decoded q decoded readErr w3 = (Ok n, w4)" and fin: "\<And>q. lookup w' q = lookup w4 q"
    by (auto simp: restoreObjectPart_def ok_iffs)
  from ctxErr_Ok [OF cx] os_Open_Ok [OF op] dest obtain n0 where
    s: "source = object_at root key g h" "w2 = tick w1" "w1 = tick w" "lookup w source = Some n0" "n0 \<noteq> Special"
    by (auto simp: resolve_rooted)
  have rd: "lookup w3 q' = lookup w q'" for q'
  proof -
    have "sets (cwd w2) {} (object_source lib ctx source key)"
      unfolding object_source_def by (intro sets_rules setsI) (simp_all add: snd_pass_pair)
    from sets_lookup(2) [OF this refl src] s show ?thesis by simp
  qed
  with q have "lookup w3 q = Some (File c)" by simp
  from write_decoded_Ok [OF wr this] have d: "readErr = None" "snd decoded = None"
    "n = int (length (fst decoded))" "lookup w4 q = Some (File (c @ fst decoded))" by simp_all
  have "lookup w2 source = Some n0" using s by simp
  from object_source_Ok [OF src [unfolded d(1)] this s(5)] s obtain stored where
    "lookup w (object_at root key g h) = Some (File stored)" "object_content lib key stored = Some raw"
    by auto
  moreover have "decodes lib co raw (fst decoded)"
    using dec d(2) by (auto simp: decodes_def) (metis prod.collapse)
  ultimately show ?thesis using d(3,4) fin unfolding holds_part_def by metis
qed

lemma sets_write_decoded [sets_rules]: "q \<in> S \<Longrightarrow> sets d S (write_decoded q decoded readErr)"
proof (rule setsI)
  fix w :: "'a os_world_scheme" assume q: "q \<in> S" and d: "cwd w = d"
  have a: "sets d S (andThen (ignoring (os_Write q b)) (\<lambda>_. fail e :: ('a, int) os))" for b e
    using q by (intro sets_rules)
  have b: "sets d S (andThen (os_Write q (fst decoded)) (\<lambda>_.
      case snd decoded of Some e \<Rightarrow> fail e | None \<Rightarrow> return (int (length (fst decoded)))) :: ('a, int) os)"
    using q by (intro sets_rules)
  show "steady w (snd (write_decoded q decoded readErr w)) \<and>
      (\<forall>q'. q' \<notin> S \<longrightarrow> lookup (snd (write_decoded q decoded readErr w)) q' = lookup w q')"
    using setsD [OF a d] setsD [OF b d] by (cases readErr) (simp_all add: write_decoded_def)
qed

lemma sets_object_source [sets_rules]: "sets d S (object_source lib ctx source key)"
  unfolding object_source_def by (intro sets_rules setsI) (simp_all add: snd_pass_pair)

lemma sets_restoreObjectPart [sets_rules]:
  "q \<in> S \<Longrightarrow> sets d S (restoreObjectPart lib root ctx co h q key g)"
  unfolding restoreObjectPart_def by (intro sets_rules)

lemma sets_restore_parts [sets_rules]:
  "q \<in> S \<Longrightarrow> sets d S (restore_parts lib root ctx co q key g hs n)"
  by (induction hs arbitrary: n) (auto intro!: sets_rules)

lemma restore_parts_Ok:
  assumes "restore_parts lib root ctx co q key g hs n w = (Ok m, w')" and "is_rooted root"
    and "\<And>h. h \<in> set hs \<Longrightarrow> hash_ok h \<and> object_at root key g h \<noteq> q" and "lookup w q = Some (File c)"
  shows "\<exists>outs. list_all2 (holds_part lib root co key g w) hs outs \<and>
    lookup w' q = Some (File (c @ concat outs)) \<and> i64 m = i64 (n + int (length (concat outs)))"
  using assms(1,3,4)
proof (induction hs arbitrary: n w c)
  case Nil
  then show ?case by (intro exI [of _ "[]"]) (simp add: return_Ok_iff)
next
  case (Cons h hs)
  from Cons.prems(1) obtain w1 wr w2 where cx: "ctxErr ctx w = (Ok (), w1)"
    and part: "restoreObjectPart lib root ctx co h q key g w1 = (Ok wr, w2)"
    and rest: "restore_parts lib root ctx co q key g hs (i64 (n + wr)) w2 = (Ok m, w')"
    by (auto simp: ok_iffs)
  have w1: "w1 = tick w" using ctxErr_Ok [OF cx] by simp
  have h: "hash_ok h" using Cons.prems(2) by simp
  have "lookup w1 q = Some (File c)" using Cons.prems(3) w1 by simp
  from restoreObjectPart_Ok [OF part assms(2) h this] obtain out where
    out: "holds_part lib root co key g w1 h out" "wr = int (length out)"
      "lookup w2 q = Some (File (c @ out))" by blast
  from Cons.IH [OF rest Cons.prems(2) out(3)] obtain outs where
    outs: "list_all2 (holds_part lib root co key g w2) hs outs"
      "lookup w' q = Some (File ((c @ out) @ concat outs))"
      "i64 m = i64 (i64 (n + wr) + int (length (concat outs)))" by auto
  have same: "lookup w2 (object_at root key g h') = lookup w (object_at root key g h')" if "h' \<in> set hs" for h'
  proof -
    have "object_at root key g h' \<notin> {q}" using Cons.prems(2) that by auto
    with sets_lookup(2) [OF sets_restoreObjectPart [of q "{q}"] refl part] w1 show ?thesis by simp
  qed
  have "holds_part lib root co key g w h out" using out(1) w1 by (simp add: holds_part_def)
  moreover have "list_all2 (holds_part lib root co key g w) hs outs"
    using outs(1) same by (auto simp: list_all2_conv_all_nth holds_part_def)
  ultimately show ?case using outs(2,3) out(2)
    by (intro exI [of _ "out # outs"]) (simp add: add.assoc)
qed

text \<open>A restore that returned nil: the file is the concatenation of its parts.\<close>

lemma RestoreObject_content:
  assumes run: "disk_RestoreObject lib root ctx cmp f key g w = (Ok x, w')" and root: "is_rooted root"
    and hs: "objectHashes f = Ok hs"
    and ok: "\<And>h. h \<in> set hs \<Longrightarrow> hash_ok h \<and> object_at root key g h \<noteq> resolve w (file_path f)"
  shows "\<exists>co outs. cmp = Some co \<and> list_all2 (holds_part lib root co key g w) hs outs \<and>
    lookup w' (resolve w (file_path f)) = Some (File (concat outs)) \<and>
    i64 (file_size f) = i64 (int (length (concat outs)))"
proof -
  let ?q = "resolve w (file_path f)"
  from run hs obtain co w1 w2 d w3 m w4 w5 where co: "cmp = Some co"
    and cx: "ctxErr ctx w = (Ok (), w1)" and mk: "os_MkdirAll (Dir_of (file_path f)) w1 = (Ok (), w2)"
    and cr: "os_Create (file_path f) w2 = (Ok d, w3)"
    and parts: "restore_parts lib root ctx co d key g hs 0 w3 = (Ok m, w4)" and m: "m = file_size f"
    and cl: "os_Close d w4 = (Ok (), w5)" and fin: "w' = w5"
    by (auto simp: disk_RestoreObject_def ok_iffs split: option.splits if_splits)
  have w1: "w1 = tick w" using ctxErr_Ok [OF cx] by simp
  have c2: "cwd w2 = cwd w" using Mkdir_cwd [OF mk] w1 by simp
  then have r2: "resolve w2 (file_path f) = ?q" by (rule resolve_cong)
  from os_Create_Ok [OF cr] r2 have d: "d = ?q" "lookup w3 d = Some (File [])" by auto
  have "hash_ok h \<and> object_at root key g h \<noteq> d" if "h \<in> set hs" for h using ok [OF that] d(1) by simp
  from restore_parts_Ok [OF parts root this d(2)] obtain outs where
    outs: "list_all2 (holds_part lib root co key g w3) hs outs" "lookup w4 d = Some (File (concat outs))"
      "i64 m = i64 (int (length (concat outs)))" by auto
  have orig: "lookup w (object_at root key g h) = Some (File raw)"
    if that: "h \<in> set hs" "lookup w3 (object_at root key g h) = Some (File raw)" for h raw
  proof -
    have "lookup w2 (object_at root key g h) = Some (File raw)"
      using Create_frame(1) [OF cr] ok [OF that(1)] r2 that(2) by simp
    with os_MkdirAll_Ok [OF mk] w1 show ?thesis by (simp split: if_splits)
  qed
  have "list_all2 (holds_part lib root co key g w) hs outs"
    using outs(1) orig unfolding list_all2_conv_all_nth holds_part_def by (metis nth_mem)
  with co outs(2,3) d m fin os_Close_Ok [OF cl] show ?thesis by auto
qed

text \<open>
  A restore that failed leaves no new file: the destination is as before (it failed before the file was
  created) or gone, unless the removal itself failed.
\<close>

lemma mkdir_cases:
  "os_MkdirAll p w = (r, w') \<Longrightarrow> lookup w' q = lookup w q \<or> lookup w' q = Some Dir"
  by (auto simp: os_MkdirAll_def syscall_def sys_def mkdir_all_at_def nothing_done_def make_dirs_all
      split: if_splits option.splits)

lemma os_Create_Err: "os_Create p w = (Err e, w') \<Longrightarrow> lookup w' q = lookup w q"
  by (auto simp: os_Create_def syscall_def sys_def create_at_def nothing_done_def
      split: if_splits option.splits node.splits)

lemma os_Remove_total: "os_Remove p w \<noteq> (Panic s, w')"
  by (auto simp: os_Remove_def syscall_def sys_def remove_at_def split: option.splits node.splits)

lemma RestoreObject_cleanup:
  assumes run: "disk_RestoreObject lib root ctx cmp f key g w = (Err e, w')"
    and new: "lookup w' (resolve w (file_path f)) = Some (File b)"
  shows "lookup w (resolve w (file_path f)) = Some (File b) \<or>
    (\<exists>w1 e'. os_Remove (file_path f) w1 = (Err e', w'))"
proof -
  let ?q = "resolve w (file_path f)"
  let ?body = "\<lambda>co hs d. andThen (restore_parts lib root ctx co d key g hs 0) (\<lambda>restored.
               if restored \<noteq> file_size f then fail (ErrText ''restored size mismatch'')
               else orWrap ''close restored file'' (os_Close d))"
  have start: "lookup (snd (ctxErr ctx w)) q = lookup w q" "cwd (snd (ctxErr ctx w)) = cwd w" for q
    by (simp_all add: ctxErr_def)
  from run consider
    (early) "w' = snd (ctxErr ctx w)"
    | (dir) r where "os_MkdirAll (Dir_of (file_path f)) (snd (ctxErr ctx w)) = (r, w')"
    | (create) w2 e' where "os_MkdirAll (Dir_of (file_path f)) (snd (ctxErr ctx w)) = (Ok (), w2)"
        "os_Create (file_path f) w2 = (Err e', w')"
    | (body) w2 d w3 co hs w4 where "os_MkdirAll (Dir_of (file_path f)) (snd (ctxErr ctx w)) = (Ok (), w2)"
        "os_Create (file_path f) w2 = (Ok d, w3)" "?body co hs d w3 = (Err e, w4)"
        "w' = snd (os_Remove (file_path f) (snd (os_Close d w4)))"
    by (auto simp: disk_RestoreObject_def andThen_Err_iff [of "ctxErr ctx"] fail_Err_iff lift_outcome_Err_iff
        lift_outcome_Ok_iff andThen_Err_iff [of "lift_outcome r" for r]
        andThen_Err_iff [of "orWrap m (os_MkdirAll p)" for m p]
        andThen_Err_iff [of "orWrap m (os_Create p)" for m p] orWrap_Err_iff deferring_iff
        andThen_def [of "ignoring m" for m] tryCatch_def ignoring_def split: option.splits)
  then show ?thesis
  proof cases
    case early
    with new start show ?thesis by simp
  next
    case dir
    from mkdir_cases [OF dir, of ?q] new start show ?thesis by auto
  next
    case create
    from mkdir_cases [OF create(1), of ?q] os_Create_Err [OF create(2)] new start show ?thesis by auto
  next
    case body
    have c2: "cwd w2 = cwd w" using Mkdir_cwd [OF body(1)] start by simp
    have c3: "cwd w3 = cwd w" using Create_frame(2) [OF body(2)] c2 by simp
    have "sets (cwd w3) UNIV (?body co hs d)" by (intro sets_rules) simp_all
    from sets_lookup(1) [OF this refl body(3)] c3 have c4: "cwd w4 = cwd w" by simp
    let ?w5 = "snd (os_Close d w4)"
    obtain r where rm: "os_Remove (file_path f) ?w5 = (r, w')" using body(4) by (metis prod.collapse)
    have r5: "resolve ?w5 (file_path f) = ?q" using c4 by (simp add: resolve_def)
    show ?thesis
    proof (cases r)
      case (Ok x)
      have "?q \<noteq> []" using new by auto
      with os_Remove_Ok [OF rm [unfolded Ok]] r5 new show ?thesis by simp
    next
      case (Err e')
      with rm show ?thesis by blast
    next
      case (Panic s)
      with rm os_Remove_total show ?thesis by blast
    qed
  qed
qed

end
