(* ===== verification/Disk_Rekey_Facts.thy ===== *)
theory Disk_Rekey_Facts
  imports Disk_Restore_Facts
begin

section \<open>Correctness of the generation operations on disk\<close>

text \<open>
  Saving an object under a new key is atomic: the object's path changes only by the renaming of a
  complete temporary file, whose content has the object's hash. Deleting a generation removes its
  directory and nothing else.
\<close>

subsection \<open>Paths\<close>

lemma rekey_paths:
  fixes g :: uint64
  assumes root: "is_rooted root" and h: "hash_ok h"
  defines "p \<equiv> Join [EncryptedGenerationPath root g False, take 2 h]"
  shows "is_rooted p" and "comps p = generation_at root g @ [take 2 h]"
    and "comps (Join [p, drop 2 h]) = generation_at root g @ [take 2 h, drop 2 h]"
    and "is_rooted (Join [p, drop 2 h])"
    and "comps (Join [EncryptedGenerationPath root g False, take 2 h, drop 2 h]) =
      generation_at root g @ [take 2 h, drop 2 h]"
proof -
  note gen = comps_EncryptedGenerationPath [OF root, of g False]
  note parts = hash_ok_parts [OF h]
  show p: "is_rooted p" using gen(2) by (simp add: p_def)
  show c: "comps p = generation_at root g @ [take 2 h]"
    using comps_Join_simple1 [OF gen(2) parts(1)] gen(1) by (simp add: p_def)
  show "comps (Join [p, drop 2 h]) = generation_at root g @ [take 2 h, drop 2 h]"
    using comps_Join_simple1 [OF p parts(2)] c by simp
  show "is_rooted (Join [p, drop 2 h])" using p by simp
  show "comps (Join [EncryptedGenerationPath root g False, take 2 h, drop 2 h]) =
      generation_at root g @ [take 2 h, drop 2 h]"
    using comps_Join [OF gen(2), of "[take 2 h, drop 2 h]"] parts gen(1) by auto
qed

text \<open>The temporary files of a hash: names in the object's directory that no object has.\<close>

definition temp_prefix :: "string \<Rightarrow> string" where
  "temp_prefix h = ''.'' @ drop 2 h @ ''.rekey-''"

definition temps_of :: "string \<Rightarrow> uint64 \<Rightarrow> string \<Rightarrow> fspath set" where
  "temps_of root g h = {generation_at root g @ [take 2 h, temp_prefix h @ x] |x. True}"

lemma dot_not_hex: "CHR ''.'' \<notin> set hex_alphabet"
  by (simp add: hex_alphabet_def)

lemma temp_not_object:
  assumes "hash_ok h'" and "q \<in> temps_of root g h" and "key \<noteq> []"
  shows "q \<noteq> object_at root key g' h'"
proof
  assume q: "q = object_at root key g' h'"
  from assms(2) obtain x where "q = generation_at root g @ [take 2 h, temp_prefix h @ x]"
    unfolding temps_of_def by blast
  then have "last q = temp_prefix h @ x" by simp
  moreover have "last q = drop 2 h'" unfolding q by (simp add: object_at_def)
  ultimately have "temp_prefix h @ x = drop 2 h'" by simp
  moreover have "CHR ''.'' \<in> set (temp_prefix h @ x)" by (simp add: temp_prefix_def)
  ultimately have "CHR ''.'' \<in> set (drop 2 h')" by metis
  moreover have "set (drop 2 h') \<subseteq> set hex_alphabet"
    using assms(1) set_drop_subset unfolding hash_ok_def by fast
  ultimately show False using dot_not_hex by blast
qed

subsection \<open>Saving under a new key\<close>

text \<open>The paths a save can touch: its temporary files, its object, and the directories above.\<close>

definition rekey_paths_of :: "string \<Rightarrow> uint64 \<Rightarrow> string \<Rightarrow> fspath set" where
  "rekey_paths_of root g h = above (generation_at root g @ [take 2 h, drop 2 h]) \<union> temps_of root g h"

text \<open>A reader that only reads.\<close>

definition pure_reader :: "'z ReadCloser \<Rightarrow> bool" where
  "pure_reader rc \<longleftrightarrow> (\<forall>ctx w q. lookup (snd (rc_Read rc ctx w)) q = lookup w q \<and>
     steady w (snd (rc_Read rc ctx w)))"

lemma pure_readers [simp]: "pure_reader (file_reader h)" "pure_reader (plain_reader b h)"
  by (simp_all add: pure_reader_def file_reader_def plain_reader_def)

lemma sets_rekey_body:
  assumes "pure_reader source" and "temp \<in> S" and "path_at d p \<in> S"
  shows "sets d S (rekey_body lib ctx h source key temp p)"
proof -
  let ?n = "\<lambda>got. andThen (orWrap ''close encryption encoder''
              (AESGCM_Close (lib_crypto lib) key got (os_Write temp))) (\<lambda>_.
            if content_hash (lib_crypto lib) got \<noteq> h then fail (ErrText ''rekey object hash mismatch'')
            else
              andThen (ctxErr ctx) (\<lambda>_.
              andThen (orWrap ''sync temporary encrypted object'' (os_Sync temp)) (\<lambda>_.
              andThen (orWrap ''close temporary encrypted object'' (os_Close temp)) (\<lambda>_.
              orWrap ''commit rekeyed object'' (os_Rename temp p)))))"
  let ?e = "\<lambda>got e. andThen (ignoring (AESGCM_Close (lib_crypto lib) key got (os_Write temp))) (\<lambda>_.
            (fail (Wrapped ''encrypt object'' e) :: ('a, unit) os))"
  have n: "sets d S (?n got)" and e: "sets d S (?e got er)" for got er
    using assms(2,3) by (intro sets_rules; simp)+
  have "sets d S (\<lambda>w. case rc_Read source background w of
      ((got, Some e), w') \<Rightarrow> ?e got e w' | ((got, None), w') \<Rightarrow> ?n got w')"
  proof (rule setsI)
    fix w :: "'a os_world_scheme" assume d: "cwd w = d"
    obtain got er w' where run: "rc_Read source background w = ((got, er), w')" by (metis prod.exhaust)
    have w': "steady w w'" "\<And>q. lookup w' q = lookup w q"
      using assms(1) run d unfolding pure_reader_def by (metis snd_conv)+
    have c': "cwd w' = d" using w'(1) d by (simp add: steady_def)
    show "steady w (snd (case rc_Read source background w of
        ((got, Some e), w') \<Rightarrow> ?e got e w' | ((got, None), w') \<Rightarrow> ?n got w')) \<and>
      (\<forall>q. q \<notin> S \<longrightarrow> lookup (snd (case rc_Read source background w of
        ((got, Some e), w') \<Rightarrow> ?e got e w' | ((got, None), w') \<Rightarrow> ?n got w')) q = lookup w q)"
      using setsD [OF n c'] setsD [OF e c'] steady_trans [OF w'(1)] w'(2) run by (cases er) simp_all
  qed
  then show ?thesis unfolding rekey_body_def by (intro sets_combinators)
qed

lemma rekey_body_Ok:
  assumes run: "rekey_body lib ctx h source key temp p w = (Ok x, w')" and src: "pure_reader source"
    and temp: "lookup w temp = Some (File [])"
  shows "\<exists>got raw w1. rc_Read source background w = ((got, None), w1) \<and> length key = AES256KeySize \<and>
    content_hash (lib_crypto lib) got = h \<and> lookup w' (resolve w p) = Some (File raw) \<and>
    (key \<noteq> [] \<longrightarrow> stored_as lib key raw got)"
proof -
  obtain got er w1 where rd: "rc_Read source background w = ((got, er), w1)" by (metis prod.exhaust)
  from run rd have e: "er = None" by (cases er) (auto simp: rekey_body_def ok_iffs)
  from run rd e obtain out w2 w3 w4 w5 where
    key: "AESGCM_Encode key = Ok ()"
    and cl: "AESGCM_Close (lib_crypto lib) key got (os_Write temp) w1 = (Ok out, w2)"
    and hash: "content_hash (lib_crypto lib) got = h"
    and cx: "ctxErr ctx w2 = (Ok (), w3)" and sy: "os_Sync temp w3 = (Ok (), w4)"
    and co: "os_Close temp w4 = (Ok (), w5)" and rn: "os_Rename temp p w5 = (Ok x, w')"
    by (auto simp: rekey_body_def ok_iffs split: if_splits)
  have w1: "lookup w1 temp = Some (File [])" "cwd w1 = cwd w"
    using src rd temp unfolding pure_reader_def steady_def by (metis snd_conv)+
  from AESGCM_Close_Ok [OF cl w1(1)] obtain nonce where
    raw: "length nonce = gcmNonceSize" "out = nonce @ gcm_Seal (lib_crypto lib) key nonce got"
      "lookup w2 temp = Some (File out)" by auto
  have "cwd w2 = cwd w1"
    using sets_lookup(1) [OF sets_AESGCM_Close [of temp UNIV] refl cl] by simp
  moreover have w5: "w5 = tick (tick (tick w2))"
    using ctxErr_Ok [OF cx] os_Sync_Ok [OF sy] os_Close_Ok [OF co] by simp
  ultimately have r: "resolve w5 p = resolve w p" using w1(2) by (simp add: resolve_def)
  obtain b where "lookup w5 temp = Some (File b)" "lookup w' (resolve w5 p) = Some (File b)"
    using rn by (rule os_Rename_Ok)
  with w5 raw(3) r have "lookup w' (resolve w p) = Some (File out)" by simp
  moreover have "length key = AES256KeySize" using key by (simp add: AESGCM_Encode_Ok)
  ultimately show ?thesis using rd e hash raw by (auto simp: stored_as_def)
qed

text \<open>
  A save that returned nil has stored, at the object's path, the encryption of content that was read
  from the source and has the object's hash.
\<close>

lemma SaveRekeyed_stored:
  assumes run: "disk_SaveRekeyedObject lib root ctx h source g key w = (Ok x, w')"
    and root: "is_rooted root" and h: "hash_ok h" and src: "pure_reader source"
  shows "key \<noteq> [] \<and> (\<exists>got raw wa wb. rc_Read source background wa = ((got, None), wb) \<and>
    content_hash (lib_crypto lib) got = h \<and>
    lookup w' (object_at root key g h) = Some (File raw) \<and> stored_as lib key raw got)"
proof -
  note paths = rekey_paths [OF root h, of g]
  let ?dir = "Join [EncryptedGenerationPath root g False, take 2 h]"
  from run obtain w1 w2 temp w3 w4 where key: "key \<noteq> []"
    and mk: "os_MkdirAll ?dir w1 = (Ok (), w2)"
    and tmp: "os_CreateTemp ?dir (''.'' @ drop 2 h @ ''.rekey-'') w2 = (Ok temp, w3)"
    and body: "rekey_body lib ctx h source key temp (Join [?dir, drop 2 h]) w3 = (Ok x, w4)" and w': "w' = w4"
    by (auto simp: disk_SaveRekeyedObject_def ok_iffs Let_def split: if_splits)
  from os_CreateTemp_Ok [OF tmp] have "lookup w3 temp = Some (File [])" by blast
  from rekey_body_Ok [OF body src this] paths key w' show ?thesis
    by (fastforce simp: object_at_generation resolve_rooted)
qed

lemma SaveRekeyed_atomic:
  assumes root: "is_rooted root" and h: "hash_ok h" and src: "pure_reader source"
  shows "sets d (rekey_paths_of root g h) (disk_SaveRekeyedObject lib root ctx h source g key)"
proof -
  note paths = rekey_paths [OF root h, of g]
  let ?dir = "Join [EncryptedGenerationPath root g False, take 2 h]"
  let ?S = "rekey_paths_of root g h"
  let ?rest = "\<lambda>temp. deferring (rekey_body lib ctx h source key temp (Join [?dir, drop 2 h]))
      (\<lambda>committed. if committed then return ()
         else andThen (ignoring (os_Close temp)) (\<lambda>_. ignoring (os_RemoveAt temp)))"
  have rest: "sets d ?S (?rest temp)" if "temp \<in> temps_of root g h" for temp
    using that paths by (intro sets_rules sets_rekey_body src) (auto simp: rekey_paths_of_def)
  have create: "sets d ?S (andThen (orWrap msg (os_CreateTemp ?dir (''.'' @ drop 2 h @ ''.rekey-''))) ?rest)"
    for msg
  proof (rule sets_andThen_result)
    have "{path_at d ?dir @ [temp_prefix h @ x] |x. True} \<subseteq> ?S"
      using paths by (auto simp: rekey_paths_of_def temps_of_def)
    then show "sets d ?S (orWrap msg (os_CreateTemp ?dir (''.'' @ drop 2 h @ ''.rekey-'')))"
      unfolding temp_prefix_def by (intro sets_combinators sets_os_CreateTemp)
  next
    fix w temp w'
    assume "orWrap msg (os_CreateTemp ?dir (''.'' @ drop 2 h @ ''.rekey-'')) w = (Ok temp, w')"
    then have "os_CreateTemp ?dir (temp_prefix h) w = (Ok temp, w')" by (simp add: temp_prefix_def)
    from os_CreateTemp_Ok [OF this] paths have "temp \<in> temps_of root g h"
      by (auto simp: temps_of_def resolve_rooted)
    then show "sets d ?S (?rest temp)" by (rule rest)
  qed
  have dirs: "{q. prefix q (path_at d ?dir)} \<subseteq> ?S"
    using paths above_mono [of "generation_at root g @ [take 2 h]" "generation_at root g @ [take 2 h, drop 2 h]"]
    by (auto simp: rekey_paths_of_def)
  show ?thesis unfolding disk_SaveRekeyedObject_def Let_def
    by (intro sets_combinators(6) sets_combinators(10) sets_combinators(2,7) sets_reads create
        sets_os_MkdirAll dirs)
qed

text \<open>A save that failed leaves the object as it was: only directories and temporary files change.\<close>

lemma on_error_rekey_body:
  assumes "pure_reader source"
  shows "sets_on_error d {temp} (rekey_body lib ctx h source key temp p)"
proof -
  let ?n = "\<lambda>got. andThen (orWrap ''close encryption encoder''
              (AESGCM_Close (lib_crypto lib) key got (os_Write temp))) (\<lambda>_.
            if content_hash (lib_crypto lib) got \<noteq> h then fail (ErrText ''rekey object hash mismatch'')
            else
              andThen (ctxErr ctx) (\<lambda>_.
              andThen (orWrap ''sync temporary encrypted object'' (os_Sync temp)) (\<lambda>_.
              andThen (orWrap ''close temporary encrypted object'' (os_Close temp)) (\<lambda>_.
              orWrap ''commit rekeyed object'' (os_Rename temp p)))))"
  let ?e = "\<lambda>got e. andThen (ignoring (AESGCM_Close (lib_crypto lib) key got (os_Write temp))) (\<lambda>_.
            (fail (Wrapped ''encrypt object'' e) :: ('a, unit) os))"
  have n: "sets_on_error d {temp} (?n got)" and e: "sets_on_error d {temp} (?e got er)" for got er
    by (intro on_error_andThen on_error_if on_error_orWrap on_error_Rename sets_imp_on_error sets_rules; simp)+
  have "sets_on_error d {temp} (\<lambda>w. case rc_Read source background w of
      ((got, Some e), w') \<Rightarrow> ?e got e w' | ((got, None), w') \<Rightarrow> ?n got w')"
    unfolding sets_on_error_def
  proof (intro allI impI)
    fix w :: "'a os_world_scheme" and er w' q
    assume d: "cwd w = d" and q: "q \<notin> {temp}" and run: "(case rc_Read source background w of
        ((got, Some e), w') \<Rightarrow> ?e got e w' | ((got, None), w') \<Rightarrow> ?n got w') = (Err er, w')"
    obtain got rr w1 where rd: "rc_Read source background w = ((got, rr), w1)" by (metis prod.exhaust)
    have w1: "cwd w1 = d" "\<And>q. lookup w1 q = lookup w q"
      using assms rd d unfolding pure_reader_def steady_def by (metis snd_conv)+
    show "lookup w' q = lookup w q \<and> cwd w' = d"
    proof (cases rr)
      case None
      with run rd have "?n got w1 = (Err er, w')" by simp
      with n [of got] w1 q show ?thesis unfolding sets_on_error_def by metis
    next
      case (Some e)
      with run rd have "?e got e w1 = (Err er, w')" by simp
      with e [of got] w1 q show ?thesis unfolding sets_on_error_def by metis
    qed
  qed
  then show ?thesis unfolding rekey_body_def by (intro on_error_andThen sets_rules)
qed

lemma SaveRekeyed_error:
  assumes run: "disk_SaveRekeyedObject lib root ctx h source g key w = (Err e, w')"
    and root: "is_rooted root" and h: "hash_ok h" and src: "pure_reader source" and h': "hash_ok h'"
    and key': "key' \<noteq> []"
  shows "lookup w' (object_at root key' g' h') = lookup w (object_at root key' g' h')"
proof -
  note paths = rekey_paths [OF root h, of g]
  let ?dir = "Join [EncryptedGenerationPath root g False, take 2 h]"
  let ?S = "above (comps ?dir) \<union> temps_of root g h"
  let ?rest = "\<lambda>temp. deferring (rekey_body lib ctx h source key temp (Join [?dir, drop 2 h]))
      (\<lambda>committed. if committed then return ()
         else andThen (ignoring (os_Close temp)) (\<lambda>_. ignoring (os_RemoveAt temp)))"
  have rest: "sets_on_error d ?S (?rest temp)" if "temp \<in> temps_of root g h" for d temp
  proof (rule on_error_deferring)
    show "sets_on_error d ?S (rekey_body lib ctx h source key temp (Join [?dir, drop 2 h]))"
      by (rule on_error_mono [OF on_error_rekey_body [OF src]]) (simp add: that)
    show "sets d ?S (if b then return () else andThen (ignoring (os_Close temp)) (\<lambda>_. ignoring (os_RemoveAt temp)))"
      for b using that by (intro sets_rules) simp
  qed
  have create: "sets_on_error d ?S
      (andThen (orWrap msg (os_CreateTemp ?dir (''.'' @ drop 2 h @ ''.rekey-''))) ?rest)" for msg d
  proof (rule on_error_andThen_result)
    have "{path_at d ?dir @ [temp_prefix h @ x] |x. True} \<subseteq> ?S"
      using paths by (auto simp: temps_of_def)
    then show "sets d ?S (orWrap msg (os_CreateTemp ?dir (''.'' @ drop 2 h @ ''.rekey-'')))"
      unfolding temp_prefix_def by (intro sets_combinators sets_os_CreateTemp)
  next
    fix w temp w'
    assume "orWrap msg (os_CreateTemp ?dir (''.'' @ drop 2 h @ ''.rekey-'')) w = (Ok temp, w')"
    then have "os_CreateTemp ?dir (temp_prefix h) w = (Ok temp, w')" by (simp add: temp_prefix_def)
    from os_CreateTemp_Ok [OF this] paths have "temp \<in> temps_of root g h"
      by (auto simp: temps_of_def resolve_rooted)
    then show "sets_on_error d ?S (?rest temp)" by (rule rest)
  qed
  have dirs: "{q. prefix q (path_at d ?dir)} \<subseteq> ?S" for d
    using paths by (auto simp: above_def)
  have all: "sets_on_error (cwd w) ?S (disk_SaveRekeyedObject lib root ctx h source g key)"
    unfolding disk_SaveRekeyedObject_def Let_def
    by (intro on_error_andThen on_error_if sets_imp_on_error [OF sets_combinators(2)] sets_combinators(7)
        sets_reads create sets_os_MkdirAll dirs)
  have "object_at root key' g' h' \<notin> temps_of root g h"
    using temp_not_object [OF h' _ key'] by blast
  moreover have "object_at root key' g' h' \<notin> above (comps ?dir)"
  proof
    assume "object_at root key' g' h' \<in> above (comps ?dir)"
    then have "prefix (object_at root key' g' h') (comps ?dir)" by (simp add: above_def)
    from prefix_length_le [OF this] key' show False
      unfolding paths(2) by (simp add: object_at_def folders_def generation_at_def)
  qed
  ultimately show ?thesis using sets_on_errorD [OF all refl run] by blast
qed

subsection \<open>Deleting a generation\<close>

lemma sets_DeleteEncryptedGeneration:
  assumes "is_rooted root"
  shows "sets d {q. prefix (generation_at root g) q} (disk_DeleteEncryptedGeneration root ctx g)"
  unfolding disk_DeleteEncryptedGeneration_def
  by (intro sets_rules) (simp add: comps_EncryptedGenerationPath [OF assms])

lemma sets_AbortRekey:
  "is_rooted root \<Longrightarrow> sets d {q. prefix (generation_at root g) q} (disk_AbortRekey root ctx g)"
  unfolding disk_AbortRekey_def by (intro sets_combinators sets_DeleteEncryptedGeneration)

lemma DeleteEncryptedGeneration_Ok:
  assumes "disk_DeleteEncryptedGeneration root ctx g w = (Ok x, w')" and root: "is_rooted root"
  shows "lookup w' q = (if prefix (generation_at root g) q then None else lookup w q)"
proof -
  let ?p = "EncryptedGenerationPath root g False"
  note p = comps_EncryptedGenerationPath [OF root, of g False]
  from assms(1) obtain w1 w2 where cx: "ctxErr ctx w = (Ok (), w1)" and rm: "os_RemoveAll ?p w1 = (Ok (), w2)"
    and cx': "ctxErr ctx w2 = (Ok x, w')"
    by (auto simp: disk_DeleteEncryptedGeneration_def ok_iffs)
  have "q = [] \<Longrightarrow> \<not> prefix (generation_at root g) q" by (simp add: generation_at_def)
  with os_RemoveAll_Ok [OF rm is_rooted_nonempty [OF p(2)], of q] ctxErr_Ok [OF cx] ctxErr_Ok [OF cx'] p
  show ?thesis by (auto simp: resolve_rooted)
qed

subsection \<open>Reading under the old key\<close>

lemma ReadEncryptedObject_Ok:
  assumes run: "disk_ReadEncryptedObject lib root ctx h g key w = (Ok rc, w')"
    and root: "is_rooted root" and h: "hash_ok h"
  shows "\<exists>raw b. key \<noteq> [] \<and> lookup w (object_at root key g h) = Some (File raw) \<and>
    object_content lib key raw = Some b \<and> rc = plain_reader b (object_at root key g h)"
proof -
  note paths = rekey_paths [OF root h, of g]
  let ?p = "Join [EncryptedGenerationPath root g False, take 2 h, drop 2 h]"
  have rp: "is_rooted ?p" using comps_EncryptedGenerationPath(2) [OF root] by simp
  from run obtain w1 f w2 b where key: "key \<noteq> []" and cx: "ctxErr ctx w = (Ok (), w1)"
    and op: "os_Open ?p w1 = (Ok f, w2)"
    and dec: "AESGCM_Decode (lib_crypto lib) (file_stream background f) key w2 = (Ok b, w')"
    and rc: "rc = plain_reader b f"
    by (auto simp: disk_ReadEncryptedObject_def ok_iffs split: if_splits)
  from ctxErr_Ok [OF cx] os_Open_Ok [OF op] rp paths key obtain n where
    f: "f = object_at root key g h" "w2 = tick w1" "w1 = tick w" "lookup w f = Some n" "n \<noteq> Special"
    by (auto simp: resolve_rooted object_at_generation)
  have "lookup w2 f = Some n" using f by simp
  from decode_file_Ok [OF dec key this f(5)] f key rc show ?thesis by auto
qed

end
