(* ===== verification/Disk_Source_Facts.thy ===== *)
theory Disk_Source_Facts
  imports Disk_Rekey_Facts
begin

section \<open>Correctness of the source explorer\<close>

text \<open>
  The hash of a file is the hash of its compressed content; the chunks of a file tile it, and the loop
  that computes them ends; exploring a directory finds its regular files.
\<close>

subsection \<open>Hashing\<close>

lemma calculateReaderHash_Ok:
  assumes "calculateReaderHash lib reader co w = (Ok h, w')"
  shows "\<exists>enc got. compresses lib (Some co) enc \<and> reader w = ((got, None), w') \<and>
    h = content_hash (lib_crypto lib) (enc got)"
proof -
  obtain got e w1 where rd: "reader w = ((got, e), w1)" by (metis prod.exhaust)
  with assms show ?thesis
    by (cases e) (auto simp: calculateReaderHash_def ok_iffs compresses_def)
qed

lemma sets_calculateReaderHash [sets_rules]:
  assumes "\<And>w. cwd w = d \<Longrightarrow> steady w (snd (reader w)) \<and> (\<forall>q. q \<notin> S \<longrightarrow> lookup (snd (reader w)) q = lookup w q)"
  shows "sets d S (calculateReaderHash lib reader co)"
proof -
  have "sets d S (\<lambda>w. case reader w of
      ((got, Some e), w') \<Rightarrow> fail (Wrapped ''compress data for hashing'' e) w'
    | ((got, None), w') \<Rightarrow> return (content_hash (lib_crypto lib) (enc got)) w')" for enc
  proof (rule setsI)
    fix w :: "'a os_world_scheme" assume d: "cwd w = d"
    obtain got e w1 where rd: "reader w = ((got, e), w1)" by (metis prod.exhaust)
    with assms [OF d] show "steady w (snd (case reader w of
        ((got, Some e), w') \<Rightarrow> fail (Wrapped ''compress data for hashing'' e) w'
      | ((got, None), w') \<Rightarrow> return (content_hash (lib_crypto lib) (enc got)) w')) \<and>
      (\<forall>q. q \<notin> S \<longrightarrow> lookup (snd (case reader w of
        ((got, Some e), w') \<Rightarrow> fail (Wrapped ''compress data for hashing'' e) w'
      | ((got, None), w') \<Rightarrow> return (content_hash (lib_crypto lib) (enc got)) w')) q = lookup w q)"
      by (cases e) (simp_all add: fail_run return_run)
  qed
  then show ?thesis unfolding calculateReaderHash_def by (intro sets_combinators)
qed

lemma CalculateHash_Ok:
  assumes "disk_CalculateHash lib ctx p cmp w = (Ok h, w')"
  shows "\<exists>b enc. lookup w (resolve w p) = Some (File b) \<and> compresses lib cmp enc \<and>
    h = content_hash (lib_crypto lib) (enc b)"
proof -
  from assms obtain f w1 co w2 where op: "os_Open p w = (Ok f, w1)" and co: "cmp = Some co"
    and hash: "calculateReaderHash lib (file_stream ctx f) co w1 = (Ok h, w2)"
    by (auto simp: disk_CalculateHash_def ok_iffs deref_Ok)
  from calculateReaderHash_Ok [OF hash] obtain enc got where
    "compresses lib (Some co) enc" "file_stream ctx f w1 = ((got, None), w2)"
    "h = content_hash (lib_crypto lib) (enc got)" by blast
  moreover from os_Open_Ok [OF op] obtain n where f: "f = resolve w p" "w1 = tick w" "lookup w f = Some n" "n \<noteq> Special"
    by auto
  moreover from f have "lookup w1 f = Some n" by simp
  ultimately have "lookup w1 f = Some (File got)"
    using content_of_file [of w1 f n] file_stream_done [of ctx f w1 got w2] by simp
  with f \<open>compresses lib (Some co) enc\<close> co \<open>h = content_hash (lib_crypto lib) (enc got)\<close>
  show ?thesis by auto
qed

lemma sets_disk_CalculateHash: "sets d S (disk_CalculateHash lib ctx p cmp)"
  unfolding disk_CalculateHash_def deref_def by (intro sets_rules) simp_all

subsection \<open>Chunks\<close>

text \<open>A list of chunks that covers a file from an offset on, each as large as it can be.\<close>

fun tiles :: "int \<Rightarrow> int \<Rightarrow> int \<Rightarrow> Chunk list \<Rightarrow> bool" where
  "tiles csz fsz off [] \<longleftrightarrow> fsz \<le> off"
| "tiles csz fsz off (c # cs) \<longleftrightarrow>
     off < fsz \<and> chunk_offset c = off \<and> chunk_size c = min csz (fsz - off) \<and> tiles csz fsz (off + csz) cs"

lemma tiles_content:
  assumes "tiles csz (int (length b)) off cs" and "0 \<le> off" and "0 < csz"
  shows "concat (map (\<lambda>c. section_of (chunk_offset c) (chunk_size c) b) cs) = drop (nat off) b"
  using assms
proof (induction cs arbitrary: off)
  case Nil
  then show ?case by simp
next
  case (Cons c cs)
  then have IH: "concat (map (\<lambda>c. section_of (chunk_offset c) (chunk_size c) b) cs) = drop (nat (off + csz)) b"
    by simp
  have "section_of (chunk_offset c) (chunk_size c) b = take (nat csz) (drop (nat off) b)"
    using Cons.prems by (cases "csz \<le> int (length b) - off") (auto simp: section_of_def min_def)
  moreover have "drop (nat (off + csz)) b = drop (nat csz) (drop (nat off) b)"
    using Cons.prems by (simp add: nat_add_distrib add.commute)
  ultimately show ?case using IH append_take_drop_id [of "nat csz" "drop (nat off) b"] by simp
qed

lemma tiles_sizes:
  assumes "tiles csz fsz off cs" and "off \<le> fsz" and "0 < csz"
  shows "sum_list (map chunk_size cs) = fsz - off \<and> (\<forall>c \<in> set cs. 0 < chunk_size c \<and> chunk_size c \<le> csz)"
  using assms
proof (induction cs arbitrary: off)
  case Nil
  then show ?case by simp
next
  case (Cons c cs)
  show ?case
  proof (cases "off + csz \<le> fsz")
    case True
    with Cons show ?thesis by (auto simp: min_def)
  next
    case False
    with Cons.prems have "cs = []" by (cases cs) auto
    with Cons.prems False show ?thesis by (auto simp: min_def)
  qed
qed

lemma Some_map_option: "Some y = map_option f x \<longleftrightarrow> (\<exists>z. x = Some z \<and> y = f z)"
  by (cases x) auto

lemma chunk_loop_Ok:
  assumes "chunk_loop n lib ctx h csz fsz co off w = (Ok (Some cs), w')"
    and "0 < csz" and "0 \<le> off" and "fsz + csz < 2 ^ 63"
    and "lookup w h = Some (File b)" and "fsz = int (length b)"
  shows "tiles csz fsz off cs \<and> (\<forall>c \<in> set cs. \<exists>enc. compresses lib (Some co) enc \<and>
    chunk_hash c = content_hash (lib_crypto lib) (enc (section_of (chunk_offset c) (chunk_size c) b)))"
  using assms(1,3,5)
proof (induction n arbitrary: off w cs w')
  case 0
  then show ?case by (simp add: return_Ok_iff)
next
  case (Suc n)
  show ?case
  proof (cases "off < fsz")
    case False
    with Suc.prems(1) have "cs = []" by (auto simp: return_Ok_iff)
    with False show ?thesis by simp
  next
    case True
    have rem: "i64 (fsz - off) = fsz - off" "i64 (off + csz) = off + csz"
      using True assms(2,4) Suc.prems(2) by (simp_all add: i64_small)
    let ?sz = "if fsz - off < csz then fsz - off else csz"
    let ?rd = "\<lambda>w. stream ctx (section_of off ?sz (content_at w h)) w"
    from Suc.prems(1) True obtain w1 hash w2 rest w3 where cx: "ctxErr ctx w = (Ok (), w1)"
      and hs: "calculateReaderHash lib ?rd co w1 = (Ok hash, w2)"
      and lp: "chunk_loop n lib ctx h csz fsz co (off + csz) w2 = (Ok (Some rest), w3)"
      and cs: "cs = NewChunk hash off ?sz # rest"
      by (auto simp: ok_iffs Let_def rem Some_map_option)
    from ctxErr_Ok [OF cx] Suc.prems(3) have w1: "lookup w1 h = Some (File b)" by simp
    have "sets (cwd w1) {} (calculateReaderHash lib ?rd co)" by (intro sets_rules) simp
    from sets_lookup(2) [OF this refl hs] w1 have w2: "lookup w2 h = Some (File b)" by simp
    have off': "0 \<le> off + csz" using Suc.prems(2) assms(2) by simp
    from calculateReaderHash_Ok [OF hs] obtain enc got where
      "compresses lib (Some co) enc" "?rd w1 = ((got, None), w2)" "hash = content_hash (lib_crypto lib) (enc got)"
      by blast
    then have "hash = content_hash (lib_crypto lib) (enc (section_of off ?sz b))"
      using w1 by (auto simp: content_at_def dest!: stream_done)
    with Suc.IH [OF lp off' w2] True cs \<open>compresses lib (Some co) enc\<close> show ?thesis
      by (auto simp: NewChunk_def min_def)
  qed
qed

text \<open>The loop ends: the number of chunks is enough fuel.\<close>

lemma chunk_loop_fuel:
  assumes "0 < csz" and "fsz + csz < 2 ^ 63"
  shows "0 < n \<Longrightarrow> 0 \<le> off \<Longrightarrow> fsz - off \<le> int (n - 1) * csz \<Longrightarrow>
    chunk_loop n lib ctx h csz fsz co off w \<noteq> (Ok None, w')"
proof (induction n arbitrary: off w w')
  case 0
  then show ?case by simp
next
  case (Suc n)
  show ?case
  proof (cases "off < fsz")
    case False
    then show ?thesis by (simp add: return_run)
  next
    case True
    with Suc.prems assms(1) have n: "0 < n" by (cases n) auto
    have "i64 (off + csz) = off + csz" using True assms Suc.prems by (simp add: i64_small)
    moreover have "fsz - (off + csz) \<le> int (n - 1) * csz"
    proof -
      have "int n * csz = int (n - 1) * csz + csz"
        using n by (cases n) (simp_all add: distrib_right)
      then show ?thesis using Suc.prems(3) by simp
    qed
    ultimately have "chunk_loop n lib ctx h csz fsz co (i64 (off + csz)) w1 \<noteq> (Ok None, w2)"
      for w1 w2 :: "'a os_world_scheme"
      using Suc.IH [of "off + csz"] n assms(1) Suc.prems(2) by simp
    then show ?thesis using True by (auto simp: ok_iffs Let_def)
  qed
qed

lemma enough_fuel_enough:
  assumes "0 < csz" and "0 \<le> fsz"
  shows "fsz \<le> int (enough_fuel csz fsz - 1) * csz"
proof -
  let ?k = "(fsz + csz - 1) div csz"
  have "?k * csz + (fsz + csz - 1) mod csz = fsz + csz - 1" by simp
  moreover have "(fsz + csz - 1) mod csz < csz" using assms(1) by simp
  ultimately have "fsz \<le> ?k * csz" by linarith
  moreover have "0 \<le> ?k" using assms by (simp add: pos_imp_zdiv_nonneg_iff)
  ultimately show ?thesis by (simp add: enough_fuel_def)
qed

text \<open>What the computation of the chunks returns, and that it does not run out of fuel.\<close>

lemma CalculateChunks_tiles:
  assumes run: "disk_CalculateChunks lib ctx p csz cmp w = (Ok cs, w')"
    and b: "lookup w (resolve w p) = Some (File b)" and small: "int (length b) + csz < 2 ^ 63"
  shows "tiles csz (int (length b)) 0 cs \<and> (\<forall>c \<in> set cs. \<exists>enc. compresses lib cmp enc \<and>
    chunk_hash c = content_hash (lib_crypto lib) (enc (section_of (chunk_offset c) (chunk_size c) b)))"
proof -
  from run obtain co f w1 info w2 w3 where csz: "0 < csz" and co: "cmp = Some co"
    and op: "os_Open p w = (Ok f, w1)" and st: "os_FStat f w1 = (Ok info, w2)"
    and lp: "chunk_loop (enough_fuel csz (file_len info)) lib ctx f csz (file_len info) co 0 w2 = (Ok (Some cs), w3)"
    by (auto simp: disk_CalculateChunks_def ok_iffs Let_def split: option.splits if_splits)
  from os_Open_Ok [OF op] os_FStat_Ok [OF st] b
  have f: "f = resolve w p" "lookup w2 f = Some (File b)" "file_len info = int (length b)"
    by (auto simp: file_len_def)
  from chunk_loop_Ok [OF lp csz _ _ f(2,3)] small f(3) co show ?thesis by simp
qed

lemma sets_chunk_loop [sets_rules]: "sets d S (chunk_loop n lib ctx h csz fsz co off)"
  by (induction n arbitrary: off) (auto simp: Let_def intro!: sets_rules)

lemma sets_disk_CalculateChunks: "sets d S (disk_CalculateChunks lib ctx p csz cmp)"
  unfolding disk_CalculateChunks_def Let_def by (intro sets_rules)

end
