(* ===== verification/Disk_Store_Facts.thy ===== *)
theory Disk_Store_Facts
  imports Disk_Object_Facts
begin

section \<open>Configurations and manifests written to disk and read back\<close>

text \<open>
  What the folder repository and the manifest repository on disk promise: a file that was written is
  read back as what was written, as long as nobody has changed it, and writing one leaves everything
  else alone.
\<close>

text \<open>A world in which no call fails from now on.\<close>

definition calm :: "'z os_world_scheme \<Rightarrow> bool" where
  "calm w \<longleftrightarrow> (\<forall>t \<ge> clock w. faults w t = None)"

lemma calm_now [simp]: "calm w \<Longrightarrow> faults w (clock w) = None"
  by (simp add: calm_def)

lemma calm_tick [simp]: "calm w \<Longrightarrow> calm (tick w)"
  by (simp add: calm_def)

lemma calm_steady: "calm w \<Longrightarrow> steady w w' \<Longrightarrow> calm w'"
  by (simp add: calm_def steady_def)

lemma ReadFile_calm:
  "calm w \<Longrightarrow> p \<noteq> [] \<Longrightarrow> lookup w (resolve w p) = Some (File b) \<Longrightarrow> os_ReadFile p w = (Ok b, tick w)"
  by (simp add: os_ReadFile_def syscall_Ok_iff)

lemma Join_rooted_nonempty: "is_rooted p \<Longrightarrow> Join (p # cs) \<noteq> []"
  using is_rooted_nonempty [OF is_rooted_Join] by blast

lemma ctxErr_run: "\<not> ctx (clock w) \<Longrightarrow> ctxErr ctx w = (Ok (), tick w)"
  by (simp add: ctxErr_def)

subsection \<open>Manifests\<close>

definition manifest_at :: "string \<Rightarrow> string \<Rightarrow> fspath" where
  "manifest_at root s = comps root @ [SnapshotsFolder, json_name s]"

lemma simple_json_name: "simple_comp (json_name s) \<longleftrightarrow> CHR ''/'' \<notin> set s"
proof -
  have "2 < length (json_name s)" by (simp add: json_name_def)
  then have "json_name s \<noteq> []" "json_name s \<noteq> ''.''" "json_name s \<noteq> ''..''" by auto
  then show ?thesis by (simp add: simple_comp_def) (simp add: json_name_def)
qed

lemma rooted_folder: "is_rooted root \<Longrightarrow> is_rooted (root @ ''/'' @ SnapshotsFolder)"
  by simp

lemma comps_folder: "comps (root @ ''/'' @ SnapshotsFolder) = comps root @ [SnapshotsFolder]"
  using comps_append_simple [of SnapshotsFolder root] by simp

lemma save_path:
  assumes "is_rooted root" and "CHR ''/'' \<notin> set s"
  shows "comps (Join [root @ ''/'' @ SnapshotsFolder, json_name s]) = manifest_at root s"
    and "is_rooted (Join [root @ ''/'' @ SnapshotsFolder, json_name s])"
  using comps_Join_simple1 [OF rooted_folder [OF assms(1)], of "json_name s"] assms
    comps_folder [of root] rooted_folder [OF assms(1)]
  by (simp_all add: simple_json_name manifest_at_def del: append_Cons)

lemma get_path:
  assumes "is_rooted root" and "CHR ''/'' \<notin> set s"
  shows "comps (Join [Join [root, SnapshotsFolder], json_name s]) = manifest_at root s"
    and "is_rooted (Join [Join [root, SnapshotsFolder], json_name s])"
  using assms by (simp_all add: comps_Join_simple1 simple_json_name manifest_at_def)

lemma sets_disk_SaveManifest:
  assumes "is_rooted root" and "CHR ''/'' \<notin> set (man_id m)"
  shows "sets d {manifest_at root (man_id m)} (disk_SaveManifest lib root ctx m)"
  using save_path [OF assms] unfolding disk_SaveManifest_def deref_def
  by (intro sets_rules) simp_all

lemma SaveManifest_Ok:
  assumes run: "disk_SaveManifest lib root ctx m w = (Ok x, w')"
    and root: "is_rooted root" and i: "CHR ''/'' \<notin> set (man_id m)"
  shows "\<not> ctx (clock w) \<and> (\<exists>c b. man_compression m = Some c \<and>
    manifest_MarshalIndent (lib_text lib) (manifest_model m c) = Ok b \<and>
    lookup w' (manifest_at root (man_id m)) = Some (File (b @ [newline])))"
proof -
  let ?p = "Join [root @ ''/'' @ SnapshotsFolder, json_name (man_id m)]"
  from run obtain w1 c b where cx: "ctxErr ctx w = (Ok (), w1)" and c: "man_compression m = Some c"
    and b: "manifest_MarshalIndent (lib_text lib) (manifest_model m c) = Ok b"
    and wr: "os_WriteFile ?p (b @ [newline]) w1 = (Ok x, w')"
    by (auto simp: disk_SaveManifest_def andThen_Ok_iff deref_Ok lift_outcome_Ok_iff simp del: append_Cons)
  from os_WriteFile_Ok [OF wr] save_path [OF root i] have
    "lookup w' (manifest_at root (man_id m)) = Some (File (b @ [newline]))"
    by (simp add: resolve_rooted del: append_Cons)
  with c b ctxErr_Ok [OF cx] show ?thesis by auto
qed

text \<open>A manifest that can be written and read back unchanged.\<close>

definition storable_manifest :: "Manifest \<Rightarrow> bool" where
  "storable_manifest m \<longleftrightarrow>
     (case man_compression m of
        None \<Rightarrow> False
      | Some c \<Rightarrow> valid_compression c \<and> manifest_text_valid (manifest_model m c))"

lemma GetManifest_stored:
  assumes json: "json_correct (lib_text lib)" and root: "is_rooted root" and s: "CHR ''/'' \<notin> set (man_id m)"
    and st: "storable_manifest m" and c: "man_compression m = Some c"
    and b: "manifest_MarshalIndent (lib_text lib) (manifest_model m c) = Ok b"
    and stored: "lookup w (manifest_at root (man_id m)) = Some (File (b @ [newline]))"
    and calm: "calm w" and ctx: "\<not> ctx (clock w)"
  shows "fst (disk_GetManifest lib root ctx (man_id m) w) = Ok m"
proof -
  let ?p = "Join [Join [root, SnapshotsFolder], json_name (man_id m)]"
  note P = get_path [OF root s]
  have read: "os_ReadFile ?p (tick w) = (Ok (b @ [newline]), tick (tick w))"
    using P stored calm root by (intro ReadFile_calm) (simp_all add: resolve_rooted Join_rooted_nonempty)
  have valid: "valid_compression c" "manifest_text_valid (manifest_model m c)"
    using st c by (simp_all add: storable_manifest_def)
  have un: "manifest_Unmarshal (lib_text lib) (b @ [newline]) = Ok (manifest_model m c)"
    using json b valid by (simp add: json_correct_def)
  note B = BuildManifestDomain_model [OF json c valid b]
  show ?thesis
    using ctxErr_run [of ctx w] ctx read un B
    by (simp add: disk_GetManifest_def andThen_def tryCatch_def orWrap_def go_simps)
qed

subsection \<open>Configurations\<close>

definition config_at :: "string \<Rightarrow> fspath" where
  "config_at p = comps p @ [ConfigFile]"

text \<open>
  What a configuration file says, the time of creation apart, which reading does not use.
\<close>

definition config_holds :: "library \<Rightarrow> 'z os_world_scheme \<Rightarrow> string \<Rightarrow> Config \<Rightarrow> bool" where
  "config_holds lib w p c \<longleftrightarrow> storable lib c \<and>
     (case (lookup w (config_at p), compression c) of
        (Some (File data), Some cmp) \<Rightarrow>
          (case config_Unmarshal (lib_text lib) data of
             Ok mo \<Rightarrow> mo\<lparr>mco_CreatedAt := []\<rparr> = (config_model lib c cmp)\<lparr>mco_CreatedAt := []\<rparr>
           | _ \<Rightarrow> False)
      | _ \<Rightarrow> False)"

lemma BuildConfigDomain_created:
  "BuildConfigDomain lib (mo\<lparr>mco_CreatedAt := t\<rparr>) = BuildConfigDomain lib mo"
  by (simp add: BuildConfigDomain_def)

lemma config_path:
  assumes "is_rooted p"
  shows "comps (Join [p, ConfigFile]) = config_at p" and "is_rooted (Join [p, ConfigFile])"
  using assms by (simp_all add: comps_config config_at_def)

lemma sets_disk_CreateConfig:
  assumes "is_rooted p"
  shows "sets d {config_at p} (disk_CreateConfig lib ctx p c)"
proof -
  have "sets d {config_at p} (MarshalConfig lib ctx c)"
    unfolding MarshalConfig_def by (intro sets_rules)
  then show ?thesis
    using config_path [OF assms] unfolding disk_CreateConfig_def by (intro sets_rules) simp_all
qed

lemma CreateConfig_holds:
  assumes json: "json_correct (lib_text lib)" and p: "is_rooted p" and c: "storable lib c"
    and run: "disk_CreateConfig lib ctx p c w = (Ok x, w')"
  shows "config_holds lib w' p c"
proof -
  from run obtain data w1 where m: "MarshalConfig lib ctx c w = (Ok data, w1)"
    and wr: "os_WriteFile (Join [p, ConfigFile]) data w1 = (Ok x, w')"
    by (auto simp: disk_CreateConfig_def andThen_Ok_iff)
  from MarshalConfig_Ok [OF m] obtain cmp b where cmp: "compression c = Some cmp"
    and b: "config_MarshalIndent (lib_text lib) (config_model lib c cmp) = Ok b" "data = b @ [newline]"
    by blast
  have "config_Unmarshal (lib_text lib) data = Ok (config_model lib c cmp)"
    using json b c cmp by (auto simp: json_correct_def storable_def)
  moreover have "lookup w' (config_at p) = Some (File data)"
    using os_WriteFile_Ok [OF wr] config_path [OF p] by (simp add: resolve_rooted)
  ultimately show ?thesis using c cmp by (simp add: config_holds_def)
qed

lemma config_holds_file:
  assumes c: "config_holds lib w p c" and uuid: "uuid_correct (lib_uuid lib)"
  shows "\<exists>data mo. lookup w (config_at p) = Some (File data) \<and> config_Unmarshal (lib_text lib) data = Ok mo \<and>
    (\<forall>v :: 'b os_world_scheme. BuildConfigDomain lib mo v = (Ok (c\<lparr>createdAt := int (entropy v (clock v))\<rparr>), tick v))"
proof -
  from c obtain data cmp where st: "storable lib c" and f: "lookup w (config_at p) = Some (File data)"
    and cmp: "compression c = Some cmp"
    by (auto simp: config_holds_def split: option.splits node.splits)
  with c obtain mo where un: "config_Unmarshal (lib_text lib) data = Ok mo"
    and mo: "mo\<lparr>mco_CreatedAt := []\<rparr> = (config_model lib c cmp)\<lparr>mco_CreatedAt := []\<rparr>"
    by (simp add: config_holds_def split: outcome.splits)
  have "(BuildConfigDomain lib mo :: ('b, Config) os) = BuildConfigDomain lib (config_model lib c cmp)"
    by (metis BuildConfigDomain_created mo)
  moreover have "BuildConfigDomain lib (config_model lib c cmp) v =
      (Ok (c\<lparr>createdAt := int (entropy v (clock v))\<rparr>), tick v)" for v :: "'b os_world_scheme"
    by (rule BuildConfigDomain_model [OF uuid st cmp])
  ultimately show ?thesis using f un by simp
qed

lemma GetConfig_holds:
  fixes w :: "'a os_world_scheme"
  assumes uuid: "uuid_correct (lib_uuid lib)" and p: "is_rooted p" and c: "config_holds lib w p c"
    and calm: "calm w" and ctx: "\<not> ctx (clock w)"
  shows "\<exists>t w'. disk_GetConfig lib ctx p w = (Ok (c\<lparr>createdAt := t\<rparr>), w') \<and> steady w w' \<and>
    (\<forall>q. lookup w' q = lookup w q)"
proof -
  from config_holds_file [OF c uuid] obtain data mo where
    f: "lookup w (config_at p) = Some (File data)" and un: "config_Unmarshal (lib_text lib) data = Ok mo"
    and B: "\<And>v :: 'a os_world_scheme.
      BuildConfigDomain lib mo v = (Ok (c\<lparr>createdAt := int (entropy v (clock v))\<rparr>), tick v)"
    by blast
  have abs: "absolute_path p (tick w) = (Ok (Clean p), tick w)"
    using p by (simp add: absolute_path_def filepath_Abs_def orWrap_def tryCatch_def return_run)
  have q: "comps (Join [Clean p, ConfigFile]) = config_at p" "is_rooted (Join [Clean p, ConfigFile])"
    using p by (simp_all add: comps_config config_at_def comps_Clean)
  have read: "os_ReadFile (Join [Clean p, ConfigFile]) (tick w) = (Ok data, tick (tick w))"
    using q f calm is_rooted_nonempty by (intro ReadFile_calm) (simp_all add: resolve_rooted)
  have "disk_GetConfig lib ctx p w =
      (Ok (c\<lparr>createdAt := int (entropy (tick (tick w)) (clock (tick (tick w))))\<rparr>), tick (tick (tick w)))"
    using ctxErr_run [of ctx w] ctx abs read un B [of "tick (tick w)"]
    by (simp add: disk_GetConfig_def andThen_def tryCatch_def orWrap_def go_simps)
  then show ?thesis by (auto simp: steady_def)
qed

lemma GetConfig_unique:
  fixes w :: "'a os_world_scheme"
  assumes uuid: "uuid_correct (lib_uuid lib)" and p: "is_rooted p" and c: "config_holds lib w p c"
    and run: "disk_GetConfig lib ctx p w = (Ok c', w')"
  shows "\<exists>t. c' = c\<lparr>createdAt := t\<rparr>"
proof -
  from config_holds_file [OF c uuid] obtain data mo where
    f: "lookup w (config_at p) = Some (File data)" and un: "config_Unmarshal (lib_text lib) data = Ok mo"
    and B: "\<And>v :: 'a os_world_scheme.
      BuildConfigDomain lib mo v = (Ok (c\<lparr>createdAt := int (entropy v (clock v))\<rparr>), tick v)"
    by blast
  have abs: "absolute_path p v = (Ok (Clean p), v)" for v :: "'a os_world_scheme"
    using p by (simp add: absolute_path_def filepath_Abs_def orWrap_def tryCatch_def return_run)
  have q: "comps (Join [Clean p, ConfigFile]) = config_at p" "is_rooted (Join [Clean p, ConfigFile])"
    using p by (simp_all add: comps_config config_at_def comps_Clean)
  from run obtain w1 w2 d mo' where cx: "ctxErr ctx w = (Ok (), w1)"
    and rd: "os_ReadFile (Join [Clean p, ConfigFile]) w1 = (Ok d, w2)"
    and un': "config_Unmarshal (lib_text lib) d = Ok mo'" and b: "BuildConfigDomain lib mo' w2 = (Ok c', w')"
    by (auto simp: disk_GetConfig_def ok_iffs abs split: if_splits)
  from os_ReadFile_Ok [OF rd] ctxErr_Ok [OF cx] q f un un' have "mo' = mo" by (simp add: resolve_rooted)
  with b B [of w2] show ?thesis by auto
qed

end
