(* ===== verification/Create.thy ===== *)
theory Create
  imports Snapshot
begin

section \<open>Creating a snapshot\<close>

text \<open>
  \<^verbatim>\<open>internal/domain/snapshot/create.go\<close>. The goroutines are a step relation on a
  shared state: a feeder that sends the indexes of the files over an unbuffered channel, and workers
  that hash a file, look for its objects and save what is missing. Each call of a repository is one
  step, so the calls of different workers interleave in every order. The unsynchronised append to the
  list of saved files is a read and a write. A panic of a goroutine ends the process: the relation has
  no step for it.

  Nothing reserves an object for the worker that has found it missing. A call of another worker for the
  same object can fall into the time in which it is being saved; it may then find the object that is not
  complete yet, or none and save it too. Such an object is noted in \<open>overlapped\<close>, and what a save of
  it leaves behind is left open: with a key each of the calls writes a nonce and a ciphertext of its own
  into one file. The calls for different objects write different files, and one step stands for each.
\<close>

subsection \<open>State\<close>

text \<open>What is saved of a file: the whole, or one of its chunks.\<close>

datatype item = Whole | Part Chunk

datatype worker =
    Idle
  | Hashing nat
  | Checking nat "item list" int
  | Saving nat item "item list" int
  | Appending nat nat
  | Finished

record 'z create_state =
  world :: "'z os_world_scheme"
  files :: "SnapFile list"
  next_index :: nat
  feeding :: bool
  firstErr :: "error option"
  total_size :: int
  saved_files :: nat
  overlapped :: "string set"
  workers :: "worker list"

text \<open>What the command is run with: the repositories and what the first part of the call has found out.\<close>

record 'z create_env =
  env_source :: "'z SourceRepository"
  env_objects :: "'z ObjectRepository"
  env_ctx :: ctx
  env_calculator :: HashCalculator
  env_compression :: "Compression option"
  env_key :: bytes
  env_generation :: uint64

definition items_of :: "SnapFile \<Rightarrow> item list" where
  "items_of f = (if file_chunks f = [] then [Whole] else map Part (file_chunks f))"

fun item_hash :: "SnapFile \<Rightarrow> item \<Rightarrow> string" where
  "item_hash f Whole = file_hash f"
| "item_hash f (Part c) = chunk_hash c"

fun item_size :: "SnapFile \<Rightarrow> item \<Rightarrow> int" where
  "item_size f Whole = file_size f"
| "item_size f (Part c) = chunk_size c"

text \<open>The bytes of a file that an item stands for.\<close>

fun item_bytes :: "bytes \<Rightarrow> item \<Rightarrow> bytes" where
  "item_bytes b Whole = b"
| "item_bytes b (Part c) = take (nat (chunk_size c)) (drop (nat (chunk_offset c)) b)"

subsection \<open>The calls of a worker\<close>

definition create_check :: "'z create_env \<Rightarrow> ctx \<Rightarrow> SnapFile \<Rightarrow> item \<Rightarrow> ('z, bool) os" where
  "create_check e c f it = AlreadyExists (env_objects e) c (item_hash f it) (env_key e) (env_generation e)"

fun create_save :: "'z create_env \<Rightarrow> ctx \<Rightarrow> SnapFile \<Rightarrow> item \<Rightarrow> ('z, unit) os" where
  "create_save e c f Whole =
     SaveObject (env_objects e) c (file_path f) (file_hash f) (env_compression e) (env_key e) (env_generation e)"
| "create_save e c f (Part ch) =
     SaveChunk (env_objects e) c (file_path f) (chunk_hash ch) (chunk_offset ch) (chunk_size ch)
       (env_compression e) (env_key e) (env_generation e)"

text \<open>
  The context a call runs under is the derived one: done when the parent is, and from the first error
  on. Another worker that is busy can cause it while the call is running.
\<close>

definition busy :: "worker \<Rightarrow> bool" where
  "busy p \<longleftrightarrow> p \<noteq> Idle \<and> p \<noteq> Finished"

definition op_ctx :: "'z create_env \<Rightarrow> 'z create_state \<Rightarrow> nat \<Rightarrow> ctx \<Rightarrow> bool" where
  "op_ctx e s k c \<longleftrightarrow>
     (\<forall>t. env_ctx e t \<longrightarrow> c t) \<and>
     (firstErr s \<noteq> None \<longrightarrow> (\<forall>t \<ge> clock (world s). c t)) \<and>
     (c = env_ctx e \<or> firstErr s \<noteq> None \<or> (\<exists>j < length (workers s). j \<noteq> k \<and> busy (workers s ! j)))"

definition record_error :: "error \<Rightarrow> error option \<Rightarrow> error option" where
  "record_error e first = (case first of None \<Rightarrow> Some e | Some _ \<Rightarrow> first)"

text \<open>A worker's move: its new position and the world after its call.\<close>

definition move :: "nat \<Rightarrow> worker \<Rightarrow> 'z os_world_scheme \<Rightarrow> 'z create_state \<Rightarrow> 'z create_state" where
  "move k p w s = s\<lparr>workers := (workers s)[k := p], world := w\<rparr>"

definition abandon :: "nat \<Rightarrow> error \<Rightarrow> 'z os_world_scheme \<Rightarrow> 'z create_state \<Rightarrow> 'z create_state" where
  "abandon k er w s = (move k Idle w s)\<lparr>firstErr := record_error er (firstErr s)\<rparr>"

text \<open>
  At the end of a file's items its size is added; a file of which something was saved is appended to
  the list, in two steps.
\<close>

definition after_items :: "nat \<Rightarrow> int \<Rightarrow> 'z create_state \<Rightarrow> worker" where
  "after_items i sz s = (if sz > 0 then Appending i (saved_files s) else Idle)"

text \<open>Another worker is saving an object of that name.\<close>

fun saves :: "SnapFile list \<Rightarrow> string \<Rightarrow> worker \<Rightarrow> bool" where
  "saves fs h (Saving i it its sz) \<longleftrightarrow> item_hash (fs ! i) it = h"
| "saves fs h p \<longleftrightarrow> False"

definition under_way :: "'z create_state \<Rightarrow> nat \<Rightarrow> string \<Rightarrow> bool" where
  "under_way s k h \<longleftrightarrow> list_ex (\<lambda>j. j \<noteq> k \<and> saves (files s) h (workers s ! j)) [0..<length (workers s)]"

text \<open>The object is looked for by a worker: the ones that are saved at the same time.\<close>

definition overlap :: "'z create_state \<Rightarrow> nat \<Rightarrow> string \<Rightarrow> string set" where
  "overlap s k h = (if under_way s k h then insert h (overlapped s) else overlapped s)"

text \<open>
  Calls that save one object at the same time: the files the call can write may hold anything
  afterwards, everything else on disk is as it was.
\<close>

definition save_paths :: "'z create_env \<Rightarrow> SnapFile \<Rightarrow> item \<Rightarrow> fspath set" where
  "save_paths e f it =
     {q. \<exists>c (v :: 'z os_world_scheme). lookup (snd (create_save e c f it v)) q \<noteq> lookup v q}"

definition entwined :: "'z create_env \<Rightarrow> SnapFile \<Rightarrow> item \<Rightarrow> 'z os_world_scheme \<Rightarrow> 'z os_world_scheme \<Rightarrow> bool" where
  "entwined e f it w w' \<longleftrightarrow> cwd w' = cwd w \<and> faults w' = faults w \<and> entropy w' = entropy w \<and> clock w \<le> clock w' \<and>
     (\<forall>q. q \<notin> save_paths e f it \<longrightarrow> lookup w' q = lookup w q)"

subsection \<open>The steps\<close>

inductive create_step :: "'z create_env \<Rightarrow> 'z create_state \<Rightarrow> 'z create_state \<Rightarrow> bool" for e where
  feed: "feeding s \<Longrightarrow> next_index s < length (files s) \<Longrightarrow> k < length (workers s) \<Longrightarrow> workers s ! k = Idle \<Longrightarrow>
    create_step e s ((move k (Hashing (next_index s)) (world s) s)\<lparr>next_index := Suc (next_index s)\<rparr>)"
| feed_end: "feeding s \<Longrightarrow> next_index s = length (files s) \<Longrightarrow> create_step e s (s\<lparr>feeding := False\<rparr>)"
| feed_break: "feeding s \<Longrightarrow> env_ctx e (clock (world s)) \<or> firstErr s \<noteq> None \<Longrightarrow>
    create_step e s (s\<lparr>feeding := False\<rparr>)"
| finish: "\<not> feeding s \<Longrightarrow> k < length (workers s) \<Longrightarrow> workers s ! k = Idle \<Longrightarrow>
    create_step e s (move k Finished (world s) s)"
| hash: "k < length (workers s) \<Longrightarrow> workers s ! k = Hashing i \<Longrightarrow> op_ctx e s k c \<Longrightarrow>
    Calculate (env_calculator e) (env_source e) c (files s ! i) (env_compression e) (world s) = (Ok f, w) \<Longrightarrow>
    create_step e s ((move k (Checking i (items_of f) 0) w s)\<lparr>files := (files s)[i := f]\<rparr>)"
| hash_error: "k < length (workers s) \<Longrightarrow> workers s ! k = Hashing i \<Longrightarrow> op_ctx e s k c \<Longrightarrow>
    Calculate (env_calculator e) (env_source e) c (files s ! i) (env_compression e) (world s) = (Err er, w) \<Longrightarrow>
    create_step e s (abandon k er w s)"
| exists: "k < length (workers s) \<Longrightarrow> workers s ! k = Checking i (it # its) sz \<Longrightarrow> op_ctx e s k c \<Longrightarrow>
    create_check e c (files s ! i) it (world s) = (Ok True, w) \<Longrightarrow>
    create_step e s (move k (Checking i its sz) w s)"
| missing: "k < length (workers s) \<Longrightarrow> workers s ! k = Checking i (it # its) sz \<Longrightarrow> op_ctx e s k c \<Longrightarrow>
    create_check e c (files s ! i) it (world s) = (Ok False, w) \<Longrightarrow>
    create_step e s ((move k (Saving i it its sz) w s)\<lparr>overlapped := overlap s k (item_hash (files s ! i) it)\<rparr>)"
| seen: "k < length (workers s) \<Longrightarrow> workers s ! k = Checking i (it # its) sz \<Longrightarrow> op_ctx e s k c \<Longrightarrow>
    create_check e c (files s ! i) it (world s) = (Ok False, w) \<Longrightarrow> under_way s k (item_hash (files s ! i) it) \<Longrightarrow>
    create_step e s ((move k (Checking i its sz) w s)\<lparr>overlapped := overlap s k (item_hash (files s ! i) it)\<rparr>)"
| check_error: "k < length (workers s) \<Longrightarrow> workers s ! k = Checking i (it # its) sz \<Longrightarrow> op_ctx e s k c \<Longrightarrow>
    create_check e c (files s ! i) it (world s) = (Err er, w) \<Longrightarrow>
    create_step e s (abandon k er w s)"
| save: "k < length (workers s) \<Longrightarrow> workers s ! k = Saving i it its sz \<Longrightarrow> op_ctx e s k c \<Longrightarrow>
    create_save e c (files s ! i) it (world s) = (Ok (), w) \<Longrightarrow>
    create_step e s (move k (Checking i its (i64 (sz + item_size (files s ! i) it))) w s)"
| save_error: "k < length (workers s) \<Longrightarrow> workers s ! k = Saving i it its sz \<Longrightarrow> op_ctx e s k c \<Longrightarrow>
    create_save e c (files s ! i) it (world s) = (Err er, w) \<Longrightarrow>
    create_step e s (abandon k er w s)"
| save_entwined: "k < length (workers s) \<Longrightarrow> workers s ! k = Saving i it its sz \<Longrightarrow>
    item_hash (files s ! i) it \<in> overlapped s \<Longrightarrow> entwined e (files s ! i) it (world s) w \<Longrightarrow>
    create_step e s (move k (Checking i its (i64 (sz + item_size (files s ! i) it))) w s)"
| save_entwined_error: "k < length (workers s) \<Longrightarrow> workers s ! k = Saving i it its sz \<Longrightarrow>
    item_hash (files s ! i) it \<in> overlapped s \<Longrightarrow> entwined e (files s ! i) it (world s) w \<Longrightarrow>
    create_step e s (abandon k er w s)"
| count: "k < length (workers s) \<Longrightarrow> workers s ! k = Checking i [] sz \<Longrightarrow>
    create_step e s ((move k (after_items i sz s) (world s) s)\<lparr>total_size := i64 (total_size s + sz)\<rparr>)"
| append: "k < length (workers s) \<Longrightarrow> workers s ! k = Appending i n \<Longrightarrow>
    create_step e s ((move k Idle (world s) s)\<lparr>saved_files := Suc n\<rparr>)"

definition all_finished :: "'z create_state \<Rightarrow> bool" where
  "all_finished s \<longleftrightarrow> \<not> feeding s \<and> list_all (\<lambda>p. p = Finished) (workers s)"

subsection \<open>The command\<close>

definition Create_getSymmetricKey ::
  "'z DecryptSymmetricKey \<Rightarrow> ctx \<Rightarrow> EncryptionConfig option \<Rightarrow> string option \<Rightarrow> ('z, bytes) os" where
  "Create_getSymmetricKey dsk ctx enc privateKeyPath =
     (case (enc, privateKeyPath) of
        (None, Some _) \<Rightarrow> fail ErrMissingEncryptionConfigToEncrypt
      | (Some en, Some pk) \<Rightarrow> DecryptSymmetricKey_Decrypt dsk ctx pk (encryptedKey en)
      | _ \<Rightarrow> return [])"

definition worker_count :: "int \<Rightarrow> nat \<Rightarrow> nat \<Rightarrow> nat" where
  "worker_count configured dflt n =
     (let w = (if configured \<le> 0 then int dflt else configured);
          w' = (if w > int n then int n else w)
      in nat (if w' < 1 then 1 else w'))"

record prepared =
  prep_config :: Config
  prep_calculator :: HashCalculator
  prep_source :: Source
  prep_key :: bytes
  prep_generation :: uint64

text \<open>Up to the start of the workers.\<close>

definition create_prepare ::
  "'z SourceRepository \<Rightarrow> 'z FolderRepository \<Rightarrow> 'z DecryptSymmetricKey \<Rightarrow> ctx \<Rightarrow> string \<Rightarrow> string \<Rightarrow>
   string option \<Rightarrow> ('z, prepared) os" where
  "create_prepare src fr dsk ctx repoPath sourcePath privateKeyPath =
     andThen (GetConfig_Get fr ctx repoPath) (\<lambda>conf.
     andThen (lift_outcome (HashCalculatorFactory_Handle (formatVersion conf))) (\<lambda>calc.
     andThen (Explore src ctx sourcePath) (\<lambda>source.
     andThen (Create_getSymmetricKey dsk ctx (encryption conf) privateKeyPath) (\<lambda>key.
     (case (key, encryption conf) of
        ([], _) \<Rightarrow> return \<lparr>prep_config = conf, prep_calculator = calc, prep_source = source,
          prep_key = key, prep_generation = 0\<rparr>
      | (_, None) \<Rightarrow> panic ''nil pointer dereference''
      | (_, Some en) \<Rightarrow> return \<lparr>prep_config = conf, prep_calculator = calc, prep_source = source,
          prep_key = key, prep_generation = Encryption.generation en\<rparr>)))))"

definition create_env_of :: "'z SourceRepository \<Rightarrow> 'z ObjectRepository \<Rightarrow> ctx \<Rightarrow> prepared \<Rightarrow> 'z create_env" where
  "create_env_of src orp ctx p =
     \<lparr>env_source = src, env_objects = orp, env_ctx = ctx, env_calculator = prep_calculator p,
      env_compression = compression (prep_config p), env_key = prep_key p, env_generation = prep_generation p\<rparr>"

definition create_init :: "int \<Rightarrow> nat \<Rightarrow> prepared \<Rightarrow> 'z os_world_scheme \<Rightarrow> 'z create_state" where
  "create_init configured dflt p w =
     \<lparr>world = w, files = source_files (prep_source p), next_index = 0, feeding = True, firstErr = None,
      total_size = 0, saved_files = 0, overlapped = {},
      workers = replicate (worker_count configured dflt (length (source_files (prep_source p)))) Idle\<rparr>"

definition newID :: "uuid_lib \<Rightarrow> (int \<Rightarrow> string) \<Rightarrow> ('z, string) os" where
  "newID u stamp =
     andThen time_Now (\<lambda>t.
     andThen (uuid_New u) (\<lambda>i.
     return (stamp t @ ''-'' @ take 8 (uuid_String u i))))"

definition create_finish ::
  "uuid_lib \<Rightarrow> (int \<Rightarrow> string) \<Rightarrow> 'z ManifestRepository \<Rightarrow> ctx \<Rightarrow> prepared \<Rightarrow> 'z create_state \<Rightarrow> ('z, CreateResult) os" where
  "create_finish u stamp mr ctx p s =
     andThen (newID u stamp) (\<lambda>i.
     andThen time_Now (\<lambda>t.
     (let manifest = NewManifest i (files s) t (absolutePath (prep_source p)) (compression (prep_config p))
      in andThen (SaveManifest mr ctx manifest) (\<lambda>_.
         return \<lparr>result_id = man_id manifest, fileCount = int (saved_files s), totalSize = total_size s\<rparr>))))"

text \<open>
  The command relates the world before to an outcome and the world after, one pair for every schedule.
  The manifest is saved under the derived context, which without an error is done when the parent is.
\<close>

record 'z create_service =
  svc_source :: "'z SourceRepository"
  svc_manifests :: "'z ManifestRepository"
  svc_objects :: "'z ObjectRepository"
  svc_folder :: "'z FolderRepository"
  svc_decrypt :: "'z DecryptSymmetricKey"
  svc_workers :: int
  svc_default :: nat
  svc_uuid :: uuid_lib
  svc_stamp :: "int \<Rightarrow> string"

inductive Create_Do ::
  "'z create_service \<Rightarrow> ctx \<Rightarrow> string \<Rightarrow> string \<Rightarrow> string option \<Rightarrow> 'z os_world_scheme \<Rightarrow>
   CreateResult outcome \<Rightarrow> 'z os_world_scheme \<Rightarrow> bool"
  for sv ctx repoPath sourcePath privateKeyPath w where
  unprepared: "create_prepare (svc_source sv) (svc_folder sv) (svc_decrypt sv) ctx repoPath sourcePath privateKeyPath w
      = (Err er, w') \<Longrightarrow>
    Create_Do sv ctx repoPath sourcePath privateKeyPath w (Err er) w'"
| failed: "create_prepare (svc_source sv) (svc_folder sv) (svc_decrypt sv) ctx repoPath sourcePath privateKeyPath w
      = (Ok p, w1) \<Longrightarrow>
    (create_step (create_env_of (svc_source sv) (svc_objects sv) ctx p))\<^sup>*\<^sup>*
      (create_init (svc_workers sv) (svc_default sv) p w1) s \<Longrightarrow>
    all_finished s \<Longrightarrow> firstErr s = Some er \<Longrightarrow>
    Create_Do sv ctx repoPath sourcePath privateKeyPath w (Err er) (world s)"
| completed: "create_prepare (svc_source sv) (svc_folder sv) (svc_decrypt sv) ctx repoPath sourcePath privateKeyPath w
      = (Ok p, w1) \<Longrightarrow>
    (create_step (create_env_of (svc_source sv) (svc_objects sv) ctx p))\<^sup>*\<^sup>*
      (create_init (svc_workers sv) (svc_default sv) p w1) s \<Longrightarrow>
    all_finished s \<Longrightarrow> firstErr s = None \<Longrightarrow>
    create_finish (svc_uuid sv) (svc_stamp sv) (svc_manifests sv) ctx p s (world s) = (r, w') \<Longrightarrow>
    Create_Do sv ctx repoPath sourcePath privateKeyPath w r w'"

inductive_cases Create_Do_OkE: "Create_Do sv ctx repoPath sourcePath privateKeyPath w (Ok r) w'"

end
