(* ===== verification/Create_Facts.thy ===== *)
theory Create_Facts
  imports Create Objects
begin

section \<open>A created snapshot is complete\<close>

text \<open>
  The contract between the creation of a snapshot and the repositories it uses is the locale
  \<open>snapshot_store\<close>; the invariant of the step relation is proved from it once. Under it a run
  without error leaves every file of the manifest with all its objects in the store, each with the
  content its hash names, for every schedule in which no two saves of one object overlap.
\<close>

fun works_on :: "worker \<Rightarrow> nat option" where
  "works_on (Hashing i) = Some i"
| "works_on (Checking i its sz) = Some i"
| "works_on (Saving i it its sz) = Some i"
| "works_on (Appending i n) = Some i"
| "works_on Idle = None"
| "works_on Finished = None"

locale snapshot_store =
  fixes src :: "'z SourceRepository" and orp :: "'z ObjectRepository"
    and cmp :: "Compression option" and key :: bytes and g :: uint64
    and content :: "'z os_world_scheme \<Rightarrow> string \<Rightarrow> bytes option"
    and present :: "'z os_world_scheme \<Rightarrow> string \<Rightarrow> bool"
    and intact :: "'z os_world_scheme \<Rightarrow> string \<Rightarrow> bool"
    and enc :: "bytes \<Rightarrow> bytes" and hash :: "bytes \<Rightarrow> string"
    and safe :: "string \<Rightarrow> bool" and valid :: "string \<Rightarrow> bool" and lawful :: bool and whole :: bool
  assumes valid_hash: "lawful \<Longrightarrow> valid (hash b)"
    and hash_ok: "lawful \<Longrightarrow> CalculateHash src c p cmp w = (Ok h, w') \<Longrightarrow> safe p \<Longrightarrow> content w p = Some b \<Longrightarrow>
      h = hash (enc b)"
    and hash_frame: "CalculateHash src c p cmp w = (r, w') \<Longrightarrow> clock w \<le> clock w' \<and>
      (\<forall>p. safe p \<longrightarrow> content w' p = content w p) \<and>
      (\<forall>h. valid h \<longrightarrow> present w' h = present w h \<and> intact w' h = intact w h)"
    and chunks_ok: "lawful \<Longrightarrow> CalculateChunks src c p csz cmp w = (Ok cs, w') \<Longrightarrow> safe p \<Longrightarrow> content w p = Some b \<Longrightarrow>
      int (length b) + csz < 2 ^ 63 \<Longrightarrow> concat (map (\<lambda>ch. section_of (chunk_offset ch) (chunk_size ch) b) cs) = b \<and>
      (\<forall>ch \<in> set cs. chunk_hash ch = hash (enc (section_of (chunk_offset ch) (chunk_size ch) b)))"
    and chunks_frame: "CalculateChunks src c p csz cmp w = (q, w') \<Longrightarrow> clock w \<le> clock w' \<and>
      (\<forall>p. safe p \<longrightarrow> content w' p = content w p) \<and>
      (\<forall>h. valid h \<longrightarrow> present w' h = present w h \<and> intact w' h = intact w h)"
    and exists_ok: "lawful \<Longrightarrow> AlreadyExists orp c h key g w = (Ok x, w') \<Longrightarrow> valid h \<Longrightarrow> x = present w h"
    and exists_frame: "AlreadyExists orp c h key g w = (y, w') \<Longrightarrow> clock w \<le> clock w' \<and>
      (\<forall>p. safe p \<longrightarrow> content w' p = content w p) \<and>
      (\<forall>h. valid h \<longrightarrow> present w' h = present w h \<and> intact w' h = intact w h)"
    and chunk_ok: "lawful \<Longrightarrow> SaveChunk orp c p h off sz cmp key g w = (Ok (), w') \<Longrightarrow> safe p \<Longrightarrow> valid h \<Longrightarrow>
      content w p = Some b \<Longrightarrow> h = hash (enc (section_of off sz b)) \<Longrightarrow> present w' h \<and> intact w' h"
    and chunk_frame: "lawful \<Longrightarrow> SaveChunk orp c p h off sz cmp key g w = (u, w') \<Longrightarrow> valid h \<Longrightarrow>
      clock w \<le> clock w' \<and> (\<forall>p. safe p \<longrightarrow> content w' p = content w p) \<and>
      (\<forall>h'. valid h' \<longrightarrow> h' \<noteq> h \<longrightarrow> present w' h' = present w h' \<and> intact w' h' = intact w h')"
    and object_ok: "lawful \<Longrightarrow> SaveObject orp c p h cmp key g w = (Ok (), w') \<Longrightarrow> whole \<Longrightarrow> safe p \<Longrightarrow> valid h \<Longrightarrow>
      content w p = Some b \<Longrightarrow> h = hash (enc b) \<Longrightarrow> (present w h \<longrightarrow> intact w h) \<Longrightarrow> present w' h \<and> intact w' h"
    and object_frame: "lawful \<Longrightarrow> SaveObject orp c p h cmp key g w = (v, w') \<Longrightarrow> valid h \<Longrightarrow>
      clock w \<le> clock w' \<and> (\<forall>p. safe p \<longrightarrow> content w' p = content w p) \<and>
      (\<forall>h'. valid h' \<longrightarrow> h' \<noteq> h \<longrightarrow> present w' h' = present w h' \<and> intact w' h' = intact w h')"
begin

definition good_item :: "'z os_world_scheme \<Rightarrow> SnapFile \<Rightarrow> item \<Rightarrow> bool" where
  "good_item w f it \<longleftrightarrow> lawful \<and>
     (\<exists>b. content w (file_path f) = Some b \<and> item_hash f it = hash (enc (item_bytes b it)) \<and>
        (it = Whole \<longrightarrow> whole))"

definition covered :: "'z os_world_scheme \<Rightarrow> SnapFile \<Rightarrow> bool" where
  "covered w f \<longleftrightarrow> (\<exists>b. content w (file_path f) = Some b \<and> concat (map (item_bytes b) (items_of f)) = b)"

text \<open>All items of a file are good and make up the file, and those not in \<open>P\<close> are in the store.\<close>

definition items_ok :: "'z os_world_scheme \<Rightarrow> SnapFile \<Rightarrow> item set \<Rightarrow> bool" where
  "items_ok w f P \<longleftrightarrow> covered w f \<and> (\<forall>it \<in> set (items_of f). good_item w f it \<and> (it \<in> P \<or> present w (item_hash f it)))"

fun worker_ok :: "'z os_world_scheme \<Rightarrow> SnapFile list \<Rightarrow> nat \<Rightarrow> worker \<Rightarrow> bool" where
  "worker_ok w fs n (Hashing i) \<longleftrightarrow> i < n \<and> file_chunks (fs ! i) = []"
| "worker_ok w fs n (Checking i its sz) \<longleftrightarrow>
     i < n \<and> set its \<subseteq> set (items_of (fs ! i)) \<and> items_ok w (fs ! i) (set its)"
| "worker_ok w fs n (Saving i it its sz) \<longleftrightarrow>
     i < n \<and> set (it # its) \<subseteq> set (items_of (fs ! i)) \<and> items_ok w (fs ! i) (insert it (set its))"
| "worker_ok w fs n (Appending i m) \<longleftrightarrow> i < n \<and> items_ok w (fs ! i) {}"
| "worker_ok w fs n Idle \<longleftrightarrow> True"
| "worker_ok w fs n Finished \<longleftrightarrow> True"

definition file_stable :: "'z os_world_scheme \<Rightarrow> SnapFile \<Rightarrow> SnapFile \<Rightarrow> bool" where
  "file_stable w f0 f \<longleftrightarrow>
     file_path f = file_path f0 \<and> file_size f = file_size f0 \<and> safe (file_path f) \<and>
     (\<exists>b. content w (file_path f) = Some b \<and> file_size f = int (length b) \<and> int (length b) + ChunkSize < 2 ^ 63)"

definition create_inv :: "ctx \<Rightarrow> SnapFile list \<Rightarrow> 'z create_state \<Rightarrow> bool" where
  "create_inv ctx fs0 s \<longleftrightarrow>
     list_all2 (file_stable (world s)) fs0 (files s) \<and>
     (\<forall>h. valid h \<longrightarrow> present (world s) h \<longrightarrow> intact (world s) h) \<and>
     next_index s \<le> length (files s) \<and>
     (\<forall>k < length (workers s). worker_ok (world s) (files s) (next_index s) (workers s ! k)) \<and>
     (\<forall>j < length (workers s). \<forall>k < length (workers s). \<forall>i.
        works_on (workers s ! j) = Some i \<longrightarrow> works_on (workers s ! k) = Some i \<longrightarrow> j = k) \<and>
     (\<forall>i < next_index s. (\<exists>k < length (workers s). works_on (workers s ! k) = Some i) \<or>
        items_ok (world s) (files s ! i) {}) \<and>
     (\<not> feeding s \<longrightarrow> next_index s = length (files s) \<or> (\<exists>t \<le> clock (world s). ctx t)) \<and>
     (\<forall>i. next_index s \<le> i \<longrightarrow> i < length (files s) \<longrightarrow> file_chunks (files s ! i) = [])"

lemma good_valid: "good_item w f it \<Longrightarrow> valid (item_hash f it)"
  by (cases it) (auto simp: good_item_def valid_hash)

text \<open>A world in which the sources are the same and at least the same objects are stored.\<close>

definition grows :: "'z os_world_scheme \<Rightarrow> 'z os_world_scheme \<Rightarrow> bool" where
  "grows w w' \<longleftrightarrow> clock w \<le> clock w' \<and> (\<forall>p. safe p \<longrightarrow> content w' p = content w p) \<and>
     (\<forall>h. valid h \<longrightarrow> present w h \<longrightarrow> present w' h) \<and>
     ((\<forall>h. valid h \<longrightarrow> present w h \<longrightarrow> intact w h) \<longrightarrow> (\<forall>h. valid h \<longrightarrow> present w' h \<longrightarrow> intact w' h))"

lemma grows_refl [simp]: "grows w w"
  by (simp add: grows_def)

lemma grows_hash: "CalculateHash src c p cmp w = (r, w') \<Longrightarrow> grows w w'"
  and grows_chunks: "CalculateChunks src c p csz cmp w = (q, w') \<Longrightarrow> grows w w'"
  and grows_exists: "AlreadyExists orp c h key g w = (y, w') \<Longrightarrow> grows w w'"
  using hash_frame [of c p w r w'] chunks_frame [of c p csz w q w'] exists_frame [of c h w y w']
  by (auto simp: grows_def)

lemma good_item_grows: "good_item w f it \<Longrightarrow> grows w w' \<Longrightarrow> safe (file_path f) \<Longrightarrow> good_item w' f it"
  unfolding good_item_def grows_def by simp

lemma covered_grows: "covered w f \<Longrightarrow> grows w w' \<Longrightarrow> safe (file_path f) \<Longrightarrow> covered w' f"
  unfolding covered_def grows_def by simp

lemma items_ok_grows:
  assumes "items_ok w f P" and "grows w w'" and "safe (file_path f)"
  shows "items_ok w' f P"
  unfolding items_ok_def
proof (intro conjI ballI)
  show "covered w' f" using assms covered_grows [of w f w'] by (simp add: items_ok_def)
next
  fix it assume "it \<in> set (items_of f)"
  with assms(1) have it: "good_item w f it" "it \<in> P \<or> present w (item_hash f it)"
    by (simp_all add: items_ok_def)
  from good_item_grows [OF it(1) assms(2,3)] it(2) good_valid [OF it(1)] assms(2)
  show "good_item w' f it" and "it \<in> P \<or> present w' (item_hash f it)"
    by (auto simp: grows_def)
qed

lemma items_ok_mono: "items_ok w f P \<Longrightarrow> P \<subseteq> Q \<Longrightarrow> items_ok w f Q"
  unfolding items_ok_def by blast

lemma file_stable_grows: "file_stable w f0 f \<Longrightarrow> grows w w' \<Longrightarrow> file_stable w' f0 f"
  by (auto simp: file_stable_def grows_def)

lemma worker_ok_grows:
  assumes "worker_ok w fs n p" and "grows w w'" and "n \<le> m" and "\<And>i. i < n \<Longrightarrow> safe (file_path (fs ! i))"
  shows "worker_ok w' fs m p"
  using assms by (cases p) (auto intro: items_ok_grows)

lemma worker_ok_files:
  "(\<And>i. works_on p = Some i \<Longrightarrow> fs' ! i = fs ! i) \<Longrightarrow> worker_ok w fs' n p = worker_ok w fs n p"
  by (cases p) auto

lemma inv_facts:
  assumes "create_inv ctx fs0 s"
  shows "list_all2 (file_stable (world s)) fs0 (files s)"
    and "\<And>h. valid h \<Longrightarrow> present (world s) h \<Longrightarrow> intact (world s) h"
    and "next_index s \<le> length (files s)"
    and "\<And>k. k < length (workers s) \<Longrightarrow> worker_ok (world s) (files s) (next_index s) (workers s ! k)"
    and "\<And>j k i. j < length (workers s) \<Longrightarrow> k < length (workers s) \<Longrightarrow>
      works_on (workers s ! j) = Some i \<Longrightarrow> works_on (workers s ! k) = Some i \<Longrightarrow> j = k"
    and "\<And>i. i < next_index s \<Longrightarrow> (\<exists>k < length (workers s). works_on (workers s ! k) = Some i) \<or>
      items_ok (world s) (files s ! i) {}"
    and "\<not> feeding s \<Longrightarrow> next_index s = length (files s) \<or> (\<exists>t \<le> clock (world s). ctx t)"
    and "\<And>i. next_index s \<le> i \<Longrightarrow> i < length (files s) \<Longrightarrow> file_chunks (files s ! i) = []"
  using assms unfolding create_inv_def by blast+

lemma inv_stable:
  assumes "create_inv ctx fs0 s" and "i < length (files s)"
  shows "i < length fs0" and "file_stable (world s) (fs0 ! i) (files s ! i)" and "safe (file_path (files s ! i))"
  using inv_facts(1) [OF assms(1)] assms(2) by (auto simp: list_all2_conv_all_nth file_stable_def)

text \<open>
  The move of one worker on file \<open>i\<close>: the world grows, the file's record may change, and the
  worker stays on the file or leaves it complete.
\<close>

lemma inv_move:
  assumes inv: "create_inv ctx fs0 s" and k: "k < length (workers s)"
    and i: "works_on (workers s ! k) = Some i" "i < next_index s"
    and grow: "grows (world s) w"
    and f: "file_path f = file_path (files s ! i)" "file_size f = file_size (files s ! i)"
    and p: "worker_ok w ((files s)[i := f]) (next_index s) p"
    and on: "works_on p = Some i \<or> works_on p = None \<and> items_ok w f {}"
    and s': "workers s' = (workers s)[k := p]" "world s' = w" "files s' = (files s)[i := f]"
      "next_index s' = next_index s" "feeding s' = feeding s"
  shows "create_inv ctx fs0 s'"
proof -
  note I = inv_facts [OF inv]
  let ?fs = "(files s)[i := f]" and ?ws = "(workers s)[k := p]"
  have il: "i < length (files s)" using i(2) I(3) by simp
  have old_safe: "j < next_index s \<Longrightarrow> safe (file_path (files s ! j))" for j
    using inv_stable(3) [OF inv, of j] I(3) by simp
  have "list_all2 (file_stable w) fs0 ?fs"
    unfolding list_all2_conv_all_nth
  proof (intro conjI allI impI)
    show "length fs0 = length ?fs" using I(1) by (simp add: list_all2_lengthD)
    fix j assume j: "j < length fs0"
    then have "file_stable (world s) (fs0 ! j) (files s ! j)"
      using I(1) by (simp add: list_all2_conv_all_nth)
    from file_stable_grows [OF this grow] f il show "file_stable w (fs0 ! j) (?fs ! j)"
      by (cases "j = i") (auto simp: file_stable_def)
  qed
  moreover have "\<forall>h. valid h \<longrightarrow> present w h \<longrightarrow> intact w h"
    using grow I(2) unfolding grows_def by blast
  moreover have "\<forall>j < length ?ws. worker_ok w ?fs (next_index s) (?ws ! j)"
  proof (intro allI impI)
    fix j assume j: "j < length ?ws"
    show "worker_ok w ?fs (next_index s) (?ws ! j)"
    proof (cases "j = k")
      case True
      with p k show ?thesis by simp
    next
      case False
      have "worker_ok (world s) (files s) (next_index s) (workers s ! j)" using I(4) j by simp
      then have "worker_ok w (files s) (next_index s) (workers s ! j)"
        by (rule worker_ok_grows [OF _ grow le_refl old_safe])
      moreover have same: "works_on (workers s ! j) = Some i' \<Longrightarrow> ?fs ! i' = files s ! i'" for i'
        using I(5) [of j k i] False j k i(1) by (cases "i' = i") auto
      have "worker_ok w ?fs (next_index s) (workers s ! j) = worker_ok w (files s) (next_index s) (workers s ! j)"
        by (rule worker_ok_files) (rule same)
      ultimately show ?thesis using False by (metis nth_list_update_neq)
    qed
  qed
  moreover have "\<forall>j < length ?ws. \<forall>l < length ?ws. \<forall>i.
      works_on (?ws ! j) = Some i \<longrightarrow> works_on (?ws ! l) = Some i \<longrightarrow> j = l"
  proof (intro allI impI)
    fix j l i' assume jl: "j < length ?ws" "l < length ?ws"
      and w: "works_on (?ws ! j) = Some i'" "works_on (?ws ! l) = Some i'"
    have old: "m < length ?ws \<Longrightarrow> works_on (?ws ! m) = Some i' \<Longrightarrow> works_on (workers s ! m) = Some i'" for m
      using on i(1) by (cases "m = k") auto
    from jl show "j = l" by (intro I(5) [of j l i'] old w) simp_all
  qed
  moreover have "\<forall>j < next_index s. (\<exists>l < length ?ws. works_on (?ws ! l) = Some j) \<or> items_ok w (?fs ! j) {}"
  proof (intro allI impI)
    fix j assume j: "j < next_index s"
    show "(\<exists>l < length ?ws. works_on (?ws ! l) = Some j) \<or> items_ok w (?fs ! j) {}"
    proof (cases "j = i")
      case True
      with on k il show ?thesis by auto
    next
      case False
      from I(6) [OF j] show ?thesis
      proof
        assume "\<exists>l < length (workers s). works_on (workers s ! l) = Some j"
        then obtain l where "l < length (workers s)" "works_on (workers s ! l) = Some j" by blast
        moreover from this False i(1) have "l \<noteq> k" by auto
        ultimately show ?thesis by (intro disjI1 exI [of _ l]) simp
      next
        assume "items_ok (world s) (files s ! j) {}"
        with items_ok_grows [OF this grow] inv_stable(3) [OF inv, of j] I(3) j False show ?thesis by simp
      qed
    qed
  qed
  moreover have "clock (world s) \<le> clock w" using grow by (simp add: grows_def)
  then have "\<not> feeding s \<longrightarrow> next_index s = length (files s) \<or> (\<exists>t \<le> clock w. ctx t)"
    using I(7) le_trans by blast
  moreover have "\<forall>j. next_index s \<le> j \<longrightarrow> j < length ?fs \<longrightarrow> file_chunks (?fs ! j) = []"
    using I(8) i(2) by auto
  ultimately show ?thesis using I(3) unfolding create_inv_def s' by simp
qed

lemma items_of_AddHash: "items_of (AddHash h f) = (if file_chunks f = [] then [Whole] else map Part (file_chunks f))"
  by (simp add: items_of_def AddHash_def)

lemma section_of_item: "section_of (chunk_offset c) (chunk_size c) b = item_bytes b (Part c)"
  by (simp add: section_of_def)

lemma calculate_good:
  assumes calc: "Calculate calc src c f cmp w = (Ok f', w')"
    and lawful and st: "file_stable w f0 f" and fresh: "file_chunks f = []" and one: "calc = OneFormatVersion \<Longrightarrow> whole"
  shows "grows w w'" and "file_path f' = file_path f" and "file_size f' = file_size f"
    and "\<forall>it \<in> set (items_of f'). good_item w f' it" and "covered w f'"
proof -
  from st obtain b where b: "safe (file_path f)" "content w (file_path f) = Some b"
    "file_size f = int (length b)" "int (length b) + ChunkSize < 2 ^ 63"
    by (auto simp: file_stable_def)
  have "grows w w' \<and> file_path f' = file_path f \<and> file_size f' = file_size f \<and>
      (\<forall>it \<in> set (items_of f'). good_item w f' it) \<and> covered w f'"
  proof (cases calc)
    case OneFormatVersion
    with calc obtain h where h: "CalculateHash src c (file_path f) cmp w = (Ok h, w')" "f' = AddHash h f"
      by (auto simp: One_Calculate_def ok_iffs)
    have "good_item w f' Whole" "covered w f'"
      unfolding good_item_def covered_def
      using \<open>lawful\<close> hash_ok [OF \<open>lawful\<close> h(1) b(1,2)] h(2) b(2) one [OF OneFormatVersion] fresh
      by (simp_all add: AddHash_def items_of_def)
    with grows_hash [OF h(1)] h(2) fresh show ?thesis
      by (simp add: items_of_def AddHash_def)
  next
    case two: TwoFormatVersion
    show ?thesis
    proof (cases "file_size f \<ge> ChunkThreshold")
      case True
      with calc two obtain cs where cs: "CalculateChunks src c (file_path f) ChunkSize cmp w = (Ok cs, w')"
        "f' = AddChunks cs f"
        by (auto simp: Two_Calculate_def ok_iffs)
      note K = chunks_ok [OF \<open>lawful\<close> cs(1) b(1,2,4), unfolded section_of_item]
      have "b \<noteq> []" using True b(3) by (auto simp: ChunkThreshold_def)
      with K have i: "items_of f' = map Part cs" using cs(2) by (auto simp: items_of_def AddChunks_def)
      have "good_item w f' it" if "it \<in> set (items_of f')" for it
        using that K b(2) cs(2) \<open>lawful\<close> unfolding good_item_def i by (auto simp: AddChunks_def)
      moreover have "concat (map (item_bytes b) (map Part cs)) = b" using K by (simp only: map_map comp_def)
      then have "covered w f'" using b(2) cs(2) unfolding covered_def i by (auto simp: AddChunks_def)
      ultimately show ?thesis using grows_chunks [OF cs(1)] cs(2) by (simp add: AddChunks_def)
    next
      case False
      with calc two obtain h where h: "CalculateHash src c (file_path f) cmp w = (Ok h, w')"
        "f' = AddChunks [NewChunk h 0 (file_size f)] (AddHash h f)"
        by (auto simp: Two_Calculate_def ok_iffs)
      have i: "items_of f' = [Part (NewChunk h 0 (int (length b)))]"
        using h(2) b(3) by (simp add: items_of_def AddChunks_def AddHash_def)
      have "good_item w f' it" if "it \<in> set (items_of f')" for it
        using that hash_ok [OF \<open>lawful\<close> h(1) b(1,2)] b(2) h(2) \<open>lawful\<close> unfolding good_item_def i
        by (simp add: AddChunks_def AddHash_def NewChunk_def)
      moreover have "covered w f'"
        using b(2) h(2) unfolding covered_def i by (simp add: AddChunks_def AddHash_def NewChunk_def)
      ultimately show ?thesis using grows_hash [OF h(1)] h(2) by (simp add: AddChunks_def AddHash_def)
    qed
  qed
  then show "grows w w'" and "file_path f' = file_path f" and "file_size f' = file_size f"
    and "\<forall>it \<in> set (items_of f'). good_item w f' it" and "covered w f'" by simp_all
qed

lemma check_ok:
  assumes chk: "AlreadyExists orp c (item_hash f it) key g w = (Ok x, w')" and it: "good_item w f it"
  shows "x = present w (item_hash f it)" and "grows w w'"
  using exists_ok [OF _ chk good_valid [OF it]] grows_exists [OF chk] it by (simp_all add: good_item_def)

text \<open>Saving an item: the store grows by it, even if another worker has saved it since it was looked for.\<close>

lemma grows_save:
  assumes frame: "clock w \<le> clock w'" "\<forall>p. safe p \<longrightarrow> content w' p = content w p"
      "\<forall>h'. valid h' \<longrightarrow> h' \<noteq> h \<longrightarrow> present w' h' = present w h' \<and> intact w' h' = intact w h'"
    and ok: "present w' h \<and> intact w' h"
  shows "grows w w'"
  unfolding grows_def
proof (intro conjI impI allI)
  show "clock w \<le> clock w'" by (rule frame(1))
  show "content w' p = content w p" if "safe p" for p using frame(2) that by blast
  show "present w' h'" if "valid h'" "present w h'" for h'
    using frame(3) ok that by (cases "h' = h") auto
  show "intact w' h'" if "\<forall>h. valid h \<longrightarrow> present w h \<longrightarrow> intact w h" "valid h'" "present w' h'" for h'
    using frame(3) ok that by (cases "h' = h") auto
qed

lemma save_ok:
  fixes e :: "'z create_env"
  assumes save: "create_save e c f it w = (Ok (), w')" and it: "good_item w f it" and safe: "safe (file_path f)"
    and env: "env_objects e = orp" "env_compression e = cmp" "env_key e = key" "env_generation e = g"
    and clean: "present w (item_hash f it) \<Longrightarrow> intact w (item_hash f it)"
  shows "grows w w' \<and> present w' (item_hash f it)"
proof -
  from it have "lawful" by (simp add: good_item_def)
  show ?thesis
proof (cases it)
  case Whole
  with it obtain b where b: "whole" "content w (file_path f) = Some b" "file_hash f = hash (enc b)"
    by (auto simp: good_item_def)
  from save Whole env have s: "SaveObject orp c (file_path f) (file_hash f) cmp key g w = (Ok (), w')"
    by simp
  have v: "valid (file_hash f)" using b(3) valid_hash [OF \<open>lawful\<close>] by simp
  have p: "present w' (file_hash f) \<and> intact w' (file_hash f)"
    using object_ok [OF \<open>lawful\<close> s b(1) safe v b(2,3)] clean Whole by simp
  from object_frame [OF \<open>lawful\<close> s v] p show ?thesis
    unfolding Whole item_hash.simps by (intro conjI grows_save [where h = "file_hash f"]) blast+
next
  case (Part ch)
  with it obtain b where b: "content w (file_path f) = Some b"
    "chunk_hash ch = hash (enc (section_of (chunk_offset ch) (chunk_size ch) b))"
    by (auto simp: good_item_def section_of_def)
  from save Part env have s: "SaveChunk orp c (file_path f) (chunk_hash ch) (chunk_offset ch) (chunk_size ch)
      cmp key g w = (Ok (), w')" by simp
  have v: "valid (chunk_hash ch)" using b(2) valid_hash [OF \<open>lawful\<close>] by simp
  have p: "present w' (chunk_hash ch) \<and> intact w' (chunk_hash ch)"
    by (rule chunk_ok [OF \<open>lawful\<close> s safe v b])
  from chunk_frame [OF \<open>lawful\<close> s v] p show ?thesis
    unfolding Part item_hash.simps by (intro conjI grows_save [where h = "chunk_hash ch"]) blast+
qed
qed

definition runs_on :: "'z create_env \<Rightarrow> bool" where
  "runs_on e \<longleftrightarrow> lawful \<and> env_source e = src \<and> env_objects e = orp \<and> env_compression e = cmp \<and> env_key e = key \<and>
     env_generation e = g \<and> (env_calculator e = OneFormatVersion \<longrightarrow> whole)"

text \<open>A worker without a file changes nothing that the invariant speaks of.\<close>

lemma inv_feeder:
  assumes inv: "create_inv ctx fs0 s" and fed: "next_index s = length (files s) \<or> (\<exists>t \<le> clock (world s). ctx t)"
  shows "create_inv ctx fs0 (s\<lparr>feeding := False\<rparr>)"
  using inv fed unfolding create_inv_def by simp

lemma inv_idle:
  assumes inv: "create_inv ctx fs0 s" and k: "k < length (workers s)" and p: "works_on (workers s ! k) = None"
    and q: "works_on q = None"
  shows "create_inv ctx fs0 (move k q (world s) s)"
proof -
  note I = inv_facts [OF inv]
  let ?s = "move k q (world s) s"
  have same: "works_on (workers ?s ! j) = works_on (workers s ! j)" if "j < length (workers s)" for j
    using that p q k by (cases "j = k") (simp_all add: move_def)
  have "worker_ok (world s) (files s) (next_index s) (workers ?s ! j)" if "j < length (workers s)" for j
    using I(4) [OF that] q k that by (cases "j = k"; cases q) (auto simp: move_def)
  moreover have "\<forall>j < length (workers s). \<forall>l < length (workers s). \<forall>i.
      works_on (workers ?s ! j) = Some i \<longrightarrow> works_on (workers ?s ! l) = Some i \<longrightarrow> j = l"
    using I(5) same by simp
  moreover have "\<forall>i < next_index s. (\<exists>l < length (workers s). works_on (workers ?s ! l) = Some i) \<or>
      items_ok (world s) (files s ! i) {}"
    using I(6) same by metis
  moreover have "length (workers ?s) = length (workers s)" "world ?s = world s" "files ?s = files s"
    "next_index ?s = next_index s" "feeding ?s = feeding s"
    by (simp_all add: move_def)
  ultimately show ?thesis using I(1-3,7,8) unfolding create_inv_def by simp
qed

text \<open>The feeder hands the next file to a worker.\<close>

lemma inv_feed:
  assumes inv: "create_inv ctx fs0 s" and k: "k < length (workers s)" and p: "workers s ! k = Idle"
    and n: "next_index s < length (files s)" and fed: "feeding s"
  shows "create_inv ctx fs0 ((move k (Hashing (next_index s)) (world s) s)\<lparr>next_index := Suc (next_index s)\<rparr>)"
proof -
  note I = inv_facts [OF inv]
  let ?n = "next_index s"
  let ?ws = "(workers s)[k := Hashing ?n]"
  have below: "i < ?n" if "j < length (workers s)" "works_on (workers s ! j) = Some i" for i j
    using I(4) [OF that(1)] that(2) by (cases "workers s ! j") auto
  have "worker_ok (world s) (files s) (Suc ?n) (?ws ! j)" if "j < length (workers s)" for j
  proof (cases "j = k")
    case True
    with I(8) [OF le_refl n] k show ?thesis by simp
  next
    case False
    from I(4) [OF that] False show ?thesis by (cases "workers s ! j") auto
  qed
  moreover have "\<forall>j < length (workers s). \<forall>l < length (workers s). \<forall>i.
      works_on (?ws ! j) = Some i \<longrightarrow> works_on (?ws ! l) = Some i \<longrightarrow> j = l"
  proof (intro allI impI)
    fix j l i assume *: "j < length (workers s)" "l < length (workers s)"
      "works_on (?ws ! j) = Some i" "works_on (?ws ! l) = Some i"
    show "j = l"
    proof (cases "j = k"; cases "l = k")
      assume "j \<noteq> k" "l \<noteq> k"
      with * I(5) [of j l i] show ?thesis by simp
    qed (use * below [of j i] below [of l i] in \<open>auto\<close>)
  qed
  moreover have "(\<exists>l < length (workers s). works_on (?ws ! l) = Some i) \<or> items_ok (world s) (files s ! i) {}"
    if i: "i < Suc ?n" for i
  proof (cases "i = ?n")
    case True
    with k show ?thesis by (intro disjI1 exI [of _ k]) simp
  next
    case False
    with i have "i < ?n" by simp
    from I(6) [OF this] show ?thesis
    proof (elim disjE exE conjE)
      fix l assume l: "l < length (workers s)" "works_on (workers s ! l) = Some i"
      then have "l \<noteq> k" using p by auto
      with l show ?thesis by (intro disjI1 exI [of _ l]) simp
    qed auto
  qed
  ultimately show ?thesis using I(1,2,8) n fed unfolding create_inv_def by (simp add: move_def)
qed

lemma record_error_not_None [simp]: "record_error er x \<noteq> None"
  by (simp add: record_error_def split: option.split)

lemma step_first_error: "create_step e s s' \<Longrightarrow> firstErr s' = None \<Longrightarrow> firstErr s = None"
  by (induction rule: create_step.induct) (simp_all add: move_def abandon_def)

lemma step_overlapped: "create_step e s s' \<Longrightarrow> overlapped s' = {} \<Longrightarrow> overlapped s = {}"
  by (induction rule: create_step.induct) (simp_all add: move_def abandon_def overlap_def split: if_splits)

text \<open>What the invariant says of the worker that moves.\<close>

lemma inv_worker:
  assumes inv: "create_inv ctx fs0 s" and k: "k < length (workers s)" and i: "works_on (workers s ! k) = Some i"
  shows "worker_ok (world s) (files s) (next_index s) (workers s ! k)" and "i < next_index s"
    and "i < length (files s)" and "file_stable (world s) (fs0 ! i) (files s ! i)" and "safe (file_path (files s ! i))"
proof -
  note I = inv_facts [OF inv]
  show ok: "worker_ok (world s) (files s) (next_index s) (workers s ! k)" by (rule I(4) [OF k])
  then show n: "i < next_index s" using i by (cases "workers s ! k") auto
  then show l: "i < length (files s)" using I(3) by simp
  from inv_stable [OF inv l] show "file_stable (world s) (fs0 ! i) (files s ! i)" "safe (file_path (files s ! i))"
    by simp_all
qed

lemma inv_same_file:
  assumes inv: "create_inv ctx fs0 s" and k: "k < length (workers s)" and i: "works_on (workers s ! k) = Some i"
    and grow: "grows (world s) w"
    and p: "worker_ok w (files s) (next_index s) p" "works_on p = Some i \<or> works_on p = None \<and> items_ok w (files s ! i) {}"
    and s': "workers s' = (workers s)[k := p]" "world s' = w" "files s' = files s"
      "next_index s' = next_index s" "feeding s' = feeding s"
  shows "create_inv ctx fs0 s'"
  by (rule inv_move [OF inv k i inv_worker(2) [OF inv k i] grow, of "files s ! i" p])
    (use p s' in simp_all)

lemma items_ok_worker:
  assumes "items_ok w f P" and "grows w w'" and "safe (file_path f)" and "P \<subseteq> insert it Q"
    and "present w' (item_hash f it)"
  shows "items_ok w' f Q"
proof -
  have "items_ok w' f P" by (rule items_ok_grows [OF assms(1-3)])
  then show ?thesis using assms(4,5) unfolding items_ok_def by blast
qed

lemma step_inv:
  assumes step: "create_step e s s'" and run: "runs_on e" and none: "firstErr s' = None" and sep: "overlapped s' = {}"
    and inv: "create_inv (env_ctx e) fs0 s"
  shows "create_inv (env_ctx e) fs0 s'"
  using step
proof cases
  case (feed k)
  with inv_feed [OF inv feed(4,5,3,2)] show ?thesis by simp
next
  case feed_end
  with inv_feeder [OF inv] show ?thesis by simp
next
  case feed_break
  have "firstErr s = None" by (rule step_first_error [OF step none])
  with feed_break inv_feeder [OF inv] show ?thesis by auto
next
  case (finish k)
  with inv_idle [OF inv, of k Finished] show ?thesis by simp
next
  case (hash k i c f w)
  have on: "works_on (workers s ! k) = Some i" using hash(3) by simp
  note W = inv_worker [OF inv hash(2) on]
  have calc: "Calculate (env_calculator e) src c (files s ! i) cmp (world s) = (Ok f, w)"
    using hash(5) run by (simp add: runs_on_def)
  have fresh: "file_chunks (files s ! i) = []" using W(1) hash(3) by simp
  have one: "env_calculator e = OneFormatVersion \<Longrightarrow> whole" using run by (simp add: runs_on_def)
  have lawful using run by (simp add: runs_on_def)
  note C = calculate_good [OF calc this W(4) fresh one]
  have sf: "safe (file_path f)" using W(5) C(2) by simp
  have good: "items_ok w f (set (items_of f))"
    unfolding items_ok_def using C(4,5) good_item_grows [OF _ C(1) sf] covered_grows [OF _ C(1) sf] by blast
  show ?thesis
    by (rule inv_move [OF inv hash(2) on W(2) C(1-3), of "Checking i (items_of f) 0"])
      (use W(2,3) good in \<open>simp_all add: hash(1) move_def\<close>)
next
  case (exists k i it its sz c w)
  have on: "works_on (workers s ! k) = Some i" using exists(3) by simp
  note W = inv_worker [OF inv exists(2) on]
  have chk: "AlreadyExists orp c (item_hash (files s ! i) it) key g (world s) = (Ok True, w)"
    using exists(5) run by (simp add: create_check_def runs_on_def)
  have ok: "i < next_index s" "set (it # its) \<subseteq> set (items_of (files s ! i))"
    "items_ok (world s) (files s ! i) (set (it # its))"
    using W(1) exists(3) by simp_all
  then have good: "good_item (world s) (files s ! i) it" by (simp add: items_ok_def)
  note C = check_ok [OF chk good]
  have "valid (item_hash (files s ! i) it)" by (rule good_valid [OF good])
  then have "present w (item_hash (files s ! i) it)" using C unfolding grows_def by blast
  from items_ok_worker [OF ok(3) C(2) W(5) _ this, of "set its"]
  have "items_ok w (files s ! i) (set its)" by simp
  with ok show ?thesis
    by (intro inv_same_file [OF inv exists(2) on C(2), of "Checking i its sz"]) (simp_all add: exists(1) move_def)
next
  case (missing k i it its sz c w)
  have on: "works_on (workers s ! k) = Some i" using missing(3) by simp
  note W = inv_worker [OF inv missing(2) on]
  have chk: "AlreadyExists orp c (item_hash (files s ! i) it) key g (world s) = (Ok False, w)"
    using missing(5) run by (simp add: create_check_def runs_on_def)
  have ok: "i < next_index s" "set (it # its) \<subseteq> set (items_of (files s ! i))"
    "items_ok (world s) (files s ! i) (insert it (set its))"
    using W(1) missing(3) by simp_all
  note G = grows_exists [OF chk]
  from items_ok_grows [OF ok(3) G W(5)] ok show ?thesis
    by (intro inv_same_file [OF inv missing(2) on G, of "Saving i it its sz"]) (simp_all add: missing(1) move_def)
next
  case (save k i it its sz c w)
  have on: "works_on (workers s ! k) = Some i" using save(3) by simp
  note W = inv_worker [OF inv save(2) on]
  have ok: "i < next_index s" "set (it # its) \<subseteq> set (items_of (files s ! i))"
    "items_ok (world s) (files s ! i) (insert it (set its))"
    using W(1) save(3) by simp_all
  then have good: "good_item (world s) (files s ! i) it" by (simp add: items_ok_def)
  have S: "grows (world s) w \<and> present w (item_hash (files s ! i) it)"
    using run inv_facts(2) [OF inv good_valid [OF good]]
    by (intro save_ok [OF save(5) good W(5)]) (simp_all add: runs_on_def)
  from items_ok_worker [OF ok(3) _ W(5), of w it "set its"] S
  have "items_ok w (files s ! i) (set its)" by simp
  with ok S show ?thesis
    by (intro inv_same_file [OF inv save(2) on, of w "Checking i its (i64 (sz + item_size (files s ! i) it))"])
      (simp_all add: save(1) move_def)
next
  case (count k i sz)
  have on: "works_on (workers s ! k) = Some i" using count(3) by simp
  note W = inv_worker [OF inv count(2) on]
  have ok: "items_ok (world s) (files s ! i) {}" "i < next_index s" using W(1) count(3) by simp_all
  then show ?thesis
    by (intro inv_same_file [OF inv count(2) on grows_refl, of "after_items i sz s"])
      (simp_all add: count(1) move_def after_items_def)
next
  case (append k i n)
  have on: "works_on (workers s ! k) = Some i" using append(3) by simp
  note W = inv_worker [OF inv append(2) on]
  have ok: "items_ok (world s) (files s ! i) {}" using W(1) append(3) by simp
  then show ?thesis
    by (intro inv_same_file [OF inv append(2) on grows_refl, of Idle]) (simp_all add: append(1) move_def)
qed (use none sep step_overlapped [OF step sep] in \<open>simp_all add: abandon_def overlap_def\<close>)

lemma steps_inv:
  assumes steps: "(create_step e)\<^sup>*\<^sup>* s0 s" and run: "runs_on e" and none: "firstErr s = None" and sep: "overlapped s = {}"
    and inv: "create_inv (env_ctx e) fs0 s0"
  shows "create_inv (env_ctx e) fs0 s"
  using steps none sep
proof (induction rule: rtranclp_induct)
  case (step s s')
  have "firstErr s = None" by (rule step_first_error [OF step(2,4)])
  from step_inv [OF step(2) run step(4,5) step(3) [OF this step_overlapped [OF step(2,5)]]] show ?case .
qed (rule inv)

text \<open>On the way the sources stay as they are.\<close>

lemma step_content:
  assumes step: "create_step e s s'" and run: "runs_on e" and none: "firstErr s' = None" and sep: "overlapped s' = {}"
    and inv: "create_inv (env_ctx e) fs0 s"
  shows "\<forall>p. safe p \<longrightarrow> content (world s') p = content (world s) p"
  using step
proof cases
  case (hash k i c f w)
  have on: "works_on (workers s ! k) = Some i" using hash(3) by simp
  note W = inv_worker [OF inv hash(2) on]
  have "Calculate (env_calculator e) src c (files s ! i) cmp (world s) = (Ok f, w)"
    using hash(5) run by (simp add: runs_on_def)
  from calculate_good(1) [OF this _ W(4)] W(1) hash(3) run have "grows (world s) w"
    by (simp add: runs_on_def)
  with hash(1) show ?thesis by (simp add: grows_def move_def)
next
  case (exists k i it its sz c w)
  then have "AlreadyExists orp c (item_hash (files s ! i) it) key g (world s) = (Ok True, w)"
    using run by (simp add: create_check_def runs_on_def)
  from grows_exists [OF this] exists(1) show ?thesis by (simp add: grows_def move_def)
next
  case (missing k i it its sz c w)
  then have "AlreadyExists orp c (item_hash (files s ! i) it) key g (world s) = (Ok False, w)"
    using run by (simp add: create_check_def runs_on_def)
  from grows_exists [OF this] missing(1) show ?thesis by (simp add: grows_def move_def)
next
  case (save k i it its sz c w)
  have on: "works_on (workers s ! k) = Some i" using save(3) by simp
  note W = inv_worker [OF inv save(2) on]
  have good: "good_item (world s) (files s ! i) it" using W(1) save(3) by (simp add: items_ok_def)
  have "grows (world s) w \<and> present w (item_hash (files s ! i) it)"
    using run inv_facts(2) [OF inv good_valid [OF good]]
    by (intro save_ok [OF save(5) good W(5)]) (simp_all add: runs_on_def)
  with save(1) show ?thesis by (simp add: grows_def move_def)
qed (use none sep step_overlapped [OF step sep] in \<open>simp_all add: abandon_def move_def overlap_def\<close>)

lemma steps_content:
  assumes steps: "(create_step e)\<^sup>*\<^sup>* s0 s" and run: "runs_on e" and none: "firstErr s = None" and sep: "overlapped s = {}"
    and inv: "create_inv (env_ctx e) fs0 s0"
  shows "\<forall>p. safe p \<longrightarrow> content (world s) p = content (world s0) p"
  using steps none sep
proof (induction rule: rtranclp_induct)
  case (step s s')
  have none': "firstErr s = None" by (rule step_first_error [OF step(2,4)])
  have sep': "overlapped s = {}" by (rule step_overlapped [OF step(2,5)])
  have "create_inv (env_ctx e) fs0 s" by (rule steps_inv [OF step(1) run none' sep' inv])
  from step_content [OF step(2) run step(4,5) this] step(3) [OF none' sep'] show ?case by simp
qed simp

text \<open>
  The end of a run without error, its context not done: every file has its hashes and everything they
  name is in the store.
\<close>

lemma created:
  assumes steps: "(create_step e)\<^sup>*\<^sup>* s0 s" and run: "runs_on e" and none: "firstErr s = None" and sep: "overlapped s = {}"
    and inv: "create_inv (env_ctx e) fs0 s0" and fin: "all_finished s"
    and ctx: "\<forall>t \<le> clock (world s). \<not> env_ctx e t"
  shows "list_all2 (file_stable (world s)) fs0 (files s)"
    and "\<forall>f \<in> set (files s). items_ok (world s) f {}"
    and "\<forall>h. valid h \<longrightarrow> present (world s) h \<longrightarrow> intact (world s) h"
proof -
  have J: "create_inv (env_ctx e) fs0 s" by (rule steps_inv [OF steps run none sep inv])
  note I = inv_facts [OF J]
  show "list_all2 (file_stable (world s)) fs0 (files s)" by (rule I(1))
  show "\<forall>h. valid h \<longrightarrow> present (world s) h \<longrightarrow> intact (world s) h" using I(2) by blast
  have n: "next_index s = length (files s)" using I(7) fin ctx by (auto simp: all_finished_def)
  have "workers s ! k = Finished" if "k < length (workers s)" for k
    using fin that by (simp add: all_finished_def list_all_length)
  then have "items_ok (world s) (files s ! i) {}" if "i < length (files s)" for i
    using I(6) [of i] that n by auto
  then show "\<forall>f \<in> set (files s). items_ok (world s) f {}"
    by (auto simp: in_set_conv_nth)
qed

lemma init_inv:
  assumes "\<forall>f \<in> set (source_files (prep_source p)). file_stable w f f \<and> file_chunks f = []"
    and "\<forall>h. valid h \<longrightarrow> present w h \<longrightarrow> intact w h"
  shows "create_inv ctx (source_files (prep_source p)) (create_init configured dflt p w)"
  using assms unfolding create_inv_def create_init_def
  by (auto simp: list_all2_same)

end

end
