(* ===== verification/Disk_Create.thy ===== *)
theory Disk_Create
  imports Create_Facts Disk_Restore_Facts Disk_Source_Facts
begin

section \<open>Snapshots in a repository on disk\<close>

text \<open>
  The repositories on disk keep the contract \<open>snapshot_store\<close>. With it the completeness of a
  created snapshot becomes a statement on the files of the disk.
\<close>

subsection \<open>The store of objects on disk\<close>

text \<open>A source file outside the objects' folder, and not above it.\<close>

definition source_safe :: "string \<Rightarrow> string \<Rightarrow> bool" where
  "source_safe root p \<longleftrightarrow> is_rooted p \<and> \<not> prefix (comps root @ [ObjectsFolder]) (comps p) \<and>
     \<not> prefix (comps p) (comps root @ [ObjectsFolder])"

definition source_content :: "'z os_world_scheme \<Rightarrow> string \<Rightarrow> bytes option" where
  "source_content w p = (case lookup w (comps p) of Some (File b) \<Rightarrow> Some b | _ \<Rightarrow> None)"

definition object_present :: "string \<Rightarrow> bytes \<Rightarrow> uint64 \<Rightarrow> 'z os_world_scheme \<Rightarrow> string \<Rightarrow> bool" where
  "object_present root key g w h \<longleftrightarrow> lookup w (object_at root key g h) \<noteq> None"

definition object_intact :: "library \<Rightarrow> string \<Rightarrow> bytes \<Rightarrow> uint64 \<Rightarrow> 'z os_world_scheme \<Rightarrow> string \<Rightarrow> bool" where
  "object_intact lib root key g w h \<longleftrightarrow>
     (case lookup w (object_at root key g h) of
        Some (File raw) \<Rightarrow>
          (case object_content lib key raw of
             Some data \<Rightarrow> content_hash (lib_crypto lib) data = h
           | None \<Rightarrow> False)
      | _ \<Rightarrow> False)"

definition disk_lawful ::
  "library \<Rightarrow> string \<Rightarrow> Compression option \<Rightarrow> bytes \<Rightarrow> (bytes \<Rightarrow> bytes) \<Rightarrow> bool" where
  "disk_lawful lib root cmp key enc \<longleftrightarrow>
     is_rooted root \<and> sha256_sized (lib_crypto lib) \<and> compresses lib cmp enc \<and>
     (key = [] \<or> gcm_correct (lib_crypto lib))"

lemma compresses_unique: "compresses lib cmp enc \<Longrightarrow> compresses lib cmp enc' \<Longrightarrow> enc = enc'"
  by (auto simp: compresses_def)

lemma object_below: "prefix (comps root @ [ObjectsFolder]) (object_at root key g h)"
  by (simp add: object_at_def folders_def)

text \<open>A safe source is none of the paths that saving an object can change.\<close>

lemma source_not_above: "source_safe root p \<Longrightarrow> comps p \<notin> above (object_at root key g h)"
  using object_below [of root key g h]
  by (auto simp: source_safe_def above_def dest: prefix_same_cases)

lemma source_not_object: "source_safe root p \<Longrightarrow> resolve w p \<noteq> object_at root key g h"
  using source_not_above [of root p key g h] by (auto simp: source_safe_def resolve_rooted)

lemma object_not_above:
  assumes "h' \<noteq> h"
  shows "object_at root key g h' \<notin> above (object_at root key g h)"
proof
  assume "object_at root key g h' \<in> above (object_at root key g h)"
  then have "prefix [take 2 h', drop 2 h'] [take 2 h, drop 2 h]" by (simp add: above_def object_at_def)
  then have "take 2 h' = take 2 h" "drop 2 h' = drop 2 h" by auto
  with assms show False by (metis append_take_drop_id)
qed

lemma source_content_Some: "source_safe root p \<Longrightarrow> source_content w p = Some b \<longleftrightarrow> lookup w (resolve w p) = Some (File b)"
  by (auto simp: source_content_def source_safe_def resolve_rooted split: option.splits node.splits)

text \<open>What the contract says of an operation that changes at most the paths in \<open>S\<close>.\<close>

lemma disk_frame:
  assumes "sets (cwd w) S m" and "m w = (r, w')" and "\<And>p. source_safe root p \<Longrightarrow> comps p \<notin> S"
  shows "clock w \<le> clock w' \<and> (\<forall>p. source_safe root p \<longrightarrow> source_content w' p = source_content w p) \<and>
    (\<forall>h. object_at root key g h \<notin> S \<longrightarrow> object_present root key g w' h = object_present root key g w h \<and>
      object_intact lib root key g w' h = object_intact lib root key g w h)"
  using sets_lookup [OF assms(1) refl assms(2)] assms(3)
  by (simp add: steady_def source_content_def object_present_def object_intact_def)

lemma disk_read_frame:
  assumes "sets (cwd w) {} m" and "m w = (r, w')"
  shows "clock w \<le> clock w' \<and> (\<forall>p. source_safe root p \<longrightarrow> source_content w' p = source_content w p) \<and>
    (\<forall>h. hash_ok h \<longrightarrow> object_present root key g w' h = object_present root key g w h \<and>
      object_intact lib root key g w' h = object_intact lib root key g w h)"
  using disk_frame [OF assms, of root key g lib] by simp

lemma disk_write_frame:
  assumes "sets (cwd w) (above (object_at root key g h)) m" and "m w = (r, w')"
  shows "clock w \<le> clock w' \<and> (\<forall>p. source_safe root p \<longrightarrow> source_content w' p = source_content w p) \<and>
    (\<forall>h'. hash_ok h' \<longrightarrow> h' \<noteq> h \<longrightarrow> object_present root key g w' h' = object_present root key g w h' \<and>
      object_intact lib root key g w' h' = object_intact lib root key g w h')"
  using disk_frame [OF assms source_not_above, of root key g lib] object_not_above by simp

lemma stored_intact:
  assumes "lookup w (object_at root key g h) = Some (File raw)" and "stored_as lib key raw data"
    and "key = [] \<or> gcm_correct (lib_crypto lib)" and "h = content_hash (lib_crypto lib) data"
  shows "object_present root key g w h \<and> object_intact lib root key g w h"
proof -
  have "object_content lib key raw = Some data"
  proof (cases "key = []")
    case True
    with assms(2) show ?thesis by (simp add: stored_as_def object_content_def)
  next
    case False
    with assms(3) stored_content [OF _ assms(2)] show ?thesis by simp
  qed
  with assms(1,4) show ?thesis by (simp add: object_present_def object_intact_def)
qed

subsection \<open>The contract\<close>

interpretation disk: snapshot_store "DiskSourceRepository lib" "DiskObjectRepository lib root" cmp key g
    source_content "object_present root key g" "object_intact lib root key g" enc
    "content_hash (lib_crypto lib)" "source_safe root" hash_ok "disk_lawful lib root cmp key enc" "key = []"
  for lib root cmp key g enc
proof unfold_locales
  fix b assume "disk_lawful lib root cmp key enc"
  then show "hash_ok (content_hash (lib_crypto lib) b)"
    by (simp add: disk_lawful_def hash_ok_content)
next
  fix c p h b and w w' :: "'a os_world_scheme"
  assume l: "disk_lawful lib root cmp key enc" and run: "CalculateHash (DiskSourceRepository lib) c p cmp w = (Ok h, w')"
    and p: "source_safe root p" "source_content w p = Some b"
  from run have "disk_CalculateHash lib c p cmp w = (Ok h, w')" by (simp add: DiskSourceRepository_def)
  from CalculateHash_Ok [OF this] l p compresses_unique show "h = content_hash (lib_crypto lib) (enc b)"
    by (auto simp: source_content_Some disk_lawful_def)
next
  fix c p r and w w' :: "'a os_world_scheme"
  assume "CalculateHash (DiskSourceRepository lib) c p cmp w = (r, w')"
  then have run: "disk_CalculateHash lib c p cmp w = (r, w')" by (simp add: DiskSourceRepository_def)
  show "clock w \<le> clock w' \<and> (\<forall>p. source_safe root p \<longrightarrow> source_content w' p = source_content w p) \<and>
      (\<forall>h. hash_ok h \<longrightarrow> object_present root key g w' h = object_present root key g w h \<and>
        object_intact lib root key g w' h = object_intact lib root key g w h)"
    by (rule disk_read_frame [OF sets_disk_CalculateHash run])
next
  fix c p csz cs b and w w' :: "'a os_world_scheme"
  assume l: "disk_lawful lib root cmp key enc"
    and r: "CalculateChunks (DiskSourceRepository lib) c p csz cmp w = (Ok cs, w')"
    and p: "source_safe root p" "source_content w p = Some b" and small: "int (length b) + csz < 2 ^ 63"
  from r have run: "disk_CalculateChunks lib c p csz cmp w = (Ok cs, w')" by (simp add: DiskSourceRepository_def)
  have b: "lookup w (resolve w p) = Some (File b)" using p by (simp add: source_content_Some)
  note T = CalculateChunks_tiles [OF run b small]
  have "0 < csz" using run by (auto simp: disk_CalculateChunks_def ok_iffs split: if_splits)
  with tiles_content [of csz b 0 cs] T
  have "concat (map (\<lambda>ch. section_of (chunk_offset ch) (chunk_size ch) b) cs) = b" by simp
  moreover have "compresses lib cmp enc" using l by (simp add: disk_lawful_def)
  ultimately show "concat (map (\<lambda>ch. section_of (chunk_offset ch) (chunk_size ch) b) cs) = b \<and> (\<forall>ch \<in> set cs. chunk_hash ch =
      content_hash (lib_crypto lib) (enc (section_of (chunk_offset ch) (chunk_size ch) b)))"
    using T compresses_unique by blast
next
  fix c p csz q and w w' :: "'a os_world_scheme"
  assume "CalculateChunks (DiskSourceRepository lib) c p csz cmp w = (q, w')"
  then have run: "disk_CalculateChunks lib c p csz cmp w = (q, w')" by (simp add: DiskSourceRepository_def)
  show "clock w \<le> clock w' \<and> (\<forall>p. source_safe root p \<longrightarrow> source_content w' p = source_content w p) \<and>
      (\<forall>h. hash_ok h \<longrightarrow> object_present root key g w' h = object_present root key g w h \<and>
        object_intact lib root key g w' h = object_intact lib root key g w h)"
    by (rule disk_read_frame [OF sets_disk_CalculateChunks run])
next
  fix c h x and w w' :: "'a os_world_scheme"
  assume l: "disk_lawful lib root cmp key enc" and h: "hash_ok h"
    and "AlreadyExists (DiskObjectRepository lib root) c h key g w = (Ok x, w')"
  then have "disk_AlreadyExists root c h key g w = (Ok x, w')" by (simp add: DiskObjectRepository_def)
  from AlreadyExists_Ok [OF this _ h] l show "x = object_present root key g w h"
    by (simp add: disk_lawful_def object_present_def)
next
  fix c h y and w w' :: "'a os_world_scheme"
  assume "AlreadyExists (DiskObjectRepository lib root) c h key g w = (y, w')"
  then have run: "disk_AlreadyExists root c h key g w = (y, w')" by (simp add: DiskObjectRepository_def)
  show "clock w \<le> clock w' \<and> (\<forall>p. source_safe root p \<longrightarrow> source_content w' p = source_content w p) \<and>
      (\<forall>h. hash_ok h \<longrightarrow> object_present root key g w' h = object_present root key g w h \<and>
        object_intact lib root key g w' h = object_intact lib root key g w h)"
    by (rule disk_read_frame [OF sets_disk_AlreadyExists run])
next
  fix c p h off sz b and w w' :: "'a os_world_scheme"
  assume l: "disk_lawful lib root cmp key enc" and p: "source_safe root p" "source_content w p = Some b"
    and h: "hash_ok h" "h = content_hash (lib_crypto lib) (enc (section_of off sz b))"
    and "SaveChunk (DiskObjectRepository lib root) c p h off sz cmp key g w = (Ok (), w')"
  then have run: "disk_SaveChunk lib root c p h off sz cmp key g w = (Ok (), w')"
    by (simp add: DiskObjectRepository_def)
  have "is_rooted root" "compresses lib cmp enc" "key = [] \<or> gcm_correct (lib_crypto lib)"
    using l by (simp_all add: disk_lawful_def)
  note lawful = this
  from SaveChunk_stored [OF run lawful(1) h(1) source_not_object [OF p(1)]] p obtain enc' raw where
    s: "compresses lib cmp enc'" "lookup w' (object_at root key g h) = Some (File raw)"
      "stored_as lib key raw (enc' (section_of off sz b))"
    by (auto simp: source_content_Some)
  have "enc' = enc" by (rule compresses_unique [OF s(1) lawful(2)])
  with s lawful(3) h(2) show "object_present root key g w' h \<and> object_intact lib root key g w' h"
    by (intro stored_intact) simp_all
next
  fix c p h off sz u and w w' :: "'a os_world_scheme"
  assume l: "disk_lawful lib root cmp key enc" and h: "hash_ok h"
    and "SaveChunk (DiskObjectRepository lib root) c p h off sz cmp key g w = (u, w')"
  then have run: "disk_SaveChunk lib root c p h off sz cmp key g w = (u, w')"
    by (simp add: DiskObjectRepository_def)
  have "is_rooted root" using l by (simp add: disk_lawful_def)
  from disk_write_frame [OF sets_disk_SaveChunk [OF this h] run]
  show "clock w \<le> clock w' \<and> (\<forall>p. source_safe root p \<longrightarrow> source_content w' p = source_content w p) \<and>
      (\<forall>h'. hash_ok h' \<longrightarrow> h' \<noteq> h \<longrightarrow> object_present root key g w' h' = object_present root key g w h' \<and>
        object_intact lib root key g w' h' = object_intact lib root key g w h')" .
next
  fix c p h b and w w' :: "'a os_world_scheme"
  assume l: "disk_lawful lib root cmp key enc" and p: "source_safe root p" "source_content w p = Some b"
    and h: "hash_ok h" "h = content_hash (lib_crypto lib) (enc b)" and plain: "key = []"
    and old: "object_present root key g w h \<longrightarrow> object_intact lib root key g w h"
    and "SaveObject (DiskObjectRepository lib root) c p h cmp key g w = (Ok (), w')"
  then have run: "disk_Save lib root c p h cmp key g w = (Ok (), w')"
    by (simp add: DiskObjectRepository_def)
  have "is_rooted root" "compresses lib cmp enc" using l by (simp_all add: disk_lawful_def)
  note lawful = this
  from Save_stored [OF run lawful(1) h(1) source_not_object [OF p(1)]] p plain consider
    "lookup w (object_at root key g h) \<noteq> None" "lookup w' (object_at root key g h) = lookup w (object_at root key g h)"
    | enc' where "compresses lib cmp enc'" "lookup w' (object_at root key g h) = Some (File (enc' b))"
    by (auto simp: source_content_Some)
  then show "object_present root key g w' h \<and> object_intact lib root key g w' h"
  proof cases
    case 1
    with old show ?thesis by (simp add: object_present_def object_intact_def)
  next
    case 2
    moreover have "enc' = enc" by (rule compresses_unique [OF 2(1) lawful(2)])
    ultimately show ?thesis using h(2) plain by (intro stored_intact) (simp_all add: stored_as_def)
  qed
next
  fix c p h v and w w' :: "'a os_world_scheme"
  assume l: "disk_lawful lib root cmp key enc" and h: "hash_ok h"
    and "SaveObject (DiskObjectRepository lib root) c p h cmp key g w = (v, w')"
  then have run: "disk_Save lib root c p h cmp key g w = (v, w')"
    by (simp add: DiskObjectRepository_def)
  have "is_rooted root" using l by (simp add: disk_lawful_def)
  from disk_write_frame [OF sets_disk_Save [OF this h] run]
  show "clock w \<le> clock w' \<and> (\<forall>p. source_safe root p \<longrightarrow> source_content w' p = source_content w p) \<and>
      (\<forall>h'. hash_ok h' \<longrightarrow> h' \<noteq> h \<longrightarrow> object_present root key g w' h' = object_present root key g w h' \<and>
        object_intact lib root key g w' h' = object_intact lib root key g w h')" .
qed

end
