(* ===== verification/Disk_Properties.thy ===== *)
theory Disk_Properties
  imports Sample Disk_Restore_Facts Disk_Rekey_Facts Disk_Source_Facts Disk_Store_Facts
begin

section \<open>What the repository on disk guarantees\<close>

text \<open>
  The contracts of the single operations of the repositories on disk, one theorem each, with a run of
  the operation on a small world as its witness.
\<close>

lemma compresses_none: "compresses lib (Some no_compression) (\<lambda>b. b)"
  by (simp add: compresses_def no_compression_def GetHandler_def handlers_def none_Encode_def)

subsection \<open>Saving\<close>

text \<open>
  C8: a chunk that was saved is in the store, under its hash, as the compressed and, with a key,
  encrypted bytes of exactly its section of the source file; the section lies within the file.
\<close>

theorem SaveChunk_correct:
  assumes "disk_SaveChunk lib root ctx filePath h off sz cmp key g w = (Ok x, w')"
    and "is_rooted root" and "hash_ok h" and "resolve w filePath \<noteq> object_at root key g h"
  shows "\<exists>b enc raw. lookup w (resolve w filePath) = Some (File b) \<and>
    0 \<le> off \<and> 0 < sz \<and> off + sz \<le> int (length b) \<and> compresses lib cmp enc \<and>
    lookup w' (object_at root key g h) = Some (File raw) \<and> stored_as lib key raw (enc (section_of off sz b))"
proof -
  from SaveChunk_stored [OF assms] obtain b enc raw where
    b: "lookup w (resolve w filePath) = Some (File b)" "0 \<le> off" "0 < sz" "sz \<le> i64 (int (length b) - off)"
      "off \<le> int (length b)"
    and enc: "compresses lib cmp enc" "lookup w' (object_at root key g h) = Some (File raw)"
      "stored_as lib key raw (enc (section_of off sz b))" by blast
  from i64_le [of "int (length b) - off"] b have "off + sz \<le> int (length b)" by simp
  with b enc show ?thesis by blast
qed

definition toy_hash :: string where "toy_hash = content_hash toy_crypto [2, 3]"

theorem SaveChunk_correct_witness:
  "lookup (snd (disk_SaveChunk toy_lib ''/r'' background ''/s/a'' toy_hash 1 2 (Some no_compression) toy_key 5
     (toy_world two_dirs no_fault))) (object_at ''/r'' toy_key 5 toy_hash) \<noteq> None"
proof -
  let ?m = "disk_SaveChunk toy_lib ''/r'' background ''/s/a'' toy_hash 1 2 (Some no_compression) toy_key 5"
  let ?w = "toy_world two_dirs no_fault"
  have run: "?m ?w = (Ok (), snd (?m ?w))" by (rule run_eq) code_simp
  have "is_rooted ''/r''" "hash_ok toy_hash" "resolve ?w ''/s/a'' \<noteq> object_at ''/r'' toy_key 5 toy_hash"
    by code_simp+
  from SaveChunk_correct [OF run this] show ?thesis by auto
qed

text \<open>
  C19: saving a whole object keeps an object that is there already, as it is; without a key a new
  object is the compressed source file.
\<close>

theorem Save_correct:
  assumes "disk_Save lib root ctx filePath h cmp key g w = (Ok x, w')"
    and "is_rooted root" and "hash_ok h" and "resolve w filePath \<noteq> object_at root key g h"
  shows "lookup w (object_at root key g h) \<noteq> None \<and>
      lookup w' (object_at root key g h) = lookup w (object_at root key g h) \<or>
    lookup w (object_at root key g h) = None \<and> (key = [] \<longrightarrow>
      (\<exists>b enc. lookup w (resolve w filePath) = Some (File b) \<and> compresses lib cmp enc \<and>
         lookup w' (object_at root key g h) = Some (File (enc b))))"
  by (rule Save_stored [OF assms])

theorem Save_correct_witness:
  "lookup (snd (disk_Save toy_lib ''/r'' background ''/s/a'' toy_hash (Some no_compression) [] 0
     (toy_world two_dirs no_fault))) (object_at ''/r'' [] 0 toy_hash) \<noteq> None"
proof -
  let ?m = "disk_Save toy_lib ''/r'' background ''/s/a'' toy_hash (Some no_compression) [] 0"
  let ?w = "toy_world two_dirs no_fault"
  have run: "?m ?w = (Ok (), snd (?m ?w))" by (rule run_eq) code_simp
  have "is_rooted ''/r''" "hash_ok toy_hash" "resolve ?w ''/s/a'' \<noteq> object_at ''/r'' [] 0 toy_hash"
    by code_simp+
  from Save_correct [OF run this] show ?thesis by auto
qed

text \<open>
  C32: saving a chunk, whatever its outcome, changes nothing but the path of its object and the
  directories above it: no other object, no source, no manifest.
\<close>

theorem SaveChunk_frame:
  assumes "is_rooted root" and "hash_ok h" and "\<not> prefix q (object_at root key g h)"
  shows "lookup (snd (disk_SaveChunk lib root ctx filePath h off sz cmp key g w)) q = lookup w q"
  by (rule setsD(2) [OF sets_disk_SaveChunk [OF assms(1,2)] refl]) (use assms(3) in \<open>simp add: above_def\<close>)

theorem SaveChunk_frame_witness:
  "lookup (snd (disk_SaveChunk toy_lib ''/r'' background ''/s/a'' toy_hash 1 2 (Some no_compression) toy_key 5
     (toy_world two_dirs (fault_at 6 1)))) [''s'', ''a''] = Some (File [1, 2, 3])"
proof -
  have "is_rooted ''/r''" "hash_ok toy_hash" "\<not> prefix [''s'', ''a''] (object_at ''/r'' toy_key 5 toy_hash)"
    by code_simp+
  from SaveChunk_frame [OF this] have "lookup (snd (disk_SaveChunk toy_lib ''/r'' background ''/s/a'' toy_hash 1 2
      (Some no_compression) toy_key 5 (toy_world two_dirs (fault_at 6 1)))) [''s'', ''a''] =
    lookup (toy_world two_dirs (fault_at 6 1)) [''s'', ''a'']" .
  then show ?thesis by (simp add: lookup_def toy_world_def two_dirs_def)
qed

subsection \<open>Where the code leaves a damaged object\<close>

text \<open>
  When the write of a chunk breaks off, the cleanup removes the directory and not the file: the
  truncated object stays under its hash and is taken for the object from then on.
\<close>

theorem SaveChunk_partial:
  "\<exists>w :: os_world. fst (disk_SaveChunk toy_lib ''/r'' background ''/s/a'' toy_hash 1 2 (Some no_compression) [] 0 w)
      = Err (Wrapped ''write chunk'' ErrIO) \<and>
    lookup (snd (disk_SaveChunk toy_lib ''/r'' background ''/s/a'' toy_hash 1 2 (Some no_compression) [] 0 w))
      (object_at ''/r'' [] 0 toy_hash) = Some (File [2]) \<and>
    fst (disk_AlreadyExists ''/r'' background toy_hash [] 0
      (snd (disk_SaveChunk toy_lib ''/r'' background ''/s/a'' toy_hash 1 2 (Some no_compression) [] 0 w))) = Ok True"
proof (intro exI conjI)
  let ?w = "toy_world two_dirs (fault_at 7 1)"
  show "fst (disk_SaveChunk toy_lib ''/r'' background ''/s/a'' toy_hash 1 2 (Some no_compression) [] 0 ?w)
      = Err (Wrapped ''write chunk'' ErrIO)" by code_simp
  show "lookup (snd (disk_SaveChunk toy_lib ''/r'' background ''/s/a'' toy_hash 1 2 (Some no_compression) [] 0 ?w))
      (object_at ''/r'' [] 0 toy_hash) = Some (File [2])" by code_simp
  show "fst (disk_AlreadyExists ''/r'' background toy_hash [] 0
      (snd (disk_SaveChunk toy_lib ''/r'' background ''/s/a'' toy_hash 1 2 (Some no_compression) [] 0 ?w))) = Ok True"
    by code_simp
qed


text \<open>
  \<^verbatim>\<open>Save\<close> drops the error of closing the encryption: it reports success although
  nothing was written, and the empty object is taken for the object from then on.
\<close>

theorem Save_drops_encryption_error:
  "\<exists>w :: os_world. fst (disk_Save toy_lib ''/r'' background ''/s/a'' toy_hash (Some no_compression) toy_key 5 w) = Ok () \<and>
    lookup (snd (disk_Save toy_lib ''/r'' background ''/s/a'' toy_hash (Some no_compression) toy_key 5 w))
      (object_at ''/r'' toy_key 5 toy_hash) = Some (File []) \<and>
    fst (disk_AlreadyExists ''/r'' background toy_hash toy_key 5
      (snd (disk_Save toy_lib ''/r'' background ''/s/a'' toy_hash (Some no_compression) toy_key 5 w))) = Ok True"
proof (intro exI conjI)
  let ?w = "toy_world two_dirs (fault_at 6 0)"
  show "fst (disk_Save toy_lib ''/r'' background ''/s/a'' toy_hash (Some no_compression) toy_key 5 ?w) = Ok ()"
    by code_simp
  show "lookup (snd (disk_Save toy_lib ''/r'' background ''/s/a'' toy_hash (Some no_compression) toy_key 5 ?w))
      (object_at ''/r'' toy_key 5 toy_hash) = Some (File [])" by code_simp
  show "fst (disk_AlreadyExists ''/r'' background toy_hash toy_key 5
      (snd (disk_Save toy_lib ''/r'' background ''/s/a'' toy_hash (Some no_compression) toy_key 5 ?w))) = Ok True"
    by code_simp
qed

subsection \<open>Reading and restoring\<close>

definition stored_world :: os_world where
  "stored_world = toy_world ((object_at ''/r'' [] 0 toy_hash, File [2, 3]) # two_dirs) no_fault"

definition toy_file :: SnapFile where
  "toy_file = \<lparr>file_path = ''/s/b'', file_size = 2, file_hash = toy_hash, file_chunks = []\<rparr>"

text \<open>
  C9: a file that was restored is the concatenation, in the order of its chunks, of what its objects
  hold, decrypted and decompressed, and has the size the manifest says.
\<close>

theorem RestoreObject_correct:
  assumes "disk_RestoreObject lib root ctx cmp f key g w = (Ok x, w')" and "is_rooted root"
    and "objectHashes f = Ok hs"
    and "list_all (\<lambda>h. hash_ok h \<and> object_at root key g h \<noteq> resolve w (file_path f)) hs"
  shows "\<exists>co outs. cmp = Some co \<and> list_all2 (holds_part lib root co key g w) hs outs \<and>
    lookup w' (resolve w (file_path f)) = Some (File (concat outs)) \<and>
    i64 (file_size f) = i64 (int (length (concat outs)))"
  by (rule RestoreObject_content [OF assms(1-3)]) (use assms(4) in \<open>simp add: list_all_iff\<close>)

theorem RestoreObject_correct_witness:
  "\<exists>outs. lookup (snd (disk_RestoreObject toy_lib ''/r'' background (Some no_compression) toy_file [] 0 stored_world))
     [''s'', ''b''] = Some (File (concat outs))"
proof -
  let ?m = "disk_RestoreObject toy_lib ''/r'' background (Some no_compression) toy_file [] 0"
  have run: "?m stored_world = (Ok (), snd (?m stored_world))" by (rule run_eq) code_simp
  have r: "is_rooted ''/r''" and hs: "objectHashes toy_file = Ok [toy_hash]"
    and ok: "list_all (\<lambda>h. hash_ok h \<and> object_at ''/r'' [] 0 h \<noteq> resolve stored_world (file_path toy_file)) [toy_hash]"
    and p: "resolve stored_world (file_path toy_file) = [''s'', ''b'']"
    by code_simp+
  from RestoreObject_correct [OF run r hs ok] show ?thesis unfolding p by blast
qed

text \<open>
  C33: a restore that failed leaves no partial file behind: a file that is at the destination afterwards
  was there before, or its removal failed.
\<close>

theorem RestoreObject_failed:
  assumes "disk_RestoreObject lib root ctx cmp f key g w = (Err e, w')"
    and "lookup w' (resolve w (file_path f)) = Some (File b)"
  shows "lookup w (resolve w (file_path f)) = Some (File b) \<or>
    (\<exists>w1 e'. os_Remove (file_path f) w1 = (Err e', w'))"
  by (rule RestoreObject_cleanup [OF assms])

definition kept_world :: os_world where
  "kept_world = toy_world (([''s'', ''b''], File [9]) # two_dirs) no_fault"

theorem RestoreObject_failed_witness:
  "lookup kept_world [''s'', ''b''] = Some (File [9]) \<or>
   (\<exists>w1 e'. os_Remove ''/s/b'' w1 =
      (Err e', snd (disk_RestoreObject toy_lib ''/r'' background None toy_file [] 0 kept_world)))"
proof -
  let ?m = "disk_RestoreObject toy_lib ''/r'' background None toy_file [] 0"
  have run: "?m kept_world = (Err (ErrText ''compression configuration is required''), snd (?m kept_world))"
    by (rule run_eq) code_simp
  have p: "resolve kept_world ''/s/b'' = [''s'', ''b'']" and fp: "file_path toy_file = ''/s/b''"
    and l: "lookup (snd (?m kept_world)) (resolve kept_world (file_path toy_file)) = Some (File [9])"
    by code_simp+
  from RestoreObject_failed [OF run l] show ?thesis unfolding fp p .
qed

text \<open>
  C20: the reader of an object yields what the object holds, decrypted with the key; an object that the
  repository reports as missing is missing.
\<close>

theorem ReadObject_correct:
  assumes "is_rooted root" and "hash_ok h"
  shows "(case disk_ReadObject lib root ctx h key g w of
      (Ok rc, w') \<Rightarrow>
        (\<forall>ctx' w1 got w2. rc_Read rc ctx' w1 = ((got, None), w2) \<longrightarrow>
           lookup w1 (object_at root key g h) = lookup w (object_at root key g h) \<longrightarrow>
           (\<exists>raw. lookup w (object_at root key g h) = Some (File raw) \<and> object_content lib key raw = Some got))
    | (Err e, w') \<Rightarrow> errors_As_SnapshotNotFound e \<longrightarrow> lookup w (object_at root key g h) = None
    | (Panic s, w') \<Rightarrow> False)"
proof -
  obtain r w' where run: "disk_ReadObject lib root ctx h key g w = (r, w')" by force
  show ?thesis
  proof (cases r)
    case (Ok rc)
    with run ReadObject_content [OF run [unfolded Ok] assms] show ?thesis by simp
  next
    case (Err e)
    with run ReadObject_missing [OF run [unfolded Err] assms] show ?thesis by simp
  next
    case (Panic s)
    with run ReadObject_no_panic [OF assms] show ?thesis by metis
  qed
qed

theorem ReadObject_correct_witness:
  "lookup (toy_world two_dirs no_fault) (object_at ''/r'' [] 0 toy_hash) = None"
proof -
  let ?m = "disk_ReadObject toy_lib ''/r'' background toy_hash [] 0"
  let ?w = "toy_world two_dirs no_fault"
  have a: "is_rooted ''/r''" "hash_ok toy_hash" by code_simp+
  have "case fst (?m ?w) of Err e \<Rightarrow> errors_As_SnapshotNotFound e | _ \<Rightarrow> False" by code_simp
  then obtain e w' where e: "?m ?w = (Err e, w')" "errors_As_SnapshotNotFound e"
    by (cases "?m ?w") (auto split: outcome.splits)
  from ReadObject_correct [OF a, where lib = toy_lib and ctx = background and key = "[]" and g = 0 and w = ?w] e show ?thesis by simp
qed

end
