(* ===== verification/Verify.thy ===== *)
theory Verify
  imports Create
begin

section \<open>Verifying a snapshot\<close>

text \<open>
  \<^verbatim>\<open>internal/domain/snapshot/verifier.go\<close> as a step relation, like the creation of a
  snapshot: a feeder hands the files of the manifest to workers; opening an object, reading it to the end
  and closing it are one step each. What a worker found is added to the result under the mutex, as
  part of the step that found it.
\<close>

subsection \<open>State\<close>

text \<open>
  A worker is on the object number \<open>k\<close> of the file number \<open>i\<close>: about to open it, about to read
  it, or about to close it with what was read and the error that stopped the reading.
\<close>

datatype 'z verifier =
    Waiting
  | Opening nat nat
  | Copying nat nat "'z ReadCloser"
  | Closing nat nat "'z ReadCloser" bytes "error option"
  | Left

record 'z verify_state =
  vs_world :: "'z os_world_scheme"
  vs_next :: nat
  vs_feeding :: bool
  vs_firstErr :: "error option"
  vs_result :: Result
  vs_workers :: "'z verifier list"

record 'z verify_env =
  ve_objects :: "'z ObjectRepository"
  ve_crypto :: crypto
  ve_ctx :: ctx
  ve_files :: "SnapFile list"
  ve_key :: bytes
  ve_generation :: uint64

text \<open>The hashes \<^verbatim>\<open>verifyFile\<close> goes through.\<close>

definition verify_hashes :: "SnapFile \<Rightarrow> string list" where
  "verify_hashes f = (if file_chunks f = [] then [file_hash f] else map chunk_hash (file_chunks f))"

definition object_of :: "'z verify_env \<Rightarrow> nat \<Rightarrow> nat \<Rightarrow> string" where
  "object_of e i k = verify_hashes (ve_files e ! i) ! k"

text \<open>The reason as it is reported: for a chunk its number goes first.\<close>

definition part_reason :: "SnapFile \<Rightarrow> nat \<Rightarrow> string \<Rightarrow> string" where
  "part_reason f k r =
     (if file_chunks f = [] then r
      else ''chunk '' @ show_nat (k + 1) @ ''/'' @ show_nat (length (file_chunks f)) @ '': '' @ r)"

definition empty_reason :: string where "empty_reason = ''object hash is empty''"

definition mismatch_reason :: "string \<Rightarrow> string \<Rightarrow> string" where
  "mismatch_reason expected calculated =
     ''hash mismatch: expected '' @ expected @ '', calculated '' @ calculated"

subsection \<open>Moves\<close>

definition v_move :: "nat \<Rightarrow> 'z verifier \<Rightarrow> 'z os_world_scheme \<Rightarrow> 'z verify_state \<Rightarrow> 'z verify_state" where
  "v_move k p w s = s\<lparr>vs_workers := (vs_workers s)[k := p], vs_world := w\<rparr>"

definition v_error :: "nat \<Rightarrow> error \<Rightarrow> 'z os_world_scheme \<Rightarrow> 'z verify_state \<Rightarrow> 'z verify_state" where
  "v_error k er w s = (v_move k Waiting w s)\<lparr>vs_firstErr := record_error er (vs_firstErr s)\<rparr>"

text \<open>A reason that is empty would count as a success; none is.\<close>

definition v_failed ::
  "'z verify_env \<Rightarrow> nat \<Rightarrow> nat \<Rightarrow> nat \<Rightarrow> string \<Rightarrow> 'z os_world_scheme \<Rightarrow> 'z verify_state \<Rightarrow> 'z verify_state" where
  "v_failed e k i n why w s =
     (v_move k Waiting w s)\<lparr>vs_result := AddFailed
        \<lparr>failed_path = file_path (ve_files e ! i), reason = part_reason (ve_files e ! i) n why\<rparr> (vs_result s)\<rparr>"

text \<open>An object that was all right: the next one of the file, or the file is done.\<close>

definition v_passed ::
  "'z verify_env \<Rightarrow> nat \<Rightarrow> nat \<Rightarrow> nat \<Rightarrow> 'z os_world_scheme \<Rightarrow> 'z verify_state \<Rightarrow> 'z verify_state" where
  "v_passed e k i n w s =
     (if Suc n < length (verify_hashes (ve_files e ! i)) then v_move k (Opening i (Suc n)) w s
      else (v_move k Waiting w s)\<lparr>vs_result := AddSuccess (vs_result s)\<rparr>)"

text \<open>
  What follows the closing: a read error goes before a close error, and both before the comparison
  of the hashes.
\<close>

definition v_closed ::
  "'z verify_env \<Rightarrow> nat \<Rightarrow> nat \<Rightarrow> nat \<Rightarrow> bytes \<Rightarrow> error option \<Rightarrow> error option \<Rightarrow> 'z os_world_scheme \<Rightarrow>
   'z verify_state \<Rightarrow> 'z verify_state" where
  "v_closed e k i n got copyErr closeErr w s =
     (case copyErr of
        Some er \<Rightarrow> v_error k (Wrapped ''read object'' er) w s
      | None \<Rightarrow>
          (case closeErr of
             Some er \<Rightarrow> v_error k (Wrapped ''close object'' er) w s
           | None \<Rightarrow>
               (if content_hash (ve_crypto e) got \<noteq> object_of e i n then
                  v_failed e k i n (mismatch_reason (object_of e i n) (content_hash (ve_crypto e) got)) w s
                else v_passed e k i n w s)))"

text \<open>The derived context of a call.\<close>

definition v_busy :: "'z verifier \<Rightarrow> bool" where
  "v_busy p \<longleftrightarrow> (case p of Waiting \<Rightarrow> False | Left \<Rightarrow> False | _ \<Rightarrow> True)"

definition v_ctx :: "'z verify_env \<Rightarrow> 'z verify_state \<Rightarrow> nat \<Rightarrow> ctx \<Rightarrow> bool" where
  "v_ctx e s k c \<longleftrightarrow>
     (\<forall>t. ve_ctx e t \<longrightarrow> c t) \<and>
     (vs_firstErr s \<noteq> None \<longrightarrow> (\<forall>t \<ge> clock (vs_world s). c t)) \<and>
     (c = ve_ctx e \<or> vs_firstErr s \<noteq> None \<or> (\<exists>j < length (vs_workers s). j \<noteq> k \<and> v_busy (vs_workers s ! j)))"

subsection \<open>The steps\<close>

inductive verify_step :: "'z verify_env \<Rightarrow> 'z verify_state \<Rightarrow> 'z verify_state \<Rightarrow> bool" for e where
  v_feed: "vs_feeding s \<Longrightarrow> vs_next s < length (ve_files e) \<Longrightarrow> k < length (vs_workers s) \<Longrightarrow>
    vs_workers s ! k = Waiting \<Longrightarrow>
    verify_step e s ((v_move k (Opening (vs_next s) 0) (vs_world s) s)\<lparr>vs_next := Suc (vs_next s)\<rparr>)"
| v_feed_end: "vs_feeding s \<Longrightarrow> vs_next s = length (ve_files e) \<Longrightarrow> verify_step e s (s\<lparr>vs_feeding := False\<rparr>)"
| v_feed_break: "vs_feeding s \<Longrightarrow> ve_ctx e (clock (vs_world s)) \<or> vs_firstErr s \<noteq> None \<Longrightarrow>
    verify_step e s (s\<lparr>vs_feeding := False\<rparr>)"
| v_leave: "\<not> vs_feeding s \<Longrightarrow> k < length (vs_workers s) \<Longrightarrow> vs_workers s ! k = Waiting \<Longrightarrow>
    verify_step e s (v_move k Left (vs_world s) s)"
| v_empty: "k < length (vs_workers s) \<Longrightarrow> vs_workers s ! k = Opening i n \<Longrightarrow> object_of e i n = [] \<Longrightarrow>
    verify_step e s (v_failed e k i n empty_reason (vs_world s) s)"
| v_open: "k < length (vs_workers s) \<Longrightarrow> vs_workers s ! k = Opening i n \<Longrightarrow> object_of e i n \<noteq> [] \<Longrightarrow>
    v_ctx e s k c \<Longrightarrow>
    ReadObject (ve_objects e) c (object_of e i n) (ve_key e) (ve_generation e) (vs_world s) = (Ok rc, w) \<Longrightarrow>
    verify_step e s (v_move k (Copying i n rc) w s)"
| v_missing: "k < length (vs_workers s) \<Longrightarrow> vs_workers s ! k = Opening i n \<Longrightarrow> object_of e i n \<noteq> [] \<Longrightarrow>
    v_ctx e s k c \<Longrightarrow>
    ReadObject (ve_objects e) c (object_of e i n) (ve_key e) (ve_generation e) (vs_world s) = (Err er, w) \<Longrightarrow>
    errors_As_SnapshotNotFound er \<Longrightarrow>
    verify_step e s (v_failed e k i n (error_string er) w s)"
| v_open_error: "k < length (vs_workers s) \<Longrightarrow> vs_workers s ! k = Opening i n \<Longrightarrow> object_of e i n \<noteq> [] \<Longrightarrow>
    v_ctx e s k c \<Longrightarrow>
    ReadObject (ve_objects e) c (object_of e i n) (ve_key e) (ve_generation e) (vs_world s) = (Err er, w) \<Longrightarrow>
    \<not> errors_As_SnapshotNotFound er \<Longrightarrow>
    verify_step e s (v_error k er w s)"
| v_copy: "k < length (vs_workers s) \<Longrightarrow> vs_workers s ! k = Copying i n rc \<Longrightarrow> v_ctx e s k c \<Longrightarrow>
    rc_Read rc c (vs_world s) = ((got, copyErr), w) \<Longrightarrow>
    verify_step e s (v_move k (Closing i n rc got copyErr) w s)"
| v_close: "k < length (vs_workers s) \<Longrightarrow> vs_workers s ! k = Closing i n rc got copyErr \<Longrightarrow>
    rc_Close rc (vs_world s) = (Ok (), w) \<Longrightarrow>
    verify_step e s (v_closed e k i n got copyErr None w s)"
| v_close_error: "k < length (vs_workers s) \<Longrightarrow> vs_workers s ! k = Closing i n rc got copyErr \<Longrightarrow>
    rc_Close rc (vs_world s) = (Err er, w) \<Longrightarrow>
    verify_step e s (v_closed e k i n got copyErr (Some er) w s)"

definition all_left :: "'z verify_state \<Rightarrow> bool" where
  "all_left s \<longleftrightarrow> \<not> vs_feeding s \<and> list_all (\<lambda>p. case p of Left \<Rightarrow> True | _ \<Rightarrow> False) (vs_workers s)"

subsection \<open>The command\<close>

record 'z verify_service =
  vsv_objects :: "'z ObjectRepository"
  vsv_manifests :: "'z ManifestRepository"
  vsv_folder :: "'z FolderRepository"
  vsv_decrypt :: "'z DecryptSymmetricKey"
  vsv_workers :: int
  vsv_default :: nat
  vsv_crypto :: crypto

definition verify_prepare ::
  "'z verify_service \<Rightarrow> ctx \<Rightarrow> string \<Rightarrow> string \<Rightarrow> string option \<Rightarrow> ('z, EncryptionData option \<times> Manifest) os" where
  "verify_prepare sv ctx repositoryPath snapshot privateKeyPath =
     andThen (SymmetricKeyHandler_Handle (vsv_folder sv) (vsv_decrypt sv) ctx privateKeyPath repositoryPath) (\<lambda>d.
     andThen (GetManifest (vsv_manifests sv) ctx snapshot) (\<lambda>man. return (d, man)))"

definition verify_env_of :: "'z verify_service \<Rightarrow> ctx \<Rightarrow> EncryptionData option \<Rightarrow> Manifest \<Rightarrow> 'z verify_env" where
  "verify_env_of sv ctx d man =
     \<lparr>ve_objects = vsv_objects sv, ve_crypto = vsv_crypto sv, ve_ctx = ctx, ve_files = man_files man,
      ve_key = key_of d, ve_generation = generation_of d\<rparr>"

definition verify_init :: "'z verify_service \<Rightarrow> string \<Rightarrow> Manifest \<Rightarrow> 'z os_world_scheme \<Rightarrow> 'z verify_state" where
  "verify_init sv snapshot man w =
     \<lparr>vs_world = w, vs_next = 0, vs_feeding = True, vs_firstErr = None, vs_result = NewResult snapshot,
      vs_workers = replicate (worker_count (vsv_workers sv) (vsv_default sv) (length (man_files man))) Waiting\<rparr>"

inductive Verify_Do ::
  "'z verify_service \<Rightarrow> ctx \<Rightarrow> string \<Rightarrow> string \<Rightarrow> string option \<Rightarrow> 'z os_world_scheme \<Rightarrow>
   Result outcome \<Rightarrow> 'z os_world_scheme \<Rightarrow> bool"
  for sv ctx repositoryPath snapshot privateKeyPath w where
  v_unprepared: "verify_prepare sv ctx repositoryPath snapshot privateKeyPath w = (Err er, w') \<Longrightarrow>
    Verify_Do sv ctx repositoryPath snapshot privateKeyPath w (Err er) w'"
| v_stopped: "verify_prepare sv ctx repositoryPath snapshot privateKeyPath w = (Ok (d, man), w1) \<Longrightarrow>
    (verify_step (verify_env_of sv ctx d man))\<^sup>*\<^sup>* (verify_init sv snapshot man w1) s \<Longrightarrow> all_left s \<Longrightarrow>
    vs_firstErr s = Some er \<Longrightarrow>
    Verify_Do sv ctx repositoryPath snapshot privateKeyPath w (Err er) (vs_world s)"
| v_completed: "verify_prepare sv ctx repositoryPath snapshot privateKeyPath w = (Ok (d, man), w1) \<Longrightarrow>
    (verify_step (verify_env_of sv ctx d man))\<^sup>*\<^sup>* (verify_init sv snapshot man w1) s \<Longrightarrow> all_left s \<Longrightarrow>
    vs_firstErr s = None \<Longrightarrow>
    Verify_Do sv ctx repositoryPath snapshot privateKeyPath w (Ok (vs_result s)) (vs_world s)"

inductive_cases Verify_Do_OkE: "Verify_Do sv ctx repositoryPath snapshot privateKeyPath w (Ok r) w'"

end
