(* ===== verification/Verify_Facts.thy ===== *)
theory Verify_Facts
  imports Verify "HOL-Library.Multiset"
begin

section \<open>Verification finds what is wrong, and only that\<close>

text \<open>
  What a run of the verification reports is compared with a sequential reference: the first thing
  wrong with each file, for a store given as a function from hashes to contents. The contract with the
  object repository is the locale \<open>object_reader\<close>. Under it a run without error reports, up to
  the order of the files, exactly the reference, for every schedule of the workers.
\<close>

subsection \<open>The reference\<close>

definition object_reason :: "crypto \<Rightarrow> (string \<Rightarrow> bytes option) \<Rightarrow> string \<Rightarrow> string option" where
  "object_reason c content h =
     (if h = [] then Some empty_reason
      else (case content h of
        None \<Rightarrow> Some (''not found: '' @ h)
      | Some got \<Rightarrow> (if content_hash c got \<noteq> h then Some (mismatch_reason h (content_hash c got)) else None)))"

fun parts_reason ::
  "crypto \<Rightarrow> (string \<Rightarrow> bytes option) \<Rightarrow> SnapFile \<Rightarrow> nat \<Rightarrow> string list \<Rightarrow> string option" where
  "parts_reason c content f n [] = None"
| "parts_reason c content f n (h # hs) =
     (case object_reason c content h of
        Some r \<Rightarrow> Some (part_reason f n r)
      | None \<Rightarrow> parts_reason c content f (Suc n) hs)"

definition file_failure :: "crypto \<Rightarrow> (string \<Rightarrow> bytes option) \<Rightarrow> SnapFile \<Rightarrow> FailedResult list" where
  "file_failure c content f =
     (case parts_reason c content f 0 (verify_hashes f) of
        None \<Rightarrow> []
      | Some r \<Rightarrow> [\<lparr>failed_path = file_path f, reason = r\<rparr>])"

definition verify_reference :: "crypto \<Rightarrow> (string \<Rightarrow> bytes option) \<Rightarrow> SnapFile list \<Rightarrow> FailedResult list" where
  "verify_reference c content fs = concat (map (file_failure c content) fs)"

lemma verify_hashes_nonempty [simp]: "verify_hashes f \<noteq> []"
  by (simp add: verify_hashes_def)

lemma parts_reason_at:
  assumes "\<forall>j < k. object_reason c content (hs ! j) = None" and "k < length hs"
    and "object_reason c content (hs ! k) = Some r"
  shows "parts_reason c content f n hs = Some (part_reason f (n + k) r)"
  using assms
proof (induction hs arbitrary: n k)
  case (Cons h hs)
  show ?case
  proof (cases k)
    case (Suc k')
    with Cons.prems have "object_reason c content h = None" by auto
    moreover have "\<forall>j < k'. object_reason c content (hs ! j) = None" using Cons.prems(1) Suc by auto
    ultimately show ?thesis using Cons.IH [of k' "Suc n"] Cons.prems(2,3) Suc by simp
  qed (use Cons.prems in simp)
qed simp

lemma parts_reason_none:
  "(\<forall>j < length hs. object_reason c content (hs ! j) = None) \<Longrightarrow> parts_reason c content f n hs = None"
proof (induction hs arbitrary: n)
  case (Cons h hs)
  from Cons.prems have "object_reason c content h = None" by auto
  moreover have "\<forall>j < length hs. object_reason c content (hs ! j) = None" using Cons.prems by auto
  ultimately show ?case using Cons.IH by simp
qed simp

text \<open>A file without failure has all its objects, each with the content its hash names.\<close>

lemma parts_reason_Some:
  "parts_reason c content f n hs = None \<Longrightarrow> h \<in> set hs \<Longrightarrow>
   \<exists>got. content h = Some got \<and> content_hash c got = h"
  by (induction hs arbitrary: n) (auto simp: object_reason_def split: option.splits if_splits)

lemma verify_reference_empty:
  assumes "verify_reference c content fs = []" and "f \<in> set fs" and "h \<in> set (verify_hashes f)"
  shows "\<exists>got. content h = Some got \<and> content_hash c got = h"
proof -
  from assms(1,2) have "parts_reason c content f 0 (verify_hashes f) = None"
    by (auto simp: verify_reference_def file_failure_def split: option.splits)
  from parts_reason_Some [OF this assms(3)] show ?thesis .
qed

subsection \<open>Bookkeeping\<close>

fun on_file :: "'z verifier \<Rightarrow> nat multiset" where
  "on_file (Opening i n) = {#i#}"
| "on_file (Copying i n rc) = {#i#}"
| "on_file (Closing i n rc got er) = {#i#}"
| "on_file Waiting = {#}"
| "on_file Left = {#}"

definition pending :: "'z verifier list \<Rightarrow> nat multiset" where
  "pending ws = sum_list (map on_file ws)"

lemma pending_update:
  "k < length ws \<Longrightarrow> pending (ws[k := p]) + on_file (ws ! k) = pending ws + on_file p"
proof (induction ws arbitrary: k)
  case (Cons a ws)
  then show ?case by (cases k) (auto simp: pending_def ac_simps)
qed simp

lemma pending_same: "k < length ws \<Longrightarrow> on_file p = on_file (ws ! k) \<Longrightarrow> pending (ws[k := p]) = pending ws"
  using pending_update [of k ws p] by simp

lemma pending_done:
  "k < length ws \<Longrightarrow> on_file (ws ! k) = {#i#} \<Longrightarrow> on_file p = {#} \<Longrightarrow>
   add_mset i (pending (ws[k := p])) = pending ws"
  using pending_update [of k ws p] by simp

lemma pending_start:
  "k < length ws \<Longrightarrow> on_file (ws ! k) = {#} \<Longrightarrow> on_file p = {#i#} \<Longrightarrow>
   pending (ws[k := p]) = add_mset i (pending ws)"
  using pending_update [of k ws p] by simp

lemma pending_all_left: "list_all (\<lambda>p. case p of Left \<Rightarrow> True | _ \<Rightarrow> False) ws \<Longrightarrow> pending ws = {#}"
  by (induction ws) (auto simp: pending_def split: verifier.splits)

lemma pending_idle: "pending (replicate n Waiting) = {#}"
  by (induction n) (simp_all add: pending_def)

lemma mset_concat_map: "mset xs = mset ys \<Longrightarrow> mset (concat (map f xs)) = mset (concat (map f ys))"
proof -
  have *: "mset (concat (map f zs)) = sum_mset (image_mset (\<lambda>x. mset (f x)) (mset zs))" for zs
    by (induction zs) simp_all
  show "mset xs = mset ys \<Longrightarrow> ?thesis" by (simp add: *)
qed

subsection \<open>The contract\<close>

locale object_reader =
  fixes orp :: "'z ObjectRepository" and key :: bytes and g :: uint64
    and content :: "'z os_world_scheme \<Rightarrow> string \<Rightarrow> bytes option"
    and untouched :: "'z os_world_scheme \<Rightarrow> 'z os_world_scheme \<Rightarrow> bool"
    and valid :: "string \<Rightarrow> bool" and lawful :: bool
  assumes untouched_refl: "untouched w w"
    and untouched_trans: "untouched w w1 \<Longrightarrow> untouched w1 w2 \<Longrightarrow> untouched w w2"
    and untouched_content: "untouched w w' \<Longrightarrow> content w' h = content w h"
    and untouched_clock: "untouched w w' \<Longrightarrow> clock w \<le> clock w'"
    and read_frame: "ReadObject orp c h key g w = (r, w') \<Longrightarrow> untouched w w'"
    and reader_frame: "ReadObject orp c h key g w = (Ok rc, w1) \<Longrightarrow> rc_Read rc c' w2 = (z, w3) \<Longrightarrow> untouched w2 w3"
    and close_frame: "ReadObject orp c h key g w = (Ok rc, w1) \<Longrightarrow> rc_Close rc w2 = (u, w3) \<Longrightarrow> untouched w2 w3"
    and read_content: "lawful \<Longrightarrow> ReadObject orp c h key g w = (Ok rc, w1) \<Longrightarrow> valid h \<Longrightarrow> untouched w w2 \<Longrightarrow>
      rc_Read rc c' w2 = ((got, None), w3) \<Longrightarrow> content w h = Some got"
    and read_missing: "lawful \<Longrightarrow> ReadObject orp c h key g w = (Err er, w1) \<Longrightarrow> valid h \<Longrightarrow>
      errors_As_SnapshotNotFound er \<Longrightarrow> content w h = None \<and> error_string er = ''not found: '' @ h"
begin

text \<open>A reader of the object \<open>h\<close>, opened since the state \<open>w0\<close>.\<close>

definition reads :: "'z os_world_scheme \<Rightarrow> 'z ReadCloser \<Rightarrow> string \<Rightarrow> 'z os_world_scheme \<Rightarrow> bool" where
  "reads w0 rc h w \<longleftrightarrow> (\<exists>c w1 w2. ReadObject orp c h key g w1 = (Ok rc, w2) \<and> untouched w0 w1 \<and> untouched w1 w)"

lemma reads_later: "reads w0 rc h w \<Longrightarrow> untouched w w' \<Longrightarrow> reads w0 rc h w'"
  unfolding reads_def using untouched_trans by blast

lemma reads_open: "ReadObject orp c h key g w = (Ok rc, w') \<Longrightarrow> untouched w0 w \<Longrightarrow> reads w0 rc h w'"
  unfolding reads_def using read_frame by blast

lemma reads_frame: "reads w0 rc h w \<Longrightarrow> rc_Read rc c w = (z, w') \<Longrightarrow> untouched w w'"
  and reads_close: "reads w0 rc h w \<Longrightarrow> rc_Close rc w = (u, w') \<Longrightarrow> untouched w w'"
  unfolding reads_def using reader_frame close_frame by blast+

lemma reads_content:
  "lawful \<Longrightarrow> reads w0 rc h w \<Longrightarrow> valid h \<Longrightarrow> rc_Read rc c w = ((got, None), w') \<Longrightarrow> content w0 h = Some got"
  unfolding reads_def by (auto dest: read_content simp: untouched_content)

definition opened :: "'z verify_env \<Rightarrow> 'z os_world_scheme \<Rightarrow> nat \<Rightarrow> nat \<Rightarrow> nat \<Rightarrow> bool" where
  "opened e w0 m i n \<longleftrightarrow> i < m \<and> n < length (verify_hashes (ve_files e ! i)) \<and>
     (\<forall>j < n. object_reason (ve_crypto e) (content w0) (object_of e i j) = None)"

fun on_track :: "'z verify_env \<Rightarrow> 'z os_world_scheme \<Rightarrow> 'z os_world_scheme \<Rightarrow> nat \<Rightarrow> 'z verifier \<Rightarrow> bool" where
  "on_track e w0 w m (Opening i n) \<longleftrightarrow> opened e w0 m i n"
| "on_track e w0 w m (Copying i n rc) \<longleftrightarrow> opened e w0 m i n \<and> object_of e i n \<noteq> [] \<and> reads w0 rc (object_of e i n) w"
| "on_track e w0 w m (Closing i n rc got er) \<longleftrightarrow> opened e w0 m i n \<and> object_of e i n \<noteq> [] \<and>
     reads w0 rc (object_of e i n) w \<and> (er = None \<longrightarrow> content w0 (object_of e i n) = Some got)"
| "on_track e w0 w m Waiting \<longleftrightarrow> True"
| "on_track e w0 w m Left \<longleftrightarrow> True"

lemma on_track_later: "on_track e w0 w m p \<Longrightarrow> untouched w w' \<Longrightarrow> m \<le> m' \<Longrightarrow> on_track e w0 w' m' p"
  by (cases p) (auto simp: opened_def reads_later)

text \<open>The files done, in the order in which they were, and what the result says of them.\<close>

definition booked :: "'z verify_env \<Rightarrow> 'z os_world_scheme \<Rightarrow> nat \<Rightarrow> 'z verifier list \<Rightarrow> Result \<Rightarrow> bool" where
  "booked e w0 m ws r \<longleftrightarrow>
     (\<exists>ds. mset ds + pending ws = mset [0..<m] \<and> totalFiles r = int (length ds) \<and>
        failed r = concat (map (\<lambda>i. file_failure (ve_crypto e) (content w0) (ve_files e ! i)) ds))"

lemma booked_same: "booked e w0 m ws r \<Longrightarrow> pending ws' = pending ws \<Longrightarrow> booked e w0 m ws' r"
  by (simp add: booked_def)

lemma booked_feed:
  assumes "booked e w0 m ws r" and "pending ws' = add_mset m (pending ws)"
  shows "booked e w0 (Suc m) ws' r"
  using assms by (auto simp: booked_def)

lemma booked_done:
  assumes "booked e w0 m ws r" and "add_mset i (pending ws') = pending ws"
    and "totalFiles r' = totalFiles r + 1"
    and "failed r' = failed r @ file_failure (ve_crypto e) (content w0) (ve_files e ! i)"
  shows "booked e w0 m ws' r'"
proof -
  from assms(1) obtain ds where ds: "mset ds + pending ws = mset [0..<m]" "totalFiles r = int (length ds)"
    "failed r = concat (map (\<lambda>i. file_failure (ve_crypto e) (content w0) (ve_files e ! i)) ds)"
    by (auto simp: booked_def)
  have "mset (ds @ [i]) + pending ws' = mset ds + pending ws" by (simp add: assms(2) [symmetric])
  then have "mset (ds @ [i]) + pending ws' = mset [0..<m]" by (simp only: ds(1))
  then show ?thesis
    unfolding booked_def using assms(3,4) ds(2,3) by (intro exI [of _ "ds @ [i]"]) simp
qed

definition verify_inv :: "'z verify_env \<Rightarrow> 'z os_world_scheme \<Rightarrow> 'z verify_state \<Rightarrow> bool" where
  "verify_inv e w0 s \<longleftrightarrow>
     untouched w0 (vs_world s) \<and> vs_next s \<le> length (ve_files e) \<and>
     (\<forall>k < length (vs_workers s). on_track e w0 (vs_world s) (vs_next s) (vs_workers s ! k)) \<and>
     (vs_firstErr s = None \<longrightarrow> booked e w0 (vs_next s) (vs_workers s) (vs_result s)) \<and>
     (vs_firstErr s = None \<longrightarrow> \<not> vs_feeding s \<longrightarrow>
        vs_next s = length (ve_files e) \<or> (\<exists>t \<le> clock (vs_world s). ve_ctx e t))"

lemma verify_init_inv: "verify_inv (verify_env_of sv ctx d man) w (verify_init sv snapshot man w)"
proof -
  have "booked (verify_env_of sv ctx d man) w 0 (replicate n Waiting) (NewResult snapshot)" for n
    unfolding booked_def by (intro exI [of _ "[]"]) (simp add: pending_idle NewResult_def)
  then show ?thesis by (simp add: verify_inv_def verify_init_def untouched_refl)
qed

lemma inv_booked: "verify_inv e w0 s \<Longrightarrow> vs_firstErr s = None \<Longrightarrow> booked e w0 (vs_next s) (vs_workers s) (vs_result s)"
  by (simp add: verify_inv_def)

lemma moved:
  assumes "verify_inv e w0 s" and "untouched (vs_world s) w"
  shows "untouched w0 w" and "vs_next s \<le> length (ve_files e)"
    and "vs_firstErr s = None \<Longrightarrow> \<not> vs_feeding s \<Longrightarrow>
      vs_next s = length (ve_files e) \<or> (\<exists>t \<le> clock w. ve_ctx e t)"
proof -
  from assms(1) have I: "untouched w0 (vs_world s)" "vs_next s \<le> length (ve_files e)"
    "vs_firstErr s = None \<longrightarrow> \<not> vs_feeding s \<longrightarrow>
      vs_next s = length (ve_files e) \<or> (\<exists>t \<le> clock (vs_world s). ve_ctx e t)"
    unfolding verify_inv_def by blast+
  show "untouched w0 w" by (rule untouched_trans [OF I(1) assms(2)])
  show "vs_next s \<le> length (ve_files e)" by (rule I(2))
  assume "vs_firstErr s = None" and "\<not> vs_feeding s"
  with I(3) show "vs_next s = length (ve_files e) \<or> (\<exists>t \<le> clock w. ve_ctx e t)"
    using untouched_clock [OF assms(2)] by (meson le_trans)
qed

text \<open>A worker moves on the same file, the result unchanged.\<close>

lemma inv_same:
  assumes inv: "verify_inv e w0 s" and k: "k < length (vs_workers s)" and later: "untouched (vs_world s) w"
    and p: "on_track e w0 w (vs_next s) p" "on_file p = on_file (vs_workers s ! k)"
  shows "verify_inv e w0 (v_move k p w s)"
proof -
  have "on_track e w0 w (vs_next s) ((vs_workers s)[k := p] ! j)" if "j < length (vs_workers s)" for j
    using inv that p(1) later on_track_later by (cases "j = k") (auto simp: verify_inv_def)
  moreover have "pending ((vs_workers s)[k := p]) = pending (vs_workers s)" by (rule pending_same [OF k p(2)])
  ultimately show ?thesis
    using moved [OF inv later] booked_same [of e w0 "vs_next s" "vs_workers s" "vs_result s"] inv_booked [OF inv]
    by (simp add: verify_inv_def v_move_def)
qed

text \<open>A worker is done with its file, which goes into the result.\<close>

lemma inv_done:
  assumes inv: "verify_inv e w0 s" and k: "k < length (vs_workers s)" and later: "untouched (vs_world s) w"
    and i: "on_file (vs_workers s ! k) = {#i#}"
    and r: "totalFiles r = totalFiles (vs_result s) + 1"
      "failed r = failed (vs_result s) @ file_failure (ve_crypto e) (content w0) (ve_files e ! i)"
  shows "verify_inv e w0 ((v_move k Waiting w s)\<lparr>vs_result := r\<rparr>)"
proof -
  have "on_track e w0 w (vs_next s) ((vs_workers s)[k := Waiting] ! j)" if "j < length (vs_workers s)" for j
    using inv that later on_track_later by (cases "j = k") (auto simp: verify_inv_def)
  moreover have "add_mset i (pending ((vs_workers s)[k := Waiting])) = pending (vs_workers s)"
    by (rule pending_done [OF k i]) simp
  ultimately show ?thesis
    using moved [OF inv later] booked_done [OF _ _ r, of "vs_next s" "vs_workers s"] inv_booked [OF inv]
    by (simp add: verify_inv_def v_move_def)
qed

lemma inv_error:
  assumes inv: "verify_inv e w0 s" and later: "untouched (vs_world s) w"
  shows "verify_inv e w0 (v_error k er w s)"
proof -
  have "on_track e w0 w (vs_next s) ((vs_workers s)[k := Waiting] ! j)" if "j < length (vs_workers s)" for j
    using inv that later on_track_later by (cases "j = k") (auto simp: verify_inv_def)
  moreover obtain er' where "vs_firstErr (v_error k er w s) = Some er'"
    by (cases "vs_firstErr s") (simp_all add: v_error_def record_error_def)
  moreover have "vs_world (v_error k er w s) = w" "vs_next (v_error k er w s) = vs_next s"
    "vs_workers (v_error k er w s) = (vs_workers s)[k := Waiting]"
    by (simp_all add: v_error_def v_move_def)
  ultimately show ?thesis
    using moved(1,2) [OF inv later] unfolding verify_inv_def by simp
qed

lemma opened_failure:
  assumes "opened e w0 m i n" and "object_reason (ve_crypto e) (content w0) (object_of e i n) = Some why"
  shows "file_failure (ve_crypto e) (content w0) (ve_files e ! i) =
    [\<lparr>failed_path = file_path (ve_files e ! i), reason = part_reason (ve_files e ! i) n why\<rparr>]"
  using assms parts_reason_at [of n "ve_crypto e" "content w0" "verify_hashes (ve_files e ! i)" why "ve_files e ! i" 0]
  by (simp add: opened_def object_of_def file_failure_def)

lemma inv_failed:
  assumes inv: "verify_inv e w0 s" and k: "k < length (vs_workers s)" and later: "untouched (vs_world s) w"
    and i: "on_file (vs_workers s ! k) = {#i#}" and op: "opened e w0 (vs_next s) i n"
    and why: "object_reason (ve_crypto e) (content w0) (object_of e i n) = Some why"
  shows "verify_inv e w0 (v_failed e k i n why w s)"
  unfolding v_failed_def
  by (rule inv_done [OF inv k later i]) (simp_all add: AddFailed_def opened_failure [OF op why])

lemma inv_passed:
  assumes inv: "verify_inv e w0 s" and k: "k < length (vs_workers s)" and later: "untouched (vs_world s) w"
    and i: "on_file (vs_workers s ! k) = {#i#}" and op: "opened e w0 (vs_next s) i n"
    and fine: "object_reason (ve_crypto e) (content w0) (object_of e i n) = None"
  shows "verify_inv e w0 (v_passed e k i n w s)"
proof (cases "Suc n < length (verify_hashes (ve_files e ! i))")
  case True
  with op fine have "opened e w0 (vs_next s) i (Suc n)" by (auto simp: opened_def less_Suc_eq)
  with True i show ?thesis unfolding v_passed_def by (simp add: inv_same [OF inv k later])
next
  case False
  have "object_reason (ve_crypto e) (content w0) (verify_hashes (ve_files e ! i) ! j) = None"
    if "j < length (verify_hashes (ve_files e ! i))" for j
  proof -
    from that False have "j < n \<or> j = n" by linarith
    with op fine show ?thesis by (auto simp: opened_def object_of_def)
  qed
  then have "\<forall>j < length (verify_hashes (ve_files e ! i)).
      object_reason (ve_crypto e) (content w0) (verify_hashes (ve_files e ! i) ! j) = None" by blast
  from parts_reason_none [OF this] have "file_failure (ve_crypto e) (content w0) (ve_files e ! i) = []"
    by (simp add: file_failure_def)
  with False inv_done [OF inv k later i] show ?thesis by (simp add: v_passed_def AddSuccess_def)
qed

text \<open>The environment of a run on this repository.\<close>

definition verifies :: "'z verify_env \<Rightarrow> bool" where
  "verifies e \<longleftrightarrow> lawful \<and> ve_objects e = orp \<and> ve_key e = key \<and> ve_generation e = g \<and>
     (\<forall>f \<in> set (ve_files e). \<forall>h \<in> set (verify_hashes f). h = [] \<or> valid h)"

lemma opened_valid:
  assumes "verifies e" and "verify_inv e w0 s" and "opened e w0 (vs_next s) i n" and "object_of e i n \<noteq> []"
  shows "valid (object_of e i n)"
proof -
  have "i < length (ve_files e)" using assms(2,3) by (auto simp: verify_inv_def opened_def)
  then have "ve_files e ! i \<in> set (ve_files e)" by simp
  moreover have "object_of e i n \<in> set (verify_hashes (ve_files e ! i))"
    using assms(3) by (simp add: opened_def object_of_def)
  ultimately show ?thesis using assms(1,4) unfolding verifies_def by blast
qed

lemma inv_closed:
  assumes run: "verifies e" and inv: "verify_inv e w0 s" and k: "k < length (vs_workers s)"
    and p: "vs_workers s ! k = Closing i n rc got copyErr" and close: "rc_Close rc (vs_world s) = (u, w)"
  shows "verify_inv e w0 (v_closed e k i n got copyErr closeErr w s)"
proof -
  from inv k p have T: "opened e w0 (vs_next s) i n" "object_of e i n \<noteq> []" "reads w0 rc (object_of e i n) (vs_world s)"
    "copyErr = None \<longrightarrow> content w0 (object_of e i n) = Some got"
    unfolding verify_inv_def by force+
  have on: "on_file (vs_workers s ! k) = {#i#}" using p by simp
  note later = reads_close [OF T(3) close]
  show ?thesis
  proof (cases "copyErr = None \<and> closeErr = None")
    case True
    let ?why = "object_reason (ve_crypto e) (content w0) (object_of e i n)"
    have why: "?why = (if content_hash (ve_crypto e) got \<noteq> object_of e i n
        then Some (mismatch_reason (object_of e i n) (content_hash (ve_crypto e) got)) else None)"
      using T(2,4) True by (simp add: object_reason_def)
    then show ?thesis
      using True inv_failed [OF inv k later on T(1)] inv_passed [OF inv k later on T(1)]
      by (simp add: v_closed_def)
  next
    case False
    then show ?thesis using inv_error [OF inv later] by (auto simp: v_closed_def split: option.split)
  qed
qed

lemma verify_step_inv:
  assumes step: "verify_step e s s'" and run: "verifies e" and inv: "verify_inv e w0 s"
  shows "verify_inv e w0 s'"
  using step
proof cases
  case (v_feed k)
  have "on_track e w0 (vs_world s) (Suc (vs_next s)) ((vs_workers s)[k := Opening (vs_next s) 0] ! j)"
    if "j < length (vs_workers s)" for j
    using inv that on_track_later [OF _ untouched_refl, of e w0 "vs_world s" "vs_next s" _ "Suc (vs_next s)"]
    by (cases "j = k") (auto simp: verify_inv_def opened_def)
  moreover have "pending ((vs_workers s)[k := Opening (vs_next s) 0]) = add_mset (vs_next s) (pending (vs_workers s))"
    by (rule pending_start [OF v_feed(4)]) (simp_all add: v_feed(5))
  moreover note booked_feed [of e w0 "vs_next s" "vs_workers s" "vs_result s", OF _ this]
  ultimately show ?thesis
    using inv v_feed by (simp add: verify_inv_def v_move_def)
next
  case v_feed_end
  with inv show ?thesis by (simp add: verify_inv_def)
next
  case v_feed_break
  with inv show ?thesis by (auto simp: verify_inv_def)
next
  case (v_leave k)
  with inv_same [OF inv v_leave(3) untouched_refl, of Left] show ?thesis by simp
next
  case (v_empty k i n)
  have "opened e w0 (vs_next s) i n" using inv v_empty(2,3) by (force simp: verify_inv_def)
  from inv_failed [OF inv v_empty(2) untouched_refl _ this] v_empty show ?thesis
    by (simp add: object_reason_def)
next
  case (v_open k i n c rc w)
  have op: "opened e w0 (vs_next s) i n" using inv v_open(2,3) by (force simp: verify_inv_def)
  have r: "ReadObject orp c (object_of e i n) key g (vs_world s) = (Ok rc, w)"
    using run v_open(6) by (simp add: verifies_def)
  have "untouched w0 (vs_world s)" using inv by (simp add: verify_inv_def)
  from reads_open [OF r this] op v_open(3,4) show ?thesis
    unfolding v_open(1) by (intro inv_same [OF inv v_open(2) read_frame [OF r]]) simp_all
next
  case (v_missing k i n c er w)
  have op: "opened e w0 (vs_next s) i n" using inv v_missing(2,3) by (force simp: verify_inv_def)
  have r: "ReadObject orp c (object_of e i n) key g (vs_world s) = (Err er, w)" and l: lawful
    using run v_missing(6) by (simp_all add: verifies_def)
  note M = read_missing [OF l r opened_valid [OF run inv op v_missing(4)] v_missing(7)]
  have "content w0 (object_of e i n) = None"
    using M untouched_content [of w0 "vs_world s"] inv by (simp add: verify_inv_def)
  with M v_missing(4) have "object_reason (ve_crypto e) (content w0) (object_of e i n) = Some (error_string er)"
    by (simp add: object_reason_def)
  from inv_failed [OF inv v_missing(2) read_frame [OF r] _ op this] v_missing(1,3) show ?thesis by simp
next
  case (v_open_error k i n c er w)
  have r: "ReadObject orp c (object_of e i n) key g (vs_world s) = (Err er, w)"
    using run v_open_error(6) by (simp add: verifies_def)
  from inv_error [OF inv read_frame [OF r]] v_open_error(1) show ?thesis by simp
next
  case (v_copy k i n rc c got copyErr w)
  from inv v_copy(2,3) have T: "opened e w0 (vs_next s) i n" "object_of e i n \<noteq> []"
    "reads w0 rc (object_of e i n) (vs_world s)"
    unfolding verify_inv_def by force+
  note later = reads_frame [OF T(3) v_copy(5)]
  have l: lawful using run by (simp add: verifies_def)
  have "copyErr = None \<longrightarrow> content w0 (object_of e i n) = Some got"
    using reads_content [OF l T(3) opened_valid [OF run inv T(1,2)]] v_copy(5) by blast
  with T reads_later [OF T(3) later] v_copy(3) show ?thesis
    unfolding v_copy(1) by (intro inv_same [OF inv v_copy(2) later]) simp_all
next
  case (v_close k i n rc got copyErr w)
  from inv_closed [OF run inv v_close(2,3,4)] v_close(1) show ?thesis by simp
next
  case (v_close_error k i n rc got copyErr er w)
  from inv_closed [OF run inv v_close_error(2,3,4)] v_close_error(1) show ?thesis by simp
qed

lemma verify_steps_inv:
  assumes "(verify_step e)\<^sup>*\<^sup>* s0 s" and "verifies e" and "verify_inv e w0 s0"
  shows "verify_inv e w0 s"
  using assms(1) by (induction rule: rtranclp_induct) (use assms(2,3) verify_step_inv in blast)+

text \<open>
  A run to the end without error, its context not done: what it reports is the reference, in some order.
\<close>

lemma verified:
  assumes run: "verifies e" and steps: "(verify_step e)\<^sup>*\<^sup>* s0 s" and inv: "verify_inv e w0 s0"
    and fin: "all_left s" and none: "vs_firstErr s = None" and ctx: "\<forall>t \<le> clock (vs_world s). \<not> ve_ctx e t"
  shows "mset (failed (vs_result s)) = mset (verify_reference (ve_crypto e) (content w0) (ve_files e))"
    and "totalFiles (vs_result s) = int (length (ve_files e))"
proof -
  note I = verify_steps_inv [OF steps run inv]
  have n: "vs_next s = length (ve_files e)" using I none fin ctx by (auto simp: verify_inv_def all_left_def)
  have "pending (vs_workers s) = {#}" using fin by (simp add: all_left_def pending_all_left)
  with inv_booked [OF I none] n obtain ds where ds: "mset ds = mset [0..<length (ve_files e)]"
    "totalFiles (vs_result s) = int (length ds)"
    "failed (vs_result s) = concat (map (\<lambda>i. file_failure (ve_crypto e) (content w0) (ve_files e ! i)) ds)"
    by (auto simp: booked_def)
  from mset_concat_map [OF ds(1)] have "mset (failed (vs_result s)) =
      mset (concat (map (\<lambda>i. file_failure (ve_crypto e) (content w0) (ve_files e ! i)) [0..<length (ve_files e)]))"
    unfolding ds(3) .
  also have "map (\<lambda>i. file_failure (ve_crypto e) (content w0) (ve_files e ! i)) [0..<length (ve_files e)] =
      map (file_failure (ve_crypto e) (content w0)) (ve_files e)"
    by (rule nth_equalityI) simp_all
  finally show "mset (failed (vs_result s)) = mset (verify_reference (ve_crypto e) (content w0) (ve_files e))"
    by (simp add: verify_reference_def)
  show "totalFiles (vs_result s) = int (length (ve_files e))"
    using ds(2) mset_eq_length [OF ds(1)] by simp
qed

end

end
