(* ===== verification/Quiet.thy ===== *)
theory Quiet
  imports Disk_Rekey
begin

section \<open>Actions that do not panic\<close>

text \<open>
  An action is quiet when no state makes it panic. The rules follow the structure of a program, as
  those for what an action can change do; the operations that the goroutines of the program call on
  the disk are quiet, so no worker can end the process.
\<close>

definition quiet :: "('w, 'a) io \<Rightarrow> bool" where
  "quiet m \<longleftrightarrow> (\<forall>w s. fst (m w) \<noteq> Panic s)"

named_theorems quiet_rules \<open>rules that show that an action does not panic\<close>

lemma quietD: "quiet m \<Longrightarrow> m w \<noteq> (Panic s, w')"
  unfolding quiet_def by (metis fst_conv)

lemma quietI: "(\<And>w s w'. m w \<noteq> (Panic s, w')) \<Longrightarrow> quiet m"
  unfolding quiet_def by (metis prod.collapse)

lemma quiet_case: "quiet m \<Longrightarrow> case m w of (Panic _, _) \<Rightarrow> False | _ \<Rightarrow> True"
  using quietD [of m w] by (auto split: outcome.split prod.split)

lemma quiet_basic [quiet_rules]: "quiet (return x)" "quiet (fail e)" "quiet (ignoring m)"
  by (simp_all add: quiet_def return_run fail_run ignoring_def)

lemma quiet_tryCatch [quiet_rules]:
  assumes "quiet m" and "\<And>e. quiet (h e)" and "\<And>x. quiet (f x)"
  shows "quiet (tryCatch m h f)"
proof (rule quietI)
  fix w s w'
  show "tryCatch m h f w \<noteq> (Panic s, w')"
    using quietD [OF assms(1), of w] quietD [OF assms(2)] quietD [OF assms(3)]
    by (auto simp: tryCatch_def split: prod.splits outcome.splits)
qed

lemma quiet_andThen [quiet_rules]: "quiet m \<Longrightarrow> (\<And>x. quiet (f x)) \<Longrightarrow> quiet (andThen m f)"
  unfolding andThen_def by (intro quiet_rules)

lemma quiet_orWrap [quiet_rules]: "quiet m \<Longrightarrow> quiet (orWrap msg m)"
  unfolding orWrap_def by (intro quiet_rules)

lemma quiet_deferring [quiet_rules]: "quiet m \<Longrightarrow> quiet (deferring m c)"
  by (auto simp: quiet_def deferring_def split: prod.split) (metis fst_conv)

lemma quiet_if [quiet_rules]: "(b \<Longrightarrow> quiet m) \<Longrightarrow> (\<not> b \<Longrightarrow> quiet m') \<Longrightarrow> quiet (if b then m else m')"
  by simp

lemma quiet_sys [quiet_rules]: "quiet f \<Longrightarrow> quiet (sys part f)"
  by (auto simp: quiet_def sys_def split: option.split)

lemma quiet_syscall [quiet_rules]: "(\<And>q. quiet (f q)) \<Longrightarrow> quiet (syscall p part f)"
  by (auto simp: quiet_def syscall_def sys_def split: option.split)

lemma quiet_calls [quiet_rules]:
  "quiet (ctxErr c)" "quiet (os_Open p)" "quiet (os_Close h)" "quiet (os_Sync h)" "quiet (os_Write h b)"
  "quiet (os_MkdirAll p)" "quiet (os_Rename h p)" "quiet (os_CreateTemp p pre)" "quiet (random_bytes n)"
  by (auto simp: os_Open_def os_Close_def os_Sync_def os_Write_def os_MkdirAll_def os_Rename_def
      random_bytes_def quiet_def ctxErr_def syscall_def sys_def open_at_def mkdir_all_at_def os_CreateTemp_def
      create_excl_at_def return_run
      split: option.split node.split if_split)

lemma quiet_lift [quiet_rules]: "(\<And>s. r \<noteq> Panic s) \<Longrightarrow> quiet (lift_outcome r)"
  by (simp add: quiet_def lift_outcome_run)

text \<open>Reading a source to its end, and going on by whether an error stopped it.\<close>

lemma quiet_reading:
  assumes "\<And>got. quiet (f got)" and "\<And>got e. quiet (g got e)"
  shows "quiet (\<lambda>w. case src w of ((got, Some e), w') \<Rightarrow> g got e w' | ((got, None), w') \<Rightarrow> f got w')"
  using quietD [OF assms(1)] quietD [OF assms(2)] by (intro quietI) (auto split: prod.splits option.splits)

lemma quiet_Decode [quiet_rules]: "quiet (AESGCM_Decode c src key)"
  by (auto simp: quiet_def AESGCM_Decode_def fail_run return_run split: option.split prod.split)

lemma quiet_Encode [quiet_rules]: "quiet (AESGCM_Close c key b (os_Write h))"
  unfolding AESGCM_Close_def writeFull_def by (intro quiet_rules)

lemma quiet_readers: "quiet (rc_Close (file_reader h))" "quiet (rc_Close (plain_reader b h))"
  by (simp_all add: file_reader_def plain_reader_def quiet_rules)

lemma GetObjectsPath_long: "\<not> length h < 3 \<Longrightarrow> GetObjectsPath root h g key remote \<noteq> Panic s"
  by (simp add: GetObjectsPath_def Let_def)

lemma quiet_ReadObject [quiet_rules]: "quiet (disk_ReadObject lib root c h key g)"
  unfolding disk_ReadObject_def by (intro quiet_rules GetObjectsPath_long)

lemma quiet_ReadEncryptedObject [quiet_rules]: "quiet (disk_ReadEncryptedObject lib root c h g key)"
  unfolding disk_ReadEncryptedObject_def by (intro quiet_rules)

lemma quiet_rekey_body [quiet_rules]: "quiet (rekey_body lib c h rc key temp p)"
proof -
  have "AESGCM_Encode key \<noteq> Panic s" for s by (simp add: AESGCM_Encode_def)
  then show ?thesis unfolding rekey_body_def by (intro quiet_rules quiet_reading)
qed

lemma quiet_SaveRekeyedObject [quiet_rules]: "quiet (disk_SaveRekeyedObject lib root c h rc g key)"
  unfolding disk_SaveRekeyedObject_def Let_def by (intro quiet_rules)

text \<open>A reader that an operation of the disk returns can be closed.\<close>

lemma ReadObject_readers:
  assumes "disk_ReadObject lib root c h key g w = (Ok rc, w')"
  shows "(\<exists>f. rc = file_reader f) \<or> (\<exists>b f. rc = plain_reader b f)"
  using assms by (auto simp: disk_ReadObject_def ok_iffs split: if_splits)

lemma ReadEncryptedObject_readers:
  assumes "disk_ReadEncryptedObject lib root c h g key w = (Ok rc, w')"
  shows "\<exists>b f. rc = plain_reader b f"
  using assms by (auto simp: disk_ReadEncryptedObject_def ok_iffs split: if_splits)

lemma readers_quiet:
  "disk_ReadObject lib root c h key g w = (Ok rc, w') \<Longrightarrow> quiet (rc_Close rc)"
  "disk_ReadEncryptedObject lib root c h g key w = (Ok rc, w') \<Longrightarrow> quiet (rc_Close rc)"
  using ReadObject_readers [of lib root c h key g w rc w'] ReadEncryptedObject_readers [of lib root c h g key w rc w']
    quiet_readers by auto

end
