(* ===== verification/Disk_Verify.thy ===== *)
theory Disk_Verify
  imports Verify_Facts Disk_Restore_Facts Disk_Store_Facts Quiet
begin

section \<open>Verifying a repository on disk\<close>

text \<open>
  The object repository on disk keeps the contract \<open>object_reader\<close>: what is read from it is the
  content of the file at the place of the object, and nothing on the disk changes.
\<close>

definition disk_content ::
  "library \<Rightarrow> string \<Rightarrow> bytes \<Rightarrow> uint64 \<Rightarrow> 'z os_world_scheme \<Rightarrow> string \<Rightarrow> bytes option" where
  "disk_content lib root key g w h =
     (case lookup w (object_at root key g h) of
        Some (File raw) \<Rightarrow> object_content lib key raw
      | _ \<Rightarrow> None)"

definition disk_untouched :: "'z os_world_scheme \<Rightarrow> 'z os_world_scheme \<Rightarrow> bool" where
  "disk_untouched w w' \<longleftrightarrow> clock w \<le> clock w' \<and> (\<forall>q. lookup w' q = lookup w q)"

lemma untouched_sets: "sets (cwd w) {} m \<Longrightarrow> m w = (r, w') \<Longrightarrow> disk_untouched w w'"
  using sets_lookup [of "cwd w" "{}" m w r w'] by (simp add: disk_untouched_def steady_def)

lemma readers_untouched:
  assumes "disk_ReadObject lib root c h key g w = (Ok rc, w1)"
  shows "rc_Read rc c' w2 = (z, w3) \<Longrightarrow> disk_untouched w2 w3"
    and "rc_Close rc w2 = (u, w3) \<Longrightarrow> disk_untouched w2 w3"
proof -
  have same: "disk_untouched w2 (snd (file_stream c' f w2))" "disk_untouched w2 (snd (mem_stream c' b w2))" for f b
    by (simp_all add: disk_untouched_def) (use file_stream_lookup(3) [of w2 c' f] stream_lookup(6) [of w2 c' b] in
      \<open>simp_all add: steady_def\<close>)
  {
    assume r: "rc_Read rc c' w2 = (z, w3)"
    have "w3 = snd (rc_Read rc c' w2)" by (simp add: r)
    with ReadObject_readers [OF assms] same show "disk_untouched w2 w3"
      by (auto simp: file_reader_def plain_reader_def)
  next
    assume r: "rc_Close rc w2 = (u, w3)"
    have "sets (cwd w2) {} (rc_Close rc)"
      using ReadObject_readers [OF assms] by (auto simp: file_reader_def plain_reader_def intro: sets_rules)
    from untouched_sets [OF this r] show "disk_untouched w2 w3" .
  }
qed

lemma ReadObject_missing_string:
  assumes "disk_ReadObject lib root ctx h key g w = (Err e, w')"
    and "is_rooted root" and "hash_ok h" and "errors_As_SnapshotNotFound e"
  shows "error_string e = ''not found: '' @ h"
proof -
  from GetObjectsPath_ok [OF assms(2,3), of g key True] obtain dest where
    dest: "GetObjectsPath root h g key True = Ok dest" by blast
  then show ?thesis using assms
    by (auto simp: disk_ReadObject_def err_iffs lift_outcome_Ok_iff ctxErr_def hash_ok_def open_errors decode_errors
        split: if_splits)
qed

interpretation disk_reader: object_reader "DiskObjectRepository lib root" key g "disk_content lib root key g"
    disk_untouched hash_ok "is_rooted root"
  for lib root key g
proof unfold_locales
  fix w :: "'a os_world_scheme"
  show "disk_untouched w w" by (simp add: disk_untouched_def)
next
  fix w w1 w2 :: "'a os_world_scheme"
  assume "disk_untouched w w1" and "disk_untouched w1 w2"
  then show "disk_untouched w w2" by (simp add: disk_untouched_def)
next
  fix w w' :: "'a os_world_scheme" and h
  assume *: "disk_untouched w w'"
  then show "disk_content lib root key g w' h = disk_content lib root key g w h"
    by (simp add: disk_untouched_def disk_content_def)
  from * show "clock w \<le> clock w'" by (simp add: disk_untouched_def)
next
  fix c h r and w w' :: "'a os_world_scheme"
  assume "ReadObject (DiskObjectRepository lib root) c h key g w = (r, w')"
  then show "disk_untouched w w'"
    by (intro untouched_sets [OF sets_disk_ReadObject]) (simp add: DiskObjectRepository_def)
next
  fix c h rc c' z and w w1 w2 w3 :: "'a os_world_scheme"
  assume "ReadObject (DiskObjectRepository lib root) c h key g w = (Ok rc, w1)" and "rc_Read rc c' w2 = (z, w3)"
  then show "disk_untouched w2 w3"
    by (intro readers_untouched(1)) (simp_all add: DiskObjectRepository_def)
next
  fix c h rc u and w w1 w2 w3 :: "'a os_world_scheme"
  assume "ReadObject (DiskObjectRepository lib root) c h key g w = (Ok rc, w1)" and "rc_Close rc w2 = (u, w3)"
  then show "disk_untouched w2 w3"
    by (intro readers_untouched(2)) (simp_all add: DiskObjectRepository_def)
next
  fix c h rc c' got and w w1 w2 w3 :: "'a os_world_scheme"
  assume "is_rooted root" and "hash_ok h" and "disk_untouched w w2"
    and "ReadObject (DiskObjectRepository lib root) c h key g w = (Ok rc, w1)" and "rc_Read rc c' w2 = ((got, None), w3)"
  then show "disk_content lib root key g w h = Some got"
    using ReadObject_content [of lib root c h key g w rc w1 c' w2 got w3]
    by (auto simp: DiskObjectRepository_def disk_untouched_def disk_content_def)
next
  fix c h er and w w1 :: "'a os_world_scheme"
  assume "is_rooted root" and "hash_ok h" and "errors_As_SnapshotNotFound er"
    and "ReadObject (DiskObjectRepository lib root) c h key g w = (Err er, w1)"
  then show "disk_content lib root key g w h = None \<and> error_string er = ''not found: '' @ h"
    using ReadObject_missing [of lib root c h key g w er w1] ReadObject_missing_string [of lib root c h key g w er w1]
    by (simp add: DiskObjectRepository_def disk_content_def)
qed

end
