(* ===== verification/Verify_Run.thy ===== *)
theory Verify_Run
  imports Verify Quiet
begin

section \<open>Every verification comes to its end\<close>

text \<open>
  No schedule runs forever: each step of \<^verbatim>\<open>Verify\<close> lowers a measure. None gets stuck
  either: as long as the repository does not panic, some step is possible until all workers have
  left. A scheduler that takes the first possible step makes the relation executable.
\<close>

subsection \<open>A measure\<close>

definition file_weight :: "SnapFile \<Rightarrow> nat" where
  "file_weight f = 3 * length (verify_hashes f) + 4"

fun position_weight :: "SnapFile list \<Rightarrow> 'z verifier \<Rightarrow> nat" where
  "position_weight fs (Opening i n) = 3 * (length (verify_hashes (fs ! i)) - n) + 4"
| "position_weight fs (Copying i n rc) = 3 * (length (verify_hashes (fs ! i)) - n) + 3"
| "position_weight fs (Closing i n rc got er) = 3 * (length (verify_hashes (fs ! i)) - n) + 2"
| "position_weight fs Waiting = 1"
| "position_weight fs Left = 0"

definition verify_measure :: "'z verify_env \<Rightarrow> 'z verify_state \<Rightarrow> nat" where
  "verify_measure e s =
     sum_list (map file_weight (drop (vs_next s) (ve_files e))) +
     sum_list (map (position_weight (ve_files e)) (vs_workers s)) + (if vs_feeding s then 1 else 0)"

lemma measure_move:
  assumes "k < length (vs_workers s)" and "position_weight (ve_files e) p < position_weight (ve_files e) (vs_workers s ! k)"
    and "vs_workers s' = (vs_workers s)[k := p]" and "vs_next s' = vs_next s" and "vs_feeding s' = vs_feeding s"
  shows "verify_measure e s' < verify_measure e s"
  using sum_list_move [OF assms(1), of "position_weight (ve_files e)" p] assms(2-5)
  by (simp add: verify_measure_def)

lemma busy_heavy: "v_busy p \<Longrightarrow> 1 < position_weight fs p"
  by (cases p) (simp_all add: v_busy_def)

lemma measure_idle:
  assumes "k < length (vs_workers s)" and "v_busy (vs_workers s ! k)"
    and "vs_workers s' = (vs_workers s)[k := Waiting]" and "vs_next s' = vs_next s" and "vs_feeding s' = vs_feeding s"
  shows "verify_measure e s' < verify_measure e s"
  by (rule measure_move [OF assms(1) _ assms(3-5)]) (use busy_heavy [OF assms(2), of "ve_files e"] in simp)

lemma measure_failed:
  "k < length (vs_workers s) \<Longrightarrow> v_busy (vs_workers s ! k) \<Longrightarrow>
   verify_measure e (v_failed e k i n why w s) < verify_measure e s"
  by (intro measure_idle [of k s]) (simp_all add: v_failed_def v_move_def)

lemma measure_error:
  "k < length (vs_workers s) \<Longrightarrow> v_busy (vs_workers s ! k) \<Longrightarrow>
   verify_measure e (v_error k er w s) < verify_measure e s"
  by (intro measure_idle [of k s]) (simp_all add: v_error_def v_move_def)

lemma measure_closed:
  assumes "k < length (vs_workers s)" and "vs_workers s ! k = Closing i n rc got copyErr"
  shows "verify_measure e (v_closed e k i n got copyErr closeErr w s) < verify_measure e s"
proof -
  have b: "v_busy (vs_workers s ! k)" using assms(2) by (simp add: v_busy_def)
  have "verify_measure e (v_passed e k i n w s) < verify_measure e s"
  proof (cases "Suc n < length (verify_hashes (ve_files e ! i))")
    case True
    with assms show ?thesis
      by (intro measure_move [OF assms(1), of e "Opening i (Suc n)"]) (auto simp: v_passed_def v_move_def)
  next
    case False
    then show ?thesis by (intro measure_idle [OF assms(1) b]) (simp_all add: v_passed_def v_move_def)
  qed
  with measure_failed [OF assms(1) b] measure_error [OF assms(1) b] show ?thesis
    by (auto simp: v_closed_def split: option.split)
qed

lemma step_measure:
  assumes "verify_step e s s'"
  shows "verify_measure e s' < verify_measure e s"
  using assms
proof cases
  case (v_feed k)
  have "drop (vs_next s) (ve_files e) = ve_files e ! vs_next s # drop (Suc (vs_next s)) (ve_files e)"
    using v_feed(3) by (rule Cons_nth_drop_Suc [symmetric])
  with v_feed sum_list_move [OF v_feed(4), of "position_weight (ve_files e)" "Opening (vs_next s) 0"] show ?thesis
    by (simp add: verify_measure_def v_move_def file_weight_def)
next
  case (v_leave k)
  then show ?thesis by (intro measure_move [OF v_leave(3), of _ Left]) (simp_all add: v_move_def)
next
  case (v_empty k i n)
  then show ?thesis by (simp add: measure_failed [OF v_empty(2)] v_busy_def)
next
  case (v_open k i n c rc w)
  then show ?thesis by (intro measure_move [OF v_open(2), of _ "Copying i n rc"]) (simp_all add: v_move_def)
next
  case (v_missing k i n c er w)
  then show ?thesis by (simp add: measure_failed [OF v_missing(2)] v_busy_def)
next
  case (v_open_error k i n c er w)
  then show ?thesis by (simp add: measure_error [OF v_open_error(2)] v_busy_def)
next
  case (v_copy k i n rc c got copyErr w)
  then show ?thesis by (intro measure_move [OF v_copy(2), of _ "Closing i n rc got copyErr"]) (simp_all add: v_move_def)
next
  case (v_close k i n rc got copyErr w)
  with measure_closed [OF v_close(2,3)] show ?thesis by simp
next
  case (v_close_error k i n rc got copyErr er w)
  with measure_closed [OF v_close_error(2,3)] show ?thesis by simp
qed (simp_all add: verify_measure_def)

lemma verify_step_wf: "wfP (verify_step e)\<inverse>\<inverse>"
  by (rule wfp_if_convertible_to_nat [of _ "verify_measure e"]) (simp add: step_measure)

subsection \<open>A scheduler\<close>

definition stopping_ctx :: "'z verify_env \<Rightarrow> 'z verify_state \<Rightarrow> ctx" where
  "stopping_ctx e s t \<longleftrightarrow> ve_ctx e t \<or> vs_firstErr s \<noteq> None \<and> clock (vs_world s) \<le> t"

lemma stopping_ctx_ok: "v_ctx e s k (stopping_ctx e s)"
proof (cases "vs_firstErr s")
  case None
  then have "stopping_ctx e s = ve_ctx e" by (intro ext) (simp add: stopping_ctx_def)
  with None show ?thesis by (simp add: v_ctx_def)
qed (simp add: v_ctx_def stopping_ctx_def)

fun advance :: "'z verify_env \<Rightarrow> 'z verify_state \<Rightarrow> nat \<Rightarrow> 'z verifier \<Rightarrow> 'z verify_state option" where
  "advance e s k (Opening i n) =
     (if object_of e i n = [] then Some (v_failed e k i n empty_reason (vs_world s) s)
      else (case ReadObject (ve_objects e) (stopping_ctx e s) (object_of e i n) (ve_key e) (ve_generation e) (vs_world s) of
        (Ok rc, w) \<Rightarrow> Some (v_move k (Copying i n rc) w s)
      | (Err er, w) \<Rightarrow>
          Some (if errors_As_SnapshotNotFound er then v_failed e k i n (error_string er) w s else v_error k er w s)
      | (Panic _, _) \<Rightarrow> None))"
| "advance e s k (Copying i n rc) =
     (case rc_Read rc (stopping_ctx e s) (vs_world s) of
        ((got, copyErr), w) \<Rightarrow> Some (v_move k (Closing i n rc got copyErr) w s))"
| "advance e s k (Closing i n rc got copyErr) =
     (case rc_Close rc (vs_world s) of
        (Ok _, w) \<Rightarrow> Some (v_closed e k i n got copyErr None w s)
      | (Err er, w) \<Rightarrow> Some (v_closed e k i n got copyErr (Some er) w s)
      | (Panic _, _) \<Rightarrow> None)"
| "advance e s k p = None"

lemma advance_step:
  assumes "advance e s k p = Some s'" and k: "k < length (vs_workers s)" "vs_workers s ! k = p"
  shows "verify_step e s s'"
proof (cases p)
  case (Opening i n)
  with assms stopping_ctx_ok [of e s k] show ?thesis
    by (auto split: if_splits prod.splits outcome.splits
        intro: v_empty [of k s] v_open [of k s] v_missing [of k s] v_open_error [of k s])
next
  case (Copying i n rc)
  with assms stopping_ctx_ok [of e s k] show ?thesis by (auto split: prod.splits intro: v_copy [of k s])
next
  case (Closing i n rc got er)
  with assms show ?thesis
    by (auto split: prod.splits outcome.splits intro: v_close [of k s] v_close_error [of k s])
qed (use assms in simp_all)

definition is_waiting :: "'z verifier \<Rightarrow> bool" where
  "is_waiting p \<longleftrightarrow> (case p of Waiting \<Rightarrow> True | _ \<Rightarrow> False)"

lemma is_waiting_iff [simp]: "is_waiting p \<longleftrightarrow> p = Waiting"
  by (cases p) (simp_all add: is_waiting_def)

definition verify_next :: "'z verify_env \<Rightarrow> 'z verify_state \<Rightarrow> 'z verify_state option" where
  "verify_next e s =
     (case first_where v_busy (vs_workers s) of
        Some k \<Rightarrow> advance e s k (vs_workers s ! k)
      | None \<Rightarrow>
          (case first_where is_waiting (vs_workers s) of
             None \<Rightarrow> None
           | Some k \<Rightarrow>
               if \<not> vs_feeding s then Some (v_move k Left (vs_world s) s)
               else if vs_next s = length (ve_files e) \<or> ve_ctx e (clock (vs_world s)) \<or> \<not> Option.is_none (vs_firstErr s)
               then Some (s\<lparr>vs_feeding := False\<rparr>)
               else if vs_next s < length (ve_files e)
               then Some ((v_move k (Opening (vs_next s) 0) (vs_world s) s)\<lparr>vs_next := Suc (vs_next s)\<rparr>)
               else None))"

lemma verify_next_step:
  assumes "verify_next e s = Some s'"
  shows "verify_step e s s'"
proof (cases "first_where v_busy (vs_workers s)")
  case (Some k)
  with assms show ?thesis by (auto simp: verify_next_def dest!: first_where_Some intro: advance_step)
next
  case None
  with assms obtain k where k: "first_where is_waiting (vs_workers s) = Some k"
    by (auto simp: verify_next_def split: option.splits)
  then have k': "k < length (vs_workers s)" "vs_workers s ! k = Waiting" by (auto dest!: first_where_Some)
  with assms None k show ?thesis
    by (auto simp: verify_next_def Option.is_none_def split: if_splits
        intro: v_leave v_feed v_feed_end v_feed_break)
qed

fun verify_run :: "nat \<Rightarrow> 'z verify_env \<Rightarrow> 'z verify_state \<Rightarrow> 'z verify_state" where
  "verify_run 0 e s = s"
| "verify_run (Suc n) e s = (case verify_next e s of None \<Rightarrow> s | Some s' \<Rightarrow> verify_run n e s')"

lemma verify_run_steps: "(verify_step e)\<^sup>*\<^sup>* s (verify_run n e s)"
proof (induction n arbitrary: s)
  case (Suc n)
  show ?case
  proof (cases "verify_next e s")
    case (Some s')
    with verify_next_step [OF Some] Suc show ?thesis by (simp add: converse_rtranclp_into_rtranclp)
  qed simp
qed simp

subsection \<open>No run gets stuck\<close>

definition no_panics :: "'z ObjectRepository \<Rightarrow> bool" where
  "no_panics orp \<longleftrightarrow>
     (\<forall>c h key g. quiet (ReadObject orp c h key g) \<and>
        (\<forall>w rc w'. ReadObject orp c h key g w = (Ok rc, w') \<longrightarrow> quiet (rc_Close rc)))"

fun closes :: "'z verifier \<Rightarrow> bool" where
  "closes (Copying i n rc) \<longleftrightarrow> quiet (rc_Close rc)"
| "closes (Closing i n rc got er) \<longleftrightarrow> quiet (rc_Close rc)"
| "closes p \<longleftrightarrow> True"

definition live_inv :: "'z verify_env \<Rightarrow> 'z verify_state \<Rightarrow> bool" where
  "live_inv e s \<longleftrightarrow> vs_workers s \<noteq> [] \<and> vs_next s \<le> length (ve_files e) \<and>
     (\<forall>p \<in> set (vs_workers s). closes p \<and> (vs_feeding s \<longrightarrow> p \<noteq> Left))"

lemma live_move:
  assumes "live_inv e s" and "closes p" and "vs_feeding s \<longrightarrow> p \<noteq> Left"
    and "vs_workers s' = (vs_workers s)[k := p]" and "vs_next s' = vs_next s" and "vs_feeding s' = vs_feeding s"
  shows "live_inv e s'"
  using assms set_update_subset_insert [of "vs_workers s" k p] unfolding live_inv_def by auto

lemma live_idle:
  assumes "live_inv e s" and "vs_workers s' = (vs_workers s)[k := Waiting]" and "vs_next s' = vs_next s"
    and "vs_feeding s' = vs_feeding s"
  shows "live_inv e s'"
  by (rule live_move [OF assms(1) _ _ assms(2-4)]) simp_all

lemma live_closed:
  assumes "live_inv e s"
  shows "live_inv e (v_closed e k i n got copyErr closeErr w s)"
  using live_move [OF assms, of "Opening i (Suc n)" "v_passed e k i n w s" k]
    live_idle [OF assms, of "v_passed e k i n w s" k] live_idle [OF assms, of "v_error k _ w s" k]
    live_idle [OF assms, of "v_failed e k i n _ w s" k]
  by (auto simp: v_closed_def v_passed_def v_error_def v_failed_def v_move_def split: option.split if_splits)

lemma live_step:
  assumes "verify_step e s s'" and inv: "live_inv e s" and calm: "no_panics (ve_objects e)"
  shows "live_inv e s'"
  using assms(1)
proof cases
  case (v_feed k)
  with inv set_update_subset_insert [of "vs_workers s" k "Opening (vs_next s) 0"] show ?thesis
    by (auto simp: live_inv_def v_move_def)
next
  case (v_open k i n c rc w)
  then have "closes (Copying i n rc)"
    using calm unfolding no_panics_def closes.simps by blast
  with v_open(1) show ?thesis by (intro live_move [OF inv, of "Copying i n rc" _ k]) (simp_all add: v_move_def)
next
  case (v_copy k i n rc c got copyErr w)
  have "closes (vs_workers s ! k)" using inv nth_mem [OF v_copy(2)] unfolding live_inv_def by blast
  with v_copy(1,3) show ?thesis
    by (intro live_move [OF inv, of "Closing i n rc got copyErr" _ k]) (simp_all add: v_move_def)
next
  case (v_leave k)
  then show ?thesis by (intro live_move [OF inv, of Left _ k]) (simp_all add: v_move_def)
next
  case (v_empty k i n)
  then show ?thesis by (intro live_idle [OF inv, of _ k]) (simp_all add: v_failed_def v_move_def)
next
  case (v_missing k i n c er w)
  then show ?thesis by (intro live_idle [OF inv, of _ k]) (simp_all add: v_failed_def v_move_def)
next
  case (v_open_error k i n c er w)
  then show ?thesis by (intro live_idle [OF inv, of _ k]) (simp_all add: v_error_def v_move_def)
next
  case (v_close k i n rc got copyErr w)
  with live_closed [OF inv] show ?thesis by simp
next
  case (v_close_error k i n rc got copyErr er w)
  with live_closed [OF inv] show ?thesis by simp
qed (use inv in \<open>auto simp: live_inv_def\<close>)

lemma not_busy: "\<not> v_busy p \<Longrightarrow> p = Waiting \<or> p = Left"
  by (cases p) (simp_all add: v_busy_def)

lemma live_next:
  assumes inv: "live_inv e s" and calm: "no_panics (ve_objects e)" and "verify_next e s = None"
  shows "all_left s"
proof (cases "first_where v_busy (vs_workers s)")
  case (Some k)
  then have k: "k < length (vs_workers s)" "v_busy (vs_workers s ! k)" by (auto dest!: first_where_Some)
  have c: "closes (vs_workers s ! k)" using inv nth_mem [OF k(1)] unfolding live_inv_def by blast
  from assms(3) Some have "advance e s k (vs_workers s ! k) = None" by (simp add: verify_next_def)
  with k(2) show ?thesis
  proof (cases "vs_workers s ! k")
    case (Opening i n)
    with \<open>advance e s k (vs_workers s ! k) = None\<close> show ?thesis
      using calm quietD [of "ReadObject (ve_objects e) (stopping_ctx e s) (object_of e i n) (ve_key e) (ve_generation e)"]
      unfolding no_panics_def by (auto split: if_splits prod.splits outcome.splits)
  next
    case (Closing i n rc got er)
    with c have "case rc_Close rc (vs_world s) of (Panic _, _) \<Rightarrow> False | _ \<Rightarrow> True" by (simp add: quiet_case)
    with Closing \<open>advance e s k (vs_workers s ! k) = None\<close> show ?thesis
      by (simp split: prod.splits outcome.splits)
  qed (auto simp: v_busy_def split: prod.splits)
next
  case None
  then have idle: "\<forall>p \<in> set (vs_workers s). p = Waiting \<or> p = Left"
    by (metis first_where_None not_busy)
  show ?thesis
  proof (cases "first_where is_waiting (vs_workers s)")
    case (Some k)
    with assms(3) None inv show ?thesis by (auto simp: verify_next_def live_inv_def split: if_splits)
  next
    case n: None
    with idle have left: "\<forall>p \<in> set (vs_workers s). p = Left" by (auto simp: first_where_None)
    with inv have "\<not> vs_feeding s" by (cases "vs_workers s") (auto simp: live_inv_def)
    with left show ?thesis by (auto simp: all_left_def list_all_iff)
  qed
qed

lemma live_init: "live_inv (verify_env_of sv ctx d man) (verify_init sv snapshot man w)"
  by (simp add: live_inv_def verify_init_def worker_count_def Let_def)

lemma live_steps:
  assumes "(verify_step e)\<^sup>*\<^sup>* s0 s" and "live_inv e s0" and "no_panics (ve_objects e)"
  shows "live_inv e s"
  using assms(1) by (induction rule: rtranclp_induct) (use assms(2,3) live_step in blast)+

end
