(* ===== verification/Verify_Properties.thy ===== *)
theory Verify_Properties
  imports Disk_Verify Verify_Run Sample
begin

section \<open>What verification guarantees\<close>

subsection \<open>The disk does not panic\<close>

lemma disk_no_panics: "no_panics (DiskObjectRepository lib root)"
  using readers_quiet(1) by (auto simp: no_panics_def DiskObjectRepository_def quiet_ReadObject)

subsection \<open>A sample\<close>

definition object_hash :: string where "object_hash = content_hash toy_crypto [1, 2, 3]"
definition bad_hash :: string where "bad_hash = content_hash toy_crypto [9]"
definition missing_hash :: string where "missing_hash = content_hash toy_crypto [8]"

definition whole_file :: "string \<Rightarrow> string \<Rightarrow> SnapFile" where
  "whole_file p h = \<lparr>file_path = p, file_size = 3, file_hash = h, file_chunks = []\<rparr>"

definition sample_manifest :: Manifest where
  "sample_manifest = \<lparr>man_id = ''m'',
     man_files = [whole_file ''/s/a'' object_hash, whole_file ''/s/b'' missing_hash, whole_file ''/s/c'' bad_hash],
     man_createdAt = 0, man_source = ''/s'', man_compression = Some no_compression\<rparr>"

definition sample_lib :: library where
  "sample_lib = table_lib [] [manifest_key (manifest_model sample_manifest no_compression)]"

definition sample_repo :: "(fspath \<times> node) list" where
  "sample_repo =
     [([''r''], Dir), ([''r'', ''snapshots''], Dir), ([''r'', ''snapshots'', ''m.json''], File [0, 0, 109, 10]),
      (object_at ''/r'' [] 0 object_hash, File [1, 2, 3]), (object_at ''/r'' [] 0 bad_hash, File [9, 9])]"

definition empty_cache :: "'z os_world_scheme \<Rightarrow> bytes" where "empty_cache w = []"
definition drop_key :: "bytes \<Rightarrow> 'z os_world_scheme \<Rightarrow> 'z os_world_scheme" where "drop_key k w = w"

definition sample_decrypt :: "'z DecryptSymmetricKey" where
  "sample_decrypt = \<lparr>dsk_symmetricKeyRepository = SymmetricRepository toy_crypto,
     dsk_asymmetricRepo = DiskKeyPairRepository toy_crypto, cached_key = empty_cache, store_key = drop_key\<rparr>"

definition sample_verify :: "'z verify_service" where
  "sample_verify = \<lparr>vsv_objects = DiskObjectRepository sample_lib ''/r'',
     vsv_manifests = DiskManifestRepository sample_lib ''/r'', vsv_folder = DiskFolderRepository sample_lib,
     vsv_decrypt = sample_decrypt, vsv_workers = 2, vsv_default = 4, vsv_crypto = toy_crypto\<rparr>"

definition sample_world :: os_world where "sample_world = toy_world sample_repo no_fault"

definition sample_failures :: "FailedResult list" where
  "sample_failures = [\<lparr>failed_path = ''/s/b'', reason = ''not found: '' @ missing_hash\<rparr>,
     \<lparr>failed_path = ''/s/c'', reason = mismatch_reason bad_hash (content_hash toy_crypto [9, 9])\<rparr>]"

lemma sample_prepare:
  "fst (verify_prepare sample_verify background ''/r'' ''m'' None sample_world) = Ok (None, sample_manifest)"
  by code_simp

definition sample_end :: "os_world \<Rightarrow> unit verify_state" where
  "sample_end w = verify_run 30 (verify_env_of sample_verify background None sample_manifest)
     (verify_init sample_verify ''m'' sample_manifest w)"


lemma sample_run:
  "let s = sample_end (snd (verify_prepare sample_verify background ''/r'' ''m'' None sample_world))
   in all_left s \<and> vs_firstErr s = None \<and> failed (vs_result s) = sample_failures \<and> totalFiles (vs_result s) = 3"
  by code_simp

lemma sample_done: "\<exists>r w'. Verify_Do sample_verify background ''/r'' ''m'' None sample_world (Ok r) w' \<and>
    failed r = sample_failures \<and> totalFiles r = 3"
proof -
  let ?p = "verify_prepare sample_verify background ''/r'' ''m'' None"
  let ?s = "sample_end (snd (?p sample_world))"
  have "?p sample_world = (Ok (None, sample_manifest), snd (?p sample_world))" by (rule run_eq) (rule sample_prepare)
  moreover have "(verify_step (verify_env_of sample_verify background None sample_manifest))\<^sup>*\<^sup>*
      (verify_init sample_verify ''m'' sample_manifest (snd (?p sample_world))) ?s"
    unfolding sample_end_def by (rule verify_run_steps)
  moreover have "all_left ?s" "vs_firstErr ?s = None" "failed (vs_result ?s) = sample_failures"
    "totalFiles (vs_result ?s) = 3"
    using sample_run by (simp_all add: Let_def)
  ultimately show ?thesis using v_completed by blast
qed

subsection \<open>The report\<close>

text \<open>
  C4: a verification on a repository on disk that returned without an error, when its context was not
  done at any time up to its end and every hash of the manifest is empty or one of the form of SHA-256,
  reports for every file of the manifest the first thing wrong with it, and nothing else: up to the order
  of the files, its failures are those of the sequential reference on the objects of the disk, and every
  file is counted once. The workers and their schedule make no difference.
\<close>

theorem Verify_correct:
  assumes "Verify_Do sv ctx repositoryPath snapshot privateKeyPath w (Ok r) w'"
    and "verify_prepare sv ctx repositoryPath snapshot privateKeyPath w = (Ok (d, man), w1)"
    and "vsv_objects sv = DiskObjectRepository lib root" and "is_rooted root"
    and "\<forall>f \<in> set (man_files man). \<forall>h \<in> set (verify_hashes f). h = [] \<or> hash_ok h"
    and "\<forall>t \<le> clock w'. \<not> ctx t"
  shows "mset (failed r) = mset (verify_reference (vsv_crypto sv)
      (disk_content lib root (key_of d) (generation_of d) w1) (man_files man)) \<and>
    totalFiles r = int (length (man_files man))"
  using assms(1)
proof (rule Verify_Do_OkE)
  fix d' man' w1' s
  let ?e = "verify_env_of sv ctx d man"
  assume "verify_prepare sv ctx repositoryPath snapshot privateKeyPath w = (Ok (d', man'), w1')"
    and s: "r = vs_result s" "w' = vs_world s" "all_left s" "vs_firstErr s = None"
    and run: "(verify_step (verify_env_of sv ctx d' man'))\<^sup>*\<^sup>* (verify_init sv snapshot man' w1') s"
  with assms(2) have run: "(verify_step ?e)\<^sup>*\<^sup>* (verify_init sv snapshot man w1) s" by simp
  have e: "disk_reader.verifies lib root (key_of d) (generation_of d) ?e"
    unfolding disk_reader.verifies_def using assms(3-5) by (simp add: verify_env_of_def)
  have c: "\<forall>t \<le> clock (vs_world s). \<not> ve_ctx ?e t" using assms(6) s(2) by (simp add: verify_env_of_def)
  from disk_reader.verified [OF e run disk_reader.verify_init_inv s(3,4) c] s(1) show ?thesis
    by (simp add: verify_env_of_def)
qed

theorem Verify_correct_witness:
  "mset sample_failures =
   mset (verify_reference toy_crypto (disk_content sample_lib ''/r'' [] 0
     (snd (verify_prepare sample_verify background ''/r'' ''m'' None sample_world))) (man_files sample_manifest))"
proof -
  let ?p = "verify_prepare sample_verify background ''/r'' ''m'' None"
  obtain r w' where r: "Verify_Do sample_verify background ''/r'' ''m'' None sample_world (Ok r) w'"
    "failed r = sample_failures" using sample_done by blast
  have p: "?p sample_world = (Ok (None, sample_manifest), snd (?p sample_world))" by (rule run_eq) (rule sample_prepare)
  have o: "vsv_objects sample_verify = DiskObjectRepository sample_lib ''/r''" by (simp add: sample_verify_def)
  have h: "is_rooted ''/r''"
    "\<forall>f \<in> set (man_files sample_manifest). \<forall>h \<in> set (verify_hashes f). h = [] \<or> hash_ok h" by code_simp+
  have c: "\<forall>t \<le> clock w'. \<not> background t" by (simp add: background_def)
  from Verify_correct [OF r(1) p o h c] r(2) show ?thesis
    by (simp add: key_of_def generation_of_def sample_verify_def)
qed

text \<open>
  C11: when a verification on a repository on disk reports success, its context was not done at any time
  up to its end, and every hash of the manifest is empty or one of the form of SHA-256, then every object
  a file of the manifest names is on the disk, and what it holds, decrypted with the key, has the hash
  under which it is kept. (Without the condition on the context this fails: a cancelled one can report success.)
\<close>

theorem Verify_success:
  assumes "Verify_Do sv ctx repositoryPath snapshot privateKeyPath w (Ok r) w'" and "IsSuccess r"
    and "verify_prepare sv ctx repositoryPath snapshot privateKeyPath w = (Ok (d, man), w1)"
    and "vsv_objects sv = DiskObjectRepository lib root" and "is_rooted root"
    and "\<forall>f \<in> set (man_files man). \<forall>h \<in> set (verify_hashes f). h = [] \<or> hash_ok h"
    and "\<forall>t \<le> clock w'. \<not> ctx t"
    and "f \<in> set (man_files man)" and "h \<in> set (verify_hashes f)"
  shows "\<exists>raw data. lookup w1 (object_at root (key_of d) (generation_of d) h) = Some (File raw) \<and>
    object_content lib (key_of d) raw = Some data \<and> content_hash (vsv_crypto sv) data = h"
  using assms(1)
proof (rule Verify_Do_OkE)
  fix d' man' w1' s
  let ?e = "verify_env_of sv ctx d man"
  assume "verify_prepare sv ctx repositoryPath snapshot privateKeyPath w = (Ok (d', man'), w1')"
    and s: "r = vs_result s" "w' = vs_world s" "all_left s" "vs_firstErr s = None"
    and run: "(verify_step (verify_env_of sv ctx d' man'))\<^sup>*\<^sup>* (verify_init sv snapshot man' w1') s"
  with assms(3) have run: "(verify_step ?e)\<^sup>*\<^sup>* (verify_init sv snapshot man w1) s" by simp
  have e: "disk_reader.verifies lib root (key_of d) (generation_of d) ?e"
    unfolding disk_reader.verifies_def using assms(4-6) by (simp add: verify_env_of_def)
  have c: "\<forall>t \<le> clock (vs_world s). \<not> ve_ctx ?e t" using assms(7) s(2) by (simp add: verify_env_of_def)
  from disk_reader.verified(1) [OF e run disk_reader.verify_init_inv s(3,4) c] s(1) assms(2)
  have "verify_reference (vsv_crypto sv) (disk_content lib root (key_of d) (generation_of d) w1) (man_files man) = []"
    by (simp add: verify_env_of_def IsSuccess_def)
  from verify_reference_empty [OF this assms(8,9)] show ?thesis
    by (auto simp: disk_content_def split: option.splits node.splits)
qed

text \<open>The same repository with a snapshot of its intact object only.\<close>

definition good_manifest :: Manifest where
  "good_manifest = sample_manifest\<lparr>man_files := [whole_file ''/s/a'' object_hash]\<rparr>"

definition good_lib :: library where
  "good_lib = table_lib [] [manifest_key (manifest_model good_manifest no_compression)]"

definition good_verify :: "'z verify_service" where
  "good_verify = sample_verify\<lparr>vsv_objects := DiskObjectRepository good_lib ''/r'',
     vsv_manifests := DiskManifestRepository good_lib ''/r''\<rparr>"

lemma good_prepare:
  "fst (verify_prepare good_verify background ''/r'' ''m'' None sample_world) = Ok (None, good_manifest)"
  by code_simp

definition good_end :: "unit verify_state" where
  "good_end = verify_run 30 (verify_env_of good_verify background None good_manifest)
     (verify_init good_verify ''m'' good_manifest (snd (verify_prepare good_verify background ''/r'' ''m'' None sample_world)))"

lemma good_run:
  "let s = good_end in all_left s \<and> Option.is_none (vs_firstErr s) \<and> IsSuccess (vs_result s)"
  by code_simp

theorem Verify_success_witness:
  "\<exists>raw data. lookup (snd (verify_prepare good_verify background ''/r'' ''m'' None sample_world))
      (object_at ''/r'' [] 0 object_hash) = Some (File raw) \<and>
    object_content good_lib [] raw = Some data \<and> content_hash toy_crypto data = object_hash"
proof -
  let ?p = "verify_prepare good_verify background ''/r'' ''m'' None"
  have p: "?p sample_world = (Ok (None, good_manifest), snd (?p sample_world))" by (rule run_eq) (rule good_prepare)
  have run: "(verify_step (verify_env_of good_verify background None good_manifest))\<^sup>*\<^sup>*
      (verify_init good_verify ''m'' good_manifest (snd (?p sample_world))) good_end"
    unfolding good_end_def by (rule verify_run_steps)
  have fin: "all_left good_end" "vs_firstErr good_end = None" "IsSuccess (vs_result good_end)"
    using good_run by (simp_all add: Let_def Option.is_none_def split: option.splits)
  note ran = v_completed [OF p run fin(1,2)]
  have o: "vsv_objects good_verify = DiskObjectRepository good_lib ''/r''" by (simp add: good_verify_def)
  have h: "is_rooted ''/r''"
    "\<forall>f \<in> set (man_files good_manifest). \<forall>h \<in> set (verify_hashes f). h = [] \<or> hash_ok h" by code_simp+
  have c: "\<forall>t \<le> clock (vs_world good_end). \<not> background t" by (simp add: background_def)
  have f: "whole_file ''/s/a'' object_hash \<in> set (man_files good_manifest)"
    "object_hash \<in> set (verify_hashes (whole_file ''/s/a'' object_hash))"
    by (simp_all add: good_manifest_def verify_hashes_def whole_file_def)
  from Verify_success [OF ran fin(3) p o h c f] show ?thesis
    by (simp add: key_of_def generation_of_def good_verify_def sample_verify_def)
qed

subsection \<open>It ends\<close>

text \<open>
  C21: no schedule of a verification of a repository on disk runs forever, and none gets stuck: a run
  that cannot go on has all its workers gone, so the call returns.
\<close>

theorem Verify_terminates:
  assumes "vsv_objects sv = DiskObjectRepository lib root"
  shows "wfP (verify_step (verify_env_of sv ctx d man))\<inverse>\<inverse> \<and>
    (\<forall>s. (verify_step (verify_env_of sv ctx d man))\<^sup>*\<^sup>* (verify_init sv snapshot man w) s \<longrightarrow>
       all_left s \<or> (\<exists>s'. verify_step (verify_env_of sv ctx d man) s s'))"
proof (intro conjI allI impI)
  let ?e = "verify_env_of sv ctx d man"
  show "wfP (verify_step ?e)\<inverse>\<inverse>" by (rule verify_step_wf)
  fix s assume run: "(verify_step ?e)\<^sup>*\<^sup>* (verify_init sv snapshot man w) s"
  have calm: "no_panics (ve_objects ?e)" using assms by (simp add: verify_env_of_def disk_no_panics)
  show "all_left s \<or> (\<exists>s'. verify_step ?e s s')"
  proof (cases "verify_next ?e s")
    case None
    with live_next [OF live_steps [OF run live_init calm] calm] show ?thesis by blast
  next
    case (Some s')
    with verify_next_step show ?thesis by blast
  qed
qed

theorem Verify_terminates_witness:
  "\<exists>s'. verify_step (verify_env_of sample_verify background None sample_manifest)
     (verify_init sample_verify ''m'' sample_manifest sample_world) s'"
proof -
  have o: "vsv_objects sample_verify = DiskObjectRepository sample_lib ''/r''" by (simp add: sample_verify_def)
  have "\<not> all_left (verify_init sample_verify ''m'' sample_manifest sample_world)" by code_simp
  with Verify_terminates [OF o, of background None sample_manifest "''m''" sample_world] show ?thesis by blast
qed

subsection \<open>A verification that is cancelled\<close>

lemma leave_all:
  assumes "\<not> vs_feeding s" and "vs_workers s = replicate a Left @ replicate b Waiting"
  shows "\<exists>s'. (verify_step e)\<^sup>*\<^sup>* s s' \<and> all_left s' \<and> vs_firstErr s' = vs_firstErr s \<and>
    vs_result s' = vs_result s \<and> vs_world s' = vs_world s"
  using assms
proof (induction b arbitrary: a s)
  case 0
  then show ?case by (intro exI [of _ s]) (simp add: all_left_def list_all_iff)
next
  case (Suc b)
  let ?s = "v_move a Left (vs_world s) s"
  have "vs_workers ?s = replicate (Suc a) Left @ replicate b Waiting"
    using Suc.prems(2) by (simp add: v_move_def list_update_append replicate_app_Cons_same)
  moreover have "\<not> vs_feeding ?s" using Suc.prems(1) by (simp add: v_move_def)
  ultimately obtain s' where s': "(verify_step e)\<^sup>*\<^sup>* ?s s'" "all_left s'" "vs_firstErr s' = vs_firstErr ?s"
    "vs_result s' = vs_result ?s" "vs_world s' = vs_world ?s" using Suc.IH by blast
  have "verify_step e s ?s"
    by (rule v_leave) (use Suc.prems in \<open>simp_all add: nth_append\<close>)
  with s' show ?case
    by (intro exI [of _ s']) (simp add: converse_rtranclp_into_rtranclp v_move_def)
qed

text \<open>
  C36: when the context is done before the first file is handed to a worker, the verification can return,
  without an error, a result that counts no file and reports success, whatever the manifest names: it
  does so in the runs in which the feeder takes the done context before it hands out a file (between the
  two a \<^verbatim>\<open>select\<close> chooses at random), for then no worker meets an error.
\<close>

theorem Verify_cancelled:
  assumes "verify_prepare sv ctx repositoryPath snapshot privateKeyPath w = (Ok (d, man), w1)" and "ctx (clock w1)"
  shows "Verify_Do sv ctx repositoryPath snapshot privateKeyPath w (Ok (NewResult snapshot)) w1 \<and>
    IsSuccess (NewResult snapshot)"
proof -
  let ?e = "verify_env_of sv ctx d man"
  let ?s = "verify_init sv snapshot man w1"
  have stop: "verify_step ?e ?s (?s\<lparr>vs_feeding := False\<rparr>)"
    by (rule v_feed_break) (use assms(2) in \<open>simp_all add: verify_init_def verify_env_of_def\<close>)
  have "vs_workers (?s\<lparr>vs_feeding := False\<rparr>) = replicate 0 Left @
      replicate (worker_count (vsv_workers sv) (vsv_default sv) (length (man_files man))) Waiting"
    by (simp add: verify_init_def)
  from leave_all [OF _ this, of ?e] obtain s where s: "(verify_step ?e)\<^sup>*\<^sup>* (?s\<lparr>vs_feeding := False\<rparr>) s" "all_left s"
    "vs_firstErr s = None" "vs_result s = NewResult snapshot" "vs_world s = w1"
    by (auto simp: verify_init_def)
  with v_completed [OF assms(1) _ s(2,3)] stop show ?thesis
    by (simp add: converse_rtranclp_into_rtranclp NewResult_def IsSuccess_def)
qed

definition done_at :: "nat \<Rightarrow> ctx" where "done_at n t \<longleftrightarrow> n \<le> t"

theorem Verify_cancelled_witness:
  "\<exists>w'. Verify_Do sample_verify (done_at 2) ''/r'' ''m'' None sample_world (Ok (NewResult ''m'')) w' \<and>
     length (man_files sample_manifest) = 3"
proof -
  let ?p = "verify_prepare sample_verify (done_at 2) ''/r'' ''m'' None"
  have p: "?p sample_world = (Ok (None, sample_manifest), snd (?p sample_world))" by (rule run_eq) code_simp
  have c: "done_at 2 (clock (snd (?p sample_world)))" by code_simp
  have "length (man_files sample_manifest) = 3" by code_simp
  with Verify_cancelled [OF p c] show ?thesis by blast
qed

end
