(* ===== verification/ReKey.thy ===== *)
theory ReKey
  imports Create
begin

section \<open>Changing the symmetric key of a repository\<close>

text \<open>
  \<^verbatim>\<open>internal/domain/snapshot/rekey.go\<close>. A new key gets a new generation of encrypted
  objects: every object of the current generation is read, decrypted and saved under the new key in
  the next one by a group of workers; then the configuration is written, which commits the change, and
  the old generation is deleted. An error before the commit deletes the new generation. The group of
  workers is a step relation, as in \<^theory_text>\<open>Create\<close> and \<^theory_text>\<open>Verify\<close>; a worker that
  meets an error leaves.
\<close>

definition maxRekeyWorkers :: nat where "maxRekeyWorkers = 8"

subsection \<open>State\<close>

datatype 'z rekeyer =
    Ready
  | Reading nat
  | Resaving nat "'z ReadCloser"
  | Releasing nat "'z ReadCloser" "error option"
  | Gone

record 'z rekey_state =
  rs_world :: "'z os_world_scheme"
  rs_next :: nat
  rs_feeding :: bool
  rs_firstErr :: "error option"
  rs_workers :: "'z rekeyer list"

record 'z rekey_env =
  re_objects :: "'z ObjectRepository"
  re_ctx :: ctx
  re_hashes :: "string list"
  re_old_generation :: uint64
  re_new_generation :: uint64
  re_old_key :: bytes
  re_new_key :: bytes

subsection \<open>Moves\<close>

definition r_move :: "nat \<Rightarrow> 'z rekeyer \<Rightarrow> 'z os_world_scheme \<Rightarrow> 'z rekey_state \<Rightarrow> 'z rekey_state" where
  "r_move k p w s = s\<lparr>rs_workers := (rs_workers s)[k := p], rs_world := w\<rparr>"

text \<open>A worker that returns an error: the group keeps the first one and cancels its context.\<close>

definition r_error :: "nat \<Rightarrow> error \<Rightarrow> 'z os_world_scheme \<Rightarrow> 'z rekey_state \<Rightarrow> 'z rekey_state" where
  "r_error k er w s =
     (r_move k Gone w s)\<lparr>rs_firstErr := record_error (Wrapped ''rekey object'' er) (rs_firstErr s)\<rparr>"

text \<open>The end of \<^verbatim>\<open>rekeyObject\<close>: the errors of saving and of closing joined.\<close>

definition r_released ::
  "nat \<Rightarrow> error option \<Rightarrow> error option \<Rightarrow> 'z os_world_scheme \<Rightarrow> 'z rekey_state \<Rightarrow> 'z rekey_state" where
  "r_released k saveErr closeErr w s =
     (case errors_Join saveErr closeErr of
        None \<Rightarrow> r_move k Ready w s
      | Some er \<Rightarrow> r_error k er w s)"

definition r_busy :: "'z rekeyer \<Rightarrow> bool" where
  "r_busy p \<longleftrightarrow> (case p of Ready \<Rightarrow> False | Gone \<Rightarrow> False | _ \<Rightarrow> True)"

definition r_ctx :: "'z rekey_env \<Rightarrow> 'z rekey_state \<Rightarrow> nat \<Rightarrow> ctx \<Rightarrow> bool" where
  "r_ctx e s k c \<longleftrightarrow>
     (\<forall>t. re_ctx e t \<longrightarrow> c t) \<and>
     (rs_firstErr s \<noteq> None \<longrightarrow> (\<forall>t \<ge> clock (rs_world s). c t)) \<and>
     (c = re_ctx e \<or> rs_firstErr s \<noteq> None \<or> (\<exists>j < length (rs_workers s). j \<noteq> k \<and> r_busy (rs_workers s ! j)))"

definition r_stop :: "'z rekey_env \<Rightarrow> 'z rekey_state \<Rightarrow> bool" where
  "r_stop e s \<longleftrightarrow> re_ctx e (clock (rs_world s)) \<or> rs_firstErr s \<noteq> None"

definition r_hash :: "'z rekey_env \<Rightarrow> nat \<Rightarrow> string" where
  "r_hash e i = re_hashes e ! i"

subsection \<open>The steps\<close>

inductive rekey_step :: "'z rekey_env \<Rightarrow> 'z rekey_state \<Rightarrow> 'z rekey_state \<Rightarrow> bool" for e where
  r_feed: "rs_feeding s \<Longrightarrow> rs_next s < length (re_hashes e) \<Longrightarrow> k < length (rs_workers s) \<Longrightarrow>
    rs_workers s ! k = Ready \<Longrightarrow>
    rekey_step e s ((r_move k (Reading (rs_next s)) (rs_world s) s)\<lparr>rs_next := Suc (rs_next s)\<rparr>)"
| r_feed_end: "rs_feeding s \<Longrightarrow> rs_next s = length (re_hashes e) \<Longrightarrow> rekey_step e s (s\<lparr>rs_feeding := False\<rparr>)"
| r_feed_break: "rs_feeding s \<Longrightarrow> r_stop e s \<Longrightarrow> rekey_step e s (s\<lparr>rs_feeding := False\<rparr>)"
| r_leave: "\<not> rs_feeding s \<or> r_stop e s \<Longrightarrow> k < length (rs_workers s) \<Longrightarrow> rs_workers s ! k = Ready \<Longrightarrow>
    rekey_step e s (r_move k Gone (rs_world s) s)"
| r_read: "k < length (rs_workers s) \<Longrightarrow> rs_workers s ! k = Reading i \<Longrightarrow> r_ctx e s k c \<Longrightarrow>
    ReadEncryptedObject (re_objects e) c (r_hash e i) (re_old_generation e) (re_old_key e) (rs_world s) = (Ok rc, w) \<Longrightarrow>
    rekey_step e s (r_move k (Resaving i rc) w s)"
| r_read_error: "k < length (rs_workers s) \<Longrightarrow> rs_workers s ! k = Reading i \<Longrightarrow> r_ctx e s k c \<Longrightarrow>
    ReadEncryptedObject (re_objects e) c (r_hash e i) (re_old_generation e) (re_old_key e) (rs_world s) = (Err er, w) \<Longrightarrow>
    rekey_step e s (r_error k er w s)"
| r_save: "k < length (rs_workers s) \<Longrightarrow> rs_workers s ! k = Resaving i rc \<Longrightarrow> r_ctx e s k c \<Longrightarrow>
    SaveRekeyedObject (re_objects e) c (r_hash e i) rc (re_new_generation e) (re_new_key e) (rs_world s) = (Ok (), w) \<Longrightarrow>
    rekey_step e s (r_move k (Releasing i rc None) w s)"
| r_save_error: "k < length (rs_workers s) \<Longrightarrow> rs_workers s ! k = Resaving i rc \<Longrightarrow> r_ctx e s k c \<Longrightarrow>
    SaveRekeyedObject (re_objects e) c (r_hash e i) rc (re_new_generation e) (re_new_key e) (rs_world s) = (Err er, w) \<Longrightarrow>
    rekey_step e s (r_move k (Releasing i rc (Some er)) w s)"
| r_close: "k < length (rs_workers s) \<Longrightarrow> rs_workers s ! k = Releasing i rc saveErr \<Longrightarrow>
    rc_Close rc (rs_world s) = (Ok (), w) \<Longrightarrow>
    rekey_step e s (r_released k saveErr None w s)"
| r_close_error: "k < length (rs_workers s) \<Longrightarrow> rs_workers s ! k = Releasing i rc saveErr \<Longrightarrow>
    rc_Close rc (rs_world s) = (Err er, w) \<Longrightarrow>
    rekey_step e s (r_released k saveErr (Some er) w s)"

definition all_gone :: "'z rekey_state \<Rightarrow> bool" where
  "all_gone s \<longleftrightarrow> \<not> rs_feeding s \<and> list_all (\<lambda>p. case p of Gone \<Rightarrow> True | _ \<Rightarrow> False) (rs_workers s)"

subsection \<open>The command\<close>

record 'z rekey_service =
  rk_folder :: "'z FolderRepository"
  rk_symmetric :: "'z SymmetricKeyRepository"
  rk_asymmetric :: "'z AsymmetricKeyPairRepository"
  rk_objects :: "'z ObjectRepository"

text \<open>What is known when the objects are about to be saved again.\<close>

record rekey_plan =
  rp_config :: Config
  rp_encryption :: EncryptionConfig
  rp_old_key :: bytes
  rp_new_key :: bytes
  rp_encrypted :: bytes
  rp_public :: rsa_PublicKey
  rp_fingerprint :: string
  rp_hashes :: "string list"

definition new_generation :: "rekey_plan \<Rightarrow> uint64" where
  "new_generation p = Encryption.generation (rp_encryption p) + 1"

definition rekey_prepare ::
  "'z rekey_service \<Rightarrow> ctx \<Rightarrow> string \<Rightarrow> string \<Rightarrow> string \<Rightarrow> ('z, rekey_plan) os" where
  "rekey_prepare sv ctx repositoryPath privateKeyPath publicKeyPath =
     andThen (GetConfig (rk_folder sv) ctx repositoryPath) (\<lambda>conf.
     (case encryption conf of
        None \<Rightarrow> fail ErrMissingEncryptionConfigToEncrypt
      | Some enc \<Rightarrow>
          andThen (ReadRSAPrivateKey (rk_asymmetric sv) ctx privateKeyPath) (\<lambda>priv.
          andThen (DecodeAndDecryptSymmetricKey (rk_symmetric sv) ctx priv (encryptedKey enc)) (\<lambda>oldKey.
          andThen (ReadRSAPublicKey (rk_asymmetric sv) ctx publicKeyPath) (\<lambda>pub.
          andThen (GenerateSymmetricKey (rk_symmetric sv) ctx) (\<lambda>newKey.
          andThen (EncryptSymmetricKey (rk_symmetric sv) ctx pub newKey) (\<lambda>ek.
          andThen (PublicKeyFingerPrint (rk_asymmetric sv) ctx pub) (\<lambda>fp.
          andThen (ListEncryptedObjects (rk_objects sv) ctx (Encryption.generation enc)) (\<lambda>hashes.
          return \<lparr>rp_config = conf, rp_encryption = enc, rp_old_key = oldKey, rp_new_key = newKey,
            rp_encrypted = ek, rp_public = pub, rp_fingerprint = fp, rp_hashes = hashes\<rparr>)))))))))"

definition rekey_env_of :: "'z rekey_service \<Rightarrow> ctx \<Rightarrow> rekey_plan \<Rightarrow> 'z rekey_env" where
  "rekey_env_of sv ctx p =
     \<lparr>re_objects = rk_objects sv, re_ctx = ctx, re_hashes = rp_hashes p,
      re_old_generation = Encryption.generation (rp_encryption p), re_new_generation = new_generation p,
      re_old_key = rp_old_key p, re_new_key = rp_new_key p\<rparr>"

text \<open>Without hashes no group is started.\<close>

definition rekey_init :: "rekey_plan \<Rightarrow> 'z os_world_scheme \<Rightarrow> 'z rekey_state" where
  "rekey_init p w =
     \<lparr>rs_world = w, rs_next = 0, rs_feeding = (rp_hashes p \<noteq> []), rs_firstErr = None,
      rs_workers = replicate (min maxRekeyWorkers (length (rp_hashes p))) Ready\<rparr>"

definition rekeyed_config :: "rekey_plan \<Rightarrow> Config" where
  "rekeyed_config p =
     (rp_config p)\<lparr>encryption := Some (ChangePublicKeyFingerPrint (rp_fingerprint p)
       (ChangeEncryptedKey (base64_EncodeToString (rp_encrypted p))
         (ChangeGeneration (new_generation p) (rp_encryption p))))\<rparr>"

text \<open>
  The deferred cleanup, under a context of its own that some time is done; its error is joined to the
  one it follows.
\<close>

definition rekey_abort :: "'z rekey_service \<Rightarrow> rekey_plan \<Rightarrow> ctx \<Rightarrow> error \<Rightarrow> ('z, unit) os" where
  "rekey_abort sv p cleanup er =
     tryCatch (AbortRekey (rk_objects sv) cleanup (new_generation p))
       (\<lambda>er'. fail (Joined [er, er'])) (\<lambda>_. fail er)"

definition rekey_commit :: "'z rekey_service \<Rightarrow> ctx \<Rightarrow> string \<Rightarrow> rekey_plan \<Rightarrow> ctx \<Rightarrow> ('z, unit) os" where
  "rekey_commit sv ctx repositoryPath p cleanup =
     tryCatch (CreateConfig (rk_folder sv) ctx repositoryPath (rekeyed_config p))
       (rekey_abort sv p cleanup)
       (\<lambda>_. DeleteEncryptedGeneration (rk_objects sv) ctx (Encryption.generation (rp_encryption p)))"

inductive ReKey_Do ::
  "'z rekey_service \<Rightarrow> ctx \<Rightarrow> string \<Rightarrow> string \<Rightarrow> string \<Rightarrow> 'z os_world_scheme \<Rightarrow>
   unit outcome \<Rightarrow> 'z os_world_scheme \<Rightarrow> bool"
  for sv ctx repositoryPath privateKeyPath publicKeyPath w where
  r_unprepared: "rekey_prepare sv ctx repositoryPath privateKeyPath publicKeyPath w = (Err er, w') \<Longrightarrow>
    ReKey_Do sv ctx repositoryPath privateKeyPath publicKeyPath w (Err er) w'"
| r_aborted: "rekey_prepare sv ctx repositoryPath privateKeyPath publicKeyPath w = (Ok p, w1) \<Longrightarrow>
    (rekey_step (rekey_env_of sv ctx p))\<^sup>*\<^sup>* (rekey_init p w1) s \<Longrightarrow> all_gone s \<Longrightarrow> rs_firstErr s = Some er \<Longrightarrow>
    rekey_abort sv p cleanup er (rs_world s) = (r, w') \<Longrightarrow>
    ReKey_Do sv ctx repositoryPath privateKeyPath publicKeyPath w r w'"
| r_committed: "rekey_prepare sv ctx repositoryPath privateKeyPath publicKeyPath w = (Ok p, w1) \<Longrightarrow>
    (rekey_step (rekey_env_of sv ctx p))\<^sup>*\<^sup>* (rekey_init p w1) s \<Longrightarrow> all_gone s \<Longrightarrow> rs_firstErr s = None \<Longrightarrow>
    rekey_commit sv ctx repositoryPath p cleanup (rs_world s) = (r, w') \<Longrightarrow>
    ReKey_Do sv ctx repositoryPath privateKeyPath publicKeyPath w r w'"

inductive_cases ReKey_DoE: "ReKey_Do sv ctx repositoryPath privateKeyPath publicKeyPath w r w'"

end
