(* ===== verification/ReKey_Facts.thy ===== *)
theory ReKey_Facts
  imports ReKey
begin

section \<open>A change of the key loses nothing\<close>

text \<open>
  The contract between the change of the key and the object repository is the locale
  \<open>rekey_store\<close>: what the operations on encrypted generations change, and that an object which was
  read and saved again has the same content under the new key. Under it the workers leave the current
  generation and the configuration alone, and when they are done without an error the new generation
  has every object of the list.
\<close>

definition yields :: "'z ReadCloser \<Rightarrow> bytes \<Rightarrow> bool" where
  "yields rc b \<longleftrightarrow> (\<forall>c w got w'. rc_Read rc c w = ((got, None), w') \<longrightarrow> got = b)"

text \<open>At most the objects of the set are changed, and the configuration is not.\<close>

definition changes_only ::
  "('z os_world_scheme \<Rightarrow> uint64 \<Rightarrow> string \<Rightarrow> bytes option) \<Rightarrow> ('z os_world_scheme \<Rightarrow> node option) \<Rightarrow>
   (string \<Rightarrow> bool) \<Rightarrow> (uint64 \<times> string) set \<Rightarrow> 'z os_world_scheme \<Rightarrow> 'z os_world_scheme \<Rightarrow> bool" where
  "changes_only stored conf valid S w w' \<longleftrightarrow> clock w \<le> clock w' \<and> conf w' = conf w \<and>
     (\<forall>g h. valid h \<longrightarrow> (g, h) \<notin> S \<longrightarrow> stored w' g h = stored w g h)"

lemma changes_refl [simp]: "changes_only stored conf valid S w w"
  by (simp add: changes_only_def)

lemma changes_trans:
  assumes a: "changes_only stored conf valid S w w1" and b: "changes_only stored conf valid T w1 w2" and t: "T \<subseteq> S"
  shows "changes_only stored conf valid S w w2"
proof -
  have "stored w2 g h = stored w g h" if "valid h" "(g, h) \<notin> S" for g h
    using that a b t unfolding changes_only_def by (metis subsetD)
  with a b show ?thesis unfolding changes_only_def by simp
qed

locale rekey_store =
  fixes orp :: "'z ObjectRepository"
    and stored :: "'z os_world_scheme \<Rightarrow> uint64 \<Rightarrow> string \<Rightarrow> bytes option"
    and opens :: "bytes \<Rightarrow> bytes \<Rightarrow> bytes option"
    and conf :: "'z os_world_scheme \<Rightarrow> node option"
    and valid :: "string \<Rightarrow> bool" and lawful :: bool
  assumes read_ok: "lawful \<Longrightarrow> ReadEncryptedObject orp c h g key w = (Ok rc, w') \<Longrightarrow> valid h \<Longrightarrow>
      \<exists>raw b. stored w g h = Some raw \<and> opens key raw = Some b \<and> yields rc b"
    and read_frame: "ReadEncryptedObject orp c h g key w = (r, w') \<Longrightarrow> changes_only stored conf valid {} w w'"
    and close_frame: "lawful \<Longrightarrow> valid h \<Longrightarrow> ReadEncryptedObject orp c h g key w = (Ok rc, w1) \<Longrightarrow>
      rc_Close rc w2 = (u, w3) \<Longrightarrow> changes_only stored conf valid {} w2 w3"
    and save_ok: "lawful \<Longrightarrow> valid h \<Longrightarrow> ReadEncryptedObject orp c h g key w = (Ok rc, w1) \<Longrightarrow> yields rc b \<Longrightarrow>
      SaveRekeyedObject orp c' h rc g' key' w2 = (Ok (), w3) \<Longrightarrow>
      \<exists>raw. stored w3 g' h = Some raw \<and> opens key' raw = Some b"
    and save_error: "lawful \<Longrightarrow> valid h \<Longrightarrow> ReadEncryptedObject orp c h g key w = (Ok rc, w1) \<Longrightarrow>
      SaveRekeyedObject orp c' h rc g' key' w2 = (Err er, w3) \<Longrightarrow> changes_only stored conf valid {} w2 w3"
    and save_frame: "lawful \<Longrightarrow> valid h \<Longrightarrow> ReadEncryptedObject orp c h g key w = (Ok rc, w1) \<Longrightarrow>
      SaveRekeyedObject orp c' h rc g' key' w2 = (Ok (), w3) \<Longrightarrow> changes_only stored conf valid {(g', h)} w2 w3"
    and abort_frame: "lawful \<Longrightarrow> AbortRekey orp c g w = (v, w') \<Longrightarrow>
      changes_only stored conf valid {(g, h) |h. True} w w'"
    and delete_frame: "lawful \<Longrightarrow> DeleteEncryptedGeneration orp c g w = (v, w') \<Longrightarrow>
      changes_only stored conf valid {(g, h) |h. True} w w'"
    and delete_ok: "lawful \<Longrightarrow> DeleteEncryptedGeneration orp c g w = (Ok (), w') \<Longrightarrow> stored w' g h = None"
begin

abbreviation unchanged :: "'z os_world_scheme \<Rightarrow> 'z os_world_scheme \<Rightarrow> bool" where
  "unchanged \<equiv> changes_only stored conf valid {}"

text \<open>A reader that was opened on an object of the current generation.\<close>

definition opened_on :: "'z rekey_env \<Rightarrow> string \<Rightarrow> 'z ReadCloser \<Rightarrow> bool" where
  "opened_on e h rc \<longleftrightarrow>
     (\<exists>c w w'. ReadEncryptedObject orp c h (re_old_generation e) (re_old_key e) w = (Ok rc, w'))"

definition resaved :: "'z rekey_env \<Rightarrow> 'z os_world_scheme \<Rightarrow> 'z os_world_scheme \<Rightarrow> string \<Rightarrow> bool" where
  "resaved e w0 w h \<longleftrightarrow>
     (\<exists>raw raw' b. stored w0 (re_old_generation e) h = Some raw \<and> opens (re_old_key e) raw = Some b \<and>
        stored w (re_new_generation e) h = Some raw' \<and> opens (re_new_key e) raw' = Some b)"

fun assigned :: "'z rekeyer \<Rightarrow> nat option" where
  "assigned (Reading i) = Some i"
| "assigned (Resaving i rc) = Some i"
| "assigned (Releasing i rc er) = Some i"
| "assigned Ready = None"
| "assigned Gone = None"

fun in_order :: "'z rekey_env \<Rightarrow> 'z os_world_scheme \<Rightarrow> 'z os_world_scheme \<Rightarrow> nat \<Rightarrow> 'z rekeyer \<Rightarrow> bool" where
  "in_order e w0 w m (Reading i) \<longleftrightarrow> i < m"
| "in_order e w0 w m (Resaving i rc) \<longleftrightarrow> i < m \<and> opened_on e (r_hash e i) rc \<and>
     (\<exists>raw b. stored w0 (re_old_generation e) (r_hash e i) = Some raw \<and> opens (re_old_key e) raw = Some b \<and> yields rc b)"
| "in_order e w0 w m (Releasing i rc er) \<longleftrightarrow> i < m \<and> opened_on e (r_hash e i) rc \<and>
     (er = None \<longrightarrow> resaved e w0 w (r_hash e i))"
| "in_order e w0 w m Ready \<longleftrightarrow> True"
| "in_order e w0 w m Gone \<longleftrightarrow> True"

text \<open>The environments of a run on this repository.\<close>

definition rekeys :: "'z rekey_env \<Rightarrow> bool" where
  "rekeys e \<longleftrightarrow> lawful \<and> re_objects e = orp \<and> re_new_generation e \<noteq> re_old_generation e \<and>
     (\<forall>h \<in> set (re_hashes e). valid h)"

definition rekey_inv :: "'z rekey_env \<Rightarrow> 'z os_world_scheme \<Rightarrow> 'z rekey_state \<Rightarrow> bool" where
  "rekey_inv e w0 s \<longleftrightarrow>
     changes_only stored conf valid {(re_new_generation e, h) |h. True} w0 (rs_world s) \<and>
     rs_next s \<le> length (re_hashes e) \<and>
     (\<forall>k < length (rs_workers s). in_order e w0 (rs_world s) (rs_next s) (rs_workers s ! k)) \<and>
     (rs_firstErr s = None \<longrightarrow>
        (\<forall>i < rs_next s. resaved e w0 (rs_world s) (r_hash e i) \<or>
           (\<exists>k < length (rs_workers s). assigned (rs_workers s ! k) = Some i)) \<and>
        (\<not> rs_feeding s \<longrightarrow> rs_next s = length (re_hashes e) \<or> (\<exists>t \<le> clock (rs_world s). re_ctx e t)))"

lemma rekey_init_inv: "rekey_inv (rekey_env_of sv ctx p) w (rekey_init p w)"
  by (simp add: rekey_inv_def rekey_init_def rekey_env_of_def)

text \<open>A world in which what is resaved stays so.\<close>

definition extends :: "'z rekey_env \<Rightarrow> 'z os_world_scheme \<Rightarrow> 'z os_world_scheme \<Rightarrow> 'z os_world_scheme \<Rightarrow> bool" where
  "extends e w0 w w' \<longleftrightarrow> changes_only stored conf valid {(re_new_generation e, h) |h. True} w w' \<and>
     (\<forall>h. valid h \<longrightarrow> resaved e w0 w h \<longrightarrow> resaved e w0 w' h)"

lemma extends_unchanged: "unchanged w w' \<Longrightarrow> extends e w0 w w'"
  by (auto simp: extends_def changes_only_def resaved_def)

lemma hash_valid: "rekeys e \<Longrightarrow> i < rs_next s \<Longrightarrow> rekey_inv e w0 s \<Longrightarrow> valid (r_hash e i)"
  by (auto simp: rekeys_def rekey_inv_def r_hash_def)

lemma in_order_later:
  assumes "in_order e w0 w m p" and "extends e w0 w w'" and "m \<le> m'"
    and "\<And>i. i < m \<Longrightarrow> valid (r_hash e i)"
  shows "in_order e w0 w' m' p"
  using assms by (cases p) (auto simp: extends_def)

text \<open>A worker moves; what it leaves is resaved, or it is still on it.\<close>

lemma inv_move:
  assumes run: "rekeys e" and inv: "rekey_inv e w0 s" and k: "k < length (rs_workers s)"
    and ext: "extends e w0 (rs_world s) w" and p: "in_order e w0 w (rs_next s) p"
    and left: "\<And>i. assigned (rs_workers s ! k) = Some i \<Longrightarrow> assigned p \<noteq> Some i \<Longrightarrow> resaved e w0 w (r_hash e i)"
  shows "rekey_inv e w0 (r_move k p w s)"
proof -
  have "in_order e w0 w (rs_next s) ((rs_workers s)[k := p] ! j)" if "j < length (rs_workers s)" for j
  proof (cases "j = k")
    case False
    from inv that have "in_order e w0 (rs_world s) (rs_next s) (rs_workers s ! j)" by (simp add: rekey_inv_def)
    from in_order_later [OF this ext le_refl hash_valid [OF run _ inv]] False show ?thesis by simp
  qed (simp add: k p)
  moreover have "resaved e w0 w (r_hash e i) \<or> (\<exists>j < length (rs_workers s). assigned ((rs_workers s)[k := p] ! j) = Some i)"
    if none: "rs_firstErr s = None" and i: "i < rs_next s" for i
  proof -
    from inv none i consider "resaved e w0 (rs_world s) (r_hash e i)"
      | j where "j < length (rs_workers s)" "assigned (rs_workers s ! j) = Some i"
      unfolding rekey_inv_def by blast
    then show ?thesis
    proof cases
      case 1
      with ext hash_valid [OF run i inv] show ?thesis by (simp add: extends_def)
    next
      case (2 j)
      show ?thesis
      proof (cases "j = k")
        case True
        with 2 left [of i] k show ?thesis by (cases "assigned p = Some i") (auto intro!: exI [of _ k])
      next
        case False
        with 2 show ?thesis by (auto intro!: exI [of _ j])
      qed
    qed
  qed
  moreover have "changes_only stored conf valid {(re_new_generation e, h) |h. True} w0 w"
    using inv ext changes_trans unfolding rekey_inv_def extends_def by blast
  moreover have "rs_next s = length (re_hashes e) \<or> (\<exists>t \<le> clock w. re_ctx e t)"
    if "rs_firstErr s = None" "\<not> rs_feeding s"
  proof -
    have "clock (rs_world s) \<le> clock w" using ext by (simp add: extends_def changes_only_def)
    with inv that show ?thesis unfolding rekey_inv_def by (meson le_trans)
  qed
  ultimately show ?thesis using inv by (simp add: rekey_inv_def r_move_def)
qed

lemma inv_error:
  assumes run: "rekeys e" and inv: "rekey_inv e w0 s" and k: "k < length (rs_workers s)"
    and ext: "extends e w0 (rs_world s) w"
  shows "rekey_inv e w0 (r_error k er w s)"
proof -
  have "in_order e w0 w (rs_next s) ((rs_workers s)[k := Gone] ! j)" if "j < length (rs_workers s)" for j
  proof (cases "j = k")
    case False
    from inv that have "in_order e w0 (rs_world s) (rs_next s) (rs_workers s ! j)" by (simp add: rekey_inv_def)
    from in_order_later [OF this ext le_refl hash_valid [OF run _ inv]] False show ?thesis by simp
  qed (simp add: k)
  moreover have "changes_only stored conf valid {(re_new_generation e, h) |h. True} w0 w"
    using inv ext changes_trans unfolding rekey_inv_def extends_def by blast
  moreover obtain er' where "rs_firstErr (r_error k er w s) = Some er'"
    by (cases "rs_firstErr s") (simp_all add: r_error_def record_error_def)
  moreover have "rs_world (r_error k er w s) = w" "rs_next (r_error k er w s) = rs_next s"
    "rs_workers (r_error k er w s) = (rs_workers s)[k := Gone]"
    by (simp_all add: r_error_def r_move_def)
  ultimately show ?thesis using inv unfolding rekey_inv_def by simp
qed

lemma inv_released:
  assumes run: "rekeys e" and inv: "rekey_inv e w0 s" and k: "k < length (rs_workers s)"
    and p: "rs_workers s ! k = Releasing i rc saveErr" and close: "rc_Close rc (rs_world s) = (u, w)"
  shows "rekey_inv e w0 (r_released k saveErr closeErr w s)"
proof -
  from inv k p have T: "i < rs_next s" "opened_on e (r_hash e i) rc"
    "saveErr = None \<longrightarrow> resaved e w0 (rs_world s) (r_hash e i)"
    unfolding rekey_inv_def by force+
  have l: lawful using run by (simp add: rekeys_def)
  from T(2) close_frame [OF l hash_valid [OF run T(1) inv] _ close]
  have "unchanged (rs_world s) w" by (auto simp: opened_on_def)
  then have ext: "extends e w0 (rs_world s) w" by (rule extends_unchanged)
  show ?thesis
  proof (cases "errors_Join saveErr closeErr")
    case None
    then have "resaved e w0 w (r_hash e i)" using T ext hash_valid [OF run T(1) inv] by (simp add: extends_def)
    with None p show ?thesis
      unfolding r_released_def by (auto intro: inv_move [OF run inv k ext])
  next
    case (Some er)
    with inv_error [OF run inv k ext] show ?thesis by (simp add: r_released_def)
  qed
qed

lemma rekey_step_inv:
  assumes step: "rekey_step e s s'" and run: "rekeys e" and inv: "rekey_inv e w0 s"
  shows "rekey_inv e w0 s'"
  using step
proof cases
  case (r_feed k)
  have w: "extends e w0 (rs_world s) (rs_world s)" by (rule extends_unchanged) simp
  have "in_order e w0 (rs_world s) (Suc (rs_next s)) ((rs_workers s)[k := Reading (rs_next s)] ! j)"
    if "j < length (rs_workers s)" for j
  proof (cases "j = k")
    case False
    from inv that have "in_order e w0 (rs_world s) (rs_next s) (rs_workers s ! j)" by (simp add: rekey_inv_def)
    from in_order_later [OF this w _ hash_valid [OF run _ inv], of "Suc (rs_next s)"] False show ?thesis by simp
  qed (simp add: r_feed)
  moreover have "resaved e w0 (rs_world s) (r_hash e i) \<or>
      (\<exists>j < length (rs_workers s). assigned ((rs_workers s)[k := Reading (rs_next s)] ! j) = Some i)"
    if none: "rs_firstErr s = None" and i: "i < Suc (rs_next s)" for i
  proof (cases "i = rs_next s")
    case True
    with r_feed(4) show ?thesis by (intro disjI2 exI [of _ k]) simp
  next
    case False
    with i have "i < rs_next s" by simp
    with inv none consider "resaved e w0 (rs_world s) (r_hash e i)"
      | j where "j < length (rs_workers s)" "assigned (rs_workers s ! j) = Some i"
      unfolding rekey_inv_def by blast
    then show ?thesis
    proof cases
      case (2 j)
      with r_feed(5) have "j \<noteq> k" by auto
      with 2 show ?thesis by (auto intro!: exI [of _ j])
    qed simp
  qed
  ultimately show ?thesis using inv r_feed(1-3) by (simp add: rekey_inv_def r_move_def)
next
  case r_feed_end
  with inv show ?thesis by (simp add: rekey_inv_def)
next
  case r_feed_break
  with inv show ?thesis by (auto simp: rekey_inv_def r_stop_def)
next
  case (r_leave k)
  from inv_move [OF run inv r_leave(3) extends_unchanged, of "rs_world s" Gone] r_leave show ?thesis by simp
next
  case (r_read k i c rc w)
  have i: "i < rs_next s" using inv r_read(2,3) by (force simp: rekey_inv_def)
  have v: "valid (r_hash e i)" by (rule hash_valid [OF run i inv])
  have l: lawful and r: "ReadEncryptedObject orp c (r_hash e i) (re_old_generation e) (re_old_key e) (rs_world s) = (Ok rc, w)"
    and g: "re_new_generation e \<noteq> re_old_generation e"
    using run r_read(5) by (simp_all add: rekeys_def)
  have "stored (rs_world s) (re_old_generation e) (r_hash e i) = stored w0 (re_old_generation e) (r_hash e i)"
    using inv g v by (auto simp: rekey_inv_def changes_only_def)
  with read_ok [OF l r v] i r have "in_order e w0 w (rs_next s) (Resaving i rc)"
    by (auto simp: opened_on_def)
  with r_read(3) show ?thesis
    unfolding r_read(1) by (intro inv_move [OF run inv r_read(2) extends_unchanged [OF read_frame [OF r]]]) simp_all
next
  case (r_read_error k i c er w)
  have r: "ReadEncryptedObject orp c (r_hash e i) (re_old_generation e) (re_old_key e) (rs_world s) = (Err er, w)"
    using run r_read_error(5) by (simp add: rekeys_def)
  from inv_error [OF run inv r_read_error(2) extends_unchanged [OF read_frame [OF r]]] r_read_error(1) show ?thesis by simp
next
  case (r_save k i rc c w)
  let ?h = "r_hash e i"
  from inv r_save(2,3) obtain raw b where T: "i < rs_next s" "opened_on e ?h rc"
    "stored w0 (re_old_generation e) ?h = Some raw" "opens (re_old_key e) raw = Some b" "yields rc b"
    unfolding rekey_inv_def by fastforce
  have v: "valid ?h" by (rule hash_valid [OF run T(1) inv])
  have l: lawful and r: "SaveRekeyedObject orp c ?h rc (re_new_generation e) (re_new_key e) (rs_world s) = (Ok (), w)"
    using run r_save(5) by (simp_all add: rekeys_def)
  from T(2) obtain c0 w1 w2 where o: "ReadEncryptedObject orp c0 ?h (re_old_generation e) (re_old_key e) w1 = (Ok rc, w2)"
    by (auto simp: opened_on_def)
  have again: "resaved e w0 w ?h" using save_ok [OF l v o T(5) r] T(3,4) by (auto simp: resaved_def)
  have f: "changes_only stored conf valid {(re_new_generation e, ?h)} (rs_world s) w" by (rule save_frame [OF l v o r])
  have "resaved e w0 w h" if "valid h" "resaved e w0 (rs_world s) h" for h
    using that f again by (cases "h = ?h") (auto simp: changes_only_def resaved_def)
  then have "extends e w0 (rs_world s) w" using f by (auto simp: extends_def changes_only_def)
  from inv_move [OF run inv r_save(2) this, of "Releasing i rc None"] T(1,2) again r_save(1,3) show ?thesis by simp
next
  case (r_save_error k i rc c er w)
  let ?h = "r_hash e i"
  from inv r_save_error(2,3) have T: "i < rs_next s" "opened_on e ?h rc"
    unfolding rekey_inv_def by force+
  have v: "valid ?h" by (rule hash_valid [OF run T(1) inv])
  have l: lawful and r: "SaveRekeyedObject orp c ?h rc (re_new_generation e) (re_new_key e) (rs_world s) = (Err er, w)"
    using run r_save_error(5) by (simp_all add: rekeys_def)
  from T(2) obtain c0 w1 w2 where o: "ReadEncryptedObject orp c0 ?h (re_old_generation e) (re_old_key e) w1 = (Ok rc, w2)"
    by (auto simp: opened_on_def)
  from inv_move [OF run inv r_save_error(2) extends_unchanged [OF save_error [OF l v o r]], of "Releasing i rc (Some er)"]
    T r_save_error(1,3) show ?thesis by simp
next
  case (r_close k i rc saveErr w)
  from inv_released [OF run inv r_close(2,3,4)] r_close(1) show ?thesis by simp
next
  case (r_close_error k i rc saveErr er w)
  from inv_released [OF run inv r_close_error(2,3,4)] r_close_error(1) show ?thesis by simp
qed

lemma rekey_steps_inv:
  assumes "(rekey_step e)\<^sup>*\<^sup>* s0 s" and "rekeys e" and "rekey_inv e w0 s0"
  shows "rekey_inv e w0 s"
  using assms(1) by (induction rule: rtranclp_induct) (use assms(2,3) rekey_step_inv in blast)+

text \<open>Whatever happens, the workers change at most the new generation.\<close>

lemma workers_frame:
  assumes "rekeys e" and "(rekey_step e)\<^sup>*\<^sup>* s0 s" and "rekey_inv e w0 s0"
  shows "changes_only stored conf valid {(re_new_generation e, h) |h. True} w0 (rs_world s)"
  using rekey_steps_inv [OF assms(2,1,3)] by (simp add: rekey_inv_def)

lemma all_resaved:
  assumes run: "rekeys e" and steps: "(rekey_step e)\<^sup>*\<^sup>* s0 s" and inv: "rekey_inv e w0 s0"
    and fin: "all_gone s" and none: "rs_firstErr s = None" and ctx: "\<forall>t \<le> clock (rs_world s). \<not> re_ctx e t"
    and h: "h \<in> set (re_hashes e)"
  shows "resaved e w0 (rs_world s) h"
proof -
  note I = rekey_steps_inv [OF steps run inv]
  have n: "rs_next s = length (re_hashes e)" using I none fin ctx by (auto simp: rekey_inv_def all_gone_def)
  from h obtain i where i: "i < length (re_hashes e)" "h = r_hash e i" by (auto simp: in_set_conv_nth r_hash_def)
  have "assigned (rs_workers s ! k) = None" if "k < length (rs_workers s)" for k
    using fin that by (cases "rs_workers s ! k") (auto simp: all_gone_def list_all_length)
  with I none n i show ?thesis by (auto simp: rekey_inv_def)
qed

end

end
