(* ===== verification/Disk_Key_Change.thy ===== *)
theory Disk_Key_Change
  imports ReKey_Facts Disk_Rekey_Facts Disk_Store_Facts
begin

section \<open>Changing the key of a repository on disk\<close>

text \<open>
  The object repository on disk keeps the contract \<open>rekey_store\<close>, and its list of a generation
  names every object of it.
\<close>

subsection \<open>The objects of a generation\<close>

definition encrypted_at :: "string \<Rightarrow> uint64 \<Rightarrow> string \<Rightarrow> fspath" where
  "encrypted_at root g h = generation_at root g @ [take 2 h, drop 2 h]"

definition encrypted_raw :: "string \<Rightarrow> 'z os_world_scheme \<Rightarrow> uint64 \<Rightarrow> string \<Rightarrow> bytes option" where
  "encrypted_raw root w g h = (case lookup w (encrypted_at root g h) of Some (File raw) \<Rightarrow> Some raw | _ \<Rightarrow> None)"

lemma encrypted_object: "key \<noteq> [] \<Longrightarrow> object_at root key g h = encrypted_at root g h"
  by (simp add: object_at_generation encrypted_at_def)

lemma encrypted_at_generation: "prefix (generation_at root g) (encrypted_at root g' h) \<longleftrightarrow> g = g'"
  using object_in_generation_iff [of "[0]" root g g' h] by (simp add: encrypted_object)

lemma encrypted_at_inj: "encrypted_at root g h = encrypted_at root g' h' \<longleftrightarrow> g = g' \<and> h = h'"
proof
  assume e: "encrypted_at root g h = encrypted_at root g' h'"
  then have "g = g'" using encrypted_at_generation [of root g g h] encrypted_at_generation [of root g g' h'] by simp
  with e object_at_inj [of root "[0]" g h h'] show "g = g' \<and> h = h'" by (simp add: encrypted_object)
qed simp

lemma encrypted_raw_same:
  "lookup w' (encrypted_at root g h) = lookup w (encrypted_at root g h) \<Longrightarrow>
   encrypted_raw root w' g h = encrypted_raw root w g h"
  by (simp add: encrypted_raw_def)

lemma config_not_encrypted: "\<not> prefix (generation_at root g) (config_at root)"
  by (auto simp: generation_at_def config_at_def dest: prefix_length_le)

lemma changes_sets:
  assumes "sets (cwd w) S m" and "m w = (r, w')" and "config_at root \<notin> S"
    and "\<And>g h. hash_ok h \<Longrightarrow> (g, h) \<notin> T \<Longrightarrow> encrypted_at root g h \<notin> S"
  shows "changes_only (encrypted_raw root) (\<lambda>w. lookup w (config_at root)) hash_ok T w w'"
proof -
  note frame = sets_lookup [OF assms(1) refl assms(2)]
  have "encrypted_raw root w' g h = encrypted_raw root w g h" if "hash_ok h" "(g, h) \<notin> T" for g h
    by (rule encrypted_raw_same [OF frame(2) [OF assms(4) [OF that]]])
  then show ?thesis
    using frame(2) [OF assms(3)] frame(3) unfolding changes_only_def steady_def by blast
qed

lemma sets_ReadEncryptedObject: "sets d S (disk_ReadEncryptedObject lib root ctx h g key)"
  unfolding disk_ReadEncryptedObject_def by (intro sets_rules) simp_all

lemma yields_plain: "yields (plain_reader b f) b"
  by (auto simp: yields_def plain_reader_def dest: mem_stream_done)

lemma not_in_rekey_paths:
  assumes "hash_ok h'" and "(g', h') \<noteq> (g, h)"
  shows "encrypted_at root g' h' \<notin> rekey_paths_of root g h"
proof
  assume "encrypted_at root g' h' \<in> rekey_paths_of root g h"
  then consider "prefix (encrypted_at root g' h') (encrypted_at root g h)"
    | "encrypted_at root g' h' \<in> temps_of root g h"
    by (auto simp: rekey_paths_of_def above_def encrypted_at_def)
  then show False
  proof cases
    case 1
    then have "encrypted_at root g' h' = encrypted_at root g h"
      by (auto simp: encrypted_at_def generation_at_def)
    with assms(2) encrypted_at_inj [of root g' h' g h] show False by simp
  next
    case 2
    with temp_not_object [OF assms(1) 2, of "[0]" g'] show False by (simp add: encrypted_object)
  qed
qed

lemma config_not_rekey_path: "config_at root \<notin> rekey_paths_of root g h"
proof
  assume "config_at root \<in> rekey_paths_of root g h"
  then have "prefix (config_at root) (encrypted_at root g h) \<or> config_at root \<in> temps_of root g h"
    by (auto simp: rekey_paths_of_def above_def encrypted_at_def)
  then show False
    by (auto simp: config_at_def encrypted_at_def generation_at_def temps_of_def ConfigFile_def ObjectsFolder_def)
qed

definition rekey_lawful :: "library \<Rightarrow> string \<Rightarrow> bool" where
  "rekey_lawful lib root \<longleftrightarrow> is_rooted root \<and> gcm_correct (lib_crypto lib)"

interpretation disk_rekey: rekey_store "DiskObjectRepository lib root" "encrypted_raw root" "object_content lib"
    "\<lambda>w. lookup w (config_at root)" hash_ok "rekey_lawful lib root"
  for lib root
proof unfold_locales
  fix c h g key rc and w w' :: "'a os_world_scheme"
  assume "rekey_lawful lib root" and "hash_ok h"
    and "ReadEncryptedObject (DiskObjectRepository lib root) c h g key w = (Ok rc, w')"
  then show "\<exists>raw b. encrypted_raw root w g h = Some raw \<and> object_content lib key raw = Some b \<and> yields rc b"
    using ReadEncryptedObject_Ok [of lib root c h g key w rc w'] yields_plain
    by (auto simp: DiskObjectRepository_def rekey_lawful_def encrypted_raw_def encrypted_object)
next
  fix c h g key r and w w' :: "'a os_world_scheme"
  assume "ReadEncryptedObject (DiskObjectRepository lib root) c h g key w = (r, w')"
  then show "changes_only (encrypted_raw root) (\<lambda>w. lookup w (config_at root)) hash_ok {} w w'"
    by (intro changes_sets [OF sets_ReadEncryptedObject [where S = "{}"]]) (simp_all add: DiskObjectRepository_def)
next
  fix c h g key rc u and w w1 w2 w3 :: "'a os_world_scheme"
  assume "rekey_lawful lib root" and "hash_ok h" and close: "rc_Close rc w2 = (u, w3)"
    and "ReadEncryptedObject (DiskObjectRepository lib root) c h g key w = (Ok rc, w1)"
  then obtain b where rc: "rc = plain_reader b (object_at root key g h)"
    using ReadEncryptedObject_Ok [of lib root c h g key w rc w1] by (auto simp: DiskObjectRepository_def rekey_lawful_def)
  have "sets (cwd w2) {} (rc_Close rc)" unfolding rc by (simp add: plain_reader_def sets_rules)
  from changes_sets [OF this close]
  show "changes_only (encrypted_raw root) (\<lambda>w. lookup w (config_at root)) hash_ok {} w2 w3" by simp
next
  fix c h g key rc b c' g' key' and w w1 w2 w3 :: "'a os_world_scheme"
  assume l: "rekey_lawful lib root" and h: "hash_ok h" and y: "yields rc b"
    and o: "ReadEncryptedObject (DiskObjectRepository lib root) c h g key w = (Ok rc, w1)"
    and s: "SaveRekeyedObject (DiskObjectRepository lib root) c' h rc g' key' w2 = (Ok (), w3)"
  have root: "is_rooted root" and gcm: "gcm_correct (lib_crypto lib)" using l by (simp_all add: rekey_lawful_def)
  have p: "pure_reader rc"
    using ReadEncryptedObject_Ok [of lib root c h g key w rc w1] o root h by (auto simp: DiskObjectRepository_def)
  have "disk_SaveRekeyedObject lib root c' h rc g' key' w2 = (Ok (), w3)" using s by (simp add: DiskObjectRepository_def)
  from SaveRekeyed_stored [OF this root h p] obtain got raw wa wb where
    r: "key' \<noteq> []" "rc_Read rc background wa = ((got, None), wb)"
      "lookup w3 (object_at root key' g' h) = Some (File raw)" "stored_as lib key' raw got" by blast
  have "got = b" using y r(2) by (auto simp: yields_def)
  with stored_content [OF gcm r(4)] r
  show "\<exists>raw. encrypted_raw root w3 g' h = Some raw \<and> object_content lib key' raw = Some b"
    by (auto simp: encrypted_raw_def encrypted_object)
next
  fix c h g key rc c' g' key' er and w w1 w2 w3 :: "'a os_world_scheme"
  assume l: "rekey_lawful lib root" and h: "hash_ok h"
    and o: "ReadEncryptedObject (DiskObjectRepository lib root) c h g key w = (Ok rc, w1)"
    and s: "SaveRekeyedObject (DiskObjectRepository lib root) c' h rc g' key' w2 = (Err er, w3)"
  have root: "is_rooted root" using l by (simp add: rekey_lawful_def)
  have p: "pure_reader rc"
    using ReadEncryptedObject_Ok [of lib root c h g key w rc w1] o root h by (auto simp: DiskObjectRepository_def)
  have run: "disk_SaveRekeyedObject lib root c' h rc g' key' w2 = (Err er, w3)" using s by (simp add: DiskObjectRepository_def)
  have "lookup w3 (encrypted_at root g1 h1) = lookup w2 (encrypted_at root g1 h1)" if "hash_ok h1" for g1 h1
    using SaveRekeyed_error [OF run root h p that, of "[0]" g1] by (simp add: encrypted_object)
  then have "encrypted_raw root w3 g1 h1 = encrypted_raw root w2 g1 h1" if "hash_ok h1" for g1 h1
    using that by (intro encrypted_raw_same)
  moreover note frame = sets_lookup [OF SaveRekeyed_atomic [OF root h p] refl run]
  ultimately show "changes_only (encrypted_raw root) (\<lambda>w. lookup w (config_at root)) hash_ok {} w2 w3"
    using frame(2) [OF config_not_rekey_path] frame(3) unfolding changes_only_def steady_def by blast
next
  fix c h g key rc c' g' key' and w w1 w2 w3 :: "'a os_world_scheme"
  assume l: "rekey_lawful lib root" and h: "hash_ok h"
    and o: "ReadEncryptedObject (DiskObjectRepository lib root) c h g key w = (Ok rc, w1)"
    and s: "SaveRekeyedObject (DiskObjectRepository lib root) c' h rc g' key' w2 = (Ok (), w3)"
  have root: "is_rooted root" using l by (simp add: rekey_lawful_def)
  have p: "pure_reader rc"
    using ReadEncryptedObject_Ok [of lib root c h g key w rc w1] o root h by (auto simp: DiskObjectRepository_def)
  have run: "disk_SaveRekeyedObject lib root c' h rc g' key' w2 = (Ok (), w3)" using s by (simp add: DiskObjectRepository_def)
  show "changes_only (encrypted_raw root) (\<lambda>w. lookup w (config_at root)) hash_ok {(g', h)} w2 w3"
    by (rule changes_sets [OF SaveRekeyed_atomic [OF root h p] run config_not_rekey_path])
      (use not_in_rekey_paths in blast)
next
  fix c g v and w w' :: "'a os_world_scheme"
  assume l: "rekey_lawful lib root" and "AbortRekey (DiskObjectRepository lib root) c g w = (v, w')"
  then have run: "disk_AbortRekey root c g w = (v, w')" by (simp add: DiskObjectRepository_def)
  have root: "is_rooted root" using l by (simp add: rekey_lawful_def)
  show "changes_only (encrypted_raw root) (\<lambda>w. lookup w (config_at root)) hash_ok {(g, h) |h. True} w w'"
    by (rule changes_sets [OF sets_AbortRekey [OF root] run])
      (auto simp: config_not_encrypted encrypted_at_generation)
next
  fix c g v and w w' :: "'a os_world_scheme"
  assume l: "rekey_lawful lib root" and "DeleteEncryptedGeneration (DiskObjectRepository lib root) c g w = (v, w')"
  then have run: "disk_DeleteEncryptedGeneration root c g w = (v, w')" by (simp add: DiskObjectRepository_def)
  have root: "is_rooted root" using l by (simp add: rekey_lawful_def)
  show "changes_only (encrypted_raw root) (\<lambda>w. lookup w (config_at root)) hash_ok {(g, h) |h. True} w w'"
    by (rule changes_sets [OF sets_DeleteEncryptedGeneration [OF root] run])
      (auto simp: config_not_encrypted encrypted_at_generation)
next
  fix c g h and w w' :: "'a os_world_scheme"
  assume l: "rekey_lawful lib root" and "DeleteEncryptedGeneration (DiskObjectRepository lib root) c g w = (Ok (), w')"
  then have run: "disk_DeleteEncryptedGeneration root c g w = (Ok (), w')" by (simp add: DiskObjectRepository_def)
  have root: "is_rooted root" using l by (simp add: rekey_lawful_def)
  from DeleteEncryptedGeneration_Ok [OF run root, of "encrypted_at root g h"]
  show "encrypted_raw root w' g h = None" by (simp add: encrypted_raw_def encrypted_at_generation)
qed

subsection \<open>The list of a generation\<close>

text \<open>A generation whose directory holds objects, at their places, and directories, and nothing else.\<close>

definition clean_generation :: "string \<Rightarrow> uint64 \<Rightarrow> 'z os_world_scheme \<Rightarrow> bool" where
  "clean_generation root g w \<longleftrightarrow> lookup w (generation_at root g) = Some Dir \<and>
     (\<forall>q n. prefix (generation_at root g) q \<longrightarrow> lookup w q = Some n \<longrightarrow> n \<noteq> Dir \<longrightarrow>
        (\<exists>h. hash_ok h \<and> q = encrypted_at root g h))"

lemma walk_entry_Ok:
  "walk_entry c base (q, n) w = (Ok r, w') \<Longrightarrow>
   r = [] \<and> n = Dir \<or> (\<exists>a b. n \<noteq> Dir \<and> drop (length base) q = [a, b] \<and> r = [a @ b])"
  by (auto simp: walk_entry_def ok_iffs split: if_splits list.splits)

lemma walk_entry_Err: "walk_entry c base (q, n) w = (Err e, w') \<Longrightarrow> \<not> errors_Is e ErrNotExist"
  by (auto simp: walk_entry_def err_iffs ctxErr_def split: if_splits list.splits)

lemma all2_right: "list_all2 P xs ys \<Longrightarrow> y \<in> set ys \<Longrightarrow> \<exists>x \<in> set xs. P x y"
  and all2_left: "list_all2 P xs ys \<Longrightarrow> x \<in> set xs \<Longrightarrow> \<exists>y \<in> set ys. P x y"
  by (induction rule: list_all2_induct) auto

lemma ListEncryptedObjects_Ok:
  assumes run: "disk_ListEncryptedObjects root c g w = (Ok hs, w')" and root: "is_rooted root"
    and clean: "clean_generation root g w"
  shows "\<forall>h \<in> set hs. hash_ok h"
    and "hash_ok h \<Longrightarrow> lookup w (encrypted_at root g h) = Some (File raw) \<Longrightarrow> h \<in> set hs"
proof -
  let ?p = "EncryptedGenerationPath root g False"
  note p = comps_EncryptedGenerationPath [OF root, of g False]
  let ?loop = "\<lambda>w. andThen (os_WalkDir ?p) (\<lambda>es. for_each (walk_entry c (resolve w ?p)) es)"
  from run obtain w1 where cx: "ctxErr c w = (Ok (), w1)"
    and body: "tryCatch (?loop w1)
             (\<lambda>e. if errors_Is e ErrNotExist then return [] else fail (Wrapped ''list encrypted objects'' e))
             (\<lambda>hs. return (sort (concat hs))) w1 = (Ok hs, w')"
    by (auto simp: disk_ListEncryptedObjects_def andThen_Ok_iff Let_def)
  have w1: "w1 = tick w" and dir: "lookup w (generation_at root g) = Some Dir"
    using ctxErr_Ok [OF cx] clean by (simp_all add: clean_generation_def)
  have r: "resolve v ?p = generation_at root g" for v :: "'a os_world_scheme"
    using p by (simp add: resolve_rooted)
  have "\<not> errors_Is e ErrNotExist" if "?loop w1 w1 = (Err e, w2)" for e w2
    using that dir is_rooted_nonempty [OF p(2)] unfolding r andThen_Err_iff
    by (auto simp: os_WalkDir_def syscall_def sys_def r w1 nothing_done_def split: if_splits option.splits
        dest!: for_each_Err walk_entry_Err)
  with body obtain xs w2 where l: "?loop w1 w1 = (Ok xs, w2)" and hs: "hs = sort (concat xs)"
    by (auto simp: ok_iffs split: if_splits)
  then obtain es w3 where wk: "os_WalkDir ?p w1 = (Ok es, w3)"
    and fe: "for_each (walk_entry c (generation_at root g)) es w3 = (Ok xs, w2)"
    by (auto simp: andThen_Ok_iff r)
  have es: "es = walk w (generation_at root g)"
    using wk dir by (auto simp: os_WalkDir_def syscall_Ok_iff r w1 walk_def split: option.splits)
  have gen: "generation_at root g \<noteq> []" by (simp add: generation_at_def)
  have in_es: "(q, n) \<in> set es \<longleftrightarrow> prefix (generation_at root g) q \<and> lookup w q = Some n" for q n
    using gen by (auto simp: es in_walk lookup_def)
  note all = for_each_Ok [OF fe]
  show "\<forall>h \<in> set hs. hash_ok h"
  proof
    fix h assume "h \<in> set hs"
    then obtain x where x: "x \<in> set xs" "h \<in> set x" by (auto simp: hs)
    from all2_right [OF all x(1)] obtain kv and w4 w5 :: "'a os_world_scheme" where kv: "kv \<in> set es"
      "walk_entry c (generation_at root g) kv w4 = (Ok x, w5)" by blast
    obtain q n where "kv = (q, n)" by force
    with kv have e: "(q, n) \<in> set es" "walk_entry c (generation_at root g) (q, n) w4 = (Ok x, w5)" by simp_all
    from walk_entry_Ok [OF e(2)] x(2) obtain a b where
      ab: "n \<noteq> Dir" "drop (length (generation_at root g)) q = [a, b]" "h = a @ b" by auto
    from e(1) ab(1) clean obtain h' where h': "hash_ok h'" "q = encrypted_at root g h'"
      unfolding in_es clean_generation_def by blast
    with ab have "h = h'" by (auto simp: encrypted_at_def)
    with h' show "hash_ok h" by simp
  qed
  assume h: "hash_ok h" and f: "lookup w (encrypted_at root g h) = Some (File raw)"
  then have "(encrypted_at root g h, File raw) \<in> set es" by (simp add: in_es encrypted_at_def)
  from all2_left [OF all this] obtain x and w4 w5 :: "'a os_world_scheme" where x: "x \<in> set xs"
    "walk_entry c (generation_at root g) (encrypted_at root g h, File raw) w4 = (Ok x, w5)" by blast
  from walk_entry_Ok [OF x(2)] have "x = [h]" by (auto simp: encrypted_at_def)
  with x(1) show "h \<in> set hs" by (auto simp: hs intro!: bexI [of _ x])
qed

lemma sets_list:
  "(xs = [] \<Longrightarrow> sets d S m) \<Longrightarrow> (\<And>y ys. xs = y # ys \<Longrightarrow> sets d S (f y ys)) \<Longrightarrow>
   sets d S (case xs of [] \<Rightarrow> m | y # ys \<Rightarrow> f y ys)"
  by (cases xs) auto

lemma sets_ListEncryptedObjects: "sets d S (disk_ListEncryptedObjects root c g)"
proof -
  have "sets d S (walk_entry c base kv)" for base kv
    unfolding walk_entry_def by (intro sets_rules sets_list)
  then have loop: "sets d S (andThen (os_WalkDir p) (\<lambda>es. for_each (walk_entry c base) es))" for p base
    by (intro sets_combinators(6,11) sets_reads)
  have body: "sets d S (tryCatch (andThen (os_WalkDir p) (\<lambda>es. for_each (walk_entry c base) es))
      (\<lambda>e. if errors_Is e ErrNotExist then return [] else fail (Wrapped msg e)) (\<lambda>hs. return (sort (concat hs))))"
    for p base msg by (intro sets_combinators(1,2,5,10) loop)
  have "sets d S (\<lambda>w :: 'a os_world_scheme. tryCatch (andThen (os_WalkDir p) (\<lambda>es. for_each (walk_entry c (resolve w p)) es))
      (\<lambda>e. if errors_Is e ErrNotExist then return [] else fail (Wrapped msg e)) (\<lambda>hs. return (sort (concat hs))) w)"
    for p msg
  proof (rule setsI, intro conjI allI impI)
    fix w :: "'a os_world_scheme" and q assume d: "cwd w = d"
    note D = setsD [OF body [of p "resolve w p" msg] d]
    show "steady w (snd (tryCatch (andThen (os_WalkDir p) (\<lambda>es. for_each (walk_entry c (resolve w p)) es))
      (\<lambda>e. if errors_Is e ErrNotExist then return [] else fail (Wrapped msg e)) (\<lambda>hs. return (sort (concat hs))) w))"
      by (rule D)
    assume "q \<notin> S"
    then show "lookup (snd (tryCatch (andThen (os_WalkDir p) (\<lambda>es. for_each (walk_entry c (resolve w p)) es))
      (\<lambda>e. if errors_Is e ErrNotExist then return [] else fail (Wrapped msg e)) (\<lambda>hs. return (sort (concat hs))) w)) q =
      lookup w q" by (rule D)
  qed
  then show ?thesis
    unfolding disk_ListEncryptedObjects_def Let_def by (intro sets_combinators(6) [OF sets_reads(1)])
qed

end
