(* ===== verification/Disk_Key_Facts.thy ===== *)
theory Disk_Key_Facts
  imports Disk_Key_Change
begin

section \<open>A change of the key on disk: facts\<close>

subsection \<open>Texts of the configuration\<close>

lemma utf8_ascii: "\<forall>c \<in> set s. (of_char c :: nat) < 128 \<Longrightarrow> utf8_valid s"
proof -
  have "\<forall>n \<in> set ns. n < 128 \<Longrightarrow> utf8_nats ns" for ns by (induction ns) auto
  then show "\<forall>c \<in> set s. (of_char c :: nat) < 128 \<Longrightarrow> utf8_valid s" by (simp add: utf8_valid_def)
qed

lemma b64_char_ascii: "(of_char (b64_char n) :: nat) < 128" if "n < 64"
proof -
  have "\<forall>c \<in> set b64_alphabet. (of_char c :: nat) < 128" by code_simp
  with b64_char_in [OF that] show ?thesis by blast
qed

lemma b64_encode_ascii: "\<forall>n \<in> set ns. n < 256 \<Longrightarrow> \<forall>c \<in> set (b64_encode_nats ns). (of_char c :: nat) < 128"
  by (induction ns rule: b64_encode_nats.induct) (auto simp: b64_char_ascii)

lemma base64_ascii: "\<forall>c \<in> set (base64_EncodeToString b). (of_char c :: nat) < 128"
  unfolding base64_EncodeToString_def by (rule b64_encode_ascii) (auto simp: unat_byte_less)

subsection \<open>The command on disk\<close>

definition rekey_on_disk :: "library \<Rightarrow> string \<Rightarrow> 'z rekey_service \<Rightarrow> bool" where
  "rekey_on_disk lib root sv \<longleftrightarrow>
     rk_folder sv = DiskFolderRepository lib \<and> rk_symmetric sv = SymmetricRepository (lib_crypto lib) \<and>
     rk_asymmetric sv = DiskKeyPairRepository (lib_crypto lib) \<and> rk_objects sv = DiskObjectRepository lib root"

lemmas disk_services = DiskFolderRepository_def SymmetricRepository_def DiskKeyPairRepository_def DiskObjectRepository_def

text \<open>The key services and the configuration are only read before the commit.\<close>

lemma sets_services [sets_rules]:
  "sets d S (BuildConfigDomain lib mo)" "sets d S (absolute_path p)"
  "sets d S (SymmetricRepository_Decode c ctx priv ek)"
  "sets d S (SymmetricRepository_Encrypt c ctx pub key)" "sets d S (SymmetricRepository_Generate ctx)"
  "sets d S (disk_PublicKeyFingerPrint c ctx pub)" "sets d S (check e)"
  unfolding BuildConfigDomain_def NewConfig_def absolute_path_def SymmetricRepository_Decode_def
    SymmetricRepository_Encrypt_def SymmetricRepository_Generate_def disk_PublicKeyFingerPrint_def check_def
  by (intro sets_rules)+

lemma sets_key_reads [sets_rules]:
  "sets d S (disk_GetConfig lib ctx p)" "sets d S (disk_ReadRSAPrivateKey c ctx q)" "sets d S (disk_ReadRSAPublicKey c ctx q)"
  subgoal unfolding disk_GetConfig_def by (intro sets_rules)
  subgoal unfolding disk_ReadRSAPrivateKey_def
    by (intro sets_rules) (auto split: parsed_key.split intro!: sets_rules)
  subgoal unfolding disk_ReadRSAPublicKey_def by (intro sets_rules)
  done

lemma rekey_disk_ops:
  assumes "rekey_on_disk lib root sv"
  shows "GetConfig (rk_folder sv) = disk_GetConfig lib" "CreateConfig (rk_folder sv) = disk_CreateConfig lib"
    "ReadRSAPrivateKey (rk_asymmetric sv) = disk_ReadRSAPrivateKey (lib_crypto lib)"
    "ReadRSAPublicKey (rk_asymmetric sv) = disk_ReadRSAPublicKey (lib_crypto lib)"
    "PublicKeyFingerPrint (rk_asymmetric sv) = disk_PublicKeyFingerPrint (lib_crypto lib)"
    "DecodeAndDecryptSymmetricKey (rk_symmetric sv) = SymmetricRepository_Decode (lib_crypto lib)"
    "GenerateSymmetricKey (rk_symmetric sv) = SymmetricRepository_Generate"
    "EncryptSymmetricKey (rk_symmetric sv) = SymmetricRepository_Encrypt (lib_crypto lib)"
    "ListEncryptedObjects (rk_objects sv) = disk_ListEncryptedObjects root"
    "AbortRekey (rk_objects sv) = disk_AbortRekey root"
    "DeleteEncryptedGeneration (rk_objects sv) = disk_DeleteEncryptedGeneration root"
  using assms by (simp_all add: rekey_on_disk_def disk_services)

lemma sets_rekey_prepare:
  assumes "rekey_on_disk lib root sv"
  shows "sets d S (rekey_prepare sv ctx p privPath pubPath)"
  unfolding rekey_prepare_def rekey_disk_ops [OF assms] by (intro sets_rules sets_ListEncryptedObjects)

lemma fingerprint_valid: "disk_PublicKeyFingerPrint c ctx pub w = (Ok fp, w') \<Longrightarrow> utf8_valid fp"
  using base64_ascii
  by (auto simp: disk_PublicKeyFingerPrint_def base64_RawEncodeToString_def ok_iffs intro!: utf8_ascii)

lemma lookups_of_read:
  assumes "sets (cwd w) {} m" and "m w = (r, w')"
  shows "\<forall>q. lookup w' q = lookup w q" and "cwd w' = cwd w" and "clock w \<le> clock w'"
  using sets_lookup [OF assms(1) refl assms(2)] by (simp_all add: steady_def)

lemma rekey_prepare_Ok:
  fixes w :: "'z os_world_scheme"
  assumes run: "rekey_prepare sv ctx root privPath pubPath w = (Ok p, w1)" and on: "rekey_on_disk lib root sv"
  shows "\<exists>wa. disk_GetConfig lib ctx root w = (Ok (rp_config p), wa)"
    and "encryption (rp_config p) = Some (rp_encryption p)"
    and "\<exists>seed. EncryptOAEP (lib_crypto lib) seed (rp_public p) (rp_new_key p) = Ok (rp_encrypted p)"
    and "utf8_valid (rp_fingerprint p)"
    and "\<exists>wb. disk_ListEncryptedObjects root ctx (Encryption.generation (rp_encryption p)) wb = (Ok (rp_hashes p), w1) \<and>
      (\<forall>q. lookup wb q = lookup w q)"
proof -
  let ?c = "lib_crypto lib"
  from run obtain conf enc priv old pub key ek fp hs wa wb wc wd we wf wg where
    conf: "disk_GetConfig lib ctx root w = (Ok conf, wa)" and enc: "encryption conf = Some enc"
    and priv: "disk_ReadRSAPrivateKey ?c ctx privPath wa = (Ok priv, wb)"
    and old: "SymmetricRepository_Decode ?c ctx priv (encryptedKey enc) wb = (Ok old, wc)"
    and pub: "disk_ReadRSAPublicKey ?c ctx pubPath wc = (Ok pub, wd)"
    and key: "SymmetricRepository_Generate ctx wd = (Ok key, we)"
    and ek: "SymmetricRepository_Encrypt ?c ctx pub key we = (Ok ek, wf)"
    and fp: "disk_PublicKeyFingerPrint ?c ctx pub wf = (Ok fp, wg)"
    and hs: "disk_ListEncryptedObjects root ctx (Encryption.generation enc) wg = (Ok hs, w1)"
    and p: "p = \<lparr>rp_config = conf, rp_encryption = enc, rp_old_key = old, rp_new_key = key,
            rp_encrypted = ek, rp_public = pub, rp_fingerprint = fp, rp_hashes = hs\<rparr>"
    unfolding rekey_prepare_def rekey_disk_ops [OF on] by (auto simp: ok_iffs split: option.splits)
  show "\<exists>wa. disk_GetConfig lib ctx root w = (Ok (rp_config p), wa)" using conf by (simp add: p)
  show "encryption (rp_config p) = Some (rp_encryption p)" using enc by (simp add: p)
  show "\<exists>seed. EncryptOAEP ?c seed (rp_public p) (rp_new_key p) = Ok (rp_encrypted p)"
    using ek by (auto simp: SymmetricRepository_Encrypt_def ok_iffs sys_Ok_iff p)
  show "utf8_valid (rp_fingerprint p)" using fingerprint_valid [OF fp] by (simp add: p)
  have "\<forall>q. lookup wg q = lookup w q"
    using lookups_of_read(1) [OF sets_key_reads(1) conf] lookups_of_read(1) [OF sets_key_reads(2) priv]
      lookups_of_read(1) [OF sets_services(3) old] lookups_of_read(1) [OF sets_key_reads(3) pub]
      lookups_of_read(1) [OF sets_services(5) key] lookups_of_read(1) [OF sets_services(4) ek]
      lookups_of_read(1) [OF sets_services(6) fp] by simp
  with hs show "\<exists>wb. disk_ListEncryptedObjects root ctx (Encryption.generation (rp_encryption p)) wb = (Ok (rp_hashes p), w1) \<and>
      (\<forall>q. lookup wb q = lookup w q)" by (auto simp: p)
qed

text \<open>The configuration that is committed can be stored when the current one can.\<close>

lemma rekeyed_storable:
  assumes "storable lib c0" and "rp_config p = c0\<lparr>createdAt := t\<rparr>" and "encryption (rp_config p) = Some (rp_encryption p)"
    and "utf8_valid (rp_fingerprint p)" and "\<forall>t. utf8_valid (Format_RFC3339 (lib_text lib) t)"
  shows "storable lib (rekeyed_config p)"
proof -
  have "utf8_valid (base64_EncodeToString (rp_encrypted p))" by (rule utf8_ascii [OF base64_ascii])
  with assms show ?thesis
    by (auto simp: storable_def rekeyed_config_def standard_encryption_def config_text_valid_def config_model_def
        encryption_model_def ChangePublicKeyFingerPrint_def ChangeEncryptedKey_def ChangeGeneration_def)
qed

definition lasting :: "ctx \<Rightarrow> bool" where
  "lasting c \<longleftrightarrow> (\<forall>t t'. c t \<longrightarrow> t \<le> t' \<longrightarrow> c t')"

lemma CreateConfig_running: "disk_CreateConfig lib ctx p c w = (Ok x, w') \<Longrightarrow> \<not> ctx (clock w)"
  by (auto simp: disk_CreateConfig_def MarshalConfig_def ok_iffs dest!: ctxErr_Ok)

lemma config_ne_encrypted: "encrypted_at root g h \<noteq> config_at root"
  using config_not_encrypted [of root g] encrypted_at_generation [of root g g h] by metis

lemma generation_succ: "g + 1 \<noteq> (g :: uint64)"
  by simp

lemma rekeys_on_disk:
  assumes on: "rekey_on_disk lib root sv" and l: "rekey_lawful lib root"
    and prep: "rekey_prepare sv ctx root privPath pubPath w = (Ok p, w1)"
    and clean: "clean_generation root (Encryption.generation (rp_encryption p)) w"
  shows "disk_rekey.rekeys lib root (rekey_env_of sv ctx p)"
    and "hash_ok h \<Longrightarrow> encrypted_raw root w (Encryption.generation (rp_encryption p)) h = Some raw \<Longrightarrow> h \<in> set (rp_hashes p)"
proof -
  from rekey_prepare_Ok(5) [OF prep on] obtain wb :: "'a os_world_scheme" where
    ls: "disk_ListEncryptedObjects root ctx (Encryption.generation (rp_encryption p)) wb = (Ok (rp_hashes p), w1)"
    and same: "\<forall>q. lookup wb q = lookup w q" by blast
  have root: "is_rooted root" using l by (simp add: rekey_lawful_def)
  have "clean_generation root (Encryption.generation (rp_encryption p)) wb"
    using clean same by (simp add: clean_generation_def)
  note L = ListEncryptedObjects_Ok [OF ls root this]
  from L(1) show "disk_rekey.rekeys lib root (rekey_env_of sv ctx p)"
    unfolding disk_rekey.rekeys_def using l on generation_succ
    by (simp add: rekey_env_of_def rekey_on_disk_def new_generation_def)
  assume "hash_ok h" and "encrypted_raw root w (Encryption.generation (rp_encryption p)) h = Some raw"
  with L(2) [of h raw] same show "h \<in> set (rp_hashes p)"
    by (simp add: encrypted_raw_def split: option.splits node.splits)
qed

text \<open>What holds when the command returns nil.\<close>

lemma ReKey_Ok:
  fixes w :: "'z os_world_scheme"
  assumes run: "ReKey_Do sv ctx root privPath pubPath w (Ok x) w'" and on: "rekey_on_disk lib root sv"
    and l: "rekey_lawful lib root" and prep: "rekey_prepare sv ctx root privPath pubPath w = (Ok p, w1)"
    and clean: "clean_generation root (Encryption.generation (rp_encryption p)) w" and ctx: "lasting ctx"
  shows "\<exists>v w2. disk_CreateConfig lib ctx root (rekeyed_config p) v = (Ok (), w2) \<and>
    disk_DeleteEncryptedGeneration root ctx (Encryption.generation (rp_encryption p)) w2 = (Ok (), w') \<and>
    (\<forall>h \<in> set (rp_hashes p). disk_rekey.resaved root lib (rekey_env_of sv ctx p) w1 v h)"
  using run
proof (rule ReKey_DoE)
  fix e assume "Ok x = Err e" then show ?thesis by simp
next
  fix p' w1' s er cleanup
  assume "rekey_abort sv p' cleanup er (rs_world s) = (Ok x, w')"
  then show ?thesis by (simp add: rekey_abort_def ok_iffs)
next
  fix p' w1' s cleanup
  let ?e = "rekey_env_of sv ctx p"
  assume p': "rekey_prepare sv ctx root privPath pubPath w = (Ok p', w1')"
    and steps: "(rekey_step (rekey_env_of sv ctx p'))\<^sup>*\<^sup>* (rekey_init p' w1') s"
    and fin: "all_gone s" "rs_firstErr s = None"
    and commit: "rekey_commit sv ctx root p' cleanup (rs_world s) = (Ok x, w')"
  have p: "p' = p" "w1' = w1" using p' prep by simp_all
  note run = rekeys_on_disk(1) [OF on l prep clean]
  from commit obtain w2 where
    cc: "disk_CreateConfig lib ctx root (rekeyed_config p) (rs_world s) = (Ok (), w2)"
    and del: "disk_DeleteEncryptedGeneration root ctx (Encryption.generation (rp_encryption p)) w2 = (Ok (), w')"
    unfolding rekey_commit_def rekey_abort_def rekey_disk_ops [OF on] p by (auto simp: ok_iffs)
  have "\<not> ctx t" if "t \<le> clock (rs_world s)" for t
    using CreateConfig_running [OF cc] ctx that unfolding lasting_def by blast
  then have "\<forall>t \<le> clock (rs_world s). \<not> re_ctx ?e t" by (simp add: rekey_env_of_def)
  from disk_rekey.all_resaved [OF run steps [unfolded p] disk_rekey.rekey_init_inv fin this]
  have "\<forall>h \<in> set (rp_hashes p). disk_rekey.resaved root lib ?e w1 (rs_world s) h"
    by (simp add: rekey_env_of_def)
  with cc del show ?thesis by blast
qed

end
