(* ===== verification/ReKey_Run.thy ===== *)
theory ReKey_Run
  imports ReKey Quiet
begin

section \<open>Every change of the key comes to its end\<close>

text \<open>
  Each step of the group of workers lowers a measure, and while the repository does not panic some
  step is possible until all workers have left: the group's \<^verbatim>\<open>Wait\<close> returns. A scheduler
  makes the relation executable.
\<close>

subsection \<open>A measure\<close>

fun rekey_weight :: "'z rekeyer \<Rightarrow> nat" where
  "rekey_weight (Reading i) = 4"
| "rekey_weight (Resaving i rc) = 3"
| "rekey_weight (Releasing i rc er) = 2"
| "rekey_weight Ready = 1"
| "rekey_weight Gone = 0"

definition rekey_measure :: "'z rekey_env \<Rightarrow> 'z rekey_state \<Rightarrow> nat" where
  "rekey_measure e s =
     4 * (length (re_hashes e) - rs_next s) + sum_list (map rekey_weight (rs_workers s)) + (if rs_feeding s then 1 else 0)"

lemma rekey_measure_move:
  assumes "k < length (rs_workers s)" and "rekey_weight p < rekey_weight (rs_workers s ! k)"
    and "rs_workers s' = (rs_workers s)[k := p]" and "rs_next s' = rs_next s" and "rs_feeding s' = rs_feeding s"
  shows "rekey_measure e s' < rekey_measure e s"
  using sum_list_move [OF assms(1), of rekey_weight p] assms(2-5) by (simp add: rekey_measure_def)

lemma rekey_measure_error:
  assumes "k < length (rs_workers s)" and "0 < rekey_weight (rs_workers s ! k)"
  shows "rekey_measure e (r_error k er w s) < rekey_measure e s"
  by (rule rekey_measure_move [OF assms(1), of Gone]) (use assms(2) in \<open>simp_all add: r_error_def r_move_def\<close>)

lemma rekey_measure_released:
  assumes "k < length (rs_workers s)" and "rs_workers s ! k = Releasing i rc saveErr"
  shows "rekey_measure e (r_released k saveErr closeErr w s) < rekey_measure e s"
proof -
  have "rekey_measure e (r_move k Ready w s) < rekey_measure e s"
    by (rule rekey_measure_move [OF assms(1), of Ready]) (simp_all add: r_move_def assms(2))
  with rekey_measure_error [OF assms(1)] show ?thesis
    by (simp add: r_released_def assms(2) split: option.split)
qed

lemma rekey_step_measure:
  assumes "rekey_step e s s'"
  shows "rekey_measure e s' < rekey_measure e s"
  using assms
proof cases
  case (r_feed k)
  with sum_list_move [OF r_feed(4), of rekey_weight "Reading (rs_next s)"] show ?thesis
    by (simp add: rekey_measure_def r_move_def)
next
  case (r_leave k)
  then show ?thesis by (intro rekey_measure_move [OF r_leave(3), of Gone]) (simp_all add: r_move_def)
next
  case (r_read k i c rc w)
  then show ?thesis by (intro rekey_measure_move [OF r_read(2), of "Resaving i rc"]) (simp_all add: r_move_def)
next
  case (r_read_error k i c er w)
  then show ?thesis by (simp add: rekey_measure_error)
next
  case (r_save k i rc c w)
  then show ?thesis by (intro rekey_measure_move [OF r_save(2), of "Releasing i rc None"]) (simp_all add: r_move_def)
next
  case (r_save_error k i rc c er w)
  then show ?thesis by (intro rekey_measure_move [OF r_save_error(2), of "Releasing i rc (Some er)"]) (simp_all add: r_move_def)
next
  case (r_close k i rc saveErr w)
  with rekey_measure_released [OF r_close(2,3)] show ?thesis by simp
next
  case (r_close_error k i rc saveErr er w)
  with rekey_measure_released [OF r_close_error(2,3)] show ?thesis by simp
qed (simp_all add: rekey_measure_def)

lemma rekey_step_wf: "wfP (rekey_step e)\<inverse>\<inverse>"
  by (rule wfp_if_convertible_to_nat [of _ "rekey_measure e"]) (simp add: rekey_step_measure)

subsection \<open>A scheduler\<close>

definition group_ctx :: "'z rekey_env \<Rightarrow> 'z rekey_state \<Rightarrow> ctx" where
  "group_ctx e s t \<longleftrightarrow> re_ctx e t \<or> rs_firstErr s \<noteq> None \<and> clock (rs_world s) \<le> t"

lemma group_ctx_ok: "r_ctx e s k (group_ctx e s)"
proof (cases "rs_firstErr s")
  case None
  then have "group_ctx e s = re_ctx e" by (intro ext) (simp add: group_ctx_def)
  with None show ?thesis by (simp add: r_ctx_def)
qed (simp add: r_ctx_def group_ctx_def)

fun rekey_advance :: "'z rekey_env \<Rightarrow> 'z rekey_state \<Rightarrow> nat \<Rightarrow> 'z rekeyer \<Rightarrow> 'z rekey_state option" where
  "rekey_advance e s k (Reading i) =
     (case ReadEncryptedObject (re_objects e) (group_ctx e s) (r_hash e i) (re_old_generation e) (re_old_key e) (rs_world s) of
        (Ok rc, w) \<Rightarrow> Some (r_move k (Resaving i rc) w s)
      | (Err er, w) \<Rightarrow> Some (r_error k er w s)
      | (Panic _, _) \<Rightarrow> None)"
| "rekey_advance e s k (Resaving i rc) =
     (case SaveRekeyedObject (re_objects e) (group_ctx e s) (r_hash e i) rc (re_new_generation e) (re_new_key e) (rs_world s) of
        (Ok _, w) \<Rightarrow> Some (r_move k (Releasing i rc None) w s)
      | (Err er, w) \<Rightarrow> Some (r_move k (Releasing i rc (Some er)) w s)
      | (Panic _, _) \<Rightarrow> None)"
| "rekey_advance e s k (Releasing i rc saveErr) =
     (case rc_Close rc (rs_world s) of
        (Ok _, w) \<Rightarrow> Some (r_released k saveErr None w s)
      | (Err er, w) \<Rightarrow> Some (r_released k saveErr (Some er) w s)
      | (Panic _, _) \<Rightarrow> None)"
| "rekey_advance e s k p = None"

lemma rekey_advance_step:
  assumes "rekey_advance e s k p = Some s'" and k: "k < length (rs_workers s)" "rs_workers s ! k = p"
  shows "rekey_step e s s'"
proof (cases p)
  case (Reading i)
  with assms group_ctx_ok [of e s k] show ?thesis
    by (auto split: prod.splits outcome.splits intro: r_read [of k s] r_read_error [of k s])
next
  case (Resaving i rc)
  with assms group_ctx_ok [of e s k] show ?thesis
    by (auto split: prod.splits outcome.splits intro: r_save [of k s] r_save_error [of k s])
next
  case (Releasing i rc er)
  with assms show ?thesis
    by (auto split: prod.splits outcome.splits intro: r_close [of k s] r_close_error [of k s])
qed (use assms in simp_all)

definition is_ready :: "'z rekeyer \<Rightarrow> bool" where
  "is_ready p \<longleftrightarrow> (case p of Ready \<Rightarrow> True | _ \<Rightarrow> False)"

lemma is_ready_iff [simp]: "is_ready p \<longleftrightarrow> p = Ready"
  by (cases p) (simp_all add: is_ready_def)

definition stops :: "'z rekey_env \<Rightarrow> 'z rekey_state \<Rightarrow> bool" where
  "stops e s \<longleftrightarrow> re_ctx e (clock (rs_world s)) \<or> \<not> Option.is_none (rs_firstErr s)"

lemma stops_iff [simp]: "stops e s \<longleftrightarrow> r_stop e s"
  by (cases "rs_firstErr s") (simp_all add: stops_def r_stop_def Option.is_none_def)

definition rekey_next :: "'z rekey_env \<Rightarrow> 'z rekey_state \<Rightarrow> 'z rekey_state option" where
  "rekey_next e s =
     (case first_where r_busy (rs_workers s) of
        Some k \<Rightarrow> rekey_advance e s k (rs_workers s ! k)
      | None \<Rightarrow>
          (if rs_feeding s \<and> (rs_next s = length (re_hashes e) \<or> stops e s) then Some (s\<lparr>rs_feeding := False\<rparr>)
           else (case first_where is_ready (rs_workers s) of
             None \<Rightarrow> None
           | Some k \<Rightarrow>
               if \<not> rs_feeding s then Some (r_move k Gone (rs_world s) s)
               else if rs_next s < length (re_hashes e)
               then Some ((r_move k (Reading (rs_next s)) (rs_world s) s)\<lparr>rs_next := Suc (rs_next s)\<rparr>)
               else None)))"

lemma rekey_next_step:
  assumes "rekey_next e s = Some s'"
  shows "rekey_step e s s'"
proof (cases "first_where r_busy (rs_workers s)")
  case (Some k)
  with assms show ?thesis by (auto simp: rekey_next_def dest!: first_where_Some intro: rekey_advance_step)
next
  case busy: None
  show ?thesis
  proof (cases "rs_feeding s \<and> (rs_next s = length (re_hashes e) \<or> r_stop e s)")
    case True
    with assms busy show ?thesis by (auto simp: rekey_next_def intro: r_feed_end r_feed_break)
  next
    case False
    with assms busy obtain k where k: "first_where is_ready (rs_workers s) = Some k"
      by (auto simp: rekey_next_def split: option.splits)
    then have k': "k < length (rs_workers s)" "rs_workers s ! k = Ready" by (auto dest!: first_where_Some)
    with assms busy k False show ?thesis
      by (auto simp: rekey_next_def split: if_splits intro: r_leave r_feed)
  qed
qed

fun rekey_run :: "nat \<Rightarrow> 'z rekey_env \<Rightarrow> 'z rekey_state \<Rightarrow> 'z rekey_state" where
  "rekey_run 0 e s = s"
| "rekey_run (Suc n) e s = (case rekey_next e s of None \<Rightarrow> s | Some s' \<Rightarrow> rekey_run n e s')"

lemma rekey_run_steps: "(rekey_step e)\<^sup>*\<^sup>* s (rekey_run n e s)"
proof (induction n arbitrary: s)
  case (Suc n)
  show ?case
  proof (cases "rekey_next e s")
    case (Some s')
    with rekey_next_step [OF Some] Suc show ?thesis by (simp add: converse_rtranclp_into_rtranclp)
  qed simp
qed simp

subsection \<open>No run gets stuck\<close>

definition ticks :: "('z os_world_scheme, 'a) io \<Rightarrow> bool" where
  "ticks m \<longleftrightarrow> (\<forall>w. clock w \<le> clock (snd (m w)))"

lemma ticksD: "ticks m \<Longrightarrow> m w = (r, w') \<Longrightarrow> clock w \<le> clock w'"
  unfolding ticks_def by (metis snd_conv)

definition safe_reader :: "'z ObjectRepository \<Rightarrow> 'z ReadCloser \<Rightarrow> bool" where
  "safe_reader orp rc \<longleftrightarrow> quiet (rc_Close rc) \<and> ticks (rc_Close rc) \<and>
     (\<forall>c h g key. quiet (SaveRekeyedObject orp c h rc g key) \<and> ticks (SaveRekeyedObject orp c h rc g key))"

definition safe_rekey :: "'z ObjectRepository \<Rightarrow> bool" where
  "safe_rekey orp \<longleftrightarrow>
     (\<forall>c h g key. quiet (ReadEncryptedObject orp c h g key) \<and> ticks (ReadEncryptedObject orp c h g key) \<and>
        (\<forall>w rc w'. ReadEncryptedObject orp c h g key w = (Ok rc, w') \<longrightarrow> safe_reader orp rc))"

fun holds_reader :: "'z ObjectRepository \<Rightarrow> 'z rekeyer \<Rightarrow> bool" where
  "holds_reader orp (Resaving i rc) \<longleftrightarrow> safe_reader orp rc"
| "holds_reader orp (Releasing i rc er) \<longleftrightarrow> safe_reader orp rc"
| "holds_reader orp p \<longleftrightarrow> True"

definition stopped :: "'z rekey_env \<Rightarrow> 'z rekey_state \<Rightarrow> bool" where
  "stopped e s \<longleftrightarrow> rs_firstErr s \<noteq> None \<or> (\<exists>t \<le> clock (rs_world s). re_ctx e t)"

definition rekey_live :: "'z rekey_env \<Rightarrow> 'z rekey_state \<Rightarrow> bool" where
  "rekey_live e s \<longleftrightarrow> rs_next s \<le> length (re_hashes e) \<and>
     (\<forall>p \<in> set (rs_workers s). holds_reader (re_objects e) p) \<and>
     (rs_feeding s \<longrightarrow> rs_workers s \<noteq> [] \<and> (Gone \<in> set (rs_workers s) \<longrightarrow> stopped e s))"

lemma rekey_live_init: "rekey_live (rekey_env_of sv ctx p) (rekey_init p w)"
  by (auto simp: rekey_live_def rekey_init_def maxRekeyWorkers_def)

lemma rekey_live_move:
  assumes inv: "rekey_live e s" and "holds_reader (re_objects e) p" and "p = Gone \<Longrightarrow> rs_feeding s \<Longrightarrow> stopped e s'"
    and "stopped e s \<Longrightarrow> stopped e s'"
    and "rs_workers s' = (rs_workers s)[k := p]" and "rs_next s' = rs_next s" and "rs_feeding s' = rs_feeding s"
  shows "rekey_live e s'"
proof -
  have sub: "set ((rs_workers s)[k := p]) \<subseteq> insert p (set (rs_workers s))" by (rule set_update_subset_insert)
  then have "\<forall>q \<in> set (rs_workers s'). holds_reader (re_objects e) q"
    using inv assms(2,5) unfolding rekey_live_def by auto
  moreover have "stopped e s'" if "rs_feeding s'" "Gone \<in> set (rs_workers s')"
    using that sub inv assms(3-5,7) unfolding rekey_live_def by auto
  ultimately show ?thesis using inv assms(5-7) unfolding rekey_live_def by simp
qed

lemma stopped_later:
  "stopped e s \<Longrightarrow> clock (rs_world s) \<le> clock w \<Longrightarrow> stopped e (r_move k p w s)"
  "stopped e (r_error k er w s)"
  by (auto simp: stopped_def r_move_def r_error_def record_error_def intro: le_trans split: option.split)

lemma r_fields:
  "rs_workers (r_move k p w s) = (rs_workers s)[k := p]" "rs_next (r_move k p w s) = rs_next s"
  "rs_feeding (r_move k p w s) = rs_feeding s" "rs_workers (r_error k er w s) = (rs_workers s)[k := Gone]"
  "rs_next (r_error k er w s) = rs_next s" "rs_feeding (r_error k er w s) = rs_feeding s"
  by (simp_all add: r_error_def r_move_def)

lemma rekey_live_error:
  assumes "rekey_live e s"
  shows "rekey_live e (r_error k er w s)"
  by (rule rekey_live_move [OF assms, of Gone _ k]) (simp_all add: stopped_later(2) r_fields)

lemma rekey_live_moved:
  assumes "rekey_live e s" and "holds_reader (re_objects e) p" and "clock (rs_world s) \<le> clock w"
    and "p = Gone \<Longrightarrow> rs_feeding s \<Longrightarrow> stopped e s"
  shows "rekey_live e (r_move k p w s)"
  by (rule rekey_live_move [OF assms(1,2), of _ k]) (use assms(3,4) stopped_later(1) in \<open>simp_all add: r_fields\<close>)

lemma rekey_live_released:
  assumes "rekey_live e s" and "clock (rs_world s) \<le> clock w"
  shows "rekey_live e (r_released k saveErr closeErr w s)"
proof (cases "errors_Join saveErr closeErr")
  case None
  have "rekey_live e (r_move k Ready w s)"
    by (rule rekey_live_moved [OF assms(1)]) (simp_all add: assms(2))
  with None show ?thesis by (simp add: r_released_def)
next
  case (Some er)
  with rekey_live_error [OF assms(1)] show ?thesis by (simp add: r_released_def)
qed

lemma rekey_live_step:
  assumes step: "rekey_step e s s'" and inv: "rekey_live e s" and safe: "safe_rekey (re_objects e)"
  shows "rekey_live e s'"
proof -
  have held: "holds_reader (re_objects e) (rs_workers s ! k)" if "k < length (rs_workers s)" for k
    using inv nth_mem [OF that] unfolding rekey_live_def by blast
  show ?thesis using step
  proof cases
    case (r_feed k)
    then have "rekey_live e (r_move k (Reading (rs_next s)) (rs_world s) s)"
      by (intro rekey_live_moved [OF inv]) simp_all
    with r_feed show ?thesis by (simp add: rekey_live_def stopped_def r_fields)
  next
    case (r_leave k)
    have "stopped e s" if "r_stop e s" using that by (auto simp: r_stop_def stopped_def)
    with r_leave show ?thesis
      by (auto intro!: rekey_live_moved [OF inv])
  next
    case (r_read k i c rc w)
    with safe have *: "clock (rs_world s) \<le> clock w" "safe_reader (re_objects e) rc"
      unfolding safe_rekey_def using ticksD by blast+
    with r_read show ?thesis
      by (auto intro!: rekey_live_moved [OF inv])
  next
    case (r_save k i rc c w)
    with held [of k] have *: "safe_reader (re_objects e) rc" by simp
    with r_save have "clock (rs_world s) \<le> clock w" unfolding safe_reader_def using ticksD by blast
    with * r_save show ?thesis
      by (auto intro!: rekey_live_moved [OF inv])
  next
    case (r_save_error k i rc c er w)
    with held [of k] have *: "safe_reader (re_objects e) rc" by simp
    with r_save_error have "clock (rs_world s) \<le> clock w" unfolding safe_reader_def using ticksD by blast
    with * r_save_error show ?thesis
      by (auto intro!: rekey_live_moved [OF inv])
  next
    case (r_close k i rc saveErr w)
    with held [of k] have *: "safe_reader (re_objects e) rc" by simp
    then have "clock (rs_world s) \<le> clock w" unfolding safe_reader_def using ticksD r_close(4) by blast
    with rekey_live_released [OF inv] r_close show ?thesis by simp
  next
    case (r_close_error k i rc saveErr er w)
    with held [of k] have *: "safe_reader (re_objects e) rc" by simp
    then have "clock (rs_world s) \<le> clock w" unfolding safe_reader_def using ticksD r_close_error(4) by blast
    with rekey_live_released [OF inv] r_close_error show ?thesis by simp
  next
    case (r_read_error k i c er w)
    with rekey_live_error [OF inv] show ?thesis by simp
  qed (use inv in \<open>simp_all add: rekey_live_def\<close>)
qed

lemma rekey_live_steps:
  assumes "(rekey_step e)\<^sup>*\<^sup>* s0 s" and "rekey_live e s0" and "safe_rekey (re_objects e)"
  shows "rekey_live e s"
  using assms(1) by (induction rule: rtranclp_induct) (use assms(2,3) rekey_live_step in blast)+

lemma not_r_busy: "\<not> r_busy p \<Longrightarrow> p = Ready \<or> p = Gone"
  by (cases p) (simp_all add: r_busy_def)

lemma rekey_live_next:
  assumes inv: "rekey_live e s" and safe: "safe_rekey (re_objects e)"
    and lasting: "\<And>t t'. re_ctx e t \<Longrightarrow> t \<le> t' \<Longrightarrow> re_ctx e t'" and stuck: "rekey_next e s = None"
  shows "all_gone s"
proof (cases "first_where r_busy (rs_workers s)")
  case (Some k)
  then have k: "k < length (rs_workers s)" "r_busy (rs_workers s ! k)" by (auto dest!: first_where_Some)
  have c: "holds_reader (re_objects e) (rs_workers s ! k)" using inv nth_mem [OF k(1)] unfolding rekey_live_def by blast
  from stuck Some have n: "rekey_advance e s k (rs_workers s ! k) = None" by (simp add: rekey_next_def)
  show ?thesis
  proof (cases "rs_workers s ! k")
    case (Reading i)
    with n quiet_case [of "ReadEncryptedObject (re_objects e) (group_ctx e s) (r_hash e i) (re_old_generation e) (re_old_key e)" "rs_world s"]
      safe show ?thesis by (auto simp: safe_rekey_def split: prod.splits outcome.splits)
  next
    case (Resaving i rc)
    with n c quiet_case [of "SaveRekeyedObject (re_objects e) (group_ctx e s) (r_hash e i) rc (re_new_generation e) (re_new_key e)" "rs_world s"]
    show ?thesis by (auto simp: safe_reader_def split: prod.splits outcome.splits)
  next
    case (Releasing i rc er)
    with n c quiet_case [of "rc_Close rc" "rs_world s"]
    show ?thesis by (auto simp: safe_reader_def split: prod.splits outcome.splits)
  qed (use k(2) in \<open>simp_all add: r_busy_def\<close>)
next
  case busy: None
  then have idle: "\<forall>p \<in> set (rs_workers s). p = Ready \<or> p = Gone"
    by (metis first_where_None not_r_busy)
  have feeding: "\<not> (rs_feeding s \<and> (rs_next s = length (re_hashes e) \<or> r_stop e s))"
    using stuck busy by (auto simp: rekey_next_def)
  show ?thesis
  proof (cases "first_where is_ready (rs_workers s)")
    case (Some k)
    with stuck busy feeding inv show ?thesis by (auto simp: rekey_next_def rekey_live_def split: if_splits)
  next
    case n: None
    with idle have gone: "\<forall>p \<in> set (rs_workers s). p = Gone" by (auto simp: first_where_None)
    have "\<not> rs_feeding s"
    proof
      assume f: "rs_feeding s"
      then have "rs_workers s \<noteq> []" using inv by (simp add: rekey_live_def)
      with gone have "Gone \<in> set (rs_workers s)" by (cases "rs_workers s") auto
      with f inv have "stopped e s" by (simp add: rekey_live_def)
      then have "r_stop e s" using lasting by (auto simp: stopped_def r_stop_def)
      with f feeding show False by simp
    qed
    with gone show ?thesis by (auto simp: all_gone_def list_all_iff)
  qed
qed

end
