(* ===== verification/ReKey_Sample.thy ===== *)
theory ReKey_Sample
  imports Disk_Key_Facts ReKey_Run Sample
begin

section \<open>A change of the key, run\<close>

text \<open>A repository with one encrypted object in generation 1, an old private and a new public key.\<close>

definition old_key :: bytes where "old_key = replicate 32 7"

definition current_encryption :: EncryptionConfig where
  "current_encryption =
     \<lparr>encryptionType = DefaultEncryptionType, keyEncryption = DefaultKeyEncryption,
      encryptedKey = base64_EncodeToString (0 # 1 # old_key), publicKeyFingerprint = ''old'', generation = 1\<rparr>"

definition current_config :: Config where
  "current_config =
     \<lparr>conf_id = replicate 16 65, formatVersion = 1, createdAt = 0, compression = Some no_compression,
      encryption = Some current_encryption\<rparr>"

definition rekey_hash :: string where "rekey_hash = content_hash toy_crypto [1, 2, 3]"

definition rekey_nodes :: "(fspath \<times> node) list" where
  "rekey_nodes =
     [([''r''], Dir), ([''r'', ''objects''], Dir), ([''r'', ''objects'', ''encrypted''], Dir),
      ([''r'', ''objects'', ''encrypted'', ''1''], Dir),
      ([''r'', ''objects'', ''encrypted'', ''1'', take 2 rekey_hash], Dir),
      ([''r'', ''objects'', ''encrypted'', ''1'', take 2 rekey_hash, drop 2 rekey_hash],
        File (replicate 12 0 @ [3, 2, 1, 6])),
      ([''r'', ''config.json''], File [0, 48, 10]),
      ([''old.pem''], File [11, 1]), ([''new.pem''], File [10, 1, 1])]"

definition plain_model :: "Config \<Rightarrow> model_Config" where
  "plain_model c = (config_model toy_lib c no_compression)\<lparr>mco_CreatedAt := []\<rparr>"

text \<open>What the preparation will find out.\<close>

definition fresh_key :: bytes where "fresh_key = map of_nat [10..<42]"

definition sample_plan :: rekey_plan where
  "sample_plan = \<lparr>rp_config = current_config\<lparr>createdAt := 2\<rparr>, rp_encryption = current_encryption,
     rp_old_key = old_key, rp_new_key = fresh_key, rp_encrypted = 12 # 2 # fresh_key,
     rp_public = \<lparr>rsa_N = toy_modulus, rsa_E = 2\<rparr>,
     rp_fingerprint = ''SHA256:AQEAAAAAAAAAAAAAAAAAAAAAAAAAAAAAAAAAAAAAAAA'', rp_hashes = [rekey_hash]\<rparr>"

definition rekey_configs :: "model_Config list" where
  "rekey_configs = [plain_model current_config, plain_model (rekeyed_config sample_plan)]"

definition rekey_Marshal :: "model_Config \<Rightarrow> bytes outcome" where "rekey_Marshal c = config_Marshal rekey_configs c"
definition rekey_Parse :: "bytes \<Rightarrow> model_Config outcome" where "rekey_Parse b = config_Parse rekey_configs b"

definition rekey_text :: text_lib where
  "rekey_text =
     \<lparr>config_MarshalIndent = rekey_Marshal, config_Unmarshal = rekey_Parse,
      manifest_MarshalIndent = manifest_Marshal [], manifest_Unmarshal = manifest_Parse [],
      Format_RFC3339 = toy_time, Format_stamp = toy_time\<rparr>"

definition rekey_lib :: library where
  "rekey_lib = \<lparr>lib_codecs = toy_codecs, lib_crypto = toy_crypto, lib_uuid = toy_uuid, lib_text = rekey_text\<rparr>"

lemma rekey_lib_table: "rekey_lib = table_lib rekey_configs []"
  by (simp add: rekey_lib_def table_lib_def table_text_def rekey_text_def fun_eq_iff rekey_Marshal_def rekey_Parse_def)

definition rekey_world :: "(nat \<Rightarrow> nat option) \<Rightarrow> os_world" where
  "rekey_world f = toy_world rekey_nodes f"

definition sample_rekey :: "unit rekey_service" where
  "sample_rekey = \<lparr>rk_folder = DiskFolderRepository rekey_lib, rk_symmetric = SymmetricRepository toy_crypto,
     rk_asymmetric = DiskKeyPairRepository toy_crypto, rk_objects = DiskObjectRepository rekey_lib ''/r''\<rparr>"


lemma BitLen_pow: "BitLen (2 ^ n) = Suc n"
  by (induction n) (simp_all add: BitLen.simps)

lemma BitLen_toy: "BitLen toy_modulus = 3072"
  using BitLen_pow [of 3071] by (simp add: toy_modulus_def)

text \<open>The evaluator cannot count the bits of the modulus; the public key is read by hand.\<close>

lemma toy_public_key:
  assumes "lookup w [''new.pem''] = Some (File [10, 1, 1])" and "faults w (Suc (clock w)) = None"
  shows "disk_ReadRSAPublicKey toy_crypto background ''/new.pem'' w =
    (Ok \<lparr>rsa_N = toy_modulus, rsa_E = 2\<rparr>, tick (tick w))"
proof -
  have p: "resolve v ''/new.pem'' = [''new.pem'']" for v :: "'a os_world_scheme"
    by (simp add: resolve_def) code_simp
  have "os_ReadFile ''/new.pem'' (tick w) = (Ok [10, 1, 1], tick (tick w))"
    using assms by (simp add: os_ReadFile_def syscall_def sys_def p)
  then show ?thesis
    by (simp add: disk_ReadRSAPublicKey_def andThen_def tryCatch_def orWrap_def go_simps ctxErr_def background_def
        toy_crypto_def toy_pem_Decode_def parse_public_def pem_PublicKey_def toy_ParsePKIX_def BitLen_toy
        MinimumRSAKeySizeInBit_def)
qed

text \<open>
  The preparation, call by call, in the worlds at the times of the calls. The first eighteen
  system calls of the disk succeed, whatever happens later.
\<close>

definition late :: "(nat \<Rightarrow> nat option) \<Rightarrow> nat \<Rightarrow> nat option" where
  "late f t = (if t < 19 then None else f t)"

definition world_at :: "nat \<Rightarrow> (nat \<Rightarrow> nat option) \<Rightarrow> os_world" where
  "world_at n f = (rekey_world f)\<lparr>clock := n\<rparr>"

lemma late_faults: "late no_fault = no_fault" "19 \<le> n \<Longrightarrow> late (fault_at n k) = fault_at n k"
  by (auto simp: late_def no_fault_def fault_at_def)

lemma world_at_0: "rekey_world f = world_at 0 f"
  by (simp add: world_at_def rekey_world_def toy_world_def)

definition reads_to :: "'a outcome \<Rightarrow> nat \<Rightarrow> 'a outcome \<times> os_world \<Rightarrow> bool" where
  "reads_to r n o' \<longleftrightarrow> fst o' = r \<and> nodes (snd o') = rekey_nodes \<and> clock (snd o') = n"

lemma reads_to:
  assumes "sets ''/'' {} m" and "reads_to r n (m (world_at k f))"
  shows "m (world_at k f) = (r, world_at n f)"
proof -
  have "cwd (world_at k f) = ''/''" "faults (world_at k f) = f" "entropy (world_at k f) = toy_entropy"
    by (simp_all add: world_at_def rekey_world_def toy_world_def)
  with setsD [OF assms(1), of "world_at k f"] assms(2) show ?thesis
    by (auto simp: reads_to_def steady_def prod_eq_iff world_at_def rekey_world_def toy_world_def)
qed

definition old_private :: rsa_PrivateKey where
  "old_private = \<lparr>rsa_PublicKey = \<lparr>rsa_N = toy_modulus, rsa_E = 1\<rparr>, rsa_D = 1, rsa_Primes = []\<rparr>"

lemma sample_plan_fields:
  "rp_encryption sample_plan = current_encryption" "encryption (rp_config sample_plan) = Some current_encryption"
  "Encryption.generation current_encryption = 1" "rp_public sample_plan = \<lparr>rsa_N = toy_modulus, rsa_E = 2\<rparr>"
  by (simp_all add: sample_plan_def current_config_def current_encryption_def)

lemma sample_calls:
  "reads_to (Ok (rp_config sample_plan)) 3 (disk_GetConfig rekey_lib background ''/r'' (world_at 0 (late f)))"
  "reads_to (Ok old_private) 5 (disk_ReadRSAPrivateKey toy_crypto background ''/old.pem'' (world_at 3 (late f)))"
  "reads_to (Ok old_key) 6
     (SymmetricRepository_Decode toy_crypto background old_private (encryptedKey current_encryption) (world_at 5 (late f)))"
  "reads_to (Ok fresh_key) 10 (SymmetricRepository_Generate background (world_at 8 (late f)))"
  "reads_to (Ok (rp_encrypted sample_plan)) 12
     (SymmetricRepository_Encrypt toy_crypto background \<lparr>rsa_N = toy_modulus, rsa_E = 2\<rparr> fresh_key (world_at 10 (late f)))"
  "reads_to (Ok (rp_fingerprint sample_plan)) 13
     (disk_PublicKeyFingerPrint toy_crypto background \<lparr>rsa_N = toy_modulus, rsa_E = 2\<rparr> (world_at 12 (late f)))"
  "reads_to (Ok [rekey_hash]) 18 (disk_ListEncryptedObjects ''/r'' background 1 (world_at 13 (late f)))"
  by code_simp+

lemma sample_on_disk: "rekey_on_disk rekey_lib ''/r'' sample_rekey"
  by (simp add: rekey_on_disk_def sample_rekey_def rekey_lib_def)

lemma sample_rekey_prepare:
  assumes f: "late f = f"
  shows "rekey_prepare sample_rekey background ''/r'' ''/old.pem'' ''/new.pem'' (rekey_world f) = (Ok sample_plan, world_at 18 f)"
proof -
  have c: "lib_crypto rekey_lib = toy_crypto" by (simp add: rekey_lib_def)
  have final: "\<lparr>rp_config = rp_config sample_plan, rp_encryption = current_encryption, rp_old_key = old_key,
      rp_new_key = fresh_key, rp_encrypted = rp_encrypted sample_plan,
      rp_public = \<lparr>rsa_N = toy_modulus, rsa_E = 2\<rparr>, rp_fingerprint = rp_fingerprint sample_plan,
      rp_hashes = [rekey_hash]\<rparr> = sample_plan"
    by (simp add: sample_plan_def)
  note C = sample_calls [of f, unfolded f]
  note calls = reads_to [OF sets_key_reads(1) C(1)] reads_to [OF sets_key_reads(2) C(2)]
    reads_to [OF sets_services(3) C(3)] reads_to [OF sets_services(5) C(4)] reads_to [OF sets_services(4) C(5)]
    reads_to [OF sets_services(6) C(6)] reads_to [OF sets_ListEncryptedObjects C(7)]
  have "lookup (world_at 6 f) [''new.pem''] = Some (File [10, 1, 1])" by code_simp
  moreover have "faults (world_at 6 f) (Suc (clock (world_at 6 f))) = late f 7"
    by (simp add: world_at_def rekey_world_def toy_world_def f)
  ultimately have "disk_ReadRSAPublicKey toy_crypto background ''/new.pem'' (world_at 6 f) =
      (Ok \<lparr>rsa_N = toy_modulus, rsa_E = 2\<rparr>, tick (tick (world_at 6 f)))"
    by (intro toy_public_key) (simp_all add: late_def)
  then have public: "disk_ReadRSAPublicKey toy_crypto background ''/new.pem'' (world_at 6 f) =
      (Ok \<lparr>rsa_N = toy_modulus, rsa_E = 2\<rparr>, world_at 8 f)"
    by (simp add: world_at_def tick_def)
  show ?thesis
    unfolding rekey_prepare_def rekey_disk_ops [OF sample_on_disk] c world_at_0
    by (simp add: andThen_def tryCatch_def calls public sample_plan_fields final return_run)
qed

definition rekey_end :: "(nat \<Rightarrow> nat option) \<Rightarrow> unit rekey_state" where
  "rekey_end f = rekey_run 20 (rekey_env_of sample_rekey background sample_plan) (rekey_init sample_plan (world_at 18 f))"

end
