(* ===== verification/ReKey_Properties.thy ===== *)
theory ReKey_Properties
  imports ReKey_Sample
begin

section \<open>What a change of the key guarantees\<close>

lemma sample_lawful: "rekey_lawful rekey_lib ''/r''"
proof -
  have "is_rooted ''/r''" by code_simp
  then show ?thesis by (simp add: rekey_lawful_def rekey_lib_def toy_gcm_correct)
qed

lemma sample_generation: "Encryption.generation (rp_encryption sample_plan) = 1"
  by (simp add: sample_plan_def current_encryption_def)

text \<open>The only file of the sample's generation is its object.\<close>

lemma sample_clean: "clean_generation ''/r'' (Encryption.generation (rp_encryption sample_plan)) (rekey_world f)"
proof -
  have nodes: "nodes (rekey_world f) = rekey_nodes" by (simp add: rekey_world_def toy_world_def)
  have all: "list_all (\<lambda>(q, n). prefix (generation_at ''/r'' 1) q \<longrightarrow> n = Dir \<or> q = encrypted_at ''/r'' 1 rekey_hash) rekey_nodes"
    and dir: "map_of rekey_nodes (generation_at ''/r'' 1) = Some Dir" and h: "hash_ok rekey_hash" by code_simp+
  have gen: "generation_at ''/r'' 1 \<noteq> []" by (simp add: generation_at_def)
  show ?thesis
    unfolding clean_generation_def sample_generation
  proof (intro conjI allI impI)
    show "lookup (rekey_world f) (generation_at ''/r'' 1) = Some Dir" using dir by (simp add: lookup_def nodes)
    fix q n assume p: "prefix (generation_at ''/r'' 1) q" and l: "lookup (rekey_world f) q = Some n" and n: "n \<noteq> Dir"
    have "q \<noteq> []" using p gen by auto
    with l have "(q, n) \<in> set rekey_nodes" by (auto simp: lookup_def nodes dest: map_of_SomeD)
    with all p n have "q = encrypted_at ''/r'' 1 rekey_hash" by (auto simp: list_all_iff)
    with h show "\<exists>h. hash_ok h \<and> q = encrypted_at ''/r'' 1 h" by blast
  qed
qed

lemma background_lasting: "lasting background"
  by (simp add: lasting_def background_def)

lemma sample_commits:
  "let s = rekey_end no_fault in all_gone s \<and> rs_firstErr s = None \<and>
     fst (rekey_commit sample_rekey background ''/r'' sample_plan background (rs_world s)) = Ok ()"
  by code_simp

lemma sample_runs:
  "(rekey_step (rekey_env_of sample_rekey background sample_plan))\<^sup>*\<^sup>*
     (rekey_init sample_plan (world_at 18 f)) (rekey_end f)"
  unfolding rekey_end_def by (rule rekey_run_steps)

lemma sample_rekeyed: "\<exists>w'. ReKey_Do sample_rekey background ''/r'' ''/old.pem'' ''/new.pem'' (rekey_world no_fault) (Ok ()) w'"
proof -
  let ?c = "rekey_commit sample_rekey background ''/r'' sample_plan background (rs_world (rekey_end no_fault))"
  from sample_commits have fin: "all_gone (rekey_end no_fault)" "rs_firstErr (rekey_end no_fault) = None"
    and "fst ?c = Ok ()" by (simp_all add: Let_def)
  then have "?c = (Ok (), snd ?c)" by (simp add: prod_eq_iff)
  from r_committed [OF sample_rekey_prepare [OF late_faults(1)] sample_runs fin this] show ?thesis by blast
qed

text \<open>
  C3: after a change of the key that succeeded, every object of the old generation is in the new one:
  decrypted with the new key it is what the old one was with the old key; and nothing of the old
  generation is left.
\<close>

theorem ReKey_correct:
  assumes run: "ReKey_Do sv ctx root privPath pubPath w (Ok x) w'"
    and prep: "rekey_prepare sv ctx root privPath pubPath w = (Ok p, w1)"
    and on: "rekey_on_disk lib root sv" and l: "rekey_lawful lib root"
    and clean: "clean_generation root (Encryption.generation (rp_encryption p)) w" and ctx: "lasting ctx"
    and h: "hash_ok h" and old: "lookup w (object_at root (rp_old_key p) (Encryption.generation (rp_encryption p)) h) = Some (File raw)"
    and keys: "rp_old_key p \<noteq> []" "rp_new_key p \<noteq> []"
  shows "\<exists>raw' b. object_content lib (rp_old_key p) raw = Some b \<and>
      lookup w' (object_at root (rp_new_key p) (new_generation p) h) = Some (File raw') \<and>
      object_content lib (rp_new_key p) raw' = Some b \<and>
      (\<forall>q. prefix (generation_at root (Encryption.generation (rp_encryption p))) q \<longrightarrow> lookup w' q = None)"
proof -
  let ?g = "Encryption.generation (rp_encryption p)"
  have root: "is_rooted root" using l by (simp add: rekey_lawful_def)
  from ReKey_Ok [OF run on l prep clean ctx] obtain v w2 where
    cc: "disk_CreateConfig lib ctx root (rekeyed_config p) v = (Ok (), w2)"
    and del: "disk_DeleteEncryptedGeneration root ctx ?g w2 = (Ok (), w')"
    and all: "\<forall>h \<in> set (rp_hashes p). disk_rekey.resaved root lib (rekey_env_of sv ctx p) w1 v h" by blast
  have r: "encrypted_raw root w ?g h = Some raw" using old keys by (simp add: encrypted_raw_def encrypted_object)
  have "lookup w1 q = lookup w q" for q
    using lookups_of_read(1) [OF sets_rekey_prepare [OF on] prep] by simp
  with r have r1: "encrypted_raw root w1 ?g h = Some raw" by (simp add: encrypted_raw_def)
  from all rekeys_on_disk(2) [OF on l prep clean h r] r1 obtain raw' b where
    b: "object_content lib (rp_old_key p) raw = Some b" "object_content lib (rp_new_key p) raw' = Some b"
    and new: "encrypted_raw root v (new_generation p) h = Some raw'"
    by (auto simp: disk_rekey.resaved_def rekey_env_of_def)
  have "lookup w2 (encrypted_at root (new_generation p) h) = lookup v (encrypted_at root (new_generation p) h)"
    using sets_lookup(2) [OF sets_disk_CreateConfig [OF root] refl cc] config_ne_encrypted by simp
  moreover note D = DeleteEncryptedGeneration_Ok [OF del root]
  moreover have "\<not> prefix (generation_at root ?g) (encrypted_at root (new_generation p) h)"
    using generation_succ [of ?g] by (simp add: encrypted_at_generation new_generation_def)
  ultimately have "lookup w' (encrypted_at root (new_generation p) h) = Some (File raw')"
    using new by (simp add: encrypted_raw_def split: option.splits node.splits)
  with b D keys show ?thesis by (simp add: encrypted_object)
qed

theorem ReKey_correct_witness:
  "\<exists>(w' :: os_world) raw' b. ReKey_Do sample_rekey background ''/r'' ''/old.pem'' ''/new.pem'' (rekey_world no_fault) (Ok ()) w' \<and>
     lookup w' (object_at ''/r'' fresh_key 2 rekey_hash) = Some (File raw') \<and>
     object_content rekey_lib fresh_key raw' = Some b"
proof -
  obtain w' where run: "ReKey_Do sample_rekey background ''/r'' ''/old.pem'' ''/new.pem'' (rekey_world no_fault) (Ok ()) w'"
    using sample_rekeyed by blast
  have h: "hash_ok rekey_hash"
    and old: "lookup (rekey_world no_fault) (object_at ''/r'' (rp_old_key sample_plan)
      (Encryption.generation (rp_encryption sample_plan)) rekey_hash) = Some (File (replicate 12 0 @ [3, 2, 1, 6]))"
    and keys: "rp_old_key sample_plan \<noteq> []" "rp_new_key sample_plan \<noteq> []"
    and new: "new_generation sample_plan = 2" "rp_new_key sample_plan = fresh_key" by code_simp+
  from ReKey_correct [OF run sample_rekey_prepare [OF late_faults(1)] sample_on_disk sample_lawful sample_clean
      background_lasting h old keys] run show ?thesis unfolding new by blast
qed

text \<open>
  C10: after a change of the key that succeeded, under a context that stays done once it is, from a
  repository whose configuration file can be read and written back and that has no other files among the
  objects of its generation, the configuration on disk is the old one with the new generation, the
  fingerprint of the new public key and the new key encrypted for it: every valid private key with that
  public part decrypts it.
\<close>

theorem ReKey_config:
  assumes run: "ReKey_Do sv ctx root privPath pubPath w (Ok x) w'"
    and prep: "rekey_prepare sv ctx root privPath pubPath w = (Ok p, w1)"
    and on: "rekey_on_disk lib root sv" and l: "rekey_lawful lib root"
    and clean: "clean_generation root (Encryption.generation (rp_encryption p)) w" and ctx: "lasting ctx"
    and c0: "config_holds lib w root c0" and uuid: "uuid_correct (lib_uuid lib)" and json: "json_correct (lib_text lib)"
    and times: "\<forall>t. utf8_valid (Format_RFC3339 (lib_text lib) t)" and oaep: "oaep_correct (lib_crypto lib)"
    and priv: "rsa_PublicKey priv = rp_public p" "rsa_Validate (lib_crypto lib) priv = None"
  shows "\<exists>enc ek. config_holds lib w' root (rekeyed_config p) \<and> encryption (rekeyed_config p) = Some enc \<and>
    Encryption.generation enc = new_generation p \<and> base64_DecodeString (encryptedKey enc) = Some ek \<and>
    DecryptOAEP (lib_crypto lib) priv ek = Ok (rp_new_key p)"
proof -
  have root: "is_rooted root" using l by (simp add: rekey_lawful_def)
  from ReKey_Ok [OF run on l prep clean ctx] obtain v w2 where
    cc: "disk_CreateConfig lib ctx root (rekeyed_config p) v = (Ok (), w2)"
    and del: "disk_DeleteEncryptedGeneration root ctx (Encryption.generation (rp_encryption p)) w2 = (Ok (), w')" by blast
  note P = rekey_prepare_Ok [OF prep on]
  from P(1) GetConfig_unique [OF uuid root c0] obtain t where t: "rp_config p = c0\<lparr>createdAt := t\<rparr>" by blast
  have st: "storable lib (rekeyed_config p)"
    by (rule rekeyed_storable [OF _ t P(2,4) times]) (use c0 in \<open>simp add: config_holds_def\<close>)
  have "lookup w' (config_at root) = lookup w2 (config_at root)"
    using DeleteEncryptedGeneration_Ok [OF del root, of "config_at root"] config_not_encrypted by simp
  with CreateConfig_holds [OF json root st cc] have "config_holds lib w' root (rekeyed_config p)"
    by (simp add: config_holds_def)
  moreover from P(3) obtain seed where "EncryptOAEP (lib_crypto lib) seed (rsa_PublicKey priv) (rp_new_key p) = Ok (rp_encrypted p)"
    using priv by auto
  from oaep_decrypts [OF oaep priv(2) this]
  have "DecryptOAEP (lib_crypto lib) priv (rp_encrypted p) = Ok (rp_new_key p)" .
  ultimately show ?thesis
    by (simp add: rekeyed_config_def ChangePublicKeyFingerPrint_def ChangeEncryptedKey_def ChangeGeneration_def)
qed

lemma sample_text: "json_correct (lib_text rekey_lib)" "uuid_correct (lib_uuid rekey_lib)"
  "oaep_correct (lib_crypto rekey_lib)"
  by (simp_all add: rekey_lib_table rekey_configs_def table_text_correct toy_uuid_correct toy_oaep_correct)

lemma sample_times: "\<forall>t. utf8_valid (Format_RFC3339 (lib_text rekey_lib) t)"
proof
  fix t
  have "\<forall>c \<in> set digits. (of_char c :: nat) < 128" by code_simp
  then have "\<forall>c \<in> set (show_nat (nat t)). (of_char c :: nat) < 128" using show_nat_digits by blast
  then show "utf8_valid (Format_RFC3339 (lib_text rekey_lib) t)"
    by (simp add: rekey_lib_table table_text_def toy_time_def utf8_ascii)
qed

lemma sample_config: "config_holds rekey_lib (rekey_world f) ''/r'' current_config"
proof -
  have l: "lookup (rekey_world f) (config_at ''/r'') = lookup (rekey_world no_fault) (config_at ''/r'')"
    by (simp add: rekey_world_def toy_world_def lookup_def)
  have c: "case config_Unmarshal (lib_text rekey_lib) [0, 48, 10] of
      Ok mo \<Rightarrow> mo\<lparr>mco_CreatedAt := []\<rparr> = (config_model rekey_lib current_config no_compression)\<lparr>mco_CreatedAt := []\<rparr>
    | _ \<Rightarrow> False" by code_simp
  have f: "lookup (rekey_world no_fault) (config_at ''/r'') = Some (File [0, 48, 10])" by code_simp
  have s: "length (conf_id current_config) = 16" "standard_encryption (encryption current_config)"
    "valid_compression no_compression" "config_text_valid (config_model rekey_lib current_config no_compression)" by code_simp+
  have "compression current_config = Some no_compression" by (simp add: current_config_def)
  with c f s show ?thesis by (simp add: config_holds_def storable_def l)
qed

theorem ReKey_config_witness:
  "\<exists>(w' :: os_world) (enc :: EncryptionConfig) ek. config_holds rekey_lib w' ''/r'' (rekeyed_config sample_plan) \<and> Encryption.generation enc = 2 \<and>
     base64_DecodeString (encryptedKey enc) = Some ek \<and>
     DecryptOAEP toy_crypto \<lparr>rsa_PublicKey = rp_public sample_plan, rsa_D = 2, rsa_Primes = []\<rparr> ek = Ok fresh_key \<and>
     ReKey_Do sample_rekey background ''/r'' ''/old.pem'' ''/new.pem'' (rekey_world no_fault) (Ok ()) w'"
proof -
  obtain w' where run: "ReKey_Do sample_rekey background ''/r'' ''/old.pem'' ''/new.pem'' (rekey_world no_fault) (Ok ()) w'"
    using sample_rekeyed by blast
  have new: "new_generation sample_plan = 2" "rp_new_key sample_plan = fresh_key" by code_simp+
  have c: "lib_crypto rekey_lib = toy_crypto" by (simp add: rekey_lib_def)
  let ?priv = "\<lparr>rsa_PublicKey = rp_public sample_plan, rsa_D = 2, rsa_Primes = []\<rparr>"
  have k: "rsa_PublicKey ?priv = rp_public sample_plan" "rsa_Validate (lib_crypto rekey_lib) ?priv = None"
    unfolding c by (simp_all add: toy_crypto_def toy_Validate_def sample_plan_fields)
  from ReKey_config [OF run sample_rekey_prepare [OF late_faults(1)] sample_on_disk sample_lawful sample_clean
      background_lasting sample_config sample_text(2,1) sample_times sample_text(3) k(1,2)] run
  show ?thesis unfolding new c by blast
qed

text \<open>
  C7: whatever the outcome of a change of the key, and whenever it broke off: as long as the
  configuration file is what it was, every object of the generation it names is what it was.
\<close>

theorem ReKey_safe:
  assumes run: "ReKey_Do sv ctx root privPath pubPath w r w'"
    and prep: "rekey_prepare sv ctx root privPath pubPath w = (Ok p, w1)"
    and on: "rekey_on_disk lib root sv" and l: "rekey_lawful lib root"
    and clean: "clean_generation root (Encryption.generation (rp_encryption p)) w"
    and c0: "config_holds lib w root c0" and uuid: "uuid_correct (lib_uuid lib)" and json: "json_correct (lib_text lib)"
    and times: "\<forall>t. utf8_valid (Format_RFC3339 (lib_text lib) t)"
    and same: "lookup w' (config_at root) = lookup w (config_at root)" and h: "hash_ok h"
  shows "encrypted_raw root w' (Encryption.generation (rp_encryption p)) h =
    encrypted_raw root w (Encryption.generation (rp_encryption p)) h"
  using run
proof (rule ReKey_DoE)
  fix e assume "rekey_prepare sv ctx root privPath pubPath w = (Err e, w')"
  with prep show ?thesis by simp
next
  let ?g = "Encryption.generation (rp_encryption p)"
  let ?only = "\<lambda>S. changes_only (encrypted_raw root) (\<lambda>w. lookup w (config_at root)) hash_ok S"
  have root: "is_rooted root" using l by (simp add: rekey_lawful_def)
  have w1: "encrypted_raw root w1 g h = encrypted_raw root w g h" for g
    using lookups_of_read(1) [OF sets_rekey_prepare [OF on] prep] by (simp add: encrypted_raw_def)
  have apart: "(?g, h) \<notin> {(new_generation p, h) |h. True}" using generation_succ [of ?g] by (simp add: new_generation_def)
  have kept: "encrypted_raw root v ?g h = encrypted_raw root v' ?g h"
    if "?only {(new_generation p, h) |h. True} v' v" for v v' :: "'a os_world_scheme"
    using that apart h unfolding changes_only_def by blast
  note run = rekeys_on_disk(1) [OF on l prep clean]
  have frame: "?only {(new_generation p, h) |h. True} w1 (rs_world s)"
    if "(rekey_step (rekey_env_of sv ctx p))\<^sup>*\<^sup>* (rekey_init p w1) s" for s
    using disk_rekey.workers_frame [OF run that disk_rekey.rekey_init_inv] by (simp add: rekey_env_of_def)
  have abort: "encrypted_raw root w2 ?g h = encrypted_raw root v ?g h"
    if "rekey_abort sv p cleanup er v = (r, w2)" for cleanup er r and v w2 :: "'a os_world_scheme"
  proof -
    obtain a w3 where a: "disk_AbortRekey root cleanup (new_generation p) v = (a, w3)" by force
    then have "w2 = w3" using that unfolding rekey_abort_def rekey_disk_ops [OF on]
      by (cases a) (simp_all add: tryCatch_def fail_run)
    moreover have "AbortRekey (DiskObjectRepository lib root) cleanup (new_generation p) v = (a, w3)"
      using a by (simp add: DiskObjectRepository_def)
    from kept [OF disk_rekey.abort_frame [OF l this]] have "encrypted_raw root w3 ?g h = encrypted_raw root v ?g h" .
    ultimately show ?thesis by simp
  qed
  {
    fix p' w1' s er cleanup
    assume "rekey_prepare sv ctx root privPath pubPath w = (Ok p', w1')"
      and "(rekey_step (rekey_env_of sv ctx p'))\<^sup>*\<^sup>* (rekey_init p' w1') s"
      and ab: "rekey_abort sv p' cleanup er (rs_world s) = (r, w')"
    with prep have p: "p' = p" and steps: "(rekey_step (rekey_env_of sv ctx p))\<^sup>*\<^sup>* (rekey_init p w1) s" by simp_all
    from abort [OF ab [unfolded p]] kept [OF frame [OF steps]] w1 show ?thesis by simp
  next
    fix p' w1' s cleanup
    assume "rekey_prepare sv ctx root privPath pubPath w = (Ok p', w1')"
      and "(rekey_step (rekey_env_of sv ctx p'))\<^sup>*\<^sup>* (rekey_init p' w1') s"
      and cm: "rekey_commit sv ctx root p' cleanup (rs_world s) = (r, w')"
    with prep have p: "p' = p" and steps: "(rekey_step (rekey_env_of sv ctx p))\<^sup>*\<^sup>* (rekey_init p w1) s" by simp_all
    note old = kept [OF frame [OF steps]] w1
    obtain a w2 where cc: "disk_CreateConfig lib ctx root (rekeyed_config p) (rs_world s) = (a, w2)" by force
    have w2: "encrypted_raw root w2 ?g h = encrypted_raw root (rs_world s) ?g h"
      by (rule encrypted_raw_same)
        (use sets_lookup(2) [OF sets_disk_CreateConfig [OF root] refl cc] config_ne_encrypted in simp)
    show ?thesis
    proof (cases a)
      case (Err er)
      with cm cc have "rekey_abort sv p cleanup er w2 = (r, w')"
        unfolding rekey_commit_def rekey_disk_ops [OF on] p by (simp add: tryCatch_def)
      from abort [OF this] w2 old show ?thesis by simp
    next
      case (Panic m)
      with cm cc w2 old show ?thesis
        unfolding rekey_commit_def rekey_disk_ops [OF on] p by (simp add: tryCatch_def)
    next
      case (Ok u)
      note P = rekey_prepare_Ok [OF prep on]
      from P(1) GetConfig_unique [OF uuid root c0] obtain t where t: "rp_config p = c0\<lparr>createdAt := t\<rparr>" by blast
      have st: "storable lib (rekeyed_config p)"
        by (rule rekeyed_storable [OF _ t P(2,4) times]) (use c0 in \<open>simp add: config_holds_def\<close>)
      from CreateConfig_holds [OF json root st] cc Ok have "config_holds lib w2 root (rekeyed_config p)" by simp
      moreover have "lookup w' (config_at root) = lookup w2 (config_at root)"
      proof -
        from cm cc Ok have del: "DeleteEncryptedGeneration (DiskObjectRepository lib root) ctx ?g w2 = (r, w')"
          using on unfolding rekey_commit_def rekey_disk_ops [OF on] p by (simp add: tryCatch_def DiskObjectRepository_def)
        from disk_rekey.delete_frame [OF l del] show ?thesis by (simp add: changes_only_def)
      qed
      ultimately have "config_holds lib w root (rekeyed_config p)" using same by (simp add: config_holds_def)
      with c0 t P(2) have False
        using generation_succ [of ?g]
        by (auto simp: config_holds_def rekeyed_config_def config_model_def encryption_model_def new_generation_def
            ChangePublicKeyFingerPrint_def ChangeEncryptedKey_def ChangeGeneration_def
            split: option.splits node.splits outcome.splits)
      then show ?thesis ..
    qed
  }
qed

theorem ReKey_safe_witness:
  "\<exists>(w' :: os_world) er. ReKey_Do sample_rekey background ''/r'' ''/old.pem'' ''/new.pem''
       (rekey_world (fault_at 33 1000)) (Err er) w' \<and>
     encrypted_raw ''/r'' w' 1 rekey_hash = encrypted_raw ''/r'' (rekey_world (fault_at 33 1000)) 1 rekey_hash"
proof -
  let ?f = "fault_at 33 1000"
  let ?er = "Wrapped ''rekey object'' (Joined [Wrapped ''commit rekeyed object'' ErrIO])"
  let ?a = "rekey_abort sample_rekey sample_plan background ?er (rs_world (rekey_end ?f))"
  have "let s = rekey_end ?f; a = rekey_abort sample_rekey sample_plan background ?er (rs_world s) in
      all_gone s \<and> rs_firstErr s = Some ?er \<and> fst a = Err ?er \<and>
      lookup (snd a) (config_at ''/r'') = lookup (rekey_world ?f) (config_at ''/r'')"
    by code_simp
  then have fin: "all_gone (rekey_end ?f)" "rs_firstErr (rekey_end ?f) = Some ?er"
    and "fst ?a = Err ?er" and same: "lookup (snd ?a) (config_at ''/r'') = lookup (rekey_world ?f) (config_at ''/r'')"
    by (simp_all add: Let_def)
  then have a: "?a = (Err ?er, snd ?a)" by (simp add: prod_eq_iff)
  have late: "late ?f = ?f" by (simp add: late_faults)
  note ran = r_aborted [OF sample_rekey_prepare [OF late] sample_runs fin a]
  have h: "hash_ok rekey_hash" by code_simp
  from ReKey_safe [OF ran sample_rekey_prepare [OF late] sample_on_disk sample_lawful sample_clean
      sample_config sample_text(2,1) sample_times same h] ran
  show ?thesis unfolding sample_generation by blast
qed

subsection \<open>A change that breaks off at the commit\<close>

text \<open>
  C35: the writing of the configuration can report an error after the file has been written (its
  closing can fail). If then the cleanup's deletion succeeds in its own time, the command ends with the
  error, the configuration on disk is the new one, with the new generation and the new key, and no object
  of that generation is left, for no hash: the configuration's encrypted key is the new one, and no object
  that it reads exists.
\<close>

theorem ReKey_loses_objects:
  assumes prep: "rekey_prepare sv ctx root privPath pubPath w = (Ok p, w1)"
    and steps: "(rekey_step (rekey_env_of sv ctx p))\<^sup>*\<^sup>* (rekey_init p w1) s"
    and fin: "all_gone s" "rs_firstErr s = None"
    and on: "rekey_on_disk lib root sv" and root: "is_rooted root"
    and cc: "disk_CreateConfig lib ctx root (rekeyed_config p) (rs_world s) = (Err er, w2)"
    and held: "config_holds lib w2 root (rekeyed_config p)"
    and del: "disk_DeleteEncryptedGeneration root cleanup (new_generation p) w2 = (Ok (), w')"
  shows "ReKey_Do sv ctx root privPath pubPath w (Err er) w' \<and> config_holds lib w' root (rekeyed_config p) \<and>
    (\<exists>enc. encryption (rekeyed_config p) = Some enc \<and>
       encryptedKey enc = base64_EncodeToString (rp_encrypted p) \<and>
       (\<forall>key h. key \<noteq> [] \<longrightarrow> lookup w' (object_at root key (Encryption.generation enc) h) = None))"
proof (intro conjI)
  have "rekey_commit sv ctx root p cleanup (rs_world s) = (Err er, w')"
    using cc del unfolding rekey_commit_def rekey_abort_def rekey_disk_ops [OF on]
    by (simp add: tryCatch_def fail_def return_def disk_AbortRekey_def orWrap_def)
  from r_committed [OF prep steps fin this] show "ReKey_Do sv ctx root privPath pubPath w (Err er) w'" .
  note D = DeleteEncryptedGeneration_Ok [OF del root]
  show "config_holds lib w' root (rekeyed_config p)"
    using held D [of "config_at root"] config_not_encrypted by (simp add: config_holds_def)
  have "lookup w' (object_at root key (new_generation p) h) = None" if "key \<noteq> []" for key h
    using that D [of "encrypted_at root (new_generation p) h"] encrypted_at_generation [of root "new_generation p" "new_generation p" h]
    by (cases key) (simp_all add: encrypted_object)
  then show "\<exists>enc. encryption (rekeyed_config p) = Some enc \<and>
       encryptedKey enc = base64_EncodeToString (rp_encrypted p) \<and>
       (\<forall>key h. key \<noteq> [] \<longrightarrow> lookup w' (object_at root key (Encryption.generation enc) h) = None)"
    by (simp add: rekeyed_config_def ChangePublicKeyFingerPrint_def ChangeEncryptedKey_def ChangeGeneration_def)
qed

theorem ReKey_loses_objects_witness:
  "\<exists>(w :: os_world) er (w' :: os_world).
     ReKey_Do sample_rekey background ''/r'' ''/old.pem'' ''/new.pem'' w (Err er) w' \<and>
     object_content rekey_lib old_key (replicate 12 0 @ [3, 2, 1, 6]) = Some [1, 2, 3] \<and>
     lookup w (object_at ''/r'' old_key 1 rekey_hash) = Some (File (replicate 12 0 @ [3, 2, 1, 6])) \<and>
     config_holds rekey_lib w' ''/r'' (rekeyed_config sample_plan) \<and>
     (\<forall>key h. key \<noteq> [] \<longrightarrow> lookup w' (object_at ''/r'' key 2 h) = None)"
proof -
  let ?f = "fault_at 36 1000"
  let ?cc = "disk_CreateConfig rekey_lib background ''/r'' (rekeyed_config sample_plan) (rs_world (rekey_end ?f))"
  let ?del = "disk_DeleteEncryptedGeneration ''/r'' background 2 (snd ?cc)"
  let ?er = "Wrapped ''write config'' ErrIO"
  have "let s = rekey_end ?f; c = disk_CreateConfig rekey_lib background ''/r'' (rekeyed_config sample_plan) (rs_world s);
        d = disk_DeleteEncryptedGeneration ''/r'' background 2 (snd c) in
      all_gone s \<and> Option.is_none (rs_firstErr s) \<and> fst c = Err ?er \<and> fst d = Ok () \<and>
      lookup (snd c) (config_at ''/r'') = Some (File [1, 50, 10])"
    by code_simp
  then have fin: "all_gone (rekey_end ?f)" "rs_firstErr (rekey_end ?f) = None" and "fst ?cc = Err ?er" "fst ?del = Ok ()"
    and conf: "lookup (snd ?cc) (config_at ''/r'') = Some (File [1, 50, 10])"
    by (simp_all add: Let_def Option.is_none_def split: option.splits)
  then have cc: "?cc = (Err ?er, snd ?cc)" and del: "?del = (Ok (), snd ?del)" by (simp_all add: prod_eq_iff)
  have late: "late ?f = ?f" by (simp add: late_faults)
  have new: "new_generation sample_plan = 2" and r: "is_rooted ''/r''"
    and content: "object_content rekey_lib old_key (replicate 12 0 @ [3, 2, 1, 6]) = Some [1, 2, 3]"
    and old: "lookup (rekey_world ?f) (object_at ''/r'' old_key 1 rekey_hash) = Some (File (replicate 12 0 @ [3, 2, 1, 6]))"
    by code_simp+
  have held: "config_holds rekey_lib (snd ?cc) ''/r'' (rekeyed_config sample_plan)"
  proof -
    have c: "case config_Unmarshal (lib_text rekey_lib) [1, 50, 10] of
        Ok mo \<Rightarrow> mo\<lparr>mco_CreatedAt := []\<rparr> = (config_model rekey_lib (rekeyed_config sample_plan) no_compression)\<lparr>mco_CreatedAt := []\<rparr>
      | _ \<Rightarrow> False" by code_simp
    have s: "length (conf_id (rekeyed_config sample_plan)) = 16" "standard_encryption (encryption (rekeyed_config sample_plan))"
      "valid_compression no_compression" "config_text_valid (config_model rekey_lib (rekeyed_config sample_plan) no_compression)"
      by code_simp+
    have "compression (rekeyed_config sample_plan) = Some no_compression"
      by (simp add: rekeyed_config_def sample_plan_def current_config_def)
    with c conf s show ?thesis by (simp add: config_holds_def storable_def)
  qed
  from ReKey_loses_objects [OF sample_rekey_prepare [OF late] sample_runs fin sample_on_disk r cc held del [folded new]]
  have "ReKey_Do sample_rekey background ''/r'' ''/old.pem'' ''/new.pem'' (rekey_world ?f) (Err ?er) (snd ?del)"
    and "config_holds rekey_lib (snd ?del) ''/r'' (rekeyed_config sample_plan)"
    and "\<exists>enc. encryption (rekeyed_config sample_plan) = Some enc \<and>
       (\<forall>key h. key \<noteq> [] \<longrightarrow> lookup (snd ?del) (object_at ''/r'' key (Encryption.generation enc) h) = None)"
    unfolding new by blast+
  moreover have "Encryption.generation enc = 2" if "encryption (rekeyed_config sample_plan) = Some enc" for enc
    using that new by (auto simp: rekeyed_config_def ChangePublicKeyFingerPrint_def ChangeEncryptedKey_def ChangeGeneration_def)
  ultimately show ?thesis using content old by (metis (no_types, lifting))
qed

end
