(* ===== verification/ReKey_Ends.thy ===== *)
theory ReKey_Ends
  imports ReKey_Sample
begin

section \<open>A change of the key on disk comes to its end\<close>

text \<open>
  The operations of the repository on disk that the workers call neither panic nor turn the clock
  back, so the group of workers of \<^theory_text>\<open>ReKey\<close> cannot get stuck on it.
\<close>

lemma sets_ticks:
  assumes "\<And>d. sets d UNIV m"
  shows "ticks m"
  unfolding ticks_def using setsD(1) [OF assms refl] by (simp add: steady_def)

lemma sets_SaveRekeyed_any:
  assumes src: "pure_reader source"
  shows "sets d UNIV (disk_SaveRekeyedObject lib root ctx h source g key)"
proof -
  have temp: "sets d UNIV (orWrap msg (os_CreateTemp p pre))" for msg p pre
    by (intro sets_combinators(7)) (rule sets_mono [OF sets_os_CreateTemp [OF subset_refl] subset_UNIV])
  show ?thesis
    unfolding disk_SaveRekeyedObject_def Let_def
    by (intro sets_combinators(5,6) temp sets_rules sets_rekey_body src) simp_all
qed

lemma sets_ReadEncrypted_any: "sets d UNIV (disk_ReadEncryptedObject lib root ctx h g key)"
  unfolding disk_ReadEncryptedObject_def
  by (intro sets_rules) simp

lemma sets_plain_Close: "sets d UNIV (rc_Close (plain_reader b f))"
  by (simp add: plain_reader_def sets_rules)

lemma disk_safe_rekey: "safe_rekey (DiskObjectRepository lib root)"
proof -
  have reader: "safe_reader (DiskObjectRepository lib root) rc" if "rc = plain_reader b f" for rc :: "'a ReadCloser" and b f
    unfolding safe_reader_def that
    by (auto simp: DiskObjectRepository_def intro!: quiet_rules quiet_readers sets_ticks sets_plain_Close
        sets_SaveRekeyed_any)
  show ?thesis
    unfolding safe_rekey_def
    by (auto simp: DiskObjectRepository_def intro!: quiet_ReadEncryptedObject sets_ticks sets_ReadEncrypted_any
        reader [unfolded DiskObjectRepository_def, OF refl] dest!: ReadEncryptedObject_readers)
qed

text \<open>
  C22: whatever the repository on disk holds, no schedule of the workers of a change of the key runs
  forever, and none gets stuck before all workers have left, so the command goes on to commit or to
  clean up. (A context that is done stays done.)
\<close>

theorem ReKey_terminates:
  assumes "rk_objects sv = DiskObjectRepository lib root" and ctx: "lasting ctx"
  shows "wfP (rekey_step (rekey_env_of sv ctx p))\<inverse>\<inverse> \<and>
    (\<forall>s. (rekey_step (rekey_env_of sv ctx p))\<^sup>*\<^sup>* (rekey_init p w) s \<longrightarrow>
       all_gone s \<or> (\<exists>s'. rekey_step (rekey_env_of sv ctx p) s s'))"
proof (intro conjI allI impI)
  let ?e = "rekey_env_of sv ctx p"
  show "wfP (rekey_step ?e)\<inverse>\<inverse>" by (rule rekey_step_wf)
  fix s assume run: "(rekey_step ?e)\<^sup>*\<^sup>* (rekey_init p w) s"
  have safe: "safe_rekey (re_objects ?e)" using assms(1) by (simp add: rekey_env_of_def disk_safe_rekey)
  have last: "re_ctx ?e t \<Longrightarrow> t \<le> t' \<Longrightarrow> re_ctx ?e t'" for t t'
    using ctx unfolding lasting_def rekey_env_of_def by auto
  show "all_gone s \<or> (\<exists>s'. rekey_step ?e s s')"
  proof (cases "rekey_next ?e s")
    case None
    from rekey_live_next [OF rekey_live_steps [OF run rekey_live_init safe] safe last None] show ?thesis by simp
  next
    case (Some s')
    with rekey_next_step show ?thesis by blast
  qed
qed

theorem ReKey_terminates_witness:
  "\<exists>s'. rekey_step (rekey_env_of sample_rekey background sample_plan) (rekey_init sample_plan (world_at 18 no_fault)) s'"
proof -
  have o: "rk_objects sample_rekey = DiskObjectRepository rekey_lib ''/r''" by (simp add: sample_rekey_def)
  have "lasting background" by (simp add: lasting_def background_def)
  moreover have "\<not> all_gone (rekey_init sample_plan (world_at 18 no_fault))"
    by (simp add: all_gone_def rekey_init_def sample_plan_def)
  ultimately show ?thesis using ReKey_terminates [OF o, of background sample_plan "world_at 18 no_fault"] by blast
qed
end
