(* ===== verification/Create_Run.thy ===== *)
theory Create_Run
  imports Create Quiet
begin

section \<open>Every creation of a snapshot comes to its end\<close>

text \<open>
  No schedule of the workers of \<^verbatim>\<open>Create\<close> runs forever. How many objects a file has is known
  only when it has been hashed, so the measure has two parts: the files that are not hashed, and what is
  left to do of those that are. A run that cannot go on has all its workers gone or stands before a call
  that panics. A scheduler that takes the first possible step makes the relation executable.
\<close>

subsection \<open>A measure\<close>

fun hashing_weight :: "worker \<Rightarrow> nat" where
  "hashing_weight (Hashing i) = 1"
| "hashing_weight p = 0"

fun worker_weight :: "worker \<Rightarrow> nat" where
  "worker_weight (Checking i its sz) = 3 * length its + 3"
| "worker_weight (Saving i it its sz) = 3 * length its + 5"
| "worker_weight (Appending i n) = 2"
| "worker_weight (Hashing i) = 2"
| "worker_weight Idle = 1"
| "worker_weight Finished = 0"

definition unhashed :: "'z create_state \<Rightarrow> nat" where
  "unhashed s = 2 * (length (files s) - next_index s) + sum_list (map hashing_weight (workers s))"

definition work_left :: "'z create_state \<Rightarrow> nat" where
  "work_left s = sum_list (map worker_weight (workers s)) + (if feeding s then 1 else 0)"

definition create_order :: "('z create_state \<times> 'z create_state) set" where
  "create_order = measures [unhashed, work_left]"

lemma lower_unhashed: "unhashed s' < unhashed s \<Longrightarrow> (s', s) \<in> create_order"
  by (simp add: create_order_def)

lemma lower_work:
  assumes "k < length (workers s)" and "worker_weight p < worker_weight (workers s ! k)"
    and "hashing_weight p = hashing_weight (workers s ! k)"
    and "workers s' = (workers s)[k := p]" and "feeding s' = feeding s"
    and "next_index s' = next_index s" and "length (files s') = length (files s)"
  shows "(s', s) \<in> create_order"
  using sum_list_move [OF assms(1), of worker_weight p] sum_list_move [OF assms(1), of hashing_weight p] assms(2-)
  by (simp add: create_order_def unhashed_def work_left_def)

lemma hashed:
  assumes "k < length (workers s)" and "workers s ! k = Hashing i" and "hashing_weight p = 0"
    and "workers s' = (workers s)[k := p]" and "next_index s' = next_index s" and "length (files s') = length (files s)"
  shows "(s', s) \<in> create_order"
  using sum_list_move [OF assms(1), of hashing_weight p] assms(2-)
  by (intro lower_unhashed) (simp add: unhashed_def)

lemma step_order: "create_step e s s' \<Longrightarrow> (s', s) \<in> create_order"
proof (induction rule: create_step.induct)
  case (feed s k)
  then show ?case using sum_list_move [OF feed(3), of hashing_weight "Hashing (next_index s)"]
    by (intro lower_unhashed) (simp add: unhashed_def move_def)
next
  case (feed_end s)
  then show ?case by (simp add: create_order_def unhashed_def work_left_def)
next
  case (feed_break s)
  then show ?case by (simp add: create_order_def unhashed_def work_left_def)
next
  case (finish s k)
  then show ?case by (intro lower_work [of k s Finished]) (simp_all add: move_def)
next
  case (hash k s i c f w)
  then show ?case by (intro hashed [of k s i "Checking i (items_of f) 0"]) (simp_all add: move_def)
next
  case (hash_error k s i c er w)
  then show ?case by (intro hashed [of k s i Idle]) (simp_all add: move_def abandon_def)
next
  case (exists k s i it its sz c w)
  then show ?case by (intro lower_work [of k s "Checking i its sz"]) (simp_all add: move_def)
next
  case (missing k s i it its sz c w)
  then show ?case by (intro lower_work [of k s "Saving i it its sz"]) (simp_all add: move_def)
next
  case (seen k s i it its sz c w)
  then show ?case by (intro lower_work [of k s "Checking i its sz"]) (simp_all add: move_def)
next
  case (check_error k s i it its sz c er w)
  then show ?case by (intro lower_work [of k s Idle]) (simp_all add: move_def abandon_def)
next
  case (save k s i it its sz c w)
  then show ?case
    by (intro lower_work [of k s "Checking i its (i64 (sz + item_size (files s ! i) it))"]) (simp_all add: move_def)
next
  case (save_error k s i it its sz c er w)
  then show ?case by (intro lower_work [of k s Idle]) (simp_all add: move_def abandon_def)
next
  case (save_entwined k s i it its sz w)
  then show ?case
    by (intro lower_work [of k s "Checking i its (i64 (sz + item_size (files s ! i) it))"]) (simp_all add: move_def)
next
  case (save_entwined_error k s i it its sz w er)
  then show ?case by (intro lower_work [of k s Idle]) (simp_all add: move_def abandon_def)
next
  case (count k s i sz)
  then show ?case by (intro lower_work [of k s "after_items i sz s"]) (simp_all add: move_def after_items_def)
next
  case (append k s i n)
  then show ?case by (intro lower_work [of k s Idle]) (simp_all add: move_def)
qed

lemma create_step_wf: "wfP (create_step e)\<inverse>\<inverse>"
proof -
  have "wf create_order" by (simp add: create_order_def)
  then show ?thesis unfolding wfp_def by (rule wf_subset) (use step_order in auto)
qed

subsection \<open>A scheduler\<close>

definition halting_ctx :: "'z create_env \<Rightarrow> 'z create_state \<Rightarrow> ctx" where
  "halting_ctx e s t \<longleftrightarrow> env_ctx e t \<or> firstErr s \<noteq> None \<and> clock (world s) \<le> t"

lemma halting_ctx_ok: "op_ctx e s k (halting_ctx e s)"
proof (cases "firstErr s")
  case None
  then have "halting_ctx e s = env_ctx e" by (intro ext) (simp add: halting_ctx_def)
  with None show ?thesis by (simp add: op_ctx_def)
qed (simp add: op_ctx_def halting_ctx_def)

text \<open>The next step of a busy worker; none when its call panics.\<close>

fun proceed :: "'z create_env \<Rightarrow> 'z create_state \<Rightarrow> nat \<Rightarrow> worker \<Rightarrow> 'z create_state option" where
  "proceed e s k (Hashing i) =
     (case Calculate (env_calculator e) (env_source e) (halting_ctx e s) (files s ! i) (env_compression e) (world s) of
        (Ok f, w) \<Rightarrow> Some ((move k (Checking i (items_of f) 0) w s)\<lparr>files := (files s)[i := f]\<rparr>)
      | (Err er, w) \<Rightarrow> Some (abandon k er w s)
      | (Panic _, _) \<Rightarrow> None)"
| "proceed e s k (Checking i (it # its) sz) =
     (case create_check e (halting_ctx e s) (files s ! i) it (world s) of
        (Ok True, w) \<Rightarrow> Some (move k (Checking i its sz) w s)
      | (Ok False, w) \<Rightarrow>
          Some ((move k (Saving i it its sz) w s)\<lparr>overlapped := overlap s k (item_hash (files s ! i) it)\<rparr>)
      | (Err er, w) \<Rightarrow> Some (abandon k er w s)
      | (Panic _, _) \<Rightarrow> None)"
| "proceed e s k (Checking i [] sz) =
     Some ((move k (after_items i sz s) (world s) s)\<lparr>total_size := i64 (total_size s + sz)\<rparr>)"
| "proceed e s k (Saving i it its sz) =
     (case create_save e (halting_ctx e s) (files s ! i) it (world s) of
        (Ok _, w) \<Rightarrow> Some (move k (Checking i its (i64 (sz + item_size (files s ! i) it))) w s)
      | (Err er, w) \<Rightarrow> Some (abandon k er w s)
      | (Panic _, _) \<Rightarrow> None)"
| "proceed e s k (Appending i n) = Some ((move k Idle (world s) s)\<lparr>saved_files := Suc n\<rparr>)"
| "proceed e s k p = None"

lemma proceed_step:
  assumes "proceed e s k p = Some s'" and k: "k < length (workers s)" "workers s ! k = p"
  shows "create_step e s s'"
  using assms
proof (induction e s k p rule: proceed.induct)
  case (1 e s k i)
  then show ?case using halting_ctx_ok [of e s k]
    by (auto split: prod.splits outcome.splits intro: create_step.hash create_step.hash_error)
next
  case (2 e s k i it its sz)
  then show ?case using halting_ctx_ok [of e s k]
    by (auto split: prod.splits outcome.splits bool.splits
        intro: create_step.exists create_step.missing create_step.check_error)
next
  case (3 e s k i sz)
  then show ?case by (auto intro: create_step.count)
next
  case (4 e s k i it its sz)
  then show ?case using halting_ctx_ok [of e s k]
    by (auto split: prod.splits outcome.splits intro: create_step.save create_step.save_error)
next
  case (5 e s k i n)
  then show ?case by (auto intro: create_step.append)
qed simp_all

definition is_busy :: "worker \<Rightarrow> bool" where
  "is_busy p \<longleftrightarrow> (case p of Idle \<Rightarrow> False | Finished \<Rightarrow> False | _ \<Rightarrow> True)"

definition is_idle :: "worker \<Rightarrow> bool" where
  "is_idle p \<longleftrightarrow> (case p of Idle \<Rightarrow> True | _ \<Rightarrow> False)"

lemma is_idle_iff [simp]: "is_idle p \<longleftrightarrow> p = Idle"
  by (cases p) (simp_all add: is_idle_def)

definition create_next :: "'z create_env \<Rightarrow> 'z create_state \<Rightarrow> 'z create_state option" where
  "create_next e s =
     (case first_where is_busy (workers s) of
        Some k \<Rightarrow> proceed e s k (workers s ! k)
      | None \<Rightarrow>
          (case first_where is_idle (workers s) of
             None \<Rightarrow> None
           | Some k \<Rightarrow>
               if \<not> feeding s then Some (move k Finished (world s) s)
               else if next_index s = length (files s) \<or> env_ctx e (clock (world s)) \<or> \<not> Option.is_none (firstErr s)
               then Some (s\<lparr>feeding := False\<rparr>)
               else if next_index s < length (files s)
               then Some ((move k (Hashing (next_index s)) (world s) s)\<lparr>next_index := Suc (next_index s)\<rparr>)
               else None))"

lemma create_next_step:
  assumes "create_next e s = Some s'"
  shows "create_step e s s'"
proof (cases "first_where is_busy (workers s)")
  case (Some k)
  with assms show ?thesis by (auto simp: create_next_def dest!: first_where_Some intro: proceed_step)
next
  case None
  with assms obtain k where k: "first_where is_idle (workers s) = Some k"
    by (auto simp: create_next_def split: option.splits)
  then have k': "k < length (workers s)" "workers s ! k = Idle" by (auto dest!: first_where_Some)
  with assms None k show ?thesis
    by (auto simp: create_next_def Option.is_none_def split: if_splits
        intro: create_step.finish create_step.feed create_step.feed_end create_step.feed_break)
qed

fun create_run :: "nat \<Rightarrow> 'z create_env \<Rightarrow> 'z create_state \<Rightarrow> 'z create_state" where
  "create_run 0 e s = s"
| "create_run (Suc n) e s = (case create_next e s of None \<Rightarrow> s | Some s' \<Rightarrow> create_run n e s')"

lemma create_run_steps: "(create_step e)\<^sup>*\<^sup>* s (create_run n e s)"
proof (induction n arbitrary: s)
  case (Suc n)
  show ?case
  proof (cases "create_next e s")
    case (Some s')
    with create_next_step [OF Some] Suc show ?thesis by (simp add: converse_rtranclp_into_rtranclp)
  qed simp
qed simp

subsection \<open>No run gets stuck\<close>

text \<open>A worker whose next call panics.\<close>

fun is_panic :: "'a outcome \<Rightarrow> bool" where
  "is_panic (Panic s) \<longleftrightarrow> True"
| "is_panic r \<longleftrightarrow> False"

fun call_panics :: "'z create_env \<Rightarrow> ctx \<Rightarrow> 'z create_state \<Rightarrow> worker \<Rightarrow> bool" where
  "call_panics e c s (Hashing i) \<longleftrightarrow>
     is_panic (fst (Calculate (env_calculator e) (env_source e) c (files s ! i) (env_compression e) (world s)))"
| "call_panics e c s (Checking i (it # its) sz) \<longleftrightarrow> is_panic (fst (create_check e c (files s ! i) it (world s)))"
| "call_panics e c s (Saving i it its sz) \<longleftrightarrow> is_panic (fst (create_save e c (files s ! i) it (world s)))"
| "call_panics e c s p \<longleftrightarrow> False"

lemma proceed_None: "proceed e s k p = None \<Longrightarrow> is_busy p \<Longrightarrow> call_panics e (halting_ctx e s) s p"
  by (induction e s k p rule: proceed.induct)
    (auto simp: is_busy_def split: prod.splits outcome.splits bool.splits)

definition create_live :: "'z create_state \<Rightarrow> bool" where
  "create_live s \<longleftrightarrow> workers s \<noteq> [] \<and> next_index s \<le> length (files s) \<and>
     (feeding s \<longrightarrow> Finished \<notin> set (workers s))"

lemma live_moved:
  assumes "create_live s" and "p \<noteq> Finished \<or> \<not> feeding s" and "workers s' = (workers s)[k := p]"
    and "next_index s' = next_index s" and "feeding s' = feeding s" and "length (files s') = length (files s)"
  shows "create_live s'"
  using assms set_update_subset_insert [of "workers s" k p] unfolding create_live_def by auto

lemma create_live_step: "create_step e s s' \<Longrightarrow> create_live s \<Longrightarrow> create_live s'"
proof (induction rule: create_step.induct)
  case (feed s k)
  then show ?case using set_update_subset_insert [of "workers s" k "Hashing (next_index s)"]
    by (auto simp: create_live_def move_def)
next
  case (hash k s i c f w)
  show ?case
    by (rule live_moved [of s "Checking i (items_of f) 0" _ k]) (use hash in \<open>simp_all add: move_def\<close>)
next
  case (count k s i sz)
  show ?case
    by (rule live_moved [of s "after_items i sz s" _ k]) (use count in \<open>simp_all add: move_def after_items_def\<close>)
next
  case (finish s k)
  show ?case
    by (rule live_moved [of s Finished _ k]) (use finish in \<open>simp_all add: move_def\<close>)
next
  case (hash_error k s i c er w)
  show ?case
    by (rule live_moved [of s Idle _ k]) (use hash_error in \<open>simp_all add: move_def abandon_def\<close>)
next
  case (exists k s i it its sz c w)
  show ?case
    by (rule live_moved [of s "Checking i its sz" _ k]) (use exists in \<open>simp_all add: move_def\<close>)
next
  case (missing k s i it its sz c w)
  show ?case
    by (rule live_moved [of s "Saving i it its sz" _ k]) (use missing in \<open>simp_all add: move_def\<close>)
next
  case (seen k s i it its sz c w)
  show ?case
    by (rule live_moved [of s "Checking i its sz" _ k]) (use seen in \<open>simp_all add: move_def\<close>)
next
  case (check_error k s i it its sz c er w)
  show ?case
    by (rule live_moved [of s Idle _ k]) (use check_error in \<open>simp_all add: move_def abandon_def\<close>)
next
  case (save k s i it its sz c w)
  show ?case
    by (rule live_moved [of s "Checking i its (i64 (sz + item_size (files s ! i) it))" _ k]) (use save in \<open>simp_all add: move_def\<close>)
next
  case (save_error k s i it its sz c er w)
  show ?case
    by (rule live_moved [of s Idle _ k]) (use save_error in \<open>simp_all add: move_def abandon_def\<close>)
next
  case (save_entwined k s i it its sz w)
  show ?case
    by (rule live_moved [of s "Checking i its (i64 (sz + item_size (files s ! i) it))" _ k])
      (use save_entwined in \<open>simp_all add: move_def\<close>)
next
  case (save_entwined_error k s i it its sz w er)
  show ?case
    by (rule live_moved [of s Idle _ k]) (use save_entwined_error in \<open>simp_all add: move_def abandon_def\<close>)
next
  case (append k s i n)
  show ?case
    by (rule live_moved [of s Idle _ k]) (use append in \<open>simp_all add: move_def\<close>)
qed (simp_all add: create_live_def)

lemma create_live_steps: "(create_step e)\<^sup>*\<^sup>* s s' \<Longrightarrow> create_live s \<Longrightarrow> create_live s'"
  by (induction rule: rtranclp_induct) (auto intro: create_live_step)

lemma create_live_init: "create_live (create_init configured dflt p w)"
  by (simp add: create_live_def create_init_def worker_count_def Let_def)

lemma not_is_busy: "\<not> is_busy p \<Longrightarrow> p = Idle \<or> p = Finished"
  by (cases p) (simp_all add: is_busy_def)

lemma create_next_None:
  assumes live: "create_live s" and none: "create_next e s = None"
  shows "all_finished s \<or> (\<exists>p \<in> set (workers s). call_panics e (halting_ctx e s) s p)"
proof (cases "first_where is_busy (workers s)")
  case (Some k)
  then have k: "k < length (workers s)" "is_busy (workers s ! k)" by (auto dest!: first_where_Some)
  from none Some have "proceed e s k (workers s ! k) = None" by (simp add: create_next_def)
  from proceed_None [OF this k(2)] k(1) show ?thesis by auto
next
  case None
  then have idle: "\<forall>p \<in> set (workers s). p = Idle \<or> p = Finished"
    by (metis first_where_None not_is_busy)
  show ?thesis
  proof (cases "first_where is_idle (workers s)")
    case (Some k)
    with none None live show ?thesis by (auto simp: create_next_def create_live_def split: if_splits)
  next
    case n: None
    with idle have left: "\<forall>p \<in> set (workers s). p = Finished" by (auto simp: first_where_None)
    with live have "\<not> feeding s" by (cases "workers s") (auto simp: create_live_def)
    with left show ?thesis by (auto simp: all_finished_def list_all_iff)
  qed
qed

end
