(* ===== verification/Create_Exclusive.thy ===== *)
theory Create_Exclusive
  imports Create_Facts
begin

section \<open>Who works on which file\<close>

text \<open>
  At every moment of a run, whatever fails: a file is in the hands of one worker at most, so the writes
  to its place in the list of files do not race; and no more files are counted than the workers are
  done with.
\<close>

definition holds_file :: "'z create_state \<Rightarrow> nat \<Rightarrow> nat \<Rightarrow> bool" where
  "holds_file s k i \<longleftrightarrow> k < length (workers s) \<and> works_on (workers s ! k) = Some i"

definition retired :: "'z create_state \<Rightarrow> nat set" where
  "retired s = {i. i < next_index s \<and> (\<forall>k. \<not> holds_file s k i)}"

definition exclusive :: "'z create_state \<Rightarrow> bool" where
  "exclusive s \<longleftrightarrow> next_index s \<le> length (files s) \<and>
     (\<forall>j k i. holds_file s j i \<longrightarrow> holds_file s k i \<longrightarrow> j = k) \<and>
     (\<forall>k i. holds_file s k i \<longrightarrow> i < next_index s) \<and>
     saved_files s \<le> card (retired s) \<and>
     (\<forall>k i n. k < length (workers s) \<longrightarrow> workers s ! k = Appending i n \<longrightarrow> n \<le> card (retired s))"

lemma finite_retired [simp]: "finite (retired s)"
  by (rule finite_subset [of _ "{..< next_index s}"]) (auto simp: retired_def)

lemma holds_moved:
  "workers s' = (workers s)[k := p] \<Longrightarrow> k < length (workers s) \<Longrightarrow>
   holds_file s' l i \<longleftrightarrow> (if l = k then works_on p = Some i else holds_file s l i)"
  by (auto simp: holds_file_def)

lemma holds_after:
  assumes "holds_file s' l i" and "workers s' = (workers s)[k := p]" and "k < length (workers s)"
    and "works_on p = works_on (workers s ! k) \<or> works_on p = None"
  shows "holds_file s l i"
proof (cases "l = k")
  case True
  then have "works_on p = Some i" using assms(1) by (simp add: holds_moved [OF assms(2,3)])
  with assms(3,4) True show ?thesis by (auto simp: holds_file_def)
qed (use assms(1) in \<open>simp add: holds_moved [OF assms(2,3)]\<close>)

text \<open>A worker that goes on with its file, or leaves it.\<close>

lemma exclusive_moved:
  assumes ex: "exclusive s" and k: "k < length (workers s)"
    and on: "works_on p = works_on (workers s ! k) \<or> works_on p = None"
    and ws: "workers s' = (workers s)[k := p]" "next_index s' = next_index s" "length (files s') = length (files s)"
    and saved: "saved_files s' \<le> card (retired s')"
    and app: "\<And>i n. p = Appending i n \<Longrightarrow> n \<le> card (retired s)"
  shows "exclusive s'"
proof -
  have h: "holds_file s' l i \<Longrightarrow> holds_file s l i" for l i
    by (rule holds_after [OF _ ws(1) k on])
  then have "retired s \<subseteq> retired s'" by (auto simp: retired_def ws(2))
  then have card: "card (retired s) \<le> card (retired s')" by (simp add: card_mono)
  have "n \<le> card (retired s')" if l: "l < length (workers s')" "workers s' ! l = Appending i n" for l i n
  proof (cases "l = k")
    case True
    with l app card show ?thesis by (fastforce simp: ws(1) k)
  next
    case False
    with l ex card show ?thesis by (fastforce simp: ws(1) exclusive_def)
  qed
  with ex h saved show ?thesis unfolding exclusive_def ws(2,3) by blast
qed

lemma retired_moved:
  assumes "k < length (workers s)" and "workers s' = (workers s)[k := p]" and "next_index s' = next_index s"
    and "works_on p = works_on (workers s ! k) \<or> works_on p = None"
  shows "card (retired s) \<le> card (retired s')"
proof (rule card_mono [OF finite_retired])
  have "holds_file s' l i \<Longrightarrow> holds_file s l i" for l i
    by (rule holds_after [OF _ assms(2,1,4)])
  then show "retired s \<subseteq> retired s'" using assms(3) by (auto simp: retired_def)
qed

text \<open>The common case: nothing is counted.\<close>

lemma exclusive_goes_on:
  assumes "exclusive s" and "k < length (workers s)" and "works_on p = works_on (workers s ! k) \<or> works_on p = None"
    and "workers s' = (workers s)[k := p]" "next_index s' = next_index s" "length (files s') = length (files s)"
    and "saved_files s' = saved_files s" and "\<And>i n. p = Appending i n \<Longrightarrow> n = saved_files s"
  shows "exclusive s'"
proof (rule exclusive_moved [OF assms(1-6)])
  have "saved_files s \<le> card (retired s)" using assms(1) by (simp add: exclusive_def)
  with retired_moved [OF assms(2,4,5,3)] assms(7) show "saved_files s' \<le> card (retired s')" by simp
  show "n \<le> card (retired s)" if "p = Appending i n" for i n
    using assms(8) [OF that] \<open>saved_files s \<le> card (retired s)\<close> by simp
qed

lemma exclusive_step: "create_step e s s' \<Longrightarrow> exclusive s \<Longrightarrow> exclusive s'"
proof (induction rule: create_step.induct)
  case (feed s k)
  let ?s = "(move k (Hashing (next_index s)) (world s) s)\<lparr>next_index := Suc (next_index s)\<rparr>"
  have h: "holds_file ?s l i \<longleftrightarrow> (if l = k then i = next_index s else holds_file s l i)" for l i
    using feed by (auto simp: holds_file_def move_def)
  have no: "\<not> holds_file s k i" for i using feed by (simp add: holds_file_def)
  have low: "holds_file s l i \<Longrightarrow> i < next_index s" for l i using feed by (simp add: exclusive_def)
  have r: "retired ?s = retired s"
  proof (intro set_eqI iffI)
    fix i assume "i \<in> retired ?s"
    then have "i < Suc (next_index s)" "\<forall>l. \<not> holds_file ?s l i" by (simp_all add: retired_def move_def)
    then have "i \<noteq> next_index s" "\<not> holds_file s l i" for l using no [of i] h [of k i] h [of l i] by (auto split: if_splits)
    with \<open>i < Suc (next_index s)\<close> show "i \<in> retired s" by (simp add: retired_def)
  next
    fix i assume "i \<in> retired s"
    then have "i < next_index s" "\<not> holds_file ?s l i" for l by (auto simp: retired_def h)
    moreover have "next_index ?s = Suc (next_index s)" by simp
    ultimately show "i \<in> retired ?s" unfolding retired_def by simp
  qed
  have "n \<le> card (retired s)" if "l < length (workers s)" "workers ?s ! l = Appending i n" for l i n
    using that feed by (cases "l = k") (auto simp: move_def exclusive_def)
  moreover have "j = l" if "holds_file ?s j i" "holds_file ?s l i" for j l i
    using that low [of _ i] feed.prems by (auto simp: h exclusive_def split: if_splits)
  moreover have "holds_file ?s l i \<Longrightarrow> i < Suc (next_index s)" for l i
    using low [of l i] by (auto simp: h split: if_splits)
  ultimately show ?case using feed r unfolding exclusive_def by (simp add: move_def)
next
  case (append k s i n)
  let ?s = "(move k Idle (world s) s)\<lparr>saved_files := Suc n\<rparr>"
  have ex: "exclusive s" and k: "k < length (workers s)" "workers s ! k = Appending i n" using append by auto
  have h: "holds_file ?s l j \<longleftrightarrow> l \<noteq> k \<and> holds_file s l j" for l j
    using holds_moved [of ?s s k Idle l j] k(1) by (simp add: move_def)
  have on: "holds_file s k i" using k by (simp add: holds_file_def)
  with ex have i: "i < next_index s" "\<And>l. holds_file s l i \<Longrightarrow> l = k" by (auto simp: exclusive_def)
  moreover have "next_index ?s = next_index s" by (simp add: move_def)
  ultimately have "insert i (retired s) \<subseteq> retired ?s" unfolding retired_def h by auto
  then have "card (insert i (retired s)) \<le> card (retired ?s)" by (simp add: card_mono)
  moreover have "i \<notin> retired s" using on by (auto simp: retired_def)
  moreover have "n \<le> card (retired s)" using ex k by (simp add: exclusive_def)
  ultimately have "Suc n \<le> card (retired ?s)" by simp
  then show ?case by (intro exclusive_moved [OF ex k(1), of Idle]) (simp_all add: move_def)
next
  case (feed_end s) then show ?case by (simp add: exclusive_def retired_def holds_file_def)
next
  case (feed_break s) then show ?case by (simp add: exclusive_def retired_def holds_file_def)
next
  case (finish s k)
  show ?case by (rule exclusive_goes_on [of s k Finished]) (use finish in \<open>simp_all add: move_def\<close>)
next
  case (hash k s i c f w)
  show ?case by (rule exclusive_goes_on [of s k "Checking i (items_of f) 0"]) (use hash in \<open>simp_all add: move_def\<close>)
next
  case (hash_error k s i c er w)
  show ?case by (rule exclusive_goes_on [of s k Idle]) (use hash_error in \<open>simp_all add: move_def abandon_def\<close>)
next
  case (exists k s i it its sz c w)
  show ?case by (rule exclusive_goes_on [of s k "Checking i its sz"]) (use exists in \<open>simp_all add: move_def\<close>)
next
  case (missing k s i it its sz c w)
  show ?case by (rule exclusive_goes_on [of s k "Saving i it its sz"]) (use missing in \<open>simp_all add: move_def\<close>)
next
  case (seen k s i it its sz c w)
  show ?case by (rule exclusive_goes_on [of s k "Checking i its sz"]) (use seen in \<open>simp_all add: move_def\<close>)
next
  case (check_error k s i it its sz c er w)
  show ?case by (rule exclusive_goes_on [of s k Idle]) (use check_error in \<open>simp_all add: move_def abandon_def\<close>)
next
  case (save k s i it its sz c w)
  show ?case
    by (rule exclusive_goes_on [of s k "Checking i its (i64 (sz + item_size (files s ! i) it))"])
      (use save in \<open>simp_all add: move_def\<close>)
next
  case (save_error k s i it its sz c er w)
  show ?case by (rule exclusive_goes_on [of s k Idle]) (use save_error in \<open>simp_all add: move_def abandon_def\<close>)
next
  case (save_entwined k s i it its sz w)
  show ?case
    by (rule exclusive_goes_on [of s k "Checking i its (i64 (sz + item_size (files s ! i) it))"])
      (use save_entwined in \<open>simp_all add: move_def\<close>)
next
  case (save_entwined_error k s i it its sz w er)
  show ?case
    by (rule exclusive_goes_on [of s k Idle]) (use save_entwined_error in \<open>simp_all add: move_def abandon_def\<close>)
next
  case (count k s i sz)
  show ?case
    by (rule exclusive_goes_on [of s k "after_items i sz s"])
      (use count in \<open>auto simp: move_def after_items_def split: if_splits\<close>)
qed

lemma exclusive_steps: "(create_step e)\<^sup>*\<^sup>* s s' \<Longrightarrow> exclusive s \<Longrightarrow> exclusive s'"
  by (induction rule: rtranclp_induct) (auto intro: exclusive_step)

lemma exclusive_init: "exclusive (create_init configured dflt p w)"
  by (auto simp: exclusive_def holds_file_def create_init_def)

lemma exclusive_count: "exclusive s \<Longrightarrow> saved_files s \<le> length (files s)"
proof -
  assume ex: "exclusive s"
  have "card (retired s) \<le> card {..< next_index s}" by (rule card_mono) (auto simp: retired_def)
  with ex show ?thesis by (simp add: exclusive_def)
qed

subsection \<open>Which objects are saved at the same time\<close>

text \<open>
  Two workers can be after one object at the same time only when the two files they work on have it in
  common. A file's items are fixed from the moment it has been hashed, so such an object is one of two
  entries of the manifest: where no two entries share an object, or where there is one worker, no saves
  overlap.
\<close>

definition object_names :: "SnapFile \<Rightarrow> string set" where
  "object_names f = item_hash f ` set (items_of f)"

definition objects_apart :: "SnapFile list \<Rightarrow> bool" where
  "objects_apart fs \<longleftrightarrow> (\<forall>i < length fs. \<forall>j < length fs. i \<noteq> j \<longrightarrow> object_names (fs ! i) \<inter> object_names (fs ! j) = {})"

lemma objects_apartD:
  "objects_apart fs \<Longrightarrow> i < length fs \<Longrightarrow> j < length fs \<Longrightarrow> i \<noteq> j \<Longrightarrow>
   h \<in> object_names (fs ! i) \<Longrightarrow> h \<notin> object_names (fs ! j)"
  by (auto simp: objects_apart_def)

text \<open>The items a worker has before it, and a file that has been hashed.\<close>

fun items_ahead :: "worker \<Rightarrow> item set" where
  "items_ahead (Checking i its sz) = set its"
| "items_ahead (Saving i it its sz) = insert it (set its)"
| "items_ahead p = {}"

definition settled :: "'z create_state \<Rightarrow> nat \<Rightarrow> bool" where
  "settled s i \<longleftrightarrow> i < next_index s \<and> (\<forall>k < length (workers s). workers s ! k \<noteq> Hashing i)"

definition on_items :: "'z create_state \<Rightarrow> bool" where
  "on_items s \<longleftrightarrow> (\<forall>k i. holds_file s k i \<longrightarrow> items_ahead (workers s ! k) \<subseteq> set (items_of (files s ! i)))"

definition shared_only :: "'z create_state \<Rightarrow> bool" where
  "shared_only s \<longleftrightarrow> (overlapped s \<noteq> {} \<longrightarrow> (\<exists>i j h. i \<noteq> j \<and> settled s i \<and> settled s j \<and>
     h \<in> object_names (files s ! i) \<and> h \<in> object_names (files s ! j)))"

lemma on_items_moved:
  assumes "on_items s" and k: "k < length (workers s)" and ws: "workers s' = (workers s)[k := p]" "files s' = files s"
    and p: "\<And>i. works_on p = Some i \<Longrightarrow> works_on (workers s ! k) = Some i \<and> items_ahead p \<subseteq> items_ahead (workers s ! k)"
  shows "on_items s'"
  unfolding on_items_def
proof (intro allI impI)
  fix l i assume "holds_file s' l i"
  then have h: "if l = k then works_on p = Some i else holds_file s l i" by (simp add: holds_moved [OF ws(1) k])
  then have "holds_file s l i" and "items_ahead (workers s' ! l) \<subseteq> items_ahead (workers s ! l)"
    using p [of i] k by (auto simp: holds_file_def ws split: if_splits)
  then show "items_ahead (workers s' ! l) \<subseteq> set (items_of (files s' ! i))"
    using assms(1) by (auto simp: on_items_def ws)
qed

lemma settled_moved:
  assumes "settled s i" and "workers s' = (workers s)[k := p]" and "next_index s \<le> next_index s'"
    and "p \<noteq> Hashing i"
  shows "settled s' i"
  unfolding settled_def
proof (intro conjI allI impI)
  show "i < next_index s'" using assms(1,3) by (simp add: settled_def)
  fix l assume "l < length (workers s')"
  with assms(1,2,4) show "workers s' ! l \<noteq> Hashing i" by (cases "l = k") (auto simp: settled_def)
qed

text \<open>What two workers have before them at the same time belongs to two different files, both hashed.\<close>

lemma under_way_shared:
  assumes ex: "exclusive s" and on: "on_items s" and k: "k < length (workers s)" "workers s ! k = Checking i (it # its) sz"
    and way: "under_way s k (item_hash (files s ! i) it)"
  shows "\<exists>j. i \<noteq> j \<and> settled s i \<and> settled s j \<and>
    item_hash (files s ! i) it \<in> object_names (files s ! i) \<and> item_hash (files s ! i) it \<in> object_names (files s ! j)"
proof -
  from way obtain l j jt jts z where l: "l < length (workers s)" "l \<noteq> k" "workers s ! l = Saving j jt jts z"
    "item_hash (files s ! j) jt = item_hash (files s ! i) it"
    by (auto simp: under_way_def list_ex_iff elim!: saves.elims)
  have hk: "holds_file s k i" and hl: "holds_file s l j" using k l by (simp_all add: holds_file_def)
  have one: "m = m'" if "holds_file s m n" "holds_file s m' n" for m m' n
    using ex that by (auto simp: exclusive_def)
  have "i \<noteq> j" using one [OF hk, of l] hl l(2) by auto
  moreover have "settled s n" if "holds_file s m n" "\<And>a. workers s ! m \<noteq> Hashing a" for m n
    unfolding settled_def
  proof (intro conjI allI impI notI)
    show "n < next_index s" using ex that(1) by (auto simp: exclusive_def)
    fix m' assume "m' < length (workers s)" and h: "workers s ! m' = Hashing n"
    then have "m' = m" using one [OF _ that(1), of m'] by (simp add: holds_file_def)
    with h that(2) show False by simp
  qed
  then have "settled s i" "settled s j" using hk hl k(2) l(3) by simp_all
  moreover have "it \<in> set (items_of (files s ! i))" "jt \<in> set (items_of (files s ! j))"
    using on hk hl k(2) l(3) by (fastforce simp: on_items_def)+
  ultimately show ?thesis using l(4) imageI [of jt "set (items_of (files s ! j))" "item_hash (files s ! j)"]
    by (intro exI [of _ j]) (simp add: object_names_def)
qed

lemma shared_kept:
  assumes "shared_only s" and "overlapped s' = overlapped s" and "workers s' = (workers s)[k := p]"
    and "next_index s \<le> next_index s'" and "\<And>i. settled s i \<Longrightarrow> p \<noteq> Hashing i"
    and "\<And>i. settled s i \<Longrightarrow> files s' ! i = files s ! i"
  shows "shared_only s'"
  unfolding shared_only_def
proof
  assume "overlapped s' \<noteq> {}"
  with assms(1,2) obtain i j h where s: "i \<noteq> j" "settled s i" "settled s j"
    "h \<in> object_names (files s ! i)" "h \<in> object_names (files s ! j)"
    unfolding shared_only_def by auto
  have "settled s' i" "settled s' j" using settled_moved [OF _ assms(3,4)] assms(5) s(2,3) by blast+
  with s assms(6) show "\<exists>i j h. i \<noteq> j \<and> settled s' i \<and> settled s' j \<and>
      h \<in> object_names (files s' ! i) \<and> h \<in> object_names (files s' ! j)"
    by (intro exI [of _ i] exI [of _ j] exI [of _ h]) simp
qed

text \<open>A worker looks for an object: it is noted when another one is saving it.\<close>

lemma shared_overlap:
  assumes ex: "exclusive s" and on: "on_items s" and sh: "shared_only s"
    and k: "k < length (workers s)" "workers s ! k = Checking i (it # its) sz"
    and s': "overlapped s' = overlap s k (item_hash (files s ! i) it)" "workers s' = (workers s)[k := p]"
      "next_index s' = next_index s" "files s' = files s"
    and p: "\<And>j. p \<noteq> Hashing j"
  shows "shared_only s'"
proof (cases "under_way s k (item_hash (files s ! i) it)")
  case True
  from under_way_shared [OF ex on k True] obtain j where j: "i \<noteq> j" "settled s i" "settled s j"
    "item_hash (files s ! i) it \<in> object_names (files s ! i)" "item_hash (files s ! i) it \<in> object_names (files s ! j)"
    by blast
  moreover have "settled s' i" "settled s' j"
    using settled_moved [OF j(2) s'(2) _ p] settled_moved [OF j(3) s'(2) _ p] s'(3) by simp_all
  ultimately show ?thesis unfolding shared_only_def s'(4) by blast
next
  case False
  then show ?thesis
    by (intro shared_kept [OF sh _ s'(2)]) (simp_all add: s' overlap_def p)
qed

definition apart_inv :: "'z create_state \<Rightarrow> bool" where
  "apart_inv s \<longleftrightarrow> exclusive s \<and> on_items s \<and> shared_only s"

lemma apart_moved:
  assumes inv: "exclusive s'" "apart_inv s" and k: "k < length (workers s)"
    and s': "workers s' = (workers s)[k := p]" "files s' = files s" "next_index s' = next_index s"
      "overlapped s' = overlapped s"
    and p: "\<And>i. works_on p = Some i \<Longrightarrow> works_on (workers s ! k) = Some i \<and> items_ahead p \<subseteq> items_ahead (workers s ! k)"
      "\<And>i. p \<noteq> Hashing i"
  shows "apart_inv s'"
  using inv on_items_moved [OF _ k s'(1,2) p(1)] shared_kept [OF _ s'(4,1)] s' p(2) by (auto simp: apart_inv_def)

lemma apart_step: "create_step e s s' \<Longrightarrow> apart_inv s \<Longrightarrow> apart_inv s'"
proof -
  assume step: "create_step e s s'" and inv: "apart_inv s"
  then have ex: "exclusive s" and on: "on_items s" and sh: "shared_only s" by (simp_all add: apart_inv_def)
  have ex': "exclusive s'" by (rule exclusive_step [OF step ex])
  show "apart_inv s'"
    using step
  proof cases
    case (feed k)
    have "on_items s'" unfolding on_items_def
    proof (intro allI impI)
      fix l i assume "holds_file s' l i"
      then show "items_ahead (workers s' ! l) \<subseteq> set (items_of (files s' ! i))"
        using on feed by (cases "l = k") (auto simp: on_items_def holds_file_def move_def)
    qed
    moreover have "shared_only s'"
      by (rule shared_kept [OF sh, of _ k "Hashing (next_index s)"]) (auto simp: feed(1) move_def settled_def)
    ultimately show ?thesis using ex' by (simp add: apart_inv_def)
  next
    case feed_end
    with ex' on sh show ?thesis by (simp add: apart_inv_def on_items_def shared_only_def settled_def holds_file_def)
  next
    case feed_break
    with ex' on sh show ?thesis by (simp add: apart_inv_def on_items_def shared_only_def settled_def holds_file_def)
  next
    case (finish k)
    show ?thesis by (rule apart_moved [OF ex' inv finish(3), of Finished]) (simp_all add: finish(1) move_def)
  next
    case (hash k i c f w)
    have hk: "holds_file s k i" using hash by (simp add: holds_file_def)
    have il: "i < length (files s)" using ex hk by (force simp: exclusive_def)
    have other: "j \<noteq> i" if "holds_file s l j" "l \<noteq> k" for l j using ex hk that by (auto simp: exclusive_def)
    have "on_items s'" unfolding on_items_def
    proof (intro allI impI)
      fix l j assume h: "holds_file s' l j"
      show "items_ahead (workers s' ! l) \<subseteq> set (items_of (files s' ! j))"
      proof (cases "l = k")
        case True
        with h hash il show ?thesis by (auto simp: holds_file_def move_def)
      next
        case False
        with h hash have "holds_file s l j" by (auto simp: holds_file_def move_def)
        with other [OF this False] on False hash show ?thesis by (auto simp: on_items_def move_def)
      qed
    qed
    moreover have "shared_only s'"
      by (rule shared_kept [OF sh, of _ k "Checking i (items_of f) 0"])
        (use hash(1-3) in \<open>auto simp: move_def settled_def\<close>)
    ultimately show ?thesis using ex' by (simp add: apart_inv_def)
  next
    case (hash_error k i c er w)
    show ?thesis by (rule apart_moved [OF ex' inv hash_error(2), of Idle]) (simp_all add: hash_error(1) move_def abandon_def)
  next
    case (exists k i it its sz c w)
    show ?thesis
      by (rule apart_moved [OF ex' inv exists(2), of "Checking i its sz"]) (auto simp: exists(1,3) move_def)
  next
    case (missing k i it its sz c w)
    have "on_items s'"
      by (rule on_items_moved [OF on missing(2), of _ "Saving i it its sz"]) (auto simp: missing(1,3) move_def)
    moreover have "shared_only s'"
      by (rule shared_overlap [OF ex on sh missing(2,3), of _ "Saving i it its sz"]) (simp_all add: missing(1) move_def)
    ultimately show ?thesis using ex' by (simp add: apart_inv_def)
  next
    case (seen k i it its sz c w)
    have "on_items s'"
      by (rule on_items_moved [OF on seen(2), of _ "Checking i its sz"]) (auto simp: seen(1,3) move_def)
    moreover have "shared_only s'"
      by (rule shared_overlap [OF ex on sh seen(2,3), of _ "Checking i its sz"]) (simp_all add: seen(1) move_def)
    ultimately show ?thesis using ex' by (simp add: apart_inv_def)
  next
    case (check_error k i it its sz c er w)
    show ?thesis by (rule apart_moved [OF ex' inv check_error(2), of Idle]) (simp_all add: check_error(1) move_def abandon_def)
  next
    case (save k i it its sz c w)
    show ?thesis
      by (rule apart_moved [OF ex' inv save(2), of "Checking i its (i64 (sz + item_size (files s ! i) it))"])
        (auto simp: save(1,3) move_def)
  next
    case (save_error k i it its sz c er w)
    show ?thesis by (rule apart_moved [OF ex' inv save_error(2), of Idle]) (simp_all add: save_error(1) move_def abandon_def)
  next
    case (save_entwined k i it its sz w)
    show ?thesis
      by (rule apart_moved [OF ex' inv save_entwined(2), of "Checking i its (i64 (sz + item_size (files s ! i) it))"])
        (auto simp: save_entwined(1,3) move_def)
  next
    case (save_entwined_error k i it its sz w er)
    show ?thesis
      by (rule apart_moved [OF ex' inv save_entwined_error(2), of Idle])
        (simp_all add: save_entwined_error(1) move_def abandon_def)
  next
    case (count k i sz)
    show ?thesis
      by (rule apart_moved [OF ex' inv count(2), of "after_items i sz s"])
        (auto simp: count(1,3) move_def after_items_def split: if_splits)
  next
    case (append k i n)
    show ?thesis by (rule apart_moved [OF ex' inv append(2), of Idle]) (simp_all add: append(1) move_def)
  qed
qed

lemma apart_steps: "(create_step e)\<^sup>*\<^sup>* s s' \<Longrightarrow> apart_inv s \<Longrightarrow> apart_inv s'"
  by (induction rule: rtranclp_induct) (auto intro: apart_step)

lemma apart_init: "apart_inv (create_init configured dflt p w)"
  unfolding apart_inv_def using exclusive_init
  by (auto simp: on_items_def shared_only_def holds_file_def create_init_def)

text \<open>
  With one worker nothing is under way when it looks for an object. \<open>saves_apart\<close> is the condition on the
  entries of a manifest under which the saves of its run have not met.
\<close>

lemma alone_step: "create_step e s s' \<Longrightarrow> length (workers s) = 1 \<and> overlapped s = {} \<Longrightarrow>
    length (workers s') = 1 \<and> overlapped s' = {}"
  by (induction rule: create_step.induct)
    (auto simp: move_def abandon_def overlap_def under_way_def list_ex_iff)

lemma alone_steps: "(create_step e)\<^sup>*\<^sup>* s s' \<Longrightarrow> length (workers s) = 1 \<and> overlapped s = {} \<Longrightarrow>
    length (workers s') = 1 \<and> overlapped s' = {}"
  by (induction rule: rtranclp_induct) (use alone_step in blast)+

definition saves_apart :: "int \<Rightarrow> nat \<Rightarrow> SnapFile list \<Rightarrow> bool" where
  "saves_apart configured dflt fs \<longleftrightarrow> worker_count configured dflt (length fs) = 1 \<or> objects_apart fs"

lemma files_length: "(create_step e)\<^sup>*\<^sup>* s s' \<Longrightarrow> length (files s') = length (files s)"
proof (induction rule: rtranclp_induct)
  case (step s1 s2)
  from step(2) have "length (files s2) = length (files s1)"
    by cases (simp_all add: move_def abandon_def)
  with step show ?case by simp
qed simp

lemma no_overlap:
  assumes steps: "(create_step e)\<^sup>*\<^sup>* (create_init configured dflt p w) s"
    and apart: "saves_apart configured dflt (files s)"
  shows "overlapped s = {}"
proof -
  have len: "length (files s) = length (source_files (prep_source p))"
    using files_length [OF steps] by (simp add: create_init_def)
  from apart [unfolded saves_apart_def len] show ?thesis
  proof
    assume "worker_count configured dflt (length (source_files (prep_source p))) = 1"
    with alone_steps [OF steps] show ?thesis by (simp add: create_init_def)
  next
    assume a: "objects_apart (files s)"
    have inv: "apart_inv s" by (rule apart_steps [OF steps apart_init])
    show ?thesis
    proof (rule ccontr)
      assume "overlapped s \<noteq> {}"
      with inv obtain i j h where h: "i \<noteq> j" "settled s i" "settled s j" "h \<in> object_names (files s ! i)"
        "h \<in> object_names (files s ! j)" by (auto simp: apart_inv_def shared_only_def)
      from inv h(2,3) have "i < length (files s)" "j < length (files s)"
        by (auto simp: apart_inv_def exclusive_def settled_def)
      with objects_apartD [OF a _ _ h(1,4)] h(5) show False by blast
    qed
  qed
qed

end
