(* ===== verification/Disk_Explore.thy ===== *)
theory Disk_Explore
  imports Disk_Source_Facts
begin

section \<open>Exploring a directory finds its files\<close>

text \<open>
  What the walk over a directory yields: one file for every regular file below it, with its path and its
  size, and nothing else. Names in the tree are names: not empty, no dots, no slash.
\<close>

definition tidy :: "'z os_world_scheme \<Rightarrow> bool" where
  "tidy w \<longleftrightarrow> list_all (\<lambda>kv. fst kv \<noteq> [] \<and> list_all simple_comp (fst kv)) (nodes w)"

text \<open>The regular files at or below a path.\<close>

definition file_below :: "'z os_world_scheme \<Rightarrow> fspath \<Rightarrow> fspath \<Rightarrow> bytes \<Rightarrow> bool" where
  "file_below w base q b \<longleftrightarrow> prefix base q \<and> lookup w q = Some (File b)"

text \<open>A listed file that stands for a file of the world.\<close>

definition lists_file :: "'z os_world_scheme \<Rightarrow> fspath \<Rightarrow> SnapFile \<Rightarrow> bool" where
  "lists_file w base f \<longleftrightarrow> is_rooted (file_path f) \<and> file_chunks f = [] \<and>
     (\<exists>b. file_below w base (comps (file_path f)) b \<and> file_size f = int (length b))"

lemma tidy_names: "tidy w \<Longrightarrow> map_of (nodes w) q = Some n \<Longrightarrow> q \<noteq> [] \<and> (\<forall>c \<in> set q. simple_comp c)"
  by (auto simp: tidy_def list_all_iff dest!: map_of_SomeD)

lemma walked_path:
  assumes "is_rooted p" and "prefix (comps p) q" and "\<forall>c \<in> set q. simple_comp c"
  shows "comps (Join (p # drop (length (comps p)) q)) = q"
proof -
  from assms(2) obtain r where q: "q = comps p @ r" by (auto simp: prefix_def)
  with assms(1,3) comps_Join [of p r] show ?thesis by simp
qed

lemma readFiles_Ok:
  assumes run: "readFiles p w = (Ok fs, w')" and p: "is_rooted p" and t: "tidy w"
  shows "\<forall>f \<in> set fs. lists_file w (comps p) f"
    and "file_below w (comps p) q b \<Longrightarrow> \<exists>f \<in> set fs. comps (file_path f) = q"
proof -
  let ?base = "comps p"
  from run p obtain es where fs: "fs = concat (map (walked_file p ?base) es)"
    and es: "es = walk (tick w) ?base"
    by (auto simp: readFiles_def ok_iffs os_WalkDir_def syscall_Ok_iff resolve_rooted split: option.splits)
  have walk: "(q, n) \<in> set es \<longleftrightarrow> prefix ?base q \<and> map_of (nodes w) q = Some n" for q n
    using in_walk [of q n "tick w" ?base] by (simp add: es tick_def)
  show "\<forall>f \<in> set fs. lists_file w ?base f"
  proof
    fix f assume "f \<in> set fs"
    then obtain q n where e: "(q, n) \<in> set es" and f: "f \<in> set (walked_file p ?base (q, n))"
      by (auto simp: fs)
    from f obtain b where n: "n = File b" and f: "f = NewFile (Join (p # drop (length ?base) q)) (int (length b))"
      by (auto simp: walked_file_def split: node.splits)
    from e walk have q: "prefix ?base q" "map_of (nodes w) q = Some n" by simp_all
    note N = tidy_names [OF t q(2)]
    have "comps (file_path f) = q" "is_rooted (file_path f)"
      using walked_path [OF p q(1)] N p by (simp_all add: f NewFile_def)
    with q N n show "lists_file w ?base f"
      by (simp add: lists_file_def file_below_def f NewFile_def lookup_def)
  qed
  assume below: "file_below w ?base q b"
  then have "q \<noteq> []" "map_of (nodes w) q = Some (File b)"
    by (auto simp: file_below_def lookup_def split: if_splits)
  with below walk have e: "(q, File b) \<in> set es" by (simp add: file_below_def)
  let ?f = "NewFile (Join (p # drop (length ?base) q)) (int (length b))"
  have "?f \<in> set fs" using e by (force simp: fs walked_file_def)
  moreover have "comps (file_path ?f) = q"
    using walked_path [OF p, of q] below tidy_names [OF t \<open>map_of (nodes w) q = Some (File b)\<close>]
    by (simp add: file_below_def NewFile_def)
  ultimately show "\<exists>f \<in> set fs. comps (file_path f) = q" by blast
qed

lemma sets_readFiles [sets_rules]: "sets d S (readFiles p)"
  unfolding readFiles_def by (rule sets_state) (intro sets_rules)

lemma sets_disk_Explore: "sets d S (disk_Explore ctx p)"
  unfolding disk_Explore_def absolute_path_def by (intro sets_rules)

lemma Explore_Ok:
  assumes run: "disk_Explore ctx p w = (Ok s, w')" and p: "is_rooted p" and t: "tidy w"
  shows "\<forall>f \<in> set (source_files s). lists_file w (comps p) f"
    and "file_below w (comps p) q b \<Longrightarrow> \<exists>f \<in> set (source_files s). comps (file_path f) = q"
    and "absolutePath s = Clean p"
proof -
  from run p obtain w1 fs w2 info where cx: "ctxErr ctx w = (Ok (), w1)"
    and st: "os_Stat (Clean p) w1 = (Ok info, w2)" and rd: "readFiles (Clean p) w2 = (Ok fs, w')"
    and s: "s = \<lparr>absolutePath = Clean p, source_files = fs\<rparr>"
    by (auto simp: disk_Explore_def absolute_path_def filepath_Abs_def ok_iffs orWrap_Ok_iff split: if_splits)
  have n: "nodes w2 = nodes w" using st cx
    by (auto simp: os_Stat_def syscall_def sys_def stat_at_def ctxErr_def tick_def nothing_done_def
        split: option.splits if_splits)
  then have t2: "tidy w2" using t by (simp add: tidy_def)
  have same: "lists_file w2 = lists_file w" "file_below w2 = file_below w"
    by (intro ext, simp add: lists_file_def file_below_def lookup_def n)+
  note R = readFiles_Ok [OF rd _ t2] 
  show "\<forall>f \<in> set (source_files s). lists_file w (comps p) f" using R(1) p by (simp add: s same comps_Clean)
  show "absolutePath s = Clean p" by (simp add: s)
  show "file_below w (comps p) q b \<Longrightarrow> \<exists>f \<in> set (source_files s). comps (file_path f) = q"
    using R(2) p by (simp add: s same comps_Clean)
qed

end
