(* ===== verification/Disk_Snapshot.thy ===== *)
theory Disk_Snapshot
  imports Disk_Create Disk_Explore Disk_Key_Facts Create_Run Create_Exclusive
begin

section \<open>The command that creates a snapshot, on disk\<close>

text \<open>
  What the parts of \<^verbatim>\<open>Create\<close> around the workers do on disk: the preparation reads the
  configuration, the source and the key, the end writes the manifest. Together with the invariant of the
  workers they give what holds when the command has returned.
\<close>

text \<open>
  The field in which the key service keeps the decrypted key is a part of the world of its own: storing it
  leaves the file tree, the clock and the oracles alone.
\<close>

definition cache_apart :: "'z DecryptSymmetricKey \<Rightarrow> bool" where
  "cache_apart d \<longleftrightarrow> (\<forall>k w. steady w (store_key d k w) \<and> (\<forall>q. lookup (store_key d k w) q = lookup w q))"

definition create_on_disk :: "library \<Rightarrow> string \<Rightarrow> 'z create_service \<Rightarrow> bool" where
  "create_on_disk lib root sv \<longleftrightarrow>
     svc_source sv = DiskSourceRepository lib \<and> svc_objects sv = DiskObjectRepository lib root \<and>
     svc_manifests sv = DiskManifestRepository lib root \<and> svc_folder sv = DiskFolderRepository lib \<and>
     dsk_symmetricKeyRepository (svc_decrypt sv) = SymmetricRepository (lib_crypto lib) \<and>
     dsk_asymmetricRepo (svc_decrypt sv) = DiskKeyPairRepository (lib_crypto lib) \<and>
     cache_apart (svc_decrypt sv) \<and>
     (\<forall>t. CHR ''/'' \<notin> set (svc_stamp sv t)) \<and> (\<forall>b. CHR ''/'' \<notin> set (uuid_String (svc_uuid sv) (uuid_V4 (svc_uuid sv) b)))"

subsection \<open>Preparation\<close>

lemma sets_DecryptSymmetricKey:
  assumes "dsk_symmetricKeyRepository d = SymmetricRepository c" and "dsk_asymmetricRepo d = DiskKeyPairRepository c"
    and "cache_apart d"
  shows "sets e S (DecryptSymmetricKey_Decrypt d ctx pk ek)"
proof -
  have "sets e S (\<lambda>w'. let w'' = store_key d key w' in (Ok (cached_key d w''), w''))" for key
    using assms(3) by (intro setsI) (simp add: cache_apart_def Let_def)
  then have "sets e S (andThen (ReadRSAPrivateKey (dsk_asymmetricRepo d) ctx pk) (\<lambda>priv.
        andThen (DecodeAndDecryptSymmetricKey (dsk_symmetricKeyRepository d) ctx priv ek) (\<lambda>key.
        (\<lambda>w'. let w'' = store_key d key w' in (Ok (cached_key d w''), w'')))))"
    using assms(1,2) by (simp add: disk_services) (intro sets_rules)
  from setsD [OF this] show ?thesis
    by (intro setsI) (simp add: DecryptSymmetricKey_Decrypt_def)
qed

lemma GetConfig_nodes: "disk_GetConfig lib ctx p w = (r, w') \<Longrightarrow> nodes w' = nodes w"
proof -
  assume run: "disk_GetConfig lib ctx p w = (r, w')"
  have base: "keeps (\<lambda>v. nodes v = nodes w) (ctxErr ctx)" "keeps (\<lambda>v. nodes v = nodes w) (os_ReadFile q)"
    "keeps (\<lambda>v. nodes v = nodes w) (filepath_Abs q)" "keeps (\<lambda>v. nodes v = nodes w) time_Now" for q
    by (auto simp: keeps_def ctxErr_def os_ReadFile_def syscall_def sys_def nothing_done_def filepath_Abs_def
        time_Now_def tick_def split: option.splits node.splits)
  have "keeps (\<lambda>v. nodes v = nodes w) (disk_GetConfig lib ctx p)"
    unfolding disk_GetConfig_def BuildConfigDomain_def NewConfig_def absolute_path_def
    by (intro keeps_rules base)
  from keepsD [OF this refl run] show ?thesis .
qed

lemma prepare_Ok:
  assumes run: "create_prepare (svc_source sv) (svc_folder sv) (svc_decrypt sv) ctx root src pk w = (Ok p, w1)"
    and on: "create_on_disk lib root sv" and src: "is_rooted src" and t: "tidy w"
  shows "\<forall>f \<in> set (source_files (prep_source p)). lists_file w (comps src) f"
    and "file_below w (comps src) q b \<Longrightarrow> \<exists>f \<in> set (source_files (prep_source p)). comps (file_path f) = q"
    and "\<forall>q. lookup w1 q = lookup w q" and "clock w \<le> clock w1" and "cwd w1 = cwd w"
proof -
  from run on obtain conf wa calc source wb key wc where
    conf: "disk_GetConfig lib ctx root w = (Ok conf, wa)" and ex: "disk_Explore ctx src wa = (Ok source, wb)"
    and key: "Create_getSymmetricKey (svc_decrypt sv) ctx (encryption conf) pk wb = (Ok key, wc)"
    and last: "(case (key, encryption conf) of
        ([], _) \<Rightarrow> return \<lparr>prep_config = conf, prep_calculator = calc, prep_source = source,
          prep_key = key, prep_generation = 0\<rparr>
      | (_, None) \<Rightarrow> panic ''nil pointer dereference''
      | (_, Some en) \<Rightarrow> return \<lparr>prep_config = conf, prep_calculator = calc, prep_source = source,
          prep_key = key, prep_generation = Encryption.generation en\<rparr>) wc = (Ok p, w1)"
    by (auto simp: create_prepare_def GetConfig_Get_def create_on_disk_def DiskFolderRepository_def
        DiskSourceRepository_def andThen_Ok_iff lift_outcome_Ok_iff)
  from last have s: "prep_source p = source" and w1: "w1 = wc"
    by (auto simp: return_run panic_run split: list.splits option.splits)
  have n: "nodes wa = nodes w" by (rule GetConfig_nodes [OF conf])
  then have t': "tidy wa" and lk: "lookup wa = lookup w" using t by (auto simp: tidy_def lookup_def fun_eq_iff)
  have same: "lists_file wa = lists_file w" "file_below wa = file_below w"
    by (intro ext, simp add: lists_file_def file_below_def lk)+
  from Explore_Ok(1,2) [OF ex src t']
  show "\<forall>f \<in> set (source_files (prep_source p)). lists_file w (comps src) f"
    and "file_below w (comps src) q b \<Longrightarrow> \<exists>f \<in> set (source_files (prep_source p)). comps (file_path f) = q"
    by (simp_all add: s same)
  have "sets (cwd wb) {} (Create_getSymmetricKey (svc_decrypt sv) ctx (encryption conf) pk)"
    using on unfolding Create_getSymmetricKey_def create_on_disk_def
    by (auto split: option.split intro!: sets_rules sets_DecryptSymmetricKey)
  with key lookups_of_read w1 have k: "(\<forall>q. lookup w1 q = lookup wb q) \<and> cwd w1 = cwd wb \<and> clock wb \<le> clock w1" by metis
  note e = lookups_of_read [OF sets_disk_Explore ex] and c = lookups_of_read [OF sets_key_reads(1) conf]
  show "\<forall>q. lookup w1 q = lookup w q" "clock w \<le> clock w1" "cwd w1 = cwd w"
    using k e c by simp_all
qed

subsection \<open>The manifest\<close>

lemma newID_plain:
  assumes "newID u stamp w = (Ok i, w')" and "\<forall>t. CHR ''/'' \<notin> set (stamp t)" and "\<forall>b. CHR ''/'' \<notin> set (uuid_String u (uuid_V4 u b))"
  shows "CHR ''/'' \<notin> set i"
proof -
  from assms(1) obtain t r where i: "i = stamp t @ ''-'' @ take 8 (uuid_String u (uuid_V4 u r))"
    by (auto simp: newID_def ok_iffs uuid_New_def)
  have "CHR ''/'' \<notin> set (take 8 (uuid_String u (uuid_V4 u r)))"
    using assms(3) in_set_takeD [of "CHR ''/''" 8] by blast
  with assms(2) show ?thesis by (auto simp: i)
qed

lemma finish_Ok:
  assumes run: "create_finish (svc_uuid sv) (svc_stamp sv) (svc_manifests sv) ctx p s w = (Ok r, w')"
    and on: "create_on_disk lib root sv" and root: "is_rooted root"
  shows "\<exists>m c data. man_id m = result_id r \<and> man_files m = files s \<and> man_compression m = compression (prep_config p) \<and>
      man_compression m = Some c \<and> manifest_MarshalIndent (lib_text lib) (manifest_model m c) = Ok data \<and>
      lookup w' (manifest_at root (result_id r)) = Some (File (data @ [newline])) \<and>
      (\<forall>q. q \<noteq> manifest_at root (result_id r) \<longrightarrow> lookup w' q = lookup w q)"
    and "clock w \<le> clock w'"
proof -
  from run on obtain i w1 t w2 where ID: "newID (svc_uuid sv) (svc_stamp sv) w = (Ok i, w1)"
    and T: "time_Now w1 = (Ok t, w2)"
    and save: "disk_SaveManifest lib root ctx
        (NewManifest i (files s) t (absolutePath (prep_source p)) (compression (prep_config p))) w2 = (Ok (), w')"
    and r: "result_id r = i"
    by (auto simp: create_finish_def Let_def ok_iffs create_on_disk_def DiskManifestRepository_def NewManifest_def)
  let ?m = "NewManifest i (files s) t (absolutePath (prep_source p)) (compression (prep_config p))"
  have i: "CHR ''/'' \<notin> set (man_id ?m)"
    using newID_plain [OF ID] on by (simp add: create_on_disk_def NewManifest_def)
  have "sets d {} (uuid_New u)" for d u by (intro setsI) (simp add: uuid_New_def)
  then have "sets d {} (newID (svc_uuid sv) (svc_stamp sv))" for d
    unfolding newID_def by (intro sets_rules)
  note n = lookups_of_read [OF this ID] and t = lookups_of_read [OF sets_reads(10) T]
  note f = sets_lookup [OF sets_disk_SaveManifest [OF root i] refl save]
  have id: "man_id ?m = i" by (simp add: NewManifest_def)
  have "lookup w' q = lookup w q" if "q \<noteq> manifest_at root i" for q
    using f(2) [of q] n(1) t(1) that by (simp add: id)
  then show "\<exists>m c data. man_id m = result_id r \<and> man_files m = files s \<and> man_compression m = compression (prep_config p) \<and>
      man_compression m = Some c \<and> manifest_MarshalIndent (lib_text lib) (manifest_model m c) = Ok data \<and>
      lookup w' (manifest_at root (result_id r)) = Some (File (data @ [newline])) \<and>
      (\<forall>q. q \<noteq> manifest_at root (result_id r) \<longrightarrow> lookup w' q = lookup w q)"
    using SaveManifest_Ok [OF save root i] r
    by (intro exI [of _ ?m]) (auto simp: NewManifest_def)
  show "clock w \<le> clock w'" using n(3) t(3) f(3) by (simp add: steady_def)
qed

lemma manifest_not_object: "object_at root key g h \<noteq> manifest_at root s"
  by (simp add: object_at_def folders_def manifest_at_def ObjectsFolder_def SnapshotsFolder_def)

subsection \<open>The whole command\<close>

text \<open>
  \<open>saves_file\<close>: the objects that an entry of a manifest names are in the store, each with content of its
  hash, and they are the hashes of the compressed pieces of the given bytes.
\<close>

definition saves_file ::
  "library \<Rightarrow> string \<Rightarrow> bytes \<Rightarrow> uint64 \<Rightarrow> (bytes \<Rightarrow> bytes) \<Rightarrow> 'z os_world_scheme \<Rightarrow> bytes \<Rightarrow> SnapFile \<Rightarrow> bool" where
  "saves_file lib root key g enc w b f \<longleftrightarrow>
     file_size f = int (length b) \<and> concat (map (item_bytes b) (items_of f)) = b \<and>
     (\<forall>it \<in> set (items_of f). item_hash f it = content_hash (lib_crypto lib) (enc (item_bytes b it)) \<and>
        object_intact lib root key g w (item_hash f it))"

text \<open>The source: apart from the folder of objects, and of files that an \<^verbatim>\<open>int64\<close> can measure.\<close>

definition source_apart :: "string \<Rightarrow> 'z os_world_scheme \<Rightarrow> string \<Rightarrow> bool" where
  "source_apart root w src \<longleftrightarrow>
     (\<forall>q b. file_below w (comps src) q b \<longrightarrow> \<not> prefix (comps root @ [ObjectsFolder]) q \<and>
        \<not> prefix q (comps root @ [ObjectsFolder]) \<and> int (length b) + ChunkSize < 2 ^ 63)"

text \<open>No object of the store is damaged.\<close>

definition store_intact :: "library \<Rightarrow> string \<Rightarrow> bytes \<Rightarrow> uint64 \<Rightarrow> 'z os_world_scheme \<Rightarrow> bool" where
  "store_intact lib root key g w \<longleftrightarrow>
     (\<forall>h. hash_ok h \<longrightarrow> object_present root key g w h \<longrightarrow> object_intact lib root key g w h)"

lemma object_intact_cong:
  "lookup w' (object_at root key g h) = lookup w (object_at root key g h) \<Longrightarrow>
   object_intact lib root key g w' h = object_intact lib root key g w h"
  by (simp add: object_intact_def)

lemma listed_safe:
  assumes "lists_file w (comps src) f" and "source_apart root w src"
  shows "source_safe root (file_path f)" and "\<exists>b. source_content w (file_path f) = Some b \<and> file_size f = int (length b) \<and>
    int (length b) + ChunkSize < 2 ^ 63"
  using assms unfolding lists_file_def source_apart_def file_below_def source_safe_def source_content_def by auto

text \<open>
  The manifest of an identifier, as it is written out; and what it has to say about a directory: every
  regular file below it has an entry, and every entry stands for such a file, whose bytes are saved.
\<close>

definition manifest_saved ::
  "library \<Rightarrow> string \<Rightarrow> string \<Rightarrow> Compression option \<Rightarrow> Manifest \<Rightarrow> 'z os_world_scheme \<Rightarrow> bool" where
  "manifest_saved lib root i cmp m w \<longleftrightarrow> man_id m = i \<and> man_compression m = cmp \<and>
     (\<exists>c data. cmp = Some c \<and> manifest_MarshalIndent (lib_text lib) (manifest_model m c) = Ok data \<and>
        lookup w (manifest_at root i) = Some (File (data @ [newline])))"

definition snapshot_of ::
  "library \<Rightarrow> string \<Rightarrow> bytes \<Rightarrow> uint64 \<Rightarrow> (bytes \<Rightarrow> bytes) \<Rightarrow> 'z os_world_scheme \<Rightarrow> string \<Rightarrow> 'z os_world_scheme \<Rightarrow>
   Manifest \<Rightarrow> bool" where
  "snapshot_of lib root key g enc w src w' m \<longleftrightarrow>
     (\<forall>f \<in> set (man_files m). \<exists>b. file_below w (comps src) (comps (file_path f)) b \<and>
        saves_file lib root key g enc w' b f) \<and>
     (\<forall>q b. file_below w (comps src) q b \<longrightarrow> (\<exists>f \<in> set (man_files m). comps (file_path f) = q))"

text \<open>An entry at the end of the run: its file, as it was at the beginning, is saved.\<close>

lemma saved_entry:
  assumes ok: "disk.items_ok root key g enc lib cmp v f {}" and st: "disk.file_stable root v f0 f"
    and li: "lists_file w (comps src) f0"
    and same: "\<forall>p. source_safe root p \<longrightarrow> source_content v p = source_content w p"
    and intact: "\<forall>h. hash_ok h \<longrightarrow> object_present root key g v h \<longrightarrow> object_intact lib root key g v h"
    and hash: "sha256_sized (lib_crypto lib)"
    and obj: "\<And>h. lookup w' (object_at root key g h) = lookup v (object_at root key g h)"
  shows "\<exists>b. file_below w (comps src) (comps (file_path f)) b \<and> saves_file lib root key g enc w' b f"
proof -
  from st have p: "file_path f = file_path f0" "file_size f = file_size f0" "source_safe root (file_path f)"
    unfolding disk.file_stable_def by auto
  from li p(1,2) obtain b where b: "file_below w (comps src) (comps (file_path f)) b" "file_size f = int (length b)"
    by (auto simp: lists_file_def)
  then have "source_content w (file_path f) = Some b" by (simp add: file_below_def source_content_def)
  with same p(3) have c: "source_content v (file_path f) = Some b" by simp
  have "concat (map (item_bytes b) (items_of f)) = b"
    using ok c by (simp add: disk.items_ok_def disk.covered_def)
  moreover have "item_hash f it = content_hash (lib_crypto lib) (enc (item_bytes b it)) \<and>
      object_intact lib root key g w' (item_hash f it)" if it: "it \<in> set (items_of f)" for it
  proof -
    from ok it have good: "disk.good_item enc lib root cmp key v f it" "object_present root key g v (item_hash f it)"
      by (simp_all add: disk.items_ok_def)
    then have h: "item_hash f it = content_hash (lib_crypto lib) (enc (item_bytes b it))"
      using c by (simp add: disk.good_item_def)
    with hash have "hash_ok (item_hash f it)" by (simp add: hash_ok_content)
    with intact good(2) have "object_intact lib root key g v (item_hash f it)" by blast
    with h show ?thesis by (simp add: object_intact_cong [OF obj])
  qed
  ultimately have "saves_file lib root key g enc w' b f"
    unfolding saves_file_def using b(2) by blast
  with b(1) show ?thesis by blast
qed

lemma created_on_disk:
  assumes run: "Create_Do sv ctx root src pk w (Ok r) w'"
    and prep: "create_prepare (svc_source sv) (svc_folder sv) (svc_decrypt sv) ctx root src pk w = (Ok p, w1)"
    and on: "create_on_disk lib root sv"
    and l: "disk_lawful lib root (compression (prep_config p)) (prep_key p) enc"
    and one: "prep_calculator p = OneFormatVersion \<longrightarrow> prep_key p = []"
    and src: "is_rooted src" "tidy w" "source_apart root w src"
    and store: "store_intact lib root (prep_key p) (prep_generation p) w"
    and ctx: "\<forall>t \<le> clock w'. \<not> ctx t"
  shows "\<exists>m. manifest_saved lib root (result_id r) (compression (prep_config p)) m w' \<and>
      (saves_apart (svc_workers sv) (svc_default sv) (man_files m) \<longrightarrow>
         snapshot_of lib root (prep_key p) (prep_generation p) enc w src w' m \<and>
         store_intact lib root (prep_key p) (prep_generation p) w')"
proof -
  let ?k = "prep_key p" and ?g = "prep_generation p" and ?cmp = "compression (prep_config p)"
  let ?e = "create_env_of (svc_source sv) (svc_objects sv) ctx p" and ?s0 = "create_init (svc_workers sv) (svc_default sv) p w1"
  let ?fs = "source_files (prep_source p)"
  have root: "is_rooted root" using l by (simp add: disk_lawful_def)
  note P = prepare_Ok [OF prep on src(1,2)]
  have sc: "source_content w1 = source_content w" using P(3) by (simp add: source_content_def fun_eq_iff)
  have i0: "disk.create_inv root ?k ?g lib enc ?cmp ctx ?fs ?s0"
  proof (rule disk.init_inv, rule ballI)
    fix f assume f: "f \<in> set ?fs"
    with P(1) have li: "lists_file w (comps src) f" by blast
    from listed_safe [OF this src(3)] li
    show "disk.file_stable root w1 f f \<and> file_chunks f = []"
      by (simp add: disk.file_stable_def sc lists_file_def)
  next
    show "\<forall>h. hash_ok h \<longrightarrow> object_present root ?k ?g w1 h \<longrightarrow> object_intact lib root ?k ?g w1 h"
      using store P(3) by (simp add: store_intact_def object_present_def object_intact_def)
  qed
  from run obtain s where steps: "(create_step ?e)\<^sup>*\<^sup>* ?s0 s" and fin: "all_finished s" and none: "firstErr s = None"
    and finish: "create_finish (svc_uuid sv) (svc_stamp sv) (svc_manifests sv) ctx p s (world s) = (Ok r, w')"
    by (rule Create_Do_OkE) (use prep in auto)
  note F = finish_Ok [OF finish on root]
  have on_e: "disk.runs_on lib root ?cmp ?k ?g enc ?e"
    using on l one unfolding disk.runs_on_def create_env_of_def create_on_disk_def by simp
  have ctx': "\<forall>t \<le> clock (world s). \<not> env_ctx ?e t" using ctx F(2) by (simp add: create_env_of_def)
  have i0': "disk.create_inv root ?k ?g lib enc ?cmp (env_ctx ?e) ?fs ?s0" using i0 by (simp add: create_env_of_def)
  from F(1) obtain m c data where m: "man_id m = result_id r" "man_files m = files s" "man_compression m = Some c"
    "man_compression m = ?cmp"
    "manifest_MarshalIndent (lib_text lib) (manifest_model m c) = Ok data"
    "lookup w' (manifest_at root (result_id r)) = Some (File (data @ [newline]))"
    and rest: "\<forall>q. q \<noteq> manifest_at root (result_id r) \<longrightarrow> lookup w' q = lookup (world s) q" by blast
  have obj: "lookup w' (object_at root ?k ?g h) = lookup (world s) (object_at root ?k ?g h)" for h
    using rest manifest_not_object by blast
  have "snapshot_of lib root ?k ?g enc w src w' m \<and> store_intact lib root ?k ?g w'"
    if apart: "saves_apart (svc_workers sv) (svc_default sv) (man_files m)"
  proof -
  have sep: "overlapped s = {}" using no_overlap [OF steps] apart m(2) by simp
  note C = disk.created [OF steps on_e none sep i0' fin ctx']
  have intact: "store_intact lib root ?k ?g w'"
    using C(3) obj by (simp add: store_intact_def object_present_def object_intact_cong [OF obj])
  have same: "\<forall>p. source_safe root p \<longrightarrow> source_content (world s) p = source_content w p"
    using disk.steps_content [OF steps on_e none sep i0'] by (simp add: create_init_def sc)
  have hash: "sha256_sized (lib_crypto lib)" using l by (simp add: disk_lawful_def)
  have "\<forall>f \<in> set (files s). \<exists>b. file_below w (comps src) (comps (file_path f)) b \<and> saves_file lib root ?k ?g enc w' b f"
  proof
    fix f assume f: "f \<in> set (files s)"
    then obtain i where i: "i < length (files s)" "f = files s ! i" by (auto simp: in_set_conv_nth)
    with C(1) have st: "disk.file_stable root (world s) (?fs ! i) f" and fs: "?fs ! i \<in> set ?fs"
      by (auto simp: list_all2_conv_all_nth)
    from C(2) f have "disk.items_ok root ?k ?g enc lib ?cmp (world s) f {}" by blast
    from saved_entry [OF this st P(1) [rule_format, OF fs] same C(3) hash obj]
    show "\<exists>b. file_below w (comps src) (comps (file_path f)) b \<and> saves_file lib root ?k ?g enc w' b f" .
  qed
  moreover have "\<exists>f \<in> set (files s). comps (file_path f) = q" if below: "file_below w (comps src) q b" for q b
  proof -
    from P(2) [OF below] obtain i where i: "i < length ?fs" "comps (file_path (?fs ! i)) = q"
      by (auto simp: in_set_conv_nth)
    with C(1) have "i < length (files s)" "file_path (files s ! i) = file_path (?fs ! i)"
      by (simp_all add: list_all2_conv_all_nth disk.file_stable_def)
    with i(2) show ?thesis by (intro bexI [of _ "files s ! i"]) simp_all
  qed
  ultimately show ?thesis unfolding snapshot_of_def using m(2) intact by simp
  qed
  with m show ?thesis unfolding manifest_saved_def by (intro exI [of _ m]) auto
qed

end
