(* ===== verification/Create_Restore.thy ===== *)
theory Create_Restore
  imports Disk_Snapshot Sample
begin

section \<open>A saved file restored\<close>

text \<open>
  The objects of an entry that was saved are the compressed pieces of the file, so restoring the entry
  gives the file back: the hash names the content as long as no two contents that occur collide, and a
  decoder undoes its encoder.
\<close>

definition stored_contents :: "library \<Rightarrow> bytes \<Rightarrow> 'z os_world_scheme \<Rightarrow> bytes set" where
  "stored_contents lib key w = {data. \<exists>q raw. lookup w q = Some (File raw) \<and> object_content lib key raw = Some data}"

definition pieces_below :: "(bytes \<Rightarrow> bytes) \<Rightarrow> 'z os_world_scheme \<Rightarrow> fspath \<Rightarrow> bytes set" where
  "pieces_below enc w base = {enc (take n (drop k b)) | q b n k. file_below w base q b}"

lemma item_piece: "\<exists>n k. item_bytes b it = take n (drop k b)"
proof (cases it)
  case Whole
  then have "item_bytes b it = take (length b) (drop 0 b)" by simp
  then show ?thesis by blast
qed auto

lemma hashes_of_items:
  assumes "objectHashes f = Ok hs"
  shows "hs = map (item_hash f) (items_of f)"
proof -
  have "part_hashes cs = Ok hs \<Longrightarrow> hs = map chunk_hash cs" for cs hs
    by (induction cs arbitrary: hs) (auto split: if_splits outcome.splits)
  with assms show ?thesis by (auto simp: objectHashes_def items_of_def comp_def split: if_splits)
qed

lemma holds_piece:
  assumes part: "holds_part lib root co key g w h out" and h: "h = content_hash (lib_crypto lib) (enc piece)"
    and intact: "object_intact lib root key g w h" and free: "inj_on (content_hash (lib_crypto lib)) D"
    and D: "stored_contents lib key w \<subseteq> D" "enc piece \<in> D"
    and enc: "compresses lib (Some co) enc" and codecs: "codecs_correct (lib_codecs lib)"
  shows "out = piece"
proof -
  from part obtain raw data where raw: "lookup w (object_at root key g h) = Some (File raw)"
    "object_content lib key raw = Some data" and dec: "decodes lib co data out" by (auto simp: holds_part_def)
  from raw have "data \<in> D" using D(1) by (auto simp: stored_contents_def)
  moreover from intact raw h have "content_hash (lib_crypto lib) data = content_hash (lib_crypto lib) (enc piece)"
    by (simp add: object_intact_def)
  ultimately have "data = enc piece" using free D(2) by (simp add: inj_on_eq_iff)
  moreover from enc obtain hd where "GetHandler (compType co) = Ok hd"
    "Handler_Encode (lib_codecs lib) hd (level co) = Ok enc" by (auto simp: compresses_def)
  ultimately show ?thesis using dec codecs by (auto simp: decodes_def codecs_correct_def)
qed

lemma saved_file_restores:
  assumes saved: "saves_file lib root key g enc w b f" and l: "disk_lawful lib root (Some co) key enc"
    and codecs: "codecs_correct (lib_codecs lib)"
    and free: "inj_on (content_hash (lib_crypto lib)) D" "stored_contents lib key w \<subseteq> D"
      "\<forall>n k. enc (take n (drop k b)) \<in> D"
    and run: "disk_RestoreObject lib root ctx (Some co) (f\<lparr>file_path := p\<rparr>) key g w = (Ok x, w')"
    and apart: "\<forall>h. object_at root key g h \<noteq> resolve w p"
  shows "lookup w' (resolve w p) = Some (File b)"
proof -
  let ?f = "f\<lparr>file_path := p\<rparr>"
  have root: "is_rooted root" and hash: "sha256_sized (lib_crypto lib)" and enc: "compresses lib (Some co) enc"
    using l by (simp_all add: disk_lawful_def)
  obtain hs where hs: "objectHashes ?f = Ok hs"
    using run by (auto simp: disk_RestoreObject_def ok_iffs split: option.splits)
  have items: "hs = map (item_hash f) (items_of f)"
    using hashes_of_items [OF hs] by (cases f) (simp add: items_of_def comp_def)
  have ok: "hash_ok h \<and> object_at root key g h \<noteq> resolve w (file_path ?f)" if "h \<in> set hs" for h
    using that saved apart hash by (auto simp: items saves_file_def hash_ok_content)
  from RestoreObject_content [OF run root hs ok] obtain outs where
    outs: "list_all2 (holds_part lib root co key g w) hs outs"
      "lookup w' (resolve w p) = Some (File (concat outs))" by auto
  have "outs = map (item_bytes b) (items_of f)"
  proof (rule nth_equalityI)
    show "length outs = length (map (item_bytes b) (items_of f))" using outs(1) items by (simp add: list_all2_conv_all_nth)
    fix i assume i: "i < length outs"
    then have i': "i < length (items_of f)" using outs(1) items by (simp add: list_all2_conv_all_nth)
    let ?it = "items_of f ! i"
    have it: "item_hash f ?it = content_hash (lib_crypto lib) (enc (item_bytes b ?it))"
      "object_intact lib root key g w (item_hash f ?it)"
      using saved nth_mem [OF i'] by (auto simp: saves_file_def)
    have part: "holds_part lib root co key g w (item_hash f ?it) (outs ! i)"
      using outs(1) i i' items by (simp add: list_all2_conv_all_nth)
    obtain n k where "item_bytes b ?it = take n (drop k b)" using item_piece by blast
    with free(3) have "enc (item_bytes b ?it) \<in> D" by simp
    from holds_piece [OF part it free(1,2) this enc codecs] i'
    show "outs ! i = map (item_bytes b) (items_of f) ! i" by simp
  qed
  with outs(2) saved show ?thesis by (simp add: saves_file_def)
qed

end
