(* ===== verification/Create_Sample.thy ===== *)
theory Create_Sample
  imports Disk_Snapshot Disk_Restore_Facts ReKey_Sample
begin

section \<open>A snapshot, created\<close>

text \<open>A repository without objects, and a source directory with one file.\<close>

definition fresh_config :: Config where
  "fresh_config = \<lparr>conf_id = replicate 16 65, formatVersion = 2, createdAt = 0, compression = Some no_compression,
      encryption = None\<rparr>"

definition fresh_nodes :: "(fspath \<times> node) list" where
  "fresh_nodes =
     [([''r''], Dir), ([''r'', ''snapshots''], Dir), ([''r'', ''config.json''], File [0, 48, 10]), ([''s''], Dir),
      ([''s'', ''a''], File [1, 2, 3])]"

definition fresh_chunk :: Chunk where
  "fresh_chunk = \<lparr>chunk_hash = rekey_hash, chunk_offset = 0, chunk_size = 3\<rparr>"

definition fresh_file :: SnapFile where
  "fresh_file = \<lparr>file_path = ''/s/a'', file_size = 3, file_hash = rekey_hash, file_chunks = [fresh_chunk]\<rparr>"

definition fresh_manifest :: Manifest where
  "fresh_manifest = NewManifest [] [fresh_file] 0 ''/s'' (Some no_compression)"

definition fresh_configs :: "model_Config list" where "fresh_configs = [plain_model fresh_config]"
definition fresh_manifests :: "model_Manifest list" where
  "fresh_manifests = [manifest_key (manifest_model fresh_manifest no_compression)]"

definition fresh_lib :: library where "fresh_lib = table_lib fresh_configs fresh_manifests"

definition fresh_world :: "(nat \<Rightarrow> nat option) \<Rightarrow> os_world" where "fresh_world f = toy_world fresh_nodes f"

definition no_cache :: "os_world \<Rightarrow> bytes" where "no_cache w = []"
definition no_store :: "bytes \<Rightarrow> os_world \<Rightarrow> os_world" where "no_store k w = w"

definition sample_dsk :: "unit DecryptSymmetricKey" where
  "sample_dsk = \<lparr>dsk_symmetricKeyRepository = SymmetricRepository toy_crypto,
     dsk_asymmetricRepo = DiskKeyPairRepository toy_crypto, cached_key = no_cache, store_key = no_store\<rparr>"

definition sample_create :: "unit create_service" where
  "sample_create = \<lparr>svc_source = DiskSourceRepository fresh_lib, svc_manifests = DiskManifestRepository fresh_lib ''/r'',
     svc_objects = DiskObjectRepository fresh_lib ''/r'', svc_folder = DiskFolderRepository fresh_lib,
     svc_decrypt = sample_dsk, svc_workers = 1, svc_default = 4, svc_uuid = toy_uuid, svc_stamp = toy_time\<rparr>"

text \<open>What the command finds out, the state at the end of the workers, and the end.\<close>

definition sample_prepared :: prepared where
  "sample_prepared = \<lparr>prep_config = fresh_config\<lparr>createdAt := 2\<rparr>, prep_calculator = TwoFormatVersion,
     prep_source = \<lparr>absolutePath = ''/s'', source_files = [\<lparr>file_path = ''/s/a'', file_size = 3, file_hash = [],
       file_chunks = []\<rparr>]\<rparr>, prep_key = [], prep_generation = 0\<rparr>"

definition sample_env :: "unit create_env" where
  "sample_env = create_env_of (DiskSourceRepository fresh_lib) (DiskObjectRepository fresh_lib ''/r'') background sample_prepared"

definition sample_start :: "(nat \<Rightarrow> nat option) \<Rightarrow> prepared outcome \<times> os_world" where
  "sample_start f = create_prepare (svc_source sample_create) (svc_folder sample_create) (svc_decrypt sample_create)
     background ''/r'' ''/s'' None (fresh_world f)"

definition sample_end :: "(nat \<Rightarrow> nat option) \<Rightarrow> unit create_state" where
  "sample_end f = create_run 20 sample_env (create_init 1 4 sample_prepared (snd (sample_start f)))"

definition sample_finish :: "(nat \<Rightarrow> nat option) \<Rightarrow> CreateResult outcome \<times> os_world" where
  "sample_finish f = (let s = sample_end f in create_finish toy_uuid toy_time (DiskManifestRepository fresh_lib ''/r'') background
     sample_prepared s (world s))"

lemma sample_start: "fst (sample_start no_fault) = Ok sample_prepared"
  by code_simp

end
