(* ===== verification/Create_Pair.thy ===== *)
theory Create_Pair
  imports Create_Sample Create_Restore Disk_Properties
begin

section \<open>A snapshot of two files, with a key\<close>

text \<open>
  An encrypted repository without objects, a source directory with two files, and two workers. The key
  service keeps the decrypted key beside the machine, in the extension of the world.
\<close>

type_synonym cached_world = "bytes os_world_scheme"

definition pair_config :: Config where
  "pair_config = fresh_config\<lparr>encryption := Some current_encryption\<rparr>"

definition pair_nodes :: "(fspath \<times> node) list" where
  "pair_nodes = fresh_nodes @ [([''s'', ''b''], File [4, 5]), ([''old.pem''], File [11, 1])]"

definition second_hash :: string where "second_hash = content_hash toy_crypto [4, 5]"

definition second_file :: SnapFile where
  "second_file = \<lparr>file_path = ''/s/b'', file_size = 2, file_hash = second_hash,
     file_chunks = [\<lparr>chunk_hash = second_hash, chunk_offset = 0, chunk_size = 2\<rparr>]\<rparr>"

definition pair_manifest :: Manifest where
  "pair_manifest = NewManifest [] [fresh_file, second_file] 0 ''/s'' (Some no_compression)"

definition pair_configs :: "model_Config list" where "pair_configs = [plain_model pair_config]"
definition pair_manifests :: "model_Manifest list" where
  "pair_manifests = [manifest_key (manifest_model pair_manifest no_compression)]"

definition pair_lib :: library where "pair_lib = table_lib pair_configs pair_manifests"

definition pair_world :: cached_world where
  "pair_world = os_world.extend (toy_world pair_nodes no_fault) []"

definition kept_key :: "cached_world \<Rightarrow> bytes" where "kept_key w = os_world.more w"
definition keep_key :: "bytes \<Rightarrow> cached_world \<Rightarrow> cached_world" where "keep_key k w = os_world.more_update (\<lambda>_. k) w"

definition pair_dsk :: "bytes DecryptSymmetricKey" where
  "pair_dsk = \<lparr>dsk_symmetricKeyRepository = SymmetricRepository toy_crypto,
     dsk_asymmetricRepo = DiskKeyPairRepository toy_crypto, cached_key = kept_key, store_key = keep_key\<rparr>"

definition pair_create :: "bytes create_service" where
  "pair_create = \<lparr>svc_source = DiskSourceRepository pair_lib, svc_manifests = DiskManifestRepository pair_lib ''/r'',
     svc_objects = DiskObjectRepository pair_lib ''/r'', svc_folder = DiskFolderRepository pair_lib,
     svc_decrypt = pair_dsk, svc_workers = 2, svc_default = 4, svc_uuid = toy_uuid, svc_stamp = toy_time\<rparr>"

text \<open>What the command finds out, the state at the end of the workers, and the end.\<close>

definition pair_prepared :: prepared where
  "pair_prepared = \<lparr>prep_config = pair_config\<lparr>createdAt := 2\<rparr>, prep_calculator = TwoFormatVersion,
     prep_source = \<lparr>absolutePath = ''/s'', source_files = [NewFile ''/s/a'' 3, NewFile ''/s/b'' 2]\<rparr>,
     prep_key = old_key, prep_generation = 1\<rparr>"

definition pair_env :: "bytes create_env" where
  "pair_env = create_env_of (DiskSourceRepository pair_lib) (DiskObjectRepository pair_lib ''/r'') background pair_prepared"

definition pair_start :: "prepared outcome \<times> cached_world" where
  "pair_start = create_prepare (svc_source pair_create) (svc_folder pair_create) (svc_decrypt pair_create)
     background ''/r'' ''/s'' (Some ''/old.pem'') pair_world"

definition pair_end :: "bytes create_state" where
  "pair_end = create_run 30 pair_env (create_init 2 4 pair_prepared (snd pair_start))"

definition pair_finish :: "CreateResult outcome \<times> cached_world" where
  "pair_finish = create_finish toy_uuid toy_time (DiskManifestRepository pair_lib ''/r'') background pair_prepared pair_end (world pair_end)"

definition pair_after :: cached_world where "pair_after = snd pair_finish"

definition pair_result :: CreateResult where
  "pair_result = \<lparr>result_id = ''47-BCDEFGHI'', fileCount = 2, totalSize = 5\<rparr>"

text \<open>The contents of the files afterwards, as far as the key opens them, and the pieces of the source.\<close>

definition pair_contents :: "bytes list" where
  "pair_contents = [[1, 2, 3], [], [1], [1, 2], [2], [2, 3], [3], [4], [4, 5], [5]]"

definition opens_to :: "node \<Rightarrow> bool" where
  "opens_to nd = (case nd of
      File raw \<Rightarrow> (case object_content pair_lib old_key raw of Some c \<Rightarrow> list_ex (\<lambda>d. d = c) pair_contents | None \<Rightarrow> True)
    | _ \<Rightarrow> True)"

subsection \<open>The run\<close>

lemma pair_start: "fst pair_start = Ok pair_prepared"
  by code_simp

lemma pair_ends:
  "(let s = pair_end; f = create_finish toy_uuid toy_time (DiskManifestRepository pair_lib ''/r'') background pair_prepared s (world s)
     in all_finished s \<and> Option.is_none (firstErr s) \<and> fst f = Ok pair_result \<and> list_all (\<lambda>kv. opens_to (snd kv)) (nodes (snd f)))"
  by code_simp

lemma pair_end_facts:
  "all_finished pair_end" "firstErr pair_end = None" "pair_finish = (Ok pair_result, pair_after)"
  "list_all (\<lambda>kv. opens_to (snd kv)) (nodes pair_after)"
  using pair_ends
  by (simp_all add: Let_def pair_after_def pair_finish_def Option.is_none_def prod_eq_iff split: option.splits)

lemma pair_prepared_run:
  "create_prepare (svc_source pair_create) (svc_folder pair_create) (svc_decrypt pair_create) background ''/r'' ''/s''
     (Some ''/old.pem'') pair_world = (Ok pair_prepared, snd pair_start)"
  using pair_start unfolding pair_start_def by (rule run_eq)

lemma pair_created:
  "Create_Do pair_create background ''/r'' ''/s'' (Some ''/old.pem'') pair_world (Ok pair_result) pair_after"
proof -
  have "(create_step pair_env)\<^sup>*\<^sup>* (create_init 2 4 pair_prepared (snd pair_start)) pair_end"
    unfolding pair_end_def by (rule create_run_steps)
  then have steps: "(create_step (create_env_of (svc_source pair_create) (svc_objects pair_create) background pair_prepared))\<^sup>*\<^sup>*
      (create_init (svc_workers pair_create) (svc_default pair_create) pair_prepared (snd pair_start)) pair_end"
    by (simp add: pair_env_def pair_create_def)
  have finish: "create_finish (svc_uuid pair_create) (svc_stamp pair_create) (svc_manifests pair_create) background
      pair_prepared pair_end (world pair_end) = (Ok pair_result, pair_after)"
    using pair_end_facts(3) by (simp add: pair_finish_def pair_create_def)
  show ?thesis by (rule Create_Do.completed [OF pair_prepared_run steps pair_end_facts(1,2) finish])
qed

subsection \<open>What the theorems assume\<close>

lemma toy_time_plain: "CHR ''/'' \<notin> set (toy_time t)"
  using show_nat_digits [of "nat t"] by (auto simp: toy_time_def digits_def)

lemma toy_uuid_plain: "CHR ''/'' \<notin> set (uuid_String toy_uuid (uuid_V4 toy_uuid b))"
proof -
  have "char_of_byte (65 + x mod 16) \<noteq> CHR ''/''" for x :: byte
  proof
    assume "char_of_byte (65 + x mod 16) = CHR ''/''"
    then have "byte_of (char_of_byte (65 + x mod 16)) = byte_of CHR ''/''" by (rule arg_cong)
    then have "65 + x mod 16 = byte_of CHR ''/''" by (simp only: byte_of_char_of)
    then have "65 + x mod 16 = (47 :: byte)" by (simp add: byte_of_def)
    then have "unat (65 + x mod 16) = unat (47 :: byte)" by (rule arg_cong)
    moreover have "unat (65 + x mod 16) = 65 + unat x mod 16"
    proof -
      have "unat (x mod 16) = unat x mod 16" by (simp add: unat_mod)
      then show ?thesis by (subst unat_add_lem [THEN iffD1]) simp_all
    qed
    ultimately show False by simp
  qed
  from this [symmetric] show ?thesis by (auto simp: toy_uuid_def toy_String_def toy_V4_def)
qed

lemma keep_key_apart: "steady w (keep_key k w)" "lookup (keep_key k w) q = lookup w q"
  by (cases w, simp add: keep_key_def steady_def lookup_def)+

lemma pair_on_disk: "create_on_disk pair_lib ''/r'' pair_create"
  by (simp add: create_on_disk_def pair_create_def pair_dsk_def pair_lib_def cache_apart_def keep_key_apart
      toy_time_plain toy_uuid_plain del: toy_uuid_def)

lemma pair_fields:
  "compression (prep_config pair_prepared) = Some no_compression" "prep_key pair_prepared = old_key"
  "prep_generation pair_prepared = 1" "prep_calculator pair_prepared = TwoFormatVersion"
  "result_id pair_result = ''47-BCDEFGHI''"
  by (simp_all add: pair_prepared_def pair_config_def fresh_config_def pair_result_def)

lemma pair_lawful: "disk_lawful pair_lib ''/r'' (Some no_compression) old_key (\<lambda>b. b)"
proof -
  have "is_rooted ''/r''" by code_simp
  with compresses_none toy_sha256_sized toy_gcm_correct show ?thesis by (simp add: disk_lawful_def pair_lib_def)
qed

lemma pair_lookup: "lookup pair_world q = (if q = [] then Some Dir else map_of pair_nodes q)"
  by (simp add: lookup_def pair_world_def os_world.extend_def toy_world_def)

lemma pair_below:
  "file_below pair_world (comps ''/s'') q b \<longleftrightarrow> q = [''s'', ''a''] \<and> b = [1, 2, 3] \<or> q = [''s'', ''b''] \<and> b = [4, 5]"
proof -
  have "comps ''/s'' = [''s'']" by code_simp
  then show ?thesis by (auto simp: file_below_def pair_lookup pair_nodes_def fresh_nodes_def)
qed

lemma pair_apart: "source_apart ''/r'' pair_world ''/s''"
proof -
  have "comps ''/r'' = [''r'']" by code_simp
  then show ?thesis unfolding source_apart_def pair_below by (auto simp: ChunkSize_def)
qed

lemma pair_intact: "store_intact pair_lib ''/r'' old_key 1 pair_world"
proof -
  have "comps ''/r'' = [''r'']" by code_simp
  then have "lookup pair_world (object_at ''/r'' old_key 1 h) = None" for h
    by (simp add: object_at_def folders_def ObjectsFolder_def pair_lookup pair_nodes_def fresh_nodes_def)
  then show ?thesis by (simp add: store_intact_def object_present_def)
qed

lemma pair_case:
  "disk_lawful pair_lib ''/r'' (compression (prep_config pair_prepared)) (prep_key pair_prepared) (\<lambda>b. b)"
  "prep_calculator pair_prepared = OneFormatVersion \<longrightarrow> prep_key pair_prepared = []"
  "is_rooted ''/s''" "tidy pair_world"
  "store_intact pair_lib ''/r'' (prep_key pair_prepared) (prep_generation pair_prepared) pair_world"
  "\<forall>t \<le> clock pair_after. \<not> background t"
proof -
  show "is_rooted ''/s''" and "tidy pair_world" by code_simp+
qed (simp_all add: pair_fields pair_lawful pair_intact background_def)

lemmas pair_hypotheses = pair_created pair_prepared_run pair_on_disk pair_case(1-4) pair_apart pair_case(5,6)

subsection \<open>The manifest\<close>

text \<open>What is written out determines the entries, and these share no object.\<close>

lemma pair_entries:
  assumes "manifest_saved pair_lib root i cmp m w"
  shows "man_files m = [fresh_file, second_file]"
proof -
  from assms obtain co data where "manifest_Marshal pair_manifests (manifest_model m co) = Ok data"
    by (auto simp: manifest_saved_def pair_lib_def table_text_def)
  then obtain k where "number_in pair_manifests (manifest_key (manifest_model m co)) 0 = Some k"
    by (auto simp: manifest_Marshal_def split: option.splits)
  from number_in_nth [OF this] have "manifest_key (manifest_model m co) = manifest_key (manifest_model pair_manifest no_compression)"
    by (auto simp: pair_manifests_def)
  then have "mm_Files (manifest_model m co) = mm_Files (manifest_model pair_manifest no_compression)"
    by (cases m) (simp add: manifest_key_def manifest_model_def pair_manifest_def NewManifest_def)
  then have "map file_domain (map file_model (man_files m)) = map file_domain (map file_model [fresh_file, second_file])"
    by (simp add: manifest_model_def pair_manifest_def NewManifest_def)
  then show ?thesis by (simp add: comp_def)
qed

lemma pair_saves_apart:
  assumes "manifest_saved pair_lib root i cmp m w"
  shows "saves_apart (svc_workers pair_create) (svc_default pair_create) (man_files m)"
proof -
  have "objects_apart [fresh_file, second_file]" by code_simp
  with pair_entries [OF assms] show ?thesis by (simp add: saves_apart_def)
qed

lemma pair_distinct: "distinct (map (content_hash toy_crypto) pair_contents)"
  by code_simp

lemma pair_no_collision:
  "inj_on (content_hash (lib_crypto pair_lib))
     (stored_contents pair_lib (prep_key pair_prepared) pair_after \<union> pieces_below (\<lambda>b. b) pair_world (comps ''/s''))"
proof -
  have "stored_contents pair_lib old_key pair_after \<subseteq> set pair_contents"
  proof
    fix c assume "c \<in> stored_contents pair_lib old_key pair_after"
    then obtain q raw where "map_of (nodes pair_after) q = Some (File raw)" "object_content pair_lib old_key raw = Some c"
      by (auto simp: stored_contents_def lookup_def split: if_splits)
    with pair_end_facts(4) map_of_SomeD [of "nodes pair_after" q "File raw"] show "c \<in> set pair_contents"
      by (auto simp: list_all_iff opens_to_def list_ex_iff)
  qed
  moreover have "take n (drop k [1, 2, 3]) \<in> set pair_contents" for n k
  proof -
    have "k = 0 \<or> k = 1 \<or> k = 2 \<or> 3 \<le> k" "n = 0 \<or> n = 1 \<or> n = 2 \<or> 3 \<le> n" by linarith+
    then show ?thesis by (auto simp: pair_contents_def)
  qed
  moreover have "take n (drop k [4, 5]) \<in> set pair_contents" for n k
  proof -
    have "k = 0 \<or> k = 1 \<or> 2 \<le> k" "n = 0 \<or> n = 1 \<or> 2 \<le> n" by linarith+
    then show ?thesis by (auto simp: pair_contents_def)
  qed
  ultimately have "stored_contents pair_lib old_key pair_after \<union> pieces_below (\<lambda>b. b) pair_world (comps ''/s'') \<subseteq> set pair_contents"
    unfolding pieces_below_def pair_below by auto
  moreover have "inj_on (content_hash toy_crypto) (set pair_contents)"
    using pair_distinct by (simp add: distinct_map)
  ultimately show ?thesis unfolding pair_fields(2) by (auto simp: pair_lib_def intro: inj_on_subset)
qed

end
