(* ===== verification/Create_Properties.thy ===== *)
theory Create_Properties
  imports Disk_Properties Create_Sample Create_Pair
begin

section \<open>What the creation of a snapshot guarantees\<close>

subsection \<open>The snapshot is complete\<close>

text \<open>
  C1: when the command returns a result, the manifest with its identifier is on disk; and if the command
  had one worker, or no two entries of the manifest share an object, the manifest has an entry for every
  regular file below the source directory, and every entry's objects are in the store, intact, and are
  the compressed pieces of that file's bytes, whatever the workers' schedule, and whatever input and
  output errors occurred. Assumed: a repository on disk without damaged objects, encrypted with a key only
  in the second format; a source directory outside it that nobody changes meanwhile; codecs and a hash as
  documented; and a context that is not done before the end.
\<close>

theorem Create_correct:
  assumes "Create_Do sv ctx root src pk w (Ok r) w'"
    and "create_prepare (svc_source sv) (svc_folder sv) (svc_decrypt sv) ctx root src pk w = (Ok p, w1)"
    and "create_on_disk lib root sv"
    and "disk_lawful lib root (compression (prep_config p)) (prep_key p) enc"
    and "prep_calculator p = OneFormatVersion \<longrightarrow> prep_key p = []"
    and "is_rooted src" and "tidy w" and "source_apart root w src"
    and "store_intact lib root (prep_key p) (prep_generation p) w"
    and "\<forall>t \<le> clock w'. \<not> ctx t"
  shows "\<exists>m. manifest_saved lib root (result_id r) (compression (prep_config p)) m w' \<and>
    (saves_apart (svc_workers sv) (svc_default sv) (man_files m) \<longrightarrow>
       snapshot_of lib root (prep_key p) (prep_generation p) enc w src w' m)"
  using created_on_disk [OF assms] by blast

theorem Create_correct_witness:
  "\<exists>m. manifest_saved pair_lib ''/r'' ''47-BCDEFGHI'' (Some no_compression) m pair_after \<and>
    snapshot_of pair_lib ''/r'' old_key 1 (\<lambda>b. b) pair_world ''/s'' pair_after m"
  using Create_correct [OF pair_hypotheses] pair_saves_apart unfolding pair_fields by blast

text \<open>
  C16: the command adds no damaged object to a store without one, if it has one worker or no two entries
  of its manifest share an object: every object that can be found afterwards holds content of its hash.
  The assumptions are those of the snapshot's completeness.
\<close>

theorem Create_keeps_intact:
  assumes "Create_Do sv ctx root src pk w (Ok r) w'"
    and "create_prepare (svc_source sv) (svc_folder sv) (svc_decrypt sv) ctx root src pk w = (Ok p, w1)"
    and "create_on_disk lib root sv"
    and "disk_lawful lib root (compression (prep_config p)) (prep_key p) enc"
    and "prep_calculator p = OneFormatVersion \<longrightarrow> prep_key p = []"
    and "is_rooted src" and "tidy w" and "source_apart root w src"
    and "store_intact lib root (prep_key p) (prep_generation p) w"
    and "\<forall>t \<le> clock w'. \<not> ctx t"
  shows "\<exists>m. manifest_saved lib root (result_id r) (compression (prep_config p)) m w' \<and>
    (saves_apart (svc_workers sv) (svc_default sv) (man_files m) \<longrightarrow>
       store_intact lib root (prep_key p) (prep_generation p) w')"
  using created_on_disk [OF assms] by blast

theorem Create_keeps_intact_witness:
  "store_intact pair_lib ''/r'' old_key 1 pair_after"
  using Create_keeps_intact [OF pair_hypotheses] pair_saves_apart unfolding pair_fields by blast

text \<open>
  C2: the round trip of a backup. If the command had one worker, or no two entries of its manifest share
  an object, then what is restored from an entry of the manifest, in the state the command has left, to
  whatever destination outside the objects, is the file as it was when the snapshot was made, byte by
  byte, for every compression and with or without a key; and every file below the source has an entry.
  Assumed, beside what the snapshot's completeness needs: decoders that undo their encoders, and no two
  contents among the stored files and the pieces of the source with the same hash.
\<close>

theorem Create_restores:
  assumes "Create_Do sv ctx root src pk w (Ok r) w'"
    and "create_prepare (svc_source sv) (svc_folder sv) (svc_decrypt sv) ctx root src pk w = (Ok p, w1)"
    and "create_on_disk lib root sv"
    and "disk_lawful lib root (compression (prep_config p)) (prep_key p) enc"
    and "prep_calculator p = OneFormatVersion \<longrightarrow> prep_key p = []"
    and "is_rooted src" and "tidy w" and "source_apart root w src"
    and "store_intact lib root (prep_key p) (prep_generation p) w"
    and "\<forall>t \<le> clock w'. \<not> ctx t"
    and "codecs_correct (lib_codecs lib)"
    and "inj_on (content_hash (lib_crypto lib))
      (stored_contents lib (prep_key p) w' \<union> pieces_below enc w (comps src))"
  shows "\<exists>m. manifest_saved lib root (result_id r) (compression (prep_config p)) m w' \<and>
    (saves_apart (svc_workers sv) (svc_default sv) (man_files m) \<longrightarrow>
    (\<forall>q b. file_below w (comps src) q b \<longrightarrow> (\<exists>f \<in> set (man_files m). comps (file_path f) = q)) \<and>
    (\<forall>f \<in> set (man_files m). \<exists>b. file_below w (comps src) (comps (file_path f)) b \<and>
       (\<forall>q ctx2 w2. disk_RestoreObject lib root ctx2 (man_compression m) (f\<lparr>file_path := q\<rparr>) (prep_key p)
            (prep_generation p) w' = (Ok (), w2) \<longrightarrow>
          (\<forall>h. object_at root (prep_key p) (prep_generation p) h \<noteq> resolve w' q) \<longrightarrow>
          lookup w2 (resolve w' q) = Some (File b))))"
proof -
  from created_on_disk [OF assms(1-10)] obtain m where
    m: "manifest_saved lib root (result_id r) (compression (prep_config p)) m w'"
      "saves_apart (svc_workers sv) (svc_default sv) (man_files m) \<Longrightarrow>
        snapshot_of lib root (prep_key p) (prep_generation p) enc w src w' m" by blast
  from m(1) obtain co where co: "man_compression m = Some co" "compression (prep_config p) = Some co"
    by (auto simp: manifest_saved_def)
  note l = assms(4) [unfolded co(2)]
  have "lookup w2 (resolve w' q) = Some (File b)"
    if "file_below w (comps src) (comps (file_path f)) b"
      "saves_file lib root (prep_key p) (prep_generation p) enc w' b f"
      "disk_RestoreObject lib root ctx2 (man_compression m) (f\<lparr>file_path := q\<rparr>) (prep_key p) (prep_generation p) w'
        = (Ok (), w2)"
      "\<forall>h. object_at root (prep_key p) (prep_generation p) h \<noteq> resolve w' q" for f b q ctx2 w2
    by (rule saved_file_restores [OF that(2) l assms(11,12) _ _ that(3) [unfolded co(1)] that(4)])
      (use that(1) in \<open>auto simp: pieces_below_def\<close>)
  with m show ?thesis unfolding snapshot_of_def by (intro exI [of _ m] conjI impI) blast+
qed

theorem Create_restores_witness:
  "\<exists>m. manifest_saved pair_lib ''/r'' ''47-BCDEFGHI'' (Some no_compression) m pair_after \<and>
    (\<forall>f \<in> set (man_files m). \<exists>b. file_below pair_world (comps ''/s'') (comps (file_path f)) b \<and>
       (\<forall>q ctx2 w2. disk_RestoreObject pair_lib ''/r'' ctx2 (man_compression m) (f\<lparr>file_path := q\<rparr>) old_key 1 pair_after = (Ok (), w2) \<longrightarrow>
          (\<forall>h. object_at ''/r'' old_key 1 h \<noteq> resolve pair_after q) \<longrightarrow> lookup w2 (resolve pair_after q) = Some (File b)))"
proof -
  have c: "codecs_correct (lib_codecs pair_lib)" using toy_codecs_correct by (simp add: pair_lib_def)
  from Create_restores [OF pair_hypotheses c pair_no_collision] pair_saves_apart show ?thesis
    unfolding pair_fields by meson
qed

subsection \<open>Every run ends\<close>

text \<open>
  C23: a snapshot's workers always come to an end: there is no infinite schedule, and a state in which
  no step is possible is one in which all workers have finished, or a call of a repository has panicked.
\<close>

theorem Create_terminates:
  assumes "(create_step e)\<^sup>*\<^sup>* (create_init configured dflt p w) s"
  shows "\<not> (\<exists>run. run 0 = s \<and> (\<forall>n. create_step e (run n) (run (Suc n)))) \<and>
    ((\<nexists>s'. create_step e s s') \<longrightarrow>
       all_finished s \<or> (\<exists>p \<in> set (workers s). call_panics e (halting_ctx e s) s p))"
proof
  have "wfP (create_step e)\<inverse>\<inverse>" by (rule create_step_wf)
  then have "\<nexists>run. \<forall>n. create_step e (run n) (run (Suc n))"
    by (simp add: wfp_def wf_iff_no_infinite_down_chain)
  then show "\<not> (\<exists>run. run 0 = s \<and> (\<forall>n. create_step e (run n) (run (Suc n))))" by blast
  have "create_live s" by (rule create_live_steps [OF assms create_live_init])
  then show "(\<nexists>s'. create_step e s s') \<longrightarrow>
       all_finished s \<or> (\<exists>p \<in> set (workers s). call_panics e (halting_ctx e s) s p)"
    using create_next_step create_next_None by blast
qed

theorem Create_terminates_witness:
  "\<not> (\<exists>run. run 0 = sample_end no_fault \<and> (\<forall>n. create_step sample_env (run n) (run (Suc n))))"
  using Create_terminates [OF create_run_steps [of sample_env "create_init 1 4 sample_prepared (snd (sample_start no_fault))" 20]]
  by (simp add: sample_end_def)

text \<open>
  C17: at every moment, whatever has failed, a file is in the hands of one worker at most, only indexes
  that were sent are worked on, and no more files are counted than there are.
\<close>

theorem Create_exclusive:
  assumes "(create_step e)\<^sup>*\<^sup>* (create_init configured dflt p w) s"
  shows "(\<forall>j k i. holds_file s j i \<longrightarrow> holds_file s k i \<longrightarrow> j = k) \<and>
    (\<forall>k i. holds_file s k i \<longrightarrow> i < next_index s) \<and> next_index s \<le> length (files s) \<and>
    saved_files s \<le> length (files s)"
proof -
  have "exclusive s" by (rule exclusive_steps [OF assms exclusive_init])
  with exclusive_count [OF this] show ?thesis unfolding exclusive_def by blast
qed

theorem Create_exclusive_witness:
  "saved_files (sample_end no_fault) \<le> length (files (sample_end no_fault))"
  using Create_exclusive [OF create_run_steps [of sample_env "create_init 1 4 sample_prepared (snd (sample_start no_fault))" 20]]
  by (simp add: sample_end_def)

subsection \<open>Empty files\<close>

text \<open>
  C38: in the second format an empty file is one chunk of no bytes, and the repository on disk refuses to
  save such a chunk: a snapshot of a directory with an empty file fails, unless an object with that hash
  is there already.
\<close>

theorem Create_empty_file:
  fixes e :: "'z create_env"
  assumes "Calculate TwoFormatVersion src c f cmp w = (Ok f', w')" and "file_size f = 0" and "file_chunks f = []"
    and "env_objects e = DiskObjectRepository lib root"
  shows "\<exists>it. items_of f' = [it] \<and> item_size f' it = 0 \<and> (\<forall>c v. fst (create_save e c f' it v) \<noteq> Ok ())"
proof -
  from assms(1-3) obtain h where f': "f' = AddChunks [NewChunk h 0 0] (AddHash h f)"
    by (auto simp: Two_Calculate_def ChunkThreshold_def ok_iffs split: if_splits)
  let ?it = "Part (NewChunk h 0 0)"
  have items: "items_of f' = [?it]"
    using assms(3) by (simp add: f' items_of_def AddChunks_def AddHash_def)
  have "fst (disk_SaveChunk lib root c p h 0 0 cmp' key g v) \<noteq> Ok ()"
    for c p cmp' key g and v :: "'z os_world_scheme"
  proof
    assume "fst (disk_SaveChunk lib root c p h 0 0 cmp' key g v) = Ok ()"
    from run_eq [where m = "disk_SaveChunk lib root c p h 0 0 cmp' key g", OF this]
    obtain s v2 where "OpenSource p h 0 0 cmp' (snd (ctxErr c v)) = (Ok s, v2)" by (auto simp: disk_SaveChunk_def andThen_Ok_iff)
    then show False by (simp add: OpenSource_def fail_def split: if_splits)
  qed
  with assms(4) items show ?thesis
    by (intro exI [of _ ?it]) (simp add: DiskObjectRepository_def NewChunk_def)
qed

definition empty_world :: os_world where
  "empty_world = toy_world [([''s''], Dir), ([''s'', ''e''], File [])] no_fault"

definition empty_saved :: SnapFile where
  "empty_saved = \<lparr>file_path = ''/s/e'', file_size = 0, file_hash = content_hash toy_crypto [],
     file_chunks = [\<lparr>chunk_hash = content_hash toy_crypto [], chunk_offset = 0, chunk_size = 0\<rparr>]\<rparr>"

theorem Create_empty_file_witness:
  "\<exists>it. items_of empty_saved = [it] \<and>
     (\<forall>c v. fst (create_save sample_env c empty_saved it v) \<noteq> Ok ())"
proof -
  let ?f = "NewFile ''/s/e'' 0" and ?src = "DiskSourceRepository fresh_lib :: unit SourceRepository"
  have run: "Calculate TwoFormatVersion ?src background ?f (Some no_compression) empty_world
      = (Ok empty_saved, snd (Calculate TwoFormatVersion ?src background ?f (Some no_compression) empty_world))"
    by (rule run_eq) code_simp
  have "env_objects sample_env = DiskObjectRepository fresh_lib ''/r''"
    by (simp add: sample_env_def create_env_of_def)
  from Create_empty_file [OF run _ _ this] show ?thesis by (auto simp: NewFile_def)
qed

subsection \<open>The count of saved files\<close>

lemma count_step:
  assumes "k < length (workers s)" and "workers s ! k = Checking i [] sz" and "0 < sz"
  shows "create_step e s (s\<lparr>workers := (workers s)[k := Appending i (saved_files s)], total_size := i64 (total_size s + sz)\<rparr>)"
  using create_step.count [OF assms(1,2), of e] assms(3) by (simp add: move_def after_items_def)

lemma append_step:
  assumes "k < length (workers s)" and "workers s ! k = Appending i n"
  shows "create_step e s (s\<lparr>workers := (workers s)[k := Idle], saved_files := Suc n\<rparr>)"
  using create_step.append [OF assms, of e] by (simp add: move_def)

text \<open>
  C37: the list of saved files is extended without a lock. When two workers have saved something at the
  same time, there is a schedule in which one of the two entries is lost: the sizes of both are added,
  the count goes up by one. (Only the count of the result is affected, not the manifest.)
\<close>

theorem Create_count_lost:
  assumes "j < length (workers s)" and "k < length (workers s)" and "j \<noteq> k"
    and "workers s ! j = Checking i [] a" and "workers s ! k = Checking i' [] b" and "0 < a" and "0 < b"
  shows "\<exists>s'. (create_step e)\<^sup>*\<^sup>* s s' \<and> workers s' = (workers s)[j := Idle, k := Idle] \<and>
    saved_files s' = Suc (saved_files s) \<and> total_size s' = i64 (i64 (total_size s + a) + b) \<and> files s' = files s"
proof -
  let ?n = "saved_files s"
  let ?s1 = "s\<lparr>workers := (workers s)[j := Appending i ?n], total_size := i64 (total_size s + a)\<rparr>"
  let ?s2 = "?s1\<lparr>workers := (workers ?s1)[k := Appending i' (saved_files ?s1)], total_size := i64 (total_size ?s1 + b)\<rparr>"
  let ?s3 = "?s2\<lparr>workers := (workers ?s2)[j := Idle], saved_files := Suc ?n\<rparr>"
  let ?s4 = "?s3\<lparr>workers := (workers ?s3)[k := Idle], saved_files := Suc ?n\<rparr>"
  have "create_step e s ?s1" using count_step [OF assms(1,4,6)] .
  moreover have "create_step e ?s1 ?s2" by (rule count_step) (use assms in simp_all)
  moreover have "create_step e ?s2 ?s3" by (rule append_step) (use assms in simp_all)
  moreover have "create_step e ?s3 ?s4" by (rule append_step) (use assms in simp_all)
  ultimately have "(create_step e)\<^sup>*\<^sup>* s ?s4" by (meson converse_rtranclp_into_rtranclp rtranclp.rtrancl_refl)
  moreover have "workers ?s4 = (workers s)[j := Idle, k := Idle]"
    using assms(3) by (simp add: list_update_swap)
  ultimately show ?thesis by (intro exI [of _ ?s4]) simp
qed

definition two_counting :: "unit create_state" where
  "two_counting = \<lparr>world = empty_world, files = [fresh_file, fresh_file], next_index = 2, feeding = False, firstErr = None,
     total_size = 0, saved_files = 0, overlapped = {}, workers = [Checking 0 [] 3, Checking 1 [] 3]\<rparr>"

theorem Create_count_lost_witness:
  "\<exists>s'. (create_step sample_env)\<^sup>*\<^sup>* two_counting s' \<and> workers s' = [Idle, Idle] \<and> saved_files s' = 1 \<and> total_size s' = 6"
proof -
  have six: "i64 (i64 3 + 3) = 6" by code_simp
  have "\<exists>s'. (create_step sample_env)\<^sup>*\<^sup>* two_counting s' \<and> workers s' = (workers two_counting)[0 := Idle, 1 := Idle] \<and>
    saved_files s' = Suc (saved_files two_counting) \<and> total_size s' = i64 (i64 (total_size two_counting + 3) + 3) \<and>
    files s' = files two_counting"
    by (rule Create_count_lost [where i = 0 and i' = 1]) (simp_all add: two_counting_def)
  then show ?thesis using six by (auto simp: two_counting_def)
qed

end
