(* ===== verification/Key_Properties.thy ===== *)
theory Key_Properties
  imports Disk_Properties ReKey_Sample
begin

section \<open>Keys from their making to their use\<close>

text \<open>
  A key pair is made and written to two files; with its public key a repository gets a symmetric key,
  which is kept encrypted in the configuration; later the private key's file gives it back.
\<close>

lemma createKey_Ok:
  assumes "createKey c ctx p t m w = (Ok x, w')"
  shows "\<exists>data. m = Ok data \<and> lookup w' (resolve w p) = Some (File (pem_Encode c t data)) \<and> cwd w' = cwd w \<and>
    (\<forall>q b. q \<noteq> resolve w p \<longrightarrow> lookup w q = Some (File b) \<longrightarrow> lookup w' q = Some (File b))"
proof -
  from assms obtain w1 w2 data where cx: "ctxErr ctx w = (Ok (), w1)"
    and mk: "os_MkdirAll (Dir_of p) w1 = (Ok (), w2)" and m: "m = Ok data"
    and wr: "os_WriteFile p (pem_Encode c t data) w2 = (Ok x, w')"
    by (auto simp: createKey_def keyfile_write_def ok_iffs)
  have w1: "w1 = tick w" using ctxErr_Ok [OF cx] by simp
  have cwd: "cwd w2 = cwd w" using Mkdir_cwd [OF mk] w1 by simp
  then have r: "resolve w2 p = resolve w p" by (rule resolve_cong)
  note f = sets_lookup [OF sets_os_WriteFile [of "cwd w2" p "{resolve w p}"] refl wr]
  have "path_at (cwd w2) p \<in> {resolve w p}" using r resolve_eq [OF refl, of w2 p] by simp
  note f = f [OF this]
  have "lookup w' q = Some (File b)" if "q \<noteq> resolve w p" "lookup w q = Some (File b)" for q b
    using f(2) [of q] Mkdir_keeps_file [OF mk, of q b] w1 that by simp
  with m os_WriteFile_Ok [OF wr] r cwd f(1) show ?thesis by auto
qed

text \<open>What is read from a file that was written before.\<close>

lemma read_after_check:
  assumes "andThen (ctxErr ctx) (\<lambda>_. andThen (orWrap msg (os_ReadFile p)) f) w = (Ok x, w')"
    and "lookup w (resolve w p) = Some (File data)"
  shows "\<exists>w1. f data w1 = (Ok x, w')"
proof -
  from assms(1) obtain w1 b w2 where cx: "ctxErr ctx w = (Ok (), w1)" and rd: "os_ReadFile p w1 = (Ok b, w2)"
    and "f b w2 = (Ok x, w')" by (auto simp: andThen_Ok_iff orWrap_Ok_iff)
  with os_ReadFile_Ok [OF rd] ctxErr_Ok [OF cx] assms(2) show ?thesis by auto
qed

lemma ReadPrivate_Ok:
  assumes "disk_ReadRSAPrivateKey c ctx p w = (Ok k, w')" and "pem_correct c"
    and "lookup w (resolve w p) = Some (File (pem_Encode c pem_PrivateKey der))"
  shows "ParsePKCS8PrivateKey c der = Ok (RSAKey k)"
proof -
  have pem: "pem_Decode c (pem_Encode c pem_PrivateKey der) = Some ((pem_PrivateKey, der), [])"
    using assms(2) by (simp add: pem_correct_def pem_PrivateKey_def)
  from read_after_check [OF assms(1) [unfolded disk_ReadRSAPrivateKey_def] assms(3)] pem obtain w1 w2 key where
    key: "ParsePKCS8PrivateKey c der = Ok key" and k: "(case key of
         OtherKey \<Rightarrow> fail (ErrText ''private key is not RSA'')
       | RSAKey priv \<Rightarrow>
           andThen (orWrap ''validate private key'' (check (rsa_Validate c priv))) (\<lambda>_.
           return priv)) w2 = (Ok k, w')"
    by (auto simp: andThen_Ok_iff orWrap_Ok_iff lift_outcome_Ok_iff fail_Ok_iff split: if_splits)
  then show ?thesis by (cases key) (auto simp: ok_iffs)
qed

lemma ReadPublic_Ok:
  assumes "disk_ReadRSAPublicKey c ctx p w = (Ok k, w')" and "pem_correct c"
    and "lookup w (resolve w p) = Some (File (pem_Encode c pem_PublicKey der))"
  shows "ParsePKIXPublicKey c der = Ok (RSAKey k)"
proof -
  have pem: "pem_Decode c (pem_Encode c pem_PublicKey der) = Some ((pem_PublicKey, der), [])"
    using assms(2) by (simp add: pem_correct_def pem_PublicKey_def)
  from read_after_check [OF assms(1) [unfolded disk_ReadRSAPublicKey_def] assms(3)] pem
  have "parse_public c pem_PublicKey der = Ok k" by (auto simp: ok_iffs split: if_splits)
  then show ?thesis by (auto simp: parse_public_def split: outcome.splits parsed_key.splits)
qed

lemma CreatePair_Ok:
  assumes "CreateAsymmetricKeyPair_Create c (DiskKeyPairRepository c) ctx kp w = (Ok x, w')"
    and "resolve w (privateKey kp) \<noteq> resolve w (publicKey kp)"
  shows "\<exists>seed priv a b. rsa_Generate c seed rsaKeySize = Ok priv \<and> rsa_Validate c priv = None \<and>
    MarshalPKCS8PrivateKey c priv = Ok a \<and> MarshalPKIXPublicKey c (rsa_PublicKey priv) = Ok b \<and>
    lookup w' (resolve w' (privateKey kp)) = Some (File (pem_Encode c pem_PrivateKey a)) \<and>
    lookup w' (resolve w' (publicKey kp)) = Some (File (pem_Encode c pem_PublicKey b))"
proof -
  from assms(1) obtain priv w1 w2 where gen: "rsa_GenerateKey c rsaKeySize w = (Ok priv, w1)"
    and valid: "rsa_Validate c priv = None" and pr: "disk_CreatePrivateKey c ctx (privateKey kp) priv w1 = (Ok (), w2)"
    and pu: "disk_CreatePublicKey c ctx (publicKey kp) (rsa_PublicKey priv) w2 = (Ok x, w')"
    by (auto simp: CreateAsymmetricKeyPair_Create_def DiskKeyPairRepository_def ok_iffs check_def split: option.splits)
  from gen have g: "\<exists>seed. rsa_Generate c seed rsaKeySize = Ok priv" "cwd w1 = cwd w"
    by (auto simp: rsa_GenerateKey_def sys_Ok_iff)
  note A = createKey_Ok [OF pr [unfolded disk_CreatePrivateKey_def]]
    and B = createKey_Ok [OF pu [unfolded disk_CreatePublicKey_def]]
  have r: "resolve w2 q = resolve w q" "resolve w1 q = resolve w q" "resolve w' q = resolve w q" for q
    using A B g(2) by (auto intro!: resolve_cong)
  from A B g valid assms(2) show ?thesis unfolding r by metis
qed

lemma NewSymmetric_Ok:
  assumes "CreateEncryptionConfig_Create (DiskKeyPairRepository c) (SymmetricRepository c) ctx q w = (Ok enc, w')"
  shows "\<exists>pub key ek seed w1 w2. disk_ReadRSAPublicKey c ctx q w = (Ok pub, w1) \<and>
    SymmetricRepository_Generate ctx w1 = (Ok key, w2) \<and> EncryptOAEP c seed pub key = Ok ek \<and>
    encryptedKey enc = base64_EncodeToString ek \<and> Encryption.generation enc = 1 \<and>
    (\<forall>q. lookup w' q = lookup w q) \<and> cwd w' = cwd w"
proof -
  from assms obtain pub key ek fp w1 w2 w3 where
    pub: "disk_ReadRSAPublicKey c ctx q w = (Ok pub, w1)" and key: "SymmetricRepository_Generate ctx w1 = (Ok key, w2)"
    and ek: "SymmetricRepository_Encrypt c ctx pub key w2 = (Ok ek, w3)"
    and fp: "disk_PublicKeyFingerPrint c ctx pub w3 = (Ok fp, w')"
    and enc: "enc = NewEncryptionConfig (base64_EncodeToString ek) fp 1"
    by (auto simp: CreateEncryptionConfig_Create_def DiskKeyPairRepository_def SymmetricRepository_def ok_iffs)
  from ek have "\<exists>seed. EncryptOAEP c seed pub key = Ok ek"
    by (auto simp: SymmetricRepository_Encrypt_def ok_iffs sys_Ok_iff)
  moreover have "(\<forall>q. lookup w' q = lookup w q) \<and> cwd w' = cwd w"
    using lookups_of_read [OF sets_key_reads(3) pub] lookups_of_read [OF sets_services(5) key]
      lookups_of_read [OF sets_services(4) ek] lookups_of_read [OF sets_services(6) fp] by simp
  ultimately show ?thesis using pub key enc by (auto simp: NewEncryptionConfig_def)
qed

lemma Decode_encoded:
  assumes "DecryptOAEP c priv ek = Ok key" and "length key = 32" and "\<not> ctx (clock w)"
  shows "SymmetricRepository_Decode c ctx priv (base64_EncodeToString ek) w = (Ok key, tick w)"
  using ctxErr_run [of ctx w] assms
  by (simp add: SymmetricRepository_Decode_def AES256KeySize_def andThen_def orWrap_def tryCatch_def go_simps)

text \<open>
  C18: the key of a new encrypted repository comes back. For a key pair that the program has generated
  and written to two different files: the encryption configuration made right after it with the public
  key's file is made by reading that file and then drawing 32 random bytes, and exactly these bytes come
  back from the configuration's encrypted key through the private key's file, in any context that is not
  done at that time; the first generation is 1. It is assumed that PEM and the encodings of generated
  keys can be read back, and that decryption undoes encryption for valid private keys.
\<close>

theorem repository_key_roundtrip:
  fixes w :: "'z os_world_scheme"
  assumes "CreateAsymmetricKeyPair_Create c (DiskKeyPairRepository c) ctx kp w = (Ok x, w1)"
    and "resolve w (privateKey kp) \<noteq> resolve w (publicKey kp)"
    and "CreateEncryptionConfig_Create (DiskKeyPairRepository c) (SymmetricRepository c) ctx1 (publicKey kp) w1 = (Ok enc, w2)"
    and "disk_ReadRSAPrivateKey c ctx2 (privateKey kp) w2 = (Ok priv, w3)" and "\<not> ctx3 (clock w3)"
    and "pem_correct c" and "pkcs8_correct c" and "pkix_correct c" and "oaep_correct c"
  shows "\<exists>pub v key v'. disk_ReadRSAPublicKey c ctx1 (publicKey kp) w1 = (Ok pub, v) \<and>
    SymmetricRepository_Generate ctx1 v = (Ok key, v') \<and> length key = 32 \<and> Encryption.generation enc = 1 \<and>
    SymmetricRepository_Decode c ctx3 priv (encryptedKey enc) w3 = (Ok key, tick w3)"
proof -
  from CreatePair_Ok [OF assms(1,2)] obtain seed pr a b where
    gen: "rsa_Generate c seed rsaKeySize = Ok pr" and valid: "rsa_Validate c pr = None" and m: "MarshalPKCS8PrivateKey c pr = Ok a"
      "MarshalPKIXPublicKey c (rsa_PublicKey pr) = Ok b"
    and f: "lookup w1 (resolve w1 (privateKey kp)) = Some (File (pem_Encode c pem_PrivateKey a))"
      "lookup w1 (resolve w1 (publicKey kp)) = Some (File (pem_Encode c pem_PublicKey b))" by blast
  from NewSymmetric_Ok [OF assms(3)] obtain pub key ek seed' v v1 v2 where
    pub: "disk_ReadRSAPublicKey c ctx1 (publicKey kp) w1 = (Ok pub, v)"
    and key: "SymmetricRepository_Generate ctx1 v = (Ok key, v1)" and ek: "EncryptOAEP c seed' pub key = Ok ek"
    and enc: "encryptedKey enc = base64_EncodeToString ek" "Encryption.generation enc = 1"
    and same: "\<forall>q. lookup w2 q = lookup w1 q" "cwd w2 = cwd w1" by blast
  have "pub = rsa_PublicKey pr"
    using ReadPublic_Ok [OF pub assms(6) f(2)] gen m(2) assms(8) unfolding pkix_correct_def by fastforce
  moreover have "priv = pr"
    using ReadPrivate_Ok [OF assms(4,6), of a] f(1) same resolve_cong [OF same(2)] gen m(1) assms(7)
    unfolding pkcs8_correct_def by fastforce
  ultimately have "DecryptOAEP c priv ek = Ok key" using oaep_decrypts [OF assms(9)] valid ek by blast
  moreover have "length key = 32"
    using key by (auto simp: SymmetricRepository_Generate_def ok_iffs AES256KeySize_def dest!: random_bytes_Ok)
  ultimately have "SymmetricRepository_Decode c ctx3 priv (encryptedKey enc) w3 = (Ok key, tick w3)"
    using Decode_encoded [where ctx = ctx3 and w = w3] assms(5) enc(1) by simp
  with pub key enc(2) \<open>length key = 32\<close> show ?thesis by blast
qed

text \<open>Keys whose encodings can be read back, with a modulus of 2048 bits, too large to be evaluated.\<close>

definition key_modulus :: nat where "key_modulus = 2 ^ 2047"

declare key_modulus_def [code del]

lemma BitLen_key: "BitLen key_modulus = 2048"
  using BitLen_pow [of 2047] by (simp add: key_modulus_def)

definition key_private :: "nat \<Rightarrow> rsa_PrivateKey" where
  "key_private e = \<lparr>rsa_PublicKey = \<lparr>rsa_N = key_modulus, rsa_E = e\<rparr>, rsa_D = e, rsa_Primes = []\<rparr>"

definition key_Generate :: "nat \<Rightarrow> nat \<Rightarrow> rsa_PrivateKey outcome" where
  "key_Generate seed bits = Ok (key_private 2)"

definition key_ParsePKCS8 :: "bytes \<Rightarrow> rsa_PrivateKey parsed_key outcome" where
  "key_ParsePKCS8 b = Ok (RSAKey (key_private (length b)))"

definition key_ParsePKIX :: "bytes \<Rightarrow> rsa_PublicKey parsed_key outcome" where
  "key_ParsePKIX b = Ok (RSAKey (rsa_PublicKey (key_private (length b))))"

definition key_crypto :: crypto where
  "key_crypto = toy_crypto\<lparr>rsa_Generate := key_Generate, ParsePKCS8PrivateKey := key_ParsePKCS8,
     ParsePKIXPublicKey := key_ParsePKIX\<rparr>"

lemma key_crypto_correct: "pem_correct key_crypto" "pkcs8_correct key_crypto" "pkix_correct key_crypto"
    "oaep_correct key_crypto"
proof -
  show "pem_correct key_crypto"
    by (auto simp: pem_correct_def key_crypto_def toy_crypto_def toy_pem_Encode_def toy_pem_Decode_def)
  show "pkcs8_correct key_crypto" "pkix_correct key_crypto"
    by (auto simp: pkcs8_correct_def pkix_correct_def key_crypto_def toy_crypto_def key_Generate_def toy_Marshal_def
        key_ParsePKCS8_def key_ParsePKIX_def key_private_def)
  show "oaep_correct key_crypto"
    using toy_oaep_correct by (simp add: oaep_correct_def key_crypto_def)
qed

definition key_world :: os_world where "key_world = toy_world [([''k''], Dir)] no_fault"

definition key_files :: AsymmetricKeyPair where
  "key_files = \<lparr>publicKey = ''/k/public.pem'', privateKey = ''/k/private.pem''\<rparr>"

definition key_pair_run :: "unit outcome \<times> os_world" where
  "key_pair_run = CreateAsymmetricKeyPair_Create key_crypto (DiskKeyPairRepository key_crypto) background key_files key_world"

text \<open>The public key is read by hand, the rest is evaluated.\<close>

definition key_public :: rsa_PublicKey where "key_public = rsa_PublicKey (key_private 2)"

definition after_public :: os_world where "after_public = tick (tick (snd key_pair_run))"

definition new_encryption_run :: "EncryptionConfig outcome \<times> os_world" where
  "new_encryption_run =
     andThen (SymmetricRepository_Generate background) (\<lambda>key.
     andThen (orWrap ''encrypt symmetric key'' (SymmetricRepository_Encrypt key_crypto background key_public key)) (\<lambda>ek.
     andThen (disk_PublicKeyFingerPrint key_crypto background key_public) (\<lambda>fp.
     return (NewEncryptionConfig (base64_EncodeToString ek) fp 1)))) after_public"

definition read_private_run :: "rsa_PrivateKey outcome \<times> os_world" where
  "read_private_run = disk_ReadRSAPrivateKey key_crypto background ''/k/private.pem'' (snd new_encryption_run)"

lemma key_runs: "succeeded (fst key_pair_run)" "succeeded (fst new_encryption_run)" "succeeded (fst read_private_run)"
  by code_simp+

lemma key_paths: "resolve key_world (privateKey key_files) \<noteq> resolve key_world (publicKey key_files)"
  by code_simp

lemma key_public_file:
  "lookup (snd key_pair_run) (resolve (snd key_pair_run) ''/k/public.pem'') = Some (File [10, 1, 1])"
  "faults (snd key_pair_run) (Suc (clock (snd key_pair_run))) = None"
  by code_simp+

lemma read_key_public:
  "disk_ReadRSAPublicKey key_crypto background ''/k/public.pem'' (snd key_pair_run) = (Ok key_public, after_public)"
proof -
  have "os_ReadFile ''/k/public.pem'' (tick (snd key_pair_run)) = (Ok [10, 1, 1], after_public)"
    using key_public_file by (simp add: os_ReadFile_def syscall_def sys_def after_public_def)
  then show ?thesis
    by (simp add: disk_ReadRSAPublicKey_def andThen_def tryCatch_def orWrap_def go_simps ctxErr_def background_def
        key_crypto_def toy_crypto_def toy_pem_Decode_def parse_public_def pem_PublicKey_def key_ParsePKIX_def
        key_public_def key_private_def BitLen_key MinimumRSAKeySizeInBit_def numeral_2_eq_2)
qed

lemma new_encryption:
  "CreateEncryptionConfig_Create (DiskKeyPairRepository key_crypto) (SymmetricRepository key_crypto) background
     (publicKey key_files) (snd key_pair_run) = new_encryption_run"
  using read_key_public
  by (simp add: CreateEncryptionConfig_Create_def new_encryption_run_def DiskKeyPairRepository_def
      SymmetricRepository_def key_files_def andThen_def tryCatch_def)

theorem repository_key_roundtrip_witness:
  "\<exists>enc priv key. fst new_encryption_run = Ok enc \<and> fst read_private_run = Ok priv \<and> length key = 32 \<and>
    fst (SymmetricRepository_Decode key_crypto background priv (encryptedKey enc) (snd read_private_run)) = Ok key"
proof -
  from key_runs [THEN succeeded] obtain enc priv where
    a: "key_pair_run = (Ok (), snd key_pair_run)" and b: "new_encryption_run = (Ok enc, snd new_encryption_run)"
    and c: "read_private_run = (Ok priv, snd read_private_run)" by auto
  have p: "privateKey key_files = ''/k/private.pem''" by (simp add: key_files_def)
  note b' = trans [OF new_encryption b]
  have bg: "\<not> background (clock (snd read_private_run))" by (simp add: background_def)
  have a': "CreateAsymmetricKeyPair_Create key_crypto (DiskKeyPairRepository key_crypto) background key_files key_world
      = (Ok (), snd key_pair_run)" using a by (simp only: key_pair_run_def [symmetric])
  have c': "disk_ReadRSAPrivateKey key_crypto background (privateKey key_files) (snd new_encryption_run)
      = (Ok priv, snd read_private_run)" using c by (simp only: read_private_run_def [symmetric] p)
  from repository_key_roundtrip [where ?ctx3.0 = background, OF a' key_paths b' c' bg key_crypto_correct] obtain key where
    "length key = 32" "SymmetricRepository_Decode key_crypto background priv (encryptedKey enc) (snd read_private_run)
      = (Ok key, tick (snd read_private_run))" by blast
  moreover have "fst new_encryption_run = Ok enc" "fst read_private_run = Ok priv"
    by (subst b, simp, subst c, simp)
  ultimately show ?thesis by (intro exI [of _ enc] exI [of _ priv] exI [of _ key]) simp
qed

end
