(* ===== verification/Store_Properties.thy ===== *)
theory Store_Properties
  imports Key_Properties ReKey_Properties Create_Sample
begin

section \<open>Documents, chunks and paths\<close>

subsection \<open>Documents come back\<close>

text \<open>
  C25: a configuration that was written is the one that is read, whatever happens in between as long as
  its file stays: only the time of creation, which the file says but reading does not use, is another.
  Without an input/output error and with a running context the reading succeeds.
\<close>

theorem config_roundtrip:
  fixes w2 :: "'z os_world_scheme"
  assumes "disk_CreateConfig lib ctx p c w = (Ok x, w1)" and "lookup w2 (config_at p) = lookup w1 (config_at p)"
    and "storable lib c" and "is_rooted p" and "json_correct (lib_text lib)" and "uuid_correct (lib_uuid lib)"
  shows "(\<forall>c' w3. disk_GetConfig lib ctx2 p w2 = (Ok c', w3) \<longrightarrow> c'\<lparr>createdAt := createdAt c\<rparr> = c) \<and>
    (calm w2 \<and> \<not> ctx2 (clock w2) \<longrightarrow> (\<exists>c' w3. disk_GetConfig lib ctx2 p w2 = (Ok c', w3)))"
proof -
  have "config_holds lib w2 p c"
    using CreateConfig_holds [OF assms(5,4,3,1)] assms(2) by (simp add: config_holds_def)
  with GetConfig_unique [OF assms(6,4), of w2 c ctx2] GetConfig_holds [OF assms(6,4), of w2 c ctx2]
  show ?thesis by fastforce
qed

definition config_created :: "unit outcome \<times> os_world" where
  "config_created = disk_CreateConfig fresh_lib background ''/r'' fresh_config (fresh_world no_fault)"

lemma fresh_storable: "storable fresh_lib fresh_config"
proof -
  have "length (conf_id fresh_config) = 16" "standard_encryption (encryption fresh_config)"
    "valid_compression no_compression" "config_text_valid (config_model fresh_lib fresh_config no_compression)" by code_simp+
  moreover have "compression fresh_config = Some no_compression" by (simp add: fresh_config_def)
  ultimately show ?thesis by (simp add: storable_def)
qed

lemma fresh_text: "json_correct (lib_text fresh_lib)" "uuid_correct (lib_uuid fresh_lib)"
  by (simp_all add: fresh_lib_def fresh_configs_def fresh_manifests_def table_text_correct toy_uuid_correct)

lemma toy_calm:
  assumes "sets ''/'' S m"
  shows "calm (snd (m (toy_world ns no_fault)))"
proof (rule calm_steady)
  show "calm (toy_world ns no_fault)" by (simp add: calm_def toy_world_def no_fault_def)
  show "steady (toy_world ns no_fault) (snd (m (toy_world ns no_fault)))"
    by (rule setsD(1) [OF assms]) (simp add: toy_world_def)
qed

theorem config_roundtrip_witness:
  "\<exists>c' w3. disk_GetConfig fresh_lib background ''/r'' (snd config_created) = (Ok c', w3) \<and> formatVersion c' = 2"
proof -
  have "succeeded (fst config_created)" and r: "is_rooted ''/r''" by code_simp+
  then have run: "disk_CreateConfig fresh_lib background ''/r'' fresh_config (fresh_world no_fault) = (Ok (), snd config_created)"
    using succeeded [of config_created] by (simp add: config_created_def)
  have "calm (snd config_created)"
    unfolding config_created_def fresh_world_def by (rule toy_calm [OF sets_disk_CreateConfig [OF r]])
  then obtain c' w3 where get: "disk_GetConfig fresh_lib background ''/r'' (snd config_created) = (Ok c', w3)"
    and c': "c'\<lparr>createdAt := createdAt fresh_config\<rparr> = fresh_config"
    using config_roundtrip [OF run refl fresh_storable r fresh_text, of background]
    by (auto simp: background_def)
  from c' have "formatVersion (c'\<lparr>createdAt := createdAt fresh_config\<rparr>) = formatVersion fresh_config" by (rule arg_cong)
  with get show ?thesis by (auto simp: fresh_config_def)
qed




subsection \<open>What is built from a document is well formed\<close>

definition well_compressed :: "Compression option \<Rightarrow> bool" where
  "well_compressed cmp \<longleftrightarrow> (case cmp of None \<Rightarrow> False | Some c \<Rightarrow> known_type (compType c) \<and> level_in_range c)"

text \<open>
  C31: whatever a configuration or manifest file says, what the program builds from it names one of the
  five compressions, with a level in the range of that compression, or it is refused.
\<close>

theorem documents_well_compressed:
  "(case disk_GetConfig lib ctx p w of (Ok c, w') \<Rightarrow> well_compressed (compression c) | _ \<Rightarrow> True) \<and>
   (case BuildManifestDomain lib data of Ok m \<Rightarrow> well_compressed (man_compression m) | _ \<Rightarrow> True)"
proof
  have new: "well_compressed (Some c)" if "ParseCompressionType t = Ok ct" "NewCompression ct lv = Ok c" for t ct lv c
    using that NewCompression_level(1,2) [OF that(2)] by (auto simp: ParseCompressionType_eq well_compressed_def split: if_splits)
  have "well_compressed (compression c)" if "disk_GetConfig lib ctx p w = (Ok c, w')" for c w'
    using that new by (auto simp: disk_GetConfig_def BuildConfigDomain_def NewConfig_def ok_iffs split: if_splits)
  then show "case disk_GetConfig lib ctx p w of (Ok c, w') \<Rightarrow> well_compressed (compression c) | _ \<Rightarrow> True"
    by (auto split: prod.splits outcome.splits)
  show "case BuildManifestDomain lib data of Ok m \<Rightarrow> well_compressed (man_compression m) | _ \<Rightarrow> True"
    using new by (auto simp: BuildManifestDomain_def NewManifest_def split: outcome.splits)
qed

subsection \<open>Chunks\<close>

lemma tiles_count: "tiles csz fsz off cs \<Longrightarrow> off \<le> fsz \<Longrightarrow> 0 < csz \<Longrightarrow> int (length cs) * csz < fsz - off + csz"
proof (induction cs arbitrary: off)
  case (Cons c cs)
  show ?case
  proof (cases "off + csz \<le> fsz")
    case True
    with Cons.IH [of "off + csz"] Cons.prems show ?thesis by (simp add: distrib_right)
  next
    case False
    with Cons.prems have "cs = []" by (cases cs) auto
    with Cons.prems show ?thesis by simp
  qed
qed simp

text \<open>
  C24: the chunks of a file cover it without gap or overlap: they start at 0, each begins where the one
  before ends, each but the last has the chunk size, the sizes add up to the file's, and each hash is the
  hash of the compressed bytes of its section.
\<close>

theorem CalculateChunks_correct:
  assumes "disk_CalculateChunks lib ctx p csz cmp w = (Ok cs, w')"
    and "lookup w (resolve w p) = Some (File b)" and "int (length b) + csz < 2 ^ 63"
  shows "tiles csz (int (length b)) 0 cs \<and> sum_list (map chunk_size cs) = int (length b) \<and>
    (\<forall>c \<in> set cs. 0 < chunk_size c \<and> chunk_size c \<le> csz) \<and>
    concat (map (\<lambda>c. section_of (chunk_offset c) (chunk_size c) b) cs) = b \<and>
    int (length cs) * csz < int (length b) + csz \<and>
    (\<forall>c \<in> set cs. \<exists>enc. compresses lib cmp enc \<and>
       chunk_hash c = content_hash (lib_crypto lib) (enc (section_of (chunk_offset c) (chunk_size c) b)))"
proof -
  note T = CalculateChunks_tiles [OF assms]
  have csz: "0 < csz" using assms(1) by (auto simp: disk_CalculateChunks_def ok_iffs split: if_splits)
  from T tiles_count [of csz "int (length b)" 0 cs] tiles_sizes [of csz "int (length b)" 0 cs] tiles_content [of csz b 0 cs] csz show ?thesis
    by simp
qed

definition chunked :: "Chunk list outcome \<times> os_world" where
  "chunked = disk_CalculateChunks toy_lib background ''/s/a'' 2 (Some no_compression) (toy_world two_dirs no_fault)"

theorem CalculateChunks_correct_witness:
  "\<exists>cs. fst chunked = Ok cs \<and> length cs = 2 \<and> tiles 2 3 0 cs"
proof -
  have ok: "case fst chunked of Ok cs \<Rightarrow> length cs = 2 | _ \<Rightarrow> False"
    and f: "lookup (toy_world two_dirs no_fault) (resolve (toy_world two_dirs no_fault) ''/s/a'') = Some (File [1, 2, 3])"
    by code_simp+
  then obtain cs where cs: "fst chunked = Ok cs" "length cs = 2" by (auto split: outcome.splits)
  from cs(1) have "disk_CalculateChunks toy_lib background ''/s/a'' 2 (Some no_compression) (toy_world two_dirs no_fault)
      = (Ok cs, snd chunked)" unfolding chunked_def by (intro run_eq)
  from CalculateChunks_correct [OF this f] cs show ?thesis by simp
qed

subsection \<open>Paths\<close>

text \<open>
  C29: no two objects of a repository share a path, and none lies below another: not with another hash,
  not in another generation, not an encrypted and a plain one; and none is the configuration or a
  manifest.
\<close>

theorem object_paths_apart:
  assumes "GetObjectsPath root h g key r = Ok d" and "GetObjectsPath root h' g' key' r = Ok d'"
    and "is_rooted root" and "hash_ok h" and "hash_ok h'"
    and "prefix (comps (ObjectPath d)) (comps (ObjectPath d'))"
  shows "h = h' \<and> (key = [] \<longleftrightarrow> key' = []) \<and> (key \<noteq> [] \<longrightarrow> g = g')"
proof -
  from GetObjectsPath_ok [OF assms(3,4), of g key r] GetObjectsPath_ok [OF assms(3,5), of g' key' r] assms(1,2,6)
  have pre: "prefix (folders key g @ [take 2 h, drop 2 h]) (folders key' g' @ [take 2 h', drop 2 h'])"
    by (simp add: object_at_def)
  have e: "EncryptedFolder \<noteq> take 2 h" for h
  proof
    assume "EncryptedFolder = take 2 h"
    then have "length EncryptedFolder = length (take 2 h)" by (rule arg_cong)
    then show False by (simp add: EncryptedFolder_def)
  qed
  have "key = [] \<longleftrightarrow> key' = []" using pre e [of h] by (auto simp: folders_def split: if_splits)
  with pre have same: "take 2 h = take 2 h'" "drop 2 h = drop 2 h'" and g: "key \<noteq> [] \<longrightarrow> g = g'"
    by (auto simp: folders_def FormatUint_inj split: if_splits)
  from same have "h = h'" by (metis append_take_drop_id)
  with \<open>key = [] \<longleftrightarrow> key' = []\<close> g show ?thesis by blast
qed

theorem object_paths_apart_witness:
  "\<exists>d d'. GetObjectsPath ''/r'' toy_hash 1 toy_key False = Ok d \<and> GetObjectsPath ''/r'' toy_hash 10 toy_key False = Ok d' \<and>
    \<not> prefix (comps (ObjectPath d)) (comps (ObjectPath d'))"
proof -
  have a: "is_rooted ''/r''" "hash_ok toy_hash" "toy_key \<noteq> []" by code_simp+
  from GetObjectsPath_ok [OF a(1,2), of _ toy_key False] obtain d d' where
    d: "GetObjectsPath ''/r'' toy_hash 1 toy_key False = Ok d" "GetObjectsPath ''/r'' toy_hash 10 toy_key False = Ok d'" by metis
  have "\<not> prefix (comps (ObjectPath d)) (comps (ObjectPath d'))"
    using object_paths_apart [OF d a(1,2,2)] a(3) by auto
  with d show ?thesis by blast
qed

text \<open>
  C30: deleting a generation touches nothing else, whatever its outcome, not even generation 10 when it
  is generation 1 that goes; and when it succeeds nothing of the generation is left.
\<close>

theorem DeleteEncryptedGeneration_exact:
  assumes "is_rooted root" and "disk_DeleteEncryptedGeneration root ctx g w = (r, w')"
  shows "(\<forall>q. \<not> prefix (generation_at root g) q \<longrightarrow> lookup w' q = lookup w q) \<and>
    (r = Ok () \<longrightarrow> (\<forall>q. prefix (generation_at root g) q \<longrightarrow> lookup w' q = None)) \<and>
    (\<forall>g' h. g' \<noteq> g \<longrightarrow> lookup w' (object_at root [1] g' h) = lookup w (object_at root [1] g' h))"
proof -
  have other: "lookup w' q = lookup w q" if "\<not> prefix (generation_at root g) q" for q
    using sets_lookup(2) [OF sets_DeleteEncryptedGeneration [OF assms(1)] refl assms(2)] that by simp
  moreover have "lookup w' q = None" if "r = Ok ()" "prefix (generation_at root g) q" for q
    using DeleteEncryptedGeneration_Ok [OF assms(2) [unfolded that(1)] assms(1), of q] that(2) by simp
  moreover have "\<not> prefix (generation_at root g) (object_at root [1] g' h)" if "g' \<noteq> g" for g' h
    using that by (simp add: object_in_generation_iff)
  ultimately show ?thesis by blast
qed

definition generations :: "(fspath \<times> node) list" where
  "generations = [([''r''], Dir), (object_at ''/r'' toy_key 1 toy_hash, File [1]), (object_at ''/r'' toy_key 10 toy_hash, File [2])]"

definition generation_deleted :: "unit outcome \<times> os_world" where
  "generation_deleted = disk_DeleteEncryptedGeneration ''/r'' background 1 (toy_world generations no_fault)"

theorem DeleteEncryptedGeneration_exact_witness:
  "lookup (snd generation_deleted) (object_at ''/r'' [1] 10 toy_hash) = Some (File [2])"
proof -
  have r: "is_rooted ''/r''" and l: "lookup (toy_world generations no_fault) (object_at ''/r'' [1] 10 toy_hash) = Some (File [2])"
    by code_simp+
  have "disk_DeleteEncryptedGeneration ''/r'' background 1 (toy_world generations no_fault)
      = (fst generation_deleted, snd generation_deleted)" by (simp add: generation_deleted_def)
  from DeleteEncryptedGeneration_exact [OF r this] l show ?thesis by simp
qed

end
