(* ===== verification/Init_Properties.thy ===== *)
theory Init_Properties
  imports Key_Properties ReKey_Properties Create_Sample
begin

section \<open>Initialising a repository and changing its key pair\<close>

subsection \<open>Initialisation\<close>

lemma CreateFolder_keeps:
  assumes "disk_CreateFolder ctx p w = (Ok x, w')" and "lookup w q = Some (File b)"
  shows "lookup w' q = Some (File b)"
proof -
  from assms(1) obtain w1 where cx: "ctxErr ctx w = (Ok (), w1)" and mk: "os_MkdirAll p w1 = (Ok x, w')"
    by (auto simp: disk_CreateFolder_def ok_iffs)
  from ctxErr_Ok [OF cx] assms(2) have "lookup w1 q = Some (File b)" by simp
  from Mkdir_keeps_file [OF mk this] show ?thesis .
qed

lemma config_holds_keeps:
  assumes "config_holds lib w p c" and "\<And>b. lookup w (config_at p) = Some (File b) \<Longrightarrow> lookup w' (config_at p) = Some (File b)"
  shows "config_holds lib w' p c"
proof -
  from assms(1) obtain b where "lookup w (config_at p) = Some (File b)"
    by (auto simp: config_holds_def split: option.splits node.splits)
  with assms show ?thesis by (simp add: config_holds_def)
qed

lemma CreateConfig_keeps:
  assumes "disk_CreateConfig lib ctx p c w = (r, w')" and "is_rooted p" and "q \<noteq> config_at p"
  shows "lookup w' q = lookup w q"
  using sets_lookup(2) [OF sets_disk_CreateConfig [OF assms(2)] refl assms(1)] assms(3) by simp

lemma folder_ops:
  "Exists (DiskFolderRepository lib) = disk_Exists" "CreateFolder (DiskFolderRepository lib) = disk_CreateFolder"
  "CreateConfig (DiskFolderRepository lib) = disk_CreateConfig lib" "GetConfig (DiskFolderRepository lib) = disk_GetConfig lib"
  by (simp_all add: DiskFolderRepository_def)

text \<open>The parts of a successful initialisation of a directory that exists.\<close>

lemma Init_existing:
  assumes run: "Init_Do u (DiskFolderRepository lib) ctx r force w = (Ok res, w')"
    and dir: "lookup w (resolve w (path r)) = Some Dir" and p: "is_rooted (path r)"
  shows "\<exists>new w1 w2 prev w3 conf w4 w5 w6. config r = Some new \<and>
    disk_CreateFolder ctx (path r) w1 = (Ok (), w2) \<and> (\<forall>q. lookup w1 q = lookup w q) \<and>
    disk_GetConfig lib ctx (path r) w2 = (Ok prev, w3) \<and>
    updateConfig prev new force \<lparr>ID = [], Warnings = []\<rparr> w3 = (Ok (conf, res\<lparr>ID := []\<rparr>), w4) \<and>
    disk_CreateConfig lib ctx (path r) conf w4 = (Ok (), w5) \<and>
    disk_CreateFolder ctx (Repository_ObjectsFolder r) w5 = (Ok (), w6) \<and>
    disk_CreateFolder ctx (Repository_SnapshotsFolder r) w6 = (Ok (), w') \<and> ID res = uuid_String u (conf_id conf)"
proof -
  from run obtain ex w1 w2 new conf result w4 w5 w6 where
    e: "disk_Exists ctx (path r) w = (Ok ex, w1)" and mk: "disk_CreateFolder ctx (path r) w1 = (Ok (), w2)"
    and new: "config r = Some new"
    and choose: "(if ex then andThen (disk_GetConfig lib ctx (path r)) (\<lambda>previous.
         updateConfig previous new force \<lparr>ID = [], Warnings = []\<rparr>)
       else return (new, \<lparr>ID = [], Warnings = []\<rparr>)) w2 = (Ok (conf, result), w4)"
    and cc: "disk_CreateConfig lib ctx (path r) conf w4 = (Ok (), w5)"
    and ob: "disk_CreateFolder ctx (Repository_ObjectsFolder r) w5 = (Ok (), w6)"
    and sn: "disk_CreateFolder ctx (Repository_SnapshotsFolder r) w6 = (Ok (), w')"
    and res: "res = result\<lparr>ID := uuid_String u (conf_id conf)\<rparr>"
    unfolding Init_Do_def folder_ops by (auto simp: ok_iffs split: option.splits)
  have "sets (cwd w) {} (disk_Exists ctx (path r))" unfolding disk_Exists_def by (intro sets_rules)
  from lookups_of_read(1) [OF this e] have w1: "\<forall>q. lookup w1 q = lookup w q" .
  have "\<not> errors_Is er ErrNotExist" if "os_Stat (path r) (tick w) = (Err er, v)" for er v
    using that dir is_rooted_nonempty [OF p] by (auto simp: os_Stat_def syscall_def sys_def stat_at_def split: option.splits if_splits)
  with e dir have ex: ex
    by (auto simp: disk_Exists_def ok_iffs split: if_splits dest!: ctxErr_Ok os_Stat_Ok)
  from choose ex obtain prev w3 where prev: "disk_GetConfig lib ctx (path r) w2 = (Ok prev, w3)"
    and up: "updateConfig prev new force \<lparr>ID = [], Warnings = []\<rparr> w3 = (Ok (conf, result), w4)"
    by (auto simp: andThen_Ok_iff)
  from up have "ID result = []"
    by (auto simp: updateConfig_def NewConfig_def ok_iffs split: prod.splits)
  then have "result = res\<lparr>ID := []\<rparr>" by (simp add: res)
  with up have up': "updateConfig prev new force \<lparr>ID = [], Warnings = []\<rparr> w3 = (Ok (conf, res\<lparr>ID := []\<rparr>), w4)" by simp
  have "ID res = uuid_String u (conf_id conf)" by (simp add: res)
  with new mk w1 prev up' cc ob sn show ?thesis by blast
qed

lemma updateConfig_Ok:
  assumes "updateConfig prev new force \<lparr>ID = [], Warnings = []\<rparr> w = (Ok (conf, res), w')"
  shows "conf_id conf = conf_id prev \<and> formatVersion conf = formatVersion prev \<and> compression conf = compression new \<and>
    encryption conf = (if encryption prev = None then encryption new
      else if encryption new = None \<and> force then None else encryption prev) \<and>
    Warnings res = (if encryption prev = None \<or> encryption new \<noteq> None then []
      else if force then [warning_removed] else [warning_preserved]) \<and> w' = tick w"
proof -
  obtain enc warn where ch: "chooseEncryption (encryption prev) (encryption new) force = (enc, warn)" by force
  with assms obtain t where "conf = \<lparr>conf_id = conf_id prev, formatVersion = formatVersion prev, createdAt = t,
      compression = compression new, encryption = enc\<rparr>" "res = \<lparr>ID = [], Warnings = warn\<rparr>" "time_Now w = (Ok t, w')"
    by (auto simp: updateConfig_def NewConfig_def ok_iffs)
  moreover have "(enc, warn) = ((if encryption prev = None then encryption new
      else if encryption new = None \<and> force then None else encryption prev),
      (if encryption prev = None \<or> encryption new \<noteq> None then []
      else if force then [warning_removed] else [warning_preserved]))"
    using ch unfolding chooseEncryption_def
    by (cases "encryption prev"; cases "encryption new") (auto split: if_splits)
  moreover have "w' = tick w" using calculation(3) by (simp add: time_Now_def)
  ultimately show ?thesis by simp
qed

text \<open>
  C27: initialising a directory that is a repository already keeps its identifier, its format and, unless
  the removal is forced, its encryption, so no object loses its key; the compression becomes the new
  one; the caller is warned exactly when the encryption is kept against, or removed by, a request without
  one. No other file is changed.
\<close>

theorem Init_preserves:
  assumes "Init_Do u (DiskFolderRepository lib) ctx r force w = (Ok res, w')"
    and "lookup w (resolve w (path r)) = Some Dir" and "config_holds lib w (path r) old" and "config r = Some new"
    and "storable lib new" and "is_rooted (path r)" and "json_correct (lib_text lib)" and "uuid_correct (lib_uuid lib)"
    and "\<forall>t. utf8_valid (Format_RFC3339 (lib_text lib) t)"
  shows "\<exists>c. config_holds lib w' (path r) c \<and> conf_id c = conf_id old \<and> formatVersion c = formatVersion old \<and>
    compression c = compression new \<and>
    encryption c = (if encryption old = None then encryption new
      else if encryption new = None \<and> force then None else encryption old) \<and>
    Warnings res = (if encryption old = None \<or> encryption new \<noteq> None then []
      else if force then [warning_removed] else [warning_preserved]) \<and>
    (\<forall>q b. q \<noteq> config_at (path r) \<longrightarrow> lookup w q = Some (File b) \<longrightarrow> lookup w' q = Some (File b))"
proof -
  let ?p = "path r"
  from Init_existing [OF assms(1,2,6)] assms(4) obtain w1 w2 prev w3 conf w4 w5 w6 where
    mk: "disk_CreateFolder ctx ?p w1 = (Ok (), w2)" and w1: "\<forall>q. lookup w1 q = lookup w q"
    and prev: "disk_GetConfig lib ctx ?p w2 = (Ok prev, w3)"
    and up: "updateConfig prev new force \<lparr>ID = [], Warnings = []\<rparr> w3 = (Ok (conf, res\<lparr>ID := []\<rparr>), w4)"
    and cc: "disk_CreateConfig lib ctx ?p conf w4 = (Ok (), w5)"
    and ob: "disk_CreateFolder ctx (Repository_ObjectsFolder r) w5 = (Ok (), w6)"
    and sn: "disk_CreateFolder ctx (Repository_SnapshotsFolder r) w6 = (Ok (), w')" by auto
  have w2: "lookup w q = Some (File b) \<Longrightarrow> lookup w2 q = Some (File b)" for q b
    using CreateFolder_keeps [OF mk, of q b] w1 by simp
  have held: "config_holds lib w2 ?p old" by (rule config_holds_keeps [OF assms(3) w2])
  from GetConfig_unique [OF assms(8,6) held prev] obtain t where t: "prev = old\<lparr>createdAt := t\<rparr>" ..
  note U = updateConfig_Ok [OF up]
  have "storable lib old" using assms(3) by (simp add: config_holds_def)
  with assms(5,9) U t have "storable lib conf"
    by (auto simp: storable_def standard_encryption_def config_text_valid_def config_model_def split: if_splits option.splits)
  from CreateConfig_holds [OF assms(7,6) this cc] have "config_holds lib w5 ?p conf" .
  moreover have keep: "lookup w5 q = Some (File b) \<Longrightarrow> lookup w' q = Some (File b)" for q b
    using CreateFolder_keeps [OF sn CreateFolder_keeps [OF ob]] .
  ultimately have "config_holds lib w' ?p conf" by (rule config_holds_keeps)
  moreover have "lookup w' q = Some (File b)" if "q \<noteq> config_at ?p" "lookup w q = Some (File b)" for q b
  proof -
    have "lookup w4 q = Some (File b)"
      using lookups_of_read(1) [OF sets_key_reads(1) prev] U w2 [OF that(2)] by simp
    with CreateConfig_keeps [OF cc assms(6) that(1)] keep show ?thesis by simp
  qed
  ultimately show ?thesis using U t by (intro exI [of _ conf]) simp
qed

text \<open>The repository of the change of keys, initialised again without encryption.\<close>

definition plain_config :: Config where
  "plain_config = current_config\<lparr>conf_id := replicate 16 66, formatVersion := 2, encryption := None\<rparr>"

definition init_repository :: Repository where
  "init_repository = \<lparr>path = ''/r'', config = Some plain_config\<rparr>"

definition init_run :: "InitResult outcome \<times> os_world" where
  "init_run = Init_Do toy_uuid (DiskFolderRepository rekey_lib) background init_repository False (rekey_world no_fault)"

lemma init_runs: "succeeded (fst init_run)" "path init_repository = ''/r''" "config init_repository = Some plain_config"
  by code_simp+

theorem Init_preserves_witness:
  "\<exists>res. fst init_run = Ok res \<and> Warnings res = [warning_preserved] \<and>
    lookup (snd init_run) (encrypted_at ''/r'' 1 rekey_hash) \<noteq> None"
proof -
  from succeeded [OF init_runs(1)] obtain res where res: "init_run = (Ok res, snd init_run)" ..
  have run: "Init_Do toy_uuid (DiskFolderRepository rekey_lib) background init_repository False (rekey_world no_fault)
      = (Ok res, snd init_run)" using res by (simp only: init_run_def [symmetric])
  have dir: "lookup (rekey_world no_fault) (resolve (rekey_world no_fault) (path init_repository)) = Some Dir"
    and r: "is_rooted (path init_repository)"
    and o1: "lookup (rekey_world no_fault) (encrypted_at ''/r'' 1 rekey_hash) = Some (File (replicate 12 0 @ [3, 2, 1, 6]))"
    and ne: "encrypted_at ''/r'' 1 rekey_hash \<noteq> config_at (path init_repository)" by code_simp+
  have st: "storable rekey_lib plain_config"
  proof -
    have "length (conf_id plain_config) = 16" "standard_encryption (encryption plain_config)"
      "valid_compression no_compression" "config_text_valid (config_model rekey_lib plain_config no_compression)" by code_simp+
    moreover have "compression plain_config = Some no_compression" by (simp add: plain_config_def current_config_def)
    ultimately show ?thesis by (simp add: storable_def)
  qed
  have held: "config_holds rekey_lib (rekey_world no_fault) (path init_repository) current_config"
    using sample_config by (simp only: init_runs(2))
  from Init_preserves [OF run dir held init_runs(3) st r sample_text(1,2) sample_times] o1 ne
  have "Warnings res = [warning_preserved]" "lookup (snd init_run) (encrypted_at ''/r'' 1 rekey_hash) \<noteq> None"
    by (auto simp: plain_config_def current_config_def)
  moreover have "fst init_run = Ok res" by (subst res) simp
  ultimately show ?thesis by blast
qed

end
