(* ===== verification/Rewrap_Properties.thy ===== *)
theory Rewrap_Properties
  imports Init_Properties
begin

section \<open>Changing the key pair of a repository\<close>

definition rewrapped :: "Config \<Rightarrow> EncryptionConfig \<Rightarrow> bytes \<Rightarrow> string \<Rightarrow> Config" where
  "rewrapped c enc ek fp = c\<lparr>encryption := Some (ChangePublicKeyFingerPrint fp
     (ChangeEncryptedKey (base64_EncodeToString ek) enc))\<rparr>"

lemma services:
  "ReadRSAPrivateKey (DiskKeyPairRepository c) = disk_ReadRSAPrivateKey c"
  "ReadRSAPublicKey (DiskKeyPairRepository c) = disk_ReadRSAPublicKey c"
  "PublicKeyFingerPrint (DiskKeyPairRepository c) = disk_PublicKeyFingerPrint c"
  "DecodeAndDecryptSymmetricKey (SymmetricRepository c) = SymmetricRepository_Decode c"
  "EncryptSymmetricKey (SymmetricRepository c) = SymmetricRepository_Encrypt c"
  by (simp_all add: DiskKeyPairRepository_def SymmetricRepository_def)

lemma rewrapped_storable:
  assumes "storable lib c0" and "encryption c0 = Some enc" and "c = c0\<lparr>createdAt := t\<rparr>" and "utf8_valid fp"
    and "\<forall>t. utf8_valid (Format_RFC3339 (lib_text lib) t)"
  shows "storable lib (rewrapped c enc ek fp)"
proof -
  have "utf8_valid (base64_EncodeToString ek)" by (rule utf8_ascii [OF base64_ascii])
  with assms show ?thesis
    by (auto simp: storable_def rewrapped_def standard_encryption_def config_text_valid_def config_model_def
        encryption_model_def ChangePublicKeyFingerPrint_def ChangeEncryptedKey_def)
qed

text \<open>
  C28: the change of the key pair of an encrypted repository, when it succeeds: the run reads the
  configuration, then the old private key, decrypts the repository's symmetric key with it, and reads the
  new public key. Afterwards the configuration on disk has the same generation, and that same symmetric
  key encrypted for the new public key: every valid private key with that public part decrypts it.
  Nothing but the configuration file has changed, so every object stays as it was. It is assumed that the
  configuration of the repository can be stored, that documents and identifiers can be read back, and
  that decryption undoes encryption for valid private keys.
\<close>

theorem Rewrap_correct:
  fixes w :: "'z os_world_scheme"
  assumes "Rewrap_Do (DiskFolderRepository lib) (SymmetricRepository (lib_crypto lib)) (DiskKeyPairRepository (lib_crypto lib))
      ctx root oldPath newPath w = (Ok x, w')"
    and "config_holds lib w root c0" and "encryption c0 = Some enc" and "is_rooted root" and "json_correct (lib_text lib)"
    and "uuid_correct (lib_uuid lib)" and "\<forall>t. utf8_valid (Format_RFC3339 (lib_text lib) t)"
    and "oaep_correct (lib_crypto lib)"
  shows "\<exists>conf w1 priv w2 key w3 pub w4 enc' ek.
    disk_GetConfig lib ctx root w = (Ok conf, w1) \<and> encryption conf = Some enc \<and>
    disk_ReadRSAPrivateKey (lib_crypto lib) ctx oldPath w1 = (Ok priv, w2) \<and>
    SymmetricRepository_Decode (lib_crypto lib) ctx priv (encryptedKey enc) w2 = (Ok key, w3) \<and>
    disk_ReadRSAPublicKey (lib_crypto lib) ctx newPath w3 = (Ok pub, w4) \<and>
    config_holds lib w' root (c0\<lparr>encryption := Some enc'\<rparr>) \<and> Encryption.generation enc' = Encryption.generation enc \<and>
    base64_DecodeString (encryptedKey enc') = Some ek \<and>
    (\<forall>new. rsa_PublicKey new = pub \<longrightarrow> rsa_Validate (lib_crypto lib) new = None \<longrightarrow>
       DecryptOAEP (lib_crypto lib) new ek = Ok key) \<and>
    (\<forall>q. q \<noteq> config_at root \<longrightarrow> lookup w' q = lookup w q)"
proof -
  let ?c = "lib_crypto lib"
  from assms(1) obtain conf w1 priv w2 e key w3 pub w4 fp w5 ek w6 where
    conf: "disk_GetConfig lib ctx root w = (Ok conf, w1)" and priv: "disk_ReadRSAPrivateKey ?c ctx oldPath w1 = (Ok priv, w2)"
    and e: "encryption conf = Some e" and key: "SymmetricRepository_Decode ?c ctx priv (encryptedKey e) w2 = (Ok key, w3)"
    and pub: "disk_ReadRSAPublicKey ?c ctx newPath w3 = (Ok pub, w4)"
    and fp: "disk_PublicKeyFingerPrint ?c ctx pub w4 = (Ok fp, w5)"
    and ek: "SymmetricRepository_Encrypt ?c ctx pub key w5 = (Ok ek, w6)"
    and cc: "disk_CreateConfig lib ctx root (rewrapped conf e ek fp) w6 = (Ok x, w')"
    unfolding Rewrap_Do_def folder_ops services rewrapped_def by (auto simp: ok_iffs split: option.splits)
  from GetConfig_unique [OF assms(6,4,2) conf] obtain t where t: "conf = c0\<lparr>createdAt := t\<rparr>" ..
  with e assms(3) have en: "e = enc" by simp
  have "storable lib c0" using assms(2) by (simp add: config_holds_def)
  from rewrapped_storable [OF this assms(3) t fingerprint_valid [OF fp] assms(7), of ek]
  have st: "storable lib (rewrapped conf enc ek fp)" .
  let ?enc' = "ChangePublicKeyFingerPrint fp (ChangeEncryptedKey (base64_EncodeToString ek) enc)"
  have "config_holds lib w' root (rewrapped conf enc ek fp)"
    using CreateConfig_holds [OF assms(5,4) st] cc en by simp
  then have held: "config_holds lib w' root (c0\<lparr>encryption := Some ?enc'\<rparr>)"
    using assms(7) by (auto simp: rewrapped_def t config_holds_def storable_def config_model_def config_text_valid_def
        split: option.splits node.splits outcome.splits)
  have "lookup w' q = lookup w q" if "q \<noteq> config_at root" for q
    using CreateConfig_keeps [OF cc assms(4) that] lookups_of_read(1) [OF sets_key_reads(1) conf]
      lookups_of_read(1) [OF sets_key_reads(2) priv] lookups_of_read(1) [OF sets_services(3) key]
      lookups_of_read(1) [OF sets_key_reads(3) pub] lookups_of_read(1) [OF sets_services(6) fp]
      lookups_of_read(1) [OF sets_services(4) ek] by simp
  moreover from ek obtain seed where "EncryptOAEP ?c seed pub key = Ok ek"
    by (auto simp: SymmetricRepository_Encrypt_def ok_iffs sys_Ok_iff)
  then have "\<forall>new. rsa_PublicKey new = pub \<longrightarrow> rsa_Validate ?c new = None \<longrightarrow> DecryptOAEP ?c new ek = Ok key"
    using oaep_decrypts [OF assms(8)] by blast
  moreover have "Encryption.generation ?enc' = Encryption.generation enc" "base64_DecodeString (encryptedKey ?enc') = Some ek"
    by (simp_all add: ChangePublicKeyFingerPrint_def ChangeEncryptedKey_def)
  ultimately show ?thesis using conf e [unfolded en] priv key [unfolded en] pub held by blast
qed

text \<open>The repository of the change of keys, with a table of documents for this command.\<close>

definition rewrap_encrypted :: bytes where "rewrap_encrypted = 11 # 2 # old_key"
definition rewrap_fingerprint :: string where
  "rewrap_fingerprint = ''SHA256:AQEAAAAAAAAAAAAAAAAAAAAAAAAAAAAAAAAAAAAAAAA''"

definition rewrap_config :: Config where
  "rewrap_config = rewrapped current_config current_encryption rewrap_encrypted rewrap_fingerprint"

definition rewrap_configs :: "model_Config list" where
  "rewrap_configs = [plain_model current_config, plain_model rewrap_config]"

definition rewrap_lib :: library where "rewrap_lib = table_lib rewrap_configs []"

definition current_read :: Config where "current_read = current_config\<lparr>createdAt := 2\<rparr>"

definition rewrap_run :: "unit outcome \<times> os_world" where
  "rewrap_run = disk_CreateConfig rewrap_lib background ''/r''
     (rewrapped current_read current_encryption rewrap_encrypted rewrap_fingerprint) (world_at 11 no_fault)"

lemma rewrap_calls:
  "reads_to (Ok current_read) 3 (disk_GetConfig rewrap_lib background ''/r'' (world_at 0 no_fault))"
  "reads_to (Ok old_private) 5 (disk_ReadRSAPrivateKey toy_crypto background ''/old.pem'' (world_at 3 no_fault))"
  "reads_to (Ok old_key) 6
     (SymmetricRepository_Decode toy_crypto background old_private (encryptedKey current_encryption) (world_at 5 no_fault))"
  "reads_to (Ok rewrap_fingerprint) 9
     (disk_PublicKeyFingerPrint toy_crypto background \<lparr>rsa_N = toy_modulus, rsa_E = 2\<rparr> (world_at 8 no_fault))"
  "reads_to (Ok rewrap_encrypted) 11
     (SymmetricRepository_Encrypt toy_crypto background \<lparr>rsa_N = toy_modulus, rsa_E = 2\<rparr> old_key (world_at 9 no_fault))"
  "succeeded (fst rewrap_run)"
  by code_simp+

lemma rewrap_text: "json_correct (lib_text rewrap_lib)" "uuid_correct (lib_uuid rewrap_lib)"
  "\<forall>t. utf8_valid (Format_RFC3339 (lib_text rewrap_lib) t)" "oaep_correct (lib_crypto rewrap_lib)"
proof -
  show "json_correct (lib_text rewrap_lib)" "uuid_correct (lib_uuid rewrap_lib)" "oaep_correct (lib_crypto rewrap_lib)"
    by (simp_all add: rewrap_lib_def rewrap_configs_def table_text_correct toy_uuid_correct toy_oaep_correct)
  show "\<forall>t. utf8_valid (Format_RFC3339 (lib_text rewrap_lib) t)"
    using sample_times by (simp add: rewrap_lib_def rekey_lib_table table_text_def)
qed

lemma rewrap_held: "config_holds rewrap_lib (world_at 0 no_fault) ''/r'' current_config"
proof -
  have c: "case config_Unmarshal (lib_text rewrap_lib) [0, 48, 10] of
      Ok mo \<Rightarrow> mo\<lparr>mco_CreatedAt := []\<rparr> = (config_model rewrap_lib current_config no_compression)\<lparr>mco_CreatedAt := []\<rparr>
    | _ \<Rightarrow> False" by code_simp
  have f: "lookup (world_at 0 no_fault) (config_at ''/r'') = Some (File [0, 48, 10])" by code_simp
  have s: "length (conf_id current_config) = 16" "standard_encryption (encryption current_config)"
    "valid_compression no_compression" "config_text_valid (config_model rewrap_lib current_config no_compression)" by code_simp+
  have "compression current_config = Some no_compression" by (simp add: current_config_def)
  with c f s show ?thesis by (simp add: config_holds_def storable_def)
qed

lemma rewrap_done:
  "Rewrap_Do (DiskFolderRepository rewrap_lib) (SymmetricRepository (lib_crypto rewrap_lib))
     (DiskKeyPairRepository (lib_crypto rewrap_lib)) background ''/r'' ''/old.pem'' ''/new.pem'' (world_at 0 no_fault)
   = (Ok (), snd rewrap_run)"
proof -
  have c: "lib_crypto rewrap_lib = toy_crypto" by (simp add: rewrap_lib_def)
  note calls = reads_to [OF sets_key_reads(1) rewrap_calls(1)] reads_to [OF sets_key_reads(2) rewrap_calls(2)]
    reads_to [OF sets_services(3) rewrap_calls(3)] reads_to [OF sets_services(6) rewrap_calls(4)]
    reads_to [OF sets_services(4) rewrap_calls(5)]
  have "lookup (world_at 6 no_fault) [''new.pem''] = Some (File [10, 1, 1])" by code_simp
  moreover have "faults (world_at 6 no_fault) (Suc (clock (world_at 6 no_fault))) = None"
    by (simp add: world_at_def rekey_world_def toy_world_def no_fault_def)
  ultimately have "disk_ReadRSAPublicKey toy_crypto background ''/new.pem'' (world_at 6 no_fault) =
      (Ok \<lparr>rsa_N = toy_modulus, rsa_E = 2\<rparr>, tick (tick (world_at 6 no_fault)))"
    by (rule toy_public_key)
  then have public: "disk_ReadRSAPublicKey toy_crypto background ''/new.pem'' (world_at 6 no_fault) =
      (Ok \<lparr>rsa_N = toy_modulus, rsa_E = 2\<rparr>, world_at 8 no_fault)"
    by (simp add: world_at_def tick_def)
  have e: "encryption current_read = Some current_encryption" by (simp add: current_read_def current_config_def)
  have "rewrap_run = (Ok (), snd rewrap_run)" using succeeded [OF rewrap_calls(6)] by simp
  then have "disk_CreateConfig rewrap_lib background ''/r''
     (rewrapped current_read current_encryption rewrap_encrypted rewrap_fingerprint) (world_at 11 no_fault) = (Ok (), snd rewrap_run)"
    by (simp only: rewrap_run_def [symmetric])
  then show ?thesis
    unfolding Rewrap_Do_def folder_ops services c rewrapped_def
    by (simp add: andThen_def tryCatch_def calls public e)
qed

theorem Rewrap_correct_witness:
  "\<exists>enc'. config_holds rewrap_lib (snd rewrap_run) ''/r'' (current_config\<lparr>encryption := Some enc'\<rparr>) \<and>
    Encryption.generation enc' = 1"
proof -
  have e: "encryption current_config = Some current_encryption" and g: "Encryption.generation current_encryption = 1"
    by (simp_all add: current_config_def current_encryption_def)
  have r: "is_rooted ''/r''" by code_simp
  from Rewrap_correct [OF rewrap_done rewrap_held e r rewrap_text] g show ?thesis by auto
qed

text \<open>
  On a repository without encryption the command does not report an error: once the private key has
  been read it dereferences a nil pointer.
\<close>

theorem Rewrap_unencrypted:
  assumes "config_holds lib w root c0" and "encryption c0 = None" and "is_rooted root" and "uuid_correct (lib_uuid lib)"
    and "disk_GetConfig lib ctx root w = (Ok conf, w1)" and "ReadRSAPrivateKey akr ctx oldPath w1 = (Ok priv, w2)"
  shows "Rewrap_Do (DiskFolderRepository lib) skr akr ctx root oldPath newPath w = (Panic ''nil pointer dereference'', w2)"
proof -
  from GetConfig_unique [OF assms(4,3,1,5)] assms(2) have "encryption conf = None" by auto
  with assms(5,6) show ?thesis
    unfolding Rewrap_Do_def folder_ops by (simp add: andThen_def tryCatch_def panic_run)
qed

definition bare_world :: os_world where
  "bare_world = toy_world (([''old.pem''], File [11, 1]) # fresh_nodes) no_fault"

definition bare_config :: "Config outcome \<times> os_world" where
  "bare_config = disk_GetConfig fresh_lib background ''/r'' bare_world"

definition bare_key :: "rsa_PrivateKey outcome \<times> os_world" where
  "bare_key = ReadRSAPrivateKey (DiskKeyPairRepository toy_crypto) background ''/old.pem'' (snd bare_config)"

theorem Rewrap_unencrypted_witness:
  "fst (Rewrap_Do (DiskFolderRepository fresh_lib) (SymmetricRepository toy_crypto) (DiskKeyPairRepository toy_crypto)
     background ''/r'' ''/old.pem'' ''/new.pem'' bare_world) = Panic ''nil pointer dereference''"
proof -
  have s: "succeeded (fst bare_config)" "succeeded (fst bare_key)" by code_simp+
  from succeeded [OF s(1)] succeeded [OF s(2)] obtain conf priv where
    "bare_config = (Ok conf, snd bare_config)" "bare_key = (Ok priv, snd bare_key)" by blast
  then have conf: "disk_GetConfig fresh_lib background ''/r'' bare_world = (Ok conf, snd bare_config)"
    and priv: "ReadRSAPrivateKey (DiskKeyPairRepository toy_crypto) background ''/old.pem'' (snd bare_config) = (Ok priv, snd bare_key)"
    by (simp_all only: bare_config_def [symmetric] bare_key_def [symmetric])
  have held: "config_holds fresh_lib bare_world ''/r'' fresh_config"
  proof -
    have c: "case config_Unmarshal (lib_text fresh_lib) [0, 48, 10] of
        Ok mo \<Rightarrow> mo\<lparr>mco_CreatedAt := []\<rparr> = (config_model fresh_lib fresh_config no_compression)\<lparr>mco_CreatedAt := []\<rparr>
      | _ \<Rightarrow> False" by code_simp
    have f: "lookup bare_world (config_at ''/r'') = Some (File [0, 48, 10])" by code_simp
    have s: "length (conf_id fresh_config) = 16" "standard_encryption (encryption fresh_config)"
      "valid_compression no_compression" "config_text_valid (config_model fresh_lib fresh_config no_compression)" by code_simp+
    have "compression fresh_config = Some no_compression" by (simp add: fresh_config_def)
    with c f s show ?thesis by (simp add: config_holds_def storable_def)
  qed
  have e: "encryption fresh_config = None" and u: "uuid_correct (lib_uuid fresh_lib)"
    by (simp_all add: fresh_config_def fresh_lib_def toy_uuid_correct)
  have r: "is_rooted ''/r''" by code_simp
  from Rewrap_unencrypted [OF held e r u conf priv] show ?thesis by simp
qed

end
