(* ===== verification/Remote.thy ===== *)
theory Remote
  imports Disk_Repositories
begin

section \<open>What the remote repositories share\<close>

text \<open>
  The repositories on S3, Google Cloud Storage, SFTP, SMB and WebDAV call client libraries that are not
  in the sources; each library is a record of functions, a parameter of its model. What the five
  implementations have in common is modelled here: the entries a listing returns, an open remote file,
  the restoring of a file from its objects, and the decoding of one object on its way into the restored
  file.
\<close>

text \<open>\<^verbatim>\<open>os.FileInfo\<close>, as much as is looked at.\<close>

record file_info =
  fi_Name :: string
  fi_IsDir :: bool
  fi_Size :: int

text \<open>A remote file that is open for writing.\<close>

record 'z remote_file =
  rf_Write :: "bytes \<Rightarrow> ('z, unit) os"
  rf_Close :: "('z, unit) os"

text \<open>\<^verbatim>\<open>os.IsNotExist\<close> and \<^verbatim>\<open>os.IsExist\<close> do not look into wrapped errors.\<close>

definition os_IsNotExist :: "error \<Rightarrow> bool" where "os_IsNotExist e \<longleftrightarrow> e = ErrNotExist"
definition os_IsExist :: "error \<Rightarrow> bool" where "os_IsExist e \<longleftrightarrow> e = ErrExist \<or> e = ErrNotEmpty"

text \<open>Going back to the beginning of an open file.\<close>

definition os_Seek :: "fspath \<Rightarrow> ('z, unit) os" where
  "os_Seek h = sys (\<lambda>_. id) (return ())"

text \<open>The last element of a slash-separated path.\<close>

definition path_Base :: "string \<Rightarrow> string" where
  "path_Base p =
     (if p = [] then ''.''
      else (let q = rev (dropWhile (\<lambda>c. c = CHR ''/'') (rev p))
            in if q = [] then ''/'' else last (split_on CHR ''/'' q)))"

text \<open>\<^verbatim>\<open>io.ReadAll\<close> from an open reader.\<close>

definition read_to_end :: "'z os_world_scheme reader \<Rightarrow> ('z, bytes) os" where
  "read_to_end src w =
     (case src w of
        ((got, None), w') \<Rightarrow> (Ok got, w')
      | ((got, Some e), w') \<Rightarrow> (Err e, w'))"

text \<open>\<^verbatim>\<open>io.ReadAll\<close> followed by a close, both errors looked at afterwards, the first first.\<close>

definition read_and_close :: "string \<Rightarrow> string \<Rightarrow> ctx \<Rightarrow> 'z ReadCloser \<Rightarrow> ('z, bytes) os" where
  "read_and_close readMsg closeMsg ctx rc =
     tryCatch (read_to_end (rc_Read rc ctx))
       (\<lambda>e. andThen (ignoring (rc_Close rc)) (\<lambda>_. fail (Wrapped readMsg e)))
       (\<lambda>data. andThen (orWrap closeMsg (rc_Close rc)) (\<lambda>_. return data))"

text \<open>
  \<^verbatim>\<open>io.Copy\<close> from memory, through a reader that checks the context, into a remote file: what has
  been read before it broke off has been written.
\<close>

definition copy_into :: "'z remote_file \<Rightarrow> ctx \<Rightarrow> bytes \<Rightarrow> ('z, unit) os" where
  "copy_into dest ctx data w =
     (case mem_stream ctx data w of
        ((got, None), w') \<Rightarrow> rf_Write dest got w'
      | ((got, Some e), w') \<Rightarrow> andThen (rf_Write dest got) (\<lambda>_. fail e) w')"

text \<open>Where the compressed bytes of a saved object go: the file, or the buffer of the encryption writer.\<close>

definition remote_output :: "bytes \<Rightarrow> 'z remote_file \<Rightarrow> bytes \<Rightarrow> ('z, unit) os" where
  "remote_output key dest b = (if key = [] then rf_Write dest b else return ())"

definition remote_closeEncryption :: "library \<Rightarrow> bytes \<Rightarrow> bytes \<Rightarrow> 'z remote_file \<Rightarrow> ('z, unit) os" where
  "remote_closeEncryption lib key buffer dest =
     (if key = [] then return ()
      else andThen (AESGCM_Close (lib_crypto lib) key buffer (rf_Write dest)) (\<lambda>_. return ()))"

text \<open>The prefix of a listing ends with a slash.\<close>

definition with_slash :: "string \<Rightarrow> string" where
  "with_slash p = (if suffix ''/'' p then p else p @ ''/'')"

text \<open>The hash a key of the listing stands for, if it is one of an object.\<close>

definition listed_hash :: "string \<Rightarrow> string \<Rightarrow> string option" where
  "listed_hash pre key =
     (case split_on CHR ''/'' (trim_prefix key pre) of
        [a, b] \<Rightarrow> if length a \<noteq> 2 \<or> b = [] then None else Some (a @ b)
      | _ \<Rightarrow> None)"

text \<open>
  Manifests, the latest first. The order of manifests with one time of creation is not determined in the
  code, whose sort is not stable; here it is the order of the server.
\<close>

definition latest_first :: "Manifest list \<Rightarrow> Manifest list" where
  "latest_first ms = sort_key (\<lambda>m. - man_createdAt m) ms"

text \<open>
  Listing an encrypted generation kept in directories, as SFTP, SMB and WebDAV do: the files in the
  subdirectories whose name has two characters.
\<close>

definition list_generation ::
  "(string \<Rightarrow> ('z, file_info list) os) \<Rightarrow> string \<Rightarrow> ctx \<Rightarrow> string \<Rightarrow> file_info list \<Rightarrow> ('z, string list) os" where
  "list_generation ReadDir msg ctx directory prefixDirectories =
     andThen (for_each (\<lambda>pd.
         andThen (ctxErr ctx) (\<lambda>_.
           if \<not> fi_IsDir pd \<or> length (fi_Name pd) \<noteq> 2 then return []
           else andThen (orWrap msg (ReadDir (Join [directory, fi_Name pd]))) (\<lambda>entries.
             for_each (\<lambda>entry. andThen (ctxErr ctx) (\<lambda>_.
               return (if fi_IsDir entry \<or> fi_Name entry = [] then [] else [fi_Name pd @ fi_Name entry]))) entries)))
       prefixDirectories) (\<lambda>hashes.
     return (sort (concat (concat hashes))))"

text \<open>Decrypting a reader that was opened; it is closed when that fails.\<close>

definition decoded_reader :: "library \<Rightarrow> 'z ReadCloser \<Rightarrow> bytes \<Rightarrow> ('z, 'z ReadCloser) os" where
  "decoded_reader lib source key =
     tryCatch (AESGCM_Decode (lib_crypto lib) (rc_Read source background) key)
       (\<lambda>e. andThen (ignoring (rc_Close source)) (\<lambda>_. fail (Wrapped ''decrypt object'' e)))
       (\<lambda>b. return \<lparr>rc_Read = (\<lambda>ctx. mem_stream ctx b), rc_Close = rc_Close source\<rparr>)"

text \<open>The bytes of an object before they are decompressed.\<close>

definition remote_source :: "library \<Rightarrow> ctx \<Rightarrow> 'z ReadCloser \<Rightarrow> bytes \<Rightarrow> ('z, bytes \<times> error option) os" where
  "remote_source lib ctx rc key =
     (if key = [] then (\<lambda>w. case rc_Read rc ctx w of (r, w') \<Rightarrow> (Ok r, w'))
      else andThen (orWrap ''decrypt object'' (AESGCM_Decode (lib_crypto lib) (rc_Read rc background) key)) (\<lambda>b w.
           case mem_stream ctx b w of (r, w') \<Rightarrow> (Ok r, w')))"

text \<open>From the opened object to the restored file: decrypted, decompressed and copied, and closed.\<close>

definition restore_from ::
  "library \<Rightarrow> string \<Rightarrow> string \<Rightarrow> ctx \<Rightarrow> Compression \<Rightarrow> fspath \<Rightarrow> bytes \<Rightarrow> 'z ReadCloser \<Rightarrow> ('z, int) os" where
  "restore_from lib decodeMsg copyMsg ctx co destination key source =
     deferring
       (andThen (remote_source lib ctx source key) (\<lambda>(raw, readErr).
        andThen (orWrap ''get compression handler'' (lift_outcome (GetHandler (compType co)))) (\<lambda>h.
        andThen (orWrap decodeMsg (lift_outcome (Handler_Decode (lib_codecs lib) h raw))) (\<lambda>decoded.
        orWrap copyMsg (write_decoded destination decoded readErr)))))
       (\<lambda>_. ignoring (rc_Close source))"

fun each_part :: "string \<Rightarrow> (string \<Rightarrow> ('z, int) os) \<Rightarrow> ctx \<Rightarrow> string list \<Rightarrow> int \<Rightarrow> ('z, int) os" where
  "each_part msg part ctx [] restored = return restored"
| "each_part msg part ctx (h # hs) restored =
     andThen (ctxErr ctx) (\<lambda>_.
     andThen (orWrap msg (part h)) (\<lambda>written.
     each_part msg part ctx hs (i64 (restored + written))))"

definition restored_size :: "string \<Rightarrow> (string \<Rightarrow> ('z, int) os) \<Rightarrow> ctx \<Rightarrow> SnapFile \<Rightarrow> string list \<Rightarrow> ('z, unit) os" where
  "restored_size msg part ctx obj hashes =
     andThen (each_part msg part ctx hashes 0) (\<lambda>restored.
       if restored \<noteq> file_size obj then fail (ErrText ''restored size mismatch'') else return ())"

text \<open>
  \<^verbatim>\<open>RestoreObject\<close> of the repositories on S3, Google Cloud Storage, SMB and WebDAV. \<open>part\<close> restores
  one object into the open file. The file is closed once; without success it is removed.
\<close>

definition remote_RestoreObject ::
  "string \<Rightarrow> (Compression \<Rightarrow> string \<Rightarrow> fspath \<Rightarrow> ('z, int) os) \<Rightarrow> ctx \<Rightarrow> Compression option \<Rightarrow> SnapFile \<Rightarrow>
   ('z, unit) os" where
  "remote_RestoreObject msg part ctx cmp obj =
     andThen (ctxErr ctx) (\<lambda>_.
     (case cmp of
        None \<Rightarrow> fail (ErrText ''compression configuration is required'')
      | Some co \<Rightarrow>
          andThen (lift_outcome (GetHashes (Some obj))) (\<lambda>hashes.
          andThen (orWrap ''create destination directory'' (os_MkdirAll (Dir_of (file_path obj)))) (\<lambda>_.
          andThen (orWrap ''create restored file'' (os_Create (file_path obj))) (\<lambda>destination.
          deferring
            (andThen
               (deferring (restored_size msg (\<lambda>h. part co h destination) ctx obj hashes)
                  (\<lambda>restored. if restored then return () else ignoring (os_Close destination)))
               (\<lambda>_. orWrap ''close restored file'' (os_Close destination)))
            (\<lambda>restoreCompleted. if restoreCompleted then return () else ignoring (os_Remove (file_path obj))))))))"

end
