(* ===== verification/S3.thy ===== *)
theory S3
  imports Remote
begin

section \<open>Repositories on S3\<close>

text \<open>
  \<^verbatim>\<open>internal/infra/s3\<close>. The AWS client is a record of functions: its operations take the
  context, the bucket and the key; the body of a put is a reader; a listing goes by pages, each with the
  token of the next. The library's tests of an error (\<^verbatim>\<open>errors.As\<close> for its types, the
  code of an API error, the status of an HTTP response) are fields as well.
\<close>

subsection \<open>The client\<close>

record 'z s3_client =
  HeadObject :: "ctx \<Rightarrow> string \<Rightarrow> string \<Rightarrow> ('z, unit) os"
  GetObject :: "ctx \<Rightarrow> string \<Rightarrow> string \<Rightarrow> ('z, 'z ReadCloser option) os"
  PutObject :: "ctx \<Rightarrow> string \<Rightarrow> string \<Rightarrow> 'z os_world_scheme reader \<Rightarrow> bool \<Rightarrow> ('z, unit) os"
  DeleteObject :: "ctx \<Rightarrow> string \<Rightarrow> string \<Rightarrow> ('z, unit) os"
  NextPage :: "ctx \<Rightarrow> string \<Rightarrow> string \<Rightarrow> string option \<Rightarrow> ('z, string list \<times> string option) os"
  UploadObject :: "ctx \<Rightarrow> string \<Rightarrow> string \<Rightarrow> bytes \<times> error option \<Rightarrow> ('z, unit) os"
  as_NoSuchKey :: "error \<Rightarrow> bool"
  as_NotFound :: "error \<Rightarrow> bool"
  ErrorCode :: "error \<Rightarrow> string option"
  HTTPStatusCode :: "error \<Rightarrow> int option"

text \<open>Where a repository is: the client, the bucket, the prefix of its keys.\<close>

record 'z s3_place =
  s3_cl :: "'z s3_client"
  s3_bucket :: string
  s3_prefix :: string
  s3_pages :: nat

definition s3_isNotFoundError :: "'z s3_client \<Rightarrow> error \<Rightarrow> bool" where
  "s3_isNotFoundError cl e \<longleftrightarrow>
     as_NoSuchKey cl e \<or> as_NotFound cl e \<or>
     ErrorCode cl e \<in> {Some ''NoSuchKey'', Some ''NotFound'', Some ''NoSuchBucket''}"

definition s3_isObjectNotFound :: "'z s3_client \<Rightarrow> error \<Rightarrow> bool" where
  "s3_isObjectNotFound cl e \<longleftrightarrow> as_NoSuchKey cl e \<or> HTTPStatusCode cl e = Some 404"

definition s3_isPreconditionFailedError :: "'z s3_client \<Rightarrow> error \<Rightarrow> bool" where
  "s3_isPreconditionFailedError cl e \<longleftrightarrow> ErrorCode cl e = Some ''PreconditionFailed''"

text \<open>
  The loop over the pages of a listing: it goes on while there is a next token that is not empty. The
  bound on the number of pages is the place's \<open>s3_pages\<close>; a listing that is longer ends in a panic of
  the model.
\<close>

fun s3_paginate ::
  "nat \<Rightarrow> 'z s3_place \<Rightarrow> ctx \<Rightarrow> string \<Rightarrow> string \<Rightarrow> (string list \<Rightarrow> ('z, 'a list) os) \<Rightarrow> string option \<Rightarrow>
   ('z, 'a list) os" where
  "s3_paginate 0 s ctx msg pre f token = panic ''out of pages''"
| "s3_paginate (Suc n) s ctx msg pre f token =
     andThen (orWrap msg (NextPage (s3_cl s) ctx (s3_bucket s) pre token)) (\<lambda>(keys, next).
     andThen (f keys) (\<lambda>xs.
       (case next of
          None \<Rightarrow> return xs
        | Some t \<Rightarrow>
            (if t = [] then return xs
             else andThen (s3_paginate n s ctx msg pre f (Some t)) (\<lambda>ys. return (xs @ ys))))))"

subsection \<open>Objects\<close>

definition s3_ListEncryptedObjects :: "'z s3_place \<Rightarrow> ctx \<Rightarrow> uint64 \<Rightarrow> ('z, string list) os" where
  "s3_ListEncryptedObjects s ctx g =
     andThen (ctxErr ctx) (\<lambda>_.
       (let pre = with_slash (EncryptedGenerationPath (s3_prefix s) g True)
        in andThen (s3_paginate (s3_pages s) s ctx ''list encrypted objects'' pre
             (\<lambda>keys. return (List.map_filter (listed_hash pre) keys)) None) (\<lambda>hashes.
           return (sort hashes))))"

definition s3_encrypted_path :: "'z s3_place \<Rightarrow> uint64 \<Rightarrow> string \<Rightarrow> string" where
  "s3_encrypted_path s g hash = Join [EncryptedGenerationPath (s3_prefix s) g True, take 2 hash, drop 2 hash]"

definition s3_ReadEncryptedObject ::
  "library \<Rightarrow> 'z s3_place \<Rightarrow> ctx \<Rightarrow> string \<Rightarrow> uint64 \<Rightarrow> bytes \<Rightarrow> ('z, 'z ReadCloser) os" where
  "s3_ReadEncryptedObject lib s ctx hash g key =
     andThen (ctxErr ctx) (\<lambda>_.
       if length hash < 3 then fail (ErrText ''invalid object hash'')
       else if key = [] then fail (ErrText ''symmetric key is required'')
       else tryCatch (GetObject (s3_cl s) ctx (s3_bucket s) (s3_encrypted_path s g hash))
         (\<lambda>e. if as_NoSuchKey (s3_cl s) e \<or> ErrorCode (s3_cl s) e \<in> {Some ''NoSuchKey'', Some ''NotFound''}
              then fail (Wrapped ''encrypted object'' ErrNotExist)
              else fail (Wrapped ''open encrypted object'' e))
         (\<lambda>result. andThen (deref result) (\<lambda>body. decoded_reader lib body key)))"

text \<open>
  The encoding goroutine of a rekey: what the upload finds in the pipe. The encryption writes nothing before
  it has read its whole input, so the input is read first. The result is the bytes of the pipe, the error
  the pipe ends with, and the goroutine's own result.
\<close>

definition s3_encode_pipe ::
  "library \<Rightarrow> 'z ReadCloser \<Rightarrow> bytes \<Rightarrow> ('z, (bytes \<times> error option) \<times> error option) os" where
  "s3_encode_pipe lib source key =
     tryCatch (lift_outcome (AESGCM_Encode key))
       (\<lambda>e. return (([], Some e), Some (Wrapped ''create encryption encoder'' e)))
       (\<lambda>_ w. case rc_Read source background w of
          ((got, Some e), w') \<Rightarrow>
            tryCatch (AESGCM_Close (lib_crypto lib) key got (\<lambda>_. return ()))
              (\<lambda>_. return (([], Some e), Some (Wrapped ''encrypt rekeyed object'' e)))
              (\<lambda>ct. return ((ct, Some e), Some (Wrapped ''encrypt rekeyed object'' e))) w'
        | ((got, None), w') \<Rightarrow>
            tryCatch (AESGCM_Close (lib_crypto lib) key got (\<lambda>_. return ()))
              (\<lambda>e. return (([], Some e), Some (Wrapped ''finalize encryption of rekeyed object'' e)))
              (\<lambda>ct. return ((ct, None), None)) w')"

definition s3_SaveRekeyedObject ::
  "library \<Rightarrow> 'z s3_place \<Rightarrow> ctx \<Rightarrow> string \<Rightarrow> 'z ReadCloser \<Rightarrow> uint64 \<Rightarrow> bytes \<Rightarrow> ('z, unit) os" where
  "s3_SaveRekeyedObject lib s ctx hash source g key =
     andThen (ctxErr ctx) (\<lambda>_.
       if length hash < 3 then fail (ErrText ''invalid object hash'')
       else if key = [] then fail (ErrText ''symmetric key is required'')
       else andThen (s3_encode_pipe lib source key) (\<lambda>(body, encodeErr).
         andThen (orWrap ''save rekeyed object''
           (UploadObject (s3_cl s) ctx (s3_bucket s) (s3_encrypted_path s g hash) body)) (\<lambda>_.
         (case encodeErr of None \<Rightarrow> return () | Some e \<Rightarrow> fail e))))"

definition s3_delete_keys :: "'z s3_place \<Rightarrow> ctx \<Rightarrow> string list \<Rightarrow> ('z, unit list) os" where
  "s3_delete_keys s ctx keys =
     for_each (\<lambda>key. if key = [] then return ()
        else orWrap ''delete encrypted object'' (DeleteObject (s3_cl s) ctx (s3_bucket s) key)) keys"

definition s3_DeleteEncryptedGeneration :: "'z s3_place \<Rightarrow> ctx \<Rightarrow> uint64 \<Rightarrow> ('z, unit) os" where
  "s3_DeleteEncryptedGeneration s ctx g =
     andThen (ctxErr ctx) (\<lambda>_.
     andThen (s3_paginate (s3_pages s) s ctx ''list encrypted generation''
       (with_slash (EncryptedGenerationPath (s3_prefix s) g True)) (s3_delete_keys s ctx) None) (\<lambda>_.
     return ()))"

definition s3_AbortRekey :: "'z s3_place \<Rightarrow> ctx \<Rightarrow> uint64 \<Rightarrow> ('z, unit) os" where
  "s3_AbortRekey s ctx g = orWrap ''abort rekey of generation'' (s3_DeleteEncryptedGeneration s ctx g)"

definition s3_ReadObject ::
  "library \<Rightarrow> 'z s3_place \<Rightarrow> ctx \<Rightarrow> string \<Rightarrow> bytes \<Rightarrow> uint64 \<Rightarrow> ('z, 'z ReadCloser) os" where
  "s3_ReadObject lib s ctx hash key g =
     (if length hash < 3 then fail (ErrText ''invalid object hash'')
      else andThen (lift_outcome (GetObjectsPath (s3_prefix s) hash g key True)) (\<lambda>dest.
        tryCatch (GetObject (s3_cl s) ctx (s3_bucket s) (ObjectPath dest))
          (\<lambda>e. if s3_isObjectNotFound (s3_cl s) e then fail (SnapshotNotFoundError hash)
               else fail (Wrapped ''open object'' e))
          (\<lambda>output.
             (case output of
                None \<Rightarrow> fail (ErrText ''object has no response body'')
              | Some reader \<Rightarrow>
                  (if key = [] then return reader else decoded_reader lib reader key)))))"

definition s3_SaveChunk ::
  "library \<Rightarrow> 'z s3_place \<Rightarrow> ctx \<Rightarrow> string \<Rightarrow> string \<Rightarrow> int \<Rightarrow> int \<Rightarrow> Compression option \<Rightarrow> bytes \<Rightarrow> uint64 \<Rightarrow>
   ('z, unit) os" where
  "s3_SaveChunk lib s ctx filePath hash offset sz cmp key g =
     andThen (OpenSource filePath hash offset sz cmp) (\<lambda>source.
     deferring
       (andThen (Encoder_Encode lib ctx filePath hash offset sz cmp key source) (\<lambda>encoded.
        andThen (lift_outcome (GetObjectsPath (s3_prefix s) hash g key True)) (\<lambda>dest.
        orWrap ''write object''
          (PutObject (s3_cl s) ctx (s3_bucket s) (ObjectPath dest) (mem_stream background encoded) False))))
       (\<lambda>_. ignoring (os_Close source)))"

text \<open>
  Saving a whole object encodes it into a temporary file of the local machine first. \<open>tmp\<close> is the
  directory for temporary files. As on disk the error of closing the encryption is dropped.
\<close>

definition s3_encode_file ::
  "library \<Rightarrow> ctx \<Rightarrow> fspath \<Rightarrow> fspath \<Rightarrow> Compression \<Rightarrow> bytes \<Rightarrow> ('z, unit) os" where
  "s3_encode_file lib ctx source temporary co key =
     andThen (lift_outcome (GetHandler (compType co))) (\<lambda>h.
     andThen (if key = [] then return () else orWrap ''create encryption writer'' (lift_outcome (AESGCM_Encode key))) (\<lambda>_.
     tryCatch (lift_outcome (Handler_Encode (lib_codecs lib) h (level co)))
       (\<lambda>e. andThen (ignoring (closeEncryption lib key [] temporary)) (\<lambda>_. fail (Wrapped ''encode object'' e)))
       (\<lambda>enc w.
         (case encoder_copy h enc (output_of key temporary) (file_stream ctx source) w of
            ((got, k, Some e), w') \<Rightarrow>
              andThen (ignoring (closeEncryption lib key (take k (enc got)) temporary)) (\<lambda>_.
              fail (Wrapped ''encode object'' e)) w'
          | ((got, k, None), w') \<Rightarrow>
              andThen (orWrap ''close encoded object'' (encoder_close h enc (output_of key temporary) got k)) (\<lambda>_.
              ignoring (closeEncryption lib key (enc got) temporary)) w'))))"

definition s3_Save ::
  "library \<Rightarrow> string \<Rightarrow> 'z s3_place \<Rightarrow> ctx \<Rightarrow> string \<Rightarrow> string \<Rightarrow> Compression option \<Rightarrow> bytes \<Rightarrow> uint64 \<Rightarrow>
   ('z, unit) os" where
  "s3_Save lib tmp s ctx filePath hash cmp key g =
     andThen (ctxErr ctx) (\<lambda>_.
     (case cmp of
        None \<Rightarrow> fail (ErrText ''compression configuration is required'')
      | Some co \<Rightarrow>
          (if length hash < 3 then fail (ErrText ''invalid object hash'')
           else andThen (lift_outcome (GetObjectsPath (s3_prefix s) hash g key True)) (\<lambda>dest.
             andThen (orWrap ''open source file'' (os_Open filePath)) (\<lambda>source.
             deferring
               (andThen (orWrap ''create temporary object file'' (os_CreateTemp tmp ''stowmark-s3-object-'')) (\<lambda>temporary.
                deferring
                  (andThen (s3_encode_file lib ctx source temporary co key) (\<lambda>_.
                   andThen (orWrap ''stat temporary object'' (os_FStat temporary)) (\<lambda>_.
                   andThen (orWrap ''rewind temporary object'' (os_Seek temporary)) (\<lambda>_.
                   tryCatch (PutObject (s3_cl s) ctx (s3_bucket s) (ObjectPath dest) (file_stream background temporary) True)
                     (\<lambda>e. if s3_isPreconditionFailedError (s3_cl s) e then return ()
                          else fail (Wrapped ''write object'' e))
                     return))))
                  (\<lambda>_. andThen (ignoring (os_Close temporary)) (\<lambda>_. ignoring (os_RemoveAt temporary)))))
               (\<lambda>_. ignoring (os_Close source)))))))"

definition s3_AlreadyExists :: "'z s3_place \<Rightarrow> ctx \<Rightarrow> string \<Rightarrow> bytes \<Rightarrow> uint64 \<Rightarrow> ('z, bool) os" where
  "s3_AlreadyExists s ctx hash key g =
     andThen (ctxErr ctx) (\<lambda>_.
       if length hash < 3 then fail (ErrText ''invalid object hash'')
       else andThen (lift_outcome (GetObjectsPath (s3_prefix s) hash g key True)) (\<lambda>dest.
         tryCatch (HeadObject (s3_cl s) ctx (s3_bucket s) (ObjectPath dest))
           (\<lambda>e. if s3_isNotFoundError (s3_cl s) e then return False else fail (Wrapped ''check object'' e))
           (\<lambda>_. return True)))"

definition s3_restoreObjectPart ::
  "library \<Rightarrow> 'z s3_place \<Rightarrow> ctx \<Rightarrow> bytes \<Rightarrow> uint64 \<Rightarrow> Compression \<Rightarrow> string \<Rightarrow> fspath \<Rightarrow> ('z, int) os" where
  "s3_restoreObjectPart lib s ctx key g co hash destination =
     andThen (ctxErr ctx) (\<lambda>_.
       if length hash < 3 then fail (ErrText ''invalid object hash'')
       else andThen (lift_outcome (GetObjectsPath (s3_prefix s) hash g key True)) (\<lambda>dest.
         tryCatch (GetObject (s3_cl s) ctx (s3_bucket s) (ObjectPath dest))
           (\<lambda>e. if s3_isNotFoundError (s3_cl s) e then fail (SnapshotNotFoundError hash)
                else fail (Wrapped ''get object'' e))
           (\<lambda>output. andThen (deref output)
              (restore_from lib ''decode object'' ''copy decoded object'' ctx co destination key))))"

definition s3_RestoreObject ::
  "library \<Rightarrow> 'z s3_place \<Rightarrow> ctx \<Rightarrow> Compression option \<Rightarrow> SnapFile \<Rightarrow> bytes \<Rightarrow> uint64 \<Rightarrow> ('z, unit) os" where
  "s3_RestoreObject lib s ctx cmp obj key g =
     remote_RestoreObject ''restore S3 part'' (s3_restoreObjectPart lib s ctx key g) ctx cmp obj"

definition S3ObjectRepository :: "library \<Rightarrow> string \<Rightarrow> 'z s3_place \<Rightarrow> 'z ObjectRepository" where
  "S3ObjectRepository lib tmp s =
     \<lparr>SaveObject = s3_Save lib tmp s,
      AlreadyExists = s3_AlreadyExists s,
      ReadObject = s3_ReadObject lib s,
      RestoreObject = s3_RestoreObject lib s,
      SaveChunk = s3_SaveChunk lib s,
      ListEncryptedObjects = s3_ListEncryptedObjects s,
      ReadEncryptedObject = s3_ReadEncryptedObject lib s,
      SaveRekeyedObject = s3_SaveRekeyedObject lib s,
      DeleteEncryptedGeneration = s3_DeleteEncryptedGeneration s,
      AbortRekey = s3_AbortRekey s\<rparr>"

subsection \<open>Configuration\<close>

definition s3_Exists :: "'z s3_place \<Rightarrow> ctx \<Rightarrow> string \<Rightarrow> ('z, bool) os" where
  "s3_Exists s ctx repositoryPath =
     andThen (ctxErr ctx) (\<lambda>_.
     tryCatch (HeadObject (s3_cl s) ctx (s3_bucket s) (trim_prefix (Join [repositoryPath, ConfigFile]) ''/''))
       (\<lambda>e. if as_NotFound (s3_cl s) e \<or>
               ErrorCode (s3_cl s) e \<in> {Some ''NotFound'', Some ''NoSuchKey'', Some ''NoSuchBucket''}
            then return False
            else fail (Wrapped ''check repository config'' e))
       (\<lambda>_. return True))"

definition s3_CreateFolder :: "ctx \<Rightarrow> string \<Rightarrow> ('z, unit) os" where
  "s3_CreateFolder ctx repositoryPath = ctxErr ctx"

definition s3_CreateConfig :: "library \<Rightarrow> 'z s3_place \<Rightarrow> ctx \<Rightarrow> string \<Rightarrow> Config \<Rightarrow> ('z, unit) os" where
  "s3_CreateConfig lib s ctx repositoryPath c =
     andThen (orWrap ''failed to marshal config'' (MarshalConfig lib ctx c)) (\<lambda>data.
     orWrap ''write config''
       (PutObject (s3_cl s) ctx (s3_bucket s) (Join [repositoryPath, ConfigFile]) (mem_stream background data) False))"

definition s3_GetConfig :: "library \<Rightarrow> 'z s3_place \<Rightarrow> ctx \<Rightarrow> string \<Rightarrow> ('z, Config) os" where
  "s3_GetConfig lib s ctx repositoryPath =
     andThen (ctxErr ctx) (\<lambda>_.
     tryCatch (GetObject (s3_cl s) ctx (s3_bucket s) (Join [repositoryPath, ConfigFile]))
       (\<lambda>e. if ErrorCode (s3_cl s) e \<in> {Some ''NoSuchKey'', Some ''NotFound'', Some ''NoSuchBucket''}
            then fail (RepositoryNotFoundError ''config file not found'')
            else fail (Wrapped ''get config'' e))
       (\<lambda>output. andThen (deref output) (\<lambda>body.
          deferring
            (andThen (orWrap ''read config'' (read_to_end (rc_Read body background))) (\<lambda>data.
             andThen (orWrap ''failed to unmarshal config'' (lift_outcome (config_Unmarshal (lib_text lib) data))) (\<lambda>conf.
             BuildConfigDomain lib conf)))
            (\<lambda>_. ignoring (rc_Close body)))))"

definition S3FolderRepository :: "library \<Rightarrow> 'z s3_place \<Rightarrow> 'z FolderRepository" where
  "S3FolderRepository lib s =
     \<lparr>Exists = s3_Exists s, CreateFolder = s3_CreateFolder,
      CreateConfig = s3_CreateConfig lib s, GetConfig = s3_GetConfig lib s\<rparr>"

subsection \<open>Manifests\<close>

definition s3_SaveManifest :: "library \<Rightarrow> 'z s3_place \<Rightarrow> ctx \<Rightarrow> Manifest \<Rightarrow> ('z, unit) os" where
  "s3_SaveManifest lib s ctx m =
     andThen (ctxErr ctx) (\<lambda>_.
     andThen (deref (man_compression m)) (\<lambda>cmp.
     andThen (orWrap ''marshal manifest''
       (lift_outcome (manifest_MarshalIndent (lib_text lib) (manifest_model m cmp)))) (\<lambda>data.
     orWrap ''write manifest''
       (PutObject (s3_cl s) ctx (s3_bucket s) (Join [s3_prefix s, SnapshotsFolder, json_name (man_id m)])
         (mem_stream background (data @ [newline])) False))))"

definition s3_getManifest :: "library \<Rightarrow> 'z s3_place \<Rightarrow> ctx \<Rightarrow> string \<Rightarrow> ('z, Manifest) os" where
  "s3_getManifest lib s ctx key =
     tryCatch (GetObject (s3_cl s) ctx (s3_bucket s) key)
       (\<lambda>e. if s3_isNotFoundError (s3_cl s) e then fail (RepositoryNotFoundError ''manifest not found'')
            else fail (Wrapped ''get manifest'' e))
       (\<lambda>output. andThen (deref output) (\<lambda>body.
        andThen (read_and_close ''read manifest'' ''close manifest response body'' background body) (\<lambda>data.
        lift_outcome (BuildManifestDomain lib data))))"

definition s3_ListManifests :: "library \<Rightarrow> 'z s3_place \<Rightarrow> ctx \<Rightarrow> ('z, Manifest list) os" where
  "s3_ListManifests lib s ctx =
     andThen (ctxErr ctx) (\<lambda>_.
     andThen (s3_paginate (s3_pages s) s ctx ''list manifests'' (Join [s3_prefix s, SnapshotsFolder] @ ''/'')
       (for_each (s3_getManifest lib s ctx)) None) (\<lambda>manifests.
     return (latest_first manifests)))"

definition s3_GetManifest :: "library \<Rightarrow> 'z s3_place \<Rightarrow> ctx \<Rightarrow> string \<Rightarrow> ('z, Manifest) os" where
  "s3_GetManifest lib s ctx snapshot =
     andThen (ctxErr ctx) (\<lambda>_.
     s3_getManifest lib s ctx (Join [s3_prefix s, SnapshotsFolder, json_name snapshot]))"

definition S3ManifestRepository :: "library \<Rightarrow> 'z s3_place \<Rightarrow> 'z ManifestRepository" where
  "S3ManifestRepository lib s =
     \<lparr>SaveManifest = s3_SaveManifest lib s, ListManifests = s3_ListManifests lib s,
      GetManifest = s3_GetManifest lib s\<rparr>"

end
