(* ===== verification/GCS.thy ===== *)
theory GCS
  imports Remote
begin

section \<open>Repositories on Google Cloud Storage\<close>

text \<open>
  \<^verbatim>\<open>internal/infra/gcs\<close>. The storage client is a record of functions. A writer sends what is
  written to it and makes it the object when it is closed; cancelling its context first aborts the upload.
  An iterator over a listing is the function from the number of a call to its result, which is nothing at the
  end (\<^verbatim>\<open>iterator.Done\<close>).
\<close>

subsection \<open>The client\<close>

record 'z gcs_writer =
  gw_Write :: "bytes \<Rightarrow> ('z, unit) os"
  gw_Close :: "('z, unit) os"
  gw_Cancel :: "('z, unit) os"

record 'z gcs_client =
  gcs_Attrs :: "ctx \<Rightarrow> string \<Rightarrow> string \<Rightarrow> ('z, unit) os"
  gcs_NewReader :: "ctx \<Rightarrow> string \<Rightarrow> string \<Rightarrow> ('z, 'z ReadCloser) os"
  gcs_NewWriter :: "ctx \<Rightarrow> string \<Rightarrow> string \<Rightarrow> bool \<Rightarrow> 'z os_world_scheme \<Rightarrow> 'z gcs_writer \<times> 'z os_world_scheme"
  gcs_Delete :: "ctx \<Rightarrow> string \<Rightarrow> string \<Rightarrow> ('z, unit) os"
  gcs_Next :: "ctx \<Rightarrow> string \<Rightarrow> string \<Rightarrow> nat \<Rightarrow> ('z, string option) os"
  ErrObjectNotExist :: error
  as_PreconditionFailed :: "error \<Rightarrow> bool"

record 'z gcs_place =
  gcs_cl :: "'z gcs_client"
  gcs_bucket :: string
  gcs_prefix :: string
  gcs_items :: nat

definition gcs_NotExist :: "'z gcs_place \<Rightarrow> error \<Rightarrow> bool" where
  "gcs_NotExist s e \<longleftrightarrow> errors_Is e (ErrObjectNotExist (gcs_cl s))"

text \<open>A new writer, and what is done with it; its context is cancelled in the end.\<close>

definition with_writer ::
  "'z gcs_place \<Rightarrow> ctx \<Rightarrow> string \<Rightarrow> bool \<Rightarrow> ('z gcs_writer \<Rightarrow> ('z, 'a) os) \<Rightarrow> ('z, 'a) os" where
  "with_writer s ctx name absent f w =
     (case gcs_NewWriter (gcs_cl s) ctx (gcs_bucket s) name absent w of
        (wr, w') \<Rightarrow> deferring (f wr) (\<lambda>_. ignoring (gw_Cancel wr)) w')"

definition abortUpload :: "'z gcs_writer \<Rightarrow> error \<Rightarrow> ('z, 'a) os" where
  "abortUpload wr e = andThen (ignoring (gw_Cancel wr)) (\<lambda>_. andThen (ignoring (gw_Close wr)) (\<lambda>_. fail e))"

text \<open>The loop over a listing, with the bound of the place on the number of its items.\<close>

fun gcs_each ::
  "nat \<Rightarrow> 'z gcs_place \<Rightarrow> ctx \<Rightarrow> string \<Rightarrow> string \<Rightarrow> (string \<Rightarrow> ('z, 'a list) os) \<Rightarrow> nat \<Rightarrow> ('z, 'a list) os" where
  "gcs_each 0 s ctx msg pre f i = panic ''out of items''"
| "gcs_each (Suc n) s ctx msg pre f i =
     andThen (orWrap msg (gcs_Next (gcs_cl s) ctx (gcs_bucket s) pre i)) (\<lambda>attrs.
       (case attrs of
          None \<Rightarrow> return []
        | Some name \<Rightarrow>
            andThen (f name) (\<lambda>xs.
            andThen (gcs_each n s ctx msg pre f (Suc i)) (\<lambda>ys. return (xs @ ys)))))"

subsection \<open>Objects\<close>

definition gcs_ListEncryptedObjects :: "'z gcs_place \<Rightarrow> ctx \<Rightarrow> uint64 \<Rightarrow> ('z, string list) os" where
  "gcs_ListEncryptedObjects s ctx g =
     andThen (ctxErr ctx) (\<lambda>_.
       (let pre = with_slash (EncryptedGenerationPath (gcs_prefix s) g True)
        in andThen (gcs_each (gcs_items s) s ctx ''list encrypted objects'' pre
             (\<lambda>name. return (List.map_filter (listed_hash pre) [name])) 0) (\<lambda>hashes.
           return (sort hashes))))"

definition gcs_encrypted_path :: "'z gcs_place \<Rightarrow> uint64 \<Rightarrow> string \<Rightarrow> string" where
  "gcs_encrypted_path s g hash = Join [EncryptedGenerationPath (gcs_prefix s) g True, take 2 hash, drop 2 hash]"

definition gcs_ReadEncryptedObject ::
  "library \<Rightarrow> 'z gcs_place \<Rightarrow> ctx \<Rightarrow> string \<Rightarrow> uint64 \<Rightarrow> bytes \<Rightarrow> ('z, 'z ReadCloser) os" where
  "gcs_ReadEncryptedObject lib s ctx hash g key =
     andThen (ctxErr ctx) (\<lambda>_.
       if length hash < 3 then fail (ErrText ''invalid object hash'')
       else if key = [] then fail (ErrText ''symmetric key is required'')
       else tryCatch (gcs_NewReader (gcs_cl s) ctx (gcs_bucket s) (gcs_encrypted_path s g hash))
         (\<lambda>e. if gcs_NotExist s e then fail (Wrapped ''encrypted object'' ErrNotExist)
              else fail (Wrapped ''open encrypted object'' e))
         (\<lambda>source. decoded_reader lib source key))"

definition gcs_SaveRekeyedObject ::
  "library \<Rightarrow> 'z gcs_place \<Rightarrow> ctx \<Rightarrow> string \<Rightarrow> 'z ReadCloser \<Rightarrow> uint64 \<Rightarrow> bytes \<Rightarrow> ('z, unit) os" where
  "gcs_SaveRekeyedObject lib s ctx hash source g key =
     andThen (ctxErr ctx) (\<lambda>_.
       if length hash < 3 then fail (ErrText ''invalid object hash'')
       else if key = [] then fail (ErrText ''symmetric key is required'')
       else with_writer s ctx (gcs_encrypted_path s g hash) False (\<lambda>writer.
         tryCatch (lift_outcome (AESGCM_Encode key))
           (\<lambda>e. abortUpload writer (Wrapped ''create encryption encoder'' e))
           (\<lambda>_ w. case rc_Read source background w of
              ((got, Some e), w') \<Rightarrow>
                andThen (ignoring (AESGCM_Close (lib_crypto lib) key got (gw_Write writer))) (\<lambda>_.
                abortUpload writer (Wrapped ''encrypt rekeyed object'' e)) w'
            | ((got, None), w') \<Rightarrow>
                tryCatch (AESGCM_Close (lib_crypto lib) key got (gw_Write writer))
                  (\<lambda>e. abortUpload writer (Wrapped ''finalize encryption of rekeyed object'' e))
                  (\<lambda>_. orWrap ''save rekeyed object'' (gw_Close writer)) w')))"

definition gcs_DeleteEncryptedGeneration :: "'z gcs_place \<Rightarrow> ctx \<Rightarrow> uint64 \<Rightarrow> ('z, unit) os" where
  "gcs_DeleteEncryptedGeneration s ctx g =
     andThen (ctxErr ctx) (\<lambda>_.
     andThen (gcs_each (gcs_items s) s ctx ''list encrypted generation''
       (with_slash (EncryptedGenerationPath (gcs_prefix s) g True))
       (\<lambda>name. tryCatch (gcs_Delete (gcs_cl s) ctx (gcs_bucket s) name)
          (\<lambda>e. if gcs_NotExist s e then return [] else fail (Wrapped ''delete encrypted object'' e))
          (\<lambda>_. return [()])) 0) (\<lambda>_.
     return ()))"

definition gcs_AbortRekey :: "'z gcs_place \<Rightarrow> ctx \<Rightarrow> uint64 \<Rightarrow> ('z, unit) os" where
  "gcs_AbortRekey s ctx g = orWrap ''abort rekey for generation'' (gcs_DeleteEncryptedGeneration s ctx g)"

text \<open>
  Saving a chunk: the compressed bytes go to the writer (or the encryption's buffer) and into the hash at the
  same time; the upload is aborted when the hash is not the one expected.
\<close>

definition gcs_output :: "bytes \<Rightarrow> 'z gcs_writer \<Rightarrow> bytes \<Rightarrow> ('z, unit) os" where
  "gcs_output key writer b = (if key = [] then gw_Write writer b else return ())"

definition gcs_closeEncryption :: "library \<Rightarrow> bytes \<Rightarrow> bytes \<Rightarrow> 'z gcs_writer \<Rightarrow> ('z, unit) os" where
  "gcs_closeEncryption lib key buffer writer =
     (if key = [] then return ()
      else andThen (AESGCM_Close (lib_crypto lib) key buffer (gw_Write writer)) (\<lambda>_. return ()))"

definition gcs_chunk_transfer ::
  "library \<Rightarrow> ctx \<Rightarrow> fspath \<Rightarrow> string \<Rightarrow> int \<Rightarrow> int \<Rightarrow> bytes \<Rightarrow> 'z gcs_writer \<Rightarrow> Handler \<Rightarrow> (bytes \<Rightarrow> bytes) \<Rightarrow>
   ('z, unit) os" where
  "gcs_chunk_transfer lib ctx source hash offset sz key writer h enc w =
     (case encoder_copy h enc (gcs_output key writer) (stream ctx (section_of offset sz (content_at w source))) w of
        ((got, k, Some e), w') \<Rightarrow>
          andThen (ignoring (gw_Cancel writer)) (\<lambda>_.
          andThen (ignoring (encoder_close h enc (gcs_output key writer) got k)) (\<lambda>_.
          andThen (ignoring (gw_Close writer)) (\<lambda>_.
          fail (Wrapped ''write chunk'' e)))) w'
      | ((got, k, None), w') \<Rightarrow>
          tryCatch (encoder_close h enc (gcs_output key writer) got k)
            (\<lambda>e. abortUpload writer (Wrapped ''finish compression for chunk'' e))
            (\<lambda>_. if content_hash (lib_crypto lib) (enc got) \<noteq> hash
                 then abortUpload writer (ErrText ''chunk hash mismatch'')
                 else tryCatch (gcs_closeEncryption lib key (enc got) writer)
                   (\<lambda>e. abortUpload writer (Wrapped ''finish encryption for chunk'' e))
                   (\<lambda>_. orWrap ''close object'' (gw_Close writer))) w')"

definition gcs_SaveChunk ::
  "library \<Rightarrow> 'z gcs_place \<Rightarrow> ctx \<Rightarrow> string \<Rightarrow> string \<Rightarrow> int \<Rightarrow> int \<Rightarrow> Compression option \<Rightarrow> bytes \<Rightarrow> uint64 \<Rightarrow>
   ('z, unit) os" where
  "gcs_SaveChunk lib s ctx filePath hash offset sz cmp key g =
     andThen (ctxErr ctx) (\<lambda>_.
     andThen (OpenSource filePath hash offset sz cmp) (\<lambda>source.
     deferring
       (andThen (lift_outcome (GetObjectsPath (gcs_prefix s) hash g key True)) (\<lambda>dest.
        with_writer s ctx (ObjectPath dest) False (\<lambda>writer.
          tryCatch (if key = [] then return () else lift_outcome (AESGCM_Encode key))
            (\<lambda>e. abortUpload writer (Wrapped ''create encryption writer'' e))
            (\<lambda>_. andThen (deref cmp) (\<lambda>co.
              tryCatch (lift_outcome (GetHandler (compType co)))
                (\<lambda>e. abortUpload writer (Wrapped ''get compression handler'' e))
                (\<lambda>h. tryCatch (lift_outcome (Handler_Encode (lib_codecs lib) h (level co)))
                   (\<lambda>e. abortUpload writer (Wrapped ''create compression encoder for chunk'' e))
                   (\<lambda>enc. gcs_chunk_transfer lib ctx source hash offset sz key writer h enc)))))))
       (\<lambda>_. ignoring (os_Close source))))"

definition gcs_save_transfer ::
  "library \<Rightarrow> 'z gcs_place \<Rightarrow> fspath \<Rightarrow> bytes \<Rightarrow> 'z gcs_writer \<Rightarrow> Handler \<Rightarrow> (bytes \<Rightarrow> bytes) \<Rightarrow> ('z, unit) os" where
  "gcs_save_transfer lib s source key writer h enc w =
     (case encoder_copy h enc (gcs_output key writer) (file_stream background source) w of
        ((got, k, Some e), w') \<Rightarrow>
          andThen (ignoring (gw_Cancel writer)) (\<lambda>_.
          andThen (ignoring (encoder_close h enc (gcs_output key writer) got k)) (\<lambda>_.
          andThen (ignoring (gcs_closeEncryption lib key (enc got) writer)) (\<lambda>_.
          fail (Wrapped ''copy object'' e)))) w'
      | ((got, k, None), w') \<Rightarrow>
          tryCatch (encoder_close h enc (gcs_output key writer) got k)
            (\<lambda>e. andThen (ignoring (gw_Cancel writer)) (\<lambda>_. fail (Wrapped ''close encoder'' e)))
            (\<lambda>_. andThen (ignoring (gcs_closeEncryption lib key (enc got) writer)) (\<lambda>_.
              tryCatch (gw_Close writer)
                (\<lambda>e. if as_PreconditionFailed (gcs_cl s) e then return () else fail (Wrapped ''close object'' e))
                return)) w')"

definition gcs_Save ::
  "library \<Rightarrow> 'z gcs_place \<Rightarrow> ctx \<Rightarrow> string \<Rightarrow> string \<Rightarrow> Compression option \<Rightarrow> bytes \<Rightarrow> uint64 \<Rightarrow> ('z, unit) os" where
  "gcs_Save lib s ctx filePath hash cmp key g =
     andThen (ctxErr ctx) (\<lambda>_.
     (case cmp of
        None \<Rightarrow> fail (ErrText ''compression configuration is required'')
      | Some co \<Rightarrow>
          (if length hash < 3 then fail (ErrText ''invalid object hash'')
           else andThen (lift_outcome (GetObjectsPath (gcs_prefix s) hash g key True)) (\<lambda>dest.
             tryCatch (gcs_Attrs (gcs_cl s) ctx (gcs_bucket s) (ObjectPath dest))
               (\<lambda>e. if \<not> gcs_NotExist s e then fail (Wrapped ''get attributes for object'' e)
                 else andThen (orWrap ''open source file'' (os_Open filePath)) (\<lambda>source.
                   deferring
                     (andThen (lift_outcome (GetHandler (compType co))) (\<lambda>h.
                      with_writer s ctx (ObjectPath dest) True (\<lambda>writer.
                        andThen (if key = [] then return ()
                          else orWrap ''create encryption writer'' (lift_outcome (AESGCM_Encode key))) (\<lambda>_.
                        tryCatch (lift_outcome (Handler_Encode (lib_codecs lib) h (level co)))
                          (\<lambda>e. andThen (ignoring (gcs_closeEncryption lib key [] writer)) (\<lambda>_.
                             andThen (ignoring (gw_Cancel writer)) (\<lambda>_. fail (Wrapped ''create encoder'' e))))
                          (\<lambda>enc. gcs_save_transfer lib s source key writer h enc)))))
                     (\<lambda>_. ignoring (os_Close source))))
               (\<lambda>_. return ())))))"

definition gcs_AlreadyExists :: "'z gcs_place \<Rightarrow> ctx \<Rightarrow> string \<Rightarrow> bytes \<Rightarrow> uint64 \<Rightarrow> ('z, bool) os" where
  "gcs_AlreadyExists s ctx hash key g =
     andThen (ctxErr ctx) (\<lambda>_.
       if length hash < 3 then fail (ErrText ''invalid object hash'')
       else andThen (lift_outcome (GetObjectsPath (gcs_prefix s) hash g key True)) (\<lambda>dest.
         tryCatch (gcs_Attrs (gcs_cl s) ctx (gcs_bucket s) (ObjectPath dest))
           (\<lambda>e. if gcs_NotExist s e then return False else fail (Wrapped ''check object'' e))
           (\<lambda>_. return True)))"

definition gcs_ReadObject ::
  "library \<Rightarrow> 'z gcs_place \<Rightarrow> ctx \<Rightarrow> string \<Rightarrow> bytes \<Rightarrow> uint64 \<Rightarrow> ('z, 'z ReadCloser) os" where
  "gcs_ReadObject lib s ctx hash key g =
     andThen (ctxErr ctx) (\<lambda>_.
       if length hash < 3 then fail (ErrText ''invalid object hash'')
       else andThen (lift_outcome (GetObjectsPath (gcs_prefix s) hash g key True)) (\<lambda>dest.
         tryCatch (gcs_NewReader (gcs_cl s) ctx (gcs_bucket s) (ObjectPath dest))
           (\<lambda>e. if gcs_NotExist s e then fail (SnapshotNotFoundError hash) else fail (Wrapped ''open object'' e))
           (\<lambda>reader. if key = [] then return reader else decoded_reader lib reader key)))"

definition gcs_restoreObjectPart ::
  "library \<Rightarrow> 'z gcs_place \<Rightarrow> ctx \<Rightarrow> bytes \<Rightarrow> uint64 \<Rightarrow> Compression \<Rightarrow> string \<Rightarrow> fspath \<Rightarrow> ('z, int) os" where
  "gcs_restoreObjectPart lib s ctx key g co hash destination =
     andThen (ctxErr ctx) (\<lambda>_.
       if length hash < 3 then fail (ErrText ''invalid object hash'')
       else andThen (lift_outcome (GetObjectsPath (gcs_prefix s) hash g key True)) (\<lambda>dest.
         tryCatch (gcs_NewReader (gcs_cl s) ctx (gcs_bucket s) (ObjectPath dest))
           (\<lambda>e. if gcs_NotExist s e then fail (SnapshotNotFoundError hash) else fail (Wrapped ''open object'' e))
           (restore_from lib ''decode object'' ''copy decoded object'' ctx co destination key)))"

definition gcs_RestoreObject ::
  "library \<Rightarrow> 'z gcs_place \<Rightarrow> ctx \<Rightarrow> Compression option \<Rightarrow> SnapFile \<Rightarrow> bytes \<Rightarrow> uint64 \<Rightarrow> ('z, unit) os" where
  "gcs_RestoreObject lib s ctx cmp obj key g =
     remote_RestoreObject ''restore GCS part'' (gcs_restoreObjectPart lib s ctx key g) ctx cmp obj"

definition GCSObjectRepository :: "library \<Rightarrow> 'z gcs_place \<Rightarrow> 'z ObjectRepository" where
  "GCSObjectRepository lib s =
     \<lparr>SaveObject = gcs_Save lib s,
      AlreadyExists = gcs_AlreadyExists s,
      ReadObject = gcs_ReadObject lib s,
      RestoreObject = gcs_RestoreObject lib s,
      SaveChunk = gcs_SaveChunk lib s,
      ListEncryptedObjects = gcs_ListEncryptedObjects s,
      ReadEncryptedObject = gcs_ReadEncryptedObject lib s,
      SaveRekeyedObject = gcs_SaveRekeyedObject lib s,
      DeleteEncryptedGeneration = gcs_DeleteEncryptedGeneration s,
      AbortRekey = gcs_AbortRekey s\<rparr>"

subsection \<open>Configuration\<close>

definition gcs_Exists :: "'z gcs_place \<Rightarrow> ctx \<Rightarrow> string \<Rightarrow> ('z, bool) os" where
  "gcs_Exists s ctx repositoryPath =
     andThen (ctxErr ctx) (\<lambda>_.
     tryCatch (gcs_Attrs (gcs_cl s) ctx (gcs_bucket s) (Join [repositoryPath, ConfigFile]))
       (\<lambda>e. if gcs_NotExist s e then return False else fail (Wrapped ''get attributes for config'' e))
       (\<lambda>_. return True))"

definition gcs_CreateFolder :: "ctx \<Rightarrow> string \<Rightarrow> ('z, unit) os" where
  "gcs_CreateFolder ctx repositoryPath = ctxErr ctx"

text \<open>Writing a document as an object: one write and the close of the writer.\<close>

definition gcs_put :: "'z gcs_place \<Rightarrow> string \<Rightarrow> string \<Rightarrow> ctx \<Rightarrow> string \<Rightarrow> bytes \<Rightarrow> ('z, unit) os" where
  "gcs_put s writeMsg closeMsg ctx name data =
     with_writer s ctx name False (\<lambda>writer.
       tryCatch (gw_Write writer data)
         (\<lambda>e. andThen (ignoring (gw_Cancel writer)) (\<lambda>_. fail (Wrapped writeMsg e)))
         (\<lambda>_. orWrap closeMsg (gw_Close writer)))"

definition gcs_CreateConfig :: "library \<Rightarrow> 'z gcs_place \<Rightarrow> ctx \<Rightarrow> string \<Rightarrow> Config \<Rightarrow> ('z, unit) os" where
  "gcs_CreateConfig lib s ctx repositoryPath c =
     andThen (orWrap ''marshal config'' (MarshalConfig lib ctx c)) (\<lambda>data.
     gcs_put s ''write config'' ''close config'' ctx (Join [repositoryPath, ConfigFile]) data)"

definition gcs_GetConfig :: "library \<Rightarrow> 'z gcs_place \<Rightarrow> ctx \<Rightarrow> string \<Rightarrow> ('z, Config) os" where
  "gcs_GetConfig lib s ctx repositoryPath =
     andThen (ctxErr ctx) (\<lambda>_.
     tryCatch (gcs_NewReader (gcs_cl s) ctx (gcs_bucket s) (Join [repositoryPath, ConfigFile]))
       (\<lambda>e. if gcs_NotExist s e then fail (RepositoryNotFoundError ''config file not found'')
            else fail (Wrapped ''open config'' e))
       (\<lambda>reader.
        andThen (read_and_close ''read config'' ''close config'' background reader) (\<lambda>data.
        andThen (orWrap ''unmarshal config'' (lift_outcome (config_Unmarshal (lib_text lib) data))) (\<lambda>conf.
        BuildConfigDomain lib conf))))"

definition GCSFolderRepository :: "library \<Rightarrow> 'z gcs_place \<Rightarrow> 'z FolderRepository" where
  "GCSFolderRepository lib s =
     \<lparr>Exists = gcs_Exists s, CreateFolder = gcs_CreateFolder,
      CreateConfig = gcs_CreateConfig lib s, GetConfig = gcs_GetConfig lib s\<rparr>"

subsection \<open>Manifests\<close>

definition gcs_SaveManifest :: "library \<Rightarrow> 'z gcs_place \<Rightarrow> ctx \<Rightarrow> Manifest \<Rightarrow> ('z, unit) os" where
  "gcs_SaveManifest lib s ctx m =
     andThen (ctxErr ctx) (\<lambda>_.
     andThen (deref (man_compression m)) (\<lambda>cmp.
     andThen (orWrap ''marshal manifest''
       (lift_outcome (manifest_MarshalIndent (lib_text lib) (manifest_model m cmp)))) (\<lambda>data.
     gcs_put s ''write manifest'' ''close manifest'' ctx (Join [gcs_prefix s, SnapshotsFolder, json_name (man_id m)])
       (data @ [newline]))))"

text \<open>A listed object is a manifest when it lies in the folder itself and is called \<^verbatim>\<open>*.json\<close>.\<close>

definition manifest_name :: "string \<Rightarrow> string \<Rightarrow> bool" where
  "manifest_name pre key \<longleftrightarrow>
     (let name = trim_prefix key pre in name \<noteq> [] \<and> CHR ''/'' \<notin> set name \<and> suffix ''.json'' name)"

definition gcs_read_manifest :: "library \<Rightarrow> 'z gcs_place \<Rightarrow> ctx \<Rightarrow> string \<Rightarrow> string \<Rightarrow> ('z, Manifest list) os" where
  "gcs_read_manifest lib s ctx pre name =
     (if \<not> manifest_name pre name then return []
      else
        andThen (orWrap ''open manifest'' (gcs_NewReader (gcs_cl s) ctx (gcs_bucket s) name)) (\<lambda>reader.
        andThen (read_and_close ''read manifest'' ''close manifest'' background reader) (\<lambda>data.
        andThen (lift_outcome (BuildManifestDomain lib data)) (\<lambda>m. return [m]))))"

definition gcs_ListManifests :: "library \<Rightarrow> 'z gcs_place \<Rightarrow> ctx \<Rightarrow> ('z, Manifest list) os" where
  "gcs_ListManifests lib s ctx =
     andThen (ctxErr ctx) (\<lambda>_.
       (let pre = Join [gcs_prefix s, SnapshotsFolder] @ ''/''
        in andThen (gcs_each (gcs_items s) s ctx ''list manifests'' pre (gcs_read_manifest lib s ctx pre) 0) (\<lambda>manifests.
           return (latest_first manifests))))"

definition gcs_GetManifest :: "library \<Rightarrow> 'z gcs_place \<Rightarrow> ctx \<Rightarrow> string \<Rightarrow> ('z, Manifest) os" where
  "gcs_GetManifest lib s ctx snapshot =
     andThen (ctxErr ctx) (\<lambda>_.
       if snapshot = [] then fail (ErrText ''snapshot ID is required'')
       else if path_Base snapshot \<noteq> snapshot then fail (ErrText ''invalid snapshot ID'')
       else tryCatch (gcs_NewReader (gcs_cl s) ctx (gcs_bucket s) (Join [gcs_prefix s, SnapshotsFolder, json_name snapshot]))
         (\<lambda>e. if gcs_NotExist s e then fail (RepositoryNotFoundError ''manifest not found'')
              else fail (Wrapped ''open manifest'' e))
         (\<lambda>reader.
          andThen (read_and_close ''read manifest'' ''close manifest'' background reader) (\<lambda>data.
          lift_outcome (BuildManifestDomain lib data))))"

definition GCSManifestRepository :: "library \<Rightarrow> 'z gcs_place \<Rightarrow> 'z ManifestRepository" where
  "GCSManifestRepository lib s =
     \<lparr>SaveManifest = gcs_SaveManifest lib s, ListManifests = gcs_ListManifests lib s,
      GetManifest = gcs_GetManifest lib s\<rparr>"

end
