(* ===== verification/SSH.thy ===== *)
theory SSH
  imports Remote
begin

section \<open>Repositories on an SSH server\<close>

text \<open>
  \<^verbatim>\<open>internal/infra/ssh\<close>. The SFTP client is a record of functions. It returns Go's
  \<^verbatim>\<open>os.ErrNotExist\<close> and \<^verbatim>\<open>os.ErrExist\<close> themselves for the statuses that mean them.
  \<^verbatim>\<open>json.Decoder\<close>, which reads the first document of a stream (its bytes and the error it ends
  with), is a parameter beside the library.
\<close>

subsection \<open>The client\<close>

record 'z sftp_client =
  sftp_ReadDir :: "string \<Rightarrow> ('z, file_info list) os"
  sftp_Open :: "string \<Rightarrow> ('z, 'z ReadCloser) os"
  sftp_Create :: "string \<Rightarrow> ('z, 'z remote_file) os"
  sftp_OpenTrunc :: "string \<Rightarrow> ('z, 'z remote_file) os"
  sftp_OpenExcl :: "string \<Rightarrow> ('z, 'z remote_file) os"
  sftp_MkdirAll :: "string \<Rightarrow> ('z, unit) os"
  sftp_Remove :: "string \<Rightarrow> ('z, unit) os"
  sftp_RemoveDirectory :: "string \<Rightarrow> ('z, unit) os"
  sftp_Stat :: "string \<Rightarrow> ('z, file_info) os"
  sftp_PosixRename :: "string \<Rightarrow> string \<Rightarrow> ('z, unit) os"
  sftp_Chmod :: "string \<Rightarrow> ('z, unit) os"

subsection \<open>Objects\<close>

definition ssh_ListEncryptedObjects :: "'z sftp_client \<Rightarrow> string \<Rightarrow> ctx \<Rightarrow> uint64 \<Rightarrow> ('z, string list) os" where
  "ssh_ListEncryptedObjects cl root ctx g =
     andThen (ctxErr ctx) (\<lambda>_.
       (let directory = EncryptedGenerationPath root g True
        in tryCatch (sftp_ReadDir cl directory)
             (\<lambda>e. if os_IsNotExist e then return [] else fail (Wrapped ''list encrypted generation'' e))
             (list_generation (sftp_ReadDir cl) ''list encrypted SSH directory'' ctx directory)))"

definition ssh_ReadEncryptedObject ::
  "library \<Rightarrow> 'z sftp_client \<Rightarrow> string \<Rightarrow> ctx \<Rightarrow> string \<Rightarrow> uint64 \<Rightarrow> bytes \<Rightarrow> ('z, 'z ReadCloser) os" where
  "ssh_ReadEncryptedObject lib cl root ctx hash g key =
     andThen (ctxErr ctx) (\<lambda>_.
       if length hash < 3 then fail (ErrText ''invalid object hash'')
       else if key = [] then fail (ErrText ''symmetric key is required'')
       else tryCatch (sftp_Open cl (Join [EncryptedGenerationPath root g True, take 2 hash, drop 2 hash]))
         (\<lambda>e. if os_IsNotExist e then fail (Wrapped ''encrypted object'' ErrNotExist)
              else fail (Wrapped ''open encrypted SSH object'' e))
         (\<lambda>source. tryCatch (ctxErr ctx)
            (\<lambda>e. andThen (ignoring (rc_Close source)) (\<lambda>_. fail e))
            (\<lambda>_. decoded_reader lib source key)))"

definition ssh_abortSave :: "'z sftp_client \<Rightarrow> 'z remote_file \<Rightarrow> string \<Rightarrow> error \<Rightarrow> ('z, 'a) os" where
  "ssh_abortSave cl destination objectPath e =
     andThen (ignoring (rf_Close destination)) (\<lambda>_.
     andThen (ignoring (sftp_Remove cl objectPath)) (\<lambda>_. fail e))"

definition ssh_rekey_transfer ::
  "library \<Rightarrow> 'z sftp_client \<Rightarrow> ctx \<Rightarrow> 'z ReadCloser \<Rightarrow> bytes \<Rightarrow> string \<Rightarrow> 'z remote_file \<Rightarrow> ('z, unit) os" where
  "ssh_rekey_transfer lib cl ctx source key objectPath destination =
     tryCatch (lift_outcome (AESGCM_Encode key))
       (\<lambda>e. ssh_abortSave cl destination objectPath (Wrapped ''create encryption encoder'' e))
       (\<lambda>_ w. case rc_Read source background w of
          ((got, Some e), w') \<Rightarrow>
            andThen (ignoring (AESGCM_Close (lib_crypto lib) key got (rf_Write destination))) (\<lambda>_.
            ssh_abortSave cl destination objectPath (Wrapped ''encrypt rekeyed object'' e)) w'
        | ((got, None), w') \<Rightarrow>
            tryCatch (ctxErr ctx)
              (\<lambda>e. andThen (ignoring (AESGCM_Close (lib_crypto lib) key got (rf_Write destination))) (\<lambda>_.
                 ssh_abortSave cl destination objectPath e))
              (\<lambda>_. tryCatch (AESGCM_Close (lib_crypto lib) key got (rf_Write destination))
                 (\<lambda>e. ssh_abortSave cl destination objectPath (Wrapped ''finalize encryption of rekeyed object'' e))
                 (\<lambda>_. tryCatch (rf_Close destination)
                    (\<lambda>e. andThen (ignoring (sftp_Remove cl objectPath)) (\<lambda>_.
                       fail (Wrapped ''close rekeyed SSH object'' e)))
                    return)) w')"

definition ssh_SaveRekeyedObject ::
  "library \<Rightarrow> 'z sftp_client \<Rightarrow> string \<Rightarrow> ctx \<Rightarrow> string \<Rightarrow> 'z ReadCloser \<Rightarrow> uint64 \<Rightarrow> bytes \<Rightarrow> ('z, unit) os" where
  "ssh_SaveRekeyedObject lib cl root ctx hash source g key =
     andThen (ctxErr ctx) (\<lambda>_.
       if length hash < 3 then fail (ErrText ''invalid object hash'')
       else if key = [] then fail (ErrText ''symmetric key is required'')
       else
         (let prefixDirectory = Join [EncryptedGenerationPath root g True, take 2 hash];
              objectPath = Join [prefixDirectory, drop 2 hash]
          in andThen (orWrap ''create encrypted SSH directory'' (sftp_MkdirAll cl prefixDirectory)) (\<lambda>_.
             andThen (orWrap ''create rekeyed SSH object'' (sftp_OpenTrunc cl objectPath)) (\<lambda>destination.
             ssh_rekey_transfer lib cl ctx source key objectPath destination))))"

text \<open>Deleting a generation, file by file; a missing file is no error, a directory among the files is one.\<close>

definition unless_missing :: "string \<Rightarrow> ('z, unit) os \<Rightarrow> ('z, unit) os" where
  "unless_missing msg m = tryCatch m (\<lambda>e. if os_IsNotExist e then return () else fail (Wrapped msg e)) return"

definition ssh_delete_entry :: "'z sftp_client \<Rightarrow> ctx \<Rightarrow> string \<Rightarrow> file_info \<Rightarrow> ('z, unit) os" where
  "ssh_delete_entry cl ctx prefixPath entry =
     andThen (ctxErr ctx) (\<lambda>_.
       if fi_IsDir entry then fail (ErrText ''unexpected directory inside encrypted generation'')
       else unless_missing ''delete encrypted SSH object'' (sftp_Remove cl (Join [prefixPath, fi_Name entry])))"

definition ssh_delete_prefix :: "'z sftp_client \<Rightarrow> ctx \<Rightarrow> string \<Rightarrow> file_info \<Rightarrow> ('z, unit) os" where
  "ssh_delete_prefix cl ctx directory pd =
     andThen (ctxErr ctx) (\<lambda>_.
       (let prefixPath = Join [directory, fi_Name pd]
        in if \<not> fi_IsDir pd then unless_missing ''delete encrypted SSH object'' (sftp_Remove cl prefixPath)
           else andThen (orWrap ''list encrypted SSH directory'' (sftp_ReadDir cl prefixPath)) (\<lambda>entries.
             andThen (for_each (ssh_delete_entry cl ctx prefixPath) entries) (\<lambda>_.
             unless_missing ''delete encrypted SSH directory'' (sftp_RemoveDirectory cl prefixPath)))))"

definition ssh_DeleteEncryptedGeneration :: "'z sftp_client \<Rightarrow> string \<Rightarrow> ctx \<Rightarrow> uint64 \<Rightarrow> ('z, unit) os" where
  "ssh_DeleteEncryptedGeneration cl root ctx g =
     andThen (ctxErr ctx) (\<lambda>_.
       (let directory = EncryptedGenerationPath root g True
        in tryCatch (sftp_ReadDir cl directory)
             (\<lambda>e. if os_IsNotExist e then return () else fail (Wrapped ''list encrypted generation'' e))
             (\<lambda>pds. andThen (for_each (ssh_delete_prefix cl ctx directory) pds) (\<lambda>_.
                unless_missing ''delete encrypted generation'' (sftp_RemoveDirectory cl directory)))))"

definition ssh_AbortRekey :: "'z sftp_client \<Rightarrow> string \<Rightarrow> ctx \<Rightarrow> uint64 \<Rightarrow> ('z, unit) os" where
  "ssh_AbortRekey cl root ctx g = orWrap ''abort rekey generation'' (ssh_DeleteEncryptedGeneration cl root ctx g)"

definition ssh_ReadObject ::
  "library \<Rightarrow> 'z sftp_client \<Rightarrow> string \<Rightarrow> ctx \<Rightarrow> string \<Rightarrow> bytes \<Rightarrow> uint64 \<Rightarrow> ('z, 'z ReadCloser) os" where
  "ssh_ReadObject lib cl root ctx hash key g =
     andThen (ctxErr ctx) (\<lambda>_.
       if length hash < 3 then fail (ErrText ''invalid object hash'')
       else andThen (lift_outcome (GetObjectsPath root hash g key True)) (\<lambda>dest.
         tryCatch (sftp_Open cl (ObjectPath dest))
           (\<lambda>e. if errors_Is e ErrNotExist \<or> os_IsNotExist e then fail (SnapshotNotFoundError hash)
                else fail (Wrapped ''open SSH object'' e))
           (\<lambda>reader. if key = [] then return reader else decoded_reader lib reader key)))"

definition ssh_SaveChunk ::
  "library \<Rightarrow> 'z sftp_client \<Rightarrow> string \<Rightarrow> ctx \<Rightarrow> string \<Rightarrow> string \<Rightarrow> int \<Rightarrow> int \<Rightarrow> Compression option \<Rightarrow> bytes \<Rightarrow>
   uint64 \<Rightarrow> ('z, unit) os" where
  "ssh_SaveChunk lib cl root ctx filePath hash offset sz cmp key g =
     andThen (ctxErr ctx) (\<lambda>_.
     andThen (OpenSource filePath hash offset sz cmp) (\<lambda>source.
     deferring
       (andThen (Encoder_Encode lib ctx filePath hash offset sz cmp key source) (\<lambda>encoded.
        andThen (lift_outcome (GetObjectsPath root hash g key True)) (\<lambda>dest.
        andThen (orWrap ''create SSH object directory'' (sftp_MkdirAll cl (DirectoryPath dest))) (\<lambda>_.
        andThen (orWrap ''create SSH object'' (sftp_OpenTrunc cl (ObjectPath dest))) (\<lambda>destination.
        deferring
          (andThen (orWrap ''write SSH object'' (copy_into destination ctx encoded)) (\<lambda>_.
           orWrap ''close SSH object'' (rf_Close destination)))
          (\<lambda>writeCompleted. andThen (ignoring (rf_Close destination)) (\<lambda>_.
             if writeCompleted then return () else ignoring (sftp_Remove cl (ObjectPath dest)))))))))
       (\<lambda>_. ignoring (os_Close source))))"

definition ssh_restoreObjectPart ::
  "library \<Rightarrow> 'z sftp_client \<Rightarrow> string \<Rightarrow> ctx \<Rightarrow> bytes \<Rightarrow> uint64 \<Rightarrow> Compression \<Rightarrow> string \<Rightarrow> fspath \<Rightarrow> ('z, int) os" where
  "ssh_restoreObjectPart lib cl root ctx key g co hash destination =
     andThen (ctxErr ctx) (\<lambda>_.
       if length hash < 3 then fail (ErrText ''invalid object hash'')
       else andThen (lift_outcome (GetObjectsPath root hash g key True)) (\<lambda>dest.
         andThen (orWrap ''open remote object'' (sftp_Open cl (ObjectPath dest))) (\<lambda>source.
         restore_from lib ''decode remote object'' ''copy decoded remote object'' ctx co destination key source)))"

text \<open>Without success the restored file is closed, again if closing it failed, and removed.\<close>

definition ssh_RestoreObject ::
  "library \<Rightarrow> 'z sftp_client \<Rightarrow> string \<Rightarrow> ctx \<Rightarrow> Compression option \<Rightarrow> SnapFile \<Rightarrow> bytes \<Rightarrow> uint64 \<Rightarrow> ('z, unit) os" where
  "ssh_RestoreObject lib cl root ctx cmp obj key g =
     andThen (ctxErr ctx) (\<lambda>_.
     (case cmp of
        None \<Rightarrow> fail (ErrText ''compression configuration is required'')
      | Some co \<Rightarrow>
          andThen (lift_outcome (GetHashes (Some obj))) (\<lambda>hashes.
          andThen (orWrap ''create local destination directory'' (os_MkdirAll (Dir_of (file_path obj)))) (\<lambda>_.
          andThen (orWrap ''create local restored file'' (os_Create (file_path obj))) (\<lambda>destination.
          deferring
            (andThen (restored_size ''restore remote part''
               (\<lambda>h. ssh_restoreObjectPart lib cl root ctx key g co h destination) ctx obj hashes) (\<lambda>_.
             orWrap ''close local restored file'' (os_Close destination)))
            (\<lambda>restoreCompleted.
               if restoreCompleted then return ()
               else andThen (ignoring (os_Close destination)) (\<lambda>_. ignoring (os_Remove (file_path obj)))))))))"

definition ssh_AlreadyExists :: "'z sftp_client \<Rightarrow> string \<Rightarrow> ctx \<Rightarrow> string \<Rightarrow> bytes \<Rightarrow> uint64 \<Rightarrow> ('z, bool) os" where
  "ssh_AlreadyExists cl root ctx hash key g =
     andThen (ctxErr ctx) (\<lambda>_.
       if length hash < 3 then fail (ErrText ''invalid object hash'')
       else andThen (lift_outcome (GetObjectsPath root hash g key True)) (\<lambda>dest.
         tryCatch (sftp_Stat cl (ObjectPath dest))
           (\<lambda>e. if errors_Is e ErrNotExist then return False
                else fail (Wrapped ''check remote destination object'' e))
           (\<lambda>_. return True)))"

text \<open>The transfer of a whole object; the error of closing the encryption is dropped, as on disk.\<close>

definition ssh_save_transfer ::
  "library \<Rightarrow> ctx \<Rightarrow> fspath \<Rightarrow> Compression \<Rightarrow> bytes \<Rightarrow> 'z remote_file \<Rightarrow> ('z, unit) os" where
  "ssh_save_transfer lib ctx source co key destination =
     andThen (orWrap ''get compression handler'' (lift_outcome (GetHandler (compType co)))) (\<lambda>h.
     andThen (if key = [] then return () else orWrap ''create encryption writer'' (lift_outcome (AESGCM_Encode key))) (\<lambda>_.
     tryCatch (lift_outcome (Handler_Encode (lib_codecs lib) h (level co)))
       (\<lambda>e. andThen (ignoring (remote_closeEncryption lib key [] destination)) (\<lambda>_. fail (Wrapped ''encode remote object'' e)))
       (\<lambda>enc w.
         (case encoder_copy h enc (remote_output key destination) (file_stream ctx source) w of
            ((got, k, Some e), w') \<Rightarrow> fail (Wrapped ''write local file to remote object'' e) w'
          | ((got, k, None), w') \<Rightarrow>
              andThen (orWrap ''close encoder for remote object''
                (encoder_close h enc (remote_output key destination) got k)) (\<lambda>_.
              andThen (ignoring (remote_closeEncryption lib key (enc got) destination)) (\<lambda>_.
              orWrap ''close remote object file'' (rf_Close destination))) w'))))"

definition ssh_Save ::
  "library \<Rightarrow> 'z sftp_client \<Rightarrow> string \<Rightarrow> ctx \<Rightarrow> string \<Rightarrow> string \<Rightarrow> Compression option \<Rightarrow> bytes \<Rightarrow> uint64 \<Rightarrow>
   ('z, unit) os" where
  "ssh_Save lib cl root ctx filePath hash cmp key g =
     andThen (ctxErr ctx) (\<lambda>_.
     (case cmp of
        None \<Rightarrow> fail (ErrText ''compression configuration is required'')
      | Some co \<Rightarrow>
          (if length hash < 3 then fail (ErrText ''invalid object hash'')
           else andThen (lift_outcome (GetObjectsPath root hash g key True)) (\<lambda>dest.
             andThen (orWrap ''create remote object directory'' (sftp_MkdirAll cl (DirectoryPath dest))) (\<lambda>_.
             andThen (orWrap ''open local source file'' (os_Open filePath)) (\<lambda>source.
             deferring
               (tryCatch (sftp_OpenExcl cl (ObjectPath dest))
                  (\<lambda>e. if os_IsExist e then return () else fail (Wrapped ''create remote object file'' e))
                  (\<lambda>destination.
                    deferring (ssh_save_transfer lib ctx source co key destination)
                      (\<lambda>writeCompleted. andThen (ignoring (rf_Close destination)) (\<lambda>_.
                         if writeCompleted then return () else ignoring (sftp_Remove cl (ObjectPath dest))))))
               (\<lambda>_. ignoring (os_Close source))))))))"

definition SSHObjectRepository :: "library \<Rightarrow> 'z sftp_client \<Rightarrow> string \<Rightarrow> 'z ObjectRepository" where
  "SSHObjectRepository lib cl root =
     \<lparr>SaveObject = ssh_Save lib cl root,
      AlreadyExists = ssh_AlreadyExists cl root,
      ReadObject = ssh_ReadObject lib cl root,
      RestoreObject = ssh_RestoreObject lib cl root,
      SaveChunk = ssh_SaveChunk lib cl root,
      ListEncryptedObjects = ssh_ListEncryptedObjects cl root,
      ReadEncryptedObject = ssh_ReadEncryptedObject lib cl root,
      SaveRekeyedObject = ssh_SaveRekeyedObject lib cl root,
      DeleteEncryptedGeneration = ssh_DeleteEncryptedGeneration cl root,
      AbortRekey = ssh_AbortRekey cl root\<rparr>"

subsection \<open>Configuration\<close>

definition ssh_Exists :: "'z sftp_client \<Rightarrow> ctx \<Rightarrow> string \<Rightarrow> ('z, bool) os" where
  "ssh_Exists cl ctx repositoryPath =
     andThen (ctxErr ctx) (\<lambda>_.
     tryCatch (sftp_Stat cl repositoryPath)
       (\<lambda>e. if errors_Is e ErrNotExist then return False else fail (Wrapped ''stat remote repository'' e))
       (\<lambda>_. return True))"

definition ssh_CreateFolder :: "'z sftp_client \<Rightarrow> ctx \<Rightarrow> string \<Rightarrow> ('z, unit) os" where
  "ssh_CreateFolder cl ctx folderPath =
     andThen (ctxErr ctx) (\<lambda>_. orWrap ''create remote folder'' (sftp_MkdirAll cl folderPath))"

definition ssh_writeFile :: "'z sftp_client \<Rightarrow> ctx \<Rightarrow> string \<Rightarrow> bytes \<Rightarrow> ('z, unit) os" where
  "ssh_writeFile cl ctx filePath data =
     andThen (orWrap ''create remote file'' (sftp_Create cl filePath)) (\<lambda>file.
     tryCatch (copy_into file ctx data)
       (\<lambda>e. andThen (ignoring (rf_Close file)) (\<lambda>_.
          andThen (ignoring (sftp_Remove cl filePath)) (\<lambda>_. fail (Wrapped ''write remote file'' e))))
       (\<lambda>_. orWrap ''close remote file'' (rf_Close file)))"

text \<open>The configuration is written to a temporary file that then replaces it.\<close>

definition ssh_CreateConfig :: "library \<Rightarrow> 'z sftp_client \<Rightarrow> ctx \<Rightarrow> string \<Rightarrow> Config \<Rightarrow> ('z, unit) os" where
  "ssh_CreateConfig lib cl ctx repositoryPath c =
     andThen (orWrap ''encode config'' (MarshalConfig lib ctx c)) (\<lambda>data.
       (let configPath = Join [repositoryPath, ConfigFile];
            temporaryPath = configPath @ ''.tmp''
        in andThen (ssh_writeFile cl ctx temporaryPath data) (\<lambda>_.
           tryCatch (ctxErr ctx)
             (\<lambda>e. andThen (ignoring (sftp_Remove cl temporaryPath)) (\<lambda>_. fail e))
             (\<lambda>_. tryCatch (sftp_PosixRename cl temporaryPath configPath)
                (\<lambda>e. andThen (ignoring (sftp_Remove cl temporaryPath)) (\<lambda>_.
                   fail (Wrapped ''replace remote config'' e)))
                return))))"

definition ssh_GetConfig ::
  "library \<Rightarrow> (bytes \<times> error option \<Rightarrow> model_Config outcome) \<Rightarrow> 'z sftp_client \<Rightarrow> ctx \<Rightarrow> string \<Rightarrow> ('z, Config) os" where
  "ssh_GetConfig lib decodeJSON cl ctx repositoryPath =
     andThen (ctxErr ctx) (\<lambda>_.
     andThen (orWrap ''open remote config'' (sftp_Open cl (Join [repositoryPath, ConfigFile]))) (\<lambda>file.
     deferring
       (andThen (orWrap ''decode remote config''
          (\<lambda>w. case rc_Read file ctx w of (got, w') \<Rightarrow> (decodeJSON got, w'))) (\<lambda>conf.
        BuildConfigDomain lib conf))
       (\<lambda>_. ignoring (rc_Close file))))"

definition SSHFolderRepository ::
  "library \<Rightarrow> (bytes \<times> error option \<Rightarrow> model_Config outcome) \<Rightarrow> 'z sftp_client \<Rightarrow> 'z FolderRepository" where
  "SSHFolderRepository lib decodeJSON cl =
     \<lparr>Exists = ssh_Exists cl, CreateFolder = ssh_CreateFolder cl,
      CreateConfig = ssh_CreateConfig lib cl, GetConfig = ssh_GetConfig lib decodeJSON cl\<rparr>"

subsection \<open>Manifests\<close>

definition ssh_SaveManifest :: "library \<Rightarrow> 'z sftp_client \<Rightarrow> string \<Rightarrow> ctx \<Rightarrow> Manifest \<Rightarrow> ('z, unit) os" where
  "ssh_SaveManifest lib cl root ctx m =
     andThen (ctxErr ctx) (\<lambda>_.
     andThen (deref (man_compression m)) (\<lambda>cmp.
     andThen (orWrap ''marshal manifest''
       (lift_outcome (manifest_MarshalIndent (lib_text lib) (manifest_model m cmp)))) (\<lambda>data.
       (let snapshotsPath = Join [root, SnapshotsFolder];
            manifestPath = Join [snapshotsPath, json_name (man_id m)]
        in andThen (orWrap ''create remote snapshots directory'' (sftp_MkdirAll cl snapshotsPath)) (\<lambda>_.
           andThen (orWrap ''create remote manifest'' (sftp_OpenTrunc cl manifestPath)) (\<lambda>file.
           deferring
             (andThen (orWrap ''write remote manifest'' (copy_into file ctx (data @ [newline]))) (\<lambda>_.
              andThen (orWrap ''close remote manifest'' (rf_Close file)) (\<lambda>_.
              orWrap ''set remote manifest permissions'' (sftp_Chmod cl manifestPath))))
             (\<lambda>writeCompleted. andThen (ignoring (rf_Close file)) (\<lambda>_.
                if writeCompleted then return () else ignoring (sftp_Remove cl manifestPath)))))))))"

definition ssh_read_entry :: "library \<Rightarrow> 'z sftp_client \<Rightarrow> ctx \<Rightarrow> string \<Rightarrow> file_info \<Rightarrow> ('z, Manifest list) os" where
  "ssh_read_entry lib cl ctx snapshotsPath entry =
     andThen (ctxErr ctx) (\<lambda>_.
       if fi_IsDir entry then return []
       else
         andThen (orWrap ''open remote manifest'' (sftp_Open cl (Join [snapshotsPath, fi_Name entry]))) (\<lambda>file.
         andThen (read_and_close ''read remote manifest'' ''close remote manifest'' ctx file) (\<lambda>data.
         andThen (orWrap ''build manifest'' (lift_outcome (BuildManifestDomain lib data))) (\<lambda>m. return [m]))))"

definition ssh_ListManifests :: "library \<Rightarrow> 'z sftp_client \<Rightarrow> string \<Rightarrow> ctx \<Rightarrow> ('z, Manifest list) os" where
  "ssh_ListManifests lib cl root ctx =
     andThen (ctxErr ctx) (\<lambda>_.
       (let snapshotsPath = Join [root, SnapshotsFolder]
        in andThen (orWrap ''read remote snapshots folder'' (sftp_ReadDir cl snapshotsPath)) (\<lambda>entries.
           andThen (for_each (ssh_read_entry lib cl ctx snapshotsPath) entries) (\<lambda>manifests.
           return (latest_first (concat manifests))))))"

definition ssh_GetManifest :: "library \<Rightarrow> 'z sftp_client \<Rightarrow> string \<Rightarrow> ctx \<Rightarrow> string \<Rightarrow> ('z, Manifest) os" where
  "ssh_GetManifest lib cl root ctx snapshot =
     andThen (ctxErr ctx) (\<lambda>_.
     tryCatch (sftp_Open cl (Join [root, SnapshotsFolder, json_name snapshot]))
       (\<lambda>e. if os_IsNotExist e then fail (RepositoryNotFoundError ''manifest not found'')
            else fail (Wrapped ''open remote manifest'' e))
       (\<lambda>file. deferring
          (andThen (orWrap ''read remote manifest'' (read_to_end (rc_Read file ctx))) (\<lambda>data.
           lift_outcome (BuildManifestDomain lib data)))
          (\<lambda>_. ignoring (rc_Close file))))"

definition SSHManifestRepository :: "library \<Rightarrow> 'z sftp_client \<Rightarrow> string \<Rightarrow> 'z ManifestRepository" where
  "SSHManifestRepository lib cl root =
     \<lparr>SaveManifest = ssh_SaveManifest lib cl root, ListManifests = ssh_ListManifests lib cl root,
      GetManifest = ssh_GetManifest lib cl root\<rparr>"

end
