(* ===== verification/SMB.thy ===== *)
theory SMB
  imports Remote
begin

section \<open>Repositories on an SMB share\<close>

text \<open>
  \<^verbatim>\<open>internal/infra/smb\<close>. The share is a record of functions; each takes the context the share was
  bound to (\<^verbatim>\<open>WithContext\<close>), which is the background for the repository of objects. The share
  returns Go's \<^verbatim>\<open>os.ErrNotExist\<close> and \<^verbatim>\<open>os.ErrExist\<close> for the statuses that mean them.
  The backend cannot delete an encrypted generation: the operation only logs a warning.
\<close>

subsection \<open>The share\<close>

record 'z smb_file =
  sf_file :: "'z remote_file"
  sf_WriteAt :: "bytes \<Rightarrow> int \<Rightarrow> ('z, unit) os"
  sf_Truncate :: "int \<Rightarrow> ('z, unit) os"

record 'z smb_share =
  smb_ReadDir :: "ctx \<Rightarrow> string \<Rightarrow> ('z, file_info list) os"
  smb_Open :: "ctx \<Rightarrow> string \<Rightarrow> ('z, 'z ReadCloser) os"
  smb_OpenTrunc :: "ctx \<Rightarrow> string \<Rightarrow> ('z, 'z smb_file) os"
  smb_OpenExcl :: "ctx \<Rightarrow> string \<Rightarrow> ('z, 'z smb_file) os"
  smb_OpenCreate :: "ctx \<Rightarrow> string \<Rightarrow> ('z, 'z smb_file) os"
  smb_ReadFile :: "ctx \<Rightarrow> string \<Rightarrow> ('z, bytes) os"
  smb_MkdirAll :: "ctx \<Rightarrow> string \<Rightarrow> ('z, unit) os"
  smb_Remove :: "ctx \<Rightarrow> string \<Rightarrow> ('z, unit) os"
  smb_Stat :: "ctx \<Rightarrow> string \<Rightarrow> ('z, file_info) os"

subsection \<open>Objects\<close>

definition smb_ListEncryptedObjects :: "'z smb_share \<Rightarrow> string \<Rightarrow> ctx \<Rightarrow> uint64 \<Rightarrow> ('z, string list) os" where
  "smb_ListEncryptedObjects sh root ctx g =
     andThen (ctxErr ctx) (\<lambda>_.
       (let directory = EncryptedGenerationPath root g True
        in tryCatch (smb_ReadDir sh background directory)
             (\<lambda>e. if os_IsNotExist e then return [] else fail (Wrapped ''list encrypted generation'' e))
             (list_generation (smb_ReadDir sh background) ''list encrypted object directory'' ctx directory)))"

definition smb_ReadEncryptedObject ::
  "library \<Rightarrow> 'z smb_share \<Rightarrow> string \<Rightarrow> ctx \<Rightarrow> string \<Rightarrow> uint64 \<Rightarrow> bytes \<Rightarrow> ('z, 'z ReadCloser) os" where
  "smb_ReadEncryptedObject lib sh root ctx hash g key =
     andThen (ctxErr ctx) (\<lambda>_.
       if length hash < 3 then fail (ErrText ''invalid object hash'')
       else if key = [] then fail (ErrText ''symmetric key is required'')
       else tryCatch (smb_Open sh background (Join [EncryptedGenerationPath root g True, take 2 hash, drop 2 hash]))
         (\<lambda>e. if os_IsNotExist e then fail (Wrapped ''encrypted object'' ErrNotExist)
              else fail (Wrapped ''open encrypted SMB object'' e))
         (\<lambda>source. tryCatch (ctxErr ctx)
            (\<lambda>e. andThen (ignoring (rc_Close source)) (\<lambda>_. fail e))
            (\<lambda>_. decoded_reader lib source key)))"

definition smb_abortSave :: "'z smb_share \<Rightarrow> 'z remote_file \<Rightarrow> string \<Rightarrow> error \<Rightarrow> ('z, 'a) os" where
  "smb_abortSave sh destination objectPath e =
     andThen (ignoring (rf_Close destination)) (\<lambda>_.
     andThen (ignoring (smb_Remove sh background objectPath)) (\<lambda>_. fail e))"

definition smb_rekey_transfer ::
  "library \<Rightarrow> 'z smb_share \<Rightarrow> ctx \<Rightarrow> 'z ReadCloser \<Rightarrow> bytes \<Rightarrow> string \<Rightarrow> 'z remote_file \<Rightarrow> ('z, unit) os" where
  "smb_rekey_transfer lib sh ctx source key objectPath destination =
     tryCatch (lift_outcome (AESGCM_Encode key))
       (\<lambda>e. smb_abortSave sh destination objectPath (Wrapped ''create encryption encoder'' e))
       (\<lambda>_ w. case rc_Read source background w of
          ((got, Some e), w') \<Rightarrow>
            andThen (ignoring (AESGCM_Close (lib_crypto lib) key got (rf_Write destination))) (\<lambda>_.
            smb_abortSave sh destination objectPath (Wrapped ''encrypt rekeyed object'' e)) w'
        | ((got, None), w') \<Rightarrow>
            tryCatch (ctxErr ctx)
              (\<lambda>e. andThen (ignoring (AESGCM_Close (lib_crypto lib) key got (rf_Write destination))) (\<lambda>_.
                 smb_abortSave sh destination objectPath e))
              (\<lambda>_. tryCatch (AESGCM_Close (lib_crypto lib) key got (rf_Write destination))
                 (\<lambda>e. smb_abortSave sh destination objectPath (Wrapped ''finalize encryption of rekeyed object'' e))
                 (\<lambda>_. tryCatch (rf_Close destination)
                    (\<lambda>e. andThen (ignoring (smb_Remove sh background objectPath)) (\<lambda>_.
                       fail (Wrapped ''close rekeyed SMB object'' e)))
                    return)) w')"

definition smb_SaveRekeyedObject ::
  "library \<Rightarrow> 'z smb_share \<Rightarrow> string \<Rightarrow> ctx \<Rightarrow> string \<Rightarrow> 'z ReadCloser \<Rightarrow> uint64 \<Rightarrow> bytes \<Rightarrow> ('z, unit) os" where
  "smb_SaveRekeyedObject lib sh root ctx hash source g key =
     andThen (ctxErr ctx) (\<lambda>_.
       if length hash < 3 then fail (ErrText ''invalid object hash'')
       else if key = [] then fail (ErrText ''symmetric key is required'')
       else
         (let prefixDirectory = Join [EncryptedGenerationPath root g True, take 2 hash];
              objectPath = Join [prefixDirectory, drop 2 hash]
          in andThen (orWrap ''create SMB encrypted object directory'' (smb_MkdirAll sh background prefixDirectory)) (\<lambda>_.
             andThen (orWrap ''create rekeyed SMB object'' (smb_OpenTrunc sh background objectPath)) (\<lambda>file.
             smb_rekey_transfer lib sh ctx source key objectPath (sf_file file)))))"

definition smb_DeleteEncryptedGeneration :: "ctx \<Rightarrow> uint64 \<Rightarrow> ('z, unit) os" where
  "smb_DeleteEncryptedGeneration ctx g = andThen (ctxErr ctx) (\<lambda>_. return ())"

definition smb_AbortRekey :: "ctx \<Rightarrow> uint64 \<Rightarrow> ('z, unit) os" where
  "smb_AbortRekey ctx g = orWrap ''abort rekey failed for generation'' (smb_DeleteEncryptedGeneration ctx g)"

definition smb_ReadObject ::
  "library \<Rightarrow> 'z smb_share \<Rightarrow> string \<Rightarrow> ctx \<Rightarrow> string \<Rightarrow> bytes \<Rightarrow> uint64 \<Rightarrow> ('z, 'z ReadCloser) os" where
  "smb_ReadObject lib sh root ctx hash key g =
     andThen (ctxErr ctx) (\<lambda>_.
       if length hash < 3 then fail (ErrText ''invalid object hash'')
       else andThen (lift_outcome (GetObjectsPath root hash g key True)) (\<lambda>dest.
         tryCatch (smb_Open sh background (ObjectPath dest))
           (\<lambda>e. if errors_Is e ErrNotExist \<or> os_IsNotExist e then fail (SnapshotNotFoundError hash)
                else fail (Wrapped ''open SMB object'' e))
           (\<lambda>reader. if key = [] then return reader else decoded_reader lib reader key)))"

definition smb_SaveChunk ::
  "library \<Rightarrow> 'z smb_share \<Rightarrow> string \<Rightarrow> ctx \<Rightarrow> string \<Rightarrow> string \<Rightarrow> int \<Rightarrow> int \<Rightarrow> Compression option \<Rightarrow> bytes \<Rightarrow>
   uint64 \<Rightarrow> ('z, unit) os" where
  "smb_SaveChunk lib sh root ctx filePath hash offset sz cmp key g =
     andThen (ctxErr ctx) (\<lambda>_.
     andThen (OpenSource filePath hash offset sz cmp) (\<lambda>source.
     deferring
       (andThen (Encoder_Encode lib ctx filePath hash offset sz cmp key source) (\<lambda>encoded.
        andThen (lift_outcome (GetObjectsPath root hash g key True)) (\<lambda>dest.
        andThen (orWrap ''create SMB object directory'' (smb_MkdirAll sh background (DirectoryPath dest))) (\<lambda>_.
        andThen (orWrap ''create SMB object'' (smb_OpenTrunc sh background (ObjectPath dest))) (\<lambda>file.
        tryCatch (copy_into (sf_file file) ctx encoded)
          (\<lambda>e. andThen (ignoring (rf_Close (sf_file file))) (\<lambda>_. fail (Wrapped ''write SMB object'' e)))
          (\<lambda>_. orWrap ''close SMB object'' (rf_Close (sf_file file))))))))
       (\<lambda>_. ignoring (os_Close source))))"

text \<open>
  Saving a whole object. What is removed when that fails is the directory of the object, not the object.
\<close>

definition smb_save_transfer ::
  "library \<Rightarrow> ctx \<Rightarrow> fspath \<Rightarrow> Compression option \<Rightarrow> bytes \<Rightarrow> 'z remote_file \<Rightarrow> ('z, unit) os" where
  "smb_save_transfer lib ctx source cmp key destination =
     andThen (deref cmp) (\<lambda>co.
     andThen (lift_outcome (GetHandler (compType co))) (\<lambda>h.
     andThen (if key = [] then return () else orWrap ''create encryption writer'' (lift_outcome (AESGCM_Encode key))) (\<lambda>_.
     tryCatch (lift_outcome (Handler_Encode (lib_codecs lib) h (level co)))
       (\<lambda>e. andThen (ignoring (remote_closeEncryption lib key [] destination)) (\<lambda>_.
          fail (Wrapped ''create encoder for object'' e)))
       (\<lambda>enc w.
         (case encoder_copy h enc (remote_output key destination) (file_stream ctx source) w of
            ((got, k, Some e), w') \<Rightarrow>
              andThen (ignoring (remote_closeEncryption lib key (take k (enc got)) destination)) (\<lambda>_.
              fail (Wrapped ''write object'' e)) w'
          | ((got, k, None), w') \<Rightarrow>
              andThen (orWrap ''close encoder for object''
                (encoder_close h enc (remote_output key destination) got k)) (\<lambda>_.
              ignoring (remote_closeEncryption lib key (enc got) destination)) w')))))"

definition smb_Save ::
  "library \<Rightarrow> 'z smb_share \<Rightarrow> string \<Rightarrow> ctx \<Rightarrow> string \<Rightarrow> string \<Rightarrow> Compression option \<Rightarrow> bytes \<Rightarrow> uint64 \<Rightarrow>
   ('z, unit) os" where
  "smb_Save lib sh root ctx filePath hash cmp key g =
     andThen (ctxErr ctx) (\<lambda>_.
       if length hash < 3 then fail (ErrText ''invalid object hash'')
       else andThen (lift_outcome (GetObjectsPath root hash g key True)) (\<lambda>dest.
         andThen (orWrap ''create object directory'' (smb_MkdirAll sh background (DirectoryPath dest))) (\<lambda>_.
         andThen (orWrap ''open source file'' (os_Open filePath)) (\<lambda>source.
         deferring
           (tryCatch (smb_OpenExcl sh background (ObjectPath dest))
              (\<lambda>e. if errors_Is e ErrExist then return () else fail (Wrapped ''create object file'' e))
              (\<lambda>file.
                deferring
                  (andThen
                     (deferring (smb_save_transfer lib ctx source cmp key (sf_file file))
                        (\<lambda>ok. if ok then return () else ignoring (rf_Close (sf_file file))))
                     (\<lambda>_. orWrap ''close object file'' (rf_Close (sf_file file))))
                  (\<lambda>writeCompleted.
                     if writeCompleted then return () else ignoring (smb_Remove sh background (DirectoryPath dest)))))
           (\<lambda>_. ignoring (os_Close source))))))"

definition smb_AlreadyExists :: "'z smb_share \<Rightarrow> string \<Rightarrow> ctx \<Rightarrow> string \<Rightarrow> bytes \<Rightarrow> uint64 \<Rightarrow> ('z, bool) os" where
  "smb_AlreadyExists sh root ctx hash key g =
     andThen (ctxErr ctx) (\<lambda>_.
       if length hash < 3 then fail (ErrText ''invalid object hash'')
       else andThen (lift_outcome (GetObjectsPath root hash g key True)) (\<lambda>dest.
         tryCatch (smb_Stat sh background (ObjectPath dest))
           (\<lambda>e. if errors_Is e ErrNotExist then return False else fail (Wrapped ''check destination file'' e))
           (\<lambda>_. return True)))"

definition smb_restoreObjectPart ::
  "library \<Rightarrow> 'z smb_share \<Rightarrow> string \<Rightarrow> ctx \<Rightarrow> bytes \<Rightarrow> uint64 \<Rightarrow> Compression \<Rightarrow> string \<Rightarrow> fspath \<Rightarrow> ('z, int) os" where
  "smb_restoreObjectPart lib sh root ctx key g co hash destination =
     andThen (ctxErr ctx) (\<lambda>_.
       if length hash < 3 then fail (ErrText ''invalid object hash'')
       else andThen (lift_outcome (GetObjectsPath root hash g key True)) (\<lambda>dest.
         tryCatch (smb_Open sh background (ObjectPath dest))
           (\<lambda>e. if errors_Is e ErrNotExist then fail (SnapshotNotFoundError hash)
                else fail (Wrapped ''open SMB object'' e))
           (restore_from lib ''decode SMB object'' ''copy decoded SMB object'' ctx co destination key)))"

definition smb_RestoreObject ::
  "library \<Rightarrow> 'z smb_share \<Rightarrow> string \<Rightarrow> ctx \<Rightarrow> Compression option \<Rightarrow> SnapFile \<Rightarrow> bytes \<Rightarrow> uint64 \<Rightarrow> ('z, unit) os" where
  "smb_RestoreObject lib sh root ctx cmp obj key g =
     remote_RestoreObject ''restore SMB part'' (smb_restoreObjectPart lib sh root ctx key g) ctx cmp obj"

definition SMBObjectRepository :: "library \<Rightarrow> 'z smb_share \<Rightarrow> string \<Rightarrow> 'z ObjectRepository" where
  "SMBObjectRepository lib sh root =
     \<lparr>SaveObject = smb_Save lib sh root,
      AlreadyExists = smb_AlreadyExists sh root,
      ReadObject = smb_ReadObject lib sh root,
      RestoreObject = smb_RestoreObject lib sh root,
      SaveChunk = smb_SaveChunk lib sh root,
      ListEncryptedObjects = smb_ListEncryptedObjects sh root,
      ReadEncryptedObject = smb_ReadEncryptedObject lib sh root,
      SaveRekeyedObject = smb_SaveRekeyedObject lib sh root,
      DeleteEncryptedGeneration = smb_DeleteEncryptedGeneration,
      AbortRekey = smb_AbortRekey\<rparr>"

subsection \<open>Configuration\<close>

definition smb_Exists :: "'z smb_share \<Rightarrow> ctx \<Rightarrow> string \<Rightarrow> ('z, bool) os" where
  "smb_Exists sh ctx folderPath =
     andThen (ctxErr ctx) (\<lambda>_.
     tryCatch (smb_Stat sh ctx folderPath)
       (\<lambda>e. if os_IsNotExist e then return False else fail (Wrapped ''stat SMB directory'' e))
       (\<lambda>info. return (fi_IsDir info)))"

definition smb_CreateFolder :: "'z smb_share \<Rightarrow> ctx \<Rightarrow> string \<Rightarrow> ('z, unit) os" where
  "smb_CreateFolder sh ctx folderPath =
     andThen (ctxErr ctx) (\<lambda>_. orWrap ''create SMB directory'' (smb_MkdirAll sh ctx folderPath))"

text \<open>The configuration is overwritten in place and then cut to its length.\<close>

definition smb_CreateConfig :: "library \<Rightarrow> 'z smb_share \<Rightarrow> ctx \<Rightarrow> string \<Rightarrow> Config \<Rightarrow> ('z, unit) os" where
  "smb_CreateConfig lib sh ctx folderPath c =
     andThen (orWrap ''marshal config'' (MarshalConfig lib ctx c)) (\<lambda>data.
     andThen (orWrap ''open config'' (smb_OpenCreate sh ctx (Join [folderPath, ConfigFile]))) (\<lambda>file.
     tryCatch (sf_WriteAt file data 0)
       (\<lambda>e. andThen (ignoring (rf_Close (sf_file file))) (\<lambda>_. fail (Wrapped ''write config'' e)))
       (\<lambda>_. tryCatch (sf_Truncate file (int (length data)))
          (\<lambda>e. andThen (ignoring (rf_Close (sf_file file))) (\<lambda>_. fail (Wrapped ''truncate config'' e)))
          (\<lambda>_. orWrap ''close config'' (rf_Close (sf_file file))))))"

definition smb_GetConfig :: "library \<Rightarrow> 'z smb_share \<Rightarrow> ctx \<Rightarrow> string \<Rightarrow> ('z, Config) os" where
  "smb_GetConfig lib sh ctx folderPath =
     andThen (ctxErr ctx) (\<lambda>_.
     tryCatch (smb_ReadFile sh ctx (Join [folderPath, ConfigFile]))
       (\<lambda>e. if errors_Is e ErrNotExist then fail (RepositoryNotFoundError ''config file not found'')
            else fail (Wrapped ''read SMB config'' e))
       (\<lambda>data.
        andThen (orWrap ''unmarshal config'' (lift_outcome (config_Unmarshal (lib_text lib) data))) (\<lambda>conf.
        BuildConfigDomain lib conf)))"

definition SMBFolderRepository :: "library \<Rightarrow> 'z smb_share \<Rightarrow> 'z FolderRepository" where
  "SMBFolderRepository lib sh =
     \<lparr>Exists = smb_Exists sh, CreateFolder = smb_CreateFolder sh,
      CreateConfig = smb_CreateConfig lib sh, GetConfig = smb_GetConfig lib sh\<rparr>"

subsection \<open>Manifests\<close>

definition smb_SaveManifest :: "library \<Rightarrow> 'z smb_share \<Rightarrow> string \<Rightarrow> ctx \<Rightarrow> Manifest \<Rightarrow> ('z, unit) os" where
  "smb_SaveManifest lib sh root ctx m =
     andThen (ctxErr ctx) (\<lambda>_.
     andThen (deref (man_compression m)) (\<lambda>cmp.
     andThen (orWrap ''marshal manifest''
       (lift_outcome (manifest_MarshalIndent (lib_text lib) (manifest_model m cmp)))) (\<lambda>data.
     andThen (orWrap ''open manifest''
       (smb_OpenTrunc sh background (Join [root, SnapshotsFolder, json_name (man_id m)]))) (\<lambda>file.
     tryCatch (rf_Write (sf_file file) (data @ [newline]))
       (\<lambda>e. andThen (ignoring (rf_Close (sf_file file))) (\<lambda>_. fail (Wrapped ''write manifest'' e)))
       (\<lambda>_. orWrap ''close manifest'' (rf_Close (sf_file file)))))))"

definition smb_read_entry :: "library \<Rightarrow> 'z smb_share \<Rightarrow> ctx \<Rightarrow> string \<Rightarrow> file_info \<Rightarrow> ('z, Manifest list) os" where
  "smb_read_entry lib sh ctx snapshotsPath entry =
     andThen (ctxErr ctx) (\<lambda>_.
       if fi_IsDir entry then return []
       else andThen (orWrap ''read manifest'' (smb_ReadFile sh background (Join [snapshotsPath, fi_Name entry]))) (\<lambda>data.
         andThen (lift_outcome (BuildManifestDomain lib data)) (\<lambda>m. return [m])))"

definition smb_ListManifests :: "library \<Rightarrow> 'z smb_share \<Rightarrow> string \<Rightarrow> ctx \<Rightarrow> ('z, Manifest list) os" where
  "smb_ListManifests lib sh root ctx =
     andThen (ctxErr ctx) (\<lambda>_.
       (let snapshotsPath = Join [root, SnapshotsFolder]
        in andThen (orWrap ''read snapshots folder'' (smb_ReadDir sh background snapshotsPath)) (\<lambda>entries.
           andThen (for_each (smb_read_entry lib sh ctx snapshotsPath) entries) (\<lambda>manifests.
           return (latest_first (concat manifests))))))"

definition smb_GetManifest :: "library \<Rightarrow> 'z smb_share \<Rightarrow> string \<Rightarrow> ctx \<Rightarrow> string \<Rightarrow> ('z, Manifest) os" where
  "smb_GetManifest lib sh root ctx snapshot =
     andThen (ctxErr ctx) (\<lambda>_.
     tryCatch (smb_ReadFile sh background (Join [root, SnapshotsFolder, json_name snapshot]))
       (\<lambda>e. if errors_Is e ErrNotExist then fail (RepositoryNotFoundError ''manifest not found'')
            else fail (Wrapped ''read manifest'' e))
       (\<lambda>data. lift_outcome (BuildManifestDomain lib data)))"

definition SMBManifestRepository :: "library \<Rightarrow> 'z smb_share \<Rightarrow> string \<Rightarrow> 'z ManifestRepository" where
  "SMBManifestRepository lib sh root =
     \<lparr>SaveManifest = smb_SaveManifest lib sh root, ListManifests = smb_ListManifests lib sh root,
      GetManifest = smb_GetManifest lib sh root\<rparr>"

end
