(* ===== verification/WebDAV.thy ===== *)
theory WebDAV
  imports Remote
begin

section \<open>Repositories on a WebDAV server\<close>

text \<open>
  \<^verbatim>\<open>internal/infra/webdav\<close>. The client is a record of functions and the library's test for a missing
  path. The mutex of the repository makes \<open>webdav_ensureDirectory\<close> and the writing of a rekeyed object
  exclude each other; the set of created directories that it also guards is written and never read, so it is
  left out.
\<close>

subsection \<open>The client\<close>

record 'z webdav_client =
  wd_ReadDir :: "string \<Rightarrow> ('z, file_info list) os"
  wd_ReadStream :: "string \<Rightarrow> ('z, 'z ReadCloser) os"
  wd_WriteStream :: "string \<Rightarrow> bytes \<Rightarrow> ('z, unit) os"
  wd_Read :: "string \<Rightarrow> ('z, bytes) os"
  wd_Write :: "string \<Rightarrow> bytes \<Rightarrow> ('z, unit) os"
  wd_Remove :: "string \<Rightarrow> ('z, unit) os"
  wd_Stat :: "string \<Rightarrow> ('z, file_info) os"
  wd_MkdirAll :: "string \<Rightarrow> ('z, unit) os"
  IsErrNotFound :: "error \<Rightarrow> bool"

subsection \<open>Objects\<close>

definition webdav_ListEncryptedObjects :: "'z webdav_client \<Rightarrow> string \<Rightarrow> ctx \<Rightarrow> uint64 \<Rightarrow> ('z, string list) os" where
  "webdav_ListEncryptedObjects cl root ctx g =
     andThen (ctxErr ctx) (\<lambda>_.
       (let directory = EncryptedGenerationPath root g True
        in tryCatch (wd_ReadDir cl directory)
             (\<lambda>e. if IsErrNotFound cl e then return [] else fail (Wrapped ''list encrypted generation'' e))
             (list_generation (wd_ReadDir cl) ''list encrypted WebDAV directory'' ctx directory)))"

definition webdav_ReadEncryptedObject ::
  "library \<Rightarrow> 'z webdav_client \<Rightarrow> string \<Rightarrow> ctx \<Rightarrow> string \<Rightarrow> uint64 \<Rightarrow> bytes \<Rightarrow> ('z, 'z ReadCloser) os" where
  "webdav_ReadEncryptedObject lib cl root ctx hash g key =
     andThen (ctxErr ctx) (\<lambda>_.
       if length hash < 3 then fail (ErrText ''invalid object hash'')
       else if key = [] then fail (ErrText ''symmetric key is required'')
       else tryCatch (wd_ReadStream cl (Join [EncryptedGenerationPath root g True, take 2 hash, drop 2 hash]))
         (\<lambda>e. if IsErrNotFound cl e then fail (Wrapped ''encrypted object'' ErrNotExist)
              else fail (Wrapped ''open encrypted WebDAV object'' e))
         (\<lambda>source. tryCatch (ctxErr ctx)
            (\<lambda>e. andThen (ignoring (rc_Close source)) (\<lambda>_. fail e))
            (\<lambda>_. decoded_reader lib source key)))"

definition webdav_ensureDirectory :: "'z webdav_client \<Rightarrow> string \<Rightarrow> ('z, unit) os" where
  "webdav_ensureDirectory cl directoryPath =
     tryCatch (wd_Stat cl directoryPath)
       (\<lambda>e. if \<not> IsErrNotFound cl e then fail (Wrapped ''stat WebDAV directory'' e)
            else orWrap ''create WebDAV directory'' (wd_MkdirAll cl directoryPath))
       (\<lambda>info. if fi_IsDir info then return ()
               else fail (ErrText ''WebDAV path exists and is not a directory''))"

text \<open>A rekeyed object is encrypted in memory, sent in one stream, and removed when that fails.\<close>

definition webdav_SaveRekeyedObject ::
  "library \<Rightarrow> 'z webdav_client \<Rightarrow> string \<Rightarrow> ctx \<Rightarrow> string \<Rightarrow> 'z ReadCloser \<Rightarrow> uint64 \<Rightarrow> bytes \<Rightarrow> ('z, unit) os" where
  "webdav_SaveRekeyedObject lib cl root ctx hash source g key =
     andThen (ctxErr ctx) (\<lambda>_.
       if length hash < 3 then fail (ErrText ''invalid object hash'')
       else if key = [] then fail (ErrText ''symmetric key is required'')
       else
         (let prefixDirectory = Join [EncryptedGenerationPath root g True, take 2 hash];
              objectPath = Join [prefixDirectory, drop 2 hash]
          in andThen (orWrap ''create encrypted WebDAV directory'' (webdav_ensureDirectory cl prefixDirectory)) (\<lambda>_.
             andThen (orWrap ''create encryption encoder'' (lift_outcome (AESGCM_Encode key))) (\<lambda>_ w.
               (case rc_Read source background w of
                  ((got, Some e), w') \<Rightarrow>
                    andThen (ignoring (AESGCM_Close (lib_crypto lib) key got (\<lambda>_. return ()))) (\<lambda>_.
                    fail (Wrapped ''encrypt rekeyed object'' e)) w'
                | ((got, None), w') \<Rightarrow>
                    tryCatch (ctxErr ctx)
                      (\<lambda>e. andThen (ignoring (AESGCM_Close (lib_crypto lib) key got (\<lambda>_. return ()))) (\<lambda>_. fail e))
                      (\<lambda>_.
                        andThen (orWrap ''finalize encryption of rekeyed object''
                          (AESGCM_Close (lib_crypto lib) key got (\<lambda>_. return ()))) (\<lambda>encrypted.
                        andThen (ctxErr ctx) (\<lambda>_.
                        tryCatch (wd_WriteStream cl objectPath encrypted)
                          (\<lambda>e. andThen (ignoring (wd_Remove cl objectPath)) (\<lambda>_.
                             fail (Wrapped ''save rekeyed WebDAV object'' e)))
                          return))) w')))))"

definition webdav_DeleteEncryptedGeneration :: "'z webdav_client \<Rightarrow> string \<Rightarrow> ctx \<Rightarrow> uint64 \<Rightarrow> ('z, unit) os" where
  "webdav_DeleteEncryptedGeneration cl root ctx g =
     andThen (ctxErr ctx) (\<lambda>_.
     tryCatch (wd_Remove cl (EncryptedGenerationPath root g True))
       (\<lambda>e. if IsErrNotFound cl e then return () else fail (Wrapped ''delete encrypted generation'' e))
       (\<lambda>_. ctxErr ctx))"

definition webdav_AbortRekey :: "'z webdav_client \<Rightarrow> string \<Rightarrow> ctx \<Rightarrow> uint64 \<Rightarrow> ('z, unit) os" where
  "webdav_AbortRekey cl root ctx g =
     orWrap ''abort rekey of generation'' (webdav_DeleteEncryptedGeneration cl root ctx g)"

definition webdav_ReadObject ::
  "library \<Rightarrow> 'z webdav_client \<Rightarrow> string \<Rightarrow> ctx \<Rightarrow> string \<Rightarrow> bytes \<Rightarrow> uint64 \<Rightarrow> ('z, 'z ReadCloser) os" where
  "webdav_ReadObject lib cl root ctx hash key g =
     andThen (ctxErr ctx) (\<lambda>_.
       if length hash < 3 then fail (ErrText ''invalid object hash'')
       else andThen (lift_outcome (GetObjectsPath root hash g key True)) (\<lambda>dest.
         tryCatch (wd_ReadStream cl (ObjectPath dest))
           (\<lambda>e. if IsErrNotFound cl e then fail (SnapshotNotFoundError hash)
                else fail (Wrapped ''open WebDAV object'' e))
           (\<lambda>reader. if key = [] then return reader else decoded_reader lib reader key)))"

text \<open>After the writing of a chunk the server is asked for the size of what it has.\<close>

definition webdav_check_size :: "'z webdav_client \<Rightarrow> string \<Rightarrow> bytes \<Rightarrow> ('z, unit) os" where
  "webdav_check_size cl objectPath encoded =
     andThen (orWrap ''WebDAV object not found immediately after writing'' (wd_Stat cl objectPath)) (\<lambda>info.
       if fi_IsDir info then fail (ErrText ''WebDAV object path is a directory after writing'')
       else if fi_Size info \<noteq> int (length encoded)
       then fail (ErrText ''WebDAV object size mismatch after writing'')
       else return ())"

definition webdav_SaveChunk ::
  "library \<Rightarrow> 'z webdav_client \<Rightarrow> string \<Rightarrow> ctx \<Rightarrow> string \<Rightarrow> string \<Rightarrow> int \<Rightarrow> int \<Rightarrow> Compression option \<Rightarrow> bytes \<Rightarrow>
   uint64 \<Rightarrow> ('z, unit) os" where
  "webdav_SaveChunk lib cl root ctx filePath hash offset sz cmp key g =
     andThen (ctxErr ctx) (\<lambda>_.
     andThen (orWrap ''open chunk'' (OpenSource filePath hash offset sz cmp)) (\<lambda>source.
     deferring
       (andThen (orWrap ''encode chunk'' (Encoder_Encode lib ctx filePath hash offset sz cmp key source)) (\<lambda>encoded.
        andThen (lift_outcome (GetObjectsPath root hash g key True)) (\<lambda>dest.
        andThen (orWrap ''create WebDAV object directory'' (webdav_ensureDirectory cl (DirectoryPath dest))) (\<lambda>_.
        andThen (ctxErr ctx) (\<lambda>_.
        tryCatch (wd_WriteStream cl (ObjectPath dest) encoded)
          (\<lambda>e. andThen (ignoring (wd_Remove cl (ObjectPath dest))) (\<lambda>_. fail (Wrapped ''write WebDAV object'' e)))
          (\<lambda>_. andThen (ctxErr ctx) (\<lambda>_. webdav_check_size cl (ObjectPath dest) encoded)))))))
       (\<lambda>_. ignoring (os_Close source))))"

definition webdav_Save ::
  "library \<Rightarrow> 'z webdav_client \<Rightarrow> string \<Rightarrow> ctx \<Rightarrow> string \<Rightarrow> string \<Rightarrow> Compression option \<Rightarrow> bytes \<Rightarrow> uint64 \<Rightarrow>
   ('z, unit) os" where
  "webdav_Save lib cl root ctx filePath hash cmp key g =
     andThen (ctxErr ctx) (\<lambda>_.
       if cmp = None then fail (ErrText ''compression configuration is required'')
       else andThen (orWrap ''open source file'' (os_Open filePath)) (\<lambda>source.
         deferring
           (andThen (orWrap ''stat source file'' (os_FStat source)) (\<lambda>info.
            andThen (orWrap ''encode object''
              (Encoder_Encode lib ctx filePath hash 0 (file_len info) cmp key source)) (\<lambda>encoded.
            andThen (lift_outcome (GetObjectsPath root hash g key True)) (\<lambda>dest.
            andThen (webdav_ensureDirectory cl (DirectoryPath dest)) (\<lambda>_.
            andThen (orWrap ''write WebDAV object'' (wd_WriteStream cl (ObjectPath dest) encoded)) (\<lambda>_.
            andThen (orWrap ''stat WebDAV object after writing'' (wd_Stat cl (ObjectPath dest))) (\<lambda>info'.
              if fi_IsDir info' then fail (ErrText ''WebDAV object path is a directory'') else return ())))))))
           (\<lambda>_. ignoring (os_Close source))))"

definition webdav_AlreadyExists :: "'z webdav_client \<Rightarrow> string \<Rightarrow> ctx \<Rightarrow> string \<Rightarrow> bytes \<Rightarrow> uint64 \<Rightarrow> ('z, bool) os" where
  "webdav_AlreadyExists cl root ctx hash key g =
     andThen (ctxErr ctx) (\<lambda>_.
       if length hash < 3 then fail (ErrText ''invalid object hash'')
       else andThen (lift_outcome (GetObjectsPath root hash g key True)) (\<lambda>dest.
         tryCatch (wd_Stat cl (ObjectPath dest))
           (\<lambda>e. if IsErrNotFound cl e then return False else fail (Wrapped ''check WebDAV object'' e))
           (\<lambda>info. if fi_IsDir info then fail (ErrText ''WebDAV object path is a directory'') else return True)))"

definition webdav_restoreObjectPart ::
  "library \<Rightarrow> 'z webdav_client \<Rightarrow> string \<Rightarrow> ctx \<Rightarrow> bytes \<Rightarrow> uint64 \<Rightarrow> Compression \<Rightarrow> string \<Rightarrow> fspath \<Rightarrow> ('z, int) os" where
  "webdav_restoreObjectPart lib cl root ctx key g co hash destination =
     andThen (ctxErr ctx) (\<lambda>_.
       if length hash < 3 then fail (ErrText ''invalid object hash'')
       else andThen (lift_outcome (GetObjectsPath root hash g key True)) (\<lambda>dest.
         tryCatch (wd_ReadStream cl (ObjectPath dest))
           (\<lambda>e. if IsErrNotFound cl e then fail (SnapshotNotFoundError hash)
                else fail (Wrapped ''open WebDAV object'' e))
           (restore_from lib ''decode WebDAV object'' ''copy decoded WebDAV object'' ctx co destination key)))"

definition webdav_RestoreObject ::
  "library \<Rightarrow> 'z webdav_client \<Rightarrow> string \<Rightarrow> ctx \<Rightarrow> Compression option \<Rightarrow> SnapFile \<Rightarrow> bytes \<Rightarrow> uint64 \<Rightarrow> ('z, unit) os" where
  "webdav_RestoreObject lib cl root ctx cmp obj key g =
     remote_RestoreObject ''restore WebDAV part'' (webdav_restoreObjectPart lib cl root ctx key g) ctx cmp obj"

definition WebDAVObjectRepository :: "library \<Rightarrow> 'z webdav_client \<Rightarrow> string \<Rightarrow> 'z ObjectRepository" where
  "WebDAVObjectRepository lib cl root =
     \<lparr>SaveObject = webdav_Save lib cl root,
      AlreadyExists = webdav_AlreadyExists cl root,
      ReadObject = webdav_ReadObject lib cl root,
      RestoreObject = webdav_RestoreObject lib cl root,
      SaveChunk = webdav_SaveChunk lib cl root,
      ListEncryptedObjects = webdav_ListEncryptedObjects cl root,
      ReadEncryptedObject = webdav_ReadEncryptedObject lib cl root,
      SaveRekeyedObject = webdav_SaveRekeyedObject lib cl root,
      DeleteEncryptedGeneration = webdav_DeleteEncryptedGeneration cl root,
      AbortRekey = webdav_AbortRekey cl root\<rparr>"

subsection \<open>Configuration\<close>

definition webDAVPath :: "string \<Rightarrow> string" where
  "webDAVPath value = trim_prefix (Clean (''/'' @ value)) ''/''"

definition webdav_Exists :: "'z webdav_client \<Rightarrow> ctx \<Rightarrow> string \<Rightarrow> ('z, bool) os" where
  "webdav_Exists cl ctx repositoryPath =
     andThen (ctxErr ctx) (\<lambda>_.
     tryCatch (wd_Stat cl repositoryPath)
       (\<lambda>e. if IsErrNotFound cl e then return False else fail (Wrapped ''stat WebDAV path'' e))
       (\<lambda>info. return (fi_IsDir info)))"

definition webdav_CreateFolder :: "'z webdav_client \<Rightarrow> ctx \<Rightarrow> string \<Rightarrow> ('z, unit) os" where
  "webdav_CreateFolder cl ctx repositoryPath =
     andThen (ctxErr ctx) (\<lambda>_. orWrap ''create WebDAV folder'' (wd_MkdirAll cl (webDAVPath repositoryPath)))"

definition webdav_CreateConfig :: "library \<Rightarrow> 'z webdav_client \<Rightarrow> ctx \<Rightarrow> string \<Rightarrow> Config \<Rightarrow> ('z, unit) os" where
  "webdav_CreateConfig lib cl ctx repositoryPath c =
     andThen (orWrap ''marshal config'' (MarshalConfig lib ctx c)) (\<lambda>data.
     orWrap ''write WebDAV config'' (wd_Write cl (Join [repositoryPath, ConfigFile]) data))"

definition webdav_GetConfig :: "library \<Rightarrow> 'z webdav_client \<Rightarrow> ctx \<Rightarrow> string \<Rightarrow> ('z, Config) os" where
  "webdav_GetConfig lib cl ctx repositoryPath =
     andThen (ctxErr ctx) (\<lambda>_.
     tryCatch (wd_Read cl (Join [repositoryPath, ConfigFile]))
       (\<lambda>e. if IsErrNotFound cl e then fail (RepositoryNotFoundError ''config file not found'')
            else fail (Wrapped ''read WebDAV config'' e))
       (\<lambda>data.
        andThen (orWrap ''unmarshal WebDAV config'' (lift_outcome (config_Unmarshal (lib_text lib) data))) (\<lambda>conf.
        BuildConfigDomain lib conf)))"

definition WebDAVFolderRepository :: "library \<Rightarrow> 'z webdav_client \<Rightarrow> 'z FolderRepository" where
  "WebDAVFolderRepository lib cl =
     \<lparr>Exists = webdav_Exists cl, CreateFolder = webdav_CreateFolder cl,
      CreateConfig = webdav_CreateConfig lib cl, GetConfig = webdav_GetConfig lib cl\<rparr>"

subsection \<open>Manifests\<close>

definition webdav_SaveManifest :: "library \<Rightarrow> 'z webdav_client \<Rightarrow> string \<Rightarrow> ctx \<Rightarrow> Manifest \<Rightarrow> ('z, unit) os" where
  "webdav_SaveManifest lib cl root ctx m =
     andThen (ctxErr ctx) (\<lambda>_.
     andThen (deref (man_compression m)) (\<lambda>cmp.
     andThen (orWrap ''marshal manifest''
       (lift_outcome (manifest_MarshalIndent (lib_text lib) (manifest_model m cmp)))) (\<lambda>data.
     orWrap ''write WebDAV manifest''
       (wd_Write cl (Join [root, SnapshotsFolder, json_name (man_id m)]) (data @ [newline])))))"

definition webdav_read_entry ::
  "library \<Rightarrow> 'z webdav_client \<Rightarrow> ctx \<Rightarrow> string \<Rightarrow> file_info \<Rightarrow> ('z, Manifest list) os" where
  "webdav_read_entry lib cl ctx snapshotsPath entry =
     andThen (ctxErr ctx) (\<lambda>_.
       if fi_IsDir entry then return []
       else andThen (orWrap ''read WebDAV manifest'' (wd_Read cl (Join [snapshotsPath, fi_Name entry]))) (\<lambda>data.
         andThen (orWrap ''build manifest'' (lift_outcome (BuildManifestDomain lib data))) (\<lambda>m. return [m])))"

definition webdav_ListManifests :: "library \<Rightarrow> 'z webdav_client \<Rightarrow> string \<Rightarrow> ctx \<Rightarrow> ('z, Manifest list) os" where
  "webdav_ListManifests lib cl root ctx =
     andThen (ctxErr ctx) (\<lambda>_.
       (let snapshotsPath = Join [root, SnapshotsFolder]
        in andThen (orWrap ''read WebDAV snapshots folder'' (wd_ReadDir cl snapshotsPath)) (\<lambda>entries.
           andThen (for_each (webdav_read_entry lib cl ctx snapshotsPath) entries) (\<lambda>manifests.
           return (latest_first (concat manifests))))))"

definition webdav_GetManifest :: "library \<Rightarrow> 'z webdav_client \<Rightarrow> string \<Rightarrow> ctx \<Rightarrow> string \<Rightarrow> ('z, Manifest) os" where
  "webdav_GetManifest lib cl root ctx snapshot =
     andThen (ctxErr ctx) (\<lambda>_.
     tryCatch (wd_Read cl (Join [root, SnapshotsFolder, json_name snapshot]))
       (\<lambda>e. if IsErrNotFound cl e then fail (RepositoryNotFoundError ''manifest not found'')
            else fail (Wrapped ''read WebDAV manifest'' e))
       (\<lambda>data. orWrap ''build manifest'' (lift_outcome (BuildManifestDomain lib data))))"

definition WebDAVManifestRepository :: "library \<Rightarrow> 'z webdav_client \<Rightarrow> string \<Rightarrow> 'z ManifestRepository" where
  "WebDAVManifestRepository lib cl root =
     \<lparr>SaveManifest = webdav_SaveManifest lib cl root, ListManifests = webdav_ListManifests lib cl root,
      GetManifest = webdav_GetManifest lib cl root\<rparr>"

end
