(* ===== verification/Choice.thy ===== *)
theory Choice
  imports S3 GCS SSH SMB WebDAV
begin

section \<open>The repositories of an address\<close>

text \<open>
  \<^verbatim>\<open>internal/infra/repositories\<close>, the parsers of addresses
  (\<^verbatim>\<open>s3/storage.go\<close>, \<^verbatim>\<open>gcs/bucket.go\<close>, \<^verbatim>\<open>smb/repository_url.go\<close>,
  \<^verbatim>\<open>webdav/client.go\<close>) and the opening of connections (\<^verbatim>\<open>ssh/client.go\<close>,
  \<^verbatim>\<open>smb/connection.go\<close>, \<^verbatim>\<open>s3/client.go\<close>, \<^verbatim>\<open>gcs/client.go\<close>). A parsed URL is the record
  of what is taken from it; \<^verbatim>\<open>url.Parse\<close>, \<^verbatim>\<open>url.PathUnescape\<close> and
  \<^verbatim>\<open>URL.String\<close>, the settings read from the environment and the constructors of the client
  libraries are the fields of one record, the parameter of this theory.
\<close>

subsection \<open>Addresses\<close>

record url =
  u_Scheme :: string
  u_Username :: "string option"
  u_Host :: string
  u_Hostname :: string
  u_Port :: string
  u_Path :: string
  u_EscapedPath :: string
  u_RawQuery :: string
  u_Fragment :: string

definition trim_slashes :: "string \<Rightarrow> string" where
  "trim_slashes s = rev (dropWhile (\<lambda>c. c = CHR ''/'') (rev (dropWhile (\<lambda>c. c = CHR ''/'') s)))"

definition trim_right_slashes :: "string \<Rightarrow> string" where
  "trim_right_slashes s = rev (dropWhile (\<lambda>c. c = CHR ''/'') (rev s))"

definition to_lower_char :: "char \<Rightarrow> char" where
  "to_lower_char c = (let n = of_char c :: nat in if 65 \<le> n \<and> n \<le> 90 then char_of (n + 32) else c)"

definition net_JoinHostPort :: "string \<Rightarrow> string \<Rightarrow> string" where
  "net_JoinHostPort host port =
     (if CHR '':'' \<in> set host then ''['' @ host @ '']:'' @ port else host @ '':'' @ port)"

record Storage =
  Bucket :: string
  Prefix :: string

definition ParseS3URL :: "(string \<Rightarrow> url outcome) \<Rightarrow> string \<Rightarrow> Storage outcome" where
  "ParseS3URL url_Parse rawURL =
     (case url_Parse rawURL of
        Panic s \<Rightarrow> Panic s
      | Err e \<Rightarrow> Err (Wrapped ''parse S3 URL'' e)
      | Ok u \<Rightarrow>
          if u_Scheme u \<noteq> ''s3'' then Err (ErrText ''unsupported scheme'')
          else if u_Host u = [] then Err (ErrText ''S3 bucket is required'')
          else Ok \<lparr>Bucket = u_Host u, Prefix = trim_slashes (u_Path u)\<rparr>)"

definition ParseBucket :: "(string \<Rightarrow> url outcome) \<Rightarrow> string \<Rightarrow> string outcome" where
  "ParseBucket url_Parse rawURL =
     (case url_Parse rawURL of
        Panic s \<Rightarrow> Panic s
      | Err e \<Rightarrow> Err (Wrapped ''parse GCS URL'' e)
      | Ok u \<Rightarrow>
          if u_Scheme u \<noteq> ''gcs'' then Err (ErrText ''unsupported scheme'')
          else if u_Host u = [] then Err (ErrText ''GCS bucket is required'')
          else Ok (u_Host u))"

definition DefaultSMBPort :: string where "DefaultSMBPort = ''445''"

record RepositoryURL =
  Address :: string
  Username :: string
  ShareName :: string
  BasePath :: string

fun decode_segments :: "(string \<Rightarrow> string outcome) \<Rightarrow> string list \<Rightarrow> string list outcome" where
  "decode_segments unescape [] = Ok []"
| "decode_segments unescape (s # ss) =
     (case unescape s of
        Panic p \<Rightarrow> Panic p
      | Err e \<Rightarrow> Err (Wrapped ''decode SMB path'' e)
      | Ok d \<Rightarrow>
          (case decode_segments unescape ss of
             Ok ds \<Rightarrow> Ok (d # ds)
           | r \<Rightarrow> r))"

definition ParseRepositoryURL ::
  "(string \<Rightarrow> url outcome) \<Rightarrow> (string \<Rightarrow> string outcome) \<Rightarrow> string \<Rightarrow> RepositoryURL outcome" where
  "ParseRepositoryURL url_Parse unescape rawURL =
     (case url_Parse rawURL of
        Panic s \<Rightarrow> Panic s
      | Err e \<Rightarrow> Err (Wrapped ''parse SMB URL'' e)
      | Ok parsed \<Rightarrow>
          if u_Scheme parsed \<noteq> ''smb'' then Err (ErrText ''invalid scheme: expected smb'')
          else if u_Hostname parsed = [] then Err (ErrText ''SMB host is required'')
          else
            (case split_on CHR ''/'' (trim_slashes (u_EscapedPath parsed)) of
               [] \<Rightarrow> Err (ErrText ''SMB share name is required'')
             | share # rest \<Rightarrow>
                 if share = [] then Err (ErrText ''SMB share name is required'')
                 else (case unescape share of
                   Panic s \<Rightarrow> Panic s
                 | Err e \<Rightarrow> Err (Wrapped ''decode SMB share name'' e)
                 | Ok shareName \<Rightarrow>
                     (case decode_segments unescape rest of
                        Panic s \<Rightarrow> Panic s
                      | Err e \<Rightarrow> Err e
                      | Ok decoded \<Rightarrow>
                          (let port = (if u_Port parsed = [] then DefaultSMBPort else u_Port parsed);
                               username = (case u_Username parsed of None \<Rightarrow> [] | Some n \<Rightarrow> n)
                           in Ok \<lparr>Address = net_JoinHostPort (u_Hostname parsed) port, Username = username,
                                ShareName = shareName, BasePath = join_with ''/'' decoded\<rparr>)))))"

record Location =
  BaseURL :: string
  loc_Path :: string

definition ParseWebDAVURL :: "(string \<Rightarrow> url outcome) \<Rightarrow> (url \<Rightarrow> string) \<Rightarrow> string \<Rightarrow> Location outcome" where
  "ParseWebDAVURL url_Parse url_String repositoryURL =
     (case url_Parse repositoryURL of
        Panic s \<Rightarrow> Panic s
      | Err e \<Rightarrow> Err (Wrapped ''parse WebDAV URL'' e)
      | Ok u \<Rightarrow>
          (let lower = map to_lower_char (u_Scheme u)
           in if lower \<noteq> ''webdav'' \<and> lower \<noteq> ''webdavs'' then Err (ErrText ''unsupported WebDAV scheme'')
              else if u_Host u = [] then Err (ErrText ''WebDAV URL requires a host'')
              else (let base = u\<lparr>u_Scheme := (if lower = ''webdav'' then ''http'' else ''https''), u_Path := [],
                       u_EscapedPath := [], u_RawQuery := [], u_Fragment := []\<rparr>
                    in Ok \<lparr>BaseURL = trim_right_slashes (url_String base), loc_Path = trim_slashes (u_Path u)\<rparr>)))"

subsection \<open>Settings\<close>

record S3Config =
  AccessKey :: string
  SecretKey :: string
  Region :: string
  S3Endpoint :: "string option"
  PathStyle :: "bool option"

record SMBConfig =
  SMBPassword :: string

record SSHConfig =
  SSHPrivateKey :: string

record WebdavConfig =
  WebdavUsername :: string
  WebdavPassword :: string

subsection \<open>What the client libraries construct\<close>

record aws_Config =
  aws_Region :: string
  checksums_when_required :: bool

record s3_Options =
  BaseEndpoint :: "string option"
  UsePathStyle :: bool

datatype gcs_option = WithJSONReads | WithEndpoint string | WithoutAuthentication

record 'z gcs_connection =
  gcs_conn :: "'z gcs_client"
  gcs_conn_Close :: "('z, unit) os"

record 'z sftp_session =
  session_client :: "'z sftp_client"
  session_Close :: "('z, unit) os"

record 'z ssh_connection =
  ssh_NewSftp :: "('z, 'z sftp_session) os"
  ssh_Close :: "('z, unit) os"

text \<open>The signer is what parsing the key's bytes gives, the callback what reading the known hosts gives.\<close>

type_synonym ssh_signer = bytes
type_synonym ssh_hosts = bytes

record ssh_ClientConfig =
  ssh_User :: string
  ssh_Auth :: ssh_signer
  HostKeyCallback :: ssh_hosts
  ssh_Timeout :: int

record 'z smb_mount =
  mount_share :: "'z smb_share"
  mount_Umount :: "('z, unit) os"

record 'z smb_session =
  smb_Mount :: "string \<Rightarrow> ('z, 'z smb_mount) os"
  smb_Logoff :: "('z, unit) os"

record 'z outside =
  out_lib :: library
  url_Parse :: "string \<Rightarrow> url outcome"
  url_PathUnescape :: "string \<Rightarrow> string outcome"
  url_String :: "url \<Rightarrow> string"
  json_Decode :: "bytes \<times> error option \<Rightarrow> model_Config outcome"
  tmp_dir :: string
  listing_bound :: nat
  env_S3 :: "S3Config outcome"
  env_GCS_Endpoint :: "string option"
  env_SMB :: "SMBConfig outcome"
  env_SSH :: "SSHConfig outcome"
  env_Webdav :: "WebdavConfig outcome"
  LoadDefaultConfig :: "ctx \<Rightarrow> string \<Rightarrow> ('z, aws_Config) os"
  s3_NewFromConfig :: "aws_Config \<Rightarrow> s3_Options \<Rightarrow> 'z s3_client"
  storage_NewClient :: "ctx \<Rightarrow> gcs_option list \<Rightarrow> ('z, 'z gcs_connection) os"
  os_UserHomeDir :: "string outcome"
  ParsePrivateKey :: "bytes \<Rightarrow> ssh_signer outcome"
  knownhosts_New :: "string \<Rightarrow> ('z, ssh_hosts) os"
  ssh_Dial :: "string \<Rightarrow> ssh_ClientConfig \<Rightarrow> ('z, 'z ssh_connection) os"
  net_Dial :: "ctx \<Rightarrow> string \<Rightarrow> ('z, ('z, unit) os) os"
  smb_Dial :: "ctx \<Rightarrow> string \<Rightarrow> string \<Rightarrow> string \<Rightarrow> ('z, 'z smb_session) os"
  webdav_NewConnected :: "string \<Rightarrow> string \<Rightarrow> string \<Rightarrow> ('z, 'z webdav_client) os"

subsection \<open>Connections\<close>

text \<open>With an endpoint of its own the checksums of requests and responses are made only where required.\<close>

definition NewS3Client :: "'z outside \<Rightarrow> ctx \<Rightarrow> S3Config \<Rightarrow> ('z, 'z s3_client) os" where
  "NewS3Client out ctx cfg =
     andThen (orWrap ''load AWS configuration'' (LoadDefaultConfig out ctx (Region cfg))) (\<lambda>awsCfg.
     (let awsCfg' = (if S3Endpoint cfg \<noteq> None then awsCfg\<lparr>checksums_when_required := True\<rparr> else awsCfg);
          options = \<lparr>BaseEndpoint = S3Endpoint cfg,
            UsePathStyle = (case PathStyle cfg of Some b \<Rightarrow> b | None \<Rightarrow> False)\<rparr>
      in return (s3_NewFromConfig out awsCfg' options)))"

definition gcs_NewClient :: "'z outside \<Rightarrow> ctx \<Rightarrow> string option \<Rightarrow> ('z, 'z gcs_connection) os" where
  "gcs_NewClient out ctx endpoint =
     orWrap ''create GCS client'' (storage_NewClient out ctx
       (WithJSONReads # (case endpoint of None \<Rightarrow> [] | Some e \<Rightarrow> [WithEndpoint e, WithoutAuthentication])))"

record 'z ssh_Client =
  client_ssh :: "'z ssh_connection"
  client_sftp :: "'z sftp_session"

definition ssh_NewClient :: "'z outside \<Rightarrow> string \<Rightarrow> ssh_ClientConfig \<Rightarrow> ('z, 'z ssh_Client) os" where
  "ssh_NewClient out address conf =
     andThen (orWrap ''connect to SSH server'' (ssh_Dial out address conf)) (\<lambda>sshClient.
     tryCatch (ssh_NewSftp sshClient)
       (\<lambda>e. andThen (ignoring (ssh_Close sshClient)) (\<lambda>_. fail (Wrapped ''create SFTP client'' e)))
       (\<lambda>sftpClient. return \<lparr>client_ssh = sshClient, client_sftp = sftpClient\<rparr>))"

text \<open>Both are closed, whatever the first close returns.\<close>

definition ssh_Client_Close :: "'z ssh_Client \<Rightarrow> ('z, unit) os" where
  "ssh_Client_Close c =
     tryCatch (session_Close (client_sftp c))
       (\<lambda>sftpErr. andThen (ignoring (ssh_Close (client_ssh c))) (\<lambda>_. fail (Wrapped ''close SFTP client'' sftpErr)))
       (\<lambda>_. orWrap ''close SSH client'' (ssh_Close (client_ssh c)))"

record 'z smb_Connection =
  conn_Close :: "('z, unit) os"
  conn_session :: "'z smb_session"
  conn_mount :: "'z smb_mount"

definition smb_Connect ::
  "'z outside \<Rightarrow> ctx \<Rightarrow> string \<Rightarrow> string \<Rightarrow> string \<Rightarrow> string \<Rightarrow> ('z, 'z smb_Connection) os" where
  "smb_Connect out ctx address username password shareName =
     andThen (orWrap ''connect to SMB server'' (net_Dial out ctx address)) (\<lambda>closeConn.
     tryCatch (smb_Dial out ctx address username password)
       (\<lambda>e. andThen (ignoring closeConn) (\<lambda>_. fail (Wrapped ''create SMB session'' e)))
       (\<lambda>session. tryCatch (smb_Mount session shareName)
          (\<lambda>e. andThen (ignoring (smb_Logoff session)) (\<lambda>_. andThen (ignoring closeConn) (\<lambda>_.
             fail (Wrapped ''mount SMB share'' e))))
          (\<lambda>m. return \<lparr>conn_Close = closeConn, conn_session = session, conn_mount = m\<rparr>)))"

definition smb_Connection_Close :: "'z smb_Connection \<Rightarrow> ('z, unit) os" where
  "smb_Connection_Close c =
     andThen (ignoring (mount_Umount (conn_mount c))) (\<lambda>_.
     andThen (ignoring (smb_Logoff (conn_session c))) (\<lambda>_. conn_Close c))"

definition webdav_NewClient :: "'z outside \<Rightarrow> string \<Rightarrow> string \<Rightarrow> string \<Rightarrow> ('z, 'z webdav_client) os" where
  "webdav_NewClient out baseURL username password =
     orWrap ''connect to WebDAV server'' (webdav_NewConnected out baseURL username password)"

subsection \<open>The repositories\<close>

record 'z Repositories =
  FolderRepository_of :: "'z FolderRepository"
  RepositoryPath :: string
  ObjectRepository_of :: "('z, 'z ObjectRepository) os"
  ManifestRepository_of :: "('z, 'z ManifestRepository) os"
  Repositories_Close :: "('z, unit) os"

definition NewLocalRepositories :: "'z outside \<Rightarrow> string \<Rightarrow> 'z Repositories" where
  "NewLocalRepositories out v =
     \<lparr>FolderRepository_of = DiskFolderRepository (out_lib out), RepositoryPath = v,
      ObjectRepository_of = disk_NewObjectRepository (out_lib out) v,
      ManifestRepository_of = disk_NewManifestRepository (out_lib out) v, Repositories_Close = return ()\<rparr>"

definition DefaultSSHPort :: string where "DefaultSSHPort = ''22''"

definition newClientConfig :: "'z outside \<Rightarrow> string \<Rightarrow> string \<Rightarrow> string \<Rightarrow> ('z, ssh_ClientConfig) os" where
  "newClientConfig out username privKey knownHostsPath =
     andThen (orWrap ''read SSH private key'' (os_ReadFile privKey)) (\<lambda>file.
     andThen (orWrap ''parse SSH private key'' (lift_outcome (ParsePrivateKey out file))) (\<lambda>signer.
     andThen (orWrap ''load known_hosts file'' (knownhosts_New out knownHostsPath)) (\<lambda>hosts.
     return \<lparr>ssh_User = username, ssh_Auth = signer, HostKeyCallback = hosts, ssh_Timeout = 10000000000\<rparr>)))"

definition SSHRepositories :: "'z outside \<Rightarrow> 'z ssh_Client \<Rightarrow> string \<Rightarrow> 'z Repositories" where
  "SSHRepositories out client root =
     (let cl = session_client (client_sftp client)
      in \<lparr>FolderRepository_of = SSHFolderRepository (out_lib out) (json_Decode out) cl, RepositoryPath = root,
          ObjectRepository_of = return (SSHObjectRepository (out_lib out) cl root),
          ManifestRepository_of = return (SSHManifestRepository (out_lib out) cl root),
          Repositories_Close = ssh_Client_Close client\<rparr>)"

definition NewSSHRepositories :: "'z outside \<Rightarrow> string \<Rightarrow> ('z, 'z Repositories) os" where
  "NewSSHRepositories out address =
     andThen (orWrap ''load SSH configuration'' (lift_outcome (env_SSH out))) (\<lambda>conf.
     andThen (orWrap ''parse SSH address'' (lift_outcome (url_Parse out address))) (\<lambda>u.
     (case u_Username u of
        None \<Rightarrow> fail (ErrText ''SSH username is required'')
      | Some username \<Rightarrow>
          if username = [] then fail (ErrText ''SSH username is required'')
          else if u_Hostname u = [] then fail (ErrText ''SSH host is required'')
          else
            (let port = (if u_Port u = [] then DefaultSSHPort else u_Port u)
             in andThen (orWrap ''get home directory'' (lift_outcome (os_UserHomeDir out))) (\<lambda>homeDir.
                andThen (newClientConfig out username (SSHPrivateKey conf) (Join [homeDir, ''.ssh'', ''known_hosts''])) (\<lambda>cc.
                andThen (ssh_NewClient out (net_JoinHostPort (u_Hostname u) port) cc) (\<lambda>client.
                return (SSHRepositories out client (u_Path u)))))))))"

definition SmbRepositories :: "'z outside \<Rightarrow> 'z smb_Connection \<Rightarrow> string \<Rightarrow> 'z Repositories" where
  "SmbRepositories out conn root =
     (let sh = mount_share (conn_mount conn)
      in \<lparr>FolderRepository_of = SMBFolderRepository (out_lib out) sh, RepositoryPath = root,
          ObjectRepository_of = return (SMBObjectRepository (out_lib out) sh root),
          ManifestRepository_of = return (SMBManifestRepository (out_lib out) sh root),
          Repositories_Close = smb_Connection_Close conn\<rparr>)"

definition NewSmbRepositories :: "'z outside \<Rightarrow> ctx \<Rightarrow> string \<Rightarrow> ('z, 'z Repositories) os" where
  "NewSmbRepositories out ctx repositoryPath =
     andThen (lift_outcome (env_SMB out)) (\<lambda>conf.
     andThen (lift_outcome (ParseRepositoryURL (url_Parse out) (url_PathUnescape out) repositoryPath)) (\<lambda>repoURL.
     andThen (smb_Connect out ctx (Address repoURL) (Username repoURL) (SMBPassword conf) (ShareName repoURL)) (\<lambda>conn.
     return (SmbRepositories out conn (BasePath repoURL)))))"

definition S3Repositories :: "'z outside \<Rightarrow> 'z s3_client \<Rightarrow> string \<Rightarrow> string \<Rightarrow> 'z Repositories" where
  "S3Repositories out client bucket root =
     (let place = \<lparr>s3_cl = client, s3_bucket = bucket, s3_prefix = root, s3_pages = listing_bound out\<rparr>
      in \<lparr>FolderRepository_of = S3FolderRepository (out_lib out) place, RepositoryPath = root,
          ObjectRepository_of = return (S3ObjectRepository (out_lib out) (tmp_dir out) place),
          ManifestRepository_of = return (S3ManifestRepository (out_lib out) place),
          Repositories_Close = return ()\<rparr>)"

definition NewS3Repositories :: "'z outside \<Rightarrow> ctx \<Rightarrow> string \<Rightarrow> ('z, 'z Repositories) os" where
  "NewS3Repositories out ctx repositoryPath =
     andThen (lift_outcome (env_S3 out)) (\<lambda>cfg.
     andThen (lift_outcome (ParseS3URL (url_Parse out) repositoryPath)) (\<lambda>storage.
     andThen (NewS3Client out ctx cfg) (\<lambda>client.
     return (S3Repositories out client (Bucket storage) (Prefix storage)))))"

definition WebDavRepositories :: "'z outside \<Rightarrow> 'z webdav_client \<Rightarrow> string \<Rightarrow> 'z Repositories" where
  "WebDavRepositories out client root =
     \<lparr>FolderRepository_of = WebDAVFolderRepository (out_lib out) client, RepositoryPath = root,
      ObjectRepository_of = return (WebDAVObjectRepository (out_lib out) client root),
      ManifestRepository_of = return (WebDAVManifestRepository (out_lib out) client root),
      Repositories_Close = return ()\<rparr>"

definition NewWebDavRepositories :: "'z outside \<Rightarrow> string \<Rightarrow> ('z, 'z Repositories) os" where
  "NewWebDavRepositories out address =
     andThen (lift_outcome (env_Webdav out)) (\<lambda>conf.
     andThen (lift_outcome (ParseWebDAVURL (url_Parse out) (url_String out) address)) (\<lambda>location.
     andThen (webdav_NewClient out (BaseURL location) (WebdavUsername conf) (WebdavPassword conf)) (\<lambda>client.
     return (WebDavRepositories out client (loc_Path location)))))"

text \<open>The path of a repository on Google Cloud Storage is the whole address.\<close>

definition GCSRepositories :: "'z outside \<Rightarrow> 'z gcs_connection \<Rightarrow> string \<Rightarrow> string \<Rightarrow> 'z Repositories" where
  "GCSRepositories out conn bucket root =
     (let place = \<lparr>gcs_cl = gcs_conn conn, gcs_bucket = bucket, gcs_prefix = root, gcs_items = listing_bound out\<rparr>
      in \<lparr>FolderRepository_of = GCSFolderRepository (out_lib out) place, RepositoryPath = root,
          ObjectRepository_of = return (GCSObjectRepository (out_lib out) place),
          ManifestRepository_of = return (GCSManifestRepository (out_lib out) place),
          Repositories_Close = gcs_conn_Close conn\<rparr>)"

definition NewGCSRepositories :: "'z outside \<Rightarrow> ctx \<Rightarrow> string \<Rightarrow> ('z, 'z Repositories) os" where
  "NewGCSRepositories out ctx address =
     andThen (gcs_NewClient out ctx (env_GCS_Endpoint out)) (\<lambda>conn.
     andThen (lift_outcome (ParseBucket (url_Parse out) address)) (\<lambda>bucket.
     return (GCSRepositories out conn bucket address)))"

definition scheme_of :: "(string \<Rightarrow> url outcome) \<Rightarrow> string \<Rightarrow> string outcome" where
  "scheme_of parse raw =
     (case parse raw of Ok u \<Rightarrow> Ok (u_Scheme u) | Err e \<Rightarrow> Err e | Panic s \<Rightarrow> Panic s)"

definition NewHandler :: "'z outside \<Rightarrow> ctx \<Rightarrow> string \<Rightarrow> ('z, 'z Repositories) os" where
  "NewHandler out ctx v =
     andThen (lift_outcome (ParseRepositoryType (scheme_of (url_Parse out)) v)) (\<lambda>repoType.
       (case repoType of
          RepositoryType.Local \<Rightarrow> return (NewLocalRepositories out v)
        | RepositoryType.Ssh \<Rightarrow> NewSSHRepositories out v
        | RepositoryType.Smb \<Rightarrow> NewSmbRepositories out ctx v
        | RepositoryType.S3 \<Rightarrow> NewS3Repositories out ctx v
        | RepositoryType.WebDAV \<Rightarrow> NewWebDavRepositories out v
        | RepositoryType.Gcs \<Rightarrow> NewGCSRepositories out ctx v))"

end
