(* ===== verification/Remote_Facts.thy ===== *)
theory Remote_Facts
  imports Disk_Restore_Facts Remote
begin

section \<open>What the remote repositories do, given a lawful server\<close>

text \<open>
  A remote server is part of the world: the extension of the record of the machine. What it holds is a
  function of that extension, from the paths of objects to their bytes. This theory says what is assumed of
  the client libraries, as predicates on their functions: a reader yields what the server holds, a write
  that returned leaves what was written, and none of them touches the files of this machine. It proves
  what the shared code for restoring and encoding makes of that, and states the restoring of one object as
  the contract between the repositories and the restoring of a file.
\<close>

subsection \<open>Calls on this machine leave the server alone\<close>

lemma local_sys:
  assumes "\<And>k w. os_world.more (part k w) = os_world.more w" and "keeps (\<lambda>w. P (os_world.more w)) f"
  shows "keeps (\<lambda>w. P (os_world.more w)) (sys part f)"
  using assms(2) by (auto simp: keeps_def sys_def assms(1) split: option.splits)

lemma local_syscall:
  assumes "\<And>k q w. os_world.more (part k q w) = os_world.more w"
    and "\<And>q. keeps (\<lambda>w. P (os_world.more w)) (f q)"
  shows "keeps (\<lambda>w. P (os_world.more w)) (syscall p part f)"
  using local_sys [of "\<lambda>k. part k q" for q, OF assms(1) assms(2)]
  by (auto simp: keeps_def syscall_def)

lemma more_append [simp]: "os_world.more (append_at q b w) = os_world.more w"
  by (simp add: append_at_def split: option.splits node.splits)

lemma more_make_dirs [simp]: "os_world.more (make_dirs k q w) = os_world.more w"
  by (induction k) (simp_all add: make_dir_def split: option.splits)

lemma local_calls [keeps_rules]:
  "keeps (\<lambda>w. P (os_world.more w)) (ctxErr ctx)"
  "keeps (\<lambda>w. P (os_world.more w)) (os_Open p)"
  "keeps (\<lambda>w. P (os_world.more w)) (os_Create p)"
  "keeps (\<lambda>w. P (os_world.more w)) (os_Remove p)"
  "keeps (\<lambda>w. P (os_world.more w)) (os_MkdirAll p)"
  "keeps (\<lambda>w. P (os_world.more w)) (os_ReadFile p)"
  "keeps (\<lambda>w. P (os_world.more w)) (os_FStat h)"
  "keeps (\<lambda>w. P (os_world.more w)) (os_Close h)"
  "keeps (\<lambda>w. P (os_world.more w)) (os_Write h b)"
  "keeps (\<lambda>w. P (os_world.more w)) (random_bytes n)"
  subgoal by (simp add: keeps_def ctxErr_def)
  subgoal unfolding os_Open_def by (intro local_syscall keepsI)
    (auto simp: nothing_done_def open_at_def split: option.splits node.splits)
  subgoal unfolding os_Create_def by (intro local_syscall keepsI)
    (auto simp: nothing_done_def create_at_def split: option.splits node.splits)
  subgoal unfolding os_Remove_def by (intro local_syscall keepsI)
    (auto simp: nothing_done_def remove_at_def split: option.splits node.splits)
  subgoal unfolding os_MkdirAll_def by (intro local_syscall keepsI)
    (auto simp: nothing_done_def mkdir_all_at_def)
  subgoal unfolding os_ReadFile_def by (intro local_syscall keepsI)
    (auto simp: nothing_done_def split: option.splits node.splits)
  subgoal unfolding os_FStat_def by (intro local_sys keepsI) (auto split: option.splits)
  subgoal unfolding os_Close_def by (intro local_sys keeps_rules) simp
  subgoal unfolding os_Write_def by (intro local_sys keepsI) auto
  subgoal unfolding random_bytes_def by (intro local_sys keepsI) auto
  done

lemma more_streams [simp]:
  "os_world.more (snd (stream ctx b w)) = os_world.more w"
  "os_world.more (snd (mem_stream ctx b w)) = os_world.more w"
  by (auto simp: stream_def mem_stream_def Let_def split: option.splits)

lemma more_stream: "stream ctx b w = (x, w') \<Longrightarrow> os_world.more w' = os_world.more w"
  and more_mem_stream: "mem_stream ctx b w = (x, w') \<Longrightarrow> os_world.more w' = os_world.more w"
  by (metis more_streams(1) snd_conv) (metis more_streams(2) snd_conv)

subsection \<open>Readers\<close>

text \<open>
  \<open>leaves stored m\<close>: whatever its outcome, \<open>m\<close> does not change what the server holds;
  \<open>reads_only\<close>: nor the files of this machine. \<open>reader_of stored p rc\<close>: the reader yields, when it is read to the end, what the server holds under
  \<open>p\<close>. \<open>opens stored p op\<close>: when \<open>op\<close> succeeds its result is such a reader and the
  server holds something under \<open>p\<close>.
\<close>

definition leaves :: "('z \<Rightarrow> string \<Rightarrow> bytes option) \<Rightarrow> ('z os_world_scheme, 'a) io \<Rightarrow> bool" where
  "leaves stored m \<longleftrightarrow> (\<forall>S. keeps (\<lambda>w. stored (os_world.more w) = S) m)"

definition reads_only :: "('z \<Rightarrow> string \<Rightarrow> bytes option) \<Rightarrow> ('z os_world_scheme, 'a) io \<Rightarrow> bool" where
  "reads_only stored m \<longleftrightarrow> (\<forall>d. sets d {} m) \<and> leaves stored m"

definition reader_of :: "('z \<Rightarrow> string \<Rightarrow> bytes option) \<Rightarrow> string \<Rightarrow> 'z ReadCloser \<Rightarrow> bool" where
  "reader_of stored p rc \<longleftrightarrow>
     (\<forall>ctx. reads_only stored (\<lambda>w. case rc_Read rc ctx w of (r, w') \<Rightarrow> (Ok r, w')) \<and>
        (\<forall>w got w'. rc_Read rc ctx w = ((got, None), w') \<longrightarrow> stored (os_world.more w) p = Some got)) \<and>
     reads_only stored (rc_Close rc)"

definition opens :: "('z \<Rightarrow> string \<Rightarrow> bytes option) \<Rightarrow> string \<Rightarrow> ('z, 'z ReadCloser) os \<Rightarrow> bool" where
  "opens stored p op \<longleftrightarrow>
     reads_only stored op \<and> (\<forall>w rc w'. op w = (Ok rc, w') \<longrightarrow> reader_of stored p rc)"

lemma leavesD: "leaves stored m \<Longrightarrow> m w = (r, w') \<Longrightarrow> stored (os_world.more w') = stored (os_world.more w)"
  unfolding leaves_def by (blast dest: keepsD)

lemma leaves_local:
  assumes "\<And>P. keeps (\<lambda>w. P (os_world.more w)) m"
  shows "leaves stored m"
  unfolding leaves_def using assms [of "\<lambda>z. stored z = S" for S] by simp

lemma reads_onlyD:
  assumes "reads_only stored m" and "m w = (r, w')"
  shows "lookup w' q = lookup w q" and "cwd w' = cwd w" and "stored (os_world.more w') = stored (os_world.more w)"
proof -
  from assms(1) have m: "sets (cwd w) {} m" "leaves stored m" unfolding reads_only_def by blast+
  show "lookup w' q = lookup w q" by (rule sets_lookup(2) [OF m(1) refl assms(2)]) simp
  show "cwd w' = cwd w" by (rule sets_lookup(1) [OF m(1) refl assms(2)])
  from leavesD [OF m(2) assms(2)] show "stored (os_world.more w') = stored (os_world.more w)" .
qed

lemma reader_ofD:
  assumes "reader_of stored p rc" and "rc_Read rc ctx w = ((got, e), w')"
  shows "e = None \<Longrightarrow> stored (os_world.more w) p = Some got"
    and "lookup w' q = lookup w q" and "cwd w' = cwd w" and "stored (os_world.more w') = stored (os_world.more w)"
proof -
  from assms(1) have r: "reads_only stored (\<lambda>w. case rc_Read rc ctx w of (r, w') \<Rightarrow> (Ok r, w'))"
    and content: "\<And>got w'. rc_Read rc ctx w = ((got, None), w') \<Longrightarrow> stored (os_world.more w) p = Some got"
    unfolding reader_of_def by blast+
  have "(case rc_Read rc ctx w of (r, w') \<Rightarrow> (Ok r, w')) = (Ok (got, e), w')" using assms(2) by simp
  from reads_onlyD [OF r this] show "lookup w' q = lookup w q" "cwd w' = cwd w"
    "stored (os_world.more w') = stored (os_world.more w)" .
  show "e = None \<Longrightarrow> stored (os_world.more w) p = Some got" using content assms(2) by simp
qed

lemma reader_of_close: "reader_of stored p rc \<Longrightarrow> reads_only stored (rc_Close rc)"
  by (simp add: reader_of_def)

lemma opensD:
  assumes "opens stored p op" and "op w = (Ok rc, w')"
  shows "reader_of stored p rc" and "lookup w' q = lookup w q" and "cwd w' = cwd w"
    and "stored (os_world.more w') = stored (os_world.more w)"
  using assms reads_onlyD [of stored op w "Ok rc" w'] by (auto simp: opens_def)

subsection \<open>Restoring one object\<close>

lemma remote_source_Ok:
  assumes run: "remote_source lib ctx rc key w = (Ok (raw, None), w')" and rc: "reader_of stored p rc"
  shows "\<exists>b. stored (os_world.more w) p = Some b \<and> object_content lib key b = Some raw"
    and "lookup w' q = lookup w q" and "cwd w' = cwd w" and "stored (os_world.more w') = stored (os_world.more w)"
proof -
  have "(\<exists>b. stored (os_world.more w) p = Some b \<and> object_content lib key b = Some raw) \<and>
    lookup w' q = lookup w q \<and> cwd w' = cwd w \<and> stored (os_world.more w') = stored (os_world.more w)"
  proof (cases "key = []")
    case True
    with run have r: "rc_Read rc ctx w = ((raw, None), w')" by (auto simp: remote_source_def split: prod.splits)
    from reader_ofD [OF rc r] True show ?thesis by (simp add: object_content_def)
  next
    case False
    with run obtain b w1 where dec: "AESGCM_Decode (lib_crypto lib) (rc_Read rc background) key w = (Ok b, w1)"
      and mem: "mem_stream ctx b w1 = ((raw, None), w')"
      by (auto simp: remote_source_def ok_iffs pass_pair)
    from AESGCM_Decode_Ok [OF dec] obtain got where got: "rc_Read rc background w = ((got, None), w1)"
      "length key \<in> {16, 24, 32}" "gcmNonceSize \<le> length got"
      "gcm_Open (lib_crypto lib) key (take gcmNonceSize got) (drop gcmNonceSize got) = Some b" by blast
    have "raw = b" using mem by (rule mem_stream_done)
    moreover have "w' = snd (mem_stream ctx b w1)" using mem by simp
    ultimately show ?thesis using reader_ofD [OF rc got(1)] got(2-4) False stream_lookup(3,4) [of ctx b w1]
      by (auto simp: object_content_def)
  qed
  then show "\<exists>b. stored (os_world.more w) p = Some b \<and> object_content lib key b = Some raw"
    and "lookup w' q = lookup w q" and "cwd w' = cwd w" and "stored (os_world.more w') = stored (os_world.more w)" by auto
qed

definition holds_decoded ::
  "library \<Rightarrow> ('z \<Rightarrow> string \<Rightarrow> bytes option) \<Rightarrow> Compression \<Rightarrow> bytes \<Rightarrow> 'z \<Rightarrow> string \<Rightarrow> bytes \<Rightarrow> bool" where
  "holds_decoded lib stored co key z p out \<longleftrightarrow>
     (\<exists>raw data. stored z p = Some raw \<and> object_content lib key raw = Some data \<and> decodes lib co data out)"

lemma write_decoded_local [keeps_rules]: "keeps (\<lambda>w. P (os_world.more w)) (write_decoded q decoded e)"
proof (rule keepsI)
  fix w :: "'a os_world_scheme" assume w: "P (os_world.more w)"
  have a: "keeps (\<lambda>w. P (os_world.more w)) (andThen (ignoring (os_Write q b)) (\<lambda>_. fail e :: ('a, int) os))" for b e
    by (intro keeps_rules)
  have b: "keeps (\<lambda>w. P (os_world.more w)) (andThen (os_Write q (fst decoded)) (\<lambda>_.
      case snd decoded of Some e \<Rightarrow> fail e | None \<Rightarrow> return (int (length (fst decoded)))) :: ('a, int) os)"
    by (intro keeps_rules)
  show "P (os_world.more (snd (write_decoded q decoded e w)))"
    using a b w by (cases e) (simp_all add: write_decoded_def keeps_def)
qed

lemma restore_from_Ok:
  assumes run: "restore_from lib m1 m2 ctx co q key rc w = (Ok n, w')" and rc: "reader_of stored p rc"
    and q: "lookup w q = Some (File c)"
  shows "\<exists>out. holds_decoded lib stored co key (os_world.more w) p out \<and> n = int (length out) \<and>
    lookup w' q = Some (File (c @ out))"
    and "stored (os_world.more w') = stored (os_world.more w)"
proof -
  from run obtain raw readErr w1 h decoded w2 where
    src: "remote_source lib ctx rc key w = (Ok (raw, readErr), w1)"
    and dec: "GetHandler (compType co) = Ok h" "Handler_Decode (lib_codecs lib) h raw = Ok decoded"
    and wr: "write_decoded q decoded readErr w1 = (Ok n, w2)" and fin: "w' = snd (rc_Close rc w2)"
    by (auto simp: restore_from_def ok_iffs deferring_iff ignoring_def)
  have e: "readErr = None" using wr by (auto simp: write_decoded_def ok_iffs split: option.splits)
  note s = remote_source_Ok [OF src [unfolded e] rc]
  have q1: "lookup w1 q = Some (File c)" using s(2) q by simp
  from write_decoded_Ok [OF wr q1] have d: "snd decoded = None" "n = int (length (fst decoded))"
    "lookup w2 q = Some (File (c @ fst decoded))" by simp_all
  have "keeps (\<lambda>v. stored (os_world.more v) = stored (os_world.more w1)) (write_decoded q decoded readErr)"
    by (rule write_decoded_local)
  from keepsD [OF this refl wr] have "stored (os_world.more w2) = stored (os_world.more w1)" .
  moreover obtain r where cl: "rc_Close rc w2 = (r, w')" using fin by (metis prod.collapse)
  note reads_onlyD [OF reader_of_close [OF rc] cl]
  ultimately show "stored (os_world.more w') = stored (os_world.more w)" using s(4) by simp
  have "decodes lib co raw (fst decoded)" using dec d(1) by (auto simp: decodes_def) (metis prod.collapse)
  with s(1) have "holds_decoded lib stored co key (os_world.more w) p (fst decoded)" by (auto simp: holds_decoded_def)
  with d reads_onlyD(1) [OF reader_of_close [OF rc] cl, of q]
  show "\<exists>out. holds_decoded lib stored co key (os_world.more w) p out \<and> n = int (length out) \<and>
    lookup w' q = Some (File (c @ out))" by auto
qed

subsection \<open>The contract of restoring one object\<close>

text \<open>What a restored file is, when \<open>holds\<close> says what the server holds for an object.\<close>

definition restored ::
  "(Compression \<Rightarrow> 'z \<Rightarrow> string \<Rightarrow> bytes \<Rightarrow> bool) \<Rightarrow> Compression option \<Rightarrow> SnapFile \<Rightarrow> 'z os_world_scheme \<Rightarrow>
   'z os_world_scheme \<Rightarrow> bool" where
  "restored holds cmp f w w' \<longleftrightarrow>
     (\<exists>co hs outs. cmp = Some co \<and> GetHashes (Some f) = Ok hs \<and> list_all2 (holds co (os_world.more w)) hs outs \<and>
        lookup w' (resolve w (file_path f)) = Some (File (concat outs)) \<and>
        i64 (file_size f) = i64 (int (length (concat outs))))"

text \<open>
  What restoring a file needs of the backend \<open>c\<close>: restoring one object appends what the server holds
  for it, and does not change what the server holds.
\<close>

locale restoring =
  fixes lawful :: "'c \<Rightarrow> bool"
    and holds :: "'c \<Rightarrow> Compression \<Rightarrow> 'z \<Rightarrow> string \<Rightarrow> bytes \<Rightarrow> bool"
    and part :: "'c \<Rightarrow> Compression \<Rightarrow> string \<Rightarrow> fspath \<Rightarrow> ('z, int) os"
  assumes part_appends: "lawful c \<Longrightarrow> part c co h q w = (Ok n, w') \<Longrightarrow> lookup w q = Some (File b) \<Longrightarrow>
      \<exists>out. holds c co (os_world.more w) h out \<and> n = int (length out) \<and> lookup w' q = Some (File (b @ out))"
    and part_keeps: "lawful c \<Longrightarrow> part c co h q w = (Ok n, w') \<Longrightarrow> lookup w q = Some (File b) \<Longrightarrow>
      holds c co (os_world.more w') = holds c co (os_world.more w)"
begin

lemma each_part_Ok:
  assumes "each_part msg (\<lambda>h. part c co h q) ctx hs n w = (Ok m, w')" and "lawful c" and "lookup w q = Some (File b)"
  shows "\<exists>outs. list_all2 (holds c co (os_world.more w)) hs outs \<and> lookup w' q = Some (File (b @ concat outs)) \<and>
    i64 m = i64 (n + int (length (concat outs)))"
  using assms(1,3)
proof (induction hs arbitrary: n w b)
  case Nil
  then show ?case by (intro exI [of _ "[]"]) (simp add: return_Ok_iff)
next
  case (Cons h hs)
  from Cons.prems(1) obtain w1 k w2 where cx: "ctxErr ctx w = (Ok (), w1)"
    and part: "part c co h q w1 = (Ok k, w2)"
    and rest: "each_part msg (\<lambda>h. part c co h q) ctx hs (i64 (n + k)) w2 = (Ok m, w')"
    by (auto simp: ok_iffs)
  have w1: "w1 = tick w" using ctxErr_Ok [OF cx] by simp
  then have "lookup w1 q = Some (File b)" using Cons.prems(2) by simp
  from part_appends [OF assms(2) part this] part_keeps [OF assms(2) part this] w1 obtain out where
    out: "holds c co (os_world.more w) h out" "k = int (length out)" "lookup w2 q = Some (File (b @ out))"
      "holds c co (os_world.more w2) = holds c co (os_world.more w)" by auto
  from Cons.IH [OF rest out(3)] obtain outs where
    "list_all2 (holds c co (os_world.more w)) hs outs" "lookup w' q = Some (File ((b @ out) @ concat outs))"
    "i64 m = i64 (i64 (n + k) + int (length (concat outs)))" using out(4) by auto
  with out(1,2) show ?case by (intro exI [of _ "out # outs"]) (simp add: add.assoc)
qed

lemma restored_file:
  assumes "lawful c" and "cmp = Some co" and "GetHashes (Some f) = Ok hs" and "ctxErr ctx w = (Ok u, w1)"
    and mk: "os_MkdirAll (Dir_of (file_path f)) w1 = (Ok v, w2)" and cr: "os_Create (file_path f) w2 = (Ok d, w3)"
    and size: "restored_size msg (\<lambda>h. part c co h d) ctx f hs w3 = (Ok y, w4)" and cl: "os_Close d w4 = (Ok z, w5)"
  shows "restored (holds c) cmp f w w5"
proof -
  have w1: "w1 = tick w" using ctxErr_Ok [OF assms(4)] by simp
  have "cwd w2 = cwd w" using Mkdir_cwd [OF mk] w1 by simp
  with os_Create_Ok [OF cr] have d: "d = resolve w (file_path f)" "lookup w3 d = Some (File [])"
    using resolve_cong [of w2 w "file_path f"] by auto
  have "keeps (\<lambda>v. os_world.more v = os_world.more w1) (os_MkdirAll (Dir_of (file_path f)))"
    by (rule local_calls)
  from keepsD [OF this refl mk] have m2: "os_world.more w2 = os_world.more w" using w1 by simp
  have "keeps (\<lambda>v. os_world.more v = os_world.more w2) (os_Create (file_path f))" by (rule local_calls)
  from keepsD [OF this refl cr] m2 have m3: "os_world.more w3 = os_world.more w" by simp
  from size obtain m where each: "each_part msg (\<lambda>h. part c co h d) ctx hs 0 w3 = (Ok m, w4)" and "m = file_size f"
    by (auto simp: restored_size_def ok_iffs split: if_splits)
  with each_part_Ok [OF each assms(1) d(2)] m3 os_Close_Ok [OF cl] d(1) assms(2,3)
  show ?thesis unfolding restored_def by auto
qed

lemma RestoreObject_restored:
  assumes "lawful c" and run: "remote_RestoreObject msg (part c) ctx cmp f w = (Ok x, w')"
  shows "restored (holds c) cmp f w w'"
proof -
  from run obtain co hs w1 w2 d w3 w4 where
    pre: "cmp = Some co" "GetHashes (Some f) = Ok hs" "ctxErr ctx w = (Ok (), w1)"
      "os_MkdirAll (Dir_of (file_path f)) w1 = (Ok (), w2)" "os_Create (file_path f) w2 = (Ok d, w3)"
      "restored_size msg (\<lambda>h. part c co h d) ctx f hs w3 = (Ok (), w4)" "os_Close d w4 = (Ok (), w')"
    by (auto simp: remote_RestoreObject_def ok_iffs deferring_iff split: option.splits)
  show ?thesis by (rule restored_file [OF assms(1) pre])
qed

end

definition remote_path :: "string \<Rightarrow> bytes \<Rightarrow> uint64 \<Rightarrow> string \<Rightarrow> string" where
  "remote_path root key g h = (case GetObjectsPath root h g key True of Ok dest \<Rightarrow> ObjectPath dest | _ \<Rightarrow> [])"

lemma remote_path: "GetObjectsPath root h g key True = Ok dest \<Longrightarrow> ObjectPath dest = remote_path root key g h"
  by (simp add: remote_path_def)

text \<open>The parts of all five repositories come down to opening and \<open>restore_from\<close>.\<close>

lemma opened_part:
  assumes "opens stored p op" and "op w = (Ok rc, w1)" and "restore_from lib m1 m2 ctx co q key rc w1 = (Ok n, w')"
    and "lookup w q = Some (File b)"
  shows "\<exists>out. holds_decoded lib stored co key (os_world.more w) p out \<and> n = int (length out) \<and>
      lookup w' q = Some (File (b @ out))"
    and "stored (os_world.more w') = stored (os_world.more w)"
proof -
  note o = opensD [OF assms(1,2)]
  have "lookup w1 q = Some (File b)" using o(2) assms(4) by simp
  from restore_from_Ok [OF assms(3) o(1) this] o(4)
  show "\<exists>out. holds_decoded lib stored co key (os_world.more w) p out \<and> n = int (length out) \<and>
      lookup w' q = Some (File (b @ out))"
    and "stored (os_world.more w') = stored (os_world.more w)" by (auto simp: holds_decoded_def)
qed

subsection \<open>Encoding a chunk\<close>

lemma AESGCM_Close_out:
  assumes "AESGCM_Close cr key buf snk w = (Ok out, w')"
  shows "\<exists>nonce. length nonce = gcmNonceSize \<and> out = nonce @ gcm_Seal cr key nonce buf"
proof -
  from assms obtain nonce w1 where "random_bytes gcmNonceSize w = (Ok nonce, w1)" "out = nonce @ gcm_Seal cr key nonce buf"
    by (auto simp: AESGCM_Close_def ok_iffs)
  then show ?thesis using random_bytes_Ok by blast
qed

lemma local_Close [keeps_rules]:
  "(\<And>b. keeps (\<lambda>w. P (os_world.more w)) (snk b)) \<Longrightarrow> keeps (\<lambda>w. P (os_world.more w)) (AESGCM_Close cr key buf snk)"
  unfolding AESGCM_Close_def writeFull_def by (intro keeps_rules)

lemma local_copy_mem [keeps_rules]: "keeps (\<lambda>w. P (os_world.more w)) (copy_mem ctx b)"
proof (rule keepsI)
  fix w :: "'a os_world_scheme" assume w: "P (os_world.more w)"
  obtain got e w1 where m: "mem_stream ctx b w = ((got, e), w1)" by (metis prod.exhaust)
  with w more_mem_stream [OF m] show "P (os_world.more (snd (copy_mem ctx b w)))" by (cases e) (simp_all add: copy_mem_def)
qed

lemma local_encrypt [keeps_rules]: "keeps (\<lambda>w. P (os_world.more w)) (Encoder_encrypt c ctx b key)"
  unfolding Encoder_encrypt_def by (intro keeps_rules)

lemma Encoder_encrypt_Ok:
  assumes "Encoder_encrypt (lib_crypto lib) ctx data key w = (Ok b, w')" and "key \<noteq> []"
  shows "stored_as lib key b data"
proof -
  from assms obtain buf w1 where len: "length key = AES256KeySize" and c: "copy_mem ctx data w = (Ok buf, w1)"
    and cl: "AESGCM_Close (lib_crypto lib) key buf (\<lambda>_. return ()) w1 = (Ok b, w')"
    by (auto simp: Encoder_encrypt_def ok_iffs AESGCM_Encode_Ok)
  have "buf = data" using c by (auto simp: copy_mem_def dest: mem_stream_done split: prod.splits option.splits)
  with AESGCM_Close_out [OF cl] len assms(2) show ?thesis by (auto simp: stored_as_def)
qed

lemma check_Ok: "check e w = (Ok u, w') \<longleftrightarrow> e = None \<and> w' = w"
  by (auto simp: check_def ok_iffs split: option.splits)

lemma Encoder_Encode_Ok:
  assumes "Encoder_Encode lib ctx p hash off sz cmp key source w = (Ok b, w')"
  shows "\<exists>enc. compresses lib cmp enc \<and> content_hash (lib_crypto lib) (enc (section_of off sz (content_at w source))) = hash \<and>
    stored_as lib key b (enc (section_of off sz (content_at w source)))"
    and "os_world.more w' = os_world.more w"
proof -
  let ?data = "section_of off sz (content_at w source)"
  let ?rest = "\<lambda>enc got. andThen (check (validateHash (lib_crypto lib) (enc got) hash)) (\<lambda>_.
    if key = [] then return (enc got) else orWrap ''encrypt chunk'' (Encoder_encrypt (lib_crypto lib) ctx (enc got) key))"
  from assms obtain co h enc w1 where co: "cmp = Some co" and cx: "ctxErr ctx w = (Ok (), w1)"
    and h: "GetHandler (compType co) = Ok h" "Handler_Encode (lib_codecs lib) h (level co) = Ok enc"
    and run: "(case stream ctx (section_of off sz (content_at w1 source)) w1 of
               ((got, Some e), w') \<Rightarrow> fail (Wrapped ''compress chunk'' e) w'
             | ((got, None), w') \<Rightarrow> ?rest enc got w') = (Ok b, w')"
    by (auto simp: Encoder_Encode_def ok_iffs split: option.splits)
  obtain got e w2 where s: "stream ctx (section_of off sz (content_at w1 source)) w1 = ((got, e), w2)"
    by (metis prod.exhaust)
  have e: "e = None" using run s by (cases e) (auto simp: ok_iffs)
  with run s have "?rest enc got w2 = (Ok b, w')" by simp
  then have hash: "validateHash (lib_crypto lib) (enc got) hash = None"
    and out: "key = [] \<and> b = enc got \<and> w' = w2 \<or>
      key \<noteq> [] \<and> Encoder_encrypt (lib_crypto lib) ctx (enc got) key w2 = (Ok b, w')"
    by (auto simp: ok_iffs check_Ok split: if_splits)
  have w1: "w1 = tick w" using ctxErr_Ok [OF cx] by simp
  then have got: "got = ?data" using s e by (auto simp: content_at_def dest: stream_done)
  have "stored_as lib key b (enc got)" using out
  proof (elim disjE conjE)
    assume "key \<noteq> []" and "Encoder_encrypt (lib_crypto lib) ctx (enc got) key w2 = (Ok b, w')"
    then show ?thesis by (rule Encoder_encrypt_Ok [rotated])
  qed (simp add: stored_as_def)
  with got h co hash show "\<exists>enc. compresses lib cmp enc \<and> content_hash (lib_crypto lib) (enc ?data) = hash \<and>
    stored_as lib key b (enc ?data)"
    by (auto simp: compresses_def validateHash_def split: if_splits)
  have m2: "os_world.more w2 = os_world.more w"
    using w1 more_stream [OF s] by simp
  have "keeps (\<lambda>v. os_world.more v = os_world.more w2) (Encoder_encrypt (lib_crypto lib) ctx (enc got) key)"
    by (rule local_encrypt)
  from keepsD [OF this refl] out m2 show "os_world.more w' = os_world.more w" by auto
qed

subsection \<open>Writing to the server\<close>

text \<open>
  \<open>puts stored p b m\<close>: when \<open>m\<close> returned nil, the server holds \<open>b\<close> under \<open>p\<close>
  and everything else as before. \<open>writer_to\<close>: an open file; what is written into it
  while it is empty is its content.
\<close>

definition puts :: "('z \<Rightarrow> string \<Rightarrow> bytes option) \<Rightarrow> string \<Rightarrow> bytes \<Rightarrow> ('z, unit) os \<Rightarrow> bool" where
  "puts stored p b m \<longleftrightarrow>
     (\<forall>w u w'. m w = (Ok u, w') \<longrightarrow> stored (os_world.more w') = (stored (os_world.more w))(p \<mapsto> b))"

definition writer_to :: "('z \<Rightarrow> string \<Rightarrow> bytes option) \<Rightarrow> string \<Rightarrow> 'z remote_file \<Rightarrow> bool" where
  "writer_to stored p f \<longleftrightarrow>
     (\<forall>b w u w'. rf_Write f b w = (Ok u, w') \<longrightarrow> stored (os_world.more w) p = Some [] \<longrightarrow>
        stored (os_world.more w') = (stored (os_world.more w))(p \<mapsto> b)) \<and>
     leaves stored (rf_Close f)"

lemma copy_into_Ok:
  assumes "copy_into f ctx b w = (Ok u, w')" and "writer_to stored p f" and "stored (os_world.more w) p = Some []"
  shows "stored (os_world.more w') = (stored (os_world.more w))(p \<mapsto> b)"
proof -
  obtain got e w1 where m: "mem_stream ctx b w = ((got, e), w1)" by (metis prod.exhaust)
  with assms(1) have "e = None" and wr: "rf_Write f got w1 = (Ok u, w')"
    by (auto simp: copy_into_def ok_iffs split: option.splits)
  moreover have "os_world.more w1 = os_world.more w" by (rule more_mem_stream [OF m])
  moreover have "got = b" using m \<open>e = None\<close> by (auto dest: mem_stream_done)
  ultimately show ?thesis using assms(2,3) unfolding writer_to_def by metis
qed

text \<open>What a saved chunk is: its section of the source, compressed and encrypted, is all the server got.\<close>

definition chunk_stored ::
  "library \<Rightarrow> ('z \<Rightarrow> string \<Rightarrow> bytes option) \<Rightarrow> string \<Rightarrow> string \<Rightarrow> string \<Rightarrow> int \<Rightarrow> int \<Rightarrow> Compression option \<Rightarrow> bytes \<Rightarrow>
   uint64 \<Rightarrow> 'z os_world_scheme \<Rightarrow> 'z os_world_scheme \<Rightarrow> bool" where
  "chunk_stored lib stored root filePath h off sz cmp key g w w' \<longleftrightarrow>
     (\<exists>b enc raw. lookup w (resolve w filePath) = Some (File b) \<and> 0 \<le> off \<and> 0 < sz \<and> off + sz \<le> int (length b) \<and>
        compresses lib cmp enc \<and> content_hash (lib_crypto lib) (enc (section_of off sz b)) = h \<and>
        stored_as lib key raw (enc (section_of off sz b)) \<and>
        stored (os_world.more w') = (stored (os_world.more w))(remote_path root key g h \<mapsto> raw))"

lemma OpenSource_range:
  assumes "OpenSource p hash off sz cmp w = (Ok h, w')"
  shows "\<exists>b. lookup w (resolve w p) = Some (File b) \<and> content_at w' h = b \<and> 0 \<le> off \<and> 0 < sz \<and> off + sz \<le> int (length b)"
proof -
  from OpenSource_Ok [OF assms] obtain b where
    b: "0 \<le> off" "0 < sz" "h = resolve w p" "lookup w h = Some (File b)" "off \<le> int (length b)"
      "sz \<le> i64 (int (length b) - off)" "lookup w' h = lookup w h" by auto
  with i64_le [of "int (length b) - off"] show ?thesis by (auto simp: content_at_def)
qed

lemma local_OpenSource [keeps_rules]: "keeps (\<lambda>w. P (os_world.more w)) (OpenSource p hash off sz cmp)"
  unfolding OpenSource_def by (intro keeps_rules)

text \<open>The source opened, the chunk encoded and put under its path.\<close>

lemma chunk_stored_raw:
  assumes src: "OpenSource filePath h off sz cmp w0 = (Ok source, w1)" and w0: "w0 = w \<or> w0 = tick w"
    and enc: "compresses lib cmp enc" "content_hash (lib_crypto lib) (enc (section_of off sz (content_at w1 source))) = h"
      "stored_as lib key raw (enc (section_of off sz (content_at w1 source)))"
    and st: "stored (os_world.more w') = (stored (os_world.more w1))(remote_path root key g h \<mapsto> raw)"
  shows "chunk_stored lib stored root filePath h off sz cmp key g w w'"
proof -
  have "keeps (\<lambda>v. os_world.more v = os_world.more w0) (OpenSource filePath h off sz cmp)" by (rule local_OpenSource)
  from keepsD [OF this refl src] w0 have "os_world.more w1 = os_world.more w" by auto
  moreover have "lookup w0 (resolve w0 filePath) = lookup w (resolve w filePath)" using w0 by auto
  ultimately show ?thesis using OpenSource_range [OF src] enc st unfolding chunk_stored_def by metis
qed

lemma chunk_storedI:
  assumes src: "OpenSource filePath h off sz cmp w0 = (Ok source, w1)" and w0: "w0 = w \<or> w0 = tick w"
    and enc: "Encoder_Encode lib ctx filePath h off sz cmp key source w1 = (Ok b, w2)"
    and st: "stored (os_world.more w') = (stored (os_world.more w2))(remote_path root key g h \<mapsto> b)"
  shows "chunk_stored lib stored root filePath h off sz cmp key g w w'"
  using chunk_stored_raw [OF src w0] Encoder_Encode_Ok [OF enc] st by metis

end
