(* ===== verification/Remote_Store.thy ===== *)
theory Remote_Store
  imports Remote_Facts S3 GCS SSH SMB WebDAV
begin

section \<open>Saving and restoring on the five remote servers\<close>

text \<open>
  What is assumed of each client library, as far as chunks and restored files go, and that the
  repositories meet the contract of \<^theory_text>\<open>Remote_Facts\<close>: \<open>..._reads\<close> says that opening an
  object gives a reader of what the server holds, \<open>..._writes\<close> that what was sent without error is held
  afterwards, under its path and nowhere else.
\<close>

type_synonym 'z store = "'z \<Rightarrow> string \<Rightarrow> bytes option"

subsection \<open>Reading\<close>

definition s3_reads :: "'z store \<Rightarrow> 'z s3_place \<Rightarrow> bool" where
  "s3_reads stored s \<longleftrightarrow> (\<forall>ctx p. opens stored p (andThen (GetObject (s3_cl s) ctx (s3_bucket s) p) deref))"

definition gcs_reads :: "'z store \<Rightarrow> 'z gcs_place \<Rightarrow> bool" where
  "gcs_reads stored s \<longleftrightarrow> (\<forall>ctx p. opens stored p (gcs_NewReader (gcs_cl s) ctx (gcs_bucket s) p))"

definition ssh_reads :: "'z store \<Rightarrow> 'z sftp_client \<Rightarrow> bool" where
  "ssh_reads stored cl \<longleftrightarrow> (\<forall>p. opens stored p (sftp_Open cl p))"

definition smb_reads :: "'z store \<Rightarrow> 'z smb_share \<Rightarrow> bool" where
  "smb_reads stored sh \<longleftrightarrow> (\<forall>p. opens stored p (smb_Open sh background p))"

definition webdav_reads :: "'z store \<Rightarrow> 'z webdav_client \<Rightarrow> bool" where
  "webdav_reads stored cl \<longleftrightarrow> (\<forall>p. opens stored p (wd_ReadStream cl p))"

text \<open>What a repository at \<open>root\<close> holds for the object of a hash.\<close>

definition holds_at ::
  "library \<Rightarrow> 'z store \<Rightarrow> bytes \<Rightarrow> uint64 \<Rightarrow> string \<Rightarrow> Compression \<Rightarrow> 'z \<Rightarrow> string \<Rightarrow> bytes \<Rightarrow> bool" where
  "holds_at lib stored key g root co z h = holds_decoded lib stored co key z (remote_path root key g h)"

lemma holds_at_cong: "stored z' = stored z \<Longrightarrow> holds_at lib stored key g root co z' = holds_at lib stored key g root co z"
  by (intro ext) (simp add: holds_at_def holds_decoded_def)

text \<open>Every part opens the object at its path and restores from the reader.\<close>

lemma part_restores:
  assumes op: "\<And>p. opens stored p (op p)" and q: "lookup w q = Some (File b)"
    and run: "\<exists>w0 dest rc w1. ctxErr ctx w = (Ok (), w0) \<and> GetObjectsPath root h g key True = Ok dest \<and>
      op (ObjectPath dest) w0 = (Ok rc, w1) \<and> restore_from lib m1 m2 ctx co q key rc w1 = (Ok n, w')"
  shows "(\<exists>out. holds_at lib stored key g root co (os_world.more w) h out \<and> n = int (length out) \<and>
      lookup w' q = Some (File (b @ out))) \<and> stored (os_world.more w') = stored (os_world.more w)"
proof -
  from run obtain w0 dest rc w1 where cx: "ctxErr ctx w = (Ok (), w0)" and dest: "GetObjectsPath root h g key True = Ok dest"
    and get: "op (ObjectPath dest) w0 = (Ok rc, w1)"
    and rest: "restore_from lib m1 m2 ctx co q key rc w1 = (Ok n, w')" by blast
  have w0: "w0 = tick w" using ctxErr_Ok [OF cx] by simp
  then have "lookup w0 q = Some (File b)" using q by simp
  from opened_part [OF op get rest this] w0 remote_path [OF dest] show ?thesis by (simp add: holds_at_def)
qed

lemma s3_part:
  assumes "s3_reads stored s" and "s3_restoreObjectPart lib s ctx key g co h q w = (Ok n, w')"
    and "lookup w q = Some (File b)"
  shows "(\<exists>out. holds_at lib stored key g (s3_prefix s) co (os_world.more w) h out \<and> n = int (length out) \<and>
      lookup w' q = Some (File (b @ out))) \<and> stored (os_world.more w') = stored (os_world.more w)"
  by (rule part_restores [where op = "\<lambda>p. andThen (GetObject (s3_cl s) ctx (s3_bucket s) p) deref" and ctx = ctx
      and ?m1.0 = "''decode object''" and ?m2.0 = "''copy decoded object''", OF _ assms(3)])
    (use assms(1,2) in \<open>auto simp: s3_reads_def s3_restoreObjectPart_def ok_iffs split: if_splits\<close>)

lemma gcs_part:
  assumes "gcs_reads stored s" and "gcs_restoreObjectPart lib s ctx key g co h q w = (Ok n, w')"
    and "lookup w q = Some (File b)"
  shows "(\<exists>out. holds_at lib stored key g (gcs_prefix s) co (os_world.more w) h out \<and> n = int (length out) \<and>
      lookup w' q = Some (File (b @ out))) \<and> stored (os_world.more w') = stored (os_world.more w)"
  by (rule part_restores [where op = "gcs_NewReader (gcs_cl s) ctx (gcs_bucket s)" and ctx = ctx
      and ?m1.0 = "''decode object''" and ?m2.0 = "''copy decoded object''", OF _ assms(3)])
    (use assms(1,2) in \<open>auto simp: gcs_reads_def gcs_restoreObjectPart_def ok_iffs split: if_splits\<close>)

lemma ssh_part:
  assumes "ssh_reads stored cl" and "ssh_restoreObjectPart lib cl root ctx key g co h q w = (Ok n, w')"
    and "lookup w q = Some (File b)"
  shows "(\<exists>out. holds_at lib stored key g root co (os_world.more w) h out \<and> n = int (length out) \<and>
      lookup w' q = Some (File (b @ out))) \<and> stored (os_world.more w') = stored (os_world.more w)"
  by (rule part_restores [where op = "sftp_Open cl" and ctx = ctx
      and ?m1.0 = "''decode remote object''" and ?m2.0 = "''copy decoded remote object''", OF _ assms(3)])
    (use assms(1,2) in \<open>auto simp: ssh_reads_def ssh_restoreObjectPart_def ok_iffs split: if_splits\<close>)

lemma smb_part:
  assumes "smb_reads stored sh" and "smb_restoreObjectPart lib sh root ctx key g co h q w = (Ok n, w')"
    and "lookup w q = Some (File b)"
  shows "(\<exists>out. holds_at lib stored key g root co (os_world.more w) h out \<and> n = int (length out) \<and>
      lookup w' q = Some (File (b @ out))) \<and> stored (os_world.more w') = stored (os_world.more w)"
  by (rule part_restores [where op = "smb_Open sh background" and ctx = ctx
      and ?m1.0 = "''decode SMB object''" and ?m2.0 = "''copy decoded SMB object''", OF _ assms(3)])
    (use assms(1,2) in \<open>auto simp: smb_reads_def smb_restoreObjectPart_def ok_iffs split: if_splits\<close>)

lemma webdav_part:
  assumes "webdav_reads stored cl" and "webdav_restoreObjectPart lib cl root ctx key g co h q w = (Ok n, w')"
    and "lookup w q = Some (File b)"
  shows "(\<exists>out. holds_at lib stored key g root co (os_world.more w) h out \<and> n = int (length out) \<and>
      lookup w' q = Some (File (b @ out))) \<and> stored (os_world.more w') = stored (os_world.more w)"
  by (rule part_restores [where op = "wd_ReadStream cl" and ctx = ctx
      and ?m1.0 = "''decode WebDAV object''" and ?m2.0 = "''copy decoded WebDAV object''", OF _ assms(3)])
    (use assms(1,2) in \<open>auto simp: webdav_reads_def webdav_restoreObjectPart_def ok_iffs split: if_splits\<close>)

subsection \<open>The contract of restoring, five times\<close>

interpretation s3_parts: restoring "s3_reads stored" "\<lambda>s. holds_at lib stored key g (s3_prefix s)"
  "\<lambda>s. s3_restoreObjectPart lib s ctx key g" for stored lib key g ctx
proof
qed (blast dest: s3_part holds_at_cong)+

interpretation gcs_parts: restoring "gcs_reads stored" "\<lambda>s. holds_at lib stored key g (gcs_prefix s)"
  "\<lambda>s. gcs_restoreObjectPart lib s ctx key g" for stored lib key g ctx
proof
qed (blast dest: gcs_part holds_at_cong)+

interpretation ssh_parts: restoring "ssh_reads stored" "\<lambda>_. holds_at lib stored key g root"
  "\<lambda>cl. ssh_restoreObjectPart lib cl root ctx key g" for stored lib root key g ctx
proof
qed (blast dest: ssh_part holds_at_cong)+

interpretation smb_parts: restoring "smb_reads stored" "\<lambda>_. holds_at lib stored key g root"
  "\<lambda>sh. smb_restoreObjectPart lib sh root ctx key g" for stored lib root key g ctx
proof
qed (blast dest: smb_part holds_at_cong)+

interpretation webdav_parts: restoring "webdav_reads stored" "\<lambda>_. holds_at lib stored key g root"
  "\<lambda>cl. webdav_restoreObjectPart lib cl root ctx key g" for stored lib root key g ctx
proof
qed (blast dest: webdav_part holds_at_cong)+

text \<open>The repository on an SSH server closes and removes in its own order; the file is the same.\<close>

lemma ssh_restored:
  assumes "ssh_reads stored cl" and run: "ssh_RestoreObject lib cl root ctx cmp f key g w = (Ok x, w')"
  shows "restored (holds_at lib stored key g root) cmp f w w'"
proof -
  from run obtain co hs w1 w2 d w3 w4 where
    pre: "cmp = Some co" "GetHashes (Some f) = Ok hs" "ctxErr ctx w = (Ok (), w1)"
      "os_MkdirAll (Dir_of (file_path f)) w1 = (Ok (), w2)" "os_Create (file_path f) w2 = (Ok d, w3)"
      "restored_size ''restore remote part'' (\<lambda>h. ssh_restoreObjectPart lib cl root ctx key g co h d) ctx f hs w3 = (Ok (), w4)"
      "os_Close d w4 = (Ok (), w')"
    by (auto simp: ssh_RestoreObject_def ok_iffs deferring_iff split: option.splits)
  show ?thesis by (rule ssh_parts.restored_file [OF assms(1) pre])
qed

subsection \<open>Writing\<close>

definition s3_writes :: "'z store \<Rightarrow> 'z s3_place \<Rightarrow> bool" where
  "s3_writes stored s \<longleftrightarrow>
     (\<forall>ctx p b. puts stored p b (PutObject (s3_cl s) ctx (s3_bucket s) p (mem_stream background b) False))"

definition webdav_writes :: "'z store \<Rightarrow> 'z webdav_client \<Rightarrow> bool" where
  "webdav_writes stored cl \<longleftrightarrow>
     (\<forall>p b. puts stored p b (wd_WriteStream cl p b)) \<and> (\<forall>p. leaves stored (wd_Stat cl p)) \<and>
     (\<forall>p. leaves stored (wd_MkdirAll cl p))"

text \<open>Opening an object for writing empties it.\<close>

definition truncates :: "'z store \<Rightarrow> string \<Rightarrow> ('z, 'f) os \<Rightarrow> ('f \<Rightarrow> 'z remote_file) \<Rightarrow> bool" where
  "truncates stored p op file \<longleftrightarrow>
     (\<forall>w f w'. op w = (Ok f, w') \<longrightarrow>
        writer_to stored p (file f) \<and> stored (os_world.more w') = (stored (os_world.more w))(p \<mapsto> []))"

definition ssh_writes :: "'z store \<Rightarrow> 'z sftp_client \<Rightarrow> bool" where
  "ssh_writes stored cl \<longleftrightarrow>
     (\<forall>p. leaves stored (sftp_MkdirAll cl p)) \<and> (\<forall>p. truncates stored p (sftp_OpenTrunc cl p) (\<lambda>f. f))"

definition smb_writes :: "'z store \<Rightarrow> 'z smb_share \<Rightarrow> bool" where
  "smb_writes stored sh \<longleftrightarrow>
     (\<forall>p. leaves stored (smb_MkdirAll sh background p)) \<and> (\<forall>p. truncates stored p (smb_OpenTrunc sh background p) sf_file)"

text \<open>A file opened, filled and closed.\<close>

lemma file_written:
  assumes "truncates stored p op file" and "op w = (Ok f, w1)" and "copy_into (file f) ctx b w1 = (Ok u, w2)"
    and "rf_Close (file f) w2 = (r, w3)"
  shows "stored (os_world.more w3) = (stored (os_world.more w))(p \<mapsto> b)" and "leaves stored (rf_Close (file f))"
proof -
  from assms(1,2) have f: "writer_to stored p (file f)" "stored (os_world.more w1) = (stored (os_world.more w))(p \<mapsto> [])"
    unfolding truncates_def by blast+
  then have "stored (os_world.more w1) p = Some []" by simp
  from copy_into_Ok [OF assms(3) f(1) this] f(2)
  have "stored (os_world.more w2) = (stored (os_world.more w))(p \<mapsto> b)" by (simp add: fun_eq_iff)
  moreover show c: "leaves stored (rf_Close (file f))" using f(1) by (simp add: writer_to_def)
  ultimately show "stored (os_world.more w3) = (stored (os_world.more w))(p \<mapsto> b)" using leavesD [OF c assms(4)] by simp
qed

lemma more_after_close [simp]: "os_world.more (snd (os_Close h w)) = os_world.more w"
proof -
  have "keeps (\<lambda>v. os_world.more v = os_world.more w) (os_Close h :: ('a, unit) os)" by (rule local_calls)
  then show ?thesis by (simp add: keeps_def)
qed

lemma s3_chunk:
  assumes "s3_writes stored s" and run: "s3_SaveChunk lib s ctx filePath h off sz cmp key g w = (Ok u, w')"
  shows "chunk_stored lib stored (s3_prefix s) filePath h off sz cmp key g w w'"
proof -
  from run obtain source w1 b w2 dest w3 where src: "OpenSource filePath h off sz cmp w = (Ok source, w1)"
    and enc: "Encoder_Encode lib ctx filePath h off sz cmp key source w1 = (Ok b, w2)"
    and dest: "GetObjectsPath (s3_prefix s) h g key True = Ok dest"
    and put: "PutObject (s3_cl s) ctx (s3_bucket s) (ObjectPath dest) (mem_stream background b) False w2 = (Ok (), w3)"
    and fin: "w' = snd (os_Close source w3)"
    by (auto simp: s3_SaveChunk_def ok_iffs deferring_iff ignoring_def)
  have "puts stored (ObjectPath dest) b
      (PutObject (s3_cl s) ctx (s3_bucket s) (ObjectPath dest) (mem_stream background b) False)"
    using assms(1) unfolding s3_writes_def by blast
  with put fin remote_path [OF dest]
  have "stored (os_world.more w') = (stored (os_world.more w2))(remote_path (s3_prefix s) key g h \<mapsto> b)"
    unfolding puts_def by simp
  from chunk_storedI [OF src _ enc this] show ?thesis by simp
qed

lemma webdav_chunk:
  assumes "webdav_writes stored cl" and run: "webdav_SaveChunk lib cl root ctx filePath h off sz cmp key g w = (Ok u, w')"
  shows "chunk_stored lib stored root filePath h off sz cmp key g w w'"
proof -
  from assms(1) have laws: "\<And>p b. puts stored p b (wd_WriteStream cl p b)" "\<And>p. leaves stored (wd_Stat cl p)"
    "\<And>p. leaves stored (wd_MkdirAll cl p)" by (simp_all add: webdav_writes_def)
  from run obtain w0 source w1 b w2 dest w3 w4 w5 w6 w7 where cx: "ctxErr ctx w = (Ok (), w0)"
    and src: "OpenSource filePath h off sz cmp w0 = (Ok source, w1)"
    and enc: "Encoder_Encode lib ctx filePath h off sz cmp key source w1 = (Ok b, w2)"
    and dest: "GetObjectsPath root h g key True = Ok dest"
    and mk: "webdav_ensureDirectory cl (DirectoryPath dest) w2 = (Ok (), w3)" and "ctxErr ctx w3 = (Ok (), w4)"
    and put: "wd_WriteStream cl (ObjectPath dest) b w4 = (Ok (), w5)" and "ctxErr ctx w5 = (Ok (), w6)"
    and sz: "webdav_check_size cl (ObjectPath dest) b w6 = (Ok (), w7)" and fin: "w' = snd (os_Close source w7)"
    by (auto simp: webdav_SaveChunk_def ok_iffs deferring_iff ignoring_def)
  have "leaves stored (webdav_ensureDirectory cl (DirectoryPath dest))"
    using laws(2,3) unfolding webdav_ensureDirectory_def leaves_def by (auto intro!: keeps_rules)
  from leavesD [OF this mk] have "stored (os_world.more w3) = stored (os_world.more w2)" .
  moreover have "leaves stored (webdav_check_size cl (ObjectPath dest) b)"
    using laws(2) unfolding webdav_check_size_def leaves_def by (auto intro!: keeps_rules)
  from leavesD [OF this sz] have "stored (os_world.more w7) = stored (os_world.more w6)" .
  moreover have "w4 = tick w3" "w6 = tick w5" using ctxErr_Ok \<open>ctxErr ctx w3 = (Ok (), w4)\<close> \<open>ctxErr ctx w5 = (Ok (), w6)\<close>
    by blast+
  ultimately have "stored (os_world.more w') = (stored (os_world.more w2))(remote_path root key g h \<mapsto> b)"
    using laws(1) [of "ObjectPath dest" b] put fin remote_path [OF dest] unfolding puts_def by simp
  from chunk_storedI [OF src _ enc this] ctxErr_Ok [OF cx] show ?thesis by blast
qed

lemma ssh_chunk:
  assumes "ssh_writes stored cl" and run: "ssh_SaveChunk lib cl root ctx filePath h off sz cmp key g w = (Ok u, w')"
  shows "chunk_stored lib stored root filePath h off sz cmp key g w w'"
proof -
  from run obtain w0 source w1 b w2 dest w3 f w4 w5 w6 where cx: "ctxErr ctx w = (Ok (), w0)"
    and src: "OpenSource filePath h off sz cmp w0 = (Ok source, w1)"
    and enc: "Encoder_Encode lib ctx filePath h off sz cmp key source w1 = (Ok b, w2)"
    and dest: "GetObjectsPath root h g key True = Ok dest"
    and mk: "sftp_MkdirAll cl (DirectoryPath dest) w2 = (Ok (), w3)"
    and op: "sftp_OpenTrunc cl (ObjectPath dest) w3 = (Ok f, w4)" and cp: "copy_into f ctx b w4 = (Ok (), w5)"
    and cl: "rf_Close f w5 = (Ok (), w6)" and fin: "w' = snd (os_Close source (snd (rf_Close f w6)))"
    by (auto simp: ssh_SaveChunk_def ok_iffs deferring_iff ignoring_def andThen_run)
  from assms(1) have mk': "leaves stored (sftp_MkdirAll cl (DirectoryPath dest))"
    and tr: "truncates stored (ObjectPath dest) (sftp_OpenTrunc cl (ObjectPath dest)) (\<lambda>f. f)"
    by (simp_all add: ssh_writes_def)
  note wr = file_written [OF tr op cp cl]
  obtain r w7 where "rf_Close f w6 = (r, w7)" by force
  with leavesD [OF wr(2) this] wr(1) leavesD [OF mk' mk] fin remote_path [OF dest]
  have "stored (os_world.more w') = (stored (os_world.more w2))(remote_path root key g h \<mapsto> b)" by simp
  from chunk_storedI [OF src _ enc this] ctxErr_Ok [OF cx] show ?thesis by blast
qed

lemma smb_chunk:
  assumes "smb_writes stored sh" and run: "smb_SaveChunk lib sh root ctx filePath h off sz cmp key g w = (Ok u, w')"
  shows "chunk_stored lib stored root filePath h off sz cmp key g w w'"
proof -
  from run obtain w0 source w1 b w2 dest w3 f w4 w5 w6 where cx: "ctxErr ctx w = (Ok (), w0)"
    and src: "OpenSource filePath h off sz cmp w0 = (Ok source, w1)"
    and enc: "Encoder_Encode lib ctx filePath h off sz cmp key source w1 = (Ok b, w2)"
    and dest: "GetObjectsPath root h g key True = Ok dest"
    and mk: "smb_MkdirAll sh background (DirectoryPath dest) w2 = (Ok (), w3)"
    and op: "smb_OpenTrunc sh background (ObjectPath dest) w3 = (Ok f, w4)"
    and cp: "copy_into (sf_file f) ctx b w4 = (Ok (), w5)"
    and cl: "rf_Close (sf_file f) w5 = (Ok (), w6)" and fin: "w' = snd (os_Close source w6)"
    by (auto simp: smb_SaveChunk_def ok_iffs deferring_iff ignoring_def)
  from assms(1) have mk': "leaves stored (smb_MkdirAll sh background (DirectoryPath dest))"
    and tr: "truncates stored (ObjectPath dest) (smb_OpenTrunc sh background (ObjectPath dest)) sf_file"
    by (simp_all add: smb_writes_def)
  from file_written(1) [OF tr op cp cl] leavesD [OF mk' mk] fin remote_path [OF dest]
  have "stored (os_world.more w') = (stored (os_world.more w2))(remote_path root key g h \<mapsto> b)" by simp
  from chunk_storedI [OF src _ enc this] ctxErr_Ok [OF cx] show ?thesis by blast
qed

subsection \<open>Uploading to Google Cloud Storage\<close>

text \<open>
  A writer collects what is sent to it and makes it the object when it is closed; \<open>sent\<close> is what it has
  collected. \<open>grows\<close>: a write appends to it and changes nothing that is held.
\<close>

definition grows :: "('z \<Rightarrow> bytes) \<Rightarrow> 'z store \<Rightarrow> (bytes \<Rightarrow> ('z, unit) os) \<Rightarrow> bool" where
  "grows sent stored f \<longleftrightarrow>
     (\<forall>b w u w'. f b w = (Ok u, w') \<longrightarrow>
        sent (os_world.more w') = sent (os_world.more w) @ b \<and> stored (os_world.more w') = stored (os_world.more w))"

definition uploads :: "('z \<Rightarrow> bytes) \<Rightarrow> 'z store \<Rightarrow> string \<Rightarrow> 'z gcs_writer \<Rightarrow> bool" where
  "uploads sent stored p wr \<longleftrightarrow> grows sent stored (gw_Write wr) \<and>
     (\<forall>w u w'. gw_Close wr w = (Ok u, w') \<longrightarrow>
        stored (os_world.more w') = (stored (os_world.more w))(p \<mapsto> sent (os_world.more w))) \<and>
     leaves stored (gw_Cancel wr)"

definition gcs_writes :: "('z gcs_writer \<Rightarrow> 'z \<Rightarrow> bytes) \<Rightarrow> 'z store \<Rightarrow> 'z gcs_place \<Rightarrow> bool" where
  "gcs_writes sent stored s \<longleftrightarrow>
     (\<forall>ctx p w wr w'. gcs_NewWriter (gcs_cl s) ctx (gcs_bucket s) p False w = (wr, w') \<longrightarrow>
        uploads (sent wr) stored p wr \<and> sent wr (os_world.more w') = [] \<and>
        stored (os_world.more w') = stored (os_world.more w) \<and> (\<forall>q. lookup w' q = lookup w q))"

lemma growsD:
  "grows sent stored f \<Longrightarrow> f b w = (Ok u, w') \<Longrightarrow>
   sent (os_world.more w') = sent (os_world.more w) @ b \<and> stored (os_world.more w') = stored (os_world.more w)"
  unfolding grows_def by blast

lemma grows_writeFull: "grows sent stored f \<Longrightarrow> grows sent stored (writeFull f)"
  unfolding grows_def writeFull_def by (auto simp: return_Ok_iff split: if_splits)

lemma AESGCM_Close_grows:
  assumes "grows sent stored f" and run: "AESGCM_Close cr key buf f w = (Ok out, w')"
  shows "sent (os_world.more w') = sent (os_world.more w) @ out \<and> stored (os_world.more w') = stored (os_world.more w)"
proof -
  from run obtain nonce w1 w2 where n: "random_bytes gcmNonceSize w = (Ok nonce, w1)"
    and wr: "writeFull f nonce w1 = (Ok (), w2)" "writeFull f (gcm_Seal cr key nonce buf) w2 = (Ok (), w')"
    and out: "out = nonce @ gcm_Seal cr key nonce buf"
    by (auto simp: AESGCM_Close_def ok_iffs)
  from random_bytes_Ok [OF n] growsD [OF grows_writeFull [OF assms(1)]] wr out show ?thesis by force
qed

text \<open>From the source through the compression and, with a key, the encryption to the closed writer.\<close>

lemma gcs_transfer:
  assumes "uploads sent stored p wr" and new: "sent (os_world.more w) = []"
    and run: "gcs_chunk_transfer lib ctx source hash off sz key wr h enc w = (Ok u, w')"
    and key: "key \<noteq> [] \<Longrightarrow> length key = AES256KeySize"
  shows "\<exists>raw. content_hash (lib_crypto lib) (enc (section_of off sz (content_at w source))) = hash \<and>
    stored_as lib key raw (enc (section_of off sz (content_at w source))) \<and>
    stored (os_world.more w') = (stored (os_world.more w))(p \<mapsto> raw)"
proof -
  let ?src = "stream ctx (section_of off sz (content_at w source))"
  from assms(1) have g: "grows sent stored (gw_Write wr)" and cl: "\<And>w u w'. gw_Close wr w = (Ok u, w') \<Longrightarrow>
      stored (os_world.more w') = (stored (os_world.more w))(p \<mapsto> sent (os_world.more w))"
    unfolding uploads_def by blast+
  obtain got k e w1 where copy: "encoder_copy h enc (gcs_output key wr) ?src w = ((got, k, e), w1)"
    by (metis prod.exhaust)
  with run have e: "e = None" by (cases e) (auto simp: gcs_chunk_transfer_def ok_iffs)
  with run copy obtain w2 w3 where close: "encoder_close h enc (gcs_output key wr) got k w1 = (Ok (), w2)"
    and hash: "content_hash (lib_crypto lib) (enc got) = hash"
    and encr: "gcs_closeEncryption lib key (enc got) wr w2 = (Ok (), w3)" and fin: "gw_Close wr w3 = (Ok (), w')"
    by (auto simp: gcs_chunk_transfer_def abortUpload_def ok_iffs split: if_splits)
  obtain got' e' w0 where src: "?src w = ((got', e'), w0)" by (metis prod.exhaust)
  obtain r v where wrote: "gcs_output key wr (take (if h = noneHandler then length (enc got')
      else entropy w0 (clock w0)) (enc got')) w0 = (r, v)" by force
  from copy src wrote e have c: "r = Ok ()" "got' = got" "e' = None" "v = w1"
    "k = (if h = noneHandler then length (enc got) else entropy w0 (clock w0))"
    by (auto simp: encoder_copy_def Let_def split: outcome.splits)
  have got: "got = section_of off sz (content_at w source)" using src c(2,3) by (auto dest: stream_done)
  have w0: "os_world.more w0 = os_world.more w" by (rule more_stream [OF src])
  have "\<exists>raw. stored_as lib key raw (enc got) \<and> sent (os_world.more w3) = raw \<and>
    stored (os_world.more w3) = stored (os_world.more w)"
  proof (cases "key = []")
    case True
    then have out: "gcs_output key wr = gw_Write wr" by (intro ext) (simp add: gcs_output_def)
    from growsD [OF g wrote [unfolded out c(1,2,4)]] w0 new c(5)
    have "sent (os_world.more w1) = take k (enc got)" "stored (os_world.more w1) = stored (os_world.more w)" by simp_all
    with growsD [OF g, of "drop k (enc got)" w1 "()" w2] close out c(5)
    have "sent (os_world.more w2) = enc got" "stored (os_world.more w2) = stored (os_world.more w)"
      by (auto simp: encoder_close_def return_Ok_iff split: if_splits)
    with True encr show ?thesis by (auto simp: gcs_closeEncryption_def return_Ok_iff stored_as_def)
  next
    case False
    then have out: "gcs_output key wr = (\<lambda>b. return ())" by (intro ext) (simp add: gcs_output_def)
    from wrote close out c(4) have "w2 = w0"
      by (auto simp: encoder_close_def return_Ok_iff return_run split: if_splits)
    moreover from encr False obtain b where "AESGCM_Close (lib_crypto lib) key (enc got) (gw_Write wr) w2 = (Ok b, w3)"
      by (auto simp: gcs_closeEncryption_def ok_iffs)
    ultimately show ?thesis using AESGCM_Close_grows [OF g] AESGCM_Close_out w0 new False key
      unfolding stored_as_def by (metis append_Nil)
  qed
  with cl [OF fin] hash got show ?thesis by auto
qed

lemma with_writer_Ok:
  "with_writer s ctx name absent f w = (Ok x, w') \<longleftrightarrow>
     (\<exists>wr w1 w2. gcs_NewWriter (gcs_cl s) ctx (gcs_bucket s) name absent w = (wr, w1) \<and> f wr w1 = (Ok x, w2) \<and>
        w' = snd (gw_Cancel wr w2))"
  by (auto simp: with_writer_def deferring_iff ignoring_def split: prod.splits)

lemma abortUpload_Ok [simp]: "abortUpload wr e w \<noteq> (Ok x, w')"
  by (simp add: abortUpload_def ok_iffs)

lemma gcs_chunk:
  assumes "gcs_writes sent stored s" and run: "gcs_SaveChunk lib s ctx filePath h off sz cmp key g w = (Ok u, w')"
  shows "chunk_stored lib stored (gcs_prefix s) filePath h off sz cmp key g w w'"
proof -
  from run obtain w0 source w1 dest wr w2 co hd enc w3 where cx: "ctxErr ctx w = (Ok (), w0)"
    and src: "OpenSource filePath h off sz cmp w0 = (Ok source, w1)"
    and dest: "GetObjectsPath (gcs_prefix s) h g key True = Ok dest"
    and new: "gcs_NewWriter (gcs_cl s) ctx (gcs_bucket s) (ObjectPath dest) False w1 = (wr, w2)"
    and key: "key = [] \<or> AESGCM_Encode key = Ok ()"
    and co: "cmp = Some co" "GetHandler (compType co) = Ok hd" "Handler_Encode (lib_codecs lib) hd (level co) = Ok enc"
    and tr: "gcs_chunk_transfer lib ctx source h off sz key wr hd enc w2 = (Ok (), w3)"
    and fin: "w' = snd (os_Close source (snd (gw_Cancel wr w3)))"
    by (auto simp: gcs_SaveChunk_def ok_iffs deferring_iff ignoring_def with_writer_Ok deref_Ok split: if_splits)
  from assms(1) new have wr: "uploads (sent wr) stored (ObjectPath dest) wr" "sent wr (os_world.more w2) = []"
    "stored (os_world.more w2) = stored (os_world.more w1)" "\<And>q. lookup w2 q = lookup w1 q"
    unfolding gcs_writes_def by blast+
  have "key \<noteq> [] \<Longrightarrow> length key = AES256KeySize" using key by (auto simp: AESGCM_Encode_Ok)
  from gcs_transfer [OF wr(1,2) tr this] obtain raw where
    raw: "content_hash (lib_crypto lib) (enc (section_of off sz (content_at w2 source))) = h"
      "stored_as lib key raw (enc (section_of off sz (content_at w2 source)))"
      "stored (os_world.more w3) = (stored (os_world.more w2))(ObjectPath dest \<mapsto> raw)" by blast
  have same: "content_at w2 source = content_at w1 source" using wr(4) by (simp add: content_at_def)
  obtain r v where cancel: "gw_Cancel wr w3 = (r, v)" by force
  have lv: "leaves stored (gw_Cancel wr)" using wr(1) by (simp add: uploads_def)
  have "stored (os_world.more w') = (stored (os_world.more w1))(remote_path (gcs_prefix s) key g h \<mapsto> raw)"
    using leavesD [OF lv cancel] raw(3) wr(3) fin remote_path [OF dest] cancel by simp
  moreover have "compresses lib cmp enc" using co by (simp add: compresses_def)
  moreover have "w0 = tick w" using ctxErr_Ok [OF cx] by simp
  ultimately show ?thesis
    using chunk_stored_raw [where enc = enc and raw = raw and stored = stored, OF src] raw(1,2) same by simp
qed

end
