(* ===== verification/Remote_Sample.thy ===== *)
theory Remote_Sample
  imports Remote_Store Sample
begin

section \<open>A small server to compute with\<close>

text \<open>
  A server that keeps its objects in an association list, beside the bytes of the one upload under way, and
  the five clients over it. They satisfy the laws of \<^theory_text>\<open>Remote_Store\<close>.
\<close>

type_synonym shelf = "(string \<times> bytes) list \<times> bytes"
type_synonym served = "shelf os_world_scheme"

definition shelved :: "shelf \<Rightarrow> string \<Rightarrow> bytes option" where "shelved z = map_of (fst z)"
definition under_way :: "'a \<Rightarrow> shelf \<Rightarrow> bytes" where "under_way wr z = snd z"

definition served_world :: "os_world \<Rightarrow> (string \<times> bytes) list \<Rightarrow> served" where
  "served_world w tab = os_world.extend w (tab, [])"

definition toy_read :: "string \<Rightarrow> ctx \<Rightarrow> served reader" where
  "toy_read p ctx w =
     (case shelved (os_world.more w) p of None \<Rightarrow> (([], Some ErrIO), w) | Some b \<Rightarrow> ((b, None), w))"

definition toy_done :: "(shelf, unit) os" where "toy_done w = (Ok (), w)"

definition toy_get :: "string \<Rightarrow> (shelf, shelf ReadCloser) os" where
  "toy_get p w =
     (case shelved (os_world.more w) p of
        None \<Rightarrow> (Err ErrNotExist, w)
      | Some b \<Rightarrow> (Ok \<lparr>rc_Read = toy_read p, rc_Close = toy_done\<rparr>, w))"

definition shelve :: "string \<Rightarrow> bytes \<Rightarrow> served \<Rightarrow> served" where
  "shelve p b w = os_world.more_update (\<lambda>z. (AList.update p b (fst z), snd z)) w"

definition toy_put :: "string \<Rightarrow> bytes \<Rightarrow> (shelf, unit) os" where
  "toy_put p b w = (Ok (), shelve p b w)"

definition toy_append :: "string \<Rightarrow> bytes \<Rightarrow> (shelf, unit) os" where
  "toy_append p b w =
     (case shelved (os_world.more w) p of None \<Rightarrow> (Err ErrNotExist, w) | Some c \<Rightarrow> (Ok (), shelve p (c @ b) w))"

definition toy_open_file :: "string \<Rightarrow> (shelf, shelf remote_file) os" where
  "toy_open_file p w = (Ok \<lparr>rf_Write = toy_append p, rf_Close = toy_done\<rparr>, shelve p [] w)"

definition toy_stat :: "string \<Rightarrow> (shelf, file_info) os" where
  "toy_stat p w =
     (case shelved (os_world.more w) p of
        None \<Rightarrow> (Err ErrNotExist, w)
      | Some b \<Rightarrow> (Ok \<lparr>fi_Name = path_Base p, fi_IsDir = False, fi_Size = int (length b)\<rparr>, w))"

definition toy_mkdir :: "string \<Rightarrow> (shelf, unit) os" where "toy_mkdir p = toy_done"

definition toy_no :: "(shelf, 'a) os" where "toy_no w = (Err ErrIO, w)"

definition toy_missing :: "error \<Rightarrow> bool" where "toy_missing e \<longleftrightarrow> e = ErrNotExist"

subsection \<open>The clients\<close>

definition toy_GetObject :: "ctx \<Rightarrow> string \<Rightarrow> string \<Rightarrow> (shelf, shelf ReadCloser option) os" where
  "toy_GetObject ctx bucket p = andThen (toy_get p) (\<lambda>rc. return (Some rc))"

definition toy_PutObject :: "ctx \<Rightarrow> string \<Rightarrow> string \<Rightarrow> served reader \<Rightarrow> bool \<Rightarrow> (shelf, unit) os" where
  "toy_PutObject ctx bucket p body absent w =
     (case body w of ((b, None), w') \<Rightarrow> toy_put p b w' | ((b, Some e), w') \<Rightarrow> (Err e, w'))"

definition toy_s3_client :: "shelf s3_client" where
  "toy_s3_client = \<lparr>HeadObject = (\<lambda>_ _ p. andThen (toy_stat p) (\<lambda>_. return ())), GetObject = toy_GetObject,
     PutObject = toy_PutObject, DeleteObject = (\<lambda>_ _ _. toy_no), NextPage = (\<lambda>_ _ _ _. toy_no),
     UploadObject = (\<lambda>_ _ _ _. toy_no), as_NoSuchKey = toy_missing, as_NotFound = toy_missing,
     ErrorCode = (\<lambda>_. None), HTTPStatusCode = (\<lambda>_. None)\<rparr>"

definition toy_s3 :: "shelf s3_place" where
  "toy_s3 = \<lparr>s3_cl = toy_s3_client, s3_bucket = ''b'', s3_prefix = ''r'', s3_pages = 1\<rparr>"

definition toy_collect :: "bytes \<Rightarrow> (shelf, unit) os" where
  "toy_collect b w = (Ok (), os_world.more_update (\<lambda>z. (fst z, snd z @ b)) w)"

definition toy_commit :: "string \<Rightarrow> (shelf, unit) os" where
  "toy_commit p w = (Ok (), shelve p (snd (os_world.more w)) w)"

definition toy_NewReader :: "ctx \<Rightarrow> string \<Rightarrow> string \<Rightarrow> (shelf, shelf ReadCloser) os" where
  "toy_NewReader ctx bucket p = toy_get p"

definition toy_NewWriter :: "ctx \<Rightarrow> string \<Rightarrow> string \<Rightarrow> bool \<Rightarrow> served \<Rightarrow> shelf gcs_writer \<times> served" where
  "toy_NewWriter ctx bucket p absent w =
     (\<lparr>gw_Write = toy_collect, gw_Close = toy_commit p, gw_Cancel = toy_done\<rparr>,
      os_world.more_update (\<lambda>z. (fst z, [])) w)"

definition toy_gcs_client :: "shelf gcs_client" where
  "toy_gcs_client = \<lparr>gcs_Attrs = (\<lambda>_ _ p. andThen (toy_stat p) (\<lambda>_. return ())), gcs_NewReader = toy_NewReader,
     gcs_NewWriter = toy_NewWriter, gcs_Delete = (\<lambda>_ _ _. toy_no), gcs_Next = (\<lambda>_ _ _ _. toy_no),
     ErrObjectNotExist = ErrNotExist, as_PreconditionFailed = (\<lambda>_. False)\<rparr>"

definition toy_gcs :: "shelf gcs_place" where
  "toy_gcs = \<lparr>gcs_cl = toy_gcs_client, gcs_bucket = ''b'', gcs_prefix = ''r'', gcs_items = 1\<rparr>"

definition toy_sftp :: "shelf sftp_client" where
  "toy_sftp = \<lparr>sftp_ReadDir = (\<lambda>_. toy_no), sftp_Open = toy_get, sftp_Create = toy_open_file,
     sftp_OpenTrunc = toy_open_file, sftp_OpenExcl = (\<lambda>_. toy_no), sftp_MkdirAll = toy_mkdir,
     sftp_Remove = (\<lambda>_. toy_no), sftp_RemoveDirectory = (\<lambda>_. toy_no), sftp_Stat = toy_stat,
     sftp_PosixRename = (\<lambda>_ _. toy_no), sftp_Chmod = (\<lambda>_. toy_no)\<rparr>"

definition toy_smb_open :: "ctx \<Rightarrow> string \<Rightarrow> (shelf, shelf ReadCloser) os" where
  "toy_smb_open ctx p = toy_get p"

definition toy_smb_file :: "shelf remote_file \<Rightarrow> shelf smb_file" where
  "toy_smb_file f = \<lparr>sf_file = f, sf_WriteAt = (\<lambda>_ _. toy_no), sf_Truncate = (\<lambda>_. toy_no)\<rparr>"

definition toy_smb_trunc :: "ctx \<Rightarrow> string \<Rightarrow> (shelf, shelf smb_file) os" where
  "toy_smb_trunc ctx p = andThen (toy_open_file p) (\<lambda>f. return (toy_smb_file f))"

definition toy_smb_mkdir :: "ctx \<Rightarrow> string \<Rightarrow> (shelf, unit) os" where "toy_smb_mkdir ctx p = toy_done"
definition toy_smb_stat :: "ctx \<Rightarrow> string \<Rightarrow> (shelf, file_info) os" where "toy_smb_stat ctx p = toy_stat p"

definition toy_share :: "shelf smb_share" where
  "toy_share = \<lparr>smb_ReadDir = (\<lambda>_ _. toy_no), smb_Open = toy_smb_open, smb_OpenTrunc = toy_smb_trunc,
     smb_OpenExcl = (\<lambda>_ _. toy_no), smb_OpenCreate = (\<lambda>_ _. toy_no), smb_ReadFile = (\<lambda>_ _. toy_no),
     smb_MkdirAll = toy_smb_mkdir, smb_Remove = (\<lambda>_ _. toy_no), smb_Stat = toy_smb_stat\<rparr>"

definition toy_dav :: "shelf webdav_client" where
  "toy_dav = \<lparr>wd_ReadDir = (\<lambda>_. toy_no), wd_ReadStream = toy_get, wd_WriteStream = toy_put,
     wd_Read = (\<lambda>_. toy_no), wd_Write = toy_put, wd_Remove = (\<lambda>_. toy_no), wd_Stat = toy_stat,
     wd_MkdirAll = toy_mkdir, IsErrNotFound = toy_missing\<rparr>"

subsection \<open>The laws\<close>

lemma lookup_more [simp]: "lookup (os_world.more_update f w) q = lookup w q"
  by (simp add: lookup_def)

lemma shelve_simps [simp]:
  "shelved (os_world.more (shelve p b w)) = (shelved (os_world.more w))(p \<mapsto> b)"
  "snd (os_world.more (shelve p b w)) = snd (os_world.more w)" "lookup (shelve p b w) q = lookup w q"
  by (simp_all add: shelve_def shelved_def update_conv')

lemma unchanged: "(\<And>w. snd (m w) = w) \<Longrightarrow> reads_only shelved m"
  unfolding reads_only_def leaves_def keeps_def by (auto intro!: setsI)

lemma same_worlds [simp]:
  "snd (toy_get p w) = w" "snd (toy_done w) = w" "snd (toy_stat p w) = w"
  by (auto simp: toy_get_def toy_done_def toy_stat_def split: option.splits)

lemma toy_leaves [simp]: "leaves shelved toy_done" "leaves shelved (toy_stat p)" "leaves shelved (toy_mkdir p)"
  by (auto simp: leaves_def keeps_def toy_mkdir_def)

lemma toy_reader: "reader_of shelved p \<lparr>rc_Read = toy_read p, rc_Close = toy_done\<rparr>"
  unfolding reader_of_def
  by (auto intro!: unchanged simp: toy_read_def split: option.splits)

lemma toy_opens: "opens shelved p (toy_get p)"
  unfolding opens_def using toy_reader
  by (auto intro!: unchanged simp: toy_get_def split: option.splits)

lemma toy_writer: "writer_to shelved p \<lparr>rf_Write = toy_append p, rf_Close = toy_done\<rparr>"
  by (auto simp: writer_to_def toy_append_def)

lemma toy_puts: "puts shelved p b (toy_put p b)"
  by (auto simp: puts_def toy_put_def)

lemma toy_s3_lawful: "s3_reads shelved toy_s3" "s3_writes shelved toy_s3"
proof -
  have "andThen (toy_GetObject ctx bk p) deref = toy_get p" for ctx bk p
    by (rule ext) (simp add: toy_GetObject_def toy_get_def deref_def andThen_def tryCatch_def return_run fail_run
        split: option.splits)
  then show "s3_reads shelved toy_s3" by (simp add: s3_reads_def toy_s3_def toy_s3_client_def toy_opens)
  show "s3_writes shelved toy_s3"
    unfolding s3_writes_def puts_def
  proof (intro allI impI)
    fix ctx p b and w w' :: served and u
    assume run: "PutObject (s3_cl toy_s3) ctx (s3_bucket toy_s3) p (mem_stream background b) False w = (Ok u, w')"
    obtain got e w1 where m: "mem_stream background b w = ((got, e), w1)" by (metis prod.exhaust)
    with run have e: "e = None" and put: "toy_put p got w1 = (Ok u, w')"
      by (auto simp: toy_s3_def toy_s3_client_def toy_PutObject_def split: option.splits)
    have "got = b" using m e by (auto dest: mem_stream_done)
    then show "shelved (os_world.more w') = (shelved (os_world.more w))(p \<mapsto> b)"
      using put more_mem_stream [OF m] by (auto simp: toy_put_def)
  qed
qed

lemma toy_gcs_lawful: "gcs_reads shelved toy_gcs" "gcs_writes under_way shelved toy_gcs"
proof -
  show "gcs_reads shelved toy_gcs"
    by (simp add: gcs_reads_def toy_gcs_def toy_gcs_client_def toy_NewReader_def toy_opens)
  have "uploads (under_way wr) shelved p \<lparr>gw_Write = toy_collect, gw_Close = toy_commit p, gw_Cancel = toy_done\<rparr>"
    for wr :: "shelf gcs_writer" and p
    by (auto simp: uploads_def grows_def toy_collect_def toy_commit_def under_way_def shelved_def shelve_def update_conv')
  then show "gcs_writes under_way shelved toy_gcs"
    by (auto simp: gcs_writes_def toy_gcs_def toy_gcs_client_def toy_NewWriter_def under_way_def shelved_def)
qed

lemma toy_sftp_lawful: "ssh_reads shelved toy_sftp" "ssh_writes shelved toy_sftp"
  using toy_writer by (auto simp: ssh_reads_def ssh_writes_def toy_sftp_def toy_opens truncates_def toy_open_file_def)

lemma toy_share_lawful: "smb_reads shelved toy_share" "smb_writes shelved toy_share"
  using toy_writer
  by (auto simp: smb_reads_def smb_writes_def toy_share_def toy_smb_open_def toy_smb_mkdir_def toy_opens truncates_def
      toy_smb_trunc_def toy_smb_file_def toy_open_file_def ok_iffs)

lemma toy_dav_lawful: "webdav_reads shelved toy_dav" "webdav_writes shelved toy_dav"
  by (simp_all add: webdav_reads_def webdav_writes_def toy_dav_def toy_opens toy_puts)

end
