(* ===== verification/Remote_Properties.thy ===== *)
theory Remote_Properties
  imports Remote_Sample
begin

section \<open>Properties of the remote repositories\<close>

text \<open>
  What a chunk is on a remote server after it was saved, and what a file is that was restored from there, for
  all five servers; and where the repository on an SMB share leaves a damaged object.
\<close>

subsection \<open>Saving\<close>

text \<open>The object decodes to the section of the source, and to nothing else.\<close>

definition chunk_readable ::
  "library \<Rightarrow> 'z store \<Rightarrow> string \<Rightarrow> string \<Rightarrow> string \<Rightarrow> int \<Rightarrow> int \<Rightarrow> Compression option \<Rightarrow> bytes \<Rightarrow> uint64 \<Rightarrow>
   'z os_world_scheme \<Rightarrow> 'z os_world_scheme \<Rightarrow> bool" where
  "chunk_readable lib stored root filePath h off sz cmp key g w w' \<longleftrightarrow>
     (\<exists>b co. lookup w (resolve w filePath) = Some (File b) \<and> cmp = Some co \<and>
        (\<forall>out. holds_at lib stored key g root co (os_world.more w') h out \<longleftrightarrow> out = section_of off sz b))"

lemma chunk_stored_readable:
  assumes "chunk_stored lib stored root filePath h off sz cmp key g w w'"
    and "codecs_correct (lib_codecs lib)" and "gcm_correct (lib_crypto lib)"
  shows "chunk_readable lib stored root filePath h off sz cmp key g w w'"
proof -
  from assms(1) obtain b enc raw where b: "lookup w (resolve w filePath) = Some (File b)"
    and enc: "compresses lib cmp enc" and raw: "stored_as lib key raw (enc (section_of off sz b))"
    and st: "stored (os_world.more w') = (stored (os_world.more w))(remote_path root key g h \<mapsto> raw)"
    unfolding chunk_stored_def by blast
  from enc obtain co hd where co: "cmp = Some co" "GetHandler (compType co) = Ok hd"
    "Handler_Encode (lib_codecs lib) hd (level co) = Ok enc" by (auto simp: compresses_def)
  with assms(2) have "Handler_Decode (lib_codecs lib) hd (enc (section_of off sz b)) = Ok (section_of off sz b, None)"
    unfolding codecs_correct_def by blast
  with co(2) have "decodes lib co (enc (section_of off sz b)) out \<longleftrightarrow> out = section_of off sz b" for out
    by (auto simp: decodes_def)
  with b co(1) st stored_content [OF assms(3) raw] show ?thesis
    by (auto simp: chunk_readable_def holds_at_def holds_decoded_def)
qed

definition chunk_kept ::
  "library \<Rightarrow> 'z store \<Rightarrow> string \<Rightarrow> string \<Rightarrow> string \<Rightarrow> int \<Rightarrow> int \<Rightarrow> Compression option \<Rightarrow> bytes \<Rightarrow> uint64 \<Rightarrow>
   'z os_world_scheme \<Rightarrow> 'z os_world_scheme \<Rightarrow> bool" where
  "chunk_kept lib stored root filePath h off sz cmp key g w w' \<longleftrightarrow>
     chunk_stored lib stored root filePath h off sz cmp key g w w' \<and>
     (codecs_correct (lib_codecs lib) \<and> gcm_correct (lib_crypto lib) \<longrightarrow>
        chunk_readable lib stored root filePath h off sz cmp key g w w')"

lemma chunk_keptI: "chunk_stored lib stored root p h off sz cmp key g w w' \<Longrightarrow> chunk_kept lib stored root p h off sz cmp key g w w'"
  unfolding chunk_kept_def using chunk_stored_readable by blast

text \<open>
  C5: on each of the five servers, a chunk that was saved is there under its hash as the compressed and,
  with a key, encrypted bytes of exactly its section of the source, whose hash was checked; nothing else on
  the server changed; and what is read back and decoded is that section and nothing else.
\<close>

theorem remote_SaveChunk_correct:
  "(s3_writes stored s \<and> s3_SaveChunk lib s ctx p h off sz cmp key g w = (Ok (), w') \<longrightarrow>
      chunk_kept lib stored (s3_prefix s) p h off sz cmp key g w w') \<and>
   (gcs_writes sent stored s' \<and> gcs_SaveChunk lib s' ctx p h off sz cmp key g w = (Ok (), w') \<longrightarrow>
      chunk_kept lib stored (gcs_prefix s') p h off sz cmp key g w w') \<and>
   (ssh_writes stored cl \<and> ssh_SaveChunk lib cl root ctx p h off sz cmp key g w = (Ok (), w') \<longrightarrow>
      chunk_kept lib stored root p h off sz cmp key g w w') \<and>
   (smb_writes stored sh \<and> smb_SaveChunk lib sh root ctx p h off sz cmp key g w = (Ok (), w') \<longrightarrow>
      chunk_kept lib stored root p h off sz cmp key g w w') \<and>
   (webdav_writes stored dav \<and> webdav_SaveChunk lib dav root ctx p h off sz cmp key g w = (Ok (), w') \<longrightarrow>
      chunk_kept lib stored root p h off sz cmp key g w w')"
  by (intro conjI impI; elim conjE; rule chunk_keptI; rule s3_chunk gcs_chunk ssh_chunk smb_chunk webdav_chunk; assumption)

definition toy_chunk :: string where "toy_chunk = content_hash toy_crypto [2, 3]"

definition saving_world :: served where
  "saving_world = served_world (toy_world [([''s''], Dir), ([''s'', ''a''], File [1, 2, 3])] no_fault) []"

lemma saves_run:
  "s3_SaveChunk toy_lib toy_s3 background ''/s/a'' toy_chunk 1 2 (Some no_compression) toy_key 5 saving_world = (Ok (), snd (s3_SaveChunk toy_lib toy_s3 background ''/s/a'' toy_chunk 1 2 (Some no_compression) toy_key 5 saving_world))"
  "gcs_SaveChunk toy_lib toy_gcs background ''/s/a'' toy_chunk 1 2 (Some no_compression) toy_key 5 saving_world = (Ok (), snd (gcs_SaveChunk toy_lib toy_gcs background ''/s/a'' toy_chunk 1 2 (Some no_compression) toy_key 5 saving_world))"
  "ssh_SaveChunk toy_lib toy_sftp ''r'' background ''/s/a'' toy_chunk 1 2 (Some no_compression) toy_key 5 saving_world = (Ok (), snd (ssh_SaveChunk toy_lib toy_sftp ''r'' background ''/s/a'' toy_chunk 1 2 (Some no_compression) toy_key 5 saving_world))"
  "smb_SaveChunk toy_lib toy_share ''r'' background ''/s/a'' toy_chunk 1 2 (Some no_compression) toy_key 5 saving_world = (Ok (), snd (smb_SaveChunk toy_lib toy_share ''r'' background ''/s/a'' toy_chunk 1 2 (Some no_compression) toy_key 5 saving_world))"
  "webdav_SaveChunk toy_lib toy_dav ''r'' background ''/s/a'' toy_chunk 1 2 (Some no_compression) toy_key 5 saving_world = (Ok (), snd (webdav_SaveChunk toy_lib toy_dav ''r'' background ''/s/a'' toy_chunk 1 2 (Some no_compression) toy_key 5 saving_world))"
  subgoal by (rule run_eq) code_simp
  subgoal by (rule run_eq) code_simp
  subgoal by (rule run_eq) code_simp
  subgoal by (rule run_eq) code_simp
  subgoal by (rule run_eq) code_simp
  done

theorem remote_SaveChunk_correct_witness:
  "chunk_kept toy_lib shelved (s3_prefix toy_s3) ''/s/a'' toy_chunk 1 2 (Some no_compression) toy_key 5 saving_world
      (snd (s3_SaveChunk toy_lib toy_s3 background ''/s/a'' toy_chunk 1 2 (Some no_compression) toy_key 5 saving_world)) \<and>
   chunk_kept toy_lib shelved (gcs_prefix toy_gcs) ''/s/a'' toy_chunk 1 2 (Some no_compression) toy_key 5 saving_world
      (snd (gcs_SaveChunk toy_lib toy_gcs background ''/s/a'' toy_chunk 1 2 (Some no_compression) toy_key 5 saving_world)) \<and>
   chunk_kept toy_lib shelved ''r'' ''/s/a'' toy_chunk 1 2 (Some no_compression) toy_key 5 saving_world
      (snd (ssh_SaveChunk toy_lib toy_sftp ''r'' background ''/s/a'' toy_chunk 1 2 (Some no_compression) toy_key 5 saving_world)) \<and>
   chunk_kept toy_lib shelved ''r'' ''/s/a'' toy_chunk 1 2 (Some no_compression) toy_key 5 saving_world
      (snd (smb_SaveChunk toy_lib toy_share ''r'' background ''/s/a'' toy_chunk 1 2 (Some no_compression) toy_key 5 saving_world)) \<and>
   chunk_kept toy_lib shelved ''r'' ''/s/a'' toy_chunk 1 2 (Some no_compression) toy_key 5 saving_world
      (snd (webdav_SaveChunk toy_lib toy_dav ''r'' background ''/s/a'' toy_chunk 1 2 (Some no_compression) toy_key 5 saving_world))"
proof -
  show ?thesis
    using remote_SaveChunk_correct [of shelved toy_s3 toy_lib background "''/s/a''" toy_chunk 1 2 "Some no_compression" toy_key 5
        saving_world _ under_way toy_gcs toy_sftp "''r''" toy_share toy_dav]
      saves_run toy_s3_lawful toy_gcs_lawful toy_sftp_lawful toy_share_lawful toy_dav_lawful
    by blast
qed

subsection \<open>Restoring\<close>

text \<open>
  C6: on each of the five servers, a file that was restored is the concatenation, in the order of its
  chunks, of what the server holds for them, decrypted and decompressed, and has the size the manifest says.
\<close>

theorem remote_RestoreObject_correct:
  "(s3_reads stored s \<and> s3_RestoreObject lib s ctx cmp f key g w = (Ok (), w') \<longrightarrow>
      restored (holds_at lib stored key g (s3_prefix s)) cmp f w w') \<and>
   (gcs_reads stored s' \<and> gcs_RestoreObject lib s' ctx cmp f key g w = (Ok (), w') \<longrightarrow>
      restored (holds_at lib stored key g (gcs_prefix s')) cmp f w w') \<and>
   (ssh_reads stored cl \<and> ssh_RestoreObject lib cl root ctx cmp f key g w = (Ok (), w') \<longrightarrow>
      restored (holds_at lib stored key g root) cmp f w w') \<and>
   (smb_reads stored sh \<and> smb_RestoreObject lib sh root ctx cmp f key g w = (Ok (), w') \<longrightarrow>
      restored (holds_at lib stored key g root) cmp f w w') \<and>
   (webdav_reads stored dav \<and> webdav_RestoreObject lib dav root ctx cmp f key g w = (Ok (), w') \<longrightarrow>
      restored (holds_at lib stored key g root) cmp f w w')"
  unfolding s3_RestoreObject_def gcs_RestoreObject_def smb_RestoreObject_def webdav_RestoreObject_def
  by (intro conjI impI; elim conjE; rule s3_parts.RestoreObject_restored gcs_parts.RestoreObject_restored ssh_restored
      smb_parts.RestoreObject_restored webdav_parts.RestoreObject_restored; assumption)

definition restoring_world :: served where
  "restoring_world = served_world (toy_world [([''s''], Dir)] no_fault)
     [(remote_path ''r'' [] 0 toy_chunk, [2, 3]), (remote_path ''r'' [] 0 ''other'', [4])]"

definition two_chunks :: SnapFile where
  "two_chunks = \<lparr>file_path = ''/s/b'', file_size = 3, file_hash = [],
     file_chunks = [\<lparr>chunk_hash = toy_chunk, chunk_offset = 0, chunk_size = 2\<rparr>,
       \<lparr>chunk_hash = ''other'', chunk_offset = 2, chunk_size = 1\<rparr>]\<rparr>"

lemma restores_run:
  "s3_RestoreObject toy_lib toy_s3 background (Some no_compression) two_chunks [] 0 restoring_world = (Ok (), snd (s3_RestoreObject toy_lib toy_s3 background (Some no_compression) two_chunks [] 0 restoring_world))"
  "gcs_RestoreObject toy_lib toy_gcs background (Some no_compression) two_chunks [] 0 restoring_world = (Ok (), snd (gcs_RestoreObject toy_lib toy_gcs background (Some no_compression) two_chunks [] 0 restoring_world))"
  "ssh_RestoreObject toy_lib toy_sftp ''r'' background (Some no_compression) two_chunks [] 0 restoring_world = (Ok (), snd (ssh_RestoreObject toy_lib toy_sftp ''r'' background (Some no_compression) two_chunks [] 0 restoring_world))"
  "smb_RestoreObject toy_lib toy_share ''r'' background (Some no_compression) two_chunks [] 0 restoring_world = (Ok (), snd (smb_RestoreObject toy_lib toy_share ''r'' background (Some no_compression) two_chunks [] 0 restoring_world))"
  "webdav_RestoreObject toy_lib toy_dav ''r'' background (Some no_compression) two_chunks [] 0 restoring_world = (Ok (), snd (webdav_RestoreObject toy_lib toy_dav ''r'' background (Some no_compression) two_chunks [] 0 restoring_world))"
  subgoal by (rule run_eq) code_simp
  subgoal by (rule run_eq) code_simp
  subgoal by (rule run_eq) code_simp
  subgoal by (rule run_eq) code_simp
  subgoal by (rule run_eq) code_simp
  done

theorem remote_RestoreObject_correct_witness:
  "restored (holds_at toy_lib shelved [] 0 (s3_prefix toy_s3)) (Some no_compression) two_chunks restoring_world
      (snd (s3_RestoreObject toy_lib toy_s3 background (Some no_compression) two_chunks [] 0 restoring_world)) \<and>
   restored (holds_at toy_lib shelved [] 0 (gcs_prefix toy_gcs)) (Some no_compression) two_chunks restoring_world
      (snd (gcs_RestoreObject toy_lib toy_gcs background (Some no_compression) two_chunks [] 0 restoring_world)) \<and>
   restored (holds_at toy_lib shelved [] 0 ''r'') (Some no_compression) two_chunks restoring_world
      (snd (ssh_RestoreObject toy_lib toy_sftp ''r'' background (Some no_compression) two_chunks [] 0 restoring_world)) \<and>
   restored (holds_at toy_lib shelved [] 0 ''r'') (Some no_compression) two_chunks restoring_world
      (snd (smb_RestoreObject toy_lib toy_share ''r'' background (Some no_compression) two_chunks [] 0 restoring_world)) \<and>
   restored (holds_at toy_lib shelved [] 0 ''r'') (Some no_compression) two_chunks restoring_world
      (snd (webdav_RestoreObject toy_lib toy_dav ''r'' background (Some no_compression) two_chunks [] 0 restoring_world))"
proof -
  show ?thesis
    using remote_RestoreObject_correct [of shelved toy_s3 toy_lib background "Some no_compression" two_chunks "[]" 0
        restoring_world _ toy_gcs toy_sftp "''r''" toy_share toy_dav]
      restores_run toy_s3_lawful toy_gcs_lawful toy_sftp_lawful toy_share_lawful toy_dav_lawful
    by blast
qed

subsection \<open>Where the code leaves a damaged object\<close>

definition one_byte :: "nat \<Rightarrow> nat" where "one_byte t = 1"
definition from_seven :: ctx where "from_seven t \<longleftrightarrow> 7 \<le> t"

text \<open>
  When a chunk is being written to an SMB share and the context is cancelled in between, the truncated
  object stays under its hash and is taken for the object from then on: nothing removes it.
\<close>

theorem smb_SaveChunk_partial:
  "\<exists>ctx (w :: served).
     fst (smb_SaveChunk toy_lib toy_share ''r'' ctx ''/s/a'' toy_chunk 1 2 (Some no_compression) [] 0 w)
       = Err (Wrapped ''write SMB object'' ContextCanceled) \<and>
     shelved (os_world.more (snd (smb_SaveChunk toy_lib toy_share ''r'' ctx ''/s/a'' toy_chunk 1 2
       (Some no_compression) [] 0 w))) (remote_path ''r'' [] 0 toy_chunk) = Some [2] \<and>
     fst (smb_AlreadyExists toy_share ''r'' background toy_chunk [] 0
       (snd (smb_SaveChunk toy_lib toy_share ''r'' ctx ''/s/a'' toy_chunk 1 2 (Some no_compression) [] 0 w))) = Ok True"
proof (intro exI conjI)
  let ?w = "saving_world\<lparr>entropy := one_byte\<rparr>"
  show "fst (smb_SaveChunk toy_lib toy_share ''r'' from_seven ''/s/a'' toy_chunk 1 2 (Some no_compression) [] 0 ?w) = Err (Wrapped ''write SMB object'' ContextCanceled)" by code_simp
  show "shelved (os_world.more (snd (smb_SaveChunk toy_lib toy_share ''r'' from_seven ''/s/a'' toy_chunk 1 2 (Some no_compression) [] 0 ?w)))
      (remote_path ''r'' [] 0 toy_chunk) = Some [2]" by code_simp
  show "fst (smb_AlreadyExists toy_share ''r'' background toy_chunk [] 0
      (snd (smb_SaveChunk toy_lib toy_share ''r'' from_seven ''/s/a'' toy_chunk 1 2 (Some no_compression) [] 0 ?w))) = Ok True" by code_simp
qed

end
