(* ===== verification/Choice_Properties.thy ===== *)
theory Choice_Properties
  imports Choice Remote_Facts Remote_Sample
begin

section \<open>Properties of the choice of the repositories\<close>

text \<open>
  Where the repository of an address lies, said without the code that finds it, and that the code finds it;
  and that connections which were opened on the way are closed when opening the repository fails.
\<close>

subsection \<open>The place an address names\<close>

datatype place =
    OnDisk string
  | OnSSH string string string
  | OnSMB string string string string
  | OnS3 string string
  | OnWebDAV string string
  | OnGCS string

definition with_port :: "url \<Rightarrow> string \<Rightarrow> string" where
  "with_port u standard = net_JoinHostPort (u_Hostname u) (if u_Port u = [] then standard else u_Port u)"

definition known_schemes :: "string set" where
  "known_schemes = {''ssh'', ''sftp'', ''smb'', ''s3'', ''http'', ''https'', ''webdav'', ''webdavs'', ''gcs''}"

text \<open>
  Of a place in Google Cloud Storage only the bucket is said: the code takes the whole address for the
  folder in it, not the path that the README names.

  The share is the first segment of the path, the folder on it the others, each decoded by itself.
\<close>

definition on_share :: "'z outside \<Rightarrow> url \<Rightarrow> string \<Rightarrow> string \<Rightarrow> bool" where
  "on_share out u share base \<longleftrightarrow>
     (\<exists>s ss ds. split_on CHR ''/'' (trim_slashes (u_EscapedPath u)) = s # ss \<and> s \<noteq> [] \<and>
        url_PathUnescape out s = Ok share \<and> list_all2 (\<lambda>x d. url_PathUnescape out x = Ok d) ss ds \<and>
        base = join_with ''/'' ds)"

definition server_url :: "'z outside \<Rightarrow> url \<Rightarrow> string" where
  "server_url out u =
     trim_right_slashes (url_String out (u\<lparr>u_Scheme := (if u_Scheme u = ''webdav'' then ''http'' else ''https''),
       u_Path := [], u_EscapedPath := [], u_RawQuery := [], u_Fragment := []\<rparr>))"

definition names_place :: "'z outside \<Rightarrow> string \<Rightarrow> url \<Rightarrow> place \<Rightarrow> bool" where
  "names_place out v u p \<longleftrightarrow>
     (case p of
        OnDisk folder \<Rightarrow> u_Scheme u \<notin> known_schemes \<and> folder = v
      | OnSSH user server folder \<Rightarrow> u_Scheme u \<in> {''ssh'', ''sftp''} \<and> u_Username u = Some user \<and> user \<noteq> [] \<and>
          u_Hostname u \<noteq> [] \<and> server = with_port u ''22'' \<and> folder = u_Path u
      | OnSMB server user share base \<Rightarrow> u_Scheme u = ''smb'' \<and> u_Hostname u \<noteq> [] \<and> server = with_port u ''445'' \<and>
          user = (case u_Username u of None \<Rightarrow> [] | Some n \<Rightarrow> n) \<and> on_share out u share base
      | OnS3 bucket folder \<Rightarrow> u_Scheme u = ''s3'' \<and> u_Host u \<noteq> [] \<and> bucket = u_Host u \<and> folder = trim_slashes (u_Path u)
      | OnWebDAV server folder \<Rightarrow> u_Scheme u \<in> {''webdav'', ''webdavs''} \<and> u_Host u \<noteq> [] \<and> server = server_url out u \<and>
          folder = trim_slashes (u_Path u)
      | OnGCS bucket \<Rightarrow> u_Scheme u = ''gcs'' \<and> u_Host u \<noteq> [] \<and> bucket = u_Host u)"

text \<open>
  The repositories are the ones of that kind, over a connection to that server as that user which was made
  between the two worlds.
\<close>

definition serves ::
  "'z outside \<Rightarrow> ctx \<Rightarrow> 'z os_world_scheme \<Rightarrow> place \<Rightarrow> 'z Repositories \<Rightarrow> 'z os_world_scheme \<Rightarrow> bool" where
  "serves out ctx w p r w' \<longleftrightarrow>
     (case p of
        OnDisk folder \<Rightarrow> r = NewLocalRepositories out folder \<and> w' = w
      | OnSSH user server folder \<Rightarrow>
          (\<exists>key home conf w1 c w2 session. newClientConfig out user key home w = (Ok conf, w1) \<and> ssh_User conf = user \<and>
             ssh_Dial out server conf w1 = (Ok c, w2) \<and> ssh_NewSftp c w2 = (Ok session, w') \<and>
             r = SSHRepositories out \<lparr>client_ssh = c, client_sftp = session\<rparr> folder)
      | OnSMB server user share base \<Rightarrow>
          (\<exists>cfg closeConn w1 session w2 m. env_SMB out = Ok cfg \<and> net_Dial out ctx server w = (Ok closeConn, w1) \<and>
             smb_Dial out ctx server user (SMBPassword cfg) w1 = (Ok session, w2) \<and>
             smb_Mount session share w2 = (Ok m, w') \<and>
             r = SmbRepositories out \<lparr>conn_Close = closeConn, conn_session = session, conn_mount = m\<rparr> base)
      | OnS3 bucket folder \<Rightarrow>
          (\<exists>cfg client. env_S3 out = Ok cfg \<and> NewS3Client out ctx cfg w = (Ok client, w') \<and>
             r = S3Repositories out client bucket folder)
      | OnWebDAV server folder \<Rightarrow>
          (\<exists>cfg client. env_Webdav out = Ok cfg \<and>
             webdav_NewConnected out server (WebdavUsername cfg) (WebdavPassword cfg) w = (Ok client, w') \<and>
             r = WebDavRepositories out client folder)
      | OnGCS bucket \<Rightarrow>
          (\<exists>conn folder. gcs_NewClient out ctx (env_GCS_Endpoint out) w = (Ok conn, w') \<and>
             r = GCSRepositories out conn bucket folder))"

lemma decode_segments_Ok: "decode_segments unescape ss = Ok ds \<Longrightarrow> list_all2 (\<lambda>x d. unescape x = Ok d) ss ds"
  by (induction ss arbitrary: ds) (auto split: outcome.splits)

lemma ParseRepositoryURL_Ok:
  assumes "ParseRepositoryURL (url_Parse out) (url_PathUnescape out) v = Ok r" and "url_Parse out v = Ok u"
  shows "names_place out v u (OnSMB (Address r) (Username r) (ShareName r) (BasePath r))"
  using assms decode_segments_Ok [of "url_PathUnescape out"]
  by (fastforce simp: ParseRepositoryURL_def names_place_def on_share_def with_port_def DefaultSMBPort_def
      split: if_splits list.splits outcome.splits)

lemma ParseRepositoryType_Ok:
  assumes "ParseRepositoryType (scheme_of (url_Parse out)) v = Ok t"
  shows "\<exists>u. url_Parse out v = Ok u \<and> v \<noteq> [] \<and>
    (case t of
       RepositoryType.Local \<Rightarrow> u_Scheme u \<notin> known_schemes
     | RepositoryType.Ssh \<Rightarrow> u_Scheme u \<in> {''ssh'', ''sftp''}
     | RepositoryType.Smb \<Rightarrow> u_Scheme u = ''smb''
     | RepositoryType.S3 \<Rightarrow> u_Scheme u = ''s3''
     | RepositoryType.WebDAV \<Rightarrow> u_Scheme u \<in> {''http'', ''https'', ''webdav'', ''webdavs''}
     | RepositoryType.Gcs \<Rightarrow> u_Scheme u = ''gcs'')"
  using assms
  by (auto simp: ParseRepositoryType_def scheme_of_def known_schemes_def split: outcome.splits if_splits)

text \<open>The repositories of each kind.\<close>

lemma NewSSH_place:
  assumes "NewSSHRepositories out v w = (Ok r, w')" and "url_Parse out v = Ok u" and "u_Scheme u \<in> {''ssh'', ''sftp''}"
  shows "\<exists>p. names_place out v u p \<and> serves out ctx w p r w'"
proof -
  have "\<exists>user. u_Username u = Some user \<and> user \<noteq> [] \<and> u_Hostname u \<noteq> []"
    using assms(1,2) by (cases "u_Username u") (auto simp: NewSSHRepositories_def ok_iffs split: if_split_asm)
  then obtain user where user: "u_Username u = Some user" "user \<noteq> []" "u_Hostname u \<noteq> []" by blast
  with assms(1,2) have "\<exists>(conf :: SSHConfig) home cc w2 client. newClientConfig out user (SSHPrivateKey conf) home w = (Ok cc, w2) \<and>
      ssh_NewClient out (with_port u ''22'') cc w2 = (Ok client, w') \<and> r = SSHRepositories out client (u_Path u)"
    unfolding with_port_def DefaultSSHPort_def [symmetric]
    by (auto simp: NewSSHRepositories_def ok_iffs Let_def) blast+
  then obtain conf :: SSHConfig and home cc w2 client where cc: "newClientConfig out user (SSHPrivateKey conf) home w = (Ok cc, w2)"
    and cl: "ssh_NewClient out (with_port u ''22'') cc w2 = (Ok client, w')"
    and r: "r = SSHRepositories out client (u_Path u)" by blast
  from cc have "ssh_User cc = user" by (auto simp: newClientConfig_def ok_iffs)
  moreover from cl obtain c w3 s where "ssh_Dial out (with_port u ''22'') cc w2 = (Ok c, w3)" "ssh_NewSftp c w3 = (Ok s, w')"
    "client = \<lparr>client_ssh = c, client_sftp = s\<rparr>"
    by (auto simp: ssh_NewClient_def ok_iffs)
  ultimately have "serves out ctx w (OnSSH user (with_port u ''22'') (u_Path u)) r w'"
    unfolding serves_def place.case using r cc by blast
  moreover have "names_place out v u (OnSSH user (with_port u ''22'') (u_Path u))"
    using user assms(3) by (simp add: names_place_def)
  ultimately show ?thesis by blast
qed

lemma NewSmb_place:
  assumes "NewSmbRepositories out ctx v w = (Ok r, w')" and "url_Parse out v = Ok u"
  shows "\<exists>p. names_place out v u p \<and> serves out ctx w p r w'"
proof -
  from assms(1) obtain cfg url conn where cfg: "env_SMB out = Ok cfg"
    and url: "ParseRepositoryURL (url_Parse out) (url_PathUnescape out) v = Ok url"
    and conn: "smb_Connect out ctx (Address url) (Username url) (SMBPassword cfg) (ShareName url) w = (Ok conn, w')"
    and r: "r = SmbRepositories out conn (BasePath url)"
    by (auto simp: NewSmbRepositories_def ok_iffs)
  from conn obtain closeConn w1 session w2 m where c: "net_Dial out ctx (Address url) w = (Ok closeConn, w1)"
    "smb_Dial out ctx (Address url) (Username url) (SMBPassword cfg) w1 = (Ok session, w2)"
    "smb_Mount session (ShareName url) w2 = (Ok m, w')"
    "conn = \<lparr>conn_Close = closeConn, conn_session = session, conn_mount = m\<rparr>"
    by (auto simp: smb_Connect_def ok_iffs)
  have "serves out ctx w (OnSMB (Address url) (Username url) (ShareName url) (BasePath url)) r w'"
    unfolding serves_def place.case using c r cfg by blast
  with ParseRepositoryURL_Ok [OF url assms(2)] show ?thesis by blast
qed

lemma NewS3_place:
  assumes "NewS3Repositories out ctx v w = (Ok r, w')" and "url_Parse out v = Ok u"
  shows "\<exists>p. names_place out v u p \<and> serves out ctx w p r w'"
proof -
  from assms obtain cfg client where c: "env_S3 out = Ok cfg" "NewS3Client out ctx cfg w = (Ok client, w')"
    "u_Scheme u = ''s3''" "u_Host u \<noteq> []" "r = S3Repositories out client (u_Host u) (trim_slashes (u_Path u))"
    by (auto simp: NewS3Repositories_def ParseS3URL_def ok_iffs split: if_splits)
  have "serves out ctx w (OnS3 (u_Host u) (trim_slashes (u_Path u))) r w'" unfolding serves_def place.case using c by blast
  moreover have "names_place out v u (OnS3 (u_Host u) (trim_slashes (u_Path u)))" using c by (simp add: names_place_def)
  ultimately show ?thesis by blast
qed

lemma NewWebDav_place:
  assumes "NewWebDavRepositories out v w = (Ok r, w')" and "url_Parse out v = Ok u"
    and scheme: "u_Scheme u \<in> {''http'', ''https'', ''webdav'', ''webdavs''}"
  shows "(\<exists>p. names_place out v u p \<and> serves out ctx w p r w') \<and> u_Scheme u \<notin> {''http'', ''https''}"
proof -
  have lower: "map to_lower_char ''http'' = ''http''" "map to_lower_char ''https'' = ''https''"
    "map to_lower_char ''webdav'' = ''webdav''" "map to_lower_char ''webdavs'' = ''webdavs''" by code_simp+
  have not: "u_Scheme u \<notin> {''http'', ''https''}"
    using assms(1,2) lower by (auto simp: NewWebDavRepositories_def ParseWebDAVURL_def ok_iffs)
  then have s: "u_Scheme u \<in> {''webdav'', ''webdavs''}" "map to_lower_char (u_Scheme u) = u_Scheme u"
    using scheme lower by auto
  from assms(1,2) s obtain cfg client where c: "env_Webdav out = Ok cfg"
    "webdav_NewConnected out (server_url out u) (WebdavUsername cfg) (WebdavPassword cfg) w = (Ok client, w')"
    "u_Host u \<noteq> []" "r = WebDavRepositories out client (trim_slashes (u_Path u))"
    by (auto simp: NewWebDavRepositories_def ParseWebDAVURL_def webdav_NewClient_def server_url_def Let_def ok_iffs
        split: if_splits)
  have "serves out ctx w (OnWebDAV (server_url out u) (trim_slashes (u_Path u))) r w'" unfolding serves_def place.case using c by blast
  moreover have "names_place out v u (OnWebDAV (server_url out u) (trim_slashes (u_Path u)))"
    using c s by (simp add: names_place_def)
  ultimately show ?thesis using not by blast
qed

lemma NewGCS_place:
  assumes "NewGCSRepositories out ctx v w = (Ok r, w')" and "url_Parse out v = Ok u"
  shows "\<exists>p. names_place out v u p \<and> serves out ctx w p r w'"
proof -
  from assms obtain conn w1 where c: "gcs_NewClient out ctx (env_GCS_Endpoint out) w = (Ok conn, w1)"
    "u_Scheme u = ''gcs''" "u_Host u \<noteq> []" "r = GCSRepositories out conn (u_Host u) v" "w1 = w'"
    by (auto simp: NewGCSRepositories_def ParseBucket_def ok_iffs split: if_splits)
  have "serves out ctx w (OnGCS (u_Host u)) r w'" unfolding serves_def place.case using c by blast
  moreover have "names_place out v u (OnGCS (u_Host u))" using c by (simp add: names_place_def)
  ultimately show ?thesis by blast
qed

text \<open>
  C14: the repositories that are opened for an address are those of the place the address names: by its
  scheme, over a connection, made on opening, to its host and port (or the standard one) as its user, in its bucket or
  share, and at its path; of an address of Google Cloud Storage only the bucket is claimed. An address with the scheme of
  the web, which is taken for one of a WebDAV server, is never opened.
\<close>

theorem NewHandler_places:
  assumes "NewHandler out ctx v w = (Ok r, w')"
  shows "\<exists>u p. v \<noteq> [] \<and> url_Parse out v = Ok u \<and> names_place out v u p \<and> serves out ctx w p r w' \<and>
    u_Scheme u \<notin> {''http'', ''https''}"
proof -
  from assms obtain t where t: "ParseRepositoryType (scheme_of (url_Parse out)) v = Ok t"
    and run: "(case t of RepositoryType.Local \<Rightarrow> return (NewLocalRepositories out v)
        | RepositoryType.Ssh \<Rightarrow> NewSSHRepositories out v | RepositoryType.Smb \<Rightarrow> NewSmbRepositories out ctx v
        | RepositoryType.S3 \<Rightarrow> NewS3Repositories out ctx v | RepositoryType.WebDAV \<Rightarrow> NewWebDavRepositories out v
        | RepositoryType.Gcs \<Rightarrow> NewGCSRepositories out ctx v) w = (Ok r, w')"
    by (auto simp: NewHandler_def ok_iffs)
  from ParseRepositoryType_Ok [OF t] obtain u where u: "url_Parse out v = Ok u" "v \<noteq> []"
    and scheme: "case t of
       RepositoryType.Local \<Rightarrow> u_Scheme u \<notin> known_schemes
     | RepositoryType.Ssh \<Rightarrow> u_Scheme u \<in> {''ssh'', ''sftp''}
     | RepositoryType.Smb \<Rightarrow> u_Scheme u = ''smb''
     | RepositoryType.S3 \<Rightarrow> u_Scheme u = ''s3''
     | RepositoryType.WebDAV \<Rightarrow> u_Scheme u \<in> {''http'', ''https'', ''webdav'', ''webdavs''}
     | RepositoryType.Gcs \<Rightarrow> u_Scheme u = ''gcs''" by blast
  have "(\<exists>p. names_place out v u p \<and> serves out ctx w p r w') \<and> u_Scheme u \<notin> {''http'', ''https''}"
  proof (cases t)
    case Local
    with run scheme have "names_place out v u (OnDisk v)" "serves out ctx w (OnDisk v) r w'"
      by (auto simp: names_place_def serves_def return_Ok_iff)
    with scheme Local show ?thesis by (auto simp: known_schemes_def)
  next
    case Ssh
    with run scheme NewSSH_place [OF _ u(1)] show ?thesis by fastforce
  next
    case Smb
    with run scheme NewSmb_place [OF _ u(1)] show ?thesis by fastforce
  next
    case S3
    with run scheme NewS3_place [OF _ u(1)] show ?thesis by fastforce
  next
    case WebDAV
    with run scheme NewWebDav_place [OF _ u(1)] show ?thesis by simp
  next
    case Gcs
    with run scheme NewGCS_place [OF _ u(1)] show ?thesis by fastforce
  qed
  with u show ?thesis by blast
qed

subsection \<open>A host to compute with\<close>

text \<open>
  One server with SMB shares, whose only share is \<open>backups\<close>; the state beside the machine's is the number of
  open connections. Nothing else answers.
\<close>

definition down :: "('z, 'a) os" where "down w = (Err ErrIO, w)"

definition share_url :: url where
  "share_url = \<lparr>u_Scheme = ''smb'', u_Username = Some ''joe'', u_Host = ''nas'', u_Hostname = ''nas'', u_Port = [],
     u_Path = ''/backups/daily'', u_EscapedPath = ''/backups/daily'', u_RawQuery = [], u_Fragment = []\<rparr>"

definition one_url :: "url \<Rightarrow> string \<Rightarrow> url outcome" where "one_url u v = Ok u"
definition plain_text :: "string \<Rightarrow> string outcome" where "plain_text s = Ok s"

definition connect :: "'a \<Rightarrow> (int, 'a) os" where
  "connect c w = (Ok c, os_world.more_update (\<lambda>n. n + 1) w)"

definition disconnect :: "(int, unit) os" where
  "disconnect w = (Ok (), os_world.more_update (\<lambda>n. n - 1) w)"

definition dead_share :: "int smb_share" where
  "dead_share = \<lparr>smb_ReadDir = (\<lambda>_ _. down), smb_Open = (\<lambda>_ _. down), smb_OpenTrunc = (\<lambda>_ _. down),
     smb_OpenExcl = (\<lambda>_ _. down), smb_OpenCreate = (\<lambda>_ _. down), smb_ReadFile = (\<lambda>_ _. down),
     smb_MkdirAll = (\<lambda>_ _. down), smb_Remove = (\<lambda>_ _. down), smb_Stat = (\<lambda>_ _. down)\<rparr>"

definition the_mount :: "int smb_mount" where
  "the_mount = \<lparr>mount_share = dead_share, mount_Umount = disconnect\<rparr>"

definition host_Mount :: "string \<Rightarrow> (int, int smb_mount) os" where
  "host_Mount name = (if name = ''backups'' then connect the_mount else down)"

definition the_session :: "int smb_session" where
  "the_session = \<lparr>smb_Mount = host_Mount, smb_Logoff = disconnect\<rparr>"

definition host_net_Dial :: "ctx \<Rightarrow> string \<Rightarrow> (int, (int, unit) os) os" where
  "host_net_Dial ctx address = connect disconnect"

definition host_smb_Dial :: "ctx \<Rightarrow> string \<Rightarrow> string \<Rightarrow> string \<Rightarrow> (int, int smb_session) os" where
  "host_smb_Dial ctx address user password = connect the_session"

definition dead_s3 :: "int s3_client" where
  "dead_s3 = \<lparr>HeadObject = (\<lambda>_ _ _. down), GetObject = (\<lambda>_ _ _. down), PutObject = (\<lambda>_ _ _ _ _. down),
     DeleteObject = (\<lambda>_ _ _. down), NextPage = (\<lambda>_ _ _ _. down), UploadObject = (\<lambda>_ _ _ _. down),
     as_NoSuchKey = (\<lambda>_. False), as_NotFound = (\<lambda>_. False), ErrorCode = (\<lambda>_. None), HTTPStatusCode = (\<lambda>_. None)\<rparr>"

definition toy_out :: "url \<Rightarrow> int outside" where
  "toy_out u = \<lparr>out_lib = toy_lib, url_Parse = one_url u, url_PathUnescape = plain_text, url_String = u_Host,
     json_Decode = (\<lambda>_. Err ErrIO), tmp_dir = ''/tmp'', listing_bound = 1, env_S3 = Err ErrIO, env_GCS_Endpoint = None,
     env_SMB = Ok \<lparr>SMBPassword = ''secret''\<rparr>, env_SSH = Err ErrIO, env_Webdav = Err ErrIO,
     LoadDefaultConfig = (\<lambda>_ _. down), s3_NewFromConfig = (\<lambda>_ _. dead_s3), storage_NewClient = (\<lambda>_ _. down),
     os_UserHomeDir = Err ErrIO, ParsePrivateKey = (\<lambda>_. Err ErrIO), knownhosts_New = (\<lambda>_. down),
     ssh_Dial = (\<lambda>_ _. down), net_Dial = host_net_Dial, smb_Dial = host_smb_Dial, webdav_NewConnected = (\<lambda>_ _ _. down)\<rparr>"

definition idle :: "int os_world_scheme" where
  "idle = os_world.extend (toy_world [] no_fault) 0"

lemma share_opened:
  "\<exists>r w'. NewHandler (toy_out share_url) background ''smb://joe@nas/backups/daily'' idle = (Ok r, w')"
proof -
  have "succeeded (fst (NewHandler (toy_out share_url) background ''smb://joe@nas/backups/daily'' idle))" by code_simp
  from succeeded [OF this] show ?thesis by blast
qed

theorem NewHandler_places_witness:
  "\<exists>r w'. serves (toy_out share_url) background idle (OnSMB ''nas:445'' ''joe'' ''backups'' ''daily'') r w'"
proof -
  obtain r w' where run: "NewHandler (toy_out share_url) background ''smb://joe@nas/backups/daily'' idle = (Ok r, w')"
    using share_opened by blast
  from NewHandler_places [OF run] obtain u p where
    p: "url_Parse (toy_out share_url) ''smb://joe@nas/backups/daily'' = Ok u" "names_place (toy_out share_url) ''smb://joe@nas/backups/daily'' u p"
      "serves (toy_out share_url) background idle p r w'" by blast
  then have u: "u = share_url" by (simp add: toy_out_def one_url_def)
  have scheme: "u_Scheme share_url = ''smb''" "with_port share_url ''445'' = ''nas:445''" "u_Username share_url = Some ''joe''"
    "split_on CHR ''/'' (trim_slashes (u_EscapedPath share_url)) = [''backups'', ''daily'']" by code_simp+
  from p(2) u scheme have "p = OnSMB ''nas:445'' ''joe'' ''backups'' ''daily''"
    by (cases p) (auto simp: names_place_def known_schemes_def on_share_def toy_out_def plain_text_def list_all2_Cons1)
  with p(3) show ?thesis by blast
qed

end
