(* ===== verification/Choice_Connections.thy ===== *)
theory Choice_Connections
  imports Choice_Properties
begin

section \<open>Connections are released\<close>

text \<open>
  \<open>n\<close> counts the open connections in the state beside the machine's. \<open>connects n m close further\<close>: when
  \<open>m\<close> succeeds there is one more, until its \<open>close\<close>, and of what it returned \<open>further\<close> holds;
  when it fails there is none. \<open>counted\<close> says this of every constructor of a connection.
\<close>

definition closes :: "('z \<Rightarrow> int) \<Rightarrow> ('z, 'a) os \<Rightarrow> bool" where
  "closes n m \<longleftrightarrow> (\<forall>w. n (os_world.more (snd (m w))) = n (os_world.more w) - 1)"

definition connects :: "('z \<Rightarrow> int) \<Rightarrow> ('z, 'a) os \<Rightarrow> ('a \<Rightarrow> ('z, unit) os) \<Rightarrow> ('a \<Rightarrow> bool) \<Rightarrow> bool" where
  "connects n m close further \<longleftrightarrow>
     (\<forall>w. case m w of
        (Ok c, w') \<Rightarrow> n (os_world.more w') = n (os_world.more w) + 1 \<and> closes n (close c) \<and> further c
      | (Err e, w') \<Rightarrow> n (os_world.more w') = n (os_world.more w)
      | (Panic s, w') \<Rightarrow> True)"

definition same_count :: "('z \<Rightarrow> int) \<Rightarrow> ('z, 'a) os \<Rightarrow> bool" where
  "same_count n m \<longleftrightarrow> (\<forall>N. keeps (\<lambda>w. n (os_world.more w) = N) m)"

definition counted :: "'z outside \<Rightarrow> ('z \<Rightarrow> int) \<Rightarrow> bool" where
  "counted out n \<longleftrightarrow>
     (\<forall>ctx region. same_count n (LoadDefaultConfig out ctx region)) \<and>
     (\<forall>p. same_count n (knownhosts_New out p)) \<and>
     (\<forall>u name pw. same_count n (webdav_NewConnected out u name pw)) \<and>
     (\<forall>ctx opts. connects n (storage_NewClient out ctx opts) gcs_conn_Close (\<lambda>_. True)) \<and>
     (\<forall>server cc. connects n (ssh_Dial out server cc) ssh_Close
        (\<lambda>c. connects n (ssh_NewSftp c) session_Close (\<lambda>_. True))) \<and>
     (\<forall>ctx server. connects n (net_Dial out ctx server) (\<lambda>c. c) (\<lambda>_. True)) \<and>
     (\<forall>ctx server user pw. connects n (smb_Dial out ctx server user pw) smb_Logoff
        (\<lambda>s. \<forall>name. connects n (smb_Mount s name) mount_Umount (\<lambda>_. True)))"

lemma closesD: "closes n m \<Longrightarrow> n (os_world.more (snd (m w))) = n (os_world.more w) - 1"
  by (simp add: closes_def)

lemma same_countD: "same_count n m \<Longrightarrow> m w = (r, w') \<Longrightarrow> n (os_world.more w') = n (os_world.more w)"
  unfolding same_count_def by (blast dest: keepsD)

lemma connects_Ok:
  assumes "connects n m close further" and "m w = (Ok c, w')"
  shows "n (os_world.more w') = n (os_world.more w) + 1" and "closes n (close c)" and "further c"
  using assms(1) [unfolded connects_def, rule_format, of w] assms(2) by simp_all

lemma connects_Err:
  assumes "connects n m close further" and "m w = (Err e, w')"
  shows "n (os_world.more w') = n (os_world.more w)"
  using assms(1) [unfolded connects_def, rule_format, of w] assms(2) by simp

text \<open>What opening a repository left open, and what closing it closes.\<close>

definition releases :: "('z \<Rightarrow> int) \<Rightarrow> 'z os_world_scheme \<Rightarrow> ('z, 'z Repositories) os \<Rightarrow> bool" where
  "releases n w m \<longleftrightarrow>
     (\<forall>h w' c w''. m w = (Ok h, w') \<longrightarrow> Repositories_Close h w' = (c, w'') \<longrightarrow> (\<forall>s. c \<noteq> Panic s) \<longrightarrow>
        n (os_world.more w'') = n (os_world.more w)) \<and>
     (\<forall>e w'. m w = (Err e, w') \<longrightarrow> n (os_world.more w') = n (os_world.more w))"

lemma smb_close:
  assumes "closes n cc" and "closes n (smb_Logoff s)" and "closes n (mount_Umount m)"
    and "smb_Connection_Close \<lparr>conn_Close = cc, conn_session = s, conn_mount = m\<rparr> w = (r, w')"
  shows "n (os_world.more w') = n (os_world.more w) - 3"
proof -
  have "cc (snd (smb_Logoff s (snd (mount_Umount m w)))) = (r, w')"
    using assms(4) by (simp add: smb_Connection_Close_def andThen_def tryCatch_def ignoring_def)
  then have "w' = snd (cc (snd (smb_Logoff s (snd (mount_Umount m w)))))" by (metis snd_conv)
  with closesD [OF assms(1)] closesD [OF assms(2)] closesD [OF assms(3)] show ?thesis by simp
qed

lemma smb_releases:
  assumes "counted out n"
  shows "releases n w (NewSmbRepositories out ctx v)"
proof -
  have net: "connects n (net_Dial out ctx a) (\<lambda>c. c) (\<lambda>_. True)"
    and dial: "connects n (smb_Dial out ctx a u pw) smb_Logoff
        (\<lambda>s. \<forall>name. connects n (smb_Mount s name) mount_Umount (\<lambda>_. True))" for a u pw
    using assms unfolding counted_def by blast+
  show ?thesis unfolding releases_def
  proof (intro conjI allI impI)
    fix h w' c w'' assume run: "NewSmbRepositories out ctx v w = (Ok h, w')" and close: "Repositories_Close h w' = (c, w'')"
    from run obtain a u pw share base cc w1 session w2 m where
      r: "net_Dial out ctx a w = (Ok cc, w1)" "smb_Dial out ctx a u pw w1 = (Ok session, w2)"
        "smb_Mount session share w2 = (Ok m, w')"
      and h: "h = SmbRepositories out \<lparr>conn_Close = cc, conn_session = session, conn_mount = m\<rparr> base"
      by (auto simp: NewSmbRepositories_def smb_Connect_def ok_iffs)
    note o = connects_Ok [OF net r(1)] connects_Ok [OF dial r(2)]
    from o(6) have "connects n (smb_Mount session share) mount_Umount (\<lambda>_. True)" by blast
    note m = connects_Ok [OF this r(3)]
    from close h have "smb_Connection_Close \<lparr>conn_Close = cc, conn_session = session, conn_mount = m\<rparr> w' = (c, w'')"
      by (simp add: SmbRepositories_def Let_def)
    from smb_close [OF o(2) o(5) m(2) this] o(1,4) m(1) show "n (os_world.more w'') = n (os_world.more w)" by simp
  next
    fix e w' assume "NewSmbRepositories out ctx v w = (Err e, w')"
    then consider "w' = w"
      | a e' where "net_Dial out ctx a w = (Err e', w')"
      | a cc w1 u pw e' w2 where "net_Dial out ctx a w = (Ok cc, w1)" "smb_Dial out ctx a u pw w1 = (Err e', w2)"
          "w' = snd (cc w2)"
      | a cc w1 u pw session w2 share e' w3 where "net_Dial out ctx a w = (Ok cc, w1)"
          "smb_Dial out ctx a u pw w1 = (Ok session, w2)" "smb_Mount session share w2 = (Err e', w3)"
          "w' = snd (cc (snd (smb_Logoff session w3)))"
      by (auto simp: NewSmbRepositories_def smb_Connect_def err_iffs lift_outcome_Ok_iff andThen_Ok_iff ignoring_iff)
    then show "n (os_world.more w') = n (os_world.more w)"
    proof cases
      case 2
      then show ?thesis by (rule connects_Err [OF net])
    next
      case 3
      with connects_Ok [OF net 3(1)] connects_Err [OF dial 3(2)] show ?thesis by (simp add: closesD)
    next
      case 4
      note o = connects_Ok [OF net 4(1)] connects_Ok [OF dial 4(2)]
      from o(6) have mount: "connects n (smb_Mount session share) mount_Umount (\<lambda>_. True)" by blast
      from o connects_Err [OF mount 4(3)] 4(4) show ?thesis by (simp add: closesD)
    qed simp
  qed
qed

lemma ssh_close:
  assumes "closes n (ssh_Close c)" and "closes n (session_Close s)"
    and run: "ssh_Client_Close \<lparr>client_ssh = c, client_sftp = s\<rparr> w = (r, w')" and "\<And>p. r \<noteq> Panic p"
  shows "n (os_world.more w') = n (os_world.more w) - 2"
proof -
  obtain r1 w1 where s: "session_Close s w = (r1, w1)" by force
  have n1: "n (os_world.more w1) = n (os_world.more w) - 1" using closesD [OF assms(2), of w] s by simp
  have "w' = snd (ssh_Close c w1)"
    using run s assms(4)
    by (cases r1) (auto simp: ssh_Client_Close_def tryCatch_def andThen_def ignoring_def fail_run dest: arg_cong [where f = snd])
  with closesD [OF assms(1), of w1] n1 show ?thesis by simp
qed

lemma newClientConfig_count:
  assumes "counted out n" and "newClientConfig out user k p w = (r, w')"
  shows "n (os_world.more w') = n (os_world.more w)"
proof -
  have "same_count n (knownhosts_New out p)" using assms(1) unfolding counted_def by blast
  then have "same_count n (newClientConfig out user k p)"
    unfolding newClientConfig_def same_count_def by (auto intro!: keeps_rules)
  from same_countD [OF this assms(2)] show ?thesis .
qed

lemma ssh_NewClient_count:
  assumes "counted out n"
  shows "ssh_NewClient out server cc w = (Ok cl, w') \<Longrightarrow> n (os_world.more w') = n (os_world.more w) + 2 \<and>
      closes n (ssh_Close (client_ssh cl)) \<and> closes n (session_Close (client_sftp cl))"
    and "ssh_NewClient out server cc w = (Err e, w') \<Longrightarrow> n (os_world.more w') = n (os_world.more w)"
proof -
  have dial: "connects n (ssh_Dial out server cc) ssh_Close (\<lambda>c. connects n (ssh_NewSftp c) session_Close (\<lambda>_. True))"
    using assms unfolding counted_def by blast
  {
    assume "ssh_NewClient out server cc w = (Ok cl, w')"
    then obtain c w1 s where r: "ssh_Dial out server cc w = (Ok c, w1)" "ssh_NewSftp c w1 = (Ok s, w')"
      and cl: "cl = \<lparr>client_ssh = c, client_sftp = s\<rparr>" by (auto simp: ssh_NewClient_def ok_iffs)
    note o = connects_Ok [OF dial r(1)]
    from o(1,2) connects_Ok [OF o(3) r(2)] cl show "n (os_world.more w') = n (os_world.more w) + 2 \<and>
      closes n (ssh_Close (client_ssh cl)) \<and> closes n (session_Close (client_sftp cl))" by simp
  }
  {
    assume "ssh_NewClient out server cc w = (Err e, w')"
    then consider e' where "ssh_Dial out server cc w = (Err e', w')"
      | c w1 e' w2 where "ssh_Dial out server cc w = (Ok c, w1)" "ssh_NewSftp c w1 = (Err e', w2)" "w' = snd (ssh_Close c w2)"
      by (auto simp: ssh_NewClient_def err_iffs andThen_Ok_iff ignoring_iff)
    then show "n (os_world.more w') = n (os_world.more w)"
    proof cases
      case 1
      then show ?thesis by (rule connects_Err [OF dial])
    next
      case 2
      note o = connects_Ok [OF dial 2(1)]
      from o(1,2) connects_Err [OF o(3) 2(2)] 2(3) show ?thesis by (simp add: closesD)
    qed
  }
qed

text \<open>Opening fails before anything is done, or goes on to the keys and the connection.\<close>

lemma andThen_lifted:
  "andThen (orWrap msg (lift_outcome (Ok x))) f = f x" "andThen (orWrap msg (lift_outcome (Err e))) f = fail (Wrapped msg e)"
  "andThen (orWrap msg (lift_outcome (Panic s))) f = panic s"
  by (rule ext, simp add: andThen_def orWrap_def tryCatch_def lift_outcome_run return_run fail_run panic_run)+

lemma NewSSH_shape:
  "(\<exists>e. NewSSHRepositories out v = fail e) \<or> (\<exists>s. NewSSHRepositories out v = panic s) \<or>
   (\<exists>user k p server root. NewSSHRepositories out v = andThen (newClientConfig out user k p) (\<lambda>cc.
      andThen (ssh_NewClient out server cc) (\<lambda>client. return (SSHRepositories out client root))))"
proof (cases "env_SSH out")
  case conf: (Ok conf)
  show ?thesis
  proof (cases "url_Parse out v")
    case u: (Ok u)
    show ?thesis
    proof (cases "u_Username u")
      case name: (Some user)
      show ?thesis
      proof (cases "os_UserHomeDir out")
        case home: (Ok home)
        show ?thesis
        proof (cases "user = [] \<or> u_Hostname u = []")
          case True
          with conf u name home show ?thesis by (auto simp: NewSSHRepositories_def andThen_lifted Let_def)
        next
          case False
          with conf u name home have "NewSSHRepositories out v =
              andThen (newClientConfig out user (SSHPrivateKey conf) (Join [home, ''.ssh'', ''known_hosts''])) (\<lambda>cc.
                andThen (ssh_NewClient out (net_JoinHostPort (u_Hostname u) (if u_Port u = [] then DefaultSSHPort else u_Port u)) cc)
                  (\<lambda>client. return (SSHRepositories out client (u_Path u))))"
            by (simp add: NewSSHRepositories_def andThen_lifted Let_def)
          then show ?thesis by blast
        qed
      qed (use conf u name in \<open>auto simp: NewSSHRepositories_def andThen_lifted Let_def\<close>)
    qed (use conf u in \<open>auto simp: NewSSHRepositories_def andThen_lifted\<close>)
  qed (use conf in \<open>auto simp: NewSSHRepositories_def andThen_lifted\<close>)
qed (auto simp: NewSSHRepositories_def andThen_lifted)

lemma ssh_releases:
  assumes "counted out n"
  shows "releases n w (NewSSHRepositories out v)"
  using NewSSH_shape [of out v]
proof (elim disjE exE)
  fix user k p server root
  assume eq: "NewSSHRepositories out v = andThen (newClientConfig out user k p) (\<lambda>cc.
      andThen (ssh_NewClient out server cc) (\<lambda>client. return (SSHRepositories out client root)))"
  show ?thesis unfolding releases_def
  proof (intro conjI allI impI)
    fix h w' c w'' assume run: "NewSSHRepositories out v w = (Ok h, w')" and close: "Repositories_Close h w' = (c, w'')"
      and ok: "\<forall>s. c \<noteq> Panic s"
    from run eq obtain cc w1 cl where r: "newClientConfig out user k p w = (Ok cc, w1)"
      "ssh_NewClient out server cc w1 = (Ok cl, w')" and h: "h = SSHRepositories out cl root" by (auto simp: ok_iffs)
    note o = ssh_NewClient_count(1) [OF assms r(2)]
    have cl: "cl = \<lparr>client_ssh = client_ssh cl, client_sftp = client_sftp cl\<rparr>" by simp
    have "ssh_Client_Close cl w' = (c, w'')" using close h by (simp add: SSHRepositories_def Let_def)
    with ssh_close [of n "client_ssh cl" "client_sftp cl" w' c w''] o ok cl
    have "n (os_world.more w'') = n (os_world.more w') - 2" by simp
    with o newClientConfig_count [OF assms r(1)] show "n (os_world.more w'') = n (os_world.more w)" by simp
  next
    fix e w' assume "NewSSHRepositories out v w = (Err e, w')"
    then consider "newClientConfig out user k p w = (Err e, w')"
      | cc w1 where "newClientConfig out user k p w = (Ok cc, w1)" "ssh_NewClient out server cc w1 = (Err e, w')"
      by (auto simp: eq andThen_Err_iff return_Err_iff)
    then show "n (os_world.more w') = n (os_world.more w)"
      using newClientConfig_count [OF assms] ssh_NewClient_count(2) [OF assms] by cases (blast, metis)
  qed
qed (simp_all add: releases_def fail_run panic_run)

lemma same_releases:
  assumes "same_count n m" and "\<And>w h w'. m w = (Ok h, w') \<Longrightarrow> Repositories_Close h = return ()"
  shows "releases n w m"
  unfolding releases_def
proof (intro conjI allI impI)
  fix h w' c w'' assume "m w = (Ok h, w')" and "Repositories_Close h w' = (c, w'')"
  with assms(2) same_countD [OF assms(1)] show "n (os_world.more w'') = n (os_world.more w)"
    by (metis return_run snd_conv)
qed (rule same_countD [OF assms(1)])

lemma s3_releases:
  assumes "counted out n"
  shows "releases n w (NewS3Repositories out ctx v)"
proof -
  have "same_count n (LoadDefaultConfig out ctx r)" for r using assms unfolding counted_def by blast
  then have "same_count n (NewS3Repositories out ctx v)"
    unfolding NewS3Repositories_def NewS3Client_def same_count_def by (auto intro!: keeps_rules)
  then show ?thesis
    by (rule same_releases) (auto simp: NewS3Repositories_def S3Repositories_def Let_def ok_iffs)
qed

lemma webdav_releases:
  assumes "counted out n"
  shows "releases n w (NewWebDavRepositories out v)"
proof -
  have "same_count n (webdav_NewConnected out u name pw)" for u name pw using assms unfolding counted_def by blast
  then have "same_count n (NewWebDavRepositories out v)"
    unfolding NewWebDavRepositories_def webdav_NewClient_def same_count_def by (auto intro!: keeps_rules)
  then show ?thesis
    by (rule same_releases) (auto simp: NewWebDavRepositories_def WebDavRepositories_def ok_iffs)
qed

text \<open>On Google Cloud Storage the connection is made before the address is looked at.\<close>

lemma gcs_releases:
  assumes "counted out n"
  shows "NewGCSRepositories out ctx v w = (Ok h, w') \<Longrightarrow> Repositories_Close h w' = (c, w'') \<Longrightarrow>
      n (os_world.more w'') = n (os_world.more w)"
    and "NewGCSRepositories out ctx v w = (Err e, w') \<Longrightarrow> n (os_world.more w') = n (os_world.more w) \<or>
      (\<forall>b. ParseBucket (url_Parse out) v \<noteq> Ok b) \<and> n (os_world.more w') = n (os_world.more w) + 1"
proof -
  have new: "connects n (storage_NewClient out ctx opts) gcs_conn_Close (\<lambda>_. True)" for opts
    using assms unfolding counted_def by blast
  {
    assume "NewGCSRepositories out ctx v w = (Ok h, w')" and close: "Repositories_Close h w' = (c, w'')"
    then obtain opts conn b where r: "storage_NewClient out ctx opts w = (Ok conn, w')" and h: "h = GCSRepositories out conn b v"
      by (auto simp: NewGCSRepositories_def gcs_NewClient_def ok_iffs)
    from close h have "w'' = snd (gcs_conn_Close conn w')" by (simp add: GCSRepositories_def Let_def)
    with connects_Ok [OF new r] show "n (os_world.more w'') = n (os_world.more w)" by (simp add: closesD)
  }
  {
    assume "NewGCSRepositories out ctx v w = (Err e, w')"
    then consider opts e' where "storage_NewClient out ctx opts w = (Err e', w')"
      | opts conn where "storage_NewClient out ctx opts w = (Ok conn, w')" "ParseBucket (url_Parse out) v = Err e"
      by (auto simp: NewGCSRepositories_def gcs_NewClient_def err_iffs)
    then show "n (os_world.more w') = n (os_world.more w) \<or>
      (\<forall>b. ParseBucket (url_Parse out) v \<noteq> Ok b) \<and> n (os_world.more w') = n (os_world.more w) + 1"
    proof cases
      case 1
      with connects_Err [OF new] show ?thesis by blast
    next
      case 2
      with connects_Ok(1) [OF new 2(1)] show ?thesis by simp
    qed
  }
qed

text \<open>
  C15: closing the repositories of an address closes every connection that opening them made, and when opening
  them fails every connection made on the way is closed, with one exception: an address of Google Cloud Storage
  without a bucket, for which the connection that was made first stays open.
\<close>

theorem NewHandler_releases:
  assumes "counted out n"
  shows "releases n w (NewHandler out ctx v) \<or>
    (\<exists>e w' u. NewHandler out ctx v w = (Err e, w') \<and> url_Parse out v = Ok u \<and> u_Scheme u = ''gcs'' \<and> u_Host u = [] \<and>
       n (os_world.more w') = n (os_world.more w) + 1)"
proof (cases "ParseRepositoryType (scheme_of (url_Parse out)) v")
  case (Ok t)
  from ParseRepositoryType_Ok [OF Ok] have "\<exists>u. url_Parse out v = Ok u \<and> (t = RepositoryType.Gcs \<longrightarrow> u_Scheme u = ''gcs'')"
    by (cases t) auto
  then obtain u where u: "url_Parse out v = Ok u" and scheme: "t = RepositoryType.Gcs \<Longrightarrow> u_Scheme u = ''gcs''" by blast
  have eq: "NewHandler out ctx v = (case t of RepositoryType.Local \<Rightarrow> return (NewLocalRepositories out v)
        | RepositoryType.Ssh \<Rightarrow> NewSSHRepositories out v | RepositoryType.Smb \<Rightarrow> NewSmbRepositories out ctx v
        | RepositoryType.S3 \<Rightarrow> NewS3Repositories out ctx v | RepositoryType.WebDAV \<Rightarrow> NewWebDavRepositories out v
        | RepositoryType.Gcs \<Rightarrow> NewGCSRepositories out ctx v)"
    by (rule ext) (simp add: NewHandler_def Ok andThen_run lift_outcome_run)
  show ?thesis
  proof (cases t)
    case Local
    then have "releases n w (NewHandler out ctx v)"
      unfolding eq by (auto intro!: same_releases simp: same_count_def NewLocalRepositories_def ok_iffs keeps_rules)
    then show ?thesis ..
  next
    case Gcs
    show ?thesis
    proof (rule disjCI)
      assume no: "\<not> (\<exists>e w' u. NewHandler out ctx v w = (Err e, w') \<and> url_Parse out v = Ok u \<and> u_Scheme u = ''gcs'' \<and>
        u_Host u = [] \<and> n (os_world.more w') = n (os_world.more w) + 1)"
      have "\<exists>b. ParseBucket (url_Parse out) v = Ok b" if "u_Host u \<noteq> []"
        using that u scheme Gcs by (simp add: ParseBucket_def)
      with no u scheme gcs_releases [OF assms] Gcs show "releases n w (NewHandler out ctx v)"
        unfolding releases_def eq by (metis RepositoryType.simps(36))
    qed
  qed (use smb_releases ssh_releases s3_releases webdav_releases assms eq in auto)
next
  case (Err e)
  then have "NewHandler out ctx v = fail e"
    by (intro ext) (simp add: NewHandler_def andThen_run lift_outcome_run fail_run)
  then show ?thesis by (simp add: releases_def fail_run)
next
  case (Panic s)
  then have "NewHandler out ctx v = panic s"
    by (intro ext) (simp add: NewHandler_def andThen_run lift_outcome_run panic_run)
  then show ?thesis by (simp add: releases_def panic_run)
qed

text \<open>A host where opening a share makes three connections: the count is the number of those that are open.\<close>

lemma connects_connect: "closes (\<lambda>n. n) (close c) \<Longrightarrow> further c \<Longrightarrow> connects (\<lambda>n. n) (connect c) close further"
  by (simp add: connects_def connect_def)

lemma connects_down: "connects n down close further" by (simp add: connects_def down_def)

lemma same_count_down: "same_count n down" by (simp add: same_count_def keeps_def down_def)

lemma closes_disconnect: "closes (\<lambda>n. n) disconnect" by (simp add: closes_def disconnect_def)

lemma toy_counted: "counted (toy_out u) (\<lambda>n. n)"
  unfolding counted_def
  by (simp add: toy_out_def connects_down same_count_down host_net_Dial_def host_smb_Dial_def host_Mount_def
      the_session_def the_mount_def connects_connect closes_disconnect)

theorem NewHandler_releases_witness:
  "\<exists>h w' c w''. NewHandler (toy_out share_url) background ''smb://joe@nas/backups/daily'' idle = (Ok h, w') \<and>
     os_world.more w' = 3 \<and> Repositories_Close h w' = (Ok c, w'') \<and> os_world.more w'' = 0"
proof -
  define m where "m = NewHandler (toy_out share_url) background ''smb://joe@nas/backups/daily''"
  obtain h w' where run: "m idle = (Ok h, w')" using share_opened unfolding m_def by blast
  have "os_world.more (snd (NewHandler (toy_out share_url) background ''smb://joe@nas/backups/daily'' idle)) = 3" by code_simp
  then have three: "os_world.more w' = 3" using run unfolding m_def by simp
  have "succeeded (fst (andThen (NewHandler (toy_out share_url) background ''smb://joe@nas/backups/daily'') Repositories_Close idle))"
    by code_simp
  then obtain c w'' where close: "Repositories_Close h w' = (Ok c, w'')"
    using run succeeded [of "Repositories_Close h w'"] unfolding m_def by (auto simp: andThen_run)
  from NewHandler_releases [OF toy_counted, of idle share_url background "''smb://joe@nas/backups/daily''"] run
  have "releases (\<lambda>n. n) idle m" unfolding m_def by simp
  with run close have "os_world.more w'' = os_world.more idle" unfolding releases_def by blast
  moreover have "os_world.more idle = 0" by code_simp
  ultimately show ?thesis using run three close unfolding m_def by auto
qed

end
