(* ===== verification/Observability.thy ===== *)
theory Observability
  imports Encryption
begin

section \<open>Observability\<close>

text \<open>
  \<^verbatim>\<open>internal/infra/observability\<close> and its settings,
  \<^verbatim>\<open>internal/config/observability_config.go\<close>: the handlers of the log
  (\<^verbatim>\<open>level_handler.go\<close>, \<^verbatim>\<open>multi_handler.go\<close>), the metrics of
  commands and queries, and the providers that are started for an OTLP endpoint and shut down at the end. The
  OpenTelemetry SDK, its exporters and the environment are the fields of one record, the parameter of
  this theory. A tracer, a meter, a counter is what the code calls on it; an exporter or a resource is the handle
  that the SDK returned.
\<close>

subsection \<open>The structured log\<close>

text \<open>
  \<^verbatim>\<open>log/slog\<close>: a logger hands a record to its handler when the handler is enabled for the level and drops
  the handler's error.
\<close>

type_synonym Level = int

definition LevelDebug :: Level where "LevelDebug = - 4"
definition LevelInfo :: Level where "LevelInfo = 0"
definition LevelWarn :: Level where "LevelWarn = 4"
definition LevelError :: Level where "LevelError = 8"

datatype attr =
    AttrString string string
  | AttrInt string int
  | AttrBool string bool
  | AttrError string error

record slog_Record =
  rec_Time :: int
  rec_Level :: Level
  rec_Message :: string
  rec_Attrs :: "attr list"

codatatype 'z slog_Handler =
  slog_Handler (Enabled: "ctx \<Rightarrow> Level \<Rightarrow> bool") (Handle: "ctx \<Rightarrow> slog_Record \<Rightarrow> ('z, unit) os")
    (WithAttrs: "attr list \<Rightarrow> 'z slog_Handler") (WithGroup: "string \<Rightarrow> 'z slog_Handler")

definition slog_Log :: "'z slog_Handler \<Rightarrow> ctx \<Rightarrow> Level \<Rightarrow> string \<Rightarrow> attr list \<Rightarrow> ('z, unit) os" where
  "slog_Log h ctx level msg attrs =
     (if \<not> Enabled h ctx level then return ()
      else andThen time_Now (\<lambda>t.
        ignoring (Handle h ctx \<lparr>rec_Time = t, rec_Level = level, rec_Message = msg, rec_Attrs = attrs\<rparr>)))"

primcorec newLevelHandler :: "Level \<Rightarrow> 'z slog_Handler \<Rightarrow> 'z slog_Handler" where
  "newLevelHandler level next = slog_Handler
     (\<lambda>ctx l. l \<ge> level \<and> Enabled next ctx l)
     (Handle next)
     (\<lambda>attrs. newLevelHandler level (WithAttrs next attrs))
     (\<lambda>name. newLevelHandler level (WithGroup next name))"

text \<open>Actions that are all run, whatever their errors, which are collected and joined.\<close>

fun collect_errors :: "('z, unit) os list \<Rightarrow> error list \<Rightarrow> ('z, error list) os" where
  "collect_errors [] errs = return errs"
| "collect_errors (m # ms) errs = tryCatch m (\<lambda>e. collect_errors ms (errs @ [e])) (\<lambda>_. collect_errors ms errs)"

definition joined :: "('z, unit) os list \<Rightarrow> ('z, unit) os" where
  "joined ms = andThen (collect_errors ms []) (\<lambda>errs. if errs = [] then return () else fail (Joined errs))"

definition multi_Handle :: "'z slog_Handler list \<Rightarrow> ctx \<Rightarrow> slog_Record \<Rightarrow> ('z, unit) os" where
  "multi_Handle handlers ctx record =
     joined (map (\<lambda>h. Handle h ctx record) (filter (\<lambda>h. Enabled h ctx (rec_Level record)) handlers))"

primcorec newMultiHandler :: "'z slog_Handler list \<Rightarrow> 'z slog_Handler" where
  "newMultiHandler handlers = slog_Handler
     (\<lambda>ctx level. list_ex (\<lambda>h. Enabled h ctx level) handlers)
     (multi_Handle handlers)
     (\<lambda>attrs. newMultiHandler (map (\<lambda>h. WithAttrs h attrs) handlers))
     (\<lambda>name. newMultiHandler (map (\<lambda>h. WithGroup h name) handlers))"

subsection \<open>Traces and metrics\<close>

record 'z Span =
  SetAttributes :: "attr list \<Rightarrow> ('z, unit) os"
  RecordError :: "error \<Rightarrow> ('z, unit) os"
  SetStatus :: "string \<Rightarrow> string \<Rightarrow> ('z, unit) os"
  span_End :: "('z, unit) os"

type_synonym 'z Tracer = "ctx \<Rightarrow> string \<Rightarrow> ('z, ctx \<times> 'z Span) os"
type_synonym 'z TracerProvider = "string \<Rightarrow> 'z Tracer"

text \<open>An instrument records a number with attributes; the histogram is given a duration in nanoseconds.\<close>

type_synonym 'z instrument = "ctx \<Rightarrow> int \<Rightarrow> attr list \<Rightarrow> ('z, unit) os"

record 'z Meter =
  Int64Counter :: "string \<Rightarrow> string \<Rightarrow> string \<Rightarrow> ('z, 'z instrument) os"
  Float64Histogram :: "string \<Rightarrow> string \<Rightarrow> string \<Rightarrow> ('z, 'z instrument) os"

type_synonym 'z MeterProvider = "string \<Rightarrow> 'z Meter"

definition operationExecutionsMetric :: string where "operationExecutionsMetric = ''stowmark.operation.executions''"
definition operationDurationMetric :: string where "operationDurationMetric = ''stowmark.operation.duration''"
definition stowmarkCommandEventsMetric :: string where "stowmarkCommandEventsMetric = ''stowmark.command.events''"

record 'z CommandMetrics =
  Executions :: "'z instrument"
  Duration :: "'z instrument"
  Events :: "'z instrument"

definition NewCommandMetrics :: "'z Meter \<Rightarrow> ('z, 'z CommandMetrics) os" where
  "NewCommandMetrics meter =
     andThen (orWrap ''create operation executions counter''
       (Int64Counter meter operationExecutionsMetric ''Number of Stowmark operations executed'' ''{operation}'')) (\<lambda>executions.
     andThen (orWrap ''create operation duration histogram''
       (Float64Histogram meter operationDurationMetric ''Duration of Stowmark operations'' ''s'')) (\<lambda>duration.
     andThen (orWrap ''create command events counter''
       (Int64Counter meter stowmarkCommandEventsMetric ''Number of events returned by Stowmark commands'' ''{event}'')) (\<lambda>events.
     return \<lparr>Executions = executions, Duration = duration, Events = events\<rparr>)))"

record 'z QueryMetrics =
  query_Executions :: "'z instrument"
  query_Duration :: "'z instrument"

definition NewQueryMetrics :: "'z Meter \<Rightarrow> ('z, 'z QueryMetrics) os" where
  "NewQueryMetrics meter =
     andThen (orWrap ''create operation executions counter''
       (Int64Counter meter operationExecutionsMetric ''Number of Stowmark operations executed'' ''{operation}'')) (\<lambda>executions.
     andThen (orWrap ''create operation duration histogram''
       (Float64Histogram meter operationDurationMetric ''Duration of Stowmark operations'' ''s'')) (\<lambda>duration.
     return \<lparr>query_Executions = executions, query_Duration = duration\<rparr>))"

subsection \<open>Settings\<close>

record ObservabilityConfig =
  OTELExporterEndpoint :: "string option"
  OTELExporterProtocol :: "string option"
  OTELServiceName :: "string option"
  LogLevel :: string

definition OtelExporterOTLPProtocolEnv :: string where "OtelExporterOTLPProtocolEnv = ''OTEL_EXPORTER_OTLP_PROTOCOL''"
definition OtelServiceNameEnv :: string where "OtelServiceNameEnv = ''OTEL_SERVICE_NAME''"

type_synonym resource = nat
type_synonym exporter = nat

record 'z sdk_TracerProvider =
  tp_Tracer :: "'z TracerProvider"
  tp_Shutdown :: "ctx \<Rightarrow> ('z, unit) os"

record 'z sdk_MeterProvider =
  mp_Meter :: "'z MeterProvider"
  mp_Shutdown :: "ctx \<Rightarrow> ('z, unit) os"

record 'z sdk_LoggerProvider =
  lp_Shutdown :: "ctx \<Rightarrow> ('z, unit) os"

record 'z telemetry =
  env_Observability :: "ObservabilityConfig outcome"
  os_Setenv :: "string \<Rightarrow> string \<Rightarrow> ('z, unit) os"
  resource_New :: "ctx \<Rightarrow> string \<Rightarrow> ('z, resource) os"
  otlptracehttp_New :: "ctx \<Rightarrow> ('z, exporter) os"
  otlptracegrpc_New :: "ctx \<Rightarrow> ('z, exporter) os"
  otlpmetrichttp_New :: "ctx \<Rightarrow> ('z, exporter) os"
  otlpmetricgrpc_New :: "ctx \<Rightarrow> ('z, exporter) os"
  otlploghttp_New :: "ctx \<Rightarrow> ('z, exporter) os"
  otlploggrpc_New :: "ctx \<Rightarrow> ('z, exporter) os"
  sdktrace_NewTracerProvider :: "resource \<Rightarrow> exporter \<Rightarrow> ('z, 'z sdk_TracerProvider) os"
  sdkmetric_NewMeterProvider :: "resource \<Rightarrow> exporter \<Rightarrow> int \<Rightarrow> int \<Rightarrow> ('z, 'z sdk_MeterProvider) os"
  sdklog_NewLoggerProvider :: "resource \<Rightarrow> exporter \<Rightarrow> ('z, 'z sdk_LoggerProvider) os"
  tracenoop_NewTracerProvider :: "'z TracerProvider"
  metricnoop_NewMeterProvider :: "'z MeterProvider"
  slog_NewTextHandler :: "Level option \<Rightarrow> 'z slog_Handler"
  otelslog_NewHandler :: "string \<Rightarrow> 'z sdk_LoggerProvider \<Rightarrow> 'z slog_Handler"

text \<open>The environment of the exporters is set when there is an endpoint; the two values are behind pointers.\<close>

definition setOTELVars :: "'z telemetry \<Rightarrow> ObservabilityConfig \<Rightarrow> ('z, unit) os" where
  "setOTELVars tel c =
     (if OTELExporterEndpoint c = None then return ()
      else
        (case OTELExporterProtocol c of
           None \<Rightarrow> panic ''nil pointer dereference''
         | Some p \<Rightarrow> andThen (os_Setenv tel OtelExporterOTLPProtocolEnv p) (\<lambda>_.
             (case OTELServiceName c of
                None \<Rightarrow> panic ''nil pointer dereference''
              | Some s \<Rightarrow> os_Setenv tel OtelServiceNameEnv s))))"

definition NewObservabilityConfig :: "'z telemetry \<Rightarrow> ('z, ObservabilityConfig) os" where
  "NewObservabilityConfig tel =
     andThen (lift_outcome (env_Observability tel)) (\<lambda>cfg.
     andThen (setOTELVars tel cfg) (\<lambda>_. return cfg))"

subsection \<open>The providers\<close>

definition defaultProtocol :: string where "defaultProtocol = ''http/protobuf''"
definition defaultServiceName :: string where "defaultServiceName = ''stowmark''"

definition observabilityProtocol :: "ObservabilityConfig \<Rightarrow> string" where
  "observabilityProtocol cfg =
     (case OTELExporterProtocol cfg of None \<Rightarrow> defaultProtocol | Some p \<Rightarrow> if p = [] then defaultProtocol else p)"

definition newResource :: "'z telemetry \<Rightarrow> ctx \<Rightarrow> ObservabilityConfig \<Rightarrow> ('z, resource) os" where
  "newResource tel ctx cfg =
     (let serviceName =
            (case OTELServiceName cfg of None \<Rightarrow> defaultServiceName | Some s \<Rightarrow> if s \<noteq> [] then s else defaultServiceName)
      in orWrap ''create OpenTelemetry resource'' (resource_New tel ctx serviceName))"

definition newExporter :: "string \<Rightarrow> ObservabilityConfig \<Rightarrow> ('z, exporter) os \<Rightarrow> ('z, exporter) os \<Rightarrow> ('z, exporter) os" where
  "newExporter msg cfg http grpc =
     (if observabilityProtocol cfg = ''http/protobuf'' then orWrap msg http
      else if observabilityProtocol cfg = ''grpc'' then orWrap msg grpc
      else fail (ErrText ''unsupported OTLP protocol''))"

definition newTracerProvider ::
  "'z telemetry \<Rightarrow> ctx \<Rightarrow> ObservabilityConfig \<Rightarrow> resource \<Rightarrow> ('z, 'z sdk_TracerProvider) os" where
  "newTracerProvider tel ctx cfg res =
     andThen (newExporter ''create OTLP trace exporter'' cfg (otlptracehttp_New tel ctx) (otlptracegrpc_New tel ctx))
       (sdktrace_NewTracerProvider tel res)"

definition metricExportInterval :: int where "metricExportInterval = 5000000000"
definition metricExportTimeout :: int where "metricExportTimeout = 3000000000"

definition newMeterProvider ::
  "'z telemetry \<Rightarrow> ctx \<Rightarrow> ObservabilityConfig \<Rightarrow> resource \<Rightarrow> ('z, 'z sdk_MeterProvider) os" where
  "newMeterProvider tel ctx cfg res =
     andThen (newExporter ''create OTLP metric exporter'' cfg (otlpmetrichttp_New tel ctx) (otlpmetricgrpc_New tel ctx))
       (\<lambda>exp. sdkmetric_NewMeterProvider tel res exp metricExportInterval metricExportTimeout)"

definition newLoggerProvider ::
  "'z telemetry \<Rightarrow> ctx \<Rightarrow> ObservabilityConfig \<Rightarrow> resource \<Rightarrow> ('z, 'z sdk_LoggerProvider) os" where
  "newLoggerProvider tel ctx cfg res =
     andThen (newExporter ''create OTLP log exporter'' cfg (otlploghttp_New tel ctx) (otlploggrpc_New tel ctx))
       (sdklog_NewLoggerProvider tel res)"

text \<open>
  What a command is given. The constructor for OTLP does not set the provider of the log, which nothing reads.
\<close>

record 'z OTLPObservability =
  obs_TracerProvider :: "'z TracerProvider"
  obs_MeterProvider :: "'z MeterProvider"
  obs_Logger :: "'z slog_Handler"
  obs_shutdown :: "(ctx \<Rightarrow> ('z, unit) os) option"

definition Shutdown :: "'z OTLPObservability \<Rightarrow> ctx \<Rightarrow> ('z, unit) os" where
  "Shutdown o' ctx = (case obs_shutdown o' of None \<Rightarrow> return () | Some f \<Rightarrow> f ctx)"

definition newNoop :: "'z telemetry \<Rightarrow> 'z OTLPObservability" where
  "newNoop tel =
     \<lparr>obs_TracerProvider = tracenoop_NewTracerProvider tel, obs_MeterProvider = metricnoop_NewMeterProvider tel,
      obs_Logger = slog_NewTextHandler tel None, obs_shutdown = Some (\<lambda>_. return ())\<rparr>"

definition logLevel :: "string \<Rightarrow> Level" where
  "logLevel level =
     (if level = ''info'' then LevelInfo
      else if level = ''warn'' then LevelWarn
      else if level = ''error'' then LevelError
      else LevelDebug)"

definition instrumentationName :: string where "instrumentationName = ''github.com/bruli-lab/stowmark''"

definition otlp_logger :: "'z telemetry \<Rightarrow> ObservabilityConfig \<Rightarrow> 'z sdk_LoggerProvider \<Rightarrow> 'z slog_Handler" where
  "otlp_logger tel cfg loggerProvider =
     (let level = logLevel (LogLevel cfg)
      in newMultiHandler [slog_NewTextHandler tel (Some level),
           newLevelHandler level (otelslog_NewHandler tel instrumentationName loggerProvider)])"

definition newOTLP :: "'z telemetry \<Rightarrow> ctx \<Rightarrow> ObservabilityConfig \<Rightarrow> ('z, 'z OTLPObservability) os" where
  "newOTLP tel ctx cfg =
     andThen (newResource tel ctx cfg) (\<lambda>res.
     andThen (newTracerProvider tel ctx cfg res) (\<lambda>tracerProvider.
     tryCatch (newMeterProvider tel ctx cfg res)
       (\<lambda>e. andThen (ignoring (tp_Shutdown tracerProvider ctx)) (\<lambda>_. fail e))
       (\<lambda>meterProvider.
     tryCatch (newLoggerProvider tel ctx cfg res)
       (\<lambda>e. andThen (ignoring (mp_Shutdown meterProvider ctx)) (\<lambda>_.
            andThen (ignoring (tp_Shutdown tracerProvider ctx)) (\<lambda>_. fail e)))
       (\<lambda>loggerProvider.
     return \<lparr>obs_TracerProvider = tp_Tracer tracerProvider, obs_MeterProvider = mp_Meter meterProvider,
       obs_Logger = otlp_logger tel cfg loggerProvider,
       obs_shutdown = Some (\<lambda>ctx. joined [lp_Shutdown loggerProvider ctx, mp_Shutdown meterProvider ctx,
         tp_Shutdown tracerProvider ctx])\<rparr>))))"

definition Observability_New :: "'z telemetry \<Rightarrow> ctx \<Rightarrow> ObservabilityConfig \<Rightarrow> ('z, 'z OTLPObservability) os" where
  "Observability_New tel ctx conf =
     (case OTELExporterEndpoint conf of
        None \<Rightarrow> return (newNoop tel)
      | Some e \<Rightarrow> if e = [] then return (newNoop tel) else newOTLP tel ctx conf)"

definition builtObservability :: "'z telemetry \<Rightarrow> ctx \<Rightarrow> ('z, 'z OTLPObservability) os" where
  "builtObservability tel ctx = andThen (NewObservabilityConfig tel) (Observability_New tel ctx)"

end
