(* ===== verification/App.thy ===== *)
theory App
  imports Observability Snapshot
begin

section \<open>The application layer\<close>

text \<open>
  \<^verbatim>\<open>internal/app\<close> and \<^verbatim>\<open>internal/infra/middlewares\<close>: the commands and
  queries, their handlers, the events they return, and the middlewares that log, trace and measure. A handler
  returns a pair in the code, and both parts are looked at; here too it returns a result beside an error that may be nil.
  What the layer takes of the library \<^verbatim>\<open>go-core\<close> is a record, the parameter of this
  theory: the two errors for a command or query of the wrong type, the composition of middlewares, and the name of an event.
  A handler is given its service as the operation that it calls; a service with workers is a relation, of
  which that operation follows one schedule.
\<close>

subsection \<open>Commands, queries and events\<close>

record CreateSnapshotCommand =
  cs_RepositoryPath :: string
  cs_SourcePath :: string
  cs_PrivateKey :: "string option"

record GenerateKeyCommand =
  gk_Keys :: AsymmetricKeyPair

record InitCommand =
  ic_Repository :: Repository
  ic_Force :: bool

record RekeyKeyCommand =
  rk_RepositoryPath :: string
  rk_PrivateKeyPath :: string
  rk_PublicKeyPath :: string

record RestoreFileCommand =
  rf_SnapshotID :: string
  rf_FilePath :: string
  rf_RepositoryPath :: string
  rf_DestinationPath :: "string option"
  rf_PrivateKeyPath :: "string option"

record RestoreSnapshotCommand =
  rs_SnapshotID :: string
  rs_RepositoryPath :: string
  rs_PrivateKeyPath :: "string option"
  rs_DestinationPath :: "string option"

record RewrapKeyCommand =
  rw_RepositoryPath :: string
  rw_OldPrivateKey :: string
  rw_NewPublicKey :: string

datatype command =
    CreateSnapshotCmd CreateSnapshotCommand
  | GenerateKeyCmd GenerateKeyCommand
  | InitCmd InitCommand
  | RekeyKeyCmd RekeyKeyCommand
  | RestoreFileCmd RestoreFileCommand
  | RestoreSnapshotCmd RestoreSnapshotCommand
  | RewrapKeyCmd RewrapKeyCommand

definition CreateSnapshotCommandName :: string where "CreateSnapshotCommandName = ''create-snapshot''"
definition GenerateKeyCommandName :: string where "GenerateKeyCommandName = ''generate-key''"
definition InitCommandName :: string where "InitCommandName = ''init''"
definition RekeyKeyCommandName :: string where "RekeyKeyCommandName = ''rekey-key''"
definition RestoreFileCommandName :: string where "RestoreFileCommandName = ''restore-file''"
definition RestoreSnapshotCommandName :: string where "RestoreSnapshotCommandName = ''restore-snapshot''"
definition RewrapKeyCommandName :: string where "RewrapKeyCommandName = ''rewrap-key''"

fun command_Name :: "command \<Rightarrow> string" where
  "command_Name (CreateSnapshotCmd _) = CreateSnapshotCommandName"
| "command_Name (GenerateKeyCmd _) = GenerateKeyCommandName"
| "command_Name (InitCmd _) = InitCommandName"
| "command_Name (RekeyKeyCmd _) = RekeyKeyCommandName"
| "command_Name (RestoreFileCmd _) = RestoreFileCommandName"
| "command_Name (RestoreSnapshotCmd _) = RestoreSnapshotCommandName"
| "command_Name (RewrapKeyCmd _) = RewrapKeyCommandName"

record ManifestGetQuery =
  mg_SnapshotID :: string

record VerifySnapshotQuery =
  vq_SnapshotID :: string
  vq_RepositoryPath :: string
  vq_PrivateKeyPath :: "string option"

datatype query =
    ManifestGetQry ManifestGetQuery
  | SnaphotListQry
  | VerifySnapshotQry VerifySnapshotQuery

definition SnapshotGetQueryName :: string where "SnapshotGetQueryName = ''manifest-get''"
definition ListQueryName :: string where "ListQueryName = ''snapshot-list''"
definition VerifySnapshotQueryName :: string where "VerifySnapshotQueryName = ''verify-snapshot''"

fun query_Name :: "query \<Rightarrow> string" where
  "query_Name (ManifestGetQry _) = SnapshotGetQueryName"
| "query_Name SnaphotListQry = ListQueryName"
| "query_Name (VerifySnapshotQry _) = VerifySnapshotQueryName"

text \<open>The \<^verbatim>\<open>any\<close> that a query returns; a pointer in it can be nil.\<close>

datatype any =
    AnyNil
  | AnyManifest "Manifest option"
  | AnyResumes "ManifestResume list"
  | AnyResult "Result option"

text \<open>A basic event is what it is made of: its name, its identifier and that of what it is about.\<close>

record BasicEvent =
  be_Name :: string
  be_ID :: uuid
  be_Aggregate :: string

record Failed =
  Failed_Path :: string
  Failed_Reason :: string

datatype event =
    CreateSnapshotEvent (basic: BasicEvent) string int int
  | InitEvent (basic: BasicEvent) string "string list"
  | RestoreSnapshotEvent (basic: BasicEvent) string int "Failed list" bool

type_synonym 'z CommandHandler = "ctx \<Rightarrow> command \<Rightarrow> ('z, event list \<times> error option) os"
type_synonym 'z QueryHandler = "ctx \<Rightarrow> query \<Rightarrow> ('z, any \<times> error option) os"
type_synonym 'z CommandMiddleware = "'z CommandHandler \<Rightarrow> 'z CommandHandler"
type_synonym 'z QueryMiddleware = "'z QueryHandler \<Rightarrow> 'z QueryHandler"

record 'z cqs =
  NewInvalidCommandError :: "string \<Rightarrow> string \<Rightarrow> error"
  NewInvalidQueryError :: "string \<Rightarrow> string \<Rightarrow> error"
  CommandHandlerMultiMiddleware :: "'z CommandMiddleware list \<Rightarrow> 'z CommandMiddleware"
  QueryHandlerMultiMiddleware :: "'z QueryMiddleware list \<Rightarrow> 'z QueryMiddleware"
  EventName :: "BasicEvent \<Rightarrow> string"

definition NewCreateSnapshotEvent :: "uuid_lib \<Rightarrow> string \<Rightarrow> int \<Rightarrow> int \<Rightarrow> ('z, event) os" where
  "NewCreateSnapshotEvent u snapshot n sz =
     andThen (uuid_New u) (\<lambda>i.
     return (CreateSnapshotEvent \<lparr>be_Name = CreateSnapshotCommandName, be_ID = i, be_Aggregate = snapshot\<rparr> snapshot n sz))"

definition NewInitEvent :: "uuid_lib \<Rightarrow> string \<Rightarrow> string list \<Rightarrow> ('z, event) os" where
  "NewInitEvent u repository warnings =
     andThen (uuid_New u) (\<lambda>i.
     return (InitEvent \<lparr>be_Name = ''init'', be_ID = i, be_Aggregate = repository\<rparr> repository warnings))"

definition NewRestoreSnapshotEvent :: "uuid_lib \<Rightarrow> string \<Rightarrow> int \<Rightarrow> Failed list \<Rightarrow> bool \<Rightarrow> ('z, event) os" where
  "NewRestoreSnapshotEvent u snapshot n fs ok =
     andThen (uuid_New u) (\<lambda>i.
     return (RestoreSnapshotEvent \<lparr>be_Name = RestoreSnapshotCommandName, be_ID = i, be_Aggregate = snapshot\<rparr>
       snapshot n fs ok))"

subsection \<open>The handlers\<close>

text \<open>\<open>answer zero m f\<close>: the error of \<open>m\<close> beside \<open>zero\<close>, or what \<open>f\<close> makes of its result beside nil.\<close>

definition answer :: "'r \<Rightarrow> ('z, 'a) os \<Rightarrow> ('a \<Rightarrow> ('z, 'r) os) \<Rightarrow> ('z, 'r \<times> error option) os" where
  "answer zero m f = tryCatch m (\<lambda>e. return (zero, Some e)) (\<lambda>x. andThen (f x) (\<lambda>r. return (r, None)))"

definition CreateSnapshot_Handle ::
  "'z cqs \<Rightarrow> uuid_lib \<Rightarrow> (ctx \<Rightarrow> string \<Rightarrow> string \<Rightarrow> string option \<Rightarrow> ('z, CreateResult) os) \<Rightarrow> 'z CommandHandler" where
  "CreateSnapshot_Handle core u svc ctx cmd =
     (case cmd of
        CreateSnapshotCmd co \<Rightarrow>
          answer [] (svc ctx (cs_RepositoryPath co) (cs_SourcePath co) (cs_PrivateKey co)) (\<lambda>result.
          andThen (NewCreateSnapshotEvent u (result_id result) (fileCount result) (totalSize result)) (\<lambda>ev.
          return [ev]))
      | _ \<Rightarrow> return ([], Some (NewInvalidCommandError core CreateSnapshotCommandName (command_Name cmd))))"

definition GenerateKey_Handle ::
  "'z cqs \<Rightarrow> (ctx \<Rightarrow> AsymmetricKeyPair \<Rightarrow> ('z, unit) os) \<Rightarrow> 'z CommandHandler" where
  "GenerateKey_Handle core svc ctx cmd =
     (case cmd of
        GenerateKeyCmd co \<Rightarrow> answer [] (svc ctx (gk_Keys co)) (\<lambda>_. return [])
      | _ \<Rightarrow> return ([], Some (NewInvalidCommandError core GenerateKeyCommandName (command_Name cmd))))"

definition Init_Handle ::
  "'z cqs \<Rightarrow> uuid_lib \<Rightarrow> (ctx \<Rightarrow> Repository \<Rightarrow> bool \<Rightarrow> ('z, InitResult) os) \<Rightarrow> 'z CommandHandler" where
  "Init_Handle core u svc ctx cmd =
     (case cmd of
        InitCmd co \<Rightarrow>
          answer [] (svc ctx (ic_Repository co) (ic_Force co)) (\<lambda>result.
          andThen (NewInitEvent u (ID result) (Warnings result)) (\<lambda>ev. return [ev]))
      | _ \<Rightarrow> return ([], Some (NewInvalidCommandError core InitCommandName (command_Name cmd))))"

definition RekeyKey_Handle ::
  "'z cqs \<Rightarrow> (ctx \<Rightarrow> string \<Rightarrow> string \<Rightarrow> string \<Rightarrow> ('z, unit) os) \<Rightarrow> 'z CommandHandler" where
  "RekeyKey_Handle core svc ctx cmd =
     (case cmd of
        RekeyKeyCmd co \<Rightarrow>
          answer [] (svc ctx (rk_RepositoryPath co) (rk_PrivateKeyPath co) (rk_PublicKeyPath co)) (\<lambda>_. return [])
      | _ \<Rightarrow> return ([], Some (NewInvalidCommandError core RekeyKeyCommandName (command_Name cmd))))"

definition RestoreFile_Handle ::
  "'z cqs \<Rightarrow> uuid_lib \<Rightarrow> (ctx \<Rightarrow> string \<Rightarrow> string \<Rightarrow> string \<Rightarrow> string option \<Rightarrow> string option \<Rightarrow> ('z, unit) os) \<Rightarrow>
   'z CommandHandler" where
  "RestoreFile_Handle core u svc ctx cmd =
     (case cmd of
        RestoreFileCmd co \<Rightarrow>
          answer [] (svc ctx (rf_SnapshotID co) (rf_FilePath co) (rf_RepositoryPath co) (rf_DestinationPath co)
              (rf_PrivateKeyPath co)) (\<lambda>_.
          andThen (NewRestoreSnapshotEvent u (rf_SnapshotID co) 1 [] True) (\<lambda>ev. return [ev]))
      | _ \<Rightarrow> return ([], Some (NewInvalidCommandError core RestoreFileCommandName (command_Name cmd))))"

definition app_failed :: "Result \<Rightarrow> Failed list" where
  "app_failed r = map (\<lambda>f. \<lparr>Failed_Path = failed_path f, Failed_Reason = reason f\<rparr>) (failed r)"

definition RestoreSnapshot_Handle ::
  "'z cqs \<Rightarrow> uuid_lib \<Rightarrow> (ctx \<Rightarrow> string \<Rightarrow> string \<Rightarrow> string option \<Rightarrow> string option \<Rightarrow> ('z, Result) os) \<Rightarrow>
   'z CommandHandler" where
  "RestoreSnapshot_Handle core u svc ctx cmd =
     (case cmd of
        RestoreSnapshotCmd co \<Rightarrow>
          answer [] (svc ctx (rs_SnapshotID co) (rs_RepositoryPath co) (rs_DestinationPath co) (rs_PrivateKeyPath co)) (\<lambda>result.
          andThen (NewRestoreSnapshotEvent u (snapshotID result) (totalFiles result) (app_failed result)
            (IsSuccess result)) (\<lambda>ev. return [ev]))
      | _ \<Rightarrow> return ([], Some (NewInvalidCommandError core RestoreSnapshotCommandName (command_Name cmd))))"

definition RewrapKey_Handle ::
  "'z cqs \<Rightarrow> (ctx \<Rightarrow> string \<Rightarrow> string \<Rightarrow> string \<Rightarrow> ('z, unit) os) \<Rightarrow> 'z CommandHandler" where
  "RewrapKey_Handle core svc ctx cmd =
     (case cmd of
        RewrapKeyCmd co \<Rightarrow>
          answer [] (svc ctx (rw_RepositoryPath co) (rw_OldPrivateKey co) (rw_NewPublicKey co)) (\<lambda>_. return [])
      | _ \<Rightarrow> return ([], Some (NewInvalidCommandError core RewrapKeyCommandName (command_Name cmd))))"

definition ManifestGet_Handle :: "'z cqs \<Rightarrow> (ctx \<Rightarrow> string \<Rightarrow> ('z, Manifest) os) \<Rightarrow> 'z QueryHandler" where
  "ManifestGet_Handle core svc ctx qry =
     (case qry of
        ManifestGetQry q \<Rightarrow> answer (AnyManifest None) (svc ctx (mg_SnapshotID q)) (\<lambda>m. return (AnyManifest (Some m)))
      | _ \<Rightarrow> return (AnyNil, Some (NewInvalidQueryError core SnapshotGetQueryName (query_Name qry))))"

definition SnapshotList_Handle :: "(ctx \<Rightarrow> ('z, ManifestResume list) os) \<Rightarrow> 'z QueryHandler" where
  "SnapshotList_Handle svc ctx qry = answer (AnyResumes []) (svc ctx) (\<lambda>items. return (AnyResumes items))"

definition VerifySnapshot_Handle ::
  "'z cqs \<Rightarrow> (ctx \<Rightarrow> string \<Rightarrow> string \<Rightarrow> string option \<Rightarrow> ('z, Result) os) \<Rightarrow> 'z QueryHandler" where
  "VerifySnapshot_Handle core svc ctx qry =
     (case qry of
        VerifySnapshotQry q \<Rightarrow>
          answer (AnyResult None) (svc ctx (vq_RepositoryPath q) (vq_SnapshotID q) (vq_PrivateKeyPath q)) (\<lambda>r.
          return (AnyResult (Some r)))
      | _ \<Rightarrow> return (AnyNil, Some (NewInvalidQueryError core VerifySnapshotQueryName (query_Name qry))))"

subsection \<open>What is traced of an event\<close>

text \<open>
  A tracer that is given an event of the wrong type logs the fields of a nil pointer.
\<close>

datatype 'z EventTracer =
    CreateSnapshotTracer "'z slog_Handler"
  | RestoreSnapshotTracer "'z slog_Handler"

definition CreateSnapshotTracer_Trace :: "'z Span \<Rightarrow> event \<Rightarrow> ('z, unit) os" where
  "CreateSnapshotTracer_Trace span ev =
     (case ev of
        CreateSnapshotEvent _ snapshot n sz \<Rightarrow>
          SetAttributes span [AttrString ''snapshot.id'' snapshot, AttrInt ''snapshot.file_count'' n,
            AttrInt ''snapshot.total_size'' sz]
      | _ \<Rightarrow> panic ''nil pointer dereference'')"

definition RestoreSnapshotTracer_Trace :: "'z Span \<Rightarrow> event \<Rightarrow> ('z, unit) os" where
  "RestoreSnapshotTracer_Trace span ev =
     (case ev of
        RestoreSnapshotEvent _ snapshot n fs ok \<Rightarrow>
          SetAttributes span [AttrString ''snapshot.id'' snapshot, AttrInt ''snapshot.total_files_restored'' n,
            AttrInt ''snapshot.total_files_failed'' (int (length fs)), AttrBool ''snapshot.is_success'' ok]
      | _ \<Rightarrow> panic ''nil pointer dereference'')"

fun EventTracer_Trace :: "'z EventTracer \<Rightarrow> 'z Span \<Rightarrow> event \<Rightarrow> ('z, unit) os" where
  "EventTracer_Trace (CreateSnapshotTracer logger) span ev = CreateSnapshotTracer_Trace span ev"
| "EventTracer_Trace (RestoreSnapshotTracer logger) span ev = RestoreSnapshotTracer_Trace span ev"

type_synonym 'z EventsTracing = "string \<rightharpoonup> 'z EventTracer"

definition NewEventsTracing :: "'z EventsTracing" where "NewEventsTracing = Map.empty"

definition EventsTracing_Add :: "string \<Rightarrow> 'z EventTracer \<Rightarrow> 'z EventsTracing \<Rightarrow> 'z EventsTracing" where
  "EventsTracing_Add name tracer e = e(name \<mapsto> tracer)"

definition EventsTracing_Trace :: "'z cqs \<Rightarrow> 'z EventsTracing \<Rightarrow> 'z Span \<Rightarrow> event \<Rightarrow> ('z, unit) os" where
  "EventsTracing_Trace core e span ev =
     (case e (EventName core (basic ev)) of
        None \<Rightarrow> return ()
      | Some tracer \<Rightarrow> EventTracer_Trace tracer span ev)"

subsection \<open>The middlewares\<close>

definition Milliseconds :: "int \<Rightarrow> int" where
  "Milliseconds d = sgn d * (\<bar>d\<bar> div 1000000)"

definition app_instrumentationName :: string where
  "app_instrumentationName = ''github.com/bruli-lab/stowmark/internal/app''"

definition NewLoggerCommandMiddleware :: "'z slog_Handler \<Rightarrow> 'z CommandMiddleware" where
  "NewLoggerCommandMiddleware logger next ctx cmd =
     andThen time_Now (\<lambda>startedAt.
     andThen (slog_Log logger ctx LevelDebug (''com'' @ [CHR 0x09] @ ''mand started'') [AttrString ''command'' (command_Name cmd)]) (\<lambda>_.
     andThen (next ctx cmd) (\<lambda>(events, err).
     andThen time_Now (\<lambda>t.
     (let attrs = [AttrString ''command'' (command_Name cmd), AttrInt ''duration_ms'' (Milliseconds (t - startedAt)),
            AttrInt ''events'' (int (length events))]
      in case err of
           Some e \<Rightarrow>
             andThen (slog_Log logger ctx LevelError ''command failed''
               (attrs @ [AttrString ''status'' ''error'', AttrError ''error'' e])) (\<lambda>_. return (events, Some e))
         | None \<Rightarrow>
             andThen (slog_Log logger ctx LevelInfo ''command completed''
               (attrs @ [AttrString ''status'' ''success''])) (\<lambda>_. return (events, None)))))))"

definition NewLoggerQueryMiddleware :: "'z slog_Handler \<Rightarrow> 'z QueryMiddleware" where
  "NewLoggerQueryMiddleware logger next ctx qry =
     andThen time_Now (\<lambda>startedAt.
     andThen (slog_Log logger ctx LevelDebug ''query started'' [AttrString ''query'' (query_Name qry)]) (\<lambda>_.
     andThen (next ctx qry) (\<lambda>(result, err).
     andThen time_Now (\<lambda>t.
     (let attrs = [AttrString ''command'' (query_Name qry), AttrInt ''duration_ms'' (Milliseconds (t - startedAt))]
      in case err of
           Some e \<Rightarrow>
             andThen (slog_Log logger ctx LevelError ''query failed''
               (attrs @ [AttrString ''status'' ''error'', AttrError ''error'' e])) (\<lambda>_. return (result, Some e))
         | None \<Rightarrow>
             andThen (slog_Log logger ctx LevelInfo ''query completed''
               (attrs @ [AttrString ''status'' ''success''])) (\<lambda>_. return (result, None)))))))"

definition span_error :: "'z Span \<Rightarrow> error option \<Rightarrow> ('z, unit) os" where
  "span_error span err =
     (case err of
        None \<Rightarrow> return ()
      | Some e \<Rightarrow> andThen (RecordError span e) (\<lambda>_. SetStatus span ''Error'' (error_string e)))"

definition NewTracerCommandMiddleware :: "'z cqs \<Rightarrow> 'z TracerProvider \<Rightarrow> 'z EventsTracing \<Rightarrow> 'z CommandMiddleware" where
  "NewTracerCommandMiddleware core prov evTr next ctx cmd =
     andThen (prov app_instrumentationName ctx (command_Name cmd)) (\<lambda>(ctx', span).
     deferring
       (andThen (next ctx' cmd) (\<lambda>(events, err).
        andThen (span_error span err) (\<lambda>_.
        andThen (for_each (EventsTracing_Trace core evTr span) events) (\<lambda>_.
        return (events, err)))))
       (\<lambda>_. span_End span))"

definition NewTracerQueryMiddleware :: "'z TracerProvider \<Rightarrow> 'z QueryMiddleware" where
  "NewTracerQueryMiddleware prov next ctx qry =
     andThen (prov app_instrumentationName ctx (query_Name qry)) (\<lambda>(ctx', span).
     deferring
       (andThen (next ctx' qry) (\<lambda>(result, err).
        andThen (span_error span err) (\<lambda>_. return (result, err))))
       (\<lambda>_. span_End span))"

definition operation_attrs :: "string \<Rightarrow> string \<Rightarrow> error option \<Rightarrow> attr list" where
  "operation_attrs name kind err =
     [AttrString ''operation.name'' name, AttrString ''operation.type'' kind,
      AttrString ''operation.status'' (if err \<noteq> None then ''error'' else ''success'')]"

definition NewMeterCommandMiddleware :: "'z MeterProvider \<Rightarrow> ('z, 'z CommandMiddleware) os" where
  "NewMeterCommandMiddleware provider =
     andThen (NewCommandMetrics (provider app_instrumentationName)) (\<lambda>metrics.
     return (\<lambda>next ctx cmd.
       andThen time_Now (\<lambda>startedAt.
       andThen (next ctx cmd) (\<lambda>(events, err).
       (let attrs = operation_attrs (command_Name cmd) ''command'' err
        in andThen (Executions metrics ctx 1 attrs) (\<lambda>_.
           andThen time_Now (\<lambda>t.
           andThen (Duration metrics ctx (t - startedAt) attrs) (\<lambda>_.
           andThen (if length events > 0
                    then Events metrics ctx (int (length events)) [AttrString ''operation.name'' (command_Name cmd)]
                    else return ()) (\<lambda>_.
           return (events, err))))))))))"

definition NewMeterQueryMiddleware :: "'z MeterProvider \<Rightarrow> ('z, 'z QueryMiddleware) os" where
  "NewMeterQueryMiddleware provider =
     andThen (orWrap ''create query metrics'' (NewQueryMetrics (provider app_instrumentationName))) (\<lambda>metrics.
     return (\<lambda>next ctx qry.
       andThen time_Now (\<lambda>startedAt.
       andThen (next ctx qry) (\<lambda>(result, err).
       (let attrs = operation_attrs (query_Name qry) ''query'' err
        in andThen (query_Executions metrics ctx 1 attrs) (\<lambda>_.
           andThen time_Now (\<lambda>t.
           andThen (query_Duration metrics ctx (t - startedAt) attrs) (\<lambda>_.
           return (result, err)))))))))"

definition BuildCommandMiddlewares ::
  "'z cqs \<Rightarrow> 'z OTLPObservability \<Rightarrow> 'z EventsTracing \<Rightarrow> ('z, 'z CommandMiddleware) os" where
  "BuildCommandMiddlewares core obsv evtr =
     (let loggerMdw = NewLoggerCommandMiddleware (obs_Logger obsv);
          tracerMdw = NewTracerCommandMiddleware core (obs_TracerProvider obsv) evtr
      in andThen (orWrap ''create meter middleware'' (NewMeterCommandMiddleware (obs_MeterProvider obsv))) (\<lambda>meterMdw.
         return (CommandHandlerMultiMiddleware core [loggerMdw, tracerMdw, meterMdw])))"

definition BuildQueryMiddlewares :: "'z cqs \<Rightarrow> 'z OTLPObservability \<Rightarrow> ('z, 'z QueryMiddleware) os" where
  "BuildQueryMiddlewares core obsv =
     (let loggerMdw = NewLoggerQueryMiddleware (obs_Logger obsv);
          tracerMdw = NewTracerQueryMiddleware (obs_TracerProvider obsv)
      in andThen (orWrap ''create meter middleware'' (NewMeterQueryMiddleware (obs_MeterProvider obsv))) (\<lambda>meterMdw.
         return (QueryHandlerMultiMiddleware core [loggerMdw, tracerMdw, meterMdw])))"

end
