(* ===== verification/App_Facts.thy ===== *)
theory App_Facts
  imports App Quiet "HOL-Library.Multiset"
begin

section \<open>The middlewares do not interfere\<close>

text \<open>
  Logs, traces and metrics have a state of their own beside the machine. \<open>view\<close> is what the
  program sees of the state beside the machine's; two states are \<open>still\<close> related when between them nothing happened
  but the passing of time and what \<open>view\<close> does not show. The rules of this theory reduce what an action
  adds to a service to its parts.
\<close>

definition still :: "('z \<Rightarrow> 's) \<Rightarrow> 'z os_world_scheme \<Rightarrow> 'z os_world_scheme \<Rightarrow> bool" where
  "still view w w' \<longleftrightarrow> steady w w' \<and> nodes w' = nodes w \<and> view (os_world.more w') = view (os_world.more w)"

lemma still_refl [simp]: "still view w w" by (simp add: still_def)

lemma still_trans: "still view w w1 \<Longrightarrow> still view w1 w2 \<Longrightarrow> still view w w2"
  by (auto simp: still_def steady_def)

subsection \<open>Actions that leave everything still\<close>

text \<open>
  \<open>passes view P m\<close>: \<open>m\<close> leaves everything still and does not panic, and what it returns satisfies
  \<open>P\<close>. \<open>settles\<close>: it returns no error either.
\<close>

definition passes :: "('z \<Rightarrow> 's) \<Rightarrow> ('a \<Rightarrow> bool) \<Rightarrow> ('z, 'a) os \<Rightarrow> bool" where
  "passes view P m \<longleftrightarrow>
     (\<forall>w. still view w (snd (m w)) \<and> (case fst (m w) of Ok x \<Rightarrow> P x | Err e \<Rightarrow> True | Panic s \<Rightarrow> False))"

definition settles :: "('z \<Rightarrow> 's) \<Rightarrow> ('a \<Rightarrow> bool) \<Rightarrow> ('z, 'a) os \<Rightarrow> bool" where
  "settles view P m \<longleftrightarrow>
     (\<forall>w. still view w (snd (m w)) \<and> (case fst (m w) of Ok x \<Rightarrow> P x | Err e \<Rightarrow> False | Panic s \<Rightarrow> False))"

abbreviation calm :: "('z \<Rightarrow> 's) \<Rightarrow> ('z, 'a) os \<Rightarrow> bool" where
  "calm view \<equiv> passes view (\<lambda>_. True)"

named_theorems still_rules \<open>rules that reduce what leaves everything still to its parts\<close>

lemma passesD:
  assumes "passes view P m" and "m w = (r, w')"
  shows "still view w w'" and "r = Ok x \<Longrightarrow> P x" and "r \<noteq> Panic s"
proof -
  from assms(1) have "still view w (snd (m w)) \<and> (case fst (m w) of Ok x \<Rightarrow> P x | Err e \<Rightarrow> True | Panic s \<Rightarrow> False)"
    unfolding passes_def ..
  with assms(2) show "still view w w'" "r = Ok x \<Longrightarrow> P x" "r \<noteq> Panic s" by auto
qed

lemma settlesD:
  assumes "settles view P m" and "m w = (r, w')"
  shows "still view w w'" and "\<exists>x. r = Ok x \<and> P x"
proof -
  from assms(1) have "still view w (snd (m w)) \<and> (case fst (m w) of Ok x \<Rightarrow> P x | Err e \<Rightarrow> False | Panic s \<Rightarrow> False)"
    unfolding settles_def ..
  with assms(2) show "still view w w'" "\<exists>x. r = Ok x \<and> P x" by (auto split: outcome.splits)
qed

lemma passesI:
  assumes "\<And>w r w'. m w = (r, w') \<Longrightarrow> still view w w' \<and> (\<forall>x. r = Ok x \<longrightarrow> P x) \<and> (\<forall>s. r \<noteq> Panic s)"
  shows "passes view P m"
  unfolding passes_def
proof (intro allI)
  fix w
  show "still view w (snd (m w)) \<and> (case fst (m w) of Ok x \<Rightarrow> P x | Err e \<Rightarrow> True | Panic s \<Rightarrow> False)"
    using assms [of w "fst (m w)" "snd (m w)"] by (simp split: outcome.split)
qed

lemma settlesI:
  assumes "\<And>w. \<exists>x w'. m w = (Ok x, w') \<and> P x \<and> still view w w'"
  shows "settles view P m"
  unfolding settles_def
proof (intro allI)
  fix w
  from assms [of w] show "still view w (snd (m w)) \<and> (case fst (m w) of Ok x \<Rightarrow> P x | Err e \<Rightarrow> False | Panic s \<Rightarrow> False)"
    by auto
qed

lemma settles_passes:
  assumes "settles view P m"
  shows "passes view P m"
proof (rule passesI)
  fix w r w' assume "m w = (r, w')"
  from settlesD [OF assms this] show "still view w w' \<and> (\<forall>x. r = Ok x \<longrightarrow> P x) \<and> (\<forall>s. r \<noteq> Panic s)" by auto
qed

lemma passes_weaken:
  assumes "passes view P m" and "\<And>x. P x \<Longrightarrow> Q x"
  shows "passes view Q m"
proof (rule passesI)
  fix w r w' assume "m w = (r, w')"
  from passesD [OF assms(1) this] assms(2)
  show "still view w w' \<and> (\<forall>x. r = Ok x \<longrightarrow> Q x) \<and> (\<forall>s. r \<noteq> Panic s)" by blast
qed

lemma settles_return [still_rules]: "P x \<Longrightarrow> settles view P (return x)"
  by (simp add: settles_def return_run)

lemma passes_return [still_rules]: "P x \<Longrightarrow> passes view P (return x)"
  by (simp add: passes_def return_run)

lemma passes_fail [still_rules]: "passes view P (fail e)"
  by (simp add: passes_def fail_run)

lemma passes_tryCatch:
  assumes m: "passes view Q m" and h: "\<And>e. passes view P (h e)" and f: "\<And>x. Q x \<Longrightarrow> passes view P (f x)"
  shows "passes view P (tryCatch m h f)"
proof (rule passesI)
  fix w r w' assume run: "tryCatch m h f w = (r, w')"
  obtain o' w1 where o: "m w = (o', w1)" by force
  note m = passesD [OF m o]
  show "still view w w' \<and> (\<forall>x. r = Ok x \<longrightarrow> P x) \<and> (\<forall>s. r \<noteq> Panic s)"
  proof (cases o')
    case (Ok x)
    with run o have "f x w1 = (r, w')" by (simp add: tryCatch_def)
    note passesD [OF f [OF m(2) [OF Ok]] this]
    with m(1) show ?thesis by (auto intro: still_trans)
  next
    case (Err e)
    with run o have "h e w1 = (r, w')" by (simp add: tryCatch_def)
    note passesD [OF h this]
    with m(1) show ?thesis by (auto intro: still_trans)
  qed (use m in blast)
qed

lemma passes_andThen [still_rules]:
  "passes view Q m \<Longrightarrow> (\<And>x. Q x \<Longrightarrow> passes view P (f x)) \<Longrightarrow> passes view P (andThen m f)"
  unfolding andThen_def by (rule passes_tryCatch [where Q = Q]) (auto intro: passes_fail)

lemma passes_orWrap [still_rules]: "passes view P m \<Longrightarrow> passes view P (orWrap msg m)"
  unfolding orWrap_def by (rule passes_tryCatch [where Q = P]) (auto intro: passes_fail passes_return)

lemma settles_andThen [still_rules]:
  assumes m: "settles view Q m" and f: "\<And>x. Q x \<Longrightarrow> settles view P (f x)"
  shows "settles view P (andThen m f)"
proof (rule settlesI)
  fix w
  obtain o' w1 where o: "m w = (o', w1)" by force
  note m = settlesD [OF m o]
  then obtain x where x: "o' = Ok x" "Q x" by blast
  obtain r w' where r: "f x w1 = (r, w')" by force
  note settlesD [OF f [OF x(2)] r]
  with m(1) o x r show "\<exists>y w'. andThen m f w = (Ok y, w') \<and> P y \<and> still view w w'"
    by (auto simp: andThen_run intro: still_trans)
qed

lemma settles_ignoring [still_rules]: "passes view Q m \<Longrightarrow> P () \<Longrightarrow> settles view P (ignoring m)"
  by (simp add: settles_def passes_def ignoring_def)

lemma still_case [still_rules]:
  "(b \<Longrightarrow> settles view P m) \<Longrightarrow> (\<not> b \<Longrightarrow> settles view P m') \<Longrightarrow> settles view P (if b then m else m')"
  "(b \<Longrightarrow> passes view P n) \<Longrightarrow> (\<not> b \<Longrightarrow> passes view P n') \<Longrightarrow> passes view P (if b then n else n')"
  by simp_all

lemma settles_time [still_rules]: "settles view (\<lambda>_. True) time_Now"
  by (simp add: settles_def time_Now_def still_def steady_def tick_def)

lemma settles_for_each [still_rules]:
  "(\<And>x. x \<in> set xs \<Longrightarrow> settles view (\<lambda>_. True) (f x)) \<Longrightarrow> settles view (\<lambda>_. True) (for_each f xs)"
proof (induction xs)
  case (Cons x xs)
  then show ?case by (auto intro!: settles_andThen [where Q = "\<lambda>_. True"] settles_return)
qed (auto intro: still_rules)

subsection \<open>Actions around another\<close>

text \<open>\<open>around view m' m\<close>: \<open>m'\<close> runs \<open>m\<close> once, ends as it does, and leaves everything still before and after.\<close>

definition around :: "('z \<Rightarrow> 's) \<Rightarrow> ('z, 'a) os \<Rightarrow> ('z, 'a) os \<Rightarrow> bool" where
  "around view m' m \<longleftrightarrow>
     (\<forall>w r w'. m' w = (r, w') \<longrightarrow> (\<exists>w1 w2. still view w w1 \<and> m w1 = (r, w2) \<and> still view w2 w'))"

definition yields :: "('a \<Rightarrow> bool) \<Rightarrow> ('z, 'a) os \<Rightarrow> bool" where
  "yields Q m \<longleftrightarrow> (\<forall>w x w'. m w = (Ok x, w') \<longrightarrow> Q x)"

lemma aroundD:
  assumes "around view m' m" and "m' w = (r, w')"
  obtains w1 w2 where "still view w w1" "m w1 = (r, w2)" "still view w2 w'"
  using assms unfolding around_def by blast

lemma around_refl: "around view m m" unfolding around_def using still_refl by blast

lemma around_trans:
  assumes "around view m1 m2" and "around view m2 m3"
  shows "around view m1 m3"
  unfolding around_def
proof (intro allI impI)
  fix w r w' assume "m1 w = (r, w')"
  with assms(1) obtain w1 w2 where a: "still view w w1" "m2 w1 = (r, w2)" "still view w2 w'" by (rule aroundD)
  from assms(2) a(2) obtain w3 w4 where "still view w1 w3" "m3 w3 = (r, w4)" "still view w4 w2" by (rule aroundD)
  with a show "\<exists>w1 w2. still view w w1 \<and> m3 w1 = (r, w2) \<and> still view w2 w'" by (blast intro: still_trans)
qed

lemma around_yields: "around view m' m \<Longrightarrow> yields Q m \<Longrightarrow> yields Q m'"
  unfolding around_def yields_def by blast

lemma around_before:
  assumes p: "settles view P p" and f: "\<And>x. P x \<Longrightarrow> around view (f x) m"
  shows "around view (andThen p f) m"
  unfolding around_def
proof (intro allI impI)
  fix w r w' assume run: "andThen p f w = (r, w')"
  obtain o' w0 where o: "p w = (o', w0)" by force
  from settlesD [OF p o] obtain x where x: "still view w w0" "o' = Ok x" "P x" by blast
  with run o have "f x w0 = (r, w')" by (simp add: andThen_run)
  with f [OF x(3)] obtain w1 w2 where "still view w0 w1" "m w1 = (r, w2)" "still view w2 w'" by (rule aroundD)
  with x(1) show "\<exists>w1 w2. still view w w1 \<and> m w1 = (r, w2) \<and> still view w2 w'" by (blast intro: still_trans)
qed

lemma around_after:
  assumes m: "around view m' m" "yields Q m" and g: "\<And>x. Q x \<Longrightarrow> settles view (\<lambda>y. y = x) (g x)"
  shows "around view (andThen m' g) m"
  unfolding around_def
proof (intro allI impI)
  fix w r w' assume run: "andThen m' g w = (r, w')"
  obtain o' w0 where o: "m' w = (o', w0)" by force
  obtain w1 w2 where a: "still view w w1" "m w1 = (o', w2)" "still view w2 w0" by (rule aroundD [OF m(1) o])
  show "\<exists>w1 w2. still view w w1 \<and> m w1 = (r, w2) \<and> still view w2 w'"
  proof (cases o')
    case (Ok x)
    with m(2) a have "Q x" unfolding yields_def by blast
    from Ok run o have "g x w0 = (r, w')" by (simp add: andThen_run)
    from settlesD [OF g [OF \<open>Q x\<close>] this] have "r = Ok x" "still view w0 w'" by simp_all
    with a Ok show ?thesis by (blast intro: still_trans)
  qed (use run o a in \<open>auto simp: andThen_run\<close>)
qed

lemma around_deferring:
  assumes m: "around view m' m" and c: "\<And>b. settles view (\<lambda>_. True) (c b)"
  shows "around view (deferring m' c) m"
  unfolding around_def
proof (intro allI impI)
  fix w r w' assume "deferring m' c w = (r, w')"
  then obtain w0 where run: "m' w = (r, w0)" and w': "w' = snd (c (is_Ok r) w0)" by (auto simp: deferring_iff)
  obtain w1 w2 where "still view w w1" "m w1 = (r, w2)" "still view w2 w0" by (rule aroundD [OF m run])
  moreover have "still view w0 w'" using c [of "is_Ok r"] unfolding w' settles_def by blast
  ultimately show "\<exists>w1 w2. still view w w1 \<and> m w1 = (r, w2) \<and> still view w2 w'" by (blast intro: still_trans)
qed

subsection \<open>What the libraries of the observability promise\<close>

text \<open>
  The log, spans and instruments keep to themselves and do not panic; a span's context is done when the one it
  was derived from is.
\<close>

definition logs_apart :: "('z \<Rightarrow> 's) \<Rightarrow> 'z slog_Handler \<Rightarrow> bool" where
  "logs_apart view h \<longleftrightarrow> (\<forall>ctx r. calm view (Handle h ctx r))"

definition span_apart :: "('z \<Rightarrow> 's) \<Rightarrow> 'z Span \<Rightarrow> bool" where
  "span_apart view s \<longleftrightarrow>
     (\<forall>attrs. settles view (\<lambda>_. True) (SetAttributes s attrs)) \<and> (\<forall>e. settles view (\<lambda>_. True) (RecordError s e)) \<and>
     (\<forall>c d. settles view (\<lambda>_. True) (SetStatus s c d)) \<and> settles view (\<lambda>_. True) (span_End s)"

definition traces_apart :: "('z \<Rightarrow> 's) \<Rightarrow> 'z TracerProvider \<Rightarrow> bool" where
  "traces_apart view prov \<longleftrightarrow>
     (\<forall>name ctx op. settles view (\<lambda>(ctx', s). ctx' = ctx \<and> span_apart view s) (prov name ctx op))"

definition instrument_apart :: "('z \<Rightarrow> 's) \<Rightarrow> 'z instrument \<Rightarrow> bool" where
  "instrument_apart view i \<longleftrightarrow> (\<forall>ctx n attrs. settles view (\<lambda>_. True) (i ctx n attrs))"

definition meters_apart :: "('z \<Rightarrow> 's) \<Rightarrow> 'z MeterProvider \<Rightarrow> bool" where
  "meters_apart view prov \<longleftrightarrow>
     (\<forall>name a b c. passes view (instrument_apart view) (Int64Counter (prov name) a b c) \<and>
        passes view (instrument_apart view) (Float64Histogram (prov name) a b c))"

definition observes_apart :: "('z \<Rightarrow> 's) \<Rightarrow> 'z OTLPObservability \<Rightarrow> bool" where
  "observes_apart view obsv \<longleftrightarrow>
     logs_apart view (obs_Logger obsv) \<and> traces_apart view (obs_TracerProvider obsv) \<and>
     meters_apart view (obs_MeterProvider obsv) \<and> (\<forall>ctx. calm view (Shutdown obsv ctx))"

text \<open>Middlewares are composed in some order; the name of an event is the one that it was made with.\<close>

definition core_lawful :: "'z cqs \<Rightarrow> bool" where
  "core_lawful core \<longleftrightarrow>
     (\<forall>ms. \<exists>ms'. mset ms' = mset ms \<and> CommandHandlerMultiMiddleware core ms = foldr (\<circ>) ms' id) \<and>
     (\<forall>qs. \<exists>qs'. mset qs' = mset qs \<and> QueryHandlerMultiMiddleware core qs = foldr (\<circ>) qs' id) \<and>
     (\<forall>b. EventName core b = be_Name b)"

lemma settles_Log [still_rules]:
  assumes "logs_apart view h" and "P ()"
  shows "settles view P (slog_Log h ctx l msg attrs)"
proof -
  have "passes view (\<lambda>_. True) (Handle h ctx r)" for r using assms(1) unfolding logs_apart_def by blast
  with assms(2) show ?thesis
    unfolding slog_Log_def
    by (intro still_case settles_return settles_andThen [OF settles_time] settles_ignoring) auto
qed

subsection \<open>The middlewares are transparent\<close>

text \<open>
  \<open>transparent view Q m\<close>: with the middleware \<open>m\<close> a handler whose results satisfy \<open>Q\<close> does what it does
  without.
\<close>

definition transparent ::
  "('z \<Rightarrow> 's) \<Rightarrow> ('r \<Rightarrow> bool) \<Rightarrow> ((ctx \<Rightarrow> 'c \<Rightarrow> ('z, 'r) os) \<Rightarrow> ctx \<Rightarrow> 'c \<Rightarrow> ('z, 'r) os) \<Rightarrow> bool" where
  "transparent view Q mdw \<longleftrightarrow>
     (\<forall>h ctx c. (\<forall>ctx. yields Q (h ctx c)) \<longrightarrow> around view (mdw h ctx c) (h ctx c))"

lemma transparent_id: "transparent view Q id"
  by (simp add: transparent_def around_refl)

lemma transparent_comp:
  fixes m m' :: "(ctx \<Rightarrow> 'c \<Rightarrow> ('z, 'r) os) \<Rightarrow> ctx \<Rightarrow> 'c \<Rightarrow> ('z, 'r) os"
  assumes "transparent view Q m" and "transparent view Q m'"
  shows "transparent view Q (m \<circ> m')"
  unfolding transparent_def
proof (intro allI impI)
  fix h :: "ctx \<Rightarrow> 'c \<Rightarrow> ('z, 'r) os" and ctx c assume h: "\<forall>ctx. yields Q (h ctx c)"
  from assms(2) h have m': "around view (m' h ctx c) (h ctx c)" for ctx unfolding transparent_def by blast
  with h have "\<forall>ctx. yields Q (m' h ctx c)" by (blast intro: around_yields)
  with assms(1) have "around view (m (m' h) ctx c) (m' h ctx c)" unfolding transparent_def by blast
  from around_trans [OF this m'] show "around view ((m \<circ> m') h ctx c) (h ctx c)" by simp
qed

lemma transparent_foldr:
  "(\<And>m. m \<in> set ms \<Longrightarrow> transparent view Q m) \<Longrightarrow> transparent view Q (foldr (\<circ>) ms id)"
  by (induction ms) (auto simp: transparent_id intro: transparent_comp)

lemma settles_pair:
  "(\<And>a b. Q (a, b) \<Longrightarrow> settles view (\<lambda>y. y = (a, b)) (g a b)) \<Longrightarrow> Q x \<Longrightarrow> settles view (\<lambda>y. y = x) (case x of (a, b) \<Rightarrow> g a b)"
  by (cases x) simp

lemma transparentI:
  assumes "\<And>h ctx c. (\<And>ctx. yields Q (h ctx c)) \<Longrightarrow> around view (mdw h ctx c) (h ctx c)"
  shows "transparent view Q mdw"
  using assms unfolding transparent_def by blast

lemma settles_option [still_rules]:
  "(x = None \<Longrightarrow> settles view P m) \<Longrightarrow> (\<And>y. x = Some y \<Longrightarrow> settles view P (f y)) \<Longrightarrow>
   settles view P (case x of None \<Rightarrow> m | Some y \<Rightarrow> f y)"
  by (cases x) auto

lemma settles_let [still_rules]: "(\<And>x. x = t \<Longrightarrow> settles view P (f x)) \<Longrightarrow> settles view P (Let t f)"
  by simp

lemmas logger_rules = around_before [OF settles_time] around_after [OF around_refl] settles_pair settles_option settles_let
  settles_andThen [OF settles_time] settles_return

lemma logger_transparent:
  assumes "logs_apart view logger"
  shows "transparent view Q (NewLoggerCommandMiddleware logger)"
    and "transparent view P (NewLoggerQueryMiddleware logger)"
proof -
  note log = settles_Log [OF assms, where P = "\<lambda>_. True", OF TrueI]
  show "transparent view Q (NewLoggerCommandMiddleware logger)"
    unfolding NewLoggerCommandMiddleware_def
    by (rule transparentI) (intro logger_rules around_before [OF log] settles_andThen [OF log]; simp)
  show "transparent view P (NewLoggerQueryMiddleware logger)"
    unfolding NewLoggerQueryMiddleware_def
    by (rule transparentI) (intro logger_rules around_before [OF log] settles_andThen [OF log]; simp)
qed

text \<open>An event fits when its tracer, if it has one, is the tracer of its type.\<close>

fun fits :: "'z EventTracer option \<Rightarrow> event \<Rightarrow> bool" where
  "fits None ev \<longleftrightarrow> True"
| "fits (Some (CreateSnapshotTracer _)) ev \<longleftrightarrow> (case ev of CreateSnapshotEvent _ _ _ _ \<Rightarrow> True | _ \<Rightarrow> False)"
| "fits (Some (RestoreSnapshotTracer _)) ev \<longleftrightarrow> (case ev of RestoreSnapshotEvent _ _ _ _ _ \<Rightarrow> True | _ \<Rightarrow> False)"

definition events_fit :: "'z cqs \<Rightarrow> 'z EventsTracing \<Rightarrow> event list \<times> error option \<Rightarrow> bool" where
  "events_fit core evtr r \<longleftrightarrow> (\<forall>ev \<in> set (fst r). fits (evtr (EventName core (basic ev))) ev)"

lemma settles_Trace:
  assumes "span_apart view s" and "fits (evtr (EventName core (basic ev))) ev"
  shows "settles view (\<lambda>_. True) (EventsTracing_Trace core evtr s ev)"
proof (cases "evtr (EventName core (basic ev))")
  case (Some t)
  have "settles view (\<lambda>_. True) (SetAttributes s attrs)" for attrs using assms(1) unfolding span_apart_def by blast
  with Some assms(2) show ?thesis by (cases t; cases ev)
      (simp_all add: EventsTracing_Trace_def CreateSnapshotTracer_Trace_def RestoreSnapshotTracer_Trace_def)
qed (simp add: EventsTracing_Trace_def settles_return)

lemma settles_span_error: "span_apart view s \<Longrightarrow> settles view (\<lambda>_. True) (span_error s err)"
  unfolding span_error_def span_apart_def
  by (intro settles_option settles_return TrueI settles_andThen [where Q = "\<lambda>_. True"]) blast+

lemma around_span:
  assumes "traces_apart view prov" and "\<And>span. span_apart view span \<Longrightarrow> around view (f ctx span) m"
  shows "around view (andThen (prov name ctx op) (\<lambda>(ctx', span). f ctx' span)) m"
proof (rule around_before)
  show "settles view (\<lambda>(ctx', s). ctx' = ctx \<and> span_apart view s) (prov name ctx op)"
    using assms(1) unfolding traces_apart_def by blast
qed (use assms(2) in auto)

lemma settles_End: "span_apart view s \<Longrightarrow> settles view (\<lambda>_. True) (span_End s)"
  unfolding span_apart_def by blast

lemma settles_events:
  assumes "span_apart view span" and "events_fit core evtr (events, err)"
  shows "settles view (\<lambda>_. True) (for_each (EventsTracing_Trace core evtr span) events)"
  using assms by (auto simp: events_fit_def intro: settles_for_each settles_Trace)

lemma tracer_transparent:
  assumes "traces_apart view prov"
  shows "transparent view (events_fit core evtr) (NewTracerCommandMiddleware core prov evtr)"
    and "transparent view P (NewTracerQueryMiddleware prov)"
proof -
  show "transparent view (events_fit core evtr) (NewTracerCommandMiddleware core prov evtr)"
    unfolding NewTracerCommandMiddleware_def
  proof (rule transparentI, rule around_span [OF assms], rule around_deferring, rule around_after [OF around_refl], assumption)
    show "settles view (\<lambda>y. y = x) (case x of (events, err) \<Rightarrow> andThen (span_error span err) (\<lambda>_.
        andThen (for_each (EventsTracing_Trace core evtr span) events) (\<lambda>_. return (events, err))))"
      if "span_apart view span" and "events_fit core evtr x" for x span
      using that(2) by (intro settles_pair settles_andThen [OF settles_span_error [OF that(1)]]
          settles_andThen [OF settles_events [OF that(1)]] settles_return refl)
  qed (rule settles_End)
  show "transparent view P (NewTracerQueryMiddleware prov)"
    unfolding NewTracerQueryMiddleware_def
  proof (rule transparentI, rule around_span [OF assms], rule around_deferring, rule around_after [OF around_refl], assumption)
    show "settles view (\<lambda>y. y = x) (case x of (result, err) \<Rightarrow> andThen (span_error span err) (\<lambda>_. return (result, err)))"
      if "span_apart view span" and "P x" for x span
      using that(2) by (intro settles_pair settles_andThen [OF settles_span_error [OF that(1)]] settles_return refl)
  qed (rule settles_End)
qed

text \<open>The meter's middleware is made of instruments, whose making may fail.\<close>

lemma settles_instrument: "instrument_apart view i \<Longrightarrow> settles view (\<lambda>_. True) (i ctx n attrs)"
  unfolding instrument_apart_def by blast

lemma passes_Int64Counter: "meters_apart view prov \<Longrightarrow> passes view (instrument_apart view) (Int64Counter (prov name) a b c)"
  and passes_Float64Histogram: "meters_apart view prov \<Longrightarrow> passes view (instrument_apart view) (Float64Histogram (prov name) a b c)"
  unfolding meters_apart_def by blast+

lemma meter_transparent:
  fixes view :: "'z \<Rightarrow> 's"
  assumes "meters_apart view prov"
  shows "passes view (transparent view Q) (NewMeterCommandMiddleware prov)"
    and "passes view (transparent view P) (NewMeterQueryMiddleware prov)"
proof -
  let ?metrics = "\<lambda>m. instrument_apart view (Executions m) \<and> instrument_apart view (Duration m) \<and> instrument_apart view (Events m)"
  have m: "passes view ?metrics (NewCommandMetrics (prov name))" for name
    unfolding NewCommandMetrics_def
    by (intro passes_andThen [OF passes_orWrap [OF passes_Int64Counter [OF assms]]]
        passes_andThen [OF passes_orWrap [OF passes_Float64Histogram [OF assms]]] passes_return) simp
  show "passes view (transparent view Q) (NewMeterCommandMiddleware prov)"
    unfolding NewMeterCommandMiddleware_def
  proof (rule passes_andThen [OF m], rule passes_return, rule transparentI)
    fix metrics :: "'z CommandMetrics" and h :: "'z CommandHandler" and ctx c assume x: "?metrics metrics" and h: "\<And>ctx. yields Q (h ctx c)"
    then have i: "instrument_apart view (Executions metrics)" "instrument_apart view (Duration metrics)"
      "settles view (\<lambda>_. True) (if 0 < n then Events metrics ctx k attrs else return ())" for n :: nat and k attrs
      by (auto intro: settles_instrument settles_return)
    show "around view (andThen time_Now (\<lambda>startedAt. andThen (h ctx c) (\<lambda>(events, err).
       let attrs = operation_attrs (command_Name c) ''command'' err
        in andThen (Executions metrics ctx 1 attrs) (\<lambda>_. andThen time_Now (\<lambda>t.
           andThen (Duration metrics ctx (t - startedAt) attrs) (\<lambda>_.
           andThen (if length events > 0
                    then Events metrics ctx (int (length events)) [AttrString ''operation.name'' (command_Name c)]
                    else return ()) (\<lambda>_. return (events, err)))))))) (h ctx c)"
      by (rule around_before [OF settles_time], rule around_after [OF around_refl h], rule settles_pair, rule settles_let,
          rule settles_andThen [OF settles_instrument [OF i(1)]], rule settles_andThen [OF settles_time],
          rule settles_andThen [OF settles_instrument [OF i(2)]], rule settles_andThen [OF i(3)], rule settles_return)
        simp_all
  qed
  let ?queries = "\<lambda>m. instrument_apart view (query_Executions m) \<and> instrument_apart view (query_Duration m)"
  have q: "passes view ?queries (NewQueryMetrics (prov name))" for name
    unfolding NewQueryMetrics_def
    by (intro passes_andThen [OF passes_orWrap [OF passes_Int64Counter [OF assms]]]
        passes_andThen [OF passes_orWrap [OF passes_Float64Histogram [OF assms]]] passes_return) simp
  show "passes view (transparent view P) (NewMeterQueryMiddleware prov)"
    unfolding NewMeterQueryMiddleware_def
  proof (rule passes_andThen [OF passes_orWrap [OF q]], rule passes_return, rule transparentI)
    fix metrics :: "'z QueryMetrics" and h :: "'z QueryHandler" and ctx c assume x: "?queries metrics" and h: "\<And>ctx. yields P (h ctx c)"
    show "around view (andThen time_Now (\<lambda>startedAt. andThen (h ctx c) (\<lambda>(result, err).
       let attrs = operation_attrs (query_Name c) ''query'' err
        in andThen (query_Executions metrics ctx 1 attrs) (\<lambda>_. andThen time_Now (\<lambda>t.
           andThen (query_Duration metrics ctx (t - startedAt) attrs) (\<lambda>_. return (result, err))))))) (h ctx c)"
      by (rule around_before [OF settles_time], rule around_after [OF around_refl h], rule settles_pair, rule settles_let,
          rule settles_andThen [OF settles_instrument [OF conjunct1 [OF x]]], rule settles_andThen [OF settles_time],
          rule settles_andThen [OF settles_instrument [OF conjunct2 [OF x]]], rule settles_return) simp_all
  qed
qed

lemma multi_transparent:
  assumes "core_lawful core"
  shows "(\<And>m. m \<in> set ms \<Longrightarrow> transparent view Q m) \<Longrightarrow> transparent view Q (CommandHandlerMultiMiddleware core ms)"
    and "(\<And>m. m \<in> set qs \<Longrightarrow> transparent view P m) \<Longrightarrow> transparent view P (QueryHandlerMultiMiddleware core qs)"
proof -
  obtain ms' where ms: "mset ms' = mset ms" "CommandHandlerMultiMiddleware core ms = foldr (\<circ>) ms' id"
    using assms unfolding core_lawful_def by blast
  show "transparent view Q (CommandHandlerMultiMiddleware core ms)" if "\<And>m. m \<in> set ms \<Longrightarrow> transparent view Q m"
    unfolding ms(2) using that mset_eq_setD [OF ms(1)] by (intro transparent_foldr) auto
  obtain qs' where qs: "mset qs' = mset qs" "QueryHandlerMultiMiddleware core qs = foldr (\<circ>) qs' id"
    using assms unfolding core_lawful_def by blast
  show "transparent view P (QueryHandlerMultiMiddleware core qs)" if "\<And>m. m \<in> set qs \<Longrightarrow> transparent view P m"
    unfolding qs(2) using that mset_eq_setD [OF qs(1)] by (intro transparent_foldr) auto
qed

lemma Build_transparent:
  assumes "observes_apart view obsv" and "core_lawful core"
  shows "passes view (transparent view (events_fit core evtr)) (BuildCommandMiddlewares core obsv evtr)"
    and "passes view (transparent view P) (BuildQueryMiddlewares core obsv)"
proof -
  have parts: "logs_apart view (obs_Logger obsv)" "traces_apart view (obs_TracerProvider obsv)" "meters_apart view (obs_MeterProvider obsv)"
    using assms(1) unfolding observes_apart_def by blast+
  note t = logger_transparent [OF parts(1)] tracer_transparent [OF parts(2)] and m = meter_transparent [OF parts(3)]
  show "passes view (transparent view (events_fit core evtr)) (BuildCommandMiddlewares core obsv evtr)"
    unfolding BuildCommandMiddlewares_def Let_def
    by (rule passes_andThen [OF passes_orWrap [OF m(1)]], rule passes_return, rule multi_transparent(1) [OF assms(2)]) (auto intro: t)
  show "passes view (transparent view P) (BuildQueryMiddlewares core obsv)"
    unfolding BuildQueryMiddlewares_def Let_def
    by (rule passes_andThen [OF passes_orWrap [OF m(2)]], rule passes_return, rule multi_transparent(2) [OF assms(2)]) (auto intro: t)
qed

end
