(* ===== verification/Facade.thy ===== *)
theory Facade
  imports App Choice Verify ReKey Create
begin

section \<open>The library's interface\<close>

text \<open>
  \<^verbatim>\<open>pkg/stowmark\<close>: the handler that a program holds for a repository. Every operation
  starts the observability, builds its service from the repositories of the handler, sends a command or a
  query through the middlewares to it, and turns the event or the result into the types of this package; the
  observability is shut down at the end.
\<close>

subsection \<open>What it is given\<close>

text \<open>
  The services with workers are relations: \<open>schedule\<close> holds one run of each for every state.
  \<open>se_cached\<close> and \<open>se_store\<close> are the field of the one decryption service that an
  operation makes, empty when it is made.
\<close>

record 'z schedule =
  run_Create :: "'z create_service \<Rightarrow> ctx \<Rightarrow> string \<Rightarrow> string \<Rightarrow> string option \<Rightarrow> ('z, CreateResult) os"
  run_Verify :: "'z verify_service \<Rightarrow> ctx \<Rightarrow> string \<Rightarrow> string \<Rightarrow> string option \<Rightarrow> ('z, Result) os"
  run_ReKey :: "'z rekey_service \<Rightarrow> ctx \<Rightarrow> string \<Rightarrow> string \<Rightarrow> string \<Rightarrow> ('z, unit) os"

record 'z stow_env =
  se_out :: "'z outside"
  se_telemetry :: "'z telemetry"
  se_core :: "'z cqs"
  se_schedule :: "'z schedule"
  se_stamp :: "int \<Rightarrow> string"
  se_procs :: nat
  se_cached :: "'z os_world_scheme \<Rightarrow> bytes"
  se_store :: "bytes \<Rightarrow> 'z os_world_scheme \<Rightarrow> 'z os_world_scheme"
  slog_Warn :: "string \<Rightarrow> ('z, unit) os"

definition decrypt_of ::
  "'z stow_env \<Rightarrow> 'z SymmetricKeyRepository \<Rightarrow> 'z AsymmetricKeyPairRepository \<Rightarrow> 'z DecryptSymmetricKey" where
  "decrypt_of env skr akr =
     \<lparr>dsk_symmetricKeyRepository = skr, dsk_asymmetricRepo = akr, cached_key = se_cached env, store_key = se_store env\<rparr>"

definition NewDecryptSymmetricKey ::
  "'z stow_env \<Rightarrow> 'z SymmetricKeyRepository \<Rightarrow> 'z AsymmetricKeyPairRepository \<Rightarrow> ('z, 'z DecryptSymmetricKey) os" where
  "NewDecryptSymmetricKey env skr akr w = (Ok (decrypt_of env skr akr), se_store env [] w)"

definition defaultCreateWorkers :: "'z stow_env \<Rightarrow> nat" where "defaultCreateWorkers env = se_procs env * 2"
definition defaultVerifyWorkers :: "'z stow_env \<Rightarrow> nat" where "defaultVerifyWorkers env = se_procs env * 4"

subsection \<open>The handler\<close>

record 'z stow_Handler =
  folderRepository :: "'z FolderRepository"
  sourceRepository :: "'z SourceRepository"
  manifestRepository :: "'z ManifestRepository"
  objectRepository :: "'z ObjectRepository"
  repositoryPath :: string
  repositoriesHandler :: "'z Repositories"
  asymmetricKeyPaiRepository :: "'z AsymmetricKeyPairRepository"
  symmetricKeyRepository :: "'z SymmetricKeyRepository"

definition stow_NewHandler :: "'z stow_env \<Rightarrow> ctx \<Rightarrow> string \<Rightarrow> ('z, 'z stow_Handler) os" where
  "stow_NewHandler env ctx repository =
     (let lib = out_lib (se_out env)
      in andThen (NewHandler (se_out env) ctx repository) (\<lambda>repoHandler.
         andThen (ManifestRepository_of repoHandler) (\<lambda>manifestRepo.
         andThen (ObjectRepository_of repoHandler) (\<lambda>objectRepo.
         return \<lparr>folderRepository = FolderRepository_of repoHandler, sourceRepository = DiskSourceRepository lib,
           manifestRepository = manifestRepo, objectRepository = objectRepo,
           repositoryPath = RepositoryPath repoHandler, repositoriesHandler = repoHandler,
           asymmetricKeyPaiRepository = DiskKeyPairRepository (lib_crypto lib),
           symmetricKeyRepository = SymmetricRepository (lib_crypto lib)\<rparr>))))"

definition stow_Close :: "'z stow_Handler \<Rightarrow> ('z, unit) os" where
  "stow_Close h = Repositories_Close (repositoriesHandler h)"

text \<open>\<open>observed\<close>: the observability of an operation, shut down when the operation ends.\<close>

definition observed :: "'z stow_env \<Rightarrow> ctx \<Rightarrow> ('z OTLPObservability \<Rightarrow> ('z, 'a) os) \<Rightarrow> ('z, 'a) os" where
  "observed env ctx f =
     andThen (builtObservability (se_telemetry env) ctx) (\<lambda>obsv.
     deferring (f obsv) (\<lambda>_. ignoring (Shutdown obsv ctx)))"

text \<open>\<open>dispatch\<close>: the handler behind the middlewares; its error is returned before its result is looked at.\<close>

definition dispatch :: "('z, 'r \<times> error option) os \<Rightarrow> ('r \<Rightarrow> ('z, 'a) os) \<Rightarrow> ('z, 'a) os" where
  "dispatch m f = andThen m (\<lambda>(r, err). case err of Some e \<Rightarrow> fail e | None \<Rightarrow> f r)"

subsection \<open>Creating a snapshot\<close>

record pub_CreateResult =
  pcr_ID :: string
  pcr_FileCount :: int
  pcr_TotalSize :: int

definition create_service_of :: "'z stow_env \<Rightarrow> 'z stow_Handler \<Rightarrow> 'z DecryptSymmetricKey \<Rightarrow> 'z create_service" where
  "create_service_of env h dsk =
     \<lparr>svc_source = sourceRepository h, svc_manifests = manifestRepository h, svc_objects = objectRepository h,
      svc_folder = folderRepository h, svc_decrypt = dsk, svc_workers = int (defaultCreateWorkers env),
      svc_default = defaultCreateWorkers env, svc_uuid = lib_uuid (out_lib (se_out env)), svc_stamp = se_stamp env\<rparr>"

definition stow_CreateSnapshot ::
  "'z stow_env \<Rightarrow> 'z stow_Handler \<Rightarrow> ctx \<Rightarrow> string \<Rightarrow> string option \<Rightarrow> ('z, pub_CreateResult) os" where
  "stow_CreateSnapshot env h ctx source privKey =
     observed env ctx (\<lambda>obsv.
       andThen (NewDecryptSymmetricKey env (symmetricKeyRepository h) (asymmetricKeyPaiRepository h)) (\<lambda>dsk.
       (let svc = create_service_of env h dsk;
            evtr = EventsTracing_Add CreateSnapshotCommandName (CreateSnapshotTracer (obs_Logger obsv)) NewEventsTracing
        in andThen (BuildCommandMiddlewares (se_core env) obsv evtr) (\<lambda>mdw.
           dispatch
             (mdw (CreateSnapshot_Handle (se_core env) (lib_uuid (out_lib (se_out env))) (run_Create (se_schedule env) svc)) ctx
               (CreateSnapshotCmd \<lparr>cs_RepositoryPath = repositoryPath h, cs_SourcePath = source, cs_PrivateKey = privKey\<rparr>))
             (\<lambda>events. case events of
                [CreateSnapshotEvent _ snapshot n sz] \<Rightarrow>
                  return \<lparr>pcr_ID = snapshot, pcr_FileCount = n, pcr_TotalSize = sz\<rparr>
              | [_] \<Rightarrow> fail (ErrText ''unexpected event type'')
              | _ \<Rightarrow> fail (ErrText ''unexpected number of events''))))))"

subsection \<open>Initialising a repository\<close>

record pub_Compression =
  pc_Type :: string
  pc_Level :: "int option"

definition encryption_of_new ::
  "'z stow_Handler \<Rightarrow> ctx \<Rightarrow> string option \<Rightarrow> ('z, EncryptionConfig option) os" where
  "encryption_of_new h ctx pubKey =
     (case pubKey of
        None \<Rightarrow> return None
      | Some p \<Rightarrow>
          andThen (CreateEncryptionConfig_Create (asymmetricKeyPaiRepository h) (symmetricKeyRepository h) ctx p)
            (\<lambda>c. return (Some c)))"

text \<open>The number of events is looked at before the error.\<close>

definition init_outcome :: "'z stow_env \<Rightarrow> event list \<times> error option \<Rightarrow> ('z, unit) os" where
  "init_outcome env r =
     (case r of (events, err) \<Rightarrow>
        (case events of
           [ev] \<Rightarrow>
             (case ev of
                InitEvent _ _ warnings \<Rightarrow>
                  (case err of
                     Some e \<Rightarrow> fail e
                   | None \<Rightarrow> andThen (for_each (slog_Warn env) warnings) (\<lambda>_. return ()))
              | _ \<Rightarrow> fail (ErrText ''unexpected event type''))
         | _ \<Rightarrow> fail (ErrText ''unexpected number of init events'')))"

definition stow_Init ::
  "'z stow_env \<Rightarrow> 'z stow_Handler \<Rightarrow> ctx \<Rightarrow> pub_Compression option \<Rightarrow> int \<Rightarrow> string option \<Rightarrow> bool \<Rightarrow> ('z, unit) os" where
  "stow_Init env h ctx wanted format pubKey force =
     (case wanted of
        None \<Rightarrow> panic ''nil pointer dereference''
      | Some co \<Rightarrow>
          andThen (lift_outcome (ParseCompressionType (pc_Type co))) (\<lambda>compType.
          andThen (lift_outcome (NewCompression compType (pc_Level co))) (\<lambda>compre.
          andThen (encryption_of_new h ctx pubKey) (\<lambda>encryptionConfig.
          andThen (uuid_New (lib_uuid (out_lib (se_out env)))) (\<lambda>i.
          andThen (NewConfig i (ParseFormatVersion format) (Some compre) encryptionConfig) (\<lambda>conf.
          andThen (lift_outcome (NewRepository (repositoryPath h) (Some conf))) (\<lambda>repo.
          observed env ctx (\<lambda>obsv.
            andThen (BuildCommandMiddlewares (se_core env) obsv NewEventsTracing) (\<lambda>mdw.
            andThen
              (mdw (Init_Handle (se_core env) (lib_uuid (out_lib (se_out env)))
                     (Init_Do (lib_uuid (out_lib (se_out env))) (folderRepository h))) ctx
                (InitCmd \<lparr>ic_Repository = repo, ic_Force = force\<rparr>))
              (init_outcome env))))))))))"

subsection \<open>Keys\<close>

definition stow_KeyGenerate :: "'z stow_env \<Rightarrow> 'z stow_Handler \<Rightarrow> ctx \<Rightarrow> string \<Rightarrow> ('z, AsymmetricKeyPair) os" where
  "stow_KeyGenerate env h ctx folder =
     observed env ctx (\<lambda>obsv.
       andThen (NewAsymmetricKeyPair folder) (\<lambda>keys.
       andThen (BuildCommandMiddlewares (se_core env) obsv NewEventsTracing) (\<lambda>mdw.
       dispatch
         (mdw (GenerateKey_Handle (se_core env)
                (CreateAsymmetricKeyPair_Create (lib_crypto (out_lib (se_out env))) (asymmetricKeyPaiRepository h))) ctx
           (GenerateKeyCmd \<lparr>gk_Keys = keys\<rparr>))
         (\<lambda>_. return keys))))"

definition rekey_service_of :: "'z stow_Handler \<Rightarrow> 'z rekey_service" where
  "rekey_service_of h =
     \<lparr>rk_folder = folderRepository h, rk_symmetric = symmetricKeyRepository h, rk_asymmetric = asymmetricKeyPaiRepository h,
      rk_objects = objectRepository h\<rparr>"

definition stow_ReKey :: "'z stow_env \<Rightarrow> 'z stow_Handler \<Rightarrow> ctx \<Rightarrow> string \<Rightarrow> string \<Rightarrow> ('z, unit) os" where
  "stow_ReKey env h ctx privateKeyPath publicKeyPath =
     observed env ctx (\<lambda>obsv.
       (let svc = rekey_service_of h
        in andThen (BuildCommandMiddlewares (se_core env) obsv NewEventsTracing) (\<lambda>mdw.
           dispatch
             (mdw (RekeyKey_Handle (se_core env) (run_ReKey (se_schedule env) svc)) ctx
               (RekeyKeyCmd \<lparr>rk_RepositoryPath = repositoryPath h, rk_PrivateKeyPath = privateKeyPath,
                  rk_PublicKeyPath = publicKeyPath\<rparr>))
             (\<lambda>_. return ()))))"

definition stow_Rewrap :: "'z stow_env \<Rightarrow> 'z stow_Handler \<Rightarrow> ctx \<Rightarrow> string \<Rightarrow> string \<Rightarrow> ('z, unit) os" where
  "stow_Rewrap env h ctx oldPrivateKeyPath newPublicKeyPath =
     observed env ctx (\<lambda>obsv.
       andThen (BuildCommandMiddlewares (se_core env) obsv NewEventsTracing) (\<lambda>mdw.
       dispatch
         (mdw (RewrapKey_Handle (se_core env)
                (Rewrap_Do (folderRepository h) (symmetricKeyRepository h) (asymmetricKeyPaiRepository h))) ctx
           (RewrapKeyCmd \<lparr>rw_RepositoryPath = repositoryPath h, rw_OldPrivateKey = oldPrivateKeyPath,
              rw_NewPublicKey = newPublicKeyPath\<rparr>))
         (\<lambda>_. return ())))"

subsection \<open>Restoring\<close>

record pub_FailedResult =
  pf_Path :: string
  pf_Reason :: string

record pub_Result =
  pr_SnapshotID :: string
  pr_TotalFiles :: int
  pr_Failed :: "pub_FailedResult list"
  pr_IsSuccess :: bool

text \<open>Both ways of restoring make repositories for the keys of their own.\<close>

definition restore_decrypt :: "'z stow_env \<Rightarrow> ('z, 'z DecryptSymmetricKey) os" where
  "restore_decrypt env =
     NewDecryptSymmetricKey env (SymmetricRepository (lib_crypto (out_lib (se_out env))))
       (DiskKeyPairRepository (lib_crypto (out_lib (se_out env))))"

definition restore_tracing :: "'z OTLPObservability \<Rightarrow> 'z EventsTracing" where
  "restore_tracing obsv = EventsTracing_Add RestoreSnapshotCommandName (RestoreSnapshotTracer (obs_Logger obsv)) NewEventsTracing"

definition stow_RestoreFile ::
  "'z stow_env \<Rightarrow> 'z stow_Handler \<Rightarrow> ctx \<Rightarrow> string \<Rightarrow> string \<Rightarrow> string option \<Rightarrow> string option \<Rightarrow> ('z, unit) os" where
  "stow_RestoreFile env h ctx snapshot filePath destinationPath privKey =
     observed env ctx (\<lambda>obsv.
       andThen (restore_decrypt env) (\<lambda>dsk.
       andThen (BuildCommandMiddlewares (se_core env) obsv (restore_tracing obsv)) (\<lambda>mdw.
       dispatch
         (mdw (RestoreFile_Handle (se_core env) (lib_uuid (out_lib (se_out env)))
                (RestoreFile_Restore (manifestRepository h) (objectRepository h) (folderRepository h) dsk)) ctx
           (RestoreFileCmd \<lparr>rf_SnapshotID = snapshot, rf_FilePath = filePath, rf_RepositoryPath = repositoryPath h,
              rf_DestinationPath = destinationPath, rf_PrivateKeyPath = privKey\<rparr>))
         (\<lambda>_. return ()))))"

definition stow_RestoreSnapshot ::
  "'z stow_env \<Rightarrow> 'z stow_Handler \<Rightarrow> ctx \<Rightarrow> string \<Rightarrow> string option \<Rightarrow> string option \<Rightarrow> ('z, pub_Result) os" where
  "stow_RestoreSnapshot env h ctx snapshot destinationPath privKey =
     observed env ctx (\<lambda>obsv.
       andThen (restore_decrypt env) (\<lambda>dsk.
       andThen (BuildCommandMiddlewares (se_core env) obsv (restore_tracing obsv)) (\<lambda>mdw.
       dispatch
         (mdw (RestoreSnapshot_Handle (se_core env) (lib_uuid (out_lib (se_out env)))
                (Restore_Restore (manifestRepository h) (objectRepository h) (folderRepository h) dsk)) ctx
           (RestoreSnapshotCmd \<lparr>rs_SnapshotID = snapshot, rs_RepositoryPath = repositoryPath h,
              rs_PrivateKeyPath = privKey, rs_DestinationPath = destinationPath\<rparr>))
         (\<lambda>events. case events of
            [RestoreSnapshotEvent _ i n fs ok] \<Rightarrow>
              return \<lparr>pr_SnapshotID = i, pr_TotalFiles = n,
                pr_Failed = map (\<lambda>f. \<lparr>pf_Path = Failed_Path f, pf_Reason = Failed_Reason f\<rparr>) fs, pr_IsSuccess = ok\<rparr>
          | [_] \<Rightarrow> fail (ErrText ''unexpected event type'')
          | _ \<Rightarrow> fail (ErrText ''unexpected number of events'')))))"

subsection \<open>Queries\<close>

record SnapshotSummary =
  sum_ID :: string
  sum_CreatedAt :: int
  sum_FileCount :: int
  sum_TotalSize :: int
  sum_Source :: string

definition pub_summary :: "ManifestResume \<Rightarrow> SnapshotSummary" where
  "pub_summary i =
     \<lparr>sum_ID = resume_id i, sum_CreatedAt = resume_createdAt i, sum_FileCount = resume_files i,
      sum_TotalSize = resume_size i, sum_Source = resume_source i\<rparr>"

definition stow_ListSnapshots :: "'z stow_env \<Rightarrow> 'z stow_Handler \<Rightarrow> ctx \<Rightarrow> ('z, SnapshotSummary list) os" where
  "stow_ListSnapshots env h ctx =
     observed env ctx (\<lambda>obsv.
       andThen (BuildQueryMiddlewares (se_core env) obsv) (\<lambda>mdw.
       dispatch (mdw (SnapshotList_Handle (Listing_List (manifestRepository h))) ctx SnaphotListQry)
         (\<lambda>r. case r of
            AnyResumes items \<Rightarrow> return (map pub_summary items)
          | _ \<Rightarrow> fail (ErrText ''unexpected result type''))))"

record pub_Chunk =
  pch_Hash :: string
  pch_Size :: int
  pch_Offset :: int

record ManifestFile =
  mf_Path :: string
  mf_Hash :: string
  mf_Size :: int
  mf_Chunks :: "pub_Chunk list"

record pub_Manifest =
  pm_ID :: string
  pm_CreatedAt :: int
  pm_Source :: string
  pm_Files :: "ManifestFile list"

definition pub_file :: "SnapFile \<Rightarrow> ManifestFile" where
  "pub_file f =
     \<lparr>mf_Path = file_path f, mf_Hash = file_hash f, mf_Size = file_size f,
      mf_Chunks = map (\<lambda>c. \<lparr>pch_Hash = chunk_hash c, pch_Size = chunk_size c, pch_Offset = chunk_offset c\<rparr>) (file_chunks f)\<rparr>"

definition pub_manifest :: "Manifest \<Rightarrow> pub_Manifest" where
  "pub_manifest m =
     \<lparr>pm_ID = man_id m, pm_CreatedAt = man_createdAt m, pm_Source = man_source m, pm_Files = map pub_file (man_files m)\<rparr>"

text \<open>A type assertion accepts a pointer that is nil; its fields are then read through nil.\<close>

definition stow_GetManifest :: "'z stow_env \<Rightarrow> 'z stow_Handler \<Rightarrow> ctx \<Rightarrow> string \<Rightarrow> ('z, pub_Manifest) os" where
  "stow_GetManifest env h ctx snapshot =
     observed env ctx (\<lambda>obsv.
       andThen (BuildQueryMiddlewares (se_core env) obsv) (\<lambda>mdw.
       dispatch
         (mdw (ManifestGet_Handle (se_core env) (GetManifest_Get (manifestRepository h))) ctx
           (ManifestGetQry \<lparr>mg_SnapshotID = snapshot\<rparr>))
         (\<lambda>r. case r of
            AnyManifest (Some m) \<Rightarrow> return (pub_manifest m)
          | AnyManifest None \<Rightarrow> panic ''nil pointer dereference''
          | _ \<Rightarrow> fail (ErrText ''unexpected result type''))))"

definition pub_result :: "Result \<Rightarrow> pub_Result" where
  "pub_result r =
     \<lparr>pr_SnapshotID = snapshotID r, pr_TotalFiles = totalFiles r,
      pr_Failed = map (\<lambda>f. \<lparr>pf_Path = failed_path f, pf_Reason = reason f\<rparr>) (failed r), pr_IsSuccess = IsSuccess r\<rparr>"

definition verify_service_of :: "'z stow_env \<Rightarrow> 'z stow_Handler \<Rightarrow> 'z DecryptSymmetricKey \<Rightarrow> 'z verify_service" where
  "verify_service_of env h dsk =
     \<lparr>vsv_objects = objectRepository h, vsv_manifests = manifestRepository h, vsv_folder = folderRepository h,
      vsv_decrypt = dsk, vsv_workers = int (defaultVerifyWorkers env), vsv_default = defaultVerifyWorkers env,
      vsv_crypto = lib_crypto (out_lib (se_out env))\<rparr>"

definition stow_VerifySnapshot ::
  "'z stow_env \<Rightarrow> 'z stow_Handler \<Rightarrow> ctx \<Rightarrow> string \<Rightarrow> string option \<Rightarrow> ('z, pub_Result) os" where
  "stow_VerifySnapshot env h ctx snapshot privKey =
     observed env ctx (\<lambda>obsv.
       andThen (NewDecryptSymmetricKey env (symmetricKeyRepository h) (asymmetricKeyPaiRepository h)) (\<lambda>dsk.
       (let svc = verify_service_of env h dsk
        in andThen (BuildQueryMiddlewares (se_core env) obsv) (\<lambda>mdw.
           dispatch
             (mdw (VerifySnapshot_Handle (se_core env) (run_Verify (se_schedule env) svc)) ctx
               (VerifySnapshotQry \<lparr>vq_SnapshotID = snapshot, vq_RepositoryPath = repositoryPath h,
                  vq_PrivateKeyPath = privKey\<rparr>))
             (\<lambda>r. case r of
                AnyResult (Some v) \<Rightarrow> return (pub_result v)
              | AnyResult None \<Rightarrow> panic ''nil pointer dereference''
              | _ \<Rightarrow> fail (ErrText ''unexpected result type''))))))"

end
