(* ===== verification/Facade_Facts.thy ===== *)
theory Facade_Facts
  imports Facade App_Facts
begin

section \<open>An operation of the interface is its service\<close>

text \<open>
  Between its first and its last step an operation starts the observability, runs its service behind
  the middlewares, turns the result into the public types, and shuts the observability down. With libraries
  that keep to themselves the service is all that the rest of the program can notice.
\<close>

subsection \<open>The observability starts still\<close>

definition telemetry_apart :: "('z \<Rightarrow> 's) \<Rightarrow> 'z telemetry \<Rightarrow> bool" where
  "telemetry_apart view tel \<longleftrightarrow>
     (\<forall>s. env_Observability tel \<noteq> Panic s) \<and>
     (\<forall>c. env_Observability tel = Ok c \<longrightarrow> OTELExporterProtocol c \<noteq> None \<and> OTELServiceName c \<noteq> None) \<and>
     (\<forall>k v. calm view (os_Setenv tel k v)) \<and> (\<forall>ctx n. calm view (resource_New tel ctx n)) \<and>
     (\<forall>ctx. calm view (otlptracehttp_New tel ctx) \<and> calm view (otlptracegrpc_New tel ctx) \<and>
        calm view (otlpmetrichttp_New tel ctx) \<and> calm view (otlpmetricgrpc_New tel ctx) \<and>
        calm view (otlploghttp_New tel ctx) \<and> calm view (otlploggrpc_New tel ctx)) \<and>
     (\<forall>res exp. passes view (\<lambda>p. traces_apart view (tp_Tracer p) \<and> (\<forall>ctx. calm view (tp_Shutdown p ctx)))
        (sdktrace_NewTracerProvider tel res exp)) \<and>
     (\<forall>res exp i t. passes view (\<lambda>p. meters_apart view (mp_Meter p) \<and> (\<forall>ctx. calm view (mp_Shutdown p ctx)))
        (sdkmetric_NewMeterProvider tel res exp i t)) \<and>
     (\<forall>res exp. passes view (\<lambda>p. \<forall>ctx. calm view (lp_Shutdown p ctx)) (sdklog_NewLoggerProvider tel res exp)) \<and>
     traces_apart view (tracenoop_NewTracerProvider tel) \<and> meters_apart view (metricnoop_NewMeterProvider tel) \<and>
     (\<forall>l. logs_apart view (slog_NewTextHandler tel l)) \<and> (\<forall>n p. logs_apart view (otelslog_NewHandler tel n p))"

lemma telemetry_apartD:
  assumes "telemetry_apart view tel"
  shows "calm view (os_Setenv tel k v)" and "calm view (resource_New tel ctx n)"
    and "calm view (otlptracehttp_New tel ctx)" and "calm view (otlptracegrpc_New tel ctx)"
    and "calm view (otlpmetrichttp_New tel ctx)" and "calm view (otlpmetricgrpc_New tel ctx)"
    and "calm view (otlploghttp_New tel ctx)" and "calm view (otlploggrpc_New tel ctx)"
    and "passes view (\<lambda>p. traces_apart view (tp_Tracer p) \<and> (\<forall>ctx. calm view (tp_Shutdown p ctx)))
        (sdktrace_NewTracerProvider tel res exp)"
    and "passes view (\<lambda>p. meters_apart view (mp_Meter p) \<and> (\<forall>ctx. calm view (mp_Shutdown p ctx)))
        (sdkmetric_NewMeterProvider tel res exp i t)"
    and "passes view (\<lambda>p. \<forall>ctx. calm view (lp_Shutdown p ctx)) (sdklog_NewLoggerProvider tel res exp)"
    and "logs_apart view (slog_NewTextHandler tel l)" and "logs_apart view (otelslog_NewHandler tel name lp)"
  using assms unfolding telemetry_apart_def by simp_all

lemma calm_collect: "(\<And>m. m \<in> set ms \<Longrightarrow> calm view m) \<Longrightarrow> calm view (collect_errors ms errs)"
proof (induction ms arbitrary: errs)
  case Nil
  show ?case by (simp add: passes_return)
next
  case (Cons m ms)
  then show ?case by (auto intro!: passes_tryCatch [where Q = "\<lambda>_. True"])
qed

lemma calm_joined: "(\<And>m. m \<in> set ms \<Longrightarrow> calm view m) \<Longrightarrow> calm view (joined ms)"
  unfolding joined_def
  by (rule passes_andThen [OF calm_collect]) (auto intro: passes_return passes_fail)

lemma logs_apart_handlers:
  "logs_apart view h \<Longrightarrow> logs_apart view (newLevelHandler l h)"
  "(\<And>h. h \<in> set hs \<Longrightarrow> logs_apart view h) \<Longrightarrow> logs_apart view (newMultiHandler hs)"
  by (auto simp: logs_apart_def multi_Handle_def intro!: calm_joined)

lemma passes_lift: "(\<And>s. r \<noteq> Panic s) \<Longrightarrow> (\<And>x. r = Ok x \<Longrightarrow> P x) \<Longrightarrow> passes view P (lift_outcome r)"
  by (cases r) (auto simp: passes_def lift_outcome_run)

lemma passes_exporter: "calm view a \<Longrightarrow> calm view b \<Longrightarrow> calm view (newExporter msg cfg a b)"
  unfolding newExporter_def by (auto intro: passes_orWrap passes_fail)

lemma passes_OTLP:
  fixes view :: "'z \<Rightarrow> 's"
  assumes tel: "telemetry_apart view tel"
  shows "passes view (observes_apart view) (newOTLP tel ctx cfg)"
proof -
  let ?T = "\<lambda>p :: 'z sdk_TracerProvider. traces_apart view (tp_Tracer p) \<and> (\<forall>ctx. calm view (tp_Shutdown p ctx))"
  let ?M = "\<lambda>p :: 'z sdk_MeterProvider. meters_apart view (mp_Meter p) \<and> (\<forall>ctx. calm view (mp_Shutdown p ctx))"
  let ?L = "\<lambda>p :: 'z sdk_LoggerProvider. \<forall>ctx. calm view (lp_Shutdown p ctx)"
  note tf = telemetry_apartD [OF tel]
  have r: "calm view (newResource tel ctx cfg)"
    unfolding newResource_def Let_def by (rule passes_orWrap [OF tf(2)])
  have t: "passes view ?T (newTracerProvider tel ctx cfg res)" for res
    unfolding newTracerProvider_def by (rule passes_andThen [OF passes_exporter [OF tf(3,4)] tf(9)])
  have m: "passes view ?M (newMeterProvider tel ctx cfg res)" for res
    unfolding newMeterProvider_def by (rule passes_andThen [OF passes_exporter [OF tf(5,6)] tf(10)])
  have l: "passes view ?L (newLoggerProvider tel ctx cfg res)" for res
    unfolding newLoggerProvider_def by (rule passes_andThen [OF passes_exporter [OF tf(7,8)] tf(11)])
  have log: "logs_apart view (otlp_logger tel cfg lp)" for lp
    unfolding otlp_logger_def Let_def using tf(12,13) by (intro logs_apart_handlers) (auto intro: logs_apart_handlers)
  have ignored: "passes view Q (andThen (ignoring (f ctx)) (\<lambda>_. n))" if "\<forall>ctx. calm view (f ctx)" "passes view Q n"
    for Q :: "'z OTLPObservability \<Rightarrow> bool" and f :: "ctx \<Rightarrow> ('z, unit) os" and n
    using that by (intro passes_andThen [OF settles_passes [OF settles_ignoring [where P = "\<lambda>_. True"]]]) auto
  show ?thesis unfolding newOTLP_def
  proof (rule passes_andThen [OF r], rule passes_andThen [OF t], rule passes_tryCatch [OF m])
    fix res and tp :: "'z sdk_TracerProvider" and e assume "?T tp"
    then show "passes view (observes_apart view) (andThen (ignoring (tp_Shutdown tp ctx)) (\<lambda>_. fail e))"
      by (intro ignored passes_fail) blast
  next
    fix res and tp :: "'z sdk_TracerProvider" and mp :: "'z sdk_MeterProvider" assume p: "?T tp" "?M mp"
    show "passes view (observes_apart view) (tryCatch (newLoggerProvider tel ctx cfg res)
       (\<lambda>e. andThen (ignoring (mp_Shutdown mp ctx)) (\<lambda>_. andThen (ignoring (tp_Shutdown tp ctx)) (\<lambda>_. fail e)))
       (\<lambda>lp. return \<lparr>obs_TracerProvider = tp_Tracer tp, obs_MeterProvider = mp_Meter mp, obs_Logger = otlp_logger tel cfg lp,
         obs_shutdown = Some (\<lambda>ctx. joined [lp_Shutdown lp ctx, mp_Shutdown mp ctx, tp_Shutdown tp ctx])\<rparr>))"
    proof (rule passes_tryCatch [OF l])
      fix e show "passes view (observes_apart view)
          (andThen (ignoring (mp_Shutdown mp ctx)) (\<lambda>_. andThen (ignoring (tp_Shutdown tp ctx)) (\<lambda>_. fail e)))"
        using p by (intro ignored passes_fail) blast+
    next
      fix lp :: "'z sdk_LoggerProvider" assume lp: "?L lp"
      have "calm view (joined [lp_Shutdown lp c, mp_Shutdown mp c, tp_Shutdown tp c])" for c
        using p lp by (intro calm_joined) auto
      with p log show "passes view (observes_apart view) (return \<lparr>obs_TracerProvider = tp_Tracer tp,
         obs_MeterProvider = mp_Meter mp, obs_Logger = otlp_logger tel cfg lp,
         obs_shutdown = Some (\<lambda>ctx. joined [lp_Shutdown lp ctx, mp_Shutdown mp ctx, tp_Shutdown tp ctx])\<rparr>)"
        by (intro passes_return) (simp add: observes_apart_def Shutdown_def)
    qed
  qed
qed

lemma passes_setOTELVars:
  assumes "telemetry_apart view tel" and "OTELExporterProtocol c \<noteq> None" and "OTELServiceName c \<noteq> None"
  shows "calm view (setOTELVars tel c)"
  using assms unfolding telemetry_apart_def setOTELVars_def
  by (auto intro!: passes_return passes_andThen [where Q = "\<lambda>_. True"])

lemma passes_built:
  assumes tel: "telemetry_apart view tel"
  shows "passes view (observes_apart view) (builtObservability tel ctx)"
proof -
  have "observes_apart view (newNoop tel)"
    using tel by (auto simp: observes_apart_def newNoop_def Shutdown_def telemetry_apart_def intro: passes_return)
  then have "passes view (observes_apart view) (Observability_New tel ctx c)" for c
    unfolding Observability_New_def using passes_OTLP [OF tel] by (auto intro: passes_return split: option.split)
  moreover have "calm view (NewObservabilityConfig tel)"
    unfolding NewObservabilityConfig_def
  proof (rule passes_andThen [OF passes_lift [where P = "\<lambda>c. OTELExporterProtocol c \<noteq> None \<and> OTELServiceName c \<noteq> None"]])
    show "\<And>x. OTELExporterProtocol x \<noteq> None \<and> OTELServiceName x \<noteq> None \<Longrightarrow>
         calm view (andThen (setOTELVars tel x) (\<lambda>_. return x))"
      by (rule passes_andThen [OF passes_setOTELVars [OF tel]]) (auto intro: passes_return)
  qed (use tel in \<open>simp_all add: telemetry_apart_def\<close>)
  ultimately show ?thesis unfolding builtObservability_def by (blast intro: passes_andThen)
qed

subsection \<open>From an operation to its service\<close>

text \<open>
  The errors of an operation that are not those of its service: in the run from \<open>w\<close> the observability could
  not be started, or the middlewares could not be made with it.
\<close>

definition middlewares_fail :: "'z stow_env \<Rightarrow> 'z OTLPObservability \<Rightarrow> 'z os_world_scheme \<Rightarrow> error \<Rightarrow> bool" where
  "middlewares_fail env obsv w e \<longleftrightarrow>
     (\<exists>evtr w'. BuildCommandMiddlewares (se_core env) obsv evtr w = (Err e, w')) \<or>
     (\<exists>w'. BuildQueryMiddlewares (se_core env) obsv w = (Err e, w'))"

definition observability_error ::
  "('z \<Rightarrow> 's) \<Rightarrow> 'z stow_env \<Rightarrow> ctx \<Rightarrow> ('z os_world_scheme \<Rightarrow> 'z os_world_scheme) \<Rightarrow> 'z os_world_scheme \<Rightarrow> error \<Rightarrow> bool" where
  "observability_error view env ctx reset w e \<longleftrightarrow>
     (\<exists>w'. builtObservability (se_telemetry env) ctx w = (Err e, w')) \<or>
     (\<exists>obsv w0 w1. builtObservability (se_telemetry env) ctx w = (Ok obsv, w0) \<and> still view w0 w1 \<and>
        middlewares_fail env obsv (reset w1) e)"

definition performed ::
  "('z \<Rightarrow> 's) \<Rightarrow> ('z os_world_scheme \<Rightarrow> 'z os_world_scheme) \<Rightarrow> ('z, 'a) os \<Rightarrow> ('a \<Rightarrow> 'b) \<Rightarrow>
   'z os_world_scheme \<Rightarrow> 'b outcome \<Rightarrow> 'z os_world_scheme \<Rightarrow> bool" where
  "performed view reset svc conv w r w' \<longleftrightarrow>
     (\<exists>w0 w1 o' w2. still view w w0 \<and> still view (reset w0) w1 \<and> svc w1 = (o', w2) \<and> still view w2 w' \<and>
        r = map_outcome conv o')"

text \<open>
  \<open>performs\<close>: the operation fails because of the observability and nothing has happened but the
  \<open>reset\<close>, or it ran the service once and its outcome is the service's, in the types of the interface.
\<close>

definition performs ::
  "('z \<Rightarrow> 's) \<Rightarrow> 'z stow_env \<Rightarrow> ctx \<Rightarrow> ('z os_world_scheme \<Rightarrow> 'z os_world_scheme) \<Rightarrow> ('z, 'b) os \<Rightarrow> ('z, 'a) os \<Rightarrow>
   ('a \<Rightarrow> 'b) \<Rightarrow> bool" where
  "performs view env ctx reset op svc conv \<longleftrightarrow>
     (\<forall>w r w'. op w = (r, w') \<longrightarrow>
        (\<exists>e w0. r = Err e \<and> observability_error view env ctx reset w e \<and> still view w w0 \<and>
           (still view w0 w' \<or> still view (reset w0) w')) \<or>
        performed view reset svc conv w r w')"

lemma observed_run:
  assumes "telemetry_apart view (se_telemetry env)" and "observed env ctx f w = (r, w')"
  shows "(\<exists>e. r = Err e \<and> (\<forall>reset. observability_error view env ctx reset w e) \<and> still view w w') \<or>
    (\<exists>obsv w0 w1. builtObservability (se_telemetry env) ctx w = (Ok obsv, w0) \<and> observes_apart view obsv \<and> still view w w0 \<and>
       f obsv w0 = (r, w1) \<and> still view w1 w')"
proof -
  obtain o' w0 where b: "builtObservability (se_telemetry env) ctx w = (o', w0)" by force
  note built = passesD [OF passes_built [OF assms(1)] b]
  show ?thesis
  proof (cases o')
    case (Ok obsv)
    with assms(2) b obtain w1 where f: "f obsv w0 = (r, w1)" and w': "w' = snd (ignoring (Shutdown obsv ctx) w1)"
      by (auto simp: observed_def andThen_run deferring_iff)
    from built(2) [OF Ok] have "observes_apart view obsv" .
    then have "calm view (Shutdown obsv ctx)" unfolding observes_apart_def by blast
    then have "still view w1 (snd (Shutdown obsv ctx w1))" unfolding passes_def by blast
    with w' have "still view w1 w'" by (simp add: ignoring_run)
    with built(1) Ok b f \<open>observes_apart view obsv\<close> show ?thesis by blast
  next
    case (Err e)
    with assms(2) b have "r = Err e" "w' = w0" by (simp_all add: observed_def andThen_run)
    with built(1) Err b show ?thesis unfolding observability_error_def by blast
  next
    case (Panic s)
    with built(3) show ?thesis by blast
  qed
qed

lemma dispatched:
  assumes m: "around view m' (answer zero svc mk)" and mk: "\<And>x. settles view (\<lambda>r. cont r = return (conv x)) (mk x)"
    and run: "dispatch m' cont w = (r, w')"
  shows "\<exists>w1 o' w2. still view w w1 \<and> svc w1 = (o', w2) \<and> still view w2 w' \<and> r = map_outcome conv o'"
proof -
  obtain a w0 where a: "m' w = (a, w0)" by force
  obtain w1 w2 where h: "still view w w1" "answer zero svc mk w1 = (a, w2)" "still view w2 w0" by (rule aroundD [OF m a])
  obtain o' w3 where s: "svc w1 = (o', w3)" by force
  show ?thesis
  proof (cases o')
    case (Ok x)
    obtain b w4 where b: "mk x w3 = (b, w4)" by force
    from settlesD [OF mk b] obtain y where y: "still view w3 w4" "b = Ok y" "cont y = return (conv x)" by blast
    with Ok s b h have "a = Ok (y, None)" "w4 = w2" by (simp_all add: answer_def tryCatch_run andThen_run return_run)
    with run a y have "r = Ok (conv x)" "w' = w0" by (simp_all add: dispatch_def andThen_run return_run)
    with Ok s h y \<open>w4 = w2\<close> show ?thesis by (intro exI [of _ w1] exI [of _ o'] exI [of _ w3]) (auto intro: still_trans)
  next
    case (Err e)
    with s h have "a = Ok (zero, Some e)" "w3 = w2" by (simp_all add: answer_def tryCatch_run return_run)
    with run a have "r = Err e" "w' = w0" by (simp_all add: dispatch_def andThen_run fail_run)
    with Err s h \<open>w3 = w2\<close> show ?thesis by (intro exI [of _ w1] exI [of _ o'] exI [of _ w3]) auto
  next
    case (Panic t)
    with s h have "a = Panic t" "w3 = w2" by (simp_all add: answer_def tryCatch_run)
    with run a have "r = Panic t" "w' = w0" by (simp_all add: dispatch_def andThen_run)
    with Panic s h \<open>w3 = w2\<close> show ?thesis by (intro exI [of _ w1] exI [of _ o'] exI [of _ w3]) auto
  qed
qed

text \<open>The making of the middlewares and what is behind them.\<close>

lemma built_run:
  assumes obs: "observes_apart view obsv" and build: "passes view (transparent view Q) build"
    and failing: "\<forall>e v'. build v = (Err e, v') \<longrightarrow> middlewares_fail env obsv v e"
    and fit: "\<And>ctx. yields Q (hnd ctx cmd)" and hnd: "hnd ctx cmd = answer zero svc mk"
    and mk: "\<And>x. settles view (\<lambda>r. cont r = return (conv x)) (mk x)"
    and run: "andThen build (\<lambda>mdw. dispatch (mdw hnd ctx cmd) cont) v = (r, w')"
  shows "(\<exists>e. r = Err e \<and> middlewares_fail env obsv v e \<and> still view v w') \<or>
    (\<exists>w1 o' w2. still view v w1 \<and> svc w1 = (o', w2) \<and> still view w2 w' \<and> r = map_outcome conv o')"
proof -
  obtain b w0 where b: "build v = (b, w0)" by force
  note built = passesD [OF build b]
  show ?thesis
  proof (cases b)
    case (Ok mdw)
    from built(2) [OF Ok] fit have "around view (mdw hnd ctx cmd) (answer zero svc mk)"
      unfolding transparent_def hnd [symmetric] by blast
    moreover from run b Ok have "dispatch (mdw hnd ctx cmd) cont w0 = (r, w')" by (simp add: andThen_run)
    ultimately have "\<exists>w1 o' w2. still view w0 w1 \<and> svc w1 = (o', w2) \<and> still view w2 w' \<and> r = map_outcome conv o'"
      by (rule dispatched [where mk = mk, OF _ mk])
    with built(1) show ?thesis by (blast intro: still_trans)
  next
    case (Err e)
    with run b have "r = Err e" "w' = w0" by (simp_all add: andThen_run)
    with failing b Err built(1) show ?thesis by blast
  next
    case (Panic s)
    with built(3) show ?thesis by blast
  qed
qed

text \<open>The common shape of the operations; \<open>build\<close> is the making of the middlewares.\<close>

lemma operation_performs:
  assumes tel: "telemetry_apart view (se_telemetry env)"
    and op: "op = observed env ctx (\<lambda>obsv. andThen pre (\<lambda>d. andThen (build obsv) (\<lambda>mdw. dispatch (mdw (hnd d) ctx cmd) cont)))"
    and pre: "\<And>w. pre w = (Ok d, reset w)"
    and build: "\<And>obsv. observes_apart view obsv \<Longrightarrow> passes view (transparent view (Q obsv)) (build obsv)"
    and failing: "\<And>obsv v e v'. build obsv v = (Err e, v') \<Longrightarrow> middlewares_fail env obsv v e"
    and fit: "\<And>obsv ctx. yields (Q obsv) (hnd d ctx cmd)"
    and hnd: "hnd d ctx cmd = answer zero svc mk"
    and mk: "\<And>x. settles view (\<lambda>r. cont r = return (conv x)) (mk x)"
  shows "performs view env ctx reset op svc conv"
  unfolding performs_def
proof (intro allI impI)
  fix w r w' assume "op w = (r, w')"
  from observed_run [OF tel this [unfolded op]]
  consider e where "r = Err e" "observability_error view env ctx reset w e" "still view w w'"
    | obsv w0 w1 where "builtObservability (se_telemetry env) ctx w = (Ok obsv, w0)" "observes_apart view obsv" "still view w w0"
        "andThen pre (\<lambda>d. andThen (build obsv) (\<lambda>mdw. dispatch (mdw (hnd d) ctx cmd) cont)) w0 = (r, w1)" "still view w1 w'"
    by blast
  then show "(\<exists>e w0. r = Err e \<and> observability_error view env ctx reset w e \<and> still view w w0 \<and>
      (still view w0 w' \<or> still view (reset w0) w')) \<or> performed view reset svc conv w r w'"
  proof cases
    case 1
    then show ?thesis using still_refl by blast
  next
    case 2
    have run: "andThen (build obsv) (\<lambda>mdw. dispatch (mdw (hnd d) ctx cmd) cont) (reset w0) = (r, w1)"
      using 2(4) by (simp add: andThen_run(1) [of pre, OF pre])
    have fails: "\<forall>e v'. build obsv (reset w0) = (Err e, v') \<longrightarrow> middlewares_fail env obsv (reset w0) e"
      using failing by blast
    from built_run [where hnd = "hnd d", OF 2(2) build [OF 2(2)] fails fit hnd mk run]
    show ?thesis
    proof (elim disjE exE conjE)
      fix e assume e: "r = Err e" "middlewares_fail env obsv (reset w0) e" "still view (reset w0) w1"
      have "observability_error view env ctx reset w e"
        unfolding observability_error_def using 2(1) e(2) still_refl by blast
      with e(1,3) 2(3,5) show ?thesis by (blast intro: still_trans)
    next
      fix w3 o' w4 assume "still view (reset w0) w3" "svc w3 = (o', w4)" "still view w4 w1" "r = map_outcome conv o'"
      with 2(3,5) have "performed view reset svc conv w r w'"
        unfolding performed_def by (blast intro: still_trans)
      then show ?thesis ..
    qed
  qed
qed

text \<open>
  An operation with an action of its own before the middlewares are made: the action is run, then the
  service that depends on its result, unless the observability stands in the way.
\<close>

definition performs_after ::
  "('z \<Rightarrow> 's) \<Rightarrow> 'z stow_env \<Rightarrow> ctx \<Rightarrow> ('z, 'b) os \<Rightarrow> ('z, 'd) os \<Rightarrow> ('d \<Rightarrow> ('z, 'a) os) \<Rightarrow> ('d \<Rightarrow> 'a \<Rightarrow> 'b) \<Rightarrow> bool" where
  "performs_after view env ctx op pre svc conv \<longleftrightarrow>
     (\<forall>w r w'. op w = (r, w') \<longrightarrow>
        (\<exists>e. r = Err e \<and> observability_error view env ctx id w e \<and> still view w w') \<or>
        (\<exists>w0 d w1. still view w w0 \<and> pre w0 = (d, w1) \<and>
           (case d of
              Ok x \<Rightarrow> performed view id (svc x) (conv x) w1 r w'
            | Err e \<Rightarrow> r = Err e \<and> still view w1 w'
            | Panic t \<Rightarrow> False)))"

lemma operation_performs_after:
  assumes tel: "telemetry_apart view (se_telemetry env)"
    and op: "op = observed env ctx (\<lambda>obsv. andThen pre (\<lambda>d. andThen (build obsv) (\<lambda>mdw. dispatch (mdw hnd ctx (cmd d)) (cont d))))"
    and pre: "calm view pre"
    and build: "\<And>obsv. observes_apart view obsv \<Longrightarrow> passes view (transparent view (Q obsv)) (build obsv)"
    and failing: "\<And>obsv v e v'. build obsv v = (Err e, v') \<Longrightarrow> middlewares_fail env obsv v e"
    and fit: "\<And>obsv d ctx. yields (Q obsv) (hnd ctx (cmd d))"
    and hnd: "\<And>d. hnd ctx (cmd d) = answer zero (svc d) mk"
    and mk: "\<And>d x. settles view (\<lambda>r. cont d r = return (conv d x)) (mk x)"
  shows "performs_after view env ctx op pre svc conv"
  unfolding performs_after_def
proof (intro allI impI)
  fix w r w' assume "op w = (r, w')"
  from observed_run [OF tel this [unfolded op]]
  consider e where "r = Err e" "observability_error view env ctx id w e" "still view w w'"
    | obsv w0 w1 where "builtObservability (se_telemetry env) ctx w = (Ok obsv, w0)" "observes_apart view obsv" "still view w w0"
        "andThen pre (\<lambda>d. andThen (build obsv) (\<lambda>mdw. dispatch (mdw hnd ctx (cmd d)) (cont d))) w0 = (r, w1)" "still view w1 w'"
    by blast
  then show "(\<exists>e. r = Err e \<and> observability_error view env ctx id w e \<and> still view w w') \<or>
        (\<exists>w0 d w1. still view w w0 \<and> pre w0 = (d, w1) \<and>
           (case d of
              Ok x \<Rightarrow> performed view id (svc x) (conv x) w1 r w'
            | Err e \<Rightarrow> r = Err e \<and> still view w1 w'
            | Panic t \<Rightarrow> False))"
  proof cases
    case 1
    then show ?thesis by blast
  next
    case 2
    obtain d w2 where d: "pre w0 = (d, w2)" by force
    note p = passesD [OF pre d]
    show ?thesis
    proof (cases d)
      case (Ok x)
      with 2(4) d have run: "andThen (build obsv) (\<lambda>mdw. dispatch (mdw hnd ctx (cmd x)) (cont x)) w2 = (r, w1)"
        by (simp add: andThen_run)
      have fails: "\<forall>e v'. build obsv w2 = (Err e, v') \<longrightarrow> middlewares_fail env obsv w2 e"
        using failing by blast
      from built_run [where cmd = "cmd x" and cont = "cont x", OF 2(2) build [OF 2(2)] fails fit hnd mk run]
      show ?thesis
      proof (elim disjE exE conjE)
        fix e assume e: "r = Err e" "middlewares_fail env obsv w2 e" "still view w2 w1"
        have "observability_error view env ctx id w e"
          unfolding observability_error_def using 2(1) e(2) p(1) by auto
        with e(1,3) 2(3,5) p(1) show ?thesis by (blast intro: still_trans)
      next
        fix w3 o' w4 assume "still view w2 w3" "svc x w3 = (o', w4)" "still view w4 w1" "r = map_outcome (conv x) o'"
        with 2(5) have "performed view id (svc x) (conv x) w2 r w'"
          unfolding performed_def id_def by (blast intro: still_trans still_refl)
        with 2(3) d Ok show ?thesis by (intro disjI2 exI [of _ w0] exI [of _ d] exI [of _ w2]) simp
      qed
    next
      case (Err e)
      with 2(4) d have "r = Err e" "w1 = w2" by (simp_all add: andThen_run)
      with 2(3,5) d Err show ?thesis by (intro disjI2 exI [of _ w0] exI [of _ d] exI [of _ w2]) simp
    next
      case (Panic t)
      with p(3) show ?thesis by blast
    qed
  qed
qed

end
