(* ===== verification/Facade_Properties.thy ===== *)
theory Facade_Properties
  imports Facade_Facts Choice_Properties
begin

section \<open>The interface and its services\<close>

subsection \<open>The results of the handlers\<close>

lemma settles_events_made:
  "settles view (\<lambda>ev. \<exists>b. ev = CreateSnapshotEvent b i n sz \<and> be_Name b = CreateSnapshotCommandName)
     (NewCreateSnapshotEvent u i n sz)"
  "settles view (\<lambda>ev. \<exists>b. ev = InitEvent b i ws) (NewInitEvent u i ws)"
  "settles view (\<lambda>ev. \<exists>b. ev = RestoreSnapshotEvent b i n fs ok \<and> be_Name b = RestoreSnapshotCommandName)
     (NewRestoreSnapshotEvent u i n fs ok)"
  by (auto intro!: settlesI simp: NewCreateSnapshotEvent_def NewInitEvent_def NewRestoreSnapshotEvent_def uuid_New_def
      andThen_run return_run still_def steady_def tick_def)

lemma yields_answer:
  assumes "\<And>x w r w'. mk x w = (Ok r, w') \<Longrightarrow> Q (r, None)" and "\<And>e. Q (zero, e)"
  shows "yields Q (answer zero svc mk)"
  unfolding yields_def answer_def using assms by (auto simp: tryCatch_Ok_iff andThen_Ok_iff return_run)

lemma events_fit_none: "yields (events_fit core evtr) (answer [] svc (\<lambda>_. return []))"
  by (rule yields_answer) (auto simp: events_fit_def return_run)

lemma events_fit_made:
  assumes mk: "\<And>x w. \<exists>ev w'. mk x w = (Ok [ev], w') \<and> fits (evtr (EventName core (basic ev))) ev"
  shows "yields (events_fit core evtr) (answer [] svc mk)"
proof (rule yields_answer)
  fix x w r w' assume "mk x w = (Ok r, w')"
  with mk [of x w] show "events_fit core evtr (r, None)" by (auto simp: events_fit_def)
qed (simp add: events_fit_def)

lemma failing_commands: "BuildCommandMiddlewares (se_core env) obsv evtr v = (Err e, v') \<Longrightarrow> middlewares_fail env obsv v e"
  and failing_queries: "BuildQueryMiddlewares (se_core env) obsv v = (Err e, v') \<Longrightarrow> middlewares_fail env obsv v e"
  unfolding middlewares_fail_def by blast+

text \<open>The empty cache with which a decryption service is made.\<close>

abbreviation fresh :: "'z stow_env \<Rightarrow> 'z os_world_scheme \<Rightarrow> 'z os_world_scheme" where
  "fresh env \<equiv> se_store env []"

abbreviation handler_decrypt :: "'z stow_env \<Rightarrow> 'z stow_Handler \<Rightarrow> 'z DecryptSymmetricKey" where
  "handler_decrypt env h \<equiv> decrypt_of env (symmetricKeyRepository h) (asymmetricKeyPaiRepository h)"

abbreviation own_decrypt :: "'z stow_env \<Rightarrow> 'z DecryptSymmetricKey" where
  "own_decrypt env \<equiv> decrypt_of env (SymmetricRepository (lib_crypto (out_lib (se_out env))))
     (DiskKeyPairRepository (lib_crypto (out_lib (se_out env))))"

definition pub_created :: "CreateResult \<Rightarrow> pub_CreateResult" where
  "pub_created r = \<lparr>pcr_ID = result_id r, pcr_FileCount = fileCount r, pcr_TotalSize = totalSize r\<rparr>"

subsection \<open>Commands with events\<close>

lemma CreateSnapshot_performs:
  assumes "telemetry_apart view (se_telemetry env)" and core: "core_lawful (se_core env)"
  shows "performs view env ctx (fresh env) (stow_CreateSnapshot env h ctx source k)
    (run_Create (se_schedule env) (create_service_of env h (handler_decrypt env h)) ctx (repositoryPath h) source k) pub_created"
proof -
  let ?u = "lib_uuid (out_lib (se_out env))"
  let ?mk = "\<lambda>r. andThen (NewCreateSnapshotEvent ?u (result_id r) (fileCount r) (totalSize r)) (\<lambda>ev. return [ev])"
  let ?evtr = "\<lambda>obsv. EventsTracing_Add CreateSnapshotCommandName (CreateSnapshotTracer (obs_Logger obsv)) NewEventsTracing"
  show ?thesis
    unfolding stow_CreateSnapshot_def Let_def
  proof (rule operation_performs [OF assms(1) refl, where Q = "\<lambda>obsv. events_fit (se_core env) (?evtr obsv)" and mk = ?mk and zero = "[]"])
    show "yields (events_fit (se_core env) (?evtr obsv)) (CreateSnapshot_Handle (se_core env) ?u
        (run_Create (se_schedule env) (create_service_of env h (handler_decrypt env h))) c
        (CreateSnapshotCmd \<lparr>cs_RepositoryPath = repositoryPath h, cs_SourcePath = source, cs_PrivateKey = k\<rparr>))" for obsv c
      using core unfolding CreateSnapshot_Handle_def
      by (auto intro!: events_fit_made simp: NewCreateSnapshotEvent_def uuid_New_def andThen_run return_run core_lawful_def
          EventsTracing_Add_def)
  qed (auto simp: NewDecryptSymmetricKey_def CreateSnapshot_Handle_def pub_created_def
      intro: Build_transparent core failing_commands intro!: settles_andThen [OF settles_events_made(1)] settles_return)
qed

lemma restore_fits:
  assumes "core_lawful core"
  shows "yields (events_fit core (restore_tracing obsv)) (answer [] svc (\<lambda>x.
    andThen (NewRestoreSnapshotEvent u (i x) (n x) (fs x) (ok x)) (\<lambda>ev. return [ev])))"
  using assms
  by (auto intro!: events_fit_made simp: NewRestoreSnapshotEvent_def uuid_New_def andThen_run return_run core_lawful_def
      restore_tracing_def EventsTracing_Add_def)

lemma RestoreFile_performs:
  assumes "telemetry_apart view (se_telemetry env)" and core: "core_lawful (se_core env)"
  shows "performs view env ctx (fresh env) (stow_RestoreFile env h ctx s f d k)
    (RestoreFile_Restore (manifestRepository h) (objectRepository h) (folderRepository h) (own_decrypt env) ctx s f
       (repositoryPath h) d k) (\<lambda>_. ())"
proof -
  let ?u = "lib_uuid (out_lib (se_out env))"
  show ?thesis
    unfolding stow_RestoreFile_def
    by (rule operation_performs [OF assms(1) refl, where Q = "\<lambda>obsv. events_fit (se_core env) (restore_tracing obsv)" and
          mk = "\<lambda>_. andThen (NewRestoreSnapshotEvent ?u s 1 [] True) (\<lambda>ev. return [ev])" and zero = "[]"])
      (auto simp: restore_decrypt_def NewDecryptSymmetricKey_def RestoreFile_Handle_def
        intro: Build_transparent core failing_commands restore_fits
        intro!: settles_andThen [OF settles_events_made(3)] settles_return)
qed

lemma RestoreSnapshot_performs:
  assumes "telemetry_apart view (se_telemetry env)" and core: "core_lawful (se_core env)"
  shows "performs view env ctx (fresh env) (stow_RestoreSnapshot env h ctx s d k)
    (Restore_Restore (manifestRepository h) (objectRepository h) (folderRepository h) (own_decrypt env) ctx s
       (repositoryPath h) d k) pub_result"
proof -
  let ?u = "lib_uuid (out_lib (se_out env))"
  let ?mk = "\<lambda>r. andThen (NewRestoreSnapshotEvent ?u (snapshotID r) (totalFiles r) (app_failed r) (IsSuccess r)) (\<lambda>ev. return [ev])"
  show ?thesis
    unfolding stow_RestoreSnapshot_def
    by (rule operation_performs [OF assms(1) refl, where Q = "\<lambda>obsv. events_fit (se_core env) (restore_tracing obsv)" and
          mk = ?mk and zero = "[]"])
      (auto simp: restore_decrypt_def NewDecryptSymmetricKey_def RestoreSnapshot_Handle_def pub_result_def app_failed_def comp_def
        intro: Build_transparent core failing_commands restore_fits
        intro!: settles_andThen [OF settles_events_made(3)] settles_return)
qed

subsection \<open>Commands without events, and queries\<close>

text \<open>An operation without a decryption service is one that resets nothing.\<close>

lemma plain_performs:
  assumes tel: "telemetry_apart view (se_telemetry env)"
    and op: "op = observed env ctx (\<lambda>obsv. andThen (build obsv) (\<lambda>mdw. dispatch (mdw hnd ctx cmd) cont))"
    and build: "\<And>obsv. observes_apart view obsv \<Longrightarrow> passes view (transparent view (Q obsv)) (build obsv)"
    and failing: "\<And>obsv v e v'. build obsv v = (Err e, v') \<Longrightarrow> middlewares_fail env obsv v e"
    and fit: "\<And>obsv ctx. yields (Q obsv) (hnd ctx cmd)"
    and hnd: "hnd ctx cmd = answer zero svc mk"
    and mk: "\<And>x. settles view (\<lambda>r. cont r = return (conv x)) (mk x)"
  shows "performs view env ctx id op svc conv"
  by (rule operation_performs [where pre = "return ()" and hnd = "\<lambda>_. hnd", OF tel _ _ build failing fit hnd mk])
    (simp_all add: op return_run)

lemma key_changes_perform:
  assumes "telemetry_apart view (se_telemetry env)" and core: "core_lawful (se_core env)"
  shows "performs view env ctx id (stow_ReKey env h ctx a b)
      (run_ReKey (se_schedule env) (rekey_service_of h) ctx (repositoryPath h) a b) (\<lambda>_. ())"
    and "performs view env ctx id (stow_Rewrap env h ctx a b)
      (Rewrap_Do (folderRepository h) (symmetricKeyRepository h) (asymmetricKeyPaiRepository h) ctx (repositoryPath h) a b) (\<lambda>_. ())"
proof -
  show "performs view env ctx id (stow_ReKey env h ctx a b)
      (run_ReKey (se_schedule env) (rekey_service_of h) ctx (repositoryPath h) a b) (\<lambda>_. ())"
    unfolding stow_ReKey_def Let_def
    by (rule plain_performs [OF assms(1) refl, where Q = "\<lambda>_. events_fit (se_core env) NewEventsTracing" and zero = "[]" and
          mk = "\<lambda>_. return []"])
      (auto simp: RekeyKey_Handle_def intro: Build_transparent core failing_commands events_fit_none settles_return)
  show "performs view env ctx id (stow_Rewrap env h ctx a b)
      (Rewrap_Do (folderRepository h) (symmetricKeyRepository h) (asymmetricKeyPaiRepository h) ctx (repositoryPath h) a b) (\<lambda>_. ())"
    unfolding stow_Rewrap_def
    by (rule plain_performs [OF assms(1) refl, where Q = "\<lambda>_. events_fit (se_core env) NewEventsTracing" and zero = "[]" and
          mk = "\<lambda>_. return []"])
      (auto simp: RewrapKey_Handle_def intro: Build_transparent core failing_commands events_fit_none settles_return)
qed

lemma yields_True: "yields (\<lambda>_. True) m" by (simp add: yields_def)

lemma queries_perform:
  assumes "telemetry_apart view (se_telemetry env)" and core: "core_lawful (se_core env)"
  shows "performs view env ctx id (stow_ListSnapshots env h ctx) (Listing_List (manifestRepository h) ctx) (map pub_summary)"
    and "performs view env ctx id (stow_GetManifest env h ctx s) (GetManifest_Get (manifestRepository h) ctx s) pub_manifest"
    and "performs view env ctx (fresh env) (stow_VerifySnapshot env h ctx s k)
      (run_Verify (se_schedule env) (verify_service_of env h (handler_decrypt env h)) ctx (repositoryPath h) s k) pub_result"
proof -
  show "performs view env ctx id (stow_ListSnapshots env h ctx) (Listing_List (manifestRepository h) ctx) (map pub_summary)"
    unfolding stow_ListSnapshots_def
    by (rule plain_performs [OF assms(1) refl, where Q = "\<lambda>_ _. True" and zero = "AnyResumes []" and
          mk = "\<lambda>items. return (AnyResumes items)"])
      (auto simp: SnapshotList_Handle_def intro: Build_transparent core failing_queries yields_True settles_return)
  show "performs view env ctx id (stow_GetManifest env h ctx s) (GetManifest_Get (manifestRepository h) ctx s) pub_manifest"
    unfolding stow_GetManifest_def
    by (rule plain_performs [OF assms(1) refl, where Q = "\<lambda>_ _. True" and zero = "AnyManifest None" and
          mk = "\<lambda>m. return (AnyManifest (Some m))"])
      (auto simp: ManifestGet_Handle_def intro: Build_transparent core failing_queries yields_True settles_return)
  show "performs view env ctx (fresh env) (stow_VerifySnapshot env h ctx s k)
      (run_Verify (se_schedule env) (verify_service_of env h (handler_decrypt env h)) ctx (repositoryPath h) s k) pub_result"
    unfolding stow_VerifySnapshot_def Let_def
    by (rule operation_performs [OF assms(1) refl, where Q = "\<lambda>_ _. True" and zero = "AnyResult None" and
          mk = "\<lambda>v. return (AnyResult (Some v))"])
      (auto simp: NewDecryptSymmetricKey_def VerifySnapshot_Handle_def
        intro: Build_transparent core failing_queries yields_True settles_return)
qed

lemma calm_random: "calm view (random_bytes n)"
  by (rule passesI) (auto simp: random_bytes_def sys_def still_def steady_def tick_def split: option.splits)

lemma KeyGenerate_performs:
  assumes "telemetry_apart view (se_telemetry env)" and core: "core_lawful (se_core env)"
  shows "performs_after view env ctx (stow_KeyGenerate env h ctx folder) (NewAsymmetricKeyPair folder)
    (CreateAsymmetricKeyPair_Create (lib_crypto (out_lib (se_out env))) (asymmetricKeyPaiRepository h) ctx) (\<lambda>keys _. keys)"
  unfolding stow_KeyGenerate_def
proof (rule operation_performs_after [OF assms(1) refl, where Q = "\<lambda>_. events_fit (se_core env) NewEventsTracing" and zero = "[]" and
      mk = "\<lambda>_. return []"])
  show "calm view (NewAsymmetricKeyPair folder)"
    unfolding NewAsymmetricKeyPair_def generateKeyID_def
    by (intro passes_andThen [where Q = "\<lambda>_. True"] passes_orWrap calm_random passes_return) simp_all
qed (auto simp: GenerateKey_Handle_def intro: Build_transparent core failing_commands events_fit_none settles_return)

text \<open>
  C12: with logs, traces and metrics that keep to themselves, nine of the ten operations of the library's interface
  (creating, verifying and restoring a snapshot, restoring a file, rekeying, rewrapping, listing, getting a manifest,
  generating keys) either fail because the observability cannot be started in that run, with nothing changed but the key
  cache, or run their service exactly once, on the handler's repositories and with an empty key cache, end as the
  service does, its errors and panics included, and do nothing else before or after. Generating keys first draws the
  names of the two files, and fails when that fails. The tenth, initialising, is the subject of a property of its own.
\<close>

theorem facade_performs:
  assumes "telemetry_apart view (se_telemetry env)" and "core_lawful (se_core env)"
  shows "performs view env ctx (fresh env) (stow_CreateSnapshot env h ctx source k)
       (run_Create (se_schedule env) (create_service_of env h (handler_decrypt env h)) ctx (repositoryPath h) source k) pub_created \<and>
     performs view env ctx (fresh env) (stow_VerifySnapshot env h ctx s k)
       (run_Verify (se_schedule env) (verify_service_of env h (handler_decrypt env h)) ctx (repositoryPath h) s k) pub_result \<and>
     performs view env ctx (fresh env) (stow_RestoreSnapshot env h ctx s d k)
       (Restore_Restore (manifestRepository h) (objectRepository h) (folderRepository h) (own_decrypt env) ctx s
          (repositoryPath h) d k) pub_result \<and>
     performs view env ctx (fresh env) (stow_RestoreFile env h ctx s f d k)
       (RestoreFile_Restore (manifestRepository h) (objectRepository h) (folderRepository h) (own_decrypt env) ctx s f
          (repositoryPath h) d k) (\<lambda>_. ()) \<and>
     performs view env ctx id (stow_ReKey env h ctx a b)
       (run_ReKey (se_schedule env) (rekey_service_of h) ctx (repositoryPath h) a b) (\<lambda>_. ()) \<and>
     performs view env ctx id (stow_Rewrap env h ctx a b)
       (Rewrap_Do (folderRepository h) (symmetricKeyRepository h) (asymmetricKeyPaiRepository h) ctx (repositoryPath h) a b) (\<lambda>_. ()) \<and>
     performs view env ctx id (stow_ListSnapshots env h ctx) (Listing_List (manifestRepository h) ctx) (map pub_summary) \<and>
     performs view env ctx id (stow_GetManifest env h ctx s) (GetManifest_Get (manifestRepository h) ctx s) pub_manifest \<and>
     performs_after view env ctx (stow_KeyGenerate env h ctx folder) (NewAsymmetricKeyPair folder)
       (CreateAsymmetricKeyPair_Create (lib_crypto (out_lib (se_out env))) (asymmetricKeyPaiRepository h) ctx) (\<lambda>keys _. keys)"
  by (intro conjI CreateSnapshot_performs RestoreSnapshot_performs RestoreFile_performs key_changes_perform queries_perform
      KeyGenerate_performs assms)

subsection \<open>Initialising\<close>

lemma init_run:
  assumes m: "around view m' (answer [] svc (\<lambda>r. andThen (NewInitEvent u (ID r) (Warnings r)) (\<lambda>ev. return [ev])))"
    and warn: "\<And>t. settles view (\<lambda>_. True) (slog_Warn env t)"
    and run: "andThen m' (init_outcome env) w = (r, w')"
  shows "\<exists>w1 o' w2. still view w w1 \<and> svc w1 = (o', w2) \<and> still view w2 w' \<and>
    r = (case o' of Ok _ \<Rightarrow> Ok () | Err _ \<Rightarrow> Err (ErrText ''unexpected number of init events'') | Panic t \<Rightarrow> Panic t)"
proof -
  obtain a w0 where a: "m' w = (a, w0)" by force
  obtain w1 w2 where h: "still view w w1" "still view w2 w0"
      "answer [] svc (\<lambda>r. andThen (NewInitEvent u (ID r) (Warnings r)) (\<lambda>ev. return [ev])) w1 = (a, w2)"
    by (rule aroundD [OF m a])
  obtain o' w3 where s: "svc w1 = (o', w3)" by force
  show ?thesis
  proof (cases o')
    case (Ok x)
    obtain c w4 where c: "NewInitEvent u (ID x) (Warnings x) w3 = (c, w4)" by force
    from settlesD [OF settles_events_made(2) c] obtain b where b: "still view w3 w4" "c = Ok (InitEvent b (ID x) (Warnings x))" by blast
    with Ok s c h(3) have "a = Ok ([InitEvent b (ID x) (Warnings x)], None)" "w4 = w2"
      by (simp_all add: answer_def tryCatch_run andThen_run return_run)
    with run a have "andThen (for_each (slog_Warn env) (Warnings x)) (\<lambda>_. return ()) w0 = (r, w')"
      by (simp add: andThen_run init_outcome_def)
    moreover have "settles view (\<lambda>y. y = ()) (andThen (for_each (slog_Warn env) (Warnings x)) (\<lambda>_. return ()))"
      by (rule settles_andThen [OF settles_for_each]) (auto intro: warn settles_return)
    ultimately have "r = Ok ()" "still view w0 w'" using settlesD by fastforce+
    with Ok s h b \<open>w4 = w2\<close> show ?thesis by (intro exI [of _ w1] exI [of _ o'] exI [of _ w3]) (auto intro: still_trans)
  next
    case (Err e)
    with s h(3) have "a = Ok ([], Some e)" "w3 = w2" by (simp_all add: answer_def tryCatch_run return_run)
    with run a have "r = Err (ErrText ''unexpected number of init events'')" "w' = w0"
      by (simp_all add: andThen_run init_outcome_def fail_run)
    with Err s h \<open>w3 = w2\<close> show ?thesis by (intro exI [of _ w1] exI [of _ o'] exI [of _ w3]) auto
  next
    case (Panic t)
    with s h(3) have "a = Panic t" "w3 = w2" by (simp_all add: answer_def tryCatch_run)
    with run a have "r = Panic t" "w' = w0" by (simp_all add: andThen_run)
    with Panic s h \<open>w3 = w2\<close> show ?thesis by (intro exI [of _ w1] exI [of _ o'] exI [of _ w3]) auto
  qed
qed

text \<open>
  C39: initialising a repository through the interface, with or without encryption. Once the compression is a known
  one and the encryption of the new configuration has been made (none, without a public key), the operation fails
  because the observability cannot be started, or it runs the service on the configuration that was asked for; but it
  reports every error of the service as an unexpected number of events: the number of events is looked at before the
  error, and what went wrong is lost. Logs, traces and metrics, the warnings among them, keep to themselves.
\<close>

theorem Init_hides_error:
  assumes tel: "telemetry_apart view (se_telemetry env)" and core: "core_lawful (se_core env)"
    and warn: "\<And>t. settles view (\<lambda>_. True) (slog_Warn env t)"
    and comp: "ParseCompressionType (pc_Type v) = Ok ct" "NewCompression ct (pc_Level v) = Ok c" and root: "repositoryPath h \<noteq> []"
    and enc: "encryption_of_new h ctx pubKey w0 = (Ok enc, w)"
    and run: "stow_Init env h ctx (Some v) format pubKey force w0 = (r, w')"
  shows "(\<exists>e v. r = Err e \<and> still view w v \<and> observability_error view env ctx id v e \<and> still view w w') \<or>
    (\<exists>conf w1 o' w2. compression conf = Some c \<and> encryption conf = enc \<and> formatVersion conf = ParseFormatVersion format \<and>
       still view w w1 \<and>
       Init_Do (lib_uuid (out_lib (se_out env))) (folderRepository h) ctx \<lparr>path = repositoryPath h, config = Some conf\<rparr> force w1
         = (o', w2) \<and>
       still view w2 w' \<and>
       r = (case o' of Ok _ \<Rightarrow> Ok () | Err _ \<Rightarrow> Err (ErrText ''unexpected number of init events'') | Panic t \<Rightarrow> Panic t))"
proof -
  let ?u = "lib_uuid (out_lib (se_out env))"
  let ?svc = "Init_Do ?u (folderRepository h)"
  let ?body = "\<lambda>cmd obsv. andThen (BuildCommandMiddlewares (se_core env) obsv NewEventsTracing) (\<lambda>mdw.
    andThen (mdw (Init_Handle (se_core env) ?u ?svc) ctx (InitCmd cmd)) (init_outcome env))"
  obtain i wa where i: "uuid_New ?u w = (Ok i, wa)" "still view w wa"
    by (simp add: uuid_New_def still_def steady_def tick_def)
  obtain t w1 where t: "time_Now wa = (Ok t, w1)" "still view wa w1"
    by (simp add: time_Now_def still_def steady_def tick_def)
  define conf where "conf = \<lparr>conf_id = i, formatVersion = ParseFormatVersion format, createdAt = t, compression = Some c, encryption = enc\<rparr>"
  define repo where "repo = \<lparr>path = repositoryPath h, config = Some conf\<rparr>"
  have "NewConfig i (ParseFormatVersion format) (Some c) enc wa = (Ok conf, w1)"
    using t by (simp add: NewConfig_def andThen_run return_run conf_def)
  moreover have "NewRepository (repositoryPath h) (Some conf) = Ok repo"
    using root by (simp add: NewRepository_def Repository_validate_def repo_def)
  ultimately have "observed env ctx (?body \<lparr>ic_Repository = repo, ic_Force = force\<rparr>) w1 = (r, w')"
    using run comp i enc by (simp add: stow_Init_def andThen_run lift_outcome_run)
  from observed_run [OF tel this]
  consider e where "r = Err e" "observability_error view env ctx id w1 e" "still view w1 w'"
    | obsv w2 w3 where "builtObservability (se_telemetry env) ctx w1 = (Ok obsv, w2)" "observes_apart view obsv" "still view w1 w2"
        "?body \<lparr>ic_Repository = repo, ic_Force = force\<rparr> obsv w2 = (r, w3)" "still view w3 w'"
    by blast
  then show ?thesis
  proof cases
    case 1
    with still_trans [OF i(2) still_trans [OF t(2) 1(3)]] still_trans [OF i(2) t(2)] show ?thesis
      by (intro disjI1 exI [of _ e] exI [of _ w1]) simp
  next
    case 2
    obtain b w4 where b: "BuildCommandMiddlewares (se_core env) obsv NewEventsTracing w2 = (b, w4)" by force
    note built = passesD [OF Build_transparent(1) [OF 2(2) core] b]
    show ?thesis
    proof (cases b)
      case (Ok mdw)
      let ?cmd = "InitCmd \<lparr>ic_Repository = repo, ic_Force = force\<rparr>"
      have "Init_Handle (se_core env) ?u ?svc x ?cmd = answer [] (?svc x repo force)
          (\<lambda>r. andThen (NewInitEvent ?u (ID r) (Warnings r)) (\<lambda>ev. return [ev]))" for x
        by (simp add: Init_Handle_def)
      moreover have "yields (events_fit (se_core env) NewEventsTracing) (Init_Handle (se_core env) ?u ?svc x ?cmd)" for x
        by (auto simp: yields_def events_fit_def NewEventsTracing_def)
      ultimately have "around view (mdw (Init_Handle (se_core env) ?u ?svc) ctx ?cmd) (answer [] (?svc ctx repo force)
          (\<lambda>r. andThen (NewInitEvent ?u (ID r) (Warnings r)) (\<lambda>ev. return [ev])))"
        using built(2) [OF Ok] unfolding transparent_def by metis
      moreover have "andThen (mdw (Init_Handle (se_core env) ?u ?svc) ctx ?cmd) (init_outcome env) w4 = (r, w3)"
        using 2(4) b Ok by (simp add: andThen_run)
      ultimately obtain w5 o' w6 where s: "still view w4 w5" "?svc ctx repo force w5 = (o', w6)" "still view w6 w3"
        "r = (case o' of Ok _ \<Rightarrow> Ok () | Err _ \<Rightarrow> Err (ErrText ''unexpected number of init events'') | Panic t \<Rightarrow> Panic t)"
        using init_run [OF _ warn] by blast
      have "still view w w5" "still view w6 w'"
        using still_trans [OF still_trans [OF i(2) t(2)] still_trans [OF 2(3) still_trans [OF built(1) s(1)]]]
          still_trans [OF s(3) 2(5)] by simp_all
      with s(2,4) show ?thesis
        by (intro disjI2 exI [of _ conf] exI [of _ w5] exI [of _ o'] exI [of _ w6]) (simp add: conf_def repo_def)
    next
      case (Err e)
      with 2(4) b have "r = Err e" "w3 = w4" by (simp_all add: andThen_run)
      moreover have "still view w w'"
        using still_trans [OF still_trans [OF i(2) t(2)] still_trans [OF 2(3) still_trans [OF built(1) 2(5) [unfolded \<open>w3 = w4\<close>]]]] by simp
      moreover have "observability_error view env ctx id w1 e"
        unfolding observability_error_def using 2(1) failing_commands [OF b [unfolded Err]] still_refl by fastforce
      ultimately show ?thesis using still_trans [OF i(2) t(2)] by (intro disjI1 exI [of _ e] exI [of _ w1]) simp
    next
      case (Panic s)
      with built(3) show ?thesis by blast
    qed
  qed
qed

subsection \<open>A program to compute with\<close>

text \<open>Nothing is exported, the log is mute; one snapshot is listed, and the folder repository does not answer.\<close>

primcorec mute :: "'z slog_Handler" where
  "mute = slog_Handler (\<lambda>_ _. False) (\<lambda>_ _. return ()) (\<lambda>_. mute) (\<lambda>_. mute)"

definition toy_span :: "'z Span" where
  "toy_span = \<lparr>SetAttributes = (\<lambda>_. return ()), RecordError = (\<lambda>_. return ()), SetStatus = (\<lambda>_ _. return ()), span_End = return ()\<rparr>"

definition toy_tracer :: "'z TracerProvider" where "toy_tracer name ctx op = return (ctx, toy_span)"

definition toy_meter :: "'z MeterProvider" where
  "toy_meter name = \<lparr>Int64Counter = (\<lambda>_ _ _. return (\<lambda>_ _ _. return ())), Float64Histogram = (\<lambda>_ _ _. return (\<lambda>_ _ _. return ()))\<rparr>"

definition toy_telemetry :: "'z telemetry" where
  "toy_telemetry = \<lparr>
     env_Observability = Ok \<lparr>OTELExporterEndpoint = None, OTELExporterProtocol = Some ''http/protobuf'',
       OTELServiceName = Some ''stowmark'', LogLevel = ''debug''\<rparr>,
     os_Setenv = (\<lambda>_ _. return ()), resource_New = (\<lambda>_ _. return 0),
     otlptracehttp_New = (\<lambda>_. return 0), otlptracegrpc_New = (\<lambda>_. return 0), otlpmetrichttp_New = (\<lambda>_. return 0),
     otlpmetricgrpc_New = (\<lambda>_. return 0), otlploghttp_New = (\<lambda>_. return 0), otlploggrpc_New = (\<lambda>_. return 0),
     sdktrace_NewTracerProvider = (\<lambda>_ _. return \<lparr>tp_Tracer = toy_tracer, tp_Shutdown = (\<lambda>_. return ())\<rparr>),
     sdkmetric_NewMeterProvider = (\<lambda>_ _ _ _. return \<lparr>mp_Meter = toy_meter, mp_Shutdown = (\<lambda>_. return ())\<rparr>),
     sdklog_NewLoggerProvider = (\<lambda>_ _. return \<lparr>lp_Shutdown = (\<lambda>_. return ())\<rparr>),
     tracenoop_NewTracerProvider = toy_tracer, metricnoop_NewMeterProvider = toy_meter,
     slog_NewTextHandler = (\<lambda>_. mute), otelslog_NewHandler = (\<lambda>_ _. mute)\<rparr>"

definition toy_core :: "'z cqs" where
  "toy_core = \<lparr>NewInvalidCommandError = (\<lambda>a b. ErrText a), NewInvalidQueryError = (\<lambda>a b. ErrText a),
     CommandHandlerMultiMiddleware = (\<lambda>ms. foldr (\<circ>) ms id), QueryHandlerMultiMiddleware = (\<lambda>ms. foldr (\<circ>) ms id),
     EventName = be_Name\<rparr>"

definition toy_env :: "int stow_env" where
  "toy_env = \<lparr>se_out = toy_out share_url, se_telemetry = toy_telemetry, se_core = toy_core,
     se_schedule = \<lparr>run_Create = (\<lambda>_ _ _ _ _. down), run_Verify = (\<lambda>_ _ _ _ _. down), run_ReKey = (\<lambda>_ _ _ _ _. down)\<rparr>,
     se_stamp = (\<lambda>_. ''now''), se_procs = 4, se_cached = (\<lambda>_. []), se_store = (\<lambda>_ w. w), slog_Warn = (\<lambda>_. return ())\<rparr>"

definition toy_snapshot :: Manifest where
  "toy_snapshot = \<lparr>man_id = ''one'', man_files = [\<lparr>file_path = ''/a'', file_size = 7, file_hash = ''abc'', file_chunks = []\<rparr>],
     man_createdAt = 5, man_source = ''/'', man_compression = None\<rparr>"

definition toy_handler :: "int stow_Handler" where
  "toy_handler = \<lparr>
     folderRepository = \<lparr>Exists = (\<lambda>_ _. down), CreateFolder = (\<lambda>_ _. down), CreateConfig = (\<lambda>_ _ _. down), GetConfig = (\<lambda>_ _. down)\<rparr>,
     sourceRepository = DiskSourceRepository toy_lib,
     manifestRepository = (DiskManifestRepository toy_lib ''/repo'')\<lparr>ListManifests := \<lambda>_. return [toy_snapshot]\<rparr>,
     objectRepository = DiskObjectRepository toy_lib ''/repo'', repositoryPath = ''/repo'',
     repositoriesHandler = NewLocalRepositories (toy_out share_url) ''/repo'',
     asymmetricKeyPaiRepository = DiskKeyPairRepository (lib_crypto toy_lib),
     symmetricKeyRepository = SymmetricRepository (lib_crypto toy_lib)\<rparr>"

lemma toy_telemetry_apart: "telemetry_apart view toy_telemetry"
  by (simp add: telemetry_apart_def toy_telemetry_def traces_apart_def meters_apart_def logs_apart_def toy_tracer_def toy_meter_def
      passes_return settles_return span_apart_def toy_span_def instrument_apart_def)

lemma toy_core_lawful: "core_lawful toy_core"
  unfolding core_lawful_def toy_core_def by auto

lemma toy_metrics:
  "NewCommandMetrics (toy_meter n) = return \<lparr>Executions = (\<lambda>_ _ _. return ()), Duration = (\<lambda>_ _ _. return ()),
     Events = (\<lambda>_ _ _. return ())\<rparr>"
  "NewQueryMetrics (toy_meter n) = return \<lparr>query_Executions = (\<lambda>_ _ _. return ()), query_Duration = (\<lambda>_ _ _. return ())\<rparr>"
  by (simp_all add: NewCommandMetrics_def NewQueryMetrics_def toy_meter_def)

lemma toy_middlewares:
  "obs_MeterProvider obsv = toy_meter \<Longrightarrow> BuildCommandMiddlewares core obsv evtr w \<noteq> (Err e, w')"
  "obs_MeterProvider obsv = toy_meter \<Longrightarrow> BuildQueryMiddlewares core obsv w \<noteq> (Err e, w')"
  by (simp_all add: BuildCommandMiddlewares_def BuildQueryMiddlewares_def Let_def NewMeterCommandMiddleware_def
      NewMeterQueryMiddleware_def toy_metrics) (simp_all add: return_run)

lemma toy_built: "builtObservability toy_telemetry ctx w = (Ok (newNoop toy_telemetry), w)"
  by (simp add: builtObservability_def NewObservabilityConfig_def toy_telemetry_def setOTELVars_def Observability_New_def
      andThen_run lift_outcome_run return_run)

lemma toy_observed: "\<not> observability_error view toy_env ctx reset w e"
proof -
  have "obs_MeterProvider (newNoop (toy_telemetry :: int telemetry)) = toy_meter" by (simp add: newNoop_def toy_telemetry_def)
  moreover have "se_telemetry toy_env = toy_telemetry" by (simp add: toy_env_def)
  ultimately show ?thesis by (auto simp: observability_error_def middlewares_fail_def toy_built toy_middlewares)
qed

theorem facade_performs_witness:
  "fst (stow_ListSnapshots toy_env toy_handler background idle) =
     Ok [\<lparr>sum_ID = ''one'', sum_CreatedAt = 5, sum_FileCount = 1, sum_TotalSize = 7, sum_Source = ''/''\<rparr>]"
proof -
  have laws: "telemetry_apart id (se_telemetry toy_env)" "core_lawful (se_core toy_env)"
    by (simp_all add: toy_env_def toy_telemetry_apart toy_core_lawful)
  obtain r w' where run: "stow_ListSnapshots toy_env toy_handler background idle = (r, w')" by force
  from facade_performs [OF laws, of background toy_handler] have
    "performs id toy_env background id (stow_ListSnapshots toy_env toy_handler background)
       (Listing_List (manifestRepository toy_handler) background) (map pub_summary)" by blast
  with run toy_observed obtain w1 o' w2 where
    "Listing_List (manifestRepository toy_handler) background w1 = (o', w2)" "r = map_outcome (map pub_summary) o'"
    unfolding performs_def performed_def by blast
  moreover have "manifest_resume toy_snapshot = \<lparr>resume_id = ''one'', resume_createdAt = 5, resume_files = 1, resume_size = 7,
      resume_source = ''/''\<rparr>" by code_simp
  ultimately show ?thesis using run
    by (auto simp: Listing_List_def toy_handler_def andThen_run return_run pub_summary_def)
qed

theorem Init_hides_error_witness:
  "fst (stow_Init toy_env toy_handler background (Some \<lparr>pc_Type = ''zstd'', pc_Level = Some 3\<rparr>) 2 None False idle) =
     Err (ErrText ''unexpected number of init events'')"
proof -
  have laws: "telemetry_apart id (se_telemetry toy_env)" "core_lawful (se_core toy_env)"
    "\<And>t. settles id (\<lambda>_. True) (slog_Warn toy_env t)"
    by (simp_all add: toy_env_def toy_telemetry_apart toy_core_lawful settles_return)
  obtain ct c where comp: "ParseCompressionType ''zstd'' = Ok ct" "NewCompression ct (Some 3) = Ok c"
  proof -
    have "case ParseCompressionType ''zstd'' of Ok ct \<Rightarrow> is_Ok (NewCompression ct (Some 3)) | _ \<Rightarrow> False" by code_simp
    then show ?thesis using that by (auto split: outcome.splits elim: is_Ok_E)
  qed
  obtain r w' where run: "stow_Init toy_env toy_handler background (Some \<lparr>pc_Type = ''zstd'', pc_Level = Some 3\<rparr>) 2 None False idle
      = (r, w')" by force
  have root: "repositoryPath toy_handler \<noteq> []" by (simp add: toy_handler_def)
  let ?v = "\<lparr>pc_Type = ''zstd'', pc_Level = Some 3\<rparr>"
  have v: "ParseCompressionType (pc_Type ?v) = Ok ct" "NewCompression ct (pc_Level ?v) = Ok c" using comp by simp_all
  have enc: "encryption_of_new toy_handler background None idle = (Ok None, idle)"
    by (simp add: encryption_of_new_def return_run)
  from Init_hides_error [OF laws v root enc run] toy_observed obtain conf w1 o' w2 where
    "Init_Do (lib_uuid (out_lib (se_out toy_env))) (folderRepository toy_handler) background
       \<lparr>path = repositoryPath toy_handler, config = Some conf\<rparr> False w1 = (o', w2)"
    "r = (case o' of Ok _ \<Rightarrow> Ok () | Err _ \<Rightarrow> Err (ErrText ''unexpected number of init events'') | Panic t \<Rightarrow> Panic t)"
    by blast
  then show ?thesis using run by (auto simp: Init_Do_def toy_handler_def andThen_run down_def)
qed

end
