(* ===== verification/CLI.thy ===== *)
theory CLI
  imports Facade
begin

section \<open>The command line\<close>

text \<open>
  \<^verbatim>\<open>internal/infra/cli\<close> and \<^verbatim>\<open>cmd/cli/main.go\<close>: the commands with their
  flags, what each of them does and what it prints. A command is given the values of its flags and its
  arguments by \<^verbatim>\<open>cobra\<close>, which parses them. Writing to the output, the
  \<^verbatim>\<open>tabwriter\<close>, quoting, the local time and the rounding of a quotient to one decimal are the
  fields of one record, the parameter of this theory beside that of the interface.
\<close>

subsection \<open>What it is given\<close>

record 'z tabwriter =
  tw_Write :: "string \<Rightarrow> ('z, unit) os"
  tw_Flush :: "('z, unit) os"

datatype flag_value = StringValue string | IntValue int | BoolValue bool

type_synonym flag_values = "string \<Rightarrow> flag_value"

record flag =
  flag_Name :: string
  flag_Default :: flag_value
  flag_Usage :: string

datatype Args = AnyArgs | NoArgs | ExactArgs nat

datatype 'z Command =
  Command (cmd_Use: string) (cmd_Short: string) (cmd_Args: Args) (cmd_Flags: "flag list") (cmd_Required: "string list")
    (cmd_RunE: "(ctx \<Rightarrow> flag_values \<Rightarrow> string list \<Rightarrow> ('z, unit) os) option") (cmd_Commands: "'z Command list")

record 'z cli =
  cli_env :: "'z stow_env"
  out_Write :: "string \<Rightarrow> ('z, unit) os"
  err_Write :: "string \<Rightarrow> ('z, unit) os"
  tabwriter_New :: "int \<Rightarrow> int \<Rightarrow> int \<Rightarrow> char \<Rightarrow> nat \<Rightarrow> 'z tabwriter"
  fmt_Quote :: "string \<Rightarrow> string"
  fmt_LocalTime :: "int \<Rightarrow> string"
  fmt_Quotient :: "int \<Rightarrow> int \<Rightarrow> string"
  cobra_Execute :: "'z Command \<Rightarrow> ('z, unit) os"

definition newline_text :: string where "newline_text = [CHR 0x0A]"
definition tab_text :: string where "tab_text = [CHR 0x09]"

definition fmt_d :: "int \<Rightarrow> string" where
  "fmt_d n = (if n < 0 then ''-'' @ show_nat (nat (- n)) else show_nat (nat n))"

definition str_flag :: "flag_values \<Rightarrow> string \<Rightarrow> string" where
  "str_flag v name = (case v name of StringValue s \<Rightarrow> s | _ \<Rightarrow> [])"

definition int_flag :: "flag_values \<Rightarrow> string \<Rightarrow> int" where
  "int_flag v name = (case v name of IntValue n \<Rightarrow> n | _ \<Rightarrow> 0)"

definition bool_flag :: "flag_values \<Rightarrow> string \<Rightarrow> bool" where
  "bool_flag v name = (case v name of BoolValue b \<Rightarrow> b | _ \<Rightarrow> False)"

definition string_flag :: "string \<Rightarrow> string \<Rightarrow> flag" where
  "string_flag name usage = \<lparr>flag_Name = name, flag_Default = StringValue [], flag_Usage = usage\<rparr>"

definition repo_flag :: flag where "repo_flag = string_flag ''repo'' ''path to the Stowmark repository''"

text \<open>A path that was not given is nil.\<close>

definition given :: "string \<Rightarrow> string option" where
  "given s = (if s \<noteq> [] then Some s else None)"

abbreviation (input) lib_of :: "'z cli \<Rightarrow> library" where "lib_of c \<equiv> out_lib (se_out (cli_env c))"
abbreviation (input) core_of :: "'z cli \<Rightarrow> 'z cqs" where "core_of c \<equiv> se_core (cli_env c)"
abbreviation (input) uuid_of :: "'z cli \<Rightarrow> uuid_lib" where "uuid_of c \<equiv> lib_uuid (lib_of c)"
abbreviation (input) asymmetric_of :: "'z cli \<Rightarrow> 'z AsymmetricKeyPairRepository" where
  "asymmetric_of c \<equiv> DiskKeyPairRepository (lib_crypto (lib_of c))"
abbreviation (input) symmetric_of :: "'z cli \<Rightarrow> 'z SymmetricKeyRepository" where
  "symmetric_of c \<equiv> SymmetricRepository (lib_crypto (lib_of c))"

definition cli_decrypt :: "'z cli \<Rightarrow> ('z, 'z DecryptSymmetricKey) os" where
  "cli_decrypt c = NewDecryptSymmetricKey (cli_env c) (symmetric_of c) (asymmetric_of c)"

definition cli_observability :: "'z cli \<Rightarrow> ctx \<Rightarrow> ('z, 'z OTLPObservability) os" where
  "cli_observability c ctx =
     andThen (NewObservabilityConfig (se_telemetry (cli_env c))) (\<lambda>conf.
     andThen (Observability_New (se_telemetry (cli_env c)) ctx conf) (\<lambda>obsv. return obsv))"

text \<open>
  Most commands start the observability, open the repositories, and close both in one deferred function, which is
  set up after the repositories were opened.
\<close>

definition with_repositories ::
  "'z cli \<Rightarrow> ctx \<Rightarrow> ('z, 'z OTLPObservability) os \<Rightarrow> string \<Rightarrow>
   ('z OTLPObservability \<Rightarrow> 'z Repositories \<Rightarrow> ('z, 'a) os) \<Rightarrow> ('z, 'a) os" where
  "with_repositories c ctx start repo f =
     andThen start (\<lambda>obsv.
     andThen (NewHandler (se_out (cli_env c)) ctx repo) (\<lambda>repoHand.
     deferring (f obsv repoHand)
       (\<lambda>_. andThen (ignoring (Shutdown obsv ctx)) (\<lambda>_. ignoring (Repositories_Close repoHand)))))"

subsection \<open>What is printed\<close>

text \<open>The loop that finds the unit; \<^verbatim>\<open>divisor\<close> is an \<^verbatim>\<open>int64\<close>.\<close>

function unit_of :: "int \<Rightarrow> int \<Rightarrow> nat \<Rightarrow> int \<times> nat" where
  "unit_of v divisor exponent =
     (if v \<ge> 1024 then unit_of (v div 1024) (i64 (divisor * 1024)) (Suc exponent) else (divisor, exponent))"
  by auto
termination by (relation "measure (\<lambda>(v, _, _). nat v)") auto

declare unit_of.simps [simp del]

definition formatBytes :: "'z cli \<Rightarrow> int \<Rightarrow> string outcome" where
  "formatBytes c sz =
     (if sz < 1024 then Ok (fmt_d sz @ '' B'')
      else
        (case unit_of (sz div 1024) 1024 0 of (divisor, exponent) \<Rightarrow>
           if exponent < length ''KMGTPE''
           then Ok (fmt_Quotient c sz divisor @ '' '' @ [''KMGTPE'' ! exponent] @ ''iB'')
           else Panic ''index out of range''))"

record cli_Failed =
  cf_Path :: string
  cf_Reason :: string

definition printResult :: "'z cli \<Rightarrow> string \<Rightarrow> int \<Rightarrow> cli_Failed list \<Rightarrow> bool \<Rightarrow> ('z, unit) os" where
  "printResult c snapshot total_files fs isSuccess =
     (let writer = tabwriter_New c 0 4 2 CHR '' '' 0;
          status = (if isSuccess then ''OK'' else ''FAILED'');
          failedFiles = int (length fs);
          validFiles = total_files - failedFiles
      in andThen (tw_Write writer
           (''SNAPSHOT:'' @ tab_text @ snapshot @ newline_text @ ''STATUS:'' @ tab_text @ status @ newline_text @
            ''RESTORED:'' @ tab_text @ fmt_d total_files @ newline_text @ ''VALID:'' @ tab_text @ fmt_d validFiles @ newline_text @
            ''INVALID:'' @ tab_text @ fmt_d failedFiles @ newline_text)) (\<lambda>_.
         if failedFiles = 0 then tw_Flush writer
         else
           andThen (tw_Write writer
             (newline_text @ ''PATH'' @ tab_text @ ''STATUS'' @ tab_text @ ''REASON'' @ newline_text)) (\<lambda>_.
           andThen (for_each (\<lambda>check. tw_Write writer
             (cf_Path check @ tab_text @ ''INVALID'' @ tab_text @ cf_Reason check @ newline_text)) fs) (\<lambda>_.
           tw_Flush writer))))"

definition printManifest :: "'z cli \<Rightarrow> Manifest \<Rightarrow> ('z, unit) os" where
  "printManifest c m =
     (let writer = tabwriter_New c 0 4 2 CHR '' '' 0
      in andThen (tw_Write writer
           (''ID:'' @ tab_text @ man_id m @ newline_text @ ''CREATED AT:'' @ tab_text @ fmt_LocalTime c (man_createdAt m) @
            newline_text @ ''SOURCE:'' @ tab_text @ man_source m @ newline_text)) (\<lambda>_.
         andThen (tw_Write writer (newline_text @ ''PATH'' @ tab_text @ ''HASH'' @ tab_text @ ''SIZE'' @ newline_text)) (\<lambda>_.
         andThen (for_each (\<lambda>f. andThen (lift_outcome (formatBytes c (file_size f))) (\<lambda>sz.
           tw_Write writer (file_path f @ tab_text @ file_hash f @ tab_text @ sz @ newline_text))) (man_files m)) (\<lambda>_.
         tw_Flush writer))))"

definition print_resumes :: "'z cli \<Rightarrow> ManifestResume list \<Rightarrow> ('z, unit) os" where
  "print_resumes c items =
     (if items = [] then out_Write c (''No snapshots found.'' @ newline_text)
      else
        (let writer = tabwriter_New c 0 4 2 CHR '' '' 0
         in andThen (tw_Write writer
              (''ID'' @ tab_text @ ''CREATED AT'' @ tab_text @ ''FILES'' @ tab_text @ ''SIZE'' @ tab_text @ ''SOURCE'' @ newline_text)) (\<lambda>_.
            andThen (for_each (\<lambda>i. andThen (lift_outcome (formatBytes c (resume_size i))) (\<lambda>sz.
              tw_Write writer (resume_id i @ tab_text @ fmt_LocalTime c (resume_createdAt i) @ tab_text @
                fmt_d (resume_files i) @ tab_text @ sz @ tab_text @ resume_source i @ newline_text))) items) (\<lambda>_.
            tw_Flush writer))))"

subsection \<open>Initialising\<close>

definition init_encryption :: "'z cli \<Rightarrow> ctx \<Rightarrow> string \<Rightarrow> ('z, EncryptionConfig option) os" where
  "init_encryption c ctx pubKey =
     (if pubKey \<noteq> [] then
        andThen (orWrap ''create encryption config''
          (CreateEncryptionConfig_Create (asymmetric_of c) (symmetric_of c) ctx pubKey)) (\<lambda>e. return (Some e))
      else return None)"

definition print_init :: "'z cli \<Rightarrow> string \<Rightarrow> event list \<Rightarrow> ('z, unit) os" where
  "print_init c root events =
     (case events of
        [InitEvent _ repository warnings] \<Rightarrow>
          andThen (ignoring (out_Write c (''Initialized Stowmark repository at '' @ fmt_Quote c root @ newline_text))) (\<lambda>_.
          andThen (ignoring (out_Write c (''Repository ID: '' @ repository @ newline_text))) (\<lambda>_.
          andThen (for_each (\<lambda>warning. ignoring (out_Write c (''WARNING: '' @ warning @ newline_text))) warnings) (\<lambda>_.
          return ())))
      | [_] \<Rightarrow> fail (ErrText ''unexpected event type'')
      | _ \<Rightarrow> fail (ErrText ''unexpected number of init events''))"

text \<open>The level of the compression is always given, as zero when its flag is not.\<close>

definition run_init :: "'z cli \<Rightarrow> ctx \<Rightarrow> flag_values \<Rightarrow> string list \<Rightarrow> ('z, unit) os" where
  "run_init c ctx v args =
     with_repositories c ctx (orWrap ''create observability'' (cli_observability c ctx)) (str_flag v ''repo'') (\<lambda>obsv repoHand.
       andThen (orWrap ''invalid compression type'' (lift_outcome (ParseCompressionType (str_flag v ''compression'')))) (\<lambda>compType.
       andThen (orWrap ''create compression configuration''
         (lift_outcome (NewCompression compType (Some (int_flag v ''level''))))) (\<lambda>compr.
       andThen (uuid_New (uuid_of c)) (\<lambda>i.
       andThen (init_encryption c ctx (str_flag v ''public-key'')) (\<lambda>encryptionConfig.
       andThen (NewConfig i (ParseFormatVersion (int_flag v ''version'')) (Some compr) encryptionConfig) (\<lambda>conf.
       andThen (orWrap ''create repository'' (lift_outcome (NewRepository (RepositoryPath repoHand) (Some conf)))) (\<lambda>re.
       andThen (BuildCommandMiddlewares (core_of c) obsv NewEventsTracing) (\<lambda>multiMdw.
       andThen
         (orWrap ''initialize repository''
           (dispatch
             (multiMdw (Init_Handle (core_of c) (uuid_of c) (Init_Do (uuid_of c) (FolderRepository_of repoHand))) ctx
               (InitCmd \<lparr>ic_Repository = re, ic_Force = bool_flag v ''force''\<rparr>)) return))
         (print_init c (RepositoryPath repoHand))))))))))"

definition newInitCommand :: "'z cli \<Rightarrow> 'z Command" where
  "newInitCommand c =
     Command ''init'' ''Initialize a new Stowmark repository'' NoArgs
       [repo_flag,
        \<lparr>flag_Name = ''compression'', flag_Default = StringValue ''none'', flag_Usage = ''compression type: none, zstd''\<rparr>,
        string_flag ''public-key'' ''public key for encryption:'',
        \<lparr>flag_Name = ''version'', flag_Default = IntValue 0, flag_Usage = ''format version for config file''\<rparr>,
        \<lparr>flag_Name = ''level'', flag_Default = IntValue 0, flag_Usage = ''compression level: 0 for none, 1-22 for zstd''\<rparr>,
        \<lparr>flag_Name = ''force'', flag_Default = BoolValue False, flag_Usage = ''Force the operation''\<rparr>]
       [''repo'', ''compression''] (Some (run_init c)) []"

subsection \<open>Snapshots\<close>

text \<open>Creating one opens the repositories first; what is opened later is closed first.\<close>

definition print_created :: "'z cli \<Rightarrow> event list \<Rightarrow> ('z, unit) os" where
  "print_created c events =
     (case events of
        [CreateSnapshotEvent _ snapshot n sz] \<Rightarrow>
          andThen (ignoring (out_Write c
            (''Snapshot created: '' @ snapshot @ newline_text @ ''Files: '' @ fmt_d n @ newline_text @
             ''Size: '' @ fmt_d sz @ '' bytes'' @ newline_text))) (\<lambda>_. return ())
      | [_] \<Rightarrow> fail (ErrText ''unexpected event type'')
      | _ \<Rightarrow> fail (ErrText ''unexpected number of events''))"

definition cli_create_service ::
  "'z cli \<Rightarrow> 'z ManifestRepository \<Rightarrow> 'z ObjectRepository \<Rightarrow> 'z FolderRepository \<Rightarrow> 'z DecryptSymmetricKey \<Rightarrow> 'z create_service" where
  "cli_create_service c manifestRepo objRepo folderRepo dsk =
     \<lparr>svc_source = DiskSourceRepository (lib_of c), svc_manifests = manifestRepo, svc_objects = objRepo,
      svc_folder = folderRepo, svc_decrypt = dsk, svc_workers = int (defaultCreateWorkers (cli_env c)),
      svc_default = defaultCreateWorkers (cli_env c), svc_uuid = uuid_of c, svc_stamp = se_stamp (cli_env c)\<rparr>"

definition run_create :: "'z cli \<Rightarrow> ctx \<Rightarrow> flag_values \<Rightarrow> string list \<Rightarrow> ('z, unit) os" where
  "run_create c ctx v args =
     (case args of
        [] \<Rightarrow> panic ''index out of range''
      | sourcePath # _ \<Rightarrow>
          if str_flag v ''repo'' = [] then fail (ErrText ''--repo is required'')
          else
            andThen (NewHandler (se_out (cli_env c)) ctx (str_flag v ''repo'')) (\<lambda>repoHand.
            deferring
              (andThen (ManifestRepository_of repoHand) (\<lambda>manifestRepo.
               andThen (ObjectRepository_of repoHand) (\<lambda>objRepo.
               andThen (cli_decrypt c) (\<lambda>dsk.
               andThen (cli_observability c ctx) (\<lambda>obsv.
               deferring
                 (andThen (BuildCommandMiddlewares (core_of c) obsv
                    (EventsTracing_Add CreateSnapshotCommandName (CreateSnapshotTracer (obs_Logger obsv)) NewEventsTracing)) (\<lambda>multiMdw.
                  (let svc = cli_create_service c manifestRepo objRepo (FolderRepository_of repoHand) dsk
                   in dispatch
                        (multiMdw (CreateSnapshot_Handle (core_of c) (uuid_of c) (run_Create (se_schedule (cli_env c)) svc)) ctx
                          (CreateSnapshotCmd \<lparr>cs_RepositoryPath = RepositoryPath repoHand, cs_SourcePath = sourcePath,
                             cs_PrivateKey = given (str_flag v ''private-key'')\<rparr>))
                        (print_created c))))
                 (\<lambda>_. ignoring (Shutdown obsv ctx)))))))
              (\<lambda>_. ignoring (Repositories_Close repoHand))))"

definition newSnapshotCreateCommand :: "'z cli \<Rightarrow> 'z Command" where
  "newSnapshotCreateCommand c =
     Command ''create <source>'' ''Create a snapshot of a directory'' (ExactArgs 1)
       [repo_flag, string_flag ''private-key'' ''path to the private key for encryption''] [''repo''] (Some (run_create c)) []"

text \<open>Two commands look at the type of the result before they look at the error.\<close>

definition run_list :: "'z cli \<Rightarrow> ctx \<Rightarrow> flag_values \<Rightarrow> string list \<Rightarrow> ('z, unit) os" where
  "run_list c ctx v args =
     with_repositories c ctx (orWrap ''create observability'' (cli_observability c ctx)) (str_flag v ''repo'') (\<lambda>obsv repoHand.
       andThen (ManifestRepository_of repoHand) (\<lambda>manifestRepo.
       andThen (BuildQueryMiddlewares (core_of c) obsv) (\<lambda>multiMdw.
       andThen (multiMdw (SnapshotList_Handle (Listing_List manifestRepo)) ctx SnaphotListQry) (\<lambda>(result, err).
       (case result of
          AnyResumes snapshots \<Rightarrow> (case err of Some e \<Rightarrow> fail e | None \<Rightarrow> print_resumes c snapshots)
        | _ \<Rightarrow> panic ''unexpected result type'')))))"

definition newSnapshotListCommand :: "'z cli \<Rightarrow> 'z Command" where
  "newSnapshotListCommand c =
     Command ''list'' ''List repository snapshots'' NoArgs [repo_flag] [''repo''] (Some (run_list c)) []"

definition run_get :: "'z cli \<Rightarrow> ctx \<Rightarrow> flag_values \<Rightarrow> string list \<Rightarrow> ('z, unit) os" where
  "run_get c ctx v args =
     with_repositories c ctx (orWrap ''create observability'' (cli_observability c ctx)) (str_flag v ''repo'') (\<lambda>obsv repoHand.
       andThen (ManifestRepository_of repoHand) (\<lambda>manifestRepo.
       andThen (BuildQueryMiddlewares (core_of c) obsv) (\<lambda>multiMdw.
       andThen (multiMdw (ManifestGet_Handle (core_of c) (GetManifest_Get manifestRepo)) ctx
         (ManifestGetQry \<lparr>mg_SnapshotID = str_flag v ''id''\<rparr>)) (\<lambda>(result, err).
       (case result of
          AnyManifest m \<Rightarrow>
            (case err of
               Some e \<Rightarrow> fail e
             | None \<Rightarrow> (case m of Some manifest \<Rightarrow> printManifest c manifest | None \<Rightarrow> panic ''nil pointer dereference''))
        | _ \<Rightarrow> fail (ErrText ''unexpected result type''))))))"

definition newSnapshotGetCommand :: "'z cli \<Rightarrow> 'z Command" where
  "newSnapshotGetCommand c =
     Command ''get'' ''Show a snapshot manifest'' NoArgs [repo_flag, string_flag ''id'' ''snapshot ID''] [''id'', ''repo'']
       (Some (run_get c)) []"

definition cli_verify_service ::
  "'z cli \<Rightarrow> 'z ManifestRepository \<Rightarrow> 'z ObjectRepository \<Rightarrow> 'z FolderRepository \<Rightarrow> 'z DecryptSymmetricKey \<Rightarrow> 'z verify_service" where
  "cli_verify_service c manifestRepo objectRepo folderRepo dsk =
     \<lparr>vsv_objects = objectRepo, vsv_manifests = manifestRepo, vsv_folder = folderRepo, vsv_decrypt = dsk,
      vsv_workers = int (defaultVerifyWorkers (cli_env c)), vsv_default = defaultVerifyWorkers (cli_env c),
      vsv_crypto = lib_crypto (lib_of c)\<rparr>"

definition run_verify :: "'z cli \<Rightarrow> ctx \<Rightarrow> flag_values \<Rightarrow> string list \<Rightarrow> ('z, unit) os" where
  "run_verify c ctx v args =
     (if str_flag v ''repo'' = [] then fail (ErrText ''--repo is required'')
      else if str_flag v ''id'' = [] then fail (ErrText ''--id is required'')
      else
        with_repositories c ctx (cli_observability c ctx) (str_flag v ''repo'') (\<lambda>obsv repoHand.
          andThen (ManifestRepository_of repoHand) (\<lambda>manifestRepo.
          andThen (ObjectRepository_of repoHand) (\<lambda>objectRepo.
          andThen (cli_decrypt c) (\<lambda>dsk.
          andThen (BuildQueryMiddlewares (core_of c) obsv) (\<lambda>multiMdw.
          (let svc = cli_verify_service c manifestRepo objectRepo (FolderRepository_of repoHand) dsk
           in dispatch
                (multiMdw (VerifySnapshot_Handle (core_of c) (run_Verify (se_schedule (cli_env c)) svc)) ctx
                  (VerifySnapshotQry \<lparr>vq_SnapshotID = str_flag v ''id'', vq_RepositoryPath = RepositoryPath repoHand,
                     vq_PrivateKeyPath = given (str_flag v ''private-key'')\<rparr>))
                (\<lambda>r. case r of
                   AnyResult (Some result) \<Rightarrow>
                     andThen (printResult c (snapshotID result) (totalFiles result)
                       (map (\<lambda>f. \<lparr>cf_Path = failed_path f, cf_Reason = reason f\<rparr>) (failed result)) (IsSuccess result)) (\<lambda>_.
                     if \<not> IsSuccess result then fail (ErrText ''snapshot failed verification'') else return ())
                 | AnyResult None \<Rightarrow> panic ''nil pointer dereference''
                 | _ \<Rightarrow> fail (ErrText ''unexpected result type'')))))))))"

definition newSnapshotVerifyCommand :: "'z cli \<Rightarrow> 'z Command" where
  "newSnapshotVerifyCommand c =
     Command ''verify'' ''Verify snapshot integrity'' NoArgs
       [repo_flag, string_flag ''id'' ''snapshot ID'', string_flag ''private-key'' ''Private key for decryption'']
       [''id'', ''repo''] (Some (run_verify c)) []"

definition executeRestoreFile ::
  "'z cli \<Rightarrow> ctx \<Rightarrow> 'z CommandMiddleware \<Rightarrow> 'z ManifestRepository \<Rightarrow> 'z ObjectRepository \<Rightarrow> 'z FolderRepository \<Rightarrow>
   'z DecryptSymmetricKey \<Rightarrow> string \<Rightarrow> string \<Rightarrow> string \<Rightarrow> string option \<Rightarrow> string option \<Rightarrow> ('z, unit) os" where
  "executeRestoreFile c ctx mdw manifestRepo objectRepo folderRepo dsk snapshot filePath root destination privKey =
     dispatch
       (mdw (RestoreFile_Handle (core_of c) (uuid_of c) (RestoreFile_Restore manifestRepo objectRepo folderRepo dsk)) ctx
         (RestoreFileCmd \<lparr>rf_SnapshotID = snapshot, rf_FilePath = filePath, rf_RepositoryPath = root,
            rf_DestinationPath = destination, rf_PrivateKeyPath = privKey\<rparr>))
       (\<lambda>_. out_Write c (''Restored file '' @ fmt_Quote c filePath @ '' from snapshot '' @ fmt_Quote c snapshot @ newline_text))"

definition executeRestore ::
  "'z cli \<Rightarrow> ctx \<Rightarrow> 'z CommandMiddleware \<Rightarrow> 'z ManifestRepository \<Rightarrow> 'z ObjectRepository \<Rightarrow> 'z FolderRepository \<Rightarrow>
   'z DecryptSymmetricKey \<Rightarrow> string \<Rightarrow> string \<Rightarrow> string option \<Rightarrow> string option \<Rightarrow> ('z, unit) os" where
  "executeRestore c ctx mdw manifestRepo objectRepo folderRepo dsk root snapshot destination privKey =
     dispatch
       (mdw (RestoreSnapshot_Handle (core_of c) (uuid_of c) (Restore_Restore manifestRepo objectRepo folderRepo dsk)) ctx
         (RestoreSnapshotCmd \<lparr>rs_SnapshotID = snapshot, rs_RepositoryPath = root, rs_PrivateKeyPath = privKey,
            rs_DestinationPath = destination\<rparr>))
       (\<lambda>events. case events of
          [RestoreSnapshotEvent _ i n fs isSuccess] \<Rightarrow>
            andThen (printResult c i n (map (\<lambda>f. \<lparr>cf_Path = Failed_Path f, cf_Reason = Failed_Reason f\<rparr>) fs) isSuccess) (\<lambda>_.
            if \<not> isSuccess then fail (ErrText ''snapshot failed restoration'') else return ())
        | [_] \<Rightarrow> fail (ErrText ''unexpected event type'')
        | _ \<Rightarrow> fail (ErrText ''unexpected number of events''))"

definition run_restore :: "'z cli \<Rightarrow> ctx \<Rightarrow> flag_values \<Rightarrow> string list \<Rightarrow> ('z, unit) os" where
  "run_restore c ctx v args =
     with_repositories c ctx (cli_observability c ctx) (str_flag v ''repo'') (\<lambda>obsv repoHandler.
       andThen (ManifestRepository_of repoHandler) (\<lambda>manifestRepo.
       andThen (ObjectRepository_of repoHandler) (\<lambda>objectRepo.
       andThen (BuildCommandMiddlewares (core_of c) obsv (restore_tracing obsv)) (\<lambda>multiMdw.
       andThen (cli_decrypt c) (\<lambda>dsk.
       if str_flag v ''file'' = [] then
         executeRestore c ctx multiMdw manifestRepo objectRepo (FolderRepository_of repoHandler) dsk
           (RepositoryPath repoHandler) (str_flag v ''id'') (given (str_flag v ''destination'')) (given (str_flag v ''private-key''))
       else
         executeRestoreFile c ctx multiMdw manifestRepo objectRepo (FolderRepository_of repoHandler) dsk
           (str_flag v ''id'') (str_flag v ''file'') (RepositoryPath repoHandler) (given (str_flag v ''destination''))
           (given (str_flag v ''private-key'')))))))"

definition newSnapshotRestoreCommand :: "'z cli \<Rightarrow> 'z Command" where
  "newSnapshotRestoreCommand c =
     Command ''restore'' ''Restore snapshot'' NoArgs
       [repo_flag, string_flag ''id'' ''snapshot ID'', string_flag ''file'' ''path to the file to restore'',
        string_flag ''destination'' ''destination path'', string_flag ''private-key'' ''private key for decryption'']
       [''id'', ''repo''] (Some (run_restore c)) []"

definition newSnapshotCommand :: "'z cli \<Rightarrow> 'z Command" where
  "newSnapshotCommand c =
     Command ''snapshot'' ''Manage repository snapshots'' AnyArgs [] [] None
       [newSnapshotCreateCommand c, newSnapshotListCommand c, newSnapshotGetCommand c, newSnapshotVerifyCommand c,
        newSnapshotRestoreCommand c]"

subsection \<open>Keys\<close>

definition run_generate :: "'z cli \<Rightarrow> ctx \<Rightarrow> flag_values \<Rightarrow> string list \<Rightarrow> ('z, unit) os" where
  "run_generate c ctx v args =
     andThen (orWrap ''create observability'' (cli_observability c ctx)) (\<lambda>obsv.
     deferring
       (andThen (BuildCommandMiddlewares (core_of c) obsv NewEventsTracing) (\<lambda>multiMdw.
        andThen (orWrap ''failed to create key pair'' (NewAsymmetricKeyPair (str_flag v ''folder''))) (\<lambda>keys.
        andThen
          (orWrap ''failed to create key pair''
            (dispatch
              (multiMdw (GenerateKey_Handle (core_of c) (CreateAsymmetricKeyPair_Create (lib_crypto (lib_of c)) (asymmetric_of c))) ctx
                (GenerateKeyCmd \<lparr>gk_Keys = keys\<rparr>)) return)) (\<lambda>_.
        out_Write c (''Create asymmetric key pair in '' @ fmt_Quote c (str_flag v ''folder'') @ newline_text)))))
       (\<lambda>_. ignoring (Shutdown obsv ctx)))"

definition newKeyGenerateCommand :: "'z cli \<Rightarrow> 'z Command" where
  "newKeyGenerateCommand c =
     Command ''generate'' ''Crate a new encryption key pair'' NoArgs [string_flag ''folder'' ''Folder to generate key pair'']
       [''folder''] (Some (run_generate c)) []"

text \<open>Rewrapping is given a repository on disk, whatever the address is.\<close>

definition run_rewrap :: "'z cli \<Rightarrow> ctx \<Rightarrow> flag_values \<Rightarrow> string list \<Rightarrow> ('z, unit) os" where
  "run_rewrap c ctx v args =
     andThen (orWrap ''create observability'' (cli_observability c ctx)) (\<lambda>obsv.
     deferring
       (andThen (BuildCommandMiddlewares (core_of c) obsv NewEventsTracing) (\<lambda>multiMdw.
        andThen
          (orWrap ''failed to rewrap''
            (dispatch
              (multiMdw (RewrapKey_Handle (core_of c)
                 (Rewrap_Do (DiskFolderRepository (lib_of c)) (symmetric_of c) (asymmetric_of c))) ctx
                (RewrapKeyCmd \<lparr>rw_RepositoryPath = str_flag v ''repo'', rw_OldPrivateKey = str_flag v ''old-private-key'',
                   rw_NewPublicKey = str_flag v ''new-public-key''\<rparr>)) return)) (\<lambda>_.
        out_Write c (''rotate encryption key pair successful'' @ newline_text))))
       (\<lambda>_. ignoring (Shutdown obsv ctx)))"

definition newKeyRewrapCommand :: "'z cli \<Rightarrow> 'z Command" where
  "newKeyRewrapCommand c =
     Command ''rewrap'' ''Rotate encryption key pair'' NoArgs
       [string_flag ''repo'' ''Repository path'', string_flag ''old-private-key'' ''old private key path'',
        string_flag ''new-public-key'' ''new public key path'']
       [''repo'', ''old-private-key'', ''new-public-key''] (Some (run_rewrap c)) []"

text \<open>The repositories that rekeying opens are not closed.\<close>

definition cli_rekey_service :: "'z cli \<Rightarrow> 'z FolderRepository \<Rightarrow> 'z ObjectRepository \<Rightarrow> 'z rekey_service" where
  "cli_rekey_service c folderRepo objectRepo =
     \<lparr>rk_folder = folderRepo, rk_symmetric = symmetric_of c, rk_asymmetric = asymmetric_of c, rk_objects = objectRepo\<rparr>"

definition run_rekey :: "'z cli \<Rightarrow> ctx \<Rightarrow> flag_values \<Rightarrow> string list \<Rightarrow> ('z, unit) os" where
  "run_rekey c ctx v args =
     andThen (orWrap ''create observability'' (cli_observability c ctx)) (\<lambda>obsv.
     deferring
       (andThen (orWrap ''failed to create repository handler'' (NewHandler (se_out (cli_env c)) ctx (str_flag v ''repo''))) (\<lambda>repoHandler.
        andThen (orWrap ''failed to create object repository'' (ObjectRepository_of repoHandler)) (\<lambda>objectRepo.
        andThen (BuildCommandMiddlewares (core_of c) obsv NewEventsTracing) (\<lambda>multiMdw.
        andThen
          (orWrap ''failed to rekey''
            (dispatch
              (multiMdw (RekeyKey_Handle (core_of c)
                 (run_ReKey (se_schedule (cli_env c)) (cli_rekey_service c (FolderRepository_of repoHandler) objectRepo))) ctx
                (RekeyKeyCmd \<lparr>rk_RepositoryPath = RepositoryPath repoHandler, rk_PrivateKeyPath = str_flag v ''private-key'',
                   rk_PublicKeyPath = str_flag v ''public-key''\<rparr>)) return)) (\<lambda>_.
        out_Write c (''rotate encryption key pair successful'' @ newline_text))))))
       (\<lambda>_. ignoring (Shutdown obsv ctx)))"

definition newKeyReKeyCommand :: "'z cli \<Rightarrow> 'z Command" where
  "newKeyReKeyCommand c =
     Command ''rekey'' ''Rotate symmetric key and rewrap all objects'' NoArgs
       [string_flag ''repo'' ''Repository path'', string_flag ''private-key'' ''private key path'',
        string_flag ''public-key'' ''public key path'']
       [''repo'', ''private-key'', ''public-key''] (Some (run_rekey c)) []"

definition newKeyCommand :: "'z cli \<Rightarrow> 'z Command" where
  "newKeyCommand c =
     Command ''key'' ''Manage encryption keys'' AnyArgs [] [] None
       [newKeyGenerateCommand c, newKeyRewrapCommand c, newKeyReKeyCommand c]"

subsection \<open>The program\<close>

definition Execute :: "'z cli \<Rightarrow> ('z, unit) os" where
  "Execute c =
     cobra_Execute c (Command ''stowmark'' ''Immutable snapshot backup tool'' AnyArgs [] [] None
       [newInitCommand c, newSnapshotCommand c, newKeyCommand c])"

text \<open>The exit code.\<close>

definition main :: "'z cli \<Rightarrow> ('z, nat) os" where
  "main c =
     tryCatch (Execute c)
       (\<lambda>e. andThen (ignoring (err_Write c (error_string e @ newline_text))) (\<lambda>_. return 1))
       (\<lambda>_. return 0)"

end
