(* ===== verification/CLI_Properties.thy ===== *)
theory CLI_Properties
  imports CLI Facade_Properties Remote_Facts
begin

section \<open>The command line: units, and the reach of a rewrap\<close>

text \<open>
  The unit in which a size is printed, with the bounds of the loop that finds it, and what a rewrap from the command line can
  reach; the frame rules for the calls of this machine come from \<^theory_text>\<open>Remote_Facts\<close>.
\<close>

subsection \<open>The unit of a size\<close>

text \<open>
  With \<open>k\<close> divisions done the loop is at \<open>sz div 1024 ^ Suc k\<close> with the divisor \<open>1024 ^ Suc k\<close>; it ends
  before the divisor leaves the range of \<^verbatim>\<open>int64\<close>.
\<close>

lemma unit_of_correct:
  "v = sz div 1024 ^ Suc k \<Longrightarrow> d = 1024 ^ Suc k \<Longrightarrow> 1024 ^ Suc k \<le> sz \<Longrightarrow> sz < 2 ^ 63 \<Longrightarrow>
     \<exists>e. unit_of v d k = (1024 ^ Suc e, e) \<and> 1024 ^ Suc e \<le> sz \<and> sz < 1024 ^ Suc (Suc e)"
proof (induction v d k rule: unit_of.induct)
  case (1 v d k)
  show ?case
  proof (cases "v \<ge> 1024")
    case True
    have next': "1024 ^ Suc (Suc k) \<le> sz"
    proof -
      have "1024 * 1024 ^ Suc k \<le> v * 1024 ^ Suc k" using True by (intro mult_right_mono) auto
      also have "\<dots> \<le> sz" unfolding "1.prems"(1) using "1.prems"(3)
        by (metis div_mult_mod_eq le_add_same_cancel1 mult.commute pos_mod_sign zero_less_numeral zero_less_power)
      finally show ?thesis by simp
    qed
    have "v div 1024 = sz div 1024 ^ Suc (Suc k)"
      unfolding "1.prems"(1) by (simp add: zdiv_zmult2_eq [symmetric] mult.commute)
    moreover have "i64 (d * 1024) = 1024 ^ Suc (Suc k)"
      using next' "1.prems"(4) by (subst i64_small) (auto simp: mult.commute "1.prems"(2))
    ultimately show ?thesis using "1.IH" True next' "1.prems"(4) by (subst unit_of.simps) simp
  next
    case False
    have "sz < 1024 ^ Suc (Suc k)"
    proof -
      have "(0 :: int) < 1024 ^ Suc k" by simp
      then have "sz < (v + 1) * 1024 ^ Suc k" unfolding "1.prems"(1)
        using div_mult_mod_eq [of sz "1024 ^ Suc k"] pos_mod_bound [of "1024 ^ Suc k" sz] unfolding distrib_right mult_1
        by linarith
      also have "\<dots> \<le> 1024 * 1024 ^ Suc k" using False by (intro mult_right_mono) auto
      finally show ?thesis by simp
    qed
    with False "1.prems"(2,3) show ?thesis by (subst unit_of.simps) auto
  qed
qed


text \<open>
  C34: the sizes that the listings print: every size that fits in 63 bits is formatted without running off the table of the six
  units and without an overflow of the divisor; from 1024 on the unit is the one in which the number printed is at
  least 1 and less than 1024.
\<close>

theorem formatBytes_units:
  assumes "sz < 2 ^ 63"
  shows "(sz < 1024 \<longrightarrow> formatBytes c sz = Ok (fmt_d sz @ '' B'')) \<and>
    (1024 \<le> sz \<longrightarrow>
      (\<exists>e < 6. 1024 ^ Suc e \<le> sz \<and> sz < 1024 ^ Suc (Suc e) \<and>
         formatBytes c sz = Ok (fmt_Quotient c sz (1024 ^ Suc e) @ '' '' @ [''KMGTPE'' ! e] @ ''iB'')))"
proof (intro conjI impI)
  assume big: "1024 \<le> sz"
  then obtain e where e: "unit_of (sz div 1024) 1024 0 = (1024 ^ Suc e, e)" "1024 ^ Suc e \<le> sz" "sz < 1024 ^ Suc (Suc e)"
    using unit_of_correct [of "sz div 1024" sz 0] assms by auto
  have "e < 6"
  proof (rule ccontr)
    assume "\<not> e < 6"
    then have "(1024 :: int) ^ 7 \<le> 1024 ^ Suc e" by (intro power_increasing) auto
    with e(2) assms show False by simp
  qed
  with big e show "\<exists>e < 6. 1024 ^ Suc e \<le> sz \<and> sz < 1024 ^ Suc (Suc e) \<and>
      formatBytes c sz = Ok (fmt_Quotient c sz (1024 ^ Suc e) @ '' '' @ [''KMGTPE'' ! e] @ ''iB'')"
    by (intro exI [of _ e]) (simp add: formatBytes_def)
qed (simp add: formatBytes_def)

subsection \<open>A rewrap stays on this machine\<close>

lemma local_create_at [keeps_rules]: "keeps (\<lambda>w. P (os_world.more w)) (create_at q)"
  by (intro keepsI) (auto simp: create_at_def split: option.splits node.splits)

lemma local_more_calls [keeps_rules]:
  "keeps (\<lambda>w. P (os_world.more w)) (os_WriteFile p data)"
  "keeps (\<lambda>w. P (os_world.more w)) (filepath_Abs p)"
  "keeps (\<lambda>w. P (os_world.more w)) (NewConfig i v co e)"
  "keeps (\<lambda>w. P (os_world.more w)) (SymmetricRepository_Encrypt cr ctx pub key)"
  "keeps (\<lambda>w. P (os_world.more w)) (check err)"
  subgoal unfolding os_WriteFile_def
    by (intro local_syscall keeps_rules keepsI)
      (auto simp: create_at_def split: option.splits node.splits outcome.splits prod.splits)
  subgoal by (simp add: keeps_def filepath_Abs_def)
  subgoal by (simp add: keeps_def NewConfig_def time_Now_def andThen_run return_run)
  subgoal unfolding SymmetricRepository_Encrypt_def by (intro keeps_rules local_sys keepsI) auto
  subgoal unfolding check_def by (intro keeps_rules)
  done

lemma local_services [keeps_rules]:
  "keeps (\<lambda>w. P (os_world.more w)) (disk_GetConfig lib ctx p)"
  "keeps (\<lambda>w. P (os_world.more w)) (disk_CreateConfig lib ctx p conf)"
  "keeps (\<lambda>w. P (os_world.more w)) (disk_ReadRSAPrivateKey cr ctx p)"
  "keeps (\<lambda>w. P (os_world.more w)) (disk_ReadRSAPublicKey cr ctx p)"
  "keeps (\<lambda>w. P (os_world.more w)) (disk_PublicKeyFingerPrint cr ctx pub)"
  "keeps (\<lambda>w. P (os_world.more w)) (SymmetricRepository_Decode cr ctx priv ek)"
  subgoal unfolding disk_GetConfig_def absolute_path_def BuildConfigDomain_def by (intro keeps_rules)
  subgoal unfolding disk_CreateConfig_def MarshalConfig_def by (intro keeps_rules)
  subgoal unfolding disk_ReadRSAPrivateKey_def
    by (intro keeps_rules) (auto split: option.split parsed_key.split intro!: keeps_rules)
  subgoal unfolding disk_ReadRSAPublicKey_def by (intro keeps_rules)
  subgoal unfolding disk_PublicKeyFingerPrint_def by (intro keeps_rules)
  subgoal unfolding SymmetricRepository_Decode_def by (intro keeps_rules)
  done

lemma local_Rewrap:
  "keeps (\<lambda>w. P (os_world.more w)) (Rewrap_Do (DiskFolderRepository lib) (SymmetricRepository cr) (DiskKeyPairRepository cr) ctx p a b)"
  by (simp add: Rewrap_Do_def DiskFolderRepository_def SymmetricRepository_def DiskKeyPairRepository_def cong: option.case_cong) (intro keeps_rules)

text \<open>What leaves everything still, and what is done around a service.\<close>

abbreviation seen :: "('z \<Rightarrow> 's) \<Rightarrow> 's \<Rightarrow> 'z os_world_scheme \<Rightarrow> bool" where
  "seen view V w \<equiv> view (os_world.more w) = V"

lemma keeps_still: "passes view Q m \<Longrightarrow> keeps (seen view V) m"
  unfolding passes_def keeps_def still_def by metis

lemma keeps_after:
  assumes m: "passes view Q m" and f: "\<And>x. Q x \<Longrightarrow> keeps (seen view V) (f x)"
  shows "keeps (seen view V) (andThen m f)"
proof (rule keepsI)
  fix w assume w: "seen view V w"
  obtain r w1 where run: "m w = (r, w1)" by force
  from keepsD [OF keeps_still [OF m] w run] have "seen view V w1" .
  with passesD(2) [OF m run] f run show "seen view V (snd (andThen m f w))"
    by (cases r) (auto simp: andThen_run keeps_def)
qed

lemma keeps_around:
  assumes m: "around view m' m" and k: "keeps (seen view V) m"
  shows "keeps (seen view V) m'"
proof (rule keepsI)
  fix w assume w: "seen view V w"
  obtain r w' where run: "m' w = (r, w')" by force
  obtain w1 w2 where a: "still view w w1" "m w1 = (r, w2)" "still view w2 w'" by (rule aroundD [OF m run])
  with w have "seen view V w1" by (simp add: still_def)
  from keepsD [OF k this a(2)] a(3) run show "seen view V (snd (m' w))" by (simp add: still_def)
qed

lemma passes_cli_observability:
  assumes "telemetry_apart view (se_telemetry (cli_env c))"
  shows "passes view (observes_apart view) (cli_observability c ctx)"
  using passes_built [OF assms] by (simp add: cli_observability_def builtObservability_def)

lemma keeps_run_rewrap:
  assumes tel: "telemetry_apart view (se_telemetry (cli_env c))" and core: "core_lawful (core_of c)"
    and out: "\<And>s. calm view (out_Write c s)"
  shows "keeps (seen view V) (run_rewrap c ctx v args)"
proof -
  have handled: "keeps (seen view V) (mdw (RewrapKey_Handle (core_of c)
       (Rewrap_Do (DiskFolderRepository (lib_of c)) (symmetric_of c) (asymmetric_of c))) ctx (RewrapKeyCmd co))"
    if "transparent view (events_fit (core_of c) NewEventsTracing) mdw" for mdw co
  proof (rule keeps_around)
    let ?h = "RewrapKey_Handle (core_of c) (Rewrap_Do (DiskFolderRepository (lib_of c)) (symmetric_of c) (asymmetric_of c))"
    have "yields (events_fit (core_of c) NewEventsTracing) (?h ctx' (RewrapKeyCmd co))" for ctx'
      by (simp add: RewrapKey_Handle_def events_fit_none)
    with that show "around view (mdw ?h ctx (RewrapKeyCmd co)) (?h ctx (RewrapKeyCmd co))"
      unfolding transparent_def by blast
    have "keeps (\<lambda>w. (\<lambda>z. view z = V) (os_world.more w)) (Rewrap_Do (DiskFolderRepository (lib_of c)) (symmetric_of c)
       (asymmetric_of c) ctx (rw_RepositoryPath co) (rw_OldPrivateKey co) (rw_NewPublicKey co))"
      by (rule local_Rewrap)
    then show "keeps (seen view V) (?h ctx (RewrapKeyCmd co))"
      by (simp add: RewrapKey_Handle_def answer_def) (intro keeps_rules)
  qed
  show ?thesis
    unfolding run_rewrap_def
  proof (rule keeps_after [OF passes_orWrap [OF passes_cli_observability [OF tel]]])
    fix obsv assume o: "observes_apart view obsv"
    then have "calm view (Shutdown obsv ctx)" unfolding observes_apart_def by blast
    from keeps_still [OF this] show "keeps (seen view V) (deferring
       (andThen (BuildCommandMiddlewares (core_of c) obsv NewEventsTracing) (\<lambda>multiMdw.
        andThen
          (orWrap ''failed to rewrap''
            (dispatch
              (multiMdw (RewrapKey_Handle (core_of c)
                 (Rewrap_Do (DiskFolderRepository (lib_of c)) (symmetric_of c) (asymmetric_of c))) ctx
                (RewrapKeyCmd \<lparr>rw_RepositoryPath = str_flag v ''repo'', rw_OldPrivateKey = str_flag v ''old-private-key'',
                   rw_NewPublicKey = str_flag v ''new-public-key''\<rparr>)) return)) (\<lambda>_.
        out_Write c (''rotate encryption key pair successful'' @ newline_text))))
       (\<lambda>_. ignoring (Shutdown obsv ctx)))"
      by (intro keeps_deferring keeps_ignoring keeps_after [OF Build_transparent(1) [OF o core]])
        (auto simp: dispatch_def intro!: keeps_rules handled keeps_still [OF out])
  qed
qed

text \<open>
  C40: the command that rewraps a repository's key changes nothing outside this machine, whatever the address that it is
  given: with logs, traces and an output that keep to themselves, what a server holds is after it what it was before, also
  for the address of a repository on a server, and with every outcome.
\<close>

theorem rewrap_ignores_server:
  assumes "telemetry_apart view (se_telemetry (cli_env c))" and "core_lawful (se_core (cli_env c))"
    and "\<And>s. calm view (out_Write c s)" and "run_rewrap c ctx v args w = (r, w')"
  shows "view (os_world.more w') = view (os_world.more w)"
  using keepsD [OF keeps_run_rewrap [OF assms(1-3)] refl assms(4)] .


subsection \<open>A command line to compute with\<close>

definition toy_cli :: "int cli" where
  "toy_cli = \<lparr>cli_env = toy_env, out_Write = (\<lambda>_. return ()), err_Write = (\<lambda>_. return ()),
     tabwriter_New = (\<lambda>_ _ _ _ _. \<lparr>tw_Write = (\<lambda>_. return ()), tw_Flush = return ()\<rparr>), fmt_Quote = id,
     fmt_LocalTime = fmt_d, fmt_Quotient = (\<lambda>a b. fmt_d (a div b) @ ''.0''), cobra_Execute = (\<lambda>_. return ())\<rparr>"

definition toy_flags :: flag_values where
  "toy_flags name = StringValue (if name = ''repo'' then ''smb://joe@nas/backups'' else ''/key.pem'')"

theorem formatBytes_units_witness: "formatBytes toy_cli 5242880 = Ok ''5.0 MiB''"
proof -
  from formatBytes_units [of 5242880 toy_cli] obtain e where
    e: "e < 6" "(1024 :: int) ^ Suc e \<le> 5242880" "(5242880 :: int) < 1024 ^ Suc (Suc e)"
      "formatBytes toy_cli 5242880 = Ok (fmt_Quotient toy_cli 5242880 (1024 ^ Suc e) @ '' '' @ [''KMGTPE'' ! e] @ ''iB'')"
    by auto
  from e(1) have "e = 0 \<or> e = 1 \<or> e = 2 \<or> e = 3 \<or> e = 4 \<or> e = 5" by arith
  with e(2,3) have "e = 1" by (elim disjE) simp_all
  moreover have "fmt_Quotient toy_cli 5242880 1048576 = ''5.0''"
    by (simp add: toy_cli_def fmt_d_def show_nat.simps digit_char_def digits_def)
  ultimately show ?thesis using e(4) by simp
qed

theorem rewrap_ignores_server_witness:
  "os_world.more (snd (run_rewrap toy_cli background toy_flags [] idle)) = 0"
proof -
  have env: "cli_env toy_cli = toy_env" by (simp add: toy_cli_def)
  have laws: "telemetry_apart id (se_telemetry (cli_env toy_cli))" "core_lawful (se_core (cli_env toy_cli))"
    unfolding env by (simp_all add: toy_env_def toy_telemetry_apart toy_core_lawful)
  have out: "calm id (out_Write toy_cli s)" for s by (simp add: toy_cli_def passes_return)
  have "run_rewrap toy_cli background toy_flags [] idle =
      (fst (run_rewrap toy_cli background toy_flags [] idle), snd (run_rewrap toy_cli background toy_flags [] idle))" by simp
  from rewrap_ignores_server [OF laws out this]
  have "os_world.more (snd (run_rewrap toy_cli background toy_flags [] idle)) = os_world.more idle" by simp
  moreover have "os_world.more idle = 0" by code_simp
  ultimately show ?thesis by simp
qed

end
