(* ===== verification/CLI_Commands.thy ===== *)
theory CLI_Commands
  imports CLI_Properties
begin

section \<open>A command that ends without an error has done what it says\<close>

text \<open>
  \<open>ends w P m\<close>: if \<open>m\<close>, started in the world \<open>w\<close>, ends without an error, then \<open>P\<close>. The rules follow
  a command from its start to its end: each action on the way has been run in the world the one before it
  has left, and returned a result there. So \<open>P\<close> can speak of the run of the command itself.
\<close>

definition ends :: "'z os_world_scheme \<Rightarrow> bool \<Rightarrow> ('z, 'a) os \<Rightarrow> bool" where
  "ends w P m \<longleftrightarrow> (\<forall>y w'. m w = (Ok y, w') \<longrightarrow> P)"

lemma ends_holds: "P \<Longrightarrow> ends w P m" by (simp add: ends_def)

lemma endsI: "(\<And>y w'. m w = (Ok y, w') \<Longrightarrow> P) \<Longrightarrow> ends w P m" by (auto simp: ends_def)

lemma ends_Ok: "ends w P m \<Longrightarrow> m w = (Ok y, w') \<Longrightarrow> P" by (auto simp: ends_def)

lemma ends_failing: "ends w P (fail e)" "ends w P (panic s)"
  by (simp_all add: ends_def ok_iffs)

lemma ends_andThen: "(\<And>x w1. m w = (Ok x, w1) \<Longrightarrow> ends w1 P (f x)) \<Longrightarrow> ends w P (andThen m f)"
  unfolding ends_def andThen_Ok_iff by blast

lemma ends_first: "ends w P m \<Longrightarrow> ends w P (andThen m f)"
  unfolding ends_def andThen_Ok_iff by blast

lemma ends_deferring: "ends w P m \<Longrightarrow> ends w P (deferring m d)"
  unfolding ends_def deferring_iff by blast

lemma ends_orWrap: "ends w P m \<Longrightarrow> ends w P (orWrap msg m)"
  by (simp add: ends_def)

lemma ends_if: "(b \<Longrightarrow> ends w P m) \<Longrightarrow> (\<not> b \<Longrightarrow> ends w P n) \<Longrightarrow> ends w P (if b then m else n)"
  by simp

lemma ends_let: "ends w P (f t) \<Longrightarrow> ends w P (Let t f)"
  by simp

text \<open>Behind transparent middlewares a handler answers what its service has returned in between.\<close>

lemma ends_behind:
  assumes t: "transparent view Q mdw" and fit: "\<And>ctx. yields Q (hnd ctx cmd)" and hnd: "hnd ctx cmd = answer zero svc mk"
    and cont: "\<And>x r w1 w2 w3 w4. still view w w1 \<Longrightarrow> svc w1 = (Ok x, w2) \<Longrightarrow> mk x w2 = (Ok r, w3) \<Longrightarrow> still view w3 w4 \<Longrightarrow>
      ends w4 P (cont (r, None))"
    and err: "\<And>e v. ends v P (cont (zero, Some e))"
  shows "ends w P (andThen (mdw hnd ctx cmd) cont)"
proof (rule ends_andThen)
  fix a w4 assume m: "mdw hnd ctx cmd w = (Ok a, w4)"
  have "around view (mdw hnd ctx cmd) (hnd ctx cmd)" using t fit unfolding transparent_def by blast
  from aroundD [OF this m] obtain w1 w3 where h: "still view w w1" "answer zero svc mk w1 = (Ok a, w3)" "still view w3 w4"
    unfolding hnd by blast
  obtain o' w2 where s: "svc w1 = (o', w2)" by force
  show "ends w4 P (cont a)"
  proof (cases o')
    case (Ok x)
    with h(2) s obtain r where "mk x w2 = (Ok r, w3)" "a = (r, None)" by (auto simp: answer_def ok_iffs tryCatch_def)
    with cont [OF h(1) s [unfolded Ok] _ h(3)] show ?thesis by simp
  next
    case (Err e)
    with h(2) s have "a = (zero, Some e)" by (simp add: answer_def tryCatch_run return_run)
    with err show ?thesis by simp
  next
    case (Panic p)
    with h(2) s show ?thesis by (simp add: answer_def tryCatch_run)
  qed
qed

lemma ends_dispatch:
  assumes "transparent view Q mdw" and "\<And>ctx. yields Q (hnd ctx cmd)" and "hnd ctx cmd = answer zero svc mk"
    and cont: "\<And>x r w1 w2 w3 w4. still view w w1 \<Longrightarrow> svc w1 = (Ok x, w2) \<Longrightarrow> mk x w2 = (Ok r, w3) \<Longrightarrow> still view w3 w4 \<Longrightarrow>
      ends w4 P (cont r)"
  shows "ends w P (dispatch (mdw hnd ctx cmd) cont)"
  unfolding dispatch_def by (rule ends_behind [where hnd = hnd and ctx = ctx and cmd = cmd, OF assms(1-3)]) (auto intro: cont ends_failing)

subsection \<open>The parts of the commands\<close>

lemma started:
  assumes "telemetry_apart view (se_telemetry (cli_env c))" and "cli_observability c ctx w = (Ok obsv, w')"
  shows "observes_apart view obsv" and "still view w w'"
  using passesD(1,2) [OF passes_cli_observability [OF assms(1)] assms(2)] by simp_all

lemma built_commands:
  assumes "observes_apart view obsv" and "core_lawful core" and "BuildCommandMiddlewares core obsv evtr w = (Ok mdw, w')"
  shows "transparent view (events_fit core evtr) mdw" and "still view w w'"
  using passesD(1,2) [OF Build_transparent(1) [OF assms(1,2)] assms(3)] by simp_all

lemma built_queries:
  assumes "observes_apart view obsv" and "core_lawful core" and "BuildQueryMiddlewares core obsv w = (Ok mdw, w')"
  shows "transparent view (\<lambda>_. True) mdw" and "still view w w'"
  using passesD(1,2) [OF Build_transparent(2) [OF assms(1,2), where P = "\<lambda>_. True"] assms(3)] by simp_all

lemma cli_decrypt_Ok [simp]:
  "cli_decrypt c w = (Ok d, w') \<longleftrightarrow> d = own_decrypt (cli_env c) \<and> w' = se_store (cli_env c) [] w"
  by (auto simp: cli_decrypt_def NewDecryptSymmetricKey_def)

text \<open>
  The steps of a run between its start and its service: the repositories of the address that the command
  was given are opened, the stores of the handler are taken, the key cache is emptied. In between nothing
  happens but what telemetry does.
\<close>

definition opened ::
  "('z \<Rightarrow> 's) \<Rightarrow> 'z cli \<Rightarrow> ctx \<Rightarrow> flag_values \<Rightarrow> 'z os_world_scheme \<Rightarrow> 'z Repositories \<Rightarrow> 'z os_world_scheme \<Rightarrow> bool" where
  "opened view c ctx v w h w' \<longleftrightarrow>
     (\<exists>w0. still view w w0 \<and> NewHandler (se_out (cli_env c)) ctx (str_flag v ''repo'') w0 = (Ok h, w'))"

definition stores ::
  "'z Repositories \<Rightarrow> 'z os_world_scheme \<Rightarrow> 'z ManifestRepository \<Rightarrow> 'z ObjectRepository \<Rightarrow> 'z os_world_scheme \<Rightarrow> bool" where
  "stores h w manifests objects w' \<longleftrightarrow>
     (\<exists>w1. ManifestRepository_of h w = (Ok manifests, w1) \<and> ObjectRepository_of h w1 = (Ok objects, w'))"

definition emptied :: "('z \<Rightarrow> 's) \<Rightarrow> 'z cli \<Rightarrow> 'z os_world_scheme \<Rightarrow> 'z os_world_scheme \<Rightarrow> bool" where
  "emptied view c w w' \<longleftrightarrow> (\<exists>w0. still view w w0 \<and> still view (se_store (cli_env c) [] w0) w')"

text \<open>What a handler does with a message of its own type.\<close>

lemmas handlers =
  CreateSnapshot_Handle_def [where cmd = "CreateSnapshotCmd q" for q, unfolded command.case]
  Init_Handle_def [where cmd = "InitCmd q" for q, unfolded command.case]
  RekeyKey_Handle_def [where cmd = "RekeyKeyCmd q" for q, unfolded command.case]
  RewrapKey_Handle_def [where cmd = "RewrapKeyCmd q" for q, unfolded command.case]
  GenerateKey_Handle_def [where cmd = "GenerateKeyCmd q" for q, unfolded command.case]
  RestoreFile_Handle_def [where cmd = "RestoreFileCmd q" for q, unfolded command.case]
  RestoreSnapshot_Handle_def [where cmd = "RestoreSnapshotCmd q" for q, unfolded command.case]
  VerifySnapshot_Handle_def [where qry = "VerifySnapshotQry q" for q, unfolded query.case]
  ManifestGet_Handle_def [where qry = "ManifestGetQry q" for q, unfolded query.case]

lemma ends_query:
  assumes o: "observes_apart view obsv" and core: "core_lawful core" and hnd: "hnd ctx qry = answer zero svc mk"
    and cont: "\<And>x r w1 w2 w3 w4. still view w w1 \<Longrightarrow> svc w1 = (Ok x, w2) \<Longrightarrow> mk x w2 = (Ok r, w3) \<Longrightarrow> still view w3 w4 \<Longrightarrow>
      ends w4 P (cont (r, None))"
    and err: "\<And>e v. ends v P (cont (zero, Some e))"
  shows "ends w P (andThen (BuildQueryMiddlewares core obsv) (\<lambda>mdw. andThen (mdw hnd ctx qry) cont))"
proof (rule ends_andThen)
  fix mdw w0 assume "BuildQueryMiddlewares core obsv w = (Ok mdw, w0)"
  note b = built_queries [OF o core this]
  show "ends w0 P (andThen (mdw hnd ctx qry) cont)"
    by (rule ends_behind [where hnd = hnd and ctx = ctx and cmd = qry, OF b(1) yields_True hnd])
      (blast intro: cont err still_trans [OF b(2)])+
qed

lemma ends_command:
  assumes o: "observes_apart view obsv" and core: "core_lawful core" and hnd: "hnd ctx cmd = answer zero svc mk"
    and fit: "\<And>ctx. yields (events_fit core evtr) (hnd ctx cmd)"
    and P: "\<And>x w1 w2. still view w w1 \<Longrightarrow> svc w1 = (Ok x, w2) \<Longrightarrow> P"
  shows "ends w P (andThen (BuildCommandMiddlewares core obsv evtr) (\<lambda>mdw. dispatch (mdw hnd ctx cmd) cont))"
    and "ends w P (andThen (BuildCommandMiddlewares core obsv evtr) (\<lambda>mdw.
      andThen (orWrap msg (dispatch (mdw hnd ctx cmd) cont)) cont'))"
proof -
  have d: "ends w0 P (dispatch (mdw hnd ctx cmd) cont)"
    if "BuildCommandMiddlewares core obsv evtr w = (Ok mdw, w0)" for mdw w0
  proof -
    note b = built_commands [OF o core that]
    show ?thesis
      by (rule ends_dispatch [where hnd = hnd and ctx = ctx and cmd = cmd, OF b(1) fit hnd])
        (rule ends_holds, rule P, auto intro: still_trans [OF b(2)])
  qed
  show "ends w P (andThen (BuildCommandMiddlewares core obsv evtr) (\<lambda>mdw. dispatch (mdw hnd ctx cmd) cont))"
    by (rule ends_andThen) (rule d)
  show "ends w P (andThen (BuildCommandMiddlewares core obsv evtr) (\<lambda>mdw.
      andThen (orWrap msg (dispatch (mdw hnd ctx cmd) cont)) cont'))"
    by (rule ends_andThen, rule ends_first, rule ends_orWrap) (rule d)
qed

lemma create_fits:
  assumes "core_lawful core"
  shows "yields (events_fit core (EventsTracing_Add CreateSnapshotCommandName (CreateSnapshotTracer logger) NewEventsTracing))
    (answer [] svc (\<lambda>x. andThen (NewCreateSnapshotEvent u (i x) (n x) (sz x)) (\<lambda>ev. return [ev])))"
  using assms by (auto intro!: events_fit_made
      simp: NewCreateSnapshotEvent_def uuid_New_def andThen_run return_run core_lawful_def EventsTracing_Add_def)

lemma untraced: "yields (events_fit core NewEventsTracing) m"
proof -
  have "fits None ev" for ev by simp
  then show ?thesis by (simp add: yields_def events_fit_def NewEventsTracing_def)
qed

lemma restored_event:
  "andThen (NewRestoreSnapshotEvent u i n fs ok) (\<lambda>ev. return [ev]) w = (Ok r, w') \<Longrightarrow> \<exists>b. r = [RestoreSnapshotEvent b i n fs ok]"
  by (auto simp: NewRestoreSnapshotEvent_def uuid_New_def ok_iffs)

subsection \<open>The commands\<close>

text \<open>What each command has done when it ends without an error.\<close>

definition inited :: "('z \<Rightarrow> 's) \<Rightarrow> 'z cli \<Rightarrow> ctx \<Rightarrow> flag_values \<Rightarrow> 'z os_world_scheme \<Rightarrow> bool" where
  "inited view c ctx v w \<longleftrightarrow>
     (\<exists>h w1 w2 enc w3 ct co conf w4 result w5. opened view c ctx v w h w1 \<and> still view w1 w2 \<and>
        init_encryption c ctx (str_flag v ''public-key'') w2 = (Ok enc, w3) \<and> still view w3 w4 \<and>
        ParseCompressionType (str_flag v ''compression'') = Ok ct \<and> NewCompression ct (Some (int_flag v ''level'')) = Ok co \<and>
        compression conf = Some co \<and> encryption conf = enc \<and> formatVersion conf = ParseFormatVersion (int_flag v ''version'') \<and>
        Init_Do (uuid_of c) (FolderRepository_of h) ctx \<lparr>path = RepositoryPath h, config = Some conf\<rparr> (bool_flag v ''force'') w4
          = (Ok result, w5))"

definition created_snapshot :: "('z \<Rightarrow> 's) \<Rightarrow> 'z cli \<Rightarrow> ctx \<Rightarrow> flag_values \<Rightarrow> string \<Rightarrow> 'z os_world_scheme \<Rightarrow> bool" where
  "created_snapshot view c ctx v source w \<longleftrightarrow>
     (\<exists>h w1 ms os w2 w3 result w4. opened view c ctx v w h w1 \<and> stores h w1 ms os w2 \<and> emptied view c w2 w3 \<and>
        run_Create (se_schedule (cli_env c)) (cli_create_service c ms os (FolderRepository_of h) (own_decrypt (cli_env c))) ctx
          (RepositoryPath h) source (given (str_flag v ''private-key'')) w3 = (Ok result, w4))"

definition listed_snapshots :: "('z \<Rightarrow> 's) \<Rightarrow> 'z cli \<Rightarrow> ctx \<Rightarrow> flag_values \<Rightarrow> 'z os_world_scheme \<Rightarrow> bool" where
  "listed_snapshots view c ctx v w \<longleftrightarrow>
     (\<exists>h w1 ms w2 w3 items w4 w5 w6. opened view c ctx v w h w1 \<and> ManifestRepository_of h w1 = (Ok ms, w2) \<and> still view w2 w3 \<and>
        Listing_List ms ctx w3 = (Ok items, w4) \<and> still view w4 w5 \<and> print_resumes c items w5 = (Ok (), w6))"

definition got_manifest :: "('z \<Rightarrow> 's) \<Rightarrow> 'z cli \<Rightarrow> ctx \<Rightarrow> flag_values \<Rightarrow> 'z os_world_scheme \<Rightarrow> bool" where
  "got_manifest view c ctx v w \<longleftrightarrow>
     (\<exists>h w1 ms w2 w3 manifest w4 w5 w6. opened view c ctx v w h w1 \<and> ManifestRepository_of h w1 = (Ok ms, w2) \<and> still view w2 w3 \<and>
        GetManifest_Get ms ctx (str_flag v ''id'') w3 = (Ok manifest, w4) \<and> still view w4 w5 \<and>
        printManifest c manifest w5 = (Ok (), w6))"

definition verified :: "('z \<Rightarrow> 's) \<Rightarrow> 'z cli \<Rightarrow> ctx \<Rightarrow> flag_values \<Rightarrow> 'z os_world_scheme \<Rightarrow> bool" where
  "verified view c ctx v w \<longleftrightarrow>
     (\<exists>h w1 ms os w2 w3 result w4. opened view c ctx v w h w1 \<and> stores h w1 ms os w2 \<and> emptied view c w2 w3 \<and>
        run_Verify (se_schedule (cli_env c)) (cli_verify_service c ms os (FolderRepository_of h) (own_decrypt (cli_env c))) ctx
          (RepositoryPath h) (str_flag v ''id'') (given (str_flag v ''private-key'')) w3 = (Ok result, w4) \<and> IsSuccess result)"

definition restored :: "('z \<Rightarrow> 's) \<Rightarrow> 'z cli \<Rightarrow> ctx \<Rightarrow> flag_values \<Rightarrow> 'z os_world_scheme \<Rightarrow> bool" where
  "restored view c ctx v w \<longleftrightarrow>
     (\<exists>h w1 ms os w2 w3 w4. opened view c ctx v w h w1 \<and> stores h w1 ms os w2 \<and> emptied view c w2 w3 \<and>
        (if str_flag v ''file'' = [] then
           \<exists>result. IsSuccess result \<and> Restore_Restore ms os (FolderRepository_of h) (own_decrypt (cli_env c)) ctx
             (str_flag v ''id'') (RepositoryPath h) (given (str_flag v ''destination'')) (given (str_flag v ''private-key'')) w3
               = (Ok result, w4)
         else RestoreFile_Restore ms os (FolderRepository_of h) (own_decrypt (cli_env c)) ctx (str_flag v ''id'')
           (str_flag v ''file'') (RepositoryPath h) (given (str_flag v ''destination'')) (given (str_flag v ''private-key'')) w3
             = (Ok (), w4)))"

definition generated_keys :: "('z \<Rightarrow> 's) \<Rightarrow> 'z cli \<Rightarrow> ctx \<Rightarrow> flag_values \<Rightarrow> 'z os_world_scheme \<Rightarrow> bool" where
  "generated_keys view c ctx v w \<longleftrightarrow>
     (\<exists>w1 keys w2 w3 w4. still view w w1 \<and> NewAsymmetricKeyPair (str_flag v ''folder'') w1 = (Ok keys, w2) \<and> still view w2 w3 \<and>
        CreateAsymmetricKeyPair_Create (lib_crypto (lib_of c)) (asymmetric_of c) ctx keys w3 = (Ok (), w4))"

definition rewrapped_key :: "('z \<Rightarrow> 's) \<Rightarrow> 'z cli \<Rightarrow> ctx \<Rightarrow> flag_values \<Rightarrow> 'z os_world_scheme \<Rightarrow> bool" where
  "rewrapped_key view c ctx v w \<longleftrightarrow>
     (\<exists>w1 w2. still view w w1 \<and>
        Rewrap_Do (DiskFolderRepository (lib_of c)) (symmetric_of c) (asymmetric_of c) ctx (str_flag v ''repo'')
          (str_flag v ''old-private-key'') (str_flag v ''new-public-key'') w1 = (Ok (), w2))"

definition rekeyed :: "('z \<Rightarrow> 's) \<Rightarrow> 'z cli \<Rightarrow> ctx \<Rightarrow> flag_values \<Rightarrow> 'z os_world_scheme \<Rightarrow> bool" where
  "rekeyed view c ctx v w \<longleftrightarrow>
     (\<exists>h w1 os w2 w3 w4. opened view c ctx v w h w1 \<and> ObjectRepository_of h w1 = (Ok os, w2) \<and> still view w2 w3 \<and>
        run_ReKey (se_schedule (cli_env c)) (cli_rekey_service c (FolderRepository_of h) os) ctx (RepositoryPath h)
          (str_flag v ''private-key'') (str_flag v ''public-key'') w3 = (Ok (), w4))"

lemma run_init_done:
  assumes tel: "telemetry_apart view (se_telemetry (cli_env c))" and core: "core_lawful (core_of c)"
  shows "ends w (inited view c ctx v w) (run_init c ctx v args)"
  unfolding run_init_def with_repositories_def
proof (rule ends_andThen, rule ends_andThen, rule ends_deferring, rule ends_andThen, rule ends_andThen, rule ends_andThen, rule ends_andThen, rule ends_andThen, rule ends_andThen)
  fix obsv wa h w1 ct wb co wc i wd enc w3 conf we re wf
  assume ob: "orWrap ''create observability'' (cli_observability c ctx) w = (Ok obsv, wa)"
    and h: "NewHandler (se_out (cli_env c)) ctx (str_flag v ''repo'') wa = (Ok h, w1)"
    and ct: "orWrap ''invalid compression type'' (lift_outcome (ParseCompressionType (str_flag v ''compression''))) w1 = (Ok ct, wb)"
    and co: "orWrap ''create compression configuration'' (lift_outcome (NewCompression ct (Some (int_flag v ''level'')))) wb = (Ok co, wc)"
    and i: "uuid_New (uuid_of c) wc = (Ok i, wd)"
    and enc: "init_encryption c ctx (str_flag v ''public-key'') wd = (Ok enc, w3)"
    and conf: "NewConfig i (ParseFormatVersion (int_flag v ''version'')) (Some co) enc w3 = (Ok conf, we)"
    and re: "orWrap ''create repository'' (lift_outcome (NewRepository (RepositoryPath h) (Some conf))) we = (Ok re, wf)"
  note s = started [OF tel ob [unfolded orWrap_Ok_iff]]
  have o: "opened view c ctx v w h w1" using s(2) h by (auto simp: opened_def)
  have ct': "ParseCompressionType (str_flag v ''compression'') = Ok ct" "wb = w1"
    and co': "NewCompression ct (Some (int_flag v ''level'')) = Ok co" "wc = wb"
    and re': "NewRepository (RepositoryPath h) (Some conf) = Ok re" "wf = we"
    using ct co re by (auto simp: lift_outcome_Ok_iff)
  have st: "still view w1 wd" "still view w3 wf"
    using i conf ct' co' re' by (auto simp: uuid_New_def NewConfig_def ok_iffs time_Now_def still_def steady_def tick_def)
  have c': "compression conf = Some co" "encryption conf = enc" "formatVersion conf = ParseFormatVersion (int_flag v ''version'')"
    using conf by (auto simp: NewConfig_def ok_iffs)
  have re'': "re = \<lparr>path = RepositoryPath h, config = Some conf\<rparr>"
    using re' by (auto simp: NewRepository_def Let_def split: option.splits if_splits)
  show "ends wf (inited view c ctx v w) (andThen (BuildCommandMiddlewares (core_of c) obsv NewEventsTracing) (\<lambda>multiMdw.
       andThen
         (orWrap ''initialize repository''
           (dispatch
             (multiMdw (Init_Handle (core_of c) (uuid_of c) (Init_Do (uuid_of c) (FolderRepository_of h))) ctx
               (InitCmd \<lparr>ic_Repository = re, ic_Force = bool_flag v ''force''\<rparr>)) return))
         (print_init c (RepositoryPath h))))"
  proof (rule ends_command(2) [OF s(1) core], rule handlers(2), rule untraced)
    fix x w4 w5 assume "still view wf w4" and run: "Init_Do (uuid_of c) (FolderRepository_of h) ctx
        (ic_Repository \<lparr>ic_Repository = re, ic_Force = bool_flag v ''force''\<rparr>) (ic_Force \<lparr>ic_Repository = re, ic_Force = bool_flag v ''force''\<rparr>) w4 = (Ok x, w5)"
    with still_trans [OF st(2)] have w4: "still view w3 w4" by blast
    from run re'' have "Init_Do (uuid_of c) (FolderRepository_of h) ctx \<lparr>path = RepositoryPath h, config = Some conf\<rparr>
        (bool_flag v ''force'') w4 = (Ok x, w5)" by simp
    with o st(1) enc w4 ct'(1) co'(1) c' show "inited view c ctx v w" unfolding inited_def by blast
  qed
qed

lemma run_create_done:
  assumes tel: "telemetry_apart view (se_telemetry (cli_env c))" and core: "core_lawful (core_of c)"
  shows "ends w (created_snapshot view c ctx v source w) (run_create c ctx v (source # args))"
  unfolding run_create_def Let_def list.case
proof (rule ends_if, rule ends_failing, rule ends_andThen, rule ends_deferring, rule ends_andThen, rule ends_andThen, rule ends_andThen, rule ends_andThen, rule ends_deferring)
  fix h w1 ms w' os w2 dsk wd obsv we
  assume h: "NewHandler (se_out (cli_env c)) ctx (str_flag v ''repo'') w = (Ok h, w1)"
    and st: "ManifestRepository_of h w1 = (Ok ms, w')" "ObjectRepository_of h w' = (Ok os, w2)"
    and d: "cli_decrypt c w2 = (Ok dsk, wd)" and ob: "cli_observability c ctx wd = (Ok obsv, we)"
  note s = started [OF tel ob]
  have o: "opened view c ctx v w h w1" "stores h w1 ms os w2"
    using h st still_refl unfolding opened_def stores_def by blast+
  let ?svc = "cli_create_service c ms os (FolderRepository_of h) dsk"
  show "ends we (created_snapshot view c ctx v source w)
     (andThen (BuildCommandMiddlewares (core_of c) obsv
         (EventsTracing_Add CreateSnapshotCommandName (CreateSnapshotTracer (obs_Logger obsv)) NewEventsTracing)) (\<lambda>multiMdw.
       dispatch (multiMdw (CreateSnapshot_Handle (core_of c) (uuid_of c) (run_Create (se_schedule (cli_env c)) ?svc)) ctx
           (CreateSnapshotCmd \<lparr>cs_RepositoryPath = RepositoryPath h, cs_SourcePath = source,
              cs_PrivateKey = given (str_flag v ''private-key'')\<rparr>))
         (print_created c)))"
  proof (rule ends_command(1) [OF s(1) core], rule handlers(1))
    show "yields (events_fit (core_of c) (EventsTracing_Add CreateSnapshotCommandName (CreateSnapshotTracer (obs_Logger obsv)) NewEventsTracing))
        (CreateSnapshot_Handle (core_of c) (uuid_of c) (run_Create (se_schedule (cli_env c)) ?svc) ctx (CreateSnapshotCmd q))" for ctx q
      unfolding handlers(1) by (rule create_fits [OF core])
  next
    fix x w3 w4 assume "still view we w3" and run: "run_Create (se_schedule (cli_env c)) ?svc ctx
      (cs_RepositoryPath \<lparr>cs_RepositoryPath = RepositoryPath h, cs_SourcePath = source, cs_PrivateKey = given (str_flag v ''private-key'')\<rparr>)
      (cs_SourcePath \<lparr>cs_RepositoryPath = RepositoryPath h, cs_SourcePath = source, cs_PrivateKey = given (str_flag v ''private-key'')\<rparr>)
      (cs_PrivateKey \<lparr>cs_RepositoryPath = RepositoryPath h, cs_SourcePath = source, cs_PrivateKey = given (str_flag v ''private-key'')\<rparr>) w3
      = (Ok x, w4)"
    with d still_trans [OF s(2)] have "emptied view c w2 w3" "dsk = own_decrypt (cli_env c)"
      by (auto simp: emptied_def intro: still_refl)
    with o run show "created_snapshot view c ctx v source w" unfolding created_snapshot_def by simp blast
  qed
qed

lemma run_list_done:
  assumes tel: "telemetry_apart view (se_telemetry (cli_env c))" and core: "core_lawful (core_of c)"
  shows "ends w (listed_snapshots view c ctx v w) (run_list c ctx v args)"
  unfolding run_list_def with_repositories_def
proof (rule ends_andThen, rule ends_andThen, rule ends_deferring, rule ends_andThen)
  fix obsv wa h w1 ms w2
  assume ob: "orWrap ''create observability'' (cli_observability c ctx) w = (Ok obsv, wa)"
    and h: "NewHandler (se_out (cli_env c)) ctx (str_flag v ''repo'') wa = (Ok h, w1)"
    and ms: "ManifestRepository_of h w1 = (Ok ms, w2)"
  note s = started [OF tel ob [unfolded orWrap_Ok_iff]]
  have o: "opened view c ctx v w h w1" using s(2) h by (auto simp: opened_def)
  show "ends w2 (listed_snapshots view c ctx v w) (andThen (BuildQueryMiddlewares (core_of c) obsv) (\<lambda>multiMdw.
       andThen (multiMdw (SnapshotList_Handle (Listing_List ms)) ctx SnaphotListQry) (\<lambda>(result, err).
       (case result of
          AnyResumes snapshots \<Rightarrow> (case err of Some e \<Rightarrow> fail e | None \<Rightarrow> print_resumes c snapshots)
        | _ \<Rightarrow> panic ''unexpected result type''))))"
  proof (rule ends_query [OF s(1) core], rule SnapshotList_Handle_def)
    fix items r w3 w4 w4' w5
    assume run: "still view w2 w3" "Listing_List ms ctx w3 = (Ok items, w4)"
      and r: "return (AnyResumes items) w4 = (Ok r, w4')" and w5: "still view w4' w5"
    from r have r': "r = AnyResumes items" "w4' = w4" by (auto simp: return_run)
    have "listed_snapshots view c ctx v w" if "print_resumes c items w5 = (Ok (), w6)" for w6
      using o ms run w5 that unfolding r' listed_snapshots_def by blast
    then show "ends w5 (listed_snapshots view c ctx v w)
       (case (r, None) of (result, err) \<Rightarrow>
          (case result of
             AnyResumes snapshots \<Rightarrow> (case err of Some e \<Rightarrow> fail e | None \<Rightarrow> print_resumes c snapshots)
           | _ \<Rightarrow> panic ''unexpected result type''))"
      by (auto simp: r' intro: endsI)
  qed (simp add: ends_failing)
qed

lemma run_get_done:
  assumes tel: "telemetry_apart view (se_telemetry (cli_env c))" and core: "core_lawful (core_of c)"
  shows "ends w (got_manifest view c ctx v w) (run_get c ctx v args)"
  unfolding run_get_def with_repositories_def
proof (rule ends_andThen, rule ends_andThen, rule ends_deferring, rule ends_andThen)
  fix obsv wa h w1 ms w2
  assume ob: "orWrap ''create observability'' (cli_observability c ctx) w = (Ok obsv, wa)"
    and h: "NewHandler (se_out (cli_env c)) ctx (str_flag v ''repo'') wa = (Ok h, w1)"
    and ms: "ManifestRepository_of h w1 = (Ok ms, w2)"
  note s = started [OF tel ob [unfolded orWrap_Ok_iff]]
  have o: "opened view c ctx v w h w1" using s(2) h by (auto simp: opened_def)
  show "ends w2 (got_manifest view c ctx v w) (andThen (BuildQueryMiddlewares (core_of c) obsv) (\<lambda>multiMdw.
       andThen (multiMdw (ManifestGet_Handle (core_of c) (GetManifest_Get ms)) ctx
         (ManifestGetQry \<lparr>mg_SnapshotID = str_flag v ''id''\<rparr>)) (\<lambda>(result, err).
       (case result of
          AnyManifest m \<Rightarrow>
            (case err of
               Some e \<Rightarrow> fail e
             | None \<Rightarrow> (case m of Some manifest \<Rightarrow> printManifest c manifest | None \<Rightarrow> panic ''nil pointer dereference''))
        | _ \<Rightarrow> fail (ErrText ''unexpected result type'')))))"
  proof (rule ends_query [OF s(1) core], rule handlers(9))
    fix m r w3 w4 w4' w5
    assume run: "still view w2 w3"
        "GetManifest_Get ms ctx (mg_SnapshotID \<lparr>mg_SnapshotID = str_flag v ''id''\<rparr>) w3 = (Ok m, w4)"
      and r: "return (AnyManifest (Some m)) w4 = (Ok r, w4')" and w5: "still view w4' w5"
    from r have r': "r = AnyManifest (Some m)" "w4' = w4" by (auto simp: return_run)
    from run(2) have get: "GetManifest_Get ms ctx (str_flag v ''id'') w3 = (Ok m, w4)" by simp
    have "got_manifest view c ctx v w" if "printManifest c m w5 = (Ok (), w6)" for w6
      using o ms run(1) get w5 that unfolding r' got_manifest_def by blast
    then show "ends w5 (got_manifest view c ctx v w)
       (case (r, None) of (result, err) \<Rightarrow>
          (case result of
             AnyManifest m \<Rightarrow>
               (case err of
                  Some e \<Rightarrow> fail e
                | None \<Rightarrow> (case m of Some manifest \<Rightarrow> printManifest c manifest | None \<Rightarrow> panic ''nil pointer dereference''))
           | _ \<Rightarrow> fail (ErrText ''unexpected result type'')))"
      by (auto simp: r' intro: endsI)
  qed (simp add: ends_failing)
qed

lemma run_verify_done:
  assumes tel: "telemetry_apart view (se_telemetry (cli_env c))" and core: "core_lawful (core_of c)"
  shows "ends w (verified view c ctx v w) (run_verify c ctx v args)"
  unfolding run_verify_def with_repositories_def Let_def
proof (rule ends_if, rule ends_failing, rule ends_if, rule ends_failing, rule ends_andThen, rule ends_andThen, rule ends_deferring,
    rule ends_andThen, rule ends_andThen, rule ends_andThen)
  fix obsv wa h w1 ms w' os w2 dsk wd
  assume ob: "cli_observability c ctx w = (Ok obsv, wa)"
    and h: "NewHandler (se_out (cli_env c)) ctx (str_flag v ''repo'') wa = (Ok h, w1)"
    and st: "ManifestRepository_of h w1 = (Ok ms, w')" "ObjectRepository_of h w' = (Ok os, w2)"
    and d: "cli_decrypt c w2 = (Ok dsk, wd)"
  note s = started [OF tel ob]
  have o: "opened view c ctx v w h w1" "stores h w1 ms os w2" using s(2) h st by (auto simp: opened_def stores_def)
  let ?svc = "cli_verify_service c ms os (FolderRepository_of h) dsk"
  let ?q = "\<lparr>vq_SnapshotID = str_flag v ''id'', vq_RepositoryPath = RepositoryPath h,
     vq_PrivateKeyPath = given (str_flag v ''private-key'')\<rparr>"
  show "ends wd (verified view c ctx v w) (andThen (BuildQueryMiddlewares (core_of c) obsv) (\<lambda>multiMdw.
      dispatch (multiMdw (VerifySnapshot_Handle (core_of c) (run_Verify (se_schedule (cli_env c)) ?svc)) ctx (VerifySnapshotQry ?q))
        (\<lambda>r. case r of
           AnyResult (Some result) \<Rightarrow>
             andThen (printResult c (snapshotID result) (totalFiles result)
               (map (\<lambda>f. \<lparr>cf_Path = failed_path f, cf_Reason = reason f\<rparr>) (failed result)) (IsSuccess result)) (\<lambda>_.
             if \<not> IsSuccess result then fail (ErrText ''snapshot failed verification'') else return ())
         | AnyResult None \<Rightarrow> panic ''nil pointer dereference''
         | _ \<Rightarrow> fail (ErrText ''unexpected result type''))))"
    unfolding dispatch_def
  proof (rule ends_query [OF s(1) core], rule handlers(8))
    fix result r w3 w4 w4' w5
    assume w3: "still view wd w3"
      and run: "run_Verify (se_schedule (cli_env c)) ?svc ctx (vq_RepositoryPath ?q) (vq_SnapshotID ?q) (vq_PrivateKeyPath ?q) w3
        = (Ok result, w4)"
      and r: "return (AnyResult (Some result)) w4 = (Ok r, w4')"
    from r have r': "r = AnyResult (Some result)" by (simp add: return_run)
    have "emptied view c w2 w3" and dsk: "dsk = own_decrypt (cli_env c)"
      using d w3 by (auto simp: emptied_def intro: still_refl)
    with o run have "verified view c ctx v w" if "IsSuccess result" using that unfolding verified_def by simp blast
    then show "ends w5 (verified view c ctx v w)
       (case (r, None) of (r, err) \<Rightarrow> (case err of Some e \<Rightarrow> fail e | None \<Rightarrow>
         (case r of
           AnyResult (Some result) \<Rightarrow>
             andThen (printResult c (snapshotID result) (totalFiles result)
               (map (\<lambda>f. \<lparr>cf_Path = failed_path f, cf_Reason = reason f\<rparr>) (failed result)) (IsSuccess result)) (\<lambda>_.
             if \<not> IsSuccess result then fail (ErrText ''snapshot failed verification'') else return ())
         | AnyResult None \<Rightarrow> panic ''nil pointer dereference''
         | _ \<Rightarrow> fail (ErrText ''unexpected result type''))))"
      by (cases "IsSuccess result") (auto simp: r' intro: ends_holds ends_andThen ends_failing)
  qed (simp add: ends_failing)
qed

text \<open>The two ways to restore, behind their middlewares.\<close>

lemma executeRestore_done:
  assumes core: "core_lawful (core_of c)" and t: "transparent view (events_fit (core_of c) (restore_tracing obsv)) mdw"
    and P: "\<And>result w1 w2. still view w w1 \<Longrightarrow> Restore_Restore ms os fr dsk ctx i root d k w1 = (Ok result, w2) \<Longrightarrow>
      IsSuccess result \<Longrightarrow> P"
  shows "ends w P (executeRestore c ctx mdw ms os fr dsk root i d k)"
  unfolding executeRestore_def
proof (rule ends_dispatch [OF t])
  show "yields (events_fit (core_of c) (restore_tracing obsv)) (RestoreSnapshot_Handle (core_of c) (uuid_of c) (Restore_Restore ms os fr dsk) ctx
      (RestoreSnapshotCmd q))" for ctx q
    by (simp add: handlers restore_fits [OF core])
next
  fix x r w1 w2 w3 w4
  assume x: "still view w w1" "Restore_Restore ms os fr dsk ctx i root d k w1 = (Ok x, w2)"
    and "andThen (NewRestoreSnapshotEvent (uuid_of c) (snapshotID x) (totalFiles x) (app_failed x) (IsSuccess x)) (\<lambda>ev. return [ev]) w2 = (Ok r, w3)"
  then obtain b where r: "r = [RestoreSnapshotEvent b (snapshotID x) (totalFiles x) (app_failed x) (IsSuccess x)]"
    using restored_event by blast
  show "ends w4 P
     (case r of
        [RestoreSnapshotEvent _ i n fs isSuccess] \<Rightarrow>
          andThen (printResult c i n (map (\<lambda>f. \<lparr>cf_Path = Failed_Path f, cf_Reason = Failed_Reason f\<rparr>) fs) isSuccess) (\<lambda>_.
          if \<not> isSuccess then fail (ErrText ''snapshot failed restoration'') else return ())
      | [_] \<Rightarrow> fail (ErrText ''unexpected event type'')
      | _ \<Rightarrow> fail (ErrText ''unexpected number of events''))"
  proof (cases "IsSuccess x")
    case True
    then show ?thesis by (intro ends_holds P [OF x])
  qed (simp add: r ends_andThen ends_failing)
qed (simp add: handlers)

lemma executeRestoreFile_done:
  assumes core: "core_lawful (core_of c)" and t: "transparent view (events_fit (core_of c) (restore_tracing obsv)) mdw"
    and P: "\<And>w1 w2. still view w w1 \<Longrightarrow> RestoreFile_Restore ms os fr dsk ctx i f root d k w1 = (Ok (), w2) \<Longrightarrow> P"
  shows "ends w P (executeRestoreFile c ctx mdw ms os fr dsk i f root d k)"
  unfolding executeRestoreFile_def
proof (rule ends_dispatch [OF t])
  show "yields (events_fit (core_of c) (restore_tracing obsv)) (RestoreFile_Handle (core_of c) (uuid_of c) (RestoreFile_Restore ms os fr dsk) ctx
      (RestoreFileCmd q))" for ctx q
    by (simp add: handlers restore_fits [OF core])
qed (rule handlers, auto intro!: ends_holds P)

lemma run_restore_done:
  assumes tel: "telemetry_apart view (se_telemetry (cli_env c))" and core: "core_lawful (core_of c)"
  shows "ends w (restored view c ctx v w) (run_restore c ctx v args)"
  unfolding run_restore_def with_repositories_def
proof (rule ends_andThen, rule ends_andThen, rule ends_deferring, rule ends_andThen, rule ends_andThen, rule ends_andThen,
    rule ends_andThen)
  fix obsv wa h w1 ms w' os w2 mdw wb dsk wd
  assume ob: "cli_observability c ctx w = (Ok obsv, wa)"
    and h: "NewHandler (se_out (cli_env c)) ctx (str_flag v ''repo'') wa = (Ok h, w1)"
    and st: "ManifestRepository_of h w1 = (Ok ms, w')" "ObjectRepository_of h w' = (Ok os, w2)"
    and m: "BuildCommandMiddlewares (core_of c) obsv (restore_tracing obsv) w2 = (Ok mdw, wb)"
    and d: "cli_decrypt c wb = (Ok dsk, wd)"
  note s = started [OF tel ob] and b = built_commands [OF started(1) [OF tel ob] core m]
  have o: "opened view c ctx v w h w1" "stores h w1 ms os w2" using s(2) h st by (auto simp: opened_def stores_def)
  have e: "emptied view c w2 w3" if "still view wd w3" for w3 using d b(2) that by (auto simp: emptied_def)
  have dsk: "dsk = own_decrypt (cli_env c)" using d by simp
  show "ends wd (restored view c ctx v w)
     (if str_flag v ''file'' = [] then
         executeRestore c ctx mdw ms os (FolderRepository_of h) dsk
           (RepositoryPath h) (str_flag v ''id'') (given (str_flag v ''destination'')) (given (str_flag v ''private-key''))
       else
         executeRestoreFile c ctx mdw ms os (FolderRepository_of h) dsk
           (str_flag v ''id'') (str_flag v ''file'') (RepositoryPath h) (given (str_flag v ''destination''))
           (given (str_flag v ''private-key'')))"
  proof (rule ends_if)
    assume f: "str_flag v ''file'' = []"
    show "ends wd (restored view c ctx v w) (executeRestore c ctx mdw ms os (FolderRepository_of h) dsk
           (RepositoryPath h) (str_flag v ''id'') (given (str_flag v ''destination'')) (given (str_flag v ''private-key'')))"
    proof (rule executeRestore_done [OF core b(1)])
      fix result w3 w4
      assume "still view wd w3" "IsSuccess result" "Restore_Restore ms os (FolderRepository_of h) dsk ctx (str_flag v ''id'')
        (RepositoryPath h) (given (str_flag v ''destination'')) (given (str_flag v ''private-key'')) w3 = (Ok result, w4)"
      with o e f show "restored view c ctx v w" unfolding restored_def dsk by (simp only: if_True simp_thms) blast
    qed
  next
    assume f: "str_flag v ''file'' \<noteq> []"
    show "ends wd (restored view c ctx v w) (executeRestoreFile c ctx mdw ms os (FolderRepository_of h) dsk
           (str_flag v ''id'') (str_flag v ''file'') (RepositoryPath h) (given (str_flag v ''destination''))
           (given (str_flag v ''private-key'')))"
    proof (rule executeRestoreFile_done [OF core b(1)])
      fix w3 w4
      assume "still view wd w3" "RestoreFile_Restore ms os (FolderRepository_of h) dsk ctx (str_flag v ''id'') (str_flag v ''file'')
        (RepositoryPath h) (given (str_flag v ''destination'')) (given (str_flag v ''private-key'')) w3 = (Ok (), w4)"
      with o e f show "restored view c ctx v w" unfolding restored_def dsk by (simp only: if_False simp_thms) blast
    qed
  qed
qed

lemma run_generate_done:
  assumes tel: "telemetry_apart view (se_telemetry (cli_env c))" and core: "core_lawful (core_of c)"
  shows "ends w (generated_keys view c ctx v w) (run_generate c ctx v args)"
  unfolding run_generate_def
proof (rule ends_andThen, rule ends_deferring, rule ends_andThen, rule ends_andThen, rule ends_first, rule ends_orWrap)
  fix obsv wa mdw w1 keys w2
  assume ob: "orWrap ''create observability'' (cli_observability c ctx) w = (Ok obsv, wa)"
    and m: "BuildCommandMiddlewares (core_of c) obsv NewEventsTracing wa = (Ok mdw, w1)"
    and keys: "orWrap ''failed to create key pair'' (NewAsymmetricKeyPair (str_flag v ''folder'')) w1 = (Ok keys, w2)"
  note s = started [OF tel ob [unfolded orWrap_Ok_iff]]
  note b = built_commands [OF s(1) core m]
  show "ends w2 (generated_keys view c ctx v w)
     (dispatch (mdw (GenerateKey_Handle (core_of c) (CreateAsymmetricKeyPair_Create (lib_crypto (lib_of c)) (asymmetric_of c))) ctx
        (GenerateKeyCmd \<lparr>gk_Keys = keys\<rparr>)) return)"
  proof (rule ends_dispatch [OF b(1)], rule untraced, rule handlers(5), rule ends_holds)
    fix x w3 w4
    assume "still view w2 w3" "CreateAsymmetricKeyPair_Create (lib_crypto (lib_of c)) (asymmetric_of c) ctx
      (gk_Keys \<lparr>gk_Keys = keys\<rparr>) w3 = (Ok x, w4)"
    with keys still_trans [OF s(2) b(2)] show "generated_keys view c ctx v w" unfolding generated_keys_def by simp blast
  qed
qed

lemma run_rewrap_done:
  assumes tel: "telemetry_apart view (se_telemetry (cli_env c))" and core: "core_lawful (core_of c)"
  shows "ends w (rewrapped_key view c ctx v w) (run_rewrap c ctx v args)"
  unfolding run_rewrap_def
proof (rule ends_andThen, rule ends_deferring)
  fix obsv wa
  assume ob: "orWrap ''create observability'' (cli_observability c ctx) w = (Ok obsv, wa)"
  note s = started [OF tel ob [unfolded orWrap_Ok_iff]]
  let ?q = "\<lparr>rw_RepositoryPath = str_flag v ''repo'', rw_OldPrivateKey = str_flag v ''old-private-key'',
     rw_NewPublicKey = str_flag v ''new-public-key''\<rparr>"
  show "ends wa (rewrapped_key view c ctx v w)
     (andThen (BuildCommandMiddlewares (core_of c) obsv NewEventsTracing) (\<lambda>multiMdw.
        andThen
          (orWrap ''failed to rewrap''
            (dispatch
              (multiMdw (RewrapKey_Handle (core_of c)
                 (Rewrap_Do (DiskFolderRepository (lib_of c)) (symmetric_of c) (asymmetric_of c))) ctx (RewrapKeyCmd ?q)) return)) (\<lambda>_.
        out_Write c (''rotate encryption key pair successful'' @ newline_text))))"
  proof (rule ends_command(2) [OF s(1) core], rule handlers(4), rule untraced)
    fix x w1 w2
    assume "still view wa w1" "Rewrap_Do (DiskFolderRepository (lib_of c)) (symmetric_of c) (asymmetric_of c) ctx
      (rw_RepositoryPath ?q) (rw_OldPrivateKey ?q) (rw_NewPublicKey ?q) w1 = (Ok x, w2)"
    with still_trans [OF s(2)] show "rewrapped_key view c ctx v w" unfolding rewrapped_key_def by simp blast
  qed
qed

lemma run_rekey_done:
  assumes tel: "telemetry_apart view (se_telemetry (cli_env c))" and core: "core_lawful (core_of c)"
  shows "ends w (rekeyed view c ctx v w) (run_rekey c ctx v args)"
  unfolding run_rekey_def
proof (rule ends_andThen, rule ends_deferring, rule ends_andThen, rule ends_andThen)
  fix obsv wa h w1 os w2
  assume ob: "orWrap ''create observability'' (cli_observability c ctx) w = (Ok obsv, wa)"
    and h: "orWrap ''failed to create repository handler'' (NewHandler (se_out (cli_env c)) ctx (str_flag v ''repo'')) wa = (Ok h, w1)"
    and os: "orWrap ''failed to create object repository'' (ObjectRepository_of h) w1 = (Ok os, w2)"
  note s = started [OF tel ob [unfolded orWrap_Ok_iff]]
  have o: "opened view c ctx v w h w1" using s(2) h by (auto simp: opened_def)
  let ?q = "\<lparr>rk_RepositoryPath = RepositoryPath h, rk_PrivateKeyPath = str_flag v ''private-key'',
     rk_PublicKeyPath = str_flag v ''public-key''\<rparr>"
  let ?svc = "run_ReKey (se_schedule (cli_env c)) (cli_rekey_service c (FolderRepository_of h) os)"
  show "ends w2 (rekeyed view c ctx v w)
     (andThen (BuildCommandMiddlewares (core_of c) obsv NewEventsTracing) (\<lambda>multiMdw.
        andThen (orWrap ''failed to rekey'' (dispatch (multiMdw (RekeyKey_Handle (core_of c) ?svc) ctx (RekeyKeyCmd ?q)) return)) (\<lambda>_.
        out_Write c (''rotate encryption key pair successful'' @ newline_text))))"
  proof (rule ends_command(2) [OF s(1) core], rule handlers(3), rule untraced)
    fix x w3 w4
    assume "still view w2 w3" "?svc ctx (rk_RepositoryPath ?q) (rk_PrivateKeyPath ?q) (rk_PublicKeyPath ?q) w3 = (Ok x, w4)"
    with o os show "rekeyed view c ctx v w" unfolding rekeyed_def by simp blast
  qed
qed

text \<open>
  C13: the exit of a command tells the truth. With logs, traces and metrics that keep to themselves, a
  run of a command (initialising, creating, listing, getting, verifying, restoring, generating keys,
  rewrapping, rekeying) that ends without an error is one in which the repositories of its address were
  opened (but for the generation of keys and the rewrapping, which open none), and then its service, on
  these repositories and with the values of the flags, was run in the state that this left, up to the
  telemetry and an emptied key cache, and returned a result; for a verification and a restored snapshot
  this result is a success, and what a listing or a manifest holds has been printed.
\<close>

theorem commands_sound:
  assumes "telemetry_apart view (se_telemetry (cli_env c))" and "core_lawful (se_core (cli_env c))"
  shows "(run_init c ctx v args w = (Ok (), w') \<longrightarrow> inited view c ctx v w) \<and>
    (run_create c ctx v (source # args) w = (Ok (), w') \<longrightarrow> created_snapshot view c ctx v source w) \<and>
    (run_list c ctx v args w = (Ok (), w') \<longrightarrow> listed_snapshots view c ctx v w) \<and>
    (run_get c ctx v args w = (Ok (), w') \<longrightarrow> got_manifest view c ctx v w) \<and>
    (run_verify c ctx v args w = (Ok (), w') \<longrightarrow> verified view c ctx v w) \<and>
    (run_restore c ctx v args w = (Ok (), w') \<longrightarrow> restored view c ctx v w) \<and>
    (run_generate c ctx v args w = (Ok (), w') \<longrightarrow> generated_keys view c ctx v w) \<and>
    (run_rewrap c ctx v args w = (Ok (), w') \<longrightarrow> rewrapped_key view c ctx v w) \<and>
    (run_rekey c ctx v args w = (Ok (), w') \<longrightarrow> rekeyed view c ctx v w)"
  by (intro conjI impI)
    (erule ends_Ok [OF run_init_done [OF assms]] ends_Ok [OF run_create_done [OF assms]]
      ends_Ok [OF run_list_done [OF assms]] ends_Ok [OF run_get_done [OF assms]]
      ends_Ok [OF run_verify_done [OF assms]] ends_Ok [OF run_restore_done [OF assms]]
      ends_Ok [OF run_generate_done [OF assms]] ends_Ok [OF run_rewrap_done [OF assms]]
      ends_Ok [OF run_rekey_done [OF assms]])+

subsection \<open>A verification to compute with\<close>

definition checked_result :: Result where
  "checked_result = AddSuccess (NewResult ''one'')"

definition checked_cli :: "int cli" where
  "checked_cli = toy_cli\<lparr>cli_env := toy_env\<lparr>se_schedule := (se_schedule toy_env)\<lparr>run_Verify := \<lambda>_ _ _ _ _. return checked_result\<rparr>\<rparr>\<rparr>"

definition checked_flags :: flag_values where
  "checked_flags name = StringValue (if name = ''repo'' then ''smb://joe@nas/backups/daily'' else if name = ''id'' then ''one'' else [])"

lemma checked_env:
  "se_telemetry (cli_env checked_cli) = toy_telemetry" "se_core (cli_env checked_cli) = toy_core"
  "se_out (cli_env checked_cli) = toy_out share_url" "run_Verify (se_schedule (cli_env checked_cli)) svc ctx root i k = return checked_result"
  by (simp_all add: checked_cli_def toy_cli_def toy_env_def)

lemma checked_printed: "printResult checked_cli i n [] True = return ()"
  by (simp add: printResult_def checked_cli_def toy_cli_def Let_def)

lemma checked_success: "failed checked_result = []" "IsSuccess checked_result"
  by (simp_all add: checked_result_def AddSuccess_def NewResult_def IsSuccess_def)

lemma checked_handled:
  assumes "transparent view (\<lambda>_. True) mdw"
  shows "\<exists>w'. mdw (VerifySnapshot_Handle core (run_Verify (se_schedule (cli_env checked_cli)) svc)) ctx (VerifySnapshotQry q) w =
    (Ok (AnyResult (Some checked_result), None), w')"
proof -
  let ?h = "VerifySnapshot_Handle core (run_Verify (se_schedule (cli_env checked_cli)) svc)"
  have h: "?h ctx (VerifySnapshotQry q) = return (AnyResult (Some checked_result), None)"
    by (rule ext) (simp add: handlers checked_env answer_def tryCatch_def return_run)
  have "around view (mdw ?h ctx (VerifySnapshotQry q)) (?h ctx (VerifySnapshotQry q))"
    using assms yields_True unfolding transparent_def by blast
  moreover obtain r w' where "mdw ?h ctx (VerifySnapshotQry q) w = (r, w')" by force
  ultimately show ?thesis unfolding h by (auto elim!: aroundD simp: return_run)
qed

lemma checked_run: "\<exists>w'. run_verify checked_cli background checked_flags [] idle = (Ok (), w')"
proof -
  let ?c = checked_cli
  have o: "cli_observability ?c background idle = (Ok (newNoop toy_telemetry), idle)"
    using toy_built [of background idle] by (simp add: cli_observability_def builtObservability_def checked_env)
  have "succeeded (fst (andThen (NewHandler (toy_out share_url) background ''smb://joe@nas/backups/daily'')
      (\<lambda>h. andThen (ManifestRepository_of h) (\<lambda>_. ObjectRepository_of h)) idle))" by code_simp
  then obtain h ms os w1 w2 w3 where h: "NewHandler (toy_out share_url) background ''smb://joe@nas/backups/daily'' idle = (Ok h, w1)"
    "ManifestRepository_of h w1 = (Ok ms, w2)" "ObjectRepository_of h w2 = (Ok os, w3)"
    using succeeded by (fastforce simp: andThen_Ok_iff)
  obtain b w4 where b: "BuildQueryMiddlewares toy_core (newNoop toy_telemetry) (se_store (cli_env ?c) [] w3) = (b, w4)" by force
  have tel: "telemetry_apart id (se_telemetry (cli_env ?c))" by (simp add: checked_env toy_telemetry_apart)
  have obs: "observes_apart id (newNoop (toy_telemetry :: int telemetry))"
    by (rule passesD(2) [OF passes_cli_observability [OF tel] o refl])
  note built = passesD [OF Build_transparent(2) [OF obs toy_core_lawful, where P = "\<lambda>_. True"] b]
  have "obs_MeterProvider (newNoop (toy_telemetry :: int telemetry)) = toy_meter" by (simp add: newNoop_def toy_telemetry_def)
  from toy_middlewares(2) [OF this] built(3) b obtain mdw where mdw: "b = Ok mdw" by (cases b) fastforce+
  obtain w5 where handled: "mdw (VerifySnapshot_Handle toy_core (run_Verify (se_schedule (cli_env ?c))
      (cli_verify_service ?c ms os (FolderRepository_of h) (own_decrypt (cli_env ?c))))) background
      (VerifySnapshotQry \<lparr>vq_SnapshotID = ''one'', vq_RepositoryPath = RepositoryPath h, vq_PrivateKeyPath = None\<rparr>) w4 =
      (Ok (AnyResult (Some checked_result), None), w5)"
    using checked_handled [OF built(2) [OF mdw]] by blast
  have flags: "str_flag checked_flags ''repo'' = ''smb://joe@nas/backups/daily''" "str_flag checked_flags ''id'' = ''one''"
    "given (str_flag checked_flags ''private-key'') = None"
    by (simp_all add: str_flag_def checked_flags_def given_def)
  show ?thesis
    unfolding run_verify_def with_repositories_def flags checked_env(1-3) Let_def dispatch_def
    by (simp add: o h b [unfolded mdw] handled andThen_run deferring_iff cli_decrypt_def NewDecryptSymmetricKey_def checked_printed
        checked_success return_run)
qed

theorem commands_sound_witness:
  "verified id checked_cli background checked_flags idle"
proof -
  have laws: "telemetry_apart id (se_telemetry (cli_env checked_cli))" "core_lawful (se_core (cli_env checked_cli))"
    by (simp_all add: checked_env toy_telemetry_apart toy_core_lawful)
  from checked_run obtain w' where "run_verify checked_cli background checked_flags [] idle = (Ok (), w')" by blast
  with commands_sound [OF laws, of background checked_flags "[]" idle w'] show ?thesis by blast
qed

end
