(* ===== verification/Spec2Isabelle.thy ===== *)
theory Spec2Isabelle
  imports Prelude Go_Runtime Go_Strings Go_Path Go_OS Go_OS_Facts Compression Go_Base64 Crypto Encryption Keys Repository Snapshot Model Objects Sample Disk_Objects Disk_Rekey Disk_Repositories Disk_Layout Disk_Object_Facts Disk_Restore_Facts Disk_Rekey_Facts Disk_Source_Facts Disk_Store_Facts Create Create_Facts Disk_Create Disk_Properties Verify Verify_Facts Disk_Verify Verify_Run Verify_Properties ReKey ReKey_Facts Disk_Key_Change Disk_Key_Facts ReKey_Run ReKey_Sample ReKey_Properties ReKey_Ends Quiet Create_Run Create_Exclusive Disk_Explore Disk_Snapshot Create_Restore Create_Sample Create_Pair Create_Properties Key_Properties Store_Properties Init_Properties Rewrap_Properties Remote S3 GCS SSH SMB WebDAV Choice Remote_Facts Remote_Store Remote_Sample Remote_Properties Choice_Properties Choice_Connections Observability App App_Facts Facade Facade_Facts Facade_Properties CLI CLI_Properties CLI_Commands
begin

text \<open>
  A model of \<^verbatim>\<open>stowmark\<close>, a backup program: it saves the files of a directory as
  content-addressed objects in a repository, keeps a manifest per snapshot, verifies and restores
  snapshots, and changes the keys of an encrypted repository. The development follows the packages under
  \<^verbatim>\<open>src/internal\<close>: the domain services (\<^verbatim>\<open>domain/...\<close>) call
  repositories through interfaces, which \<^verbatim>\<open>infra/...\<close> implements for this machine and for
  five kinds of servers; \<^verbatim>\<open>src/pkg/stowmark\<close>, the library's interface, and
  \<^verbatim>\<open>infra/cli\<close>, the command line, run the services behind handlers
  (\<^verbatim>\<open>app\<close>) and middlewares that log, trace and measure them.

  \<^bold>\<open>How the program is modelled.\<close> A Go function with an error result is an action on a
  world (\<^theory_text>\<open>Go_Runtime\<close>): it ends in a result, an error or a panic and leaves the world
  changed. The world (\<^theory_text>\<open>Go_OS\<close>) holds the file tree, a clock that every system call
  and every look at a context moves on, and two oracles read at the clock: which calls fail (and after how
  many bytes), and the random source. A context is the set of times at which it is done. The theorems
  quantify over the oracles and the contexts, so they cover every pattern of input/output errors and every
  moment of cancellation; those that need a context that is not done before the end have it as a hypothesis. Interfaces of the code are records of actions; goroutines that share
  work are inductive step relations in which every repository call is one step, so that all schedules of the
  calls are covered. Where two calls can write one file at the same time, which is so when two workers of
  \<^verbatim>\<open>Create\<close> save identical chunks, the relation notes the object and leaves open what the
  calls write (\<open>entwined\<close>); the theorems about a created snapshot assume one worker or entries that share
  no object (\<open>saves_apart\<close>), under which no such step occurs. Sizes and
  offsets are mathematical integers reduced to \<^verbatim>\<open>int64\<close> where the code computes with them; generations are 64-bit words.

  \<^bold>\<open>Theories and files.\<close>
  \<^item> \<^theory_text>\<open>Prelude\<close>, \<^theory_text>\<open>Go_Runtime\<close>,
    \<^theory_text>\<open>Go_Strings\<close>, \<^theory_text>\<open>Go_Path\<close>, \<^theory_text>\<open>Go_OS\<close>,
    \<^theory_text>\<open>Go_OS_Facts\<close>, \<^theory_text>\<open>Go_Base64\<close>, \<^theory_text>\<open>Quiet\<close>: the
    language and its standard library, with the calculi of frames (\<open>sets\<close>, \<open>keeps\<close>) and of
    actions that cannot panic (\<open>quiet\<close>).
  \<^item> \<^theory_text>\<open>Compression\<close> (\<^verbatim>\<open>infra/compression\<close>,
    \<^verbatim>\<open>domain/repository/compression.go\<close>), \<^theory_text>\<open>Crypto\<close> and
    \<^theory_text>\<open>Keys\<close> (\<^verbatim>\<open>infra/encrypt\<close>, \<^verbatim>\<open>infra/disk/asymmetric...\<close>),
    \<^theory_text>\<open>Encryption\<close> (\<^verbatim>\<open>domain/encryption\<close>), \<^theory_text>\<open>Repository\<close>
    (\<^verbatim>\<open>domain/repository\<close>), \<^theory_text>\<open>Snapshot\<close> (\<^verbatim>\<open>domain/snapshot\<close>,
    the sequential services), \<^theory_text>\<open>Model\<close> (\<^verbatim>\<open>infra/model\<close>,
    \<^verbatim>\<open>infra/codec\<close>), \<^theory_text>\<open>Objects\<close> (\<^verbatim>\<open>infra/object\<close>,
    \<^verbatim>\<open>infra/chunkio\<close>).
  \<^item> \<^theory_text>\<open>Disk_Objects\<close>, \<^theory_text>\<open>Disk_Rekey\<close>, \<^theory_text>\<open>Disk_Repositories\<close>
    (\<^verbatim>\<open>infra/disk\<close>), with the facts about them in \<^theory_text>\<open>Disk_Layout\<close> and the
    theories \<open>Disk_..._Facts\<close>: where objects lie, that different objects lie apart, what each
    operation stores, returns and leaves alone.
  \<^item> \<^theory_text>\<open>Create\<close>, \<^theory_text>\<open>Verify\<close>, \<^theory_text>\<open>ReKey\<close>
    (\<^verbatim>\<open>create.go\<close>, \<^verbatim>\<open>verifier.go\<close>, \<^verbatim>\<open>rekey.go\<close> of
    \<^verbatim>\<open>domain/snapshot\<close>): the concurrent services. Their \<open>_Facts\<close> state what the
    repository promises as a locale and prove the invariants of the workers inside it;
    \<^theory_text>\<open>Disk_Create\<close>, \<^theory_text>\<open>Disk_Verify\<close> and
    \<^theory_text>\<open>Disk_Key_Change\<close> interpret the locales on the repository on disk; the
    \<open>_Run\<close> theories give a measure that every step lowers, an executable scheduler, and that no run
    gets stuck. \<^theory_text>\<open>Create_Exclusive\<close> shows that no two workers hold the same file,
    and when no two save the same object;
    \<^theory_text>\<open>Disk_Explore\<close>, \<^theory_text>\<open>Disk_Snapshot\<close> and
    \<^theory_text>\<open>Create_Restore\<close> follow a snapshot from the walk over the source to its manifest and back;
    \<^theory_text>\<open>ReKey_Ends\<close> shows that a change of the key on disk comes to its end.
  \<^item> \<^theory_text>\<open>Remote\<close> (what the five share), \<^theory_text>\<open>S3\<close>,
    \<^theory_text>\<open>GCS\<close>, \<^theory_text>\<open>SSH\<close>, \<^theory_text>\<open>SMB\<close>,
    \<^theory_text>\<open>WebDAV\<close>: the object, manifest and folder repositories of
    \<^verbatim>\<open>infra/s3\<close>, \<^verbatim>\<open>infra/gcs\<close>, \<^verbatim>\<open>infra/ssh\<close>,
    \<^verbatim>\<open>infra/smb\<close> and \<^verbatim>\<open>infra/webdav\<close>.
    \<^theory_text>\<open>Remote_Facts\<close> states what a client library has to do for what a server holds to be what was
    written, and the restoring of an object as a locale that \<^theory_text>\<open>Remote_Store\<close> interprets for each of the five.
  \<^item> \<^theory_text>\<open>Choice\<close> (\<^verbatim>\<open>infra/repositories\<close> and the clients' constructors): from
    an address to the repositories; \<^theory_text>\<open>Choice_Properties\<close> says where each address leads,
    \<^theory_text>\<open>Choice_Connections\<close> that a failed or closed handler leaves no connection open.
  \<^item> \<^theory_text>\<open>Observability\<close> (\<^verbatim>\<open>infra/observability\<close>,
    \<^verbatim>\<open>config/observability_config.go\<close>), \<^theory_text>\<open>App\<close> (\<^verbatim>\<open>app\<close>,
    \<^verbatim>\<open>infra/middlewares\<close>), \<^theory_text>\<open>Facade\<close> (\<^verbatim>\<open>src/pkg/stowmark\<close>) and
    \<^theory_text>\<open>CLI\<close> (\<^verbatim>\<open>infra/cli\<close>, \<^verbatim>\<open>src/cmd/cli\<close>).
    \<^theory_text>\<open>App_Facts\<close> has the calculus of actions that leave the program's state still and of
    middlewares that are transparent; \<^theory_text>\<open>Facade_Facts\<close> uses it for the common shape of the
    operations: observability, a service, a result. A run of one of the three concurrent services is there a field of
    \<open>schedule\<close>, one for each service, so that the theorems hold for every scheduler.
  \<^item> The theories \<open>_Properties\<close> hold the properties with their witnesses: what the operations of
    the repository on disk and on servers store and return (\<^theory_text>\<open>Disk_Properties\<close>,
    \<^theory_text>\<open>Remote_Properties\<close>), what the concurrent services achieve
    (\<^theory_text>\<open>Create_Properties\<close>, \<^theory_text>\<open>Verify_Properties\<close>,
    \<^theory_text>\<open>ReKey_Properties\<close>), round trips and bounds of what is stored
    (\<^theory_text>\<open>Store_Properties\<close>, \<^theory_text>\<open>Key_Properties\<close>), initialising and rewrapping
    (\<^theory_text>\<open>Init_Properties\<close>, \<^theory_text>\<open>Rewrap_Properties\<close>), the choice of the
    repositories, the interface and the command line (\<^theory_text>\<open>Facade_Properties\<close>,
    \<^theory_text>\<open>CLI_Properties\<close>); \<^theory_text>\<open>CLI_Commands\<close>, that a command which ends
    without an error has done what it says, in that run.
  \<^item> \<^theory_text>\<open>Sample\<close>, \<^theory_text>\<open>Create_Sample\<close>, \<^theory_text>\<open>Create_Pair\<close>
    (two workers, two files, a key), \<^theory_text>\<open>ReKey_Sample\<close> and
    \<^theory_text>\<open>Remote_Sample\<close>: concrete parameters, servers and worlds on which the witnesses run the program.

  \<^bold>\<open>Parameters.\<close> The compression codecs, AES-GCM, RSA-OAEP, SHA-256, PEM and PKCS parsers, the
  UUID library, \<^verbatim>\<open>encoding/json\<close> and the formats of times are fields of records. What a theorem
  needs of them is a named hypothesis (a decoder undoes its encoder, JSON reads what it wrote, decryption
  by a valid private key of the pair undoes encryption); \<^theory_text>\<open>Sample\<close> shows that concrete functions satisfy
  them. The client libraries of the servers (their requests, sessions, pages and errors), the parser of addresses, the
  environment, \<^verbatim>\<open>go-core\<close> (the order of middlewares, the errors for a message of the wrong type), the
  OpenTelemetry SDK, \<^verbatim>\<open>cobra\<close> and \<^verbatim>\<open>text/tabwriter\<close> are records of functions in
  the same way: \<^theory_text>\<open>Choice\<close>, \<^theory_text>\<open>Observability\<close>, \<^theory_text>\<open>App\<close> and
  \<^theory_text>\<open>CLI\<close> declare them. What a server holds, and what telemetry does, is the extension of the world;
  \<open>telemetry_apart\<close> says that the second does not show in the first.

  \<^bold>\<open>Bounds and fuel.\<close> \<open>chunk_loop\<close> (splitting a file) takes fuel, since a wrapped
  offset could keep it running; \<open>enough_fuel\<close>, the number of chunks and one, is proved to suffice.
  The schedulers take a number of steps; the measures bound it. The listings of two servers take a number of pages
  (\<open>s3_pages\<close>) or items (\<open>gcs_items\<close>), both given as \<open>listing_bound\<close>; a
  longer listing ends in a panic of the model, so that no result rests on a listing cut short.

  \<^bold>\<open>Not modelled.\<close> The mocks generated for the tests and the fixtures that only tests use have
  no part in the program. The parsing of flags and the help texts are \<^verbatim>\<open>cobra\<close>'s, the alignment of
  columns \<^verbatim>\<open>tabwriter\<close>'s, rounding and local time the format package's. The texts of errors are kept
  where the code writes a constant; the values that \<^verbatim>\<open>fmt\<close> would put into them are left out.
\<close>

end
